(* ===== verification/Prelude.thy ===== *)
theory Prelude
  imports Main "HOL-Library.Word" "HOL-Library.Char_ord" "HOL-Library.List_Lexorder"
begin

text \<open>
  Shared vocabulary of the development.

  \<^item> Go values: errors (\<open>goerr\<close>), nil-able slices and maps (\<open>slice\<close>, \<open>gomap\<close>),
    the fixed-width integers of the API types, decimal printing and the functions of
    package \<^verbatim>\<open>strings\<close> the sources call.
  \<^item> The \<open>go\<close> monad: a computation that talks to the outside world. Its state is the
    history of the calls issued so far (management-cluster API server, workload cluster,
    etcd); the answer of a call is a function of that history, so a property proved for
    every environment holds for every interleaving with other clients of the API server.
    \<open>None\<close> as result is a run-time panic.
  \<^item> A small calculus on \<open>go\<close>: \<open>emits\<close> (which calls a computation can issue) and
    \<open>bounded\<close> (how often), with introduction rules collected in \<open>go_intros\<close>, and
    \<open>valid\<close> triples for facts that depend on the answers received.
\<close>

named_theorems go_intros "introduction rules for emits and bounded"
named_theorems go_runs "evaluation of go computations on a history"

section \<open>Go values\<close>

type_synonym int32 = "32 word"
type_synonym int64 = "64 word"
type_synonym uint64 = "64 word"

text \<open>A point in time in nanoseconds since Go's zero time; \<open>0\<close> is the zero value, on
  which \<^verbatim>\<open>IsZero\<close> holds. A duration is the 64-bit signed nanosecond count of
  \<^verbatim>\<open>time.Duration\<close>.\<close>

type_synonym time = int
type_synonym duration = int64

text \<open>Slices and maps distinguish nil from empty.\<close>

type_synonym 'a slice = "'a list option"
type_synonym gomap = "(string \<rightharpoonup> string) option"

definition elems :: "'a slice \<Rightarrow> 'a list" where
  "elems s = (case s of None \<Rightarrow> [] | Some xs \<Rightarrow> xs)"

text \<open>Go's \<^verbatim>\<open>append\<close>: appending nothing to nil leaves nil.\<close>

definition append_slice :: "'a slice \<Rightarrow> 'a list \<Rightarrow> 'a slice" where
  "append_slice s ys = (case s of None \<Rightarrow> (if ys = [] then None else Some ys) | Some xs \<Rightarrow> Some (xs @ ys))"

definition mget :: "gomap \<Rightarrow> string \<Rightarrow> string option" where
  "mget m k = (case m of None \<Rightarrow> None | Some f \<Rightarrow> f k)"

text \<open>Assignment to an entry of a map; on a nil map it panics (\<open>None\<close>).\<close>

definition mput :: "gomap \<Rightarrow> string \<Rightarrow> string \<Rightarrow> gomap option" where
  "mput m k v = (case m of None \<Rightarrow> None | Some f \<Rightarrow> Some (Some (f(k \<mapsto> v))))"

definition mdelete :: "gomap \<Rightarrow> string \<Rightarrow> gomap" where
  "mdelete m k = map_option (\<lambda>f. f(k := None)) m"

lemma elems_simps [simp]: "elems None = []" "elems (Some xs) = xs"
  by (simp_all add: elems_def)

lemma elems_append_slice [simp]: "elems (append_slice s ys) = elems s @ ys"
  by (simp add: append_slice_def split: option.split)

lemma mget_simps [simp]: "mget None k = None" "mget (Some f) k = f k"
  by (simp_all add: mget_def)

lemma mget_mdelete [simp]: "mget (mdelete m k) k' = (if k' = k then None else mget m k')"
  by (cases m) (auto simp: mdelete_def)

lemma mget_mput: "mput m k v = Some m' \<Longrightarrow> mget m' k' = (if k' = k then Some v else mget m k')"
  by (cases m) (auto simp: mput_def)

subsection \<open>Strings\<close>

text \<open>\<^verbatim>\<open>strings.LastIndex\<close> for a one-character separator: the last position, or -1.\<close>

fun LastIndex :: "string \<Rightarrow> char \<Rightarrow> int" where
  "LastIndex [] c = -1"
| "LastIndex (x # xs) c =
     (let i = LastIndex xs c in if i \<noteq> -1 then i + 1 else if x = c then 0 else -1)"

lemma LastIndex_ge: "LastIndex s c \<ge> -1"
  by (induction s) (auto simp: Let_def)

lemma LastIndex_absent: "LastIndex s c = -1 \<longleftrightarrow> c \<notin> set s"
proof (induction s)
  case (Cons x xs)
  then show ?case using LastIndex_ge[of xs c] by (auto simp: Let_def)
qed simp

lemma LastIndex_last: "c \<notin> set t \<Longrightarrow> LastIndex (s @ c # t) c = int (length s)"
proof (induction s)
  case Nil
  then show ?case by (simp add: LastIndex_absent Let_def)
next
  case (Cons x s)
  then show ?case by (simp add: Let_def)
qed

lemma LastIndex_bound: "LastIndex s c < int (length s)"
  by (induction s) (auto simp: Let_def)

text \<open>\<^verbatim>\<open>strings.Split\<close> and \<^verbatim>\<open>strings.Join\<close> with a one-character separator;
  \<open>Split\<close> never returns an empty list.\<close>

fun Split :: "string \<Rightarrow> char \<Rightarrow> string list" where
  "Split [] c = [[]]"
| "Split (x # xs) c =
     (if x = c then [] # Split xs c
      else (case Split xs c of [] \<Rightarrow> [[x]] | w # ws \<Rightarrow> (x # w) # ws))"

fun Join :: "string list \<Rightarrow> string \<Rightarrow> string" where
  "Join [] sep = []"
| "Join [w] sep = w"
| "Join (w # ws) sep = w @ sep @ Join ws sep"

lemma Split_ne [simp]: "Split s c \<noteq> []"
  by (induction s) (auto split: list.split)

lemma Join_Split: "Join (Split s c) [c] = s"
proof (induction s)
  case (Cons x xs)
  then show ?case by (cases "Split xs c" rule: list.exhaust; cases "tl (Split xs c)") auto
qed simp

text \<open>\<^verbatim>\<open>%d\<close> for naturals and integers.\<close>

definition digit :: "nat \<Rightarrow> char" where
  "digit d = char_of (48 + d)"

fun show_nat :: "nat \<Rightarrow> string" where
  "show_nat n = (if n < 10 then [digit n] else show_nat (n div 10) @ [digit (n mod 10)])"

declare show_nat.simps [simp del]

definition show_int :: "int \<Rightarrow> string" where
  "show_int i = (if i < 0 then CHR ''-'' # show_nat (nat (- i)) else show_nat (nat i))"

text \<open>\<^verbatim>\<open>hex.EncodeToString\<close>.\<close>

definition hexDigit :: "nat \<Rightarrow> char" where
  "hexDigit n = ''0123456789abcdef'' ! n"

fun EncodeToString :: "string \<Rightarrow> string" where
  "EncodeToString [] = []"
| "EncodeToString (c # cs) = hexDigit (of_char c div 16) # hexDigit (of_char c mod 16) # EncodeToString cs"

text \<open>A set of strings, listed: sorted by bytes and without duplicates.\<close>

definition sorted_names :: "string list \<Rightarrow> string list" where
  "sorted_names ns = sort (remdups ns)"

text \<open>\<^verbatim>\<open>%s\<close> for a list of strings.\<close>

definition fmt_list :: "string list \<Rightarrow> string" where
  "fmt_list xs = ''['' @ Join xs '' '' @ '']''"

lemma set_sorted_names [simp]: "set (sorted_names ns) = set ns"
  by (simp add: sorted_names_def)

subsection \<open>Errors\<close>

text \<open>
  The error values the sources build. \<open>ApiErr\<close> is an error returned by an API client, of
  which the code observes \<^verbatim>\<open>apierrors.IsNotFound\<close> and \<^verbatim>\<open>IsAlreadyExists\<close> only;
  \<open>Sentinel\<close> is a package-level \<^verbatim>\<open>errors.New\<close> value, \<open>Msg\<close> an error without a cause,
  \<open>Wrap\<close> one with a cause (\<^verbatim>\<open>errors.Wrap\<close>, \<^verbatim>\<open>fmt.Errorf\<close> with \<^verbatim>\<open>%w\<close>),
  \<open>Aggregate\<close> a \<^verbatim>\<open>kerrors.Aggregate\<close>, \<open>ConnErr\<close> the
  \<^verbatim>\<open>RemoteClusterConnectionError\<close> of package k3s.
\<close>

datatype api_kind = NotFound | AlreadyExists | Conflict | OtherApi

datatype goerr =
    ApiErr api_kind string
  | Sentinel string
  | Msg string
  | Wrap string goerr
  | Aggregate "goerr list"
  | ConnErr string goerr

text \<open>
  \<^verbatim>\<open>apierrors.IsNotFound\<close> and \<^verbatim>\<open>IsAlreadyExists\<close> look for the API status with
  \<^verbatim>\<open>errors.As\<close>: through causes, but not into a \<^verbatim>\<open>kerrors.Aggregate\<close>.
\<close>

fun IsNotFound :: "goerr \<Rightarrow> bool" where
  "IsNotFound (ApiErr k _) = (k = NotFound)"
| "IsNotFound (Wrap _ e) = IsNotFound e"
| "IsNotFound (ConnErr _ e) = IsNotFound e"
| "IsNotFound _ = False"

fun IsAlreadyExists :: "goerr \<Rightarrow> bool" where
  "IsAlreadyExists (ApiErr k _) = (k = AlreadyExists)"
| "IsAlreadyExists (Wrap _ e) = IsAlreadyExists e"
| "IsAlreadyExists (ConnErr _ e) = IsAlreadyExists e"
| "IsAlreadyExists _ = False"

text \<open>\<^verbatim>\<open>errors.Is\<close> with a sentinel: the sentinel occurs in the tree of causes.\<close>

fun is_sentinel :: "goerr \<Rightarrow> string \<Rightarrow> bool" where
  "is_sentinel (Sentinel s) t = (s = t)"
| "is_sentinel (Wrap _ e) t = is_sentinel e t"
| "is_sentinel (ConnErr _ e) t = is_sentinel e t"
| "is_sentinel (Aggregate es) t = (\<exists>e\<in>set es. is_sentinel e t)"
| "is_sentinel _ t = False"

text \<open>\<^verbatim>\<open>errors.As\<close> with \<^verbatim>\<open>RemoteClusterConnectionError\<close>.\<close>

fun is_connerr :: "goerr \<Rightarrow> bool" where
  "is_connerr (ConnErr _ _) = True"
| "is_connerr (Wrap _ e) = is_connerr e"
| "is_connerr _ = False"

text \<open>\<^verbatim>\<open>kerrors.NewAggregate\<close>: nil entries are dropped, and no error at all is nil.\<close>

definition NewAggregate :: "goerr option list \<Rightarrow> goerr option" where
  "NewAggregate es = (let xs = List.map_filter id es in if xs = [] then None else Some (Aggregate xs))"

lemma NewAggregate_None [simp]: "NewAggregate es = None \<longleftrightarrow> set es \<subseteq> {None}"
  by (induction es) (auto simp: NewAggregate_def Let_def List.map_filter_simps split: option.splits if_splits)

section \<open>The go monad\<close>

type_synonym ('c, 'a) go = "'c list \<Rightarrow> 'a option \<times> 'c list"

definition ret :: "'a \<Rightarrow> ('c, 'a) go" where
  "ret x = (\<lambda>h. (Some x, h))"

definition panic :: "('c, 'a) go" where
  "panic = (\<lambda>h. (None, h))"

definition bnd :: "('c, 'a) go \<Rightarrow> ('a \<Rightarrow> ('c, 'b) go) \<Rightarrow> ('c, 'b) go" where
  "bnd m f = (\<lambda>h. case m h of (None, h') \<Rightarrow> (None, h') | (Some x, h') \<Rightarrow> f x h')"

text \<open>A call: it is appended to the history, and answered from the history before it.\<close>

definition issue :: "'c \<Rightarrow> ('c list \<Rightarrow> 'a) \<Rightarrow> ('c, 'a) go" where
  "issue c answer = (\<lambda>h. (Some (answer h), h @ [c]))"

text \<open>A value of the environment that is not a call (the clock, generated names).\<close>

definition ask :: "('c list \<Rightarrow> 'a) \<Rightarrow> ('c, 'a) go" where
  "ask f = (\<lambda>h. (Some (f h), h))"

lemma go_run_simps [go_runs]:
  "ret x h = (Some x, h)"
  "panic h = (None, h)"
  "issue c a h = (Some (a h), h @ [c])"
  "ask f h = (Some (f h), h)"
  by (simp_all add: ret_def panic_def issue_def ask_def)

lemma bnd_run [go_runs]:
  "bnd m f h = (case m h of (None, h') \<Rightarrow> (None, h') | (Some x, h') \<Rightarrow> f x h')"
  by (simp add: bnd_def)

lemma bnd_ret [simp]: "bnd (ret x) f = f x"
  by (simp add: bnd_def ret_def)

lemma bnd_panic [simp]: "bnd panic f = panic"
  by (simp add: bnd_def panic_def)

lemma bnd_assoc: "bnd (bnd m f) g = bnd m (\<lambda>x. bnd (f x) g)"
  by (rule ext) (simp add: bnd_def split: prod.split option.split)

lemma bnd_SomeE:
  assumes "bnd m f h = (Some y, h')"
  obtains x h1 where "m h = (Some x, h1)" and "f x h1 = (Some y, h')"
  using assms by (auto simp: bnd_def split: prod.splits option.splits)

subsection \<open>Which calls are issued: emits\<close>

definition emits :: "'c set \<Rightarrow> ('c, 'a) go \<Rightarrow> bool" where
  "emits S m \<longleftrightarrow> (\<forall>h. \<exists>cs. snd (m h) = h @ cs \<and> set cs \<subseteq> S)"

lemma emitsI: "(\<And>h. \<exists>cs. snd (m h) = h @ cs \<and> set cs \<subseteq> S) \<Longrightarrow> emits S m"
  by (simp add: emits_def)

lemma emitsE:
  assumes "emits S m" "m h = (r, h')"
  obtains cs where "h' = h @ cs" "set cs \<subseteq> S"
  using assms unfolding emits_def by (metis snd_conv)

lemma emits_mono: "emits S m \<Longrightarrow> S \<subseteq> T \<Longrightarrow> emits T m"
  unfolding emits_def by (meson order_trans)

lemma emits_ret [go_intros]: "emits S (ret x)"
  and emits_panic [go_intros]: "emits S panic"
  and emits_ask [go_intros]: "emits S (ask f)"
  by (simp_all add: emits_def go_runs)

lemma emits_issue [go_intros]: "c \<in> S \<Longrightarrow> emits S (issue c a)"
  by (simp add: emits_def go_runs)

text \<open>The continuation may rely on what the first computation returned.\<close>

lemma emits_bnd_dep:
  assumes m: "emits S m" and f: "\<And>x h h1. m h = (Some x, h1) \<Longrightarrow> emits S (f x)"
  shows "emits S (bnd m f)"
proof (rule emitsI)
  fix h
  obtain r h1 where r: "m h = (r, h1)" by fastforce
  with m obtain cs where cs: "h1 = h @ cs" "set cs \<subseteq> S" by (rule emitsE)
  show "\<exists>cs. snd (bnd m f h) = h @ cs \<and> set cs \<subseteq> S"
  proof (cases r)
    case None
    with r cs show ?thesis by (simp add: bnd_def)
  next
    case (Some x)
    with r f have "emits S (f x)" by blast
    then obtain cs' where "snd (f x h1) = h1 @ cs'" "set cs' \<subseteq> S" unfolding emits_def by blast
    with r Some cs show ?thesis by (intro exI[of _ "cs @ cs'"]) (simp add: bnd_def)
  qed
qed

lemma emits_bnd [go_intros]: "emits S m \<Longrightarrow> (\<And>x. emits S (f x)) \<Longrightarrow> emits S (bnd m f)"
  by (rule emits_bnd_dep) auto

lemma emits_if [go_intros]: "(b \<Longrightarrow> emits S m) \<Longrightarrow> (\<not> b \<Longrightarrow> emits S n) \<Longrightarrow> emits S (if b then m else n)"
  by simp

lemma emits_option [go_intros]:
  "(x = None \<Longrightarrow> emits S m) \<Longrightarrow> (\<And>y. x = Some y \<Longrightarrow> emits S (f y)) \<Longrightarrow> emits S (case x of None \<Rightarrow> m | Some y \<Rightarrow> f y)"
  by (cases x) auto

lemma emits_sum [go_intros]:
  "(\<And>e. x = Inl e \<Longrightarrow> emits S (f e)) \<Longrightarrow> (\<And>y. x = Inr y \<Longrightarrow> emits S (g y)) \<Longrightarrow> emits S (case x of Inl e \<Rightarrow> f e | Inr y \<Rightarrow> g y)"
  by (cases x) auto

lemma emits_prod [go_intros]: "(\<And>a b. x = (a, b) \<Longrightarrow> emits S (f a b)) \<Longrightarrow> emits S (case x of (a, b) \<Rightarrow> f a b)"
  by (cases x) auto

lemma emits_let [go_intros]: "(\<And>x. x = t \<Longrightarrow> emits S (f x)) \<Longrightarrow> emits S (let x = t in f x)"
  by simp

subsection \<open>How often: bounded\<close>

definition bounded :: "('c \<Rightarrow> bool) \<Rightarrow> nat \<Rightarrow> ('c, 'a) go \<Rightarrow> bool" where
  "bounded p n m \<longleftrightarrow> (\<forall>h. \<exists>cs. snd (m h) = h @ cs \<and> length (filter p cs) \<le> n)"

lemma boundedE:
  assumes "bounded p n m" "m h = (r, h')"
  obtains cs where "h' = h @ cs" "length (filter p cs) \<le> n"
  using assms unfolding bounded_def by (metis snd_conv)

lemma bounded_mono: "bounded p n m \<Longrightarrow> n \<le> k \<Longrightarrow> bounded p k m"
  unfolding bounded_def by (meson order_trans)

lemma bounded_0: "bounded p 0 m \<longleftrightarrow> emits {c. \<not> p c} m"
  by (auto simp: bounded_def emits_def filter_empty_conv subset_iff) (metis)+

lemma bounded_emits: "emits {c. \<not> p c} m \<Longrightarrow> bounded p n m"
  using bounded_0 bounded_mono by blast

lemma bounded_ret [go_intros]: "bounded p n (ret x)"
  and bounded_panic [go_intros]: "bounded p n panic"
  and bounded_ask [go_intros]: "bounded p n (ask f)"
  by (simp_all add: bounded_def go_runs)

lemma bounded_issue: "bounded p (Suc n) (issue c a)"
  by (auto simp: bounded_def go_runs)

lemma bounded_issue0 [go_intros]: "\<not> p c \<Longrightarrow> bounded p n (issue c a)"
  by (simp add: bounded_def go_runs)

lemma bounded_bnd:
  assumes m: "bounded p k m" and f: "\<And>x h h1. m h = (Some x, h1) \<Longrightarrow> bounded p l (f x)"
  shows "bounded p (k + l) (bnd m f)"
  unfolding bounded_def
proof
  fix h
  obtain r h1 where r: "m h = (r, h1)" by fastforce
  with m obtain cs where cs: "h1 = h @ cs" "length (filter p cs) \<le> k" by (rule boundedE)
  show "\<exists>cs. snd (bnd m f h) = h @ cs \<and> length (filter p cs) \<le> k + l"
  proof (cases r)
    case None
    with r cs show ?thesis by (simp add: bnd_def)
  next
    case (Some x)
    with r f have "bounded p l (f x)" by blast
    then obtain cs' where "snd (f x h1) = h1 @ cs'" "length (filter p cs') \<le> l"
      unfolding bounded_def by blast
    with r Some cs show ?thesis by (intro exI[of _ "cs @ cs'"]) (simp add: bnd_def)
  qed
qed

text \<open>The two shapes that occur: a first part without such calls, or a rest without.\<close>

lemma bounded_bnd0 [go_intros]:
  "bounded p 0 m \<Longrightarrow> (\<And>x. bounded p n (f x)) \<Longrightarrow> bounded p n (bnd m f)"
  using bounded_bnd[of p 0 m n f] by simp

lemma bounded_bnd_last:
  "bounded p n m \<Longrightarrow> (\<And>x. bounded p 0 (f x)) \<Longrightarrow> bounded p n (bnd m f)"
  using bounded_bnd[of p n m 0 f] by simp

lemma bounded_if [go_intros]: "(b \<Longrightarrow> bounded p n m) \<Longrightarrow> (\<not> b \<Longrightarrow> bounded p n k) \<Longrightarrow> bounded p n (if b then m else k)"
  by simp

lemma bounded_option [go_intros]:
  "(x = None \<Longrightarrow> bounded p n m) \<Longrightarrow> (\<And>y. x = Some y \<Longrightarrow> bounded p n (f y)) \<Longrightarrow> bounded p n (case x of None \<Rightarrow> m | Some y \<Rightarrow> f y)"
  by (cases x) auto

lemma bounded_sum [go_intros]:
  "(\<And>e. x = Inl e \<Longrightarrow> bounded p n (f e)) \<Longrightarrow> (\<And>y. x = Inr y \<Longrightarrow> bounded p n (g y)) \<Longrightarrow> bounded p n (case x of Inl e \<Rightarrow> f e | Inr y \<Rightarrow> g y)"
  by (cases x) auto

lemma bounded_prod [go_intros]: "(\<And>a b. x = (a, b) \<Longrightarrow> bounded p n (f a b)) \<Longrightarrow> bounded p n (case x of (a, b) \<Rightarrow> f a b)"
  by (cases x) auto

lemma bounded_let [go_intros]: "(\<And>x. x = t \<Longrightarrow> bounded p n (f x)) \<Longrightarrow> bounded p n (let x = t in f x)"
  by simp

subsection \<open>What holds of the history: keeps\<close>

text \<open>\<open>keeps J m\<close>: a property \<open>J\<close> of histories survives \<open>m\<close>. The rule for
  \<open>bnd\<close> gives the continuation the run of the first part, so a call can be justified by
  the answers that led to it.\<close>

definition keeps :: "('c list \<Rightarrow> bool) \<Rightarrow> ('c, 'a) go \<Rightarrow> bool" where
  "keeps J m \<longleftrightarrow> (\<forall>h. J h \<longrightarrow> J (snd (m h)))"

lemma keepsI: "(\<And>h r h'. J h \<Longrightarrow> m h = (r, h') \<Longrightarrow> J h') \<Longrightarrow> keeps J m"
  unfolding keeps_def by (metis prod.collapse)

lemma keepsD: "keeps J m \<Longrightarrow> J h \<Longrightarrow> m h = (r, h') \<Longrightarrow> J h'"
  unfolding keeps_def by (metis snd_conv)

lemma keeps_intros [go_intros]: "keeps J (ret x)" "keeps J panic" "keeps J (ask f)"
  by (simp_all add: keeps_def go_runs)

lemma keeps_issue: "(\<And>h. J h \<Longrightarrow> J (h @ [c])) \<Longrightarrow> keeps J (issue c a)"
  by (simp add: keeps_def go_runs)

lemma keeps_bnd_run:
  assumes m: "keeps J m" and f: "\<And>x h h1 r h2. J h \<Longrightarrow> m h = (Some x, h1) \<Longrightarrow> f x h1 = (r, h2) \<Longrightarrow> J h2"
  shows "keeps J (bnd m f)"
proof (rule keepsI)
  fix h r h'
  assume J: "J h" and run: "bnd m f h = (r, h')"
  obtain r1 h1 where r1: "m h = (r1, h1)" by fastforce
  show "J h'"
  proof (cases r1)
    case None
    with r1 run have "h1 = h'" by (simp add: bnd_def)
    with keepsD[OF m J r1] show ?thesis by simp
  next
    case (Some x)
    with r1 run have "f x h1 = (r, h')" by (simp add: bnd_def)
    with f[OF J] r1 Some show ?thesis by blast
  qed
qed

lemma keeps_bnd [go_intros]: "keeps J m \<Longrightarrow> (\<And>x. keeps J (f x)) \<Longrightarrow> keeps J (bnd m f)"
  by (rule keeps_bnd_run) (auto dest: keepsD)

lemma keeps_cases [go_intros]:
  "(b \<Longrightarrow> keeps J m) \<Longrightarrow> (\<not> b \<Longrightarrow> keeps J n) \<Longrightarrow> keeps J (if b then m else n)"
  "(o1 = None \<Longrightarrow> keeps J m) \<Longrightarrow> (\<And>y. o1 = Some y \<Longrightarrow> keeps J (f1 y)) \<Longrightarrow> keeps J (case o1 of None \<Rightarrow> m | Some y \<Rightarrow> f1 y)"
  "(\<And>e. s1 = Inl e \<Longrightarrow> keeps J (f2 e)) \<Longrightarrow> (\<And>y. s1 = Inr y \<Longrightarrow> keeps J (g2 y)) \<Longrightarrow> keeps J (case s1 of Inl e \<Rightarrow> f2 e | Inr y \<Rightarrow> g2 y)"
  "(\<And>a b. p1 = (a, b) \<Longrightarrow> keeps J (f3 a b)) \<Longrightarrow> keeps J (case p1 of (a, b) \<Rightarrow> f3 a b)"
  "(\<And>x. x = t \<Longrightarrow> keeps J (f4 x)) \<Longrightarrow> keeps J (let x = t in f4 x)"
  by (auto split: option.split sum.split prod.split)

text \<open>A computation that issues only calls the property ignores.\<close>

lemma keeps_emits:
  assumes "emits S m" "\<And>h c. J h \<Longrightarrow> c \<in> S \<Longrightarrow> J (h @ [c])"
  shows "keeps J m"
proof (rule keepsI)
  fix h r h'
  assume J: "J h" and "m h = (r, h')"
  with assms(1) obtain cs where h': "h' = h @ cs" "set cs \<subseteq> S" by (auto elim: emitsE)
  have "set cs \<subseteq> S \<Longrightarrow> J (h @ cs)"
  proof (induction cs rule: rev_induct)
    case (snoc c cs)
    then show ?case using assms(2)[of "h @ cs" c] by simp
  qed (simp add: J)
  with h' show "J h'" by simp
qed

subsection \<open>Loops, nil checks, deferred calls\<close>

text \<open>A \<^verbatim>\<open>range\<close> loop with an accumulator and no early exit.\<close>

fun foldG :: "('a \<Rightarrow> 'b \<Rightarrow> ('c, 'b) go) \<Rightarrow> 'a list \<Rightarrow> 'b \<Rightarrow> ('c, 'b) go" where
  "foldG f [] b = ret b"
| "foldG f (x # xs) b = bnd (f x b) (foldG f xs)"

text \<open>Dereferencing a pointer that may be nil.\<close>

definition deref :: "'a option \<Rightarrow> ('c, 'a) go" where
  "deref x = (case x of None \<Rightarrow> panic | Some y \<Rightarrow> ret y)"

text \<open>The outcome of a body whose deferred functions still have to run: a panic is the
  value \<open>None\<close>.\<close>

definition outcome :: "('c, 'a) go \<Rightarrow> ('c, 'a option) go" where
  "outcome m = (\<lambda>h. case m h of (r, h') \<Rightarrow> (Some r, h'))"

lemma deref_run [go_runs]: "deref None h = (None, h)" "deref (Some x) h = (Some x, h)"
  by (simp_all add: deref_def go_runs)

lemma deref_simps [simp]: "deref (Some x) = ret x" "deref None = panic"
  by (simp_all add: deref_def)

lemma keeps_deref [go_intros]: "keeps J (deref x)"
  by (cases x) (auto intro: go_intros)

lemma keeps_outcome [go_intros]: "keeps J m \<Longrightarrow> keeps J (outcome m)"
  by (simp add: keeps_def outcome_def split: prod.split) (metis snd_conv)

lemma outcome_run [go_runs]: "outcome m h = (case m h of (r, h') \<Rightarrow> (Some r, h'))"
  by (simp add: outcome_def)

lemma deref_intros [go_intros]: "emits S (deref x)" "bounded p n (deref x)"
  by (auto simp: deref_def intro: go_intros split: option.split)

lemma outcome_intros [go_intros]:
  "emits S m \<Longrightarrow> emits S (outcome m)" "bounded p n m \<Longrightarrow> bounded p n (outcome m)"
  by (auto simp: emits_def bounded_def outcome_def split: prod.split) (metis snd_conv)+

lemma emits_foldG [go_intros]: "(\<And>x b. x \<in> set xs \<Longrightarrow> emits S (f x b)) \<Longrightarrow> emits S (foldG f xs b)"
  by (induction xs arbitrary: b) (auto intro: go_intros)

lemma bounded_foldG [go_intros]: "(\<And>x b. x \<in> set xs \<Longrightarrow> bounded p 0 (f x b)) \<Longrightarrow> bounded p 0 (foldG f xs b)"
  by (simp add: bounded_0 emits_foldG)

lemma keeps_foldG [go_intros]: "(\<And>x b. x \<in> set xs \<Longrightarrow> keeps J (f x b)) \<Longrightarrow> keeps J (foldG f xs b)"
  by (induction xs arbitrary: b) (auto intro: go_intros)

text \<open>A loop keeps what every iteration keeps.\<close>

lemma foldG_invariant:
  assumes "foldG f xs b h = (Some b', h')" "I b"
    and "\<And>x b h b' h'. x \<in> set xs \<Longrightarrow> I b \<Longrightarrow> f x b h = (Some b', h') \<Longrightarrow> I b'"
  shows "I b'"
  using assms
proof (induction xs arbitrary: b h)
  case (Cons x xs)
  from Cons.prems(1) obtain b1 h1 where "f x b h = (Some b1, h1)" "foldG f xs b1 h1 = (Some b', h')"
    by (auto elim: bnd_SomeE)
  with Cons show ?case by (meson list.set_intros)
qed (simp add: go_runs)

subsection \<open>No panic, and what is returned whatever the history\<close>

definition nopanic :: "('c, 'a) go \<Rightarrow> bool" where
  "nopanic m \<longleftrightarrow> (\<forall>h. fst (m h) \<noteq> None)"

definition returns :: "('c, 'a) go \<Rightarrow> ('a \<Rightarrow> bool) \<Rightarrow> bool" where
  "returns m Q \<longleftrightarrow> (\<forall>h x h'. m h = (Some x, h') \<longrightarrow> Q x)"

lemma nopanicE:
  assumes "nopanic m"
  obtains x h' where "m h = (Some x, h')"
  using assms unfolding nopanic_def by (metis not_None_eq prod.collapse)

lemma returnsD: "returns m Q \<Longrightarrow> m h = (Some x, h') \<Longrightarrow> Q x"
  by (auto simp: returns_def)

lemma returnsI: "(\<And>h x h'. m h = (Some x, h') \<Longrightarrow> Q x) \<Longrightarrow> returns m Q"
  by (auto simp: returns_def)

lemma nopanic_bnd: "nopanic m \<Longrightarrow> returns m R \<Longrightarrow> (\<And>x. R x \<Longrightarrow> nopanic (f x)) \<Longrightarrow> nopanic (bnd m f)"
proof -
  assume m: "nopanic m" and r: "returns m R" and f: "\<And>x. R x \<Longrightarrow> nopanic (f x)"
  have "fst (bnd m f h) \<noteq> None" for h
  proof -
    obtain x h1 where run: "m h = (Some x, h1)" using m by (rule nopanicE)
    then have "R x" using r by (rule returnsD[rotated])
    then have "fst (f x h1) \<noteq> None" using f by (auto simp: nopanic_def)
    then show ?thesis by (simp add: bnd_def run)
  qed
  then show ?thesis by (simp add: nopanic_def)
qed

lemma returns_bnd: "returns m R \<Longrightarrow> (\<And>x. R x \<Longrightarrow> returns (f x) Q) \<Longrightarrow> returns (bnd m f) Q"
  unfolding returns_def by (fastforce elim: bnd_SomeE)

lemma nopanic_intros [go_intros]:
  "nopanic (ret v)" "nopanic (ask g)" "nopanic (issue c a)"
  "x \<noteq> None \<Longrightarrow> nopanic (deref x)"
  "nopanic (outcome m)"
  by (auto simp: nopanic_def deref_def outcome_def go_runs split: option.split prod.split)

lemma nopanic_bnd_any [go_intros]: "nopanic m \<Longrightarrow> (\<And>x. nopanic (f x)) \<Longrightarrow> nopanic (bnd m f)"
  by (rule nopanic_bnd[of m "\<lambda>_. True"]) (auto simp: returns_def)

lemma nopanic_cases [go_intros]:
  "(b \<Longrightarrow> nopanic m) \<Longrightarrow> (\<not> b \<Longrightarrow> nopanic n) \<Longrightarrow> nopanic (if b then m else n)"
  "(o1 = None \<Longrightarrow> nopanic m) \<Longrightarrow> (\<And>y. o1 = Some y \<Longrightarrow> nopanic (f1 y)) \<Longrightarrow> nopanic (case o1 of None \<Rightarrow> m | Some y \<Rightarrow> f1 y)"
  "(\<And>e. s1 = Inl e \<Longrightarrow> nopanic (f2 e)) \<Longrightarrow> (\<And>y. s1 = Inr y \<Longrightarrow> nopanic (g2 y)) \<Longrightarrow> nopanic (case s1 of Inl e \<Rightarrow> f2 e | Inr y \<Rightarrow> g2 y)"
  "(\<And>a b. p1 = (a, b) \<Longrightarrow> nopanic (f3 a b)) \<Longrightarrow> nopanic (case p1 of (a, b) \<Rightarrow> f3 a b)"
  "(\<And>x. x = t \<Longrightarrow> nopanic (f4 x)) \<Longrightarrow> nopanic (let x = t in f4 x)"
  by (auto split: option.split sum.split prod.split)

lemma nopanic_foldG [go_intros]: "(\<And>x b. x \<in> set xs \<Longrightarrow> nopanic (f x b)) \<Longrightarrow> nopanic (foldG f xs b)"
  by (induction xs arbitrary: b) (auto intro: go_intros)

lemma returns_intros [go_intros]:
  "Q x \<Longrightarrow> returns (ret x) Q" "returns panic Q"
  by (auto simp: returns_def go_runs)

lemma returns_bnd_any [go_intros]: "(\<And>x. returns (f x) Q) \<Longrightarrow> returns (bnd m f) Q"
  by (rule returns_bnd[of m "\<lambda>_. True"]) (auto simp: returns_def)

lemma returns_cases [go_intros]:
  "(b \<Longrightarrow> returns m Q) \<Longrightarrow> (\<not> b \<Longrightarrow> returns n Q) \<Longrightarrow> returns (if b then m else n) Q"
  "(o1 = None \<Longrightarrow> returns m Q) \<Longrightarrow> (\<And>y. o1 = Some y \<Longrightarrow> returns (f1 y) Q) \<Longrightarrow> returns (case o1 of None \<Rightarrow> m | Some y \<Rightarrow> f1 y) Q"
  "(\<And>e. s1 = Inl e \<Longrightarrow> returns (f2 e) Q) \<Longrightarrow> (\<And>y. s1 = Inr y \<Longrightarrow> returns (g2 y) Q) \<Longrightarrow> returns (case s1 of Inl e \<Rightarrow> f2 e | Inr y \<Rightarrow> g2 y) Q"
  "(\<And>a b. p1 = (a, b) \<Longrightarrow> returns (f3 a b) Q) \<Longrightarrow> returns (case p1 of (a, b) \<Rightarrow> f3 a b) Q"
  "(\<And>x. x = t \<Longrightarrow> returns (f4 x) Q) \<Longrightarrow> returns (let x = t in f4 x) Q"
  by (auto split: option.split sum.split prod.split)

lemma returns_deref [go_intros]: "(\<And>y. x = Some y \<Longrightarrow> Q y) \<Longrightarrow> returns (deref x) Q"
  by (cases x) (auto simp: returns_def go_runs)

text \<open>The continuation may rely on what the first part always returns.\<close>

lemma emits_bnd_ret: "emits S m \<Longrightarrow> returns m R \<Longrightarrow> (\<And>x. R x \<Longrightarrow> emits S (f x)) \<Longrightarrow> emits S (bnd m f)"
  by (rule emits_bnd_dep) (auto dest: returnsD)

lemma keeps_bnd_ret: "keeps J m \<Longrightarrow> returns m R \<Longrightarrow> (\<And>x. R x \<Longrightarrow> keeps J (f x)) \<Longrightarrow> keeps J (bnd m f)"
  by (rule keeps_bnd_run) (auto dest: keepsD returnsD)

lemma returns_foldG:
  "Q b \<Longrightarrow> (\<And>x b. x \<in> set xs \<Longrightarrow> Q b \<Longrightarrow> returns (f x b) Q) \<Longrightarrow> returns (foldG f xs b) Q"
  by (rule returnsI, erule foldG_invariant) (auto dest: returnsD)

lemma nopanic_foldG_inv:
  "Q b \<Longrightarrow> (\<And>x b. x \<in> set xs \<Longrightarrow> Q b \<Longrightarrow> returns (f x b) Q) \<Longrightarrow> (\<And>x b. x \<in> set xs \<Longrightarrow> Q b \<Longrightarrow> nopanic (f x b)) \<Longrightarrow>
   nopanic (foldG f xs b)"
proof (induction xs arbitrary: b)
  case (Cons x xs)
  then show ?case by (auto intro!: nopanic_bnd[where R = Q])
qed (simp add: go_intros)

lemma emits_foldG_inv:
  "Q b \<Longrightarrow> (\<And>x b. x \<in> set xs \<Longrightarrow> Q b \<Longrightarrow> returns (f x b) Q) \<Longrightarrow> (\<And>x b. x \<in> set xs \<Longrightarrow> Q b \<Longrightarrow> emits S (f x b)) \<Longrightarrow>
   emits S (foldG f xs b)"
proof (induction xs arbitrary: b)
  case (Cons x xs)
  then show ?case by (auto intro!: emits_bnd_ret[where R = Q])
qed (simp add: go_intros)

lemma keeps_foldG_inv:
  "Q b \<Longrightarrow> (\<And>x b. x \<in> set xs \<Longrightarrow> Q b \<Longrightarrow> returns (f x b) Q) \<Longrightarrow> (\<And>x b. x \<in> set xs \<Longrightarrow> Q b \<Longrightarrow> keeps J (f x b)) \<Longrightarrow>
   keeps J (foldG f xs b)"
proof (induction xs arbitrary: b)
  case (Cons x xs)
  then show ?case by (auto intro!: keeps_bnd_ret[where R = Q])
qed (simp add: go_intros)

end
