(* ===== verification/ApiTypes.thy ===== *)
theory ApiTypes
  imports Prelude
begin

text \<open>
  The API objects. First the Kubernetes and Cluster API types the program receives (only the
  fields it reads or writes), then the program's own v1beta2 types with all their fields:
  \<^verbatim>\<open>bootstrap/api/v1beta2\<close> and \<^verbatim>\<open>controlplane/api/v1beta2\<close>, and their
  defaulting webhooks. Pointers to values are options; slices and maps keep the difference
  between nil and empty; \<^verbatim>\<open>DeepCopy\<close> is the identity on these values.
\<close>

section \<open>Kubernetes and Cluster API objects\<close>

record OwnerReference =
  or_APIVersion :: string
  or_Kind :: string
  or_Name :: string
  or_UID :: string
  or_Controller :: "bool option"

record ManagedFieldsEntry =
  mf_Manager :: string
  mf_Operation :: string
  mf_APIVersion :: string
  mf_FieldsV1 :: "string option"   \<comment> \<open>a pointer to the raw JSON\<close>

record ObjectMeta =
  om_Name :: string
  om_Namespace :: string
  om_UID :: string
  om_ResourceVersion :: string
  om_Generation :: int64
  om_Labels :: gomap
  om_Annotations :: gomap
  om_OwnerReferences :: "OwnerReference list"
  om_Finalizers :: "string list"
  om_ManagedFields :: "ManagedFieldsEntry list"
  om_DeletionTimestamp :: "time option"
  om_CreationTimestamp :: time

text \<open>\<^verbatim>\<open>DeletionTimestamp.IsZero()\<close> on the pointer: nil or the zero time.\<close>

definition deleting :: "ObjectMeta \<Rightarrow> bool" where
  "deleting m = (case om_DeletionTimestamp m of None \<Rightarrow> False | Some t \<Rightarrow> t \<noteq> 0)"

definition emptyMeta :: ObjectMeta where
  "emptyMeta = \<lparr>om_Name = [], om_Namespace = [], om_UID = [], om_ResourceVersion = [], om_Generation = 0,
     om_Labels = None, om_Annotations = None, om_OwnerReferences = [], om_Finalizers = [], om_ManagedFields = [],
     om_DeletionTimestamp = None, om_CreationTimestamp = 0\<rparr>"

datatype ConditionStatus = CTrue | CFalse | CUnknown

text \<open>A \<^verbatim>\<open>metav1.Condition\<close> (on machines) and a v1beta1 \<^verbatim>\<open>Condition\<close> (on the
  program's own objects), without the transition time, which only the library writes.\<close>

record Condition =
  c_Type :: string
  c_Status :: ConditionStatus
  c_Reason :: string
  c_Message :: string

datatype Severity = SevNone | SevInfo | SevWarning | SevError

record V1Condition =
  v_Type :: string
  v_Status :: ConditionStatus
  v_Severity :: Severity
  v_Reason :: string
  v_Message :: string

text \<open>Keys, references, templates. A reference for which \<^verbatim>\<open>IsDefined()\<close> is false is
  \<open>None\<close> where it is used.\<close>

type_synonym ObjectKey = "string \<times> string"  \<comment> \<open>namespace, name\<close>

record ObjectReference =
  ref_Kind :: string
  ref_Namespace :: string
  ref_Name :: string
  ref_UID :: string
  ref_APIVersion :: string

record ContractRef =
  cr_APIGroup :: string
  cr_Kind :: string
  cr_Name :: string

record FailureDomain =
  fd_Name :: string
  fd_ControlPlane :: "bool option"

record APIEndpoint =
  ep_Host :: string
  ep_Port :: int32

record Cluster =
  cl_Meta :: ObjectMeta
  cl_ControlPlaneEndpoint :: APIEndpoint
  cl_ControlPlaneRef :: "ContractRef option"
  cl_FailureDomains :: "FailureDomain slice"
  cl_InfrastructureProvisioned :: "bool option"
  cl_ControlPlaneInitialized :: "bool option"

definition cl_Name :: "Cluster \<Rightarrow> string" where "cl_Name c = om_Name (cl_Meta c)"
definition cl_Key :: "Cluster \<Rightarrow> ObjectKey" where "cl_Key c = (om_Namespace (cl_Meta c), om_Name (cl_Meta c))"

record MachineDeletionSpec =
  md_NodeDrainTimeoutSeconds :: "int32 option"
  md_NodeVolumeDetachTimeoutSeconds :: "int32 option"
  md_NodeDeletionTimeoutSeconds :: "int32 option"

record Machine =
  ma_Meta :: ObjectMeta
  ma_ClusterName :: string
  ma_Version :: string
  ma_FailureDomain :: string
  ma_InfrastructureRef :: "ContractRef option"
  ma_ConfigRef :: "ContractRef option"
  ma_Deletion :: MachineDeletionSpec
  ma_NodeRef :: "string option"
  ma_Conditions :: "Condition list"

definition ma_Name :: "Machine \<Rightarrow> string" where "ma_Name m = om_Name (ma_Meta m)"
definition ma_Annotations :: "Machine \<Rightarrow> gomap" where "ma_Annotations m = om_Annotations (ma_Meta m)"
definition ma_setAnnotations :: "Machine \<Rightarrow> gomap \<Rightarrow> Machine" where
  "ma_setAnnotations m a = m\<lparr>ma_Meta := (ma_Meta m)\<lparr>om_Annotations := a\<rparr>\<rparr>"

definition ma_deleting :: "Machine \<Rightarrow> bool" where "ma_deleting m = deleting (ma_Meta m)"

record Secret =
  s_Meta :: ObjectMeta
  s_Data :: gomap
  s_Type :: string

record ConfigMap =
  cm_Meta :: ObjectMeta
  cm_Data :: gomap

record Taint =
  t_Key :: string
  t_Effect :: string

record Node =
  n_Meta :: ObjectMeta
  n_Taints :: "Taint list"
  n_Conditions :: "(string \<times> string) list"  \<comment> \<open>type, status\<close>

definition n_Name :: "Node \<Rightarrow> string" where "n_Name n = om_Name (n_Meta n)"

text \<open>An unstructured object: its metadata is all the controllers look at.\<close>

record Unstructured =
  u_Kind :: string
  u_APIVersion :: string
  u_Meta :: ObjectMeta

record Result =
  r_Requeue :: bool
  r_RequeueAfter :: duration

definition NoResult :: Result where "NoResult = \<lparr>r_Requeue = False, r_RequeueAfter = 0\<rparr>"
definition Requeue :: Result where "Requeue = \<lparr>r_Requeue = True, r_RequeueAfter = 0\<rparr>"
definition RequeueAfter :: "duration \<Rightarrow> Result" where "RequeueAfter d = \<lparr>r_Requeue = False, r_RequeueAfter = d\<rparr>"

definition r_IsZero :: "Result \<Rightarrow> bool" where "r_IsZero r = (r = NoResult)"

definition Second :: duration where "Second = 1000000000"
definition Minute :: duration where "Minute = 60000000000"
definition Hour :: duration where "Hour = 3600000000000"

lemma result_simps [simp]:
  "r_IsZero NoResult" "\<not> r_IsZero Requeue" "r_IsZero (RequeueAfter d) \<longleftrightarrow> d = 0"
  "Requeue \<noteq> NoResult" "NoResult \<noteq> Requeue" "RequeueAfter d \<noteq> Requeue"
  by (auto simp: r_IsZero_def NoResult_def Requeue_def RequeueAfter_def)

section \<open>bootstrap/api/v1beta2\<close>

text \<open>\<^verbatim>\<open>kthreesconfig_types.go\<close>.\<close>

record SecretFileSource =
  sf_Name :: string
  sf_Key :: string

record FileSource =
  fs_Secret :: SecretFileSource

record File =
  f_Path :: string
  f_Owner :: string
  f_Permissions :: string
  f_Encoding :: string
  f_Content :: string
  f_ContentFrom :: "FileSource option"

record KThreesServerConfig =
  sc_KubeAPIServerArgs :: "string slice"
  sc_KubeControllerManagerArgs :: "string slice"
  sc_KubeSchedulerArgs :: "string slice"
  sc_TLSSan :: "string slice"
  sc_BindAddress :: string
  sc_HTTPSListenPort :: string
  sc_AdvertiseAddress :: string
  sc_AdvertisePort :: string
  sc_ClusterCidr :: string
  sc_ServiceCidr :: string
  sc_ClusterDNS :: string
  sc_ClusterDomain :: string
  sc_DisableComponents :: "string slice"
  sc_DeprecatedDisableExternalCloudProvider :: bool
  sc_DisableCloudController :: "bool option"
  sc_CloudProviderName :: "string option"
  sc_SystemDefaultRegistry :: string
  sc_EtcdProxyImage :: string

record KThreesAgentConfig =
  ac_NodeLabels :: "string slice"
  ac_NodeTaints :: "string slice"
  ac_PrivateRegistry :: string
  ac_KubeletArgs :: "string slice"
  ac_KubeProxyArgs :: "string slice"
  ac_NodeName :: string
  ac_AirGapped :: bool
  ac_AirGappedInstallScriptPath :: string

record KThreesConfigSpec =
  kc_Files :: "File slice"
  kc_PreK3sCommands :: "string slice"
  kc_PostK3sCommands :: "string slice"
  kc_AgentConfig :: KThreesAgentConfig
  kc_ServerConfig :: KThreesServerConfig
  kc_Version :: string

definition IsEtcdEmbedded :: "KThreesConfigSpec \<Rightarrow> bool" where
  "IsEtcdEmbedded c = True"

record KThreesConfigStatus =
  ks_Ready :: bool
  ks_BootstrapData :: "string slice"
  ks_DataSecretName :: "string option"
  ks_FailureReason :: string
  ks_FailureMessage :: string
  ks_ObservedGeneration :: int64
  ks_Conditions :: "V1Condition slice"

record KThreesConfig =
  kt_Meta :: ObjectMeta
  kt_Spec :: KThreesConfigSpec
  kt_Status :: KThreesConfigStatus

text \<open>\<^verbatim>\<open>GetConditions\<close> and \<^verbatim>\<open>SetConditions\<close>: the only access the conditions
  library has to the object.\<close>

definition kt_GetConditions :: "KThreesConfig \<Rightarrow> V1Condition list" where
  "kt_GetConditions c = elems (ks_Conditions (kt_Status c))"
definition kt_SetConditions :: "KThreesConfig \<Rightarrow> V1Condition list \<Rightarrow> KThreesConfig" where
  "kt_SetConditions c cs = c\<lparr>kt_Status := (kt_Status c)\<lparr>ks_Conditions := Some cs\<rparr>\<rparr>"

text \<open>\<^verbatim>\<open>kthreesconfigtemplate_types.go\<close>.\<close>

record KThreesConfigTemplate =
  ktt_Meta :: ObjectMeta
  ktt_Spec :: KThreesConfigSpec

text \<open>\<^verbatim>\<open>kthreesconfig_webhook.go\<close>: the defaulting webhook of KThreesConfig.\<close>

definition defaultServerConfig :: "KThreesServerConfig \<Rightarrow> KThreesServerConfig" where
  "defaultServerConfig s =
     (let s1 = (if sc_DisableCloudController s = None then s\<lparr>sc_DisableCloudController := Some True\<rparr> else s)
      in if sc_CloudProviderName s1 = None then s1\<lparr>sc_CloudProviderName := Some ''external''\<rparr> else s1)"

definition KThreesConfig_Default :: "KThreesConfig \<Rightarrow> KThreesConfig" where
  "KThreesConfig_Default c =
     c\<lparr>kt_Spec := (kt_Spec c)\<lparr>kc_ServerConfig := defaultServerConfig (kc_ServerConfig (kt_Spec c))\<rparr>\<rparr>"

section \<open>controlplane/api/v1beta2\<close>

text \<open>\<^verbatim>\<open>kthreescontrolplane_types.go\<close>.\<close>

definition KThreesControlPlaneFinalizer :: string where
  "KThreesControlPlaneFinalizer = ''kthrees.controlplane.cluster.x-k8s.io''"
definition KThreesServerConfigurationAnnotation :: string where
  "KThreesServerConfigurationAnnotation = ''controlplane.cluster.x-k8s.io/kthrees-server-configuration''"
definition SkipCoreDNSAnnotation :: string where
  "SkipCoreDNSAnnotation = ''controlplane.cluster.x-k8s.io/skip-coredns''"
definition RemediationInProgressAnnotation :: string where
  "RemediationInProgressAnnotation = ''controlplane.cluster.x-k8s.io/remediation-in-progress''"
definition RemediationForAnnotation :: string where
  "RemediationForAnnotation = ''controlplane.cluster.x-k8s.io/remediation-for''"
definition DefaultMinHealthyPeriod :: duration where
  "DefaultMinHealthyPeriod = 3600000000000"

text \<open>The four machine annotation keys are pairwise different.\<close>

lemma annotation_keys [simp]:
  "KThreesServerConfigurationAnnotation \<noteq> RemediationForAnnotation"
  "RemediationForAnnotation \<noteq> KThreesServerConfigurationAnnotation"
  by (simp_all add: KThreesServerConfigurationAnnotation_def RemediationForAnnotation_def)

record MachineTemplate =
  mt_Labels :: gomap
  mt_Annotations :: gomap
  mt_InfrastructureRef :: ObjectReference
  mt_NodeDrainTimeout :: "duration option"
  mt_NodeVolumeDetachTimeout :: "duration option"
  mt_NodeDeletionTimeout :: "duration option"

record RemediationStrategy =
  rs_MaxRetry :: "int32 option"
  rs_RetryPeriod :: duration
  rs_MinHealthyPeriod :: "duration option"

record KThreesControlPlaneSpec =
  ps_Replicas :: "int32 option"
  ps_Version :: string
  ps_KThreesConfigSpec :: KThreesConfigSpec
  ps_RolloutAfter :: "time option"
  ps_MachineTemplate :: MachineTemplate
  ps_RemediationStrategy :: "RemediationStrategy option"

record LastRemediationStatus =
  lr_Machine :: string
  lr_Timestamp :: time
  lr_RetryCount :: int32

record KThreesControlPlaneStatus =
  st_Selector :: string
  st_Replicas :: int32
  st_Version :: "string option"
  st_UpdatedReplicas :: int32
  st_ReadyReplicas :: int32
  st_UnavailableReplicas :: int32
  st_Initialized :: bool
  st_Ready :: bool
  st_FailureReason :: string
  st_FailureMessage :: "string option"
  st_ObservedGeneration :: int64
  st_Conditions :: "V1Condition slice"
  st_LastRemediation :: "LastRemediationStatus option"

record KThreesControlPlane =
  kp_Meta :: ObjectMeta
  kp_Spec :: KThreesControlPlaneSpec
  kp_Status :: KThreesControlPlaneStatus

definition kp_GetConditions :: "KThreesControlPlane \<Rightarrow> V1Condition list" where
  "kp_GetConditions p = elems (st_Conditions (kp_Status p))"
definition kp_SetConditions :: "KThreesControlPlane \<Rightarrow> V1Condition list \<Rightarrow> KThreesControlPlane" where
  "kp_SetConditions p cs = p\<lparr>kp_Status := (kp_Status p)\<lparr>st_Conditions := Some cs\<rparr>\<rparr>"

definition kp_Annotations :: "KThreesControlPlane \<Rightarrow> gomap" where
  "kp_Annotations p = om_Annotations (kp_Meta p)"

definition kp_setAnnotations :: "KThreesControlPlane \<Rightarrow> gomap \<Rightarrow> KThreesControlPlane" where
  "kp_setAnnotations p a = p\<lparr>kp_Meta := (kp_Meta p)\<lparr>om_Annotations := a\<rparr>\<rparr>"

text \<open>\<^verbatim>\<open>condition_consts.go\<close> of both API groups. The v1beta2 names of the machine
  conditions are the same strings as the v1beta1 ones.\<close>

definition MachinesReadyCondition :: string where "MachinesReadyCondition = ''MachinesReady''"
definition CertificatesAvailableCondition :: string where "CertificatesAvailableCondition = ''CertificatesAvailable''"
definition AvailableCondition :: string where "AvailableCondition = ''Available''"
definition MachinesSpecUpToDateCondition :: string where "MachinesSpecUpToDateCondition = ''MachinesSpecUpToDate''"
definition ResizedCondition :: string where "ResizedCondition = ''Resized''"
definition ControlPlaneComponentsHealthyCondition :: string where
  "ControlPlaneComponentsHealthyCondition = ''ControlPlaneComponentsHealthy''"
definition EtcdClusterHealthyCondition :: string where
  "EtcdClusterHealthyCondition = ''EtcdClusterHealthyCondition''"
definition MachineAgentHealthyCondition :: string where "MachineAgentHealthyCondition = ''AgentHealthy''"
definition MachineEtcdMemberHealthyCondition :: string where "MachineEtcdMemberHealthyCondition = ''EtcdMemberHealthy''"
definition TokenAvailableCondition :: string where "TokenAvailableCondition = ''TokenAvailable''"
definition DataSecretAvailableCondition :: string where "DataSecretAvailableCondition = ''DataSecretAvailable''"

text \<open>\<^verbatim>\<open>kthreescontrolplane_webhook.go\<close>: the defaulting webhook.\<close>

definition defaultKThreesControlPlaneSpec :: "KThreesControlPlaneSpec \<Rightarrow> string \<Rightarrow> KThreesControlPlaneSpec" where
  "defaultKThreesControlPlaneSpec s namespace =
     (let s1 = (if ps_Replicas s = None then s\<lparr>ps_Replicas := Some 1\<rparr> else s);
          mt = ps_MachineTemplate s1;
          s2 = (if ref_Namespace (mt_InfrastructureRef mt) = []
                then s1\<lparr>ps_MachineTemplate := mt\<lparr>mt_InfrastructureRef := (mt_InfrastructureRef mt)\<lparr>ref_Namespace := namespace\<rparr>\<rparr>\<rparr>
                else s1);
          kc = ps_KThreesConfigSpec s2
      in s2\<lparr>ps_KThreesConfigSpec := kc\<lparr>kc_ServerConfig := defaultServerConfig (kc_ServerConfig kc)\<rparr>\<rparr>)"

definition KThreesControlPlane_Default :: "KThreesControlPlane \<Rightarrow> KThreesControlPlane" where
  "KThreesControlPlane_Default p =
     p\<lparr>kp_Spec := defaultKThreesControlPlaneSpec (kp_Spec p) (om_Namespace (kp_Meta p))\<rparr>"

subsection \<open>Defaulting\<close>

lemma defaultServerConfig_set:
  "sc_DisableCloudController (defaultServerConfig s) =
     (case sc_DisableCloudController s of None \<Rightarrow> Some True | Some b \<Rightarrow> Some b)"
  "sc_CloudProviderName (defaultServerConfig s) =
     (case sc_CloudProviderName s of None \<Rightarrow> Some ''external'' | Some b \<Rightarrow> Some b)"
  by (auto simp: defaultServerConfig_def Let_def split: option.split)

lemma defaultServerConfig_fixed:
  "sc_DisableCloudController s \<noteq> None \<Longrightarrow> sc_CloudProviderName s \<noteq> None \<Longrightarrow> defaultServerConfig s = s"
  by (auto simp: defaultServerConfig_def Let_def)

lemma defaultServerConfig_idem: "defaultServerConfig (defaultServerConfig s) = defaultServerConfig s"
  by (rule defaultServerConfig_fixed) (auto simp: defaultServerConfig_set split: option.split)

lemma kp_conditions_simps [simp]:
  "kp_GetConditions (kp_SetConditions p cs) = cs"
  "kp_Spec (kp_SetConditions p cs) = kp_Spec p"
  "kp_Meta (kp_SetConditions p cs) = kp_Meta p"
  "kp_Annotations (kp_SetConditions p cs) = kp_Annotations p"
  by (simp_all add: kp_GetConditions_def kp_SetConditions_def kp_Annotations_def)

lemma kt_conditions_simps [simp]:
  "kt_GetConditions (kt_SetConditions p cs) = cs"
  "kt_Spec (kt_SetConditions p cs) = kt_Spec p"
  "kt_Meta (kt_SetConditions p cs) = kt_Meta p"
  "ks_Ready (kt_Status (kt_SetConditions p cs)) = ks_Ready (kt_Status p)"
  "ks_DataSecretName (kt_Status (kt_SetConditions p cs)) = ks_DataSecretName (kt_Status p)"
  by (simp_all add: kt_GetConditions_def kt_SetConditions_def)

end
