(* ===== verification/Client.thy ===== *)
theory Client
  imports ApiTypes
begin

text \<open>
  The boundary of the program.

  \<^item> \<open>call\<close>: the requests the program sends (API server of the management cluster, API
    server of the workload cluster, etcd through the proxy pods). A run of a controller is
    the list of the calls it issued.
  \<^item> \<open>env\<close>: the answers, each a function of the history of calls and the call. Nothing is
    assumed of them unless a theorem says so: the objects may change between any two calls,
    every call may fail.
  \<^item> \<open>lib\<close>: the pure functions of the libraries the program calls (Cluster API's
    collections, conditions and failure domains, JSON), as parameters; the laws that
    theorems rely on are the predicates at the end of this theory.
\<close>

section \<open>Calls\<close>

record PbMember =
  pm_ID :: uint64
  pm_Name :: string
  pm_PeerURLs :: "string list"
  pm_ClientURLs :: "string list"
  pm_IsLearner :: bool

text \<open>
  Certificates: the template of \<^verbatim>\<open>crypto/x509\<close> with the fields the program sets, the
  configuration of Cluster API's \<^verbatim>\<open>certs\<close> package, and the certificate that signs (a
  nil pointer is possible). Keys and certificates are their PEM text.
\<close>

datatype KeyUsage = KeyUsageDigitalSignature | KeyUsageKeyEncipherment | KeyUsageCertSign
datatype ExtKeyUsage = ExtKeyUsageClientAuth

record CertTemplate =
  tp_SerialNumber :: int
  tp_CommonName :: string
  tp_Organization :: "string list"
  tp_NotBefore :: time
  tp_NotAfter :: time
  tp_KeyUsage :: "KeyUsage set"
  tp_ExtKeyUsage :: "ExtKeyUsage list"
  tp_MaxPathLenZero :: bool
  tp_BasicConstraintsValid :: bool
  tp_MaxPathLen :: int
  tp_IsCA :: bool

record CertsConfig =
  cf_CommonName :: string
  cf_Organization :: "string list"
  cf_Usages :: "ExtKeyUsage list"

datatype CertParent = SelfSigned | Parent "string option"

text \<open>\<^verbatim>\<open>RemediationData\<close> of remediation.go, the content of the remediation
  annotations.\<close>

record RemediationData =
  rd_Machine :: string
  rd_Timestamp :: time
  rd_RetryCount :: int64

datatype call =
  \<comment> \<open>management cluster, reads\<close>
    GetKCP ObjectKey
  | GetOwnerCluster ObjectMeta
  | GetCluster string string
  | GetMachine ObjectKey
  | ListMachines string string
  | GetConfig ObjectKey
  | GetConfigOwner KThreesConfig
  | GetSecret ObjectKey
  | GetConfigMap ObjectKey
  | GetExternal string string string string
  | GetByRef ContractRef string
  | GetCRD string
  \<comment> \<open>management cluster, writes\<close>
  | PatchKCP KThreesControlPlane
  | PatchMachine Machine
  | PatchConfig KThreesConfig bool
  | PatchUnstructured Unstructured
  | PatchManagedFields string ObjectKey "ManagedFieldsEntry list"
  | ApplyMachine Machine
  | ApplyUnstructured Unstructured
  | DeleteMachine Machine
  | DeleteUnstructured Unstructured
  | CloneTemplate ObjectReference string OwnerReference string gomap
  | CreateConfig KThreesConfig
  | CreateSecret Secret
  | UpdateSecret Secret
  | CreateConfigMap ConfigMap
  | DeleteConfigMap ConfigMap
  | Event string
  \<comment> \<open>workload cluster\<close>
  | RESTConfig ObjectKey
  | WListNodes
  | WGetNode ObjectKey
  | WGetSecret ObjectKey
  | WPatchNode Node
  | WListEtcdProxyPods
  \<comment> \<open>etcd, through a proxy pod\<close>
  | EtcdStatus string
  | EtcdMemberList string
  | EtcdAlarmList string
  | EtcdMoveLeader string uint64
  | EtcdMemberRemove string uint64
  | EtcdMemberUpdate string uint64 "string list"
  | EtcdClose string
  \<comment> \<open>randomness and signatures; no two requests have the same history, so the answers may differ\<close>
  | RandomBytes nat
  | NewPrivateKey
  | CreateCertificate CertTemplate CertParent string "string option"
  | NewSignedCert CertsConfig string string string

text \<open>The calls that change the set of machines or of etcd members.\<close>

definition is_delete_machine :: "call \<Rightarrow> bool" where
  "is_delete_machine c = (case c of DeleteMachine _ \<Rightarrow> True | _ \<Rightarrow> False)"
definition is_apply_machine :: "call \<Rightarrow> bool" where
  "is_apply_machine c = (case c of ApplyMachine _ \<Rightarrow> True | _ \<Rightarrow> False)"

text \<open>The calls that change nothing. Closing an etcd client counts as one.\<close>

definition is_read :: "call \<Rightarrow> bool" where
  "is_read c = (case c of
     PatchKCP _ \<Rightarrow> False | PatchMachine _ \<Rightarrow> False | PatchConfig _ _ \<Rightarrow> False | PatchUnstructured _ \<Rightarrow> False
   | PatchManagedFields _ _ _ \<Rightarrow> False
   | ApplyMachine _ \<Rightarrow> False | ApplyUnstructured _ \<Rightarrow> False | DeleteMachine _ \<Rightarrow> False | DeleteUnstructured _ \<Rightarrow> False
   | CloneTemplate _ _ _ _ _ \<Rightarrow> False | CreateConfig _ \<Rightarrow> False | CreateSecret _ \<Rightarrow> False | UpdateSecret _ \<Rightarrow> False
   | CreateConfigMap _ \<Rightarrow> False | DeleteConfigMap _ \<Rightarrow> False | Event _ \<Rightarrow> False | WPatchNode _ \<Rightarrow> False
   | EtcdMoveLeader _ _ \<Rightarrow> False | EtcdMemberRemove _ _ \<Rightarrow> False
   | EtcdMemberUpdate _ _ _ \<Rightarrow> False | _ \<Rightarrow> True)"

definition reads :: "call set" where "reads = {c. is_read c}"

lemma in_reads [simp]: "c \<in> reads \<longleftrightarrow> is_read c"
  by (simp add: reads_def)

lemma is_read_simps [simp]:
  "is_read (GetKCP k)" "is_read (GetOwnerCluster om)" "is_read (GetCluster a b)" "is_read (GetMachine k)"
  "is_read (ListMachines a b)" "is_read (GetConfig k)" "is_read (GetConfigOwner kc)" "is_read (GetSecret k)"
  "is_read (GetConfigMap k)" "is_read (GetExternal a b n ns)" "is_read (GetByRef r ns)" "is_read (GetCRD n)"
  "is_read (RESTConfig k)" "is_read WListNodes" "is_read (WGetNode k)" "is_read (WGetSecret k)"
  "is_read WListEtcdProxyPods" "is_read (EtcdStatus p)" "is_read (EtcdMemberList p)" "is_read (EtcdAlarmList p)"
  "is_read (EtcdClose p)" "is_read (RandomBytes len)" "is_read NewPrivateKey" "is_read (CreateCertificate ct pa pk so)"
  "is_read (NewSignedCert cf pk cc ck)"
  by (simp_all add: is_read_def)

lemma read_not_machine [simp]: "is_read c \<Longrightarrow> \<not> is_delete_machine c" "is_read c \<Longrightarrow> \<not> is_apply_machine c"
  by (auto simp: is_read_def is_delete_machine_def is_apply_machine_def split: call.splits)

lemma reads_bounded: "emits reads m \<Longrightarrow> (\<And>c. is_read c \<Longrightarrow> \<not> p c) \<Longrightarrow> bounded p n m"
  by (rule bounded_emits, erule emits_mono) auto

section \<open>The environment\<close>

record env =
  e_err :: "call list \<Rightarrow> call \<Rightarrow> goerr option"
  e_kcp :: "call list \<Rightarrow> call \<Rightarrow> goerr + KThreesControlPlane"
  e_cluster :: "call list \<Rightarrow> call \<Rightarrow> goerr + Cluster option"
  e_machine :: "call list \<Rightarrow> call \<Rightarrow> goerr + Machine"
  e_machines :: "call list \<Rightarrow> call \<Rightarrow> goerr + Machine list"
  e_config :: "call list \<Rightarrow> call \<Rightarrow> goerr + KThreesConfig"
  e_secret :: "call list \<Rightarrow> call \<Rightarrow> goerr + Secret"
  e_configmap :: "call list \<Rightarrow> call \<Rightarrow> goerr + ConfigMap"
  e_node :: "call list \<Rightarrow> call \<Rightarrow> goerr + Node"
  e_nodes :: "call list \<Rightarrow> call \<Rightarrow> goerr + Node list"
  e_unstructured :: "call list \<Rightarrow> call \<Rightarrow> goerr + Unstructured"
  e_ref :: "call list \<Rightarrow> call \<Rightarrow> goerr + ContractRef"
  e_pods :: "call list \<Rightarrow> call \<Rightarrow> goerr + (string \<times> string) list"  \<comment> \<open>node name, pod name\<close>
  e_status :: "call list \<Rightarrow> call \<Rightarrow> goerr + uint64 \<times> string list"    \<comment> \<open>leader, errors\<close>
  e_members :: "call list \<Rightarrow> call \<Rightarrow> goerr + uint64 \<times> PbMember list" \<comment> \<open>cluster id, members\<close>
  e_alarms :: "call list \<Rightarrow> call \<Rightarrow> goerr + (uint64 \<times> int32) list"
  e_applied :: "call list \<Rightarrow> call \<Rightarrow> goerr + string"                \<comment> \<open>resource version\<close>
  e_merged :: "call list \<Rightarrow> Machine \<Rightarrow> Machine"                      \<comment> \<open>the machine after it was applied\<close>
  e_now :: "call list \<Rightarrow> time"
  e_name :: "call list \<Rightarrow> string \<Rightarrow> string"
  e_helper :: "call list \<Rightarrow> string \<Rightarrow> goerr option"                   \<comment> \<open>patch.NewHelper\<close>
  e_random :: "call list \<Rightarrow> call \<Rightarrow> goerr + string"                 \<comment> \<open>bytes, keys, certificates\<close>
  \<comment> \<open>PEM and DER, functions of their argument\<close>
  e_DecodeCertPEM :: "string \<Rightarrow> goerr + string option"
  e_DecodePrivateKeyPEM :: "string \<Rightarrow> goerr + string option"
  e_ParseCertificate :: "string \<Rightarrow> goerr + string"
  e_EncodePublicKeyPEM :: "string \<Rightarrow> goerr + string"
  e_X509KeyPair :: "string \<Rightarrow> string \<Rightarrow> goerr option"

text \<open>A call answered with one component of the environment.\<close>

definition api :: "env \<Rightarrow> (env \<Rightarrow> call list \<Rightarrow> call \<Rightarrow> 'a) \<Rightarrow> call \<Rightarrow> (call, 'a) go" where
  "api E sel c = issue c (\<lambda>h. sel E h c)"

abbreviation do_write :: "env \<Rightarrow> call \<Rightarrow> (call, goerr option) go" where
  "do_write E c \<equiv> api E e_err c"

definition now :: "env \<Rightarrow> (call, time) go" where
  "now E = ask (e_now E)"
definition gen_name :: "env \<Rightarrow> string \<Rightarrow> (call, string) go" where
  "gen_name E base = ask (\<lambda>h. e_name E h base)"
definition new_helper :: "env \<Rightarrow> string \<Rightarrow> (call, goerr option) go" where
  "new_helper E n = ask (\<lambda>h. e_helper E h n)"
definition merged :: "env \<Rightarrow> Machine \<Rightarrow> (call, Machine) go" where
  "merged E m = ask (\<lambda>h. e_merged E h m)"

lemma client_run [go_runs]:
  "api E sel c h = (Some (sel E h c), h @ [c])"
  "now E h = (Some (e_now E h), h)"
  "gen_name E b h = (Some (e_name E h b), h)"
  "new_helper E n h = (Some (e_helper E h n), h)"
  "merged E m h = (Some (e_merged E h m), h)"
  by (simp_all add: api_def now_def gen_name_def new_helper_def merged_def go_runs)

lemma client_emits [go_intros]:
  "c \<in> S \<Longrightarrow> emits S (api E sel c)"
  "emits S (now E)" "emits S (gen_name E b)" "emits S (new_helper E n)" "emits S (merged E m)"
  by (auto simp: api_def now_def gen_name_def new_helper_def merged_def intro: go_intros)

lemma client_bounded [go_intros]:
  "\<not> p c \<Longrightarrow> bounded p n (api E sel c)"
  "bounded p n (now E)" "bounded p n (gen_name E b)" "bounded p n (new_helper E nm)" "bounded p n (merged E m)"
  by (auto simp: api_def now_def gen_name_def new_helper_def merged_def intro: go_intros)

lemma api_bounded1: "bounded p (Suc n) (api E sel c)"
  by (simp add: api_def bounded_issue)

lemma client_nopanic [go_intros]:
  "nopanic (api E sel c)" "nopanic (now E)" "nopanic (gen_name E b)" "nopanic (new_helper E nm)" "nopanic (merged E m)"
  by (auto simp: api_def now_def gen_name_def new_helper_def merged_def intro: go_intros)

section \<open>Library functions\<close>

record lib =
  \<comment> \<open>util/collections, on the machines of a control plane\<close>
  Oldest :: "Machine list \<Rightarrow> Machine option"
  Newest :: "Machine list \<Rightarrow> Machine option"
  LowestVersion :: "Machine list \<Rightarrow> string"
  InFailureDomains :: "string list \<Rightarrow> Machine \<Rightarrow> bool"
  IsControlPlaneMachine :: "Machine \<Rightarrow> bool"
  HasAnnotationKey :: "string \<Rightarrow> Machine \<Rightarrow> bool"
  IsUnhealthy :: "Machine \<Rightarrow> bool"
  HasNode :: "Machine \<Rightarrow> bool"
  HasDeletionTimestamp :: "Machine \<Rightarrow> bool"
  IsReady :: "Machine \<Rightarrow> bool"
  OwnedMachines :: "KThreesControlPlane \<Rightarrow> Machine \<Rightarrow> bool"
  ControlPlaneMachines :: "string \<Rightarrow> Machine \<Rightarrow> bool"
  AdoptableControlPlaneMachines :: "string \<Rightarrow> Machine \<Rightarrow> bool"
  ActiveMachines :: "Machine \<Rightarrow> bool"
  ShouldRolloutAfter :: "time \<Rightarrow> time \<Rightarrow> Machine \<Rightarrow> bool"
  \<comment> \<open>util/failuredomains\<close>
  PickMost :: "FailureDomain list \<Rightarrow> Machine list \<Rightarrow> Machine list \<Rightarrow> string"
  PickFewest :: "FailureDomain list \<Rightarrow> Machine list \<Rightarrow> Machine list \<Rightarrow> string"
  \<comment> \<open>util/conditions, on the conditions of a machine\<close>
  condGet :: "string \<Rightarrow> Condition list \<Rightarrow> Condition option"
  condSet :: "Condition \<Rightarrow> Condition list \<Rightarrow> Condition list"
  condDelete :: "string \<Rightarrow> Condition list \<Rightarrow> Condition list"
  condIsTrue :: "string \<Rightarrow> Condition list \<Rightarrow> bool"
  condIsFalse :: "string \<Rightarrow> Condition list \<Rightarrow> bool"
  \<comment> \<open>util/deprecated/v1beta1/conditions, on the conditions of the program's objects\<close>
  v1MarkTrue :: "string \<Rightarrow> V1Condition list \<Rightarrow> V1Condition list"
  v1MarkFalse :: "string \<Rightarrow> string \<Rightarrow> Severity \<Rightarrow> string \<Rightarrow> V1Condition list \<Rightarrow> V1Condition list"
  v1MarkUnknown :: "string \<Rightarrow> string \<Rightarrow> string \<Rightarrow> V1Condition list \<Rightarrow> V1Condition list"
  v1Has :: "string \<Rightarrow> V1Condition list \<Rightarrow> bool"
  v1IsTrue :: "string \<Rightarrow> V1Condition list \<Rightarrow> bool"
  v1IsFalse :: "string \<Rightarrow> V1Condition list \<Rightarrow> bool"
  v1GetReason :: "string \<Rightarrow> V1Condition list \<Rightarrow> string"
  v1SetSummary :: "string list \<Rightarrow> V1Condition list \<Rightarrow> V1Condition list"
  v1SetAggregate :: "string \<Rightarrow> Machine list \<Rightarrow> V1Condition list \<Rightarrow> V1Condition list"
  \<comment> \<open>machinery\<close>
  NewControllerRef :: "ObjectMeta \<Rightarrow> string \<Rightarrow> OwnerReference"
  IsControlledBy :: "OwnerReference list \<Rightarrow> ObjectMeta \<Rightarrow> bool"
  AddAnnotation :: "gomap \<Rightarrow> string \<Rightarrow> string \<Rightarrow> gomap"
  EnsureOwnerRef :: "OwnerReference list \<Rightarrow> OwnerReference \<Rightarrow> OwnerReference list"
  IsNodeReady :: "Node \<Rightarrow> bool"
  IsPaused :: "Cluster \<Rightarrow> ObjectMeta \<Rightarrow> bool"
  ControlPlaneSelector :: "string \<Rightarrow> string"
  errText :: "goerr \<Rightarrow> string"
  groupKindOf :: "ObjectReference \<Rightarrow> string"
  \<comment> \<open>JSON\<close>
  marshalServerConfig :: "KThreesServerConfig \<Rightarrow> goerr + string"
  marshalRemediation :: "RemediationData \<Rightarrow> goerr + string"
  unmarshalRemediation :: "string \<Rightarrow> goerr + RemediationData"

subsection \<open>Conditions of machines and of the control plane\<close>

text \<open>The setters go through \<^verbatim>\<open>SetConditions\<close>: only the conditions change.\<close>

definition ma_SetCond :: "lib \<Rightarrow> Machine \<Rightarrow> Condition \<Rightarrow> Machine" where
  "ma_SetCond L m c = m\<lparr>ma_Conditions := condSet L c (ma_Conditions m)\<rparr>"
definition ma_GetCond :: "lib \<Rightarrow> Machine \<Rightarrow> string \<Rightarrow> Condition option" where
  "ma_GetCond L m t = condGet L t (ma_Conditions m)"
definition ma_IsTrue :: "lib \<Rightarrow> Machine \<Rightarrow> string \<Rightarrow> bool" where
  "ma_IsTrue L m t = condIsTrue L t (ma_Conditions m)"

definition kp_MarkTrue :: "lib \<Rightarrow> KThreesControlPlane \<Rightarrow> string \<Rightarrow> KThreesControlPlane" where
  "kp_MarkTrue L p t = kp_SetConditions p (v1MarkTrue L t (kp_GetConditions p))"
definition kp_MarkFalse :: "lib \<Rightarrow> KThreesControlPlane \<Rightarrow> string \<Rightarrow> string \<Rightarrow> Severity \<Rightarrow> string \<Rightarrow> KThreesControlPlane" where
  "kp_MarkFalse L p t reason sev msg = kp_SetConditions p (v1MarkFalse L t reason sev msg (kp_GetConditions p))"
definition kp_MarkUnknown :: "lib \<Rightarrow> KThreesControlPlane \<Rightarrow> string \<Rightarrow> string \<Rightarrow> string \<Rightarrow> KThreesControlPlane" where
  "kp_MarkUnknown L p t reason msg = kp_SetConditions p (v1MarkUnknown L t reason msg (kp_GetConditions p))"

definition mkCond :: "string \<Rightarrow> ConditionStatus \<Rightarrow> string \<Rightarrow> string \<Rightarrow> Condition" where
  "mkCond t st reason msg = \<lparr>c_Type = t, c_Status = st, c_Reason = reason, c_Message = msg\<rparr>"

lemma kp_mark_simps [simp]:
  "kp_Spec (kp_MarkTrue L p t) = kp_Spec p" "kp_Meta (kp_MarkTrue L p t) = kp_Meta p"
  "kp_Annotations (kp_MarkTrue L p t) = kp_Annotations p"
  "kp_Spec (kp_MarkFalse L p t r sv ms) = kp_Spec p" "kp_Meta (kp_MarkFalse L p t r sv ms) = kp_Meta p"
  "kp_Annotations (kp_MarkFalse L p t r sv ms) = kp_Annotations p"
  "kp_Spec (kp_MarkUnknown L p t r ms) = kp_Spec p" "kp_Meta (kp_MarkUnknown L p t r ms) = kp_Meta p"
  "kp_Annotations (kp_MarkUnknown L p t r ms) = kp_Annotations p"
  by (simp_all add: kp_MarkTrue_def kp_MarkFalse_def kp_MarkUnknown_def)

lemma kp_mark_status [simp]:
  "st_Initialized (kp_Status (kp_SetConditions p cs)) = st_Initialized (kp_Status p)"
  "st_Initialized (kp_Status (kp_MarkTrue L p t)) = st_Initialized (kp_Status p)"
  "st_Initialized (kp_Status (kp_MarkFalse L p t r sv ms)) = st_Initialized (kp_Status p)"
  "st_Ready (kp_Status (kp_MarkTrue L p t)) = st_Ready (kp_Status p)"
  "st_Ready (kp_Status (kp_MarkFalse L p t r sv ms)) = st_Ready (kp_Status p)"
  by (simp_all add: kp_MarkTrue_def kp_MarkFalse_def kp_SetConditions_def)

lemma ma_SetCond_simps [simp]:
  "ma_Meta (ma_SetCond L m c) = ma_Meta m" "ma_Name (ma_SetCond L m c) = ma_Name m"
  "ma_NodeRef (ma_SetCond L m c) = ma_NodeRef m" "ma_deleting (ma_SetCond L m c) = ma_deleting m"
  "ma_Annotations (ma_SetCond L m c) = ma_Annotations m"
  by (simp_all add: ma_SetCond_def ma_Name_def ma_deleting_def ma_Annotations_def)

subsection \<open>The map of machines\<close>

text \<open>
  \<^verbatim>\<open>collections.Machines\<close> is a Go map from the name to a pointer to the machine. It is
  modelled as the list of the machines in the order in which a \<^verbatim>\<open>range\<close> visits them, so a
  statement for all lists covers every iteration order. Assigning through the pointer, or
  to the entry of a name, is \<open>upd_machine\<close>.
\<close>

definition upd_machine :: "string \<Rightarrow> (Machine \<Rightarrow> Machine) \<Rightarrow> Machine list \<Rightarrow> Machine list" where
  "upd_machine n f ms = map (\<lambda>m. if ma_Name m = n then f m else m) ms"

definition MFilter :: "(Machine \<Rightarrow> bool) list \<Rightarrow> Machine list \<Rightarrow> Machine list" where
  "MFilter ps ms = filter (\<lambda>m. \<forall>p\<in>set ps. p m) ms"
definition MAnyFilter :: "(Machine \<Rightarrow> bool) list \<Rightarrow> Machine list \<Rightarrow> Machine list" where
  "MAnyFilter ps ms = filter (\<lambda>m. \<exists>p\<in>set ps. p m) ms"
definition MDifference :: "Machine list \<Rightarrow> Machine list \<Rightarrow> Machine list" where
  "MDifference ms ns = filter (\<lambda>m. ma_Name m \<notin> ma_Name ` set ns) ms"

lemma upd_machine_names:
  "(\<And>m. ma_Name (f m) = ma_Name m) \<Longrightarrow> map ma_Name (upd_machine n f ms) = map ma_Name ms"
  by (simp add: upd_machine_def)

lemma length_upd_machine [simp]: "length (upd_machine n f ms) = length ms"
  by (simp add: upd_machine_def)

lemma set_MFilter [simp]: "set (MFilter ps ms) = {m \<in> set ms. \<forall>p\<in>set ps. p m}"
  and set_MAnyFilter [simp]: "set (MAnyFilter ps ms) = {m \<in> set ms. \<exists>p\<in>set ps. p m}"
  and set_MDifference [simp]: "set (MDifference ms ns) = {m \<in> set ms. ma_Name m \<notin> ma_Name ` set ns}"
  by (auto simp: MFilter_def MAnyFilter_def MDifference_def)

subsection \<open>Laws of the libraries\<close>

text \<open>\<^verbatim>\<open>Oldest\<close> and \<^verbatim>\<open>Newest\<close> return nil on no machines, and otherwise one of them,
  with the least and the greatest creation time.\<close>

definition created :: "Machine \<Rightarrow> time" where "created m = om_CreationTimestamp (ma_Meta m)"

definition oldest_laws :: "lib \<Rightarrow> bool" where
  "oldest_laws L \<longleftrightarrow>
     (\<forall>ms. (Oldest L ms = None \<longleftrightarrow> ms = []) \<and>
           (\<forall>m. Oldest L ms = Some m \<longrightarrow> m \<in> set ms \<and> (\<forall>m'\<in>set ms. created m \<le> created m')))"

definition newest_laws :: "lib \<Rightarrow> bool" where
  "newest_laws L \<longleftrightarrow>
     (\<forall>ms. (Newest L ms = None \<longleftrightarrow> ms = []) \<and>
           (\<forall>m. Newest L ms = Some m \<longrightarrow> m \<in> set ms \<and> (\<forall>m'\<in>set ms. created m' \<le> created m)))"

text \<open>Conditions: a condition that was set is found, setting one leaves the others, and the
  two tests read the status.\<close>

definition condition_laws :: "lib \<Rightarrow> bool" where
  "condition_laws L \<longleftrightarrow>
     (\<forall>c cs t. condGet L t (condSet L c cs) = (if t = c_Type c then Some c else condGet L t cs)) \<and>
     (\<forall>cs t. condIsTrue L t cs \<longleftrightarrow> (\<exists>c. condGet L t cs = Some c \<and> c_Status c = CTrue)) \<and>
     (\<forall>cs t. condIsFalse L t cs \<longleftrightarrow> (\<exists>c. condGet L t cs = Some c \<and> c_Status c = CFalse))"

definition v1condition_laws :: "lib \<Rightarrow> bool" where
  "v1condition_laws L \<longleftrightarrow>
     (\<forall>t cs. v1IsTrue L t (v1MarkTrue L t cs) \<and> \<not> v1IsFalse L t (v1MarkTrue L t cs)) \<and>
     (\<forall>t r sv ms cs. v1IsFalse L t (v1MarkFalse L t r sv ms cs) \<and> \<not> v1IsTrue L t (v1MarkFalse L t r sv ms cs)) \<and>
     (\<forall>t r ms cs. \<not> v1IsTrue L t (v1MarkUnknown L t r ms cs) \<and> \<not> v1IsFalse L t (v1MarkUnknown L t r ms cs)) \<and>
     (\<forall>t t' cs. t \<noteq> t' \<longrightarrow> v1IsTrue L t' (v1MarkTrue L t cs) = v1IsTrue L t' cs) \<and>
     (\<forall>t t' r sv ms cs. t \<noteq> t' \<longrightarrow> v1IsTrue L t' (v1MarkFalse L t r sv ms cs) = v1IsTrue L t' cs)"

text \<open>\<^verbatim>\<open>annotations.AddAnnotations\<close> with one entry: it is set, on a nil map as well.\<close>

definition annotation_law :: "lib \<Rightarrow> bool" where
  "annotation_law L \<longleftrightarrow>
     (\<forall>a k v k'. mget (AddAnnotation L a k v) k' = (if k' = k then Some v else mget a k'))"

text \<open>The JSON form of the remediation data keeps times in whole seconds (RFC 3339).\<close>

definition trunc_second :: "time \<Rightarrow> time" where
  "trunc_second t = t - t mod 1000000000"

definition remediation_json_law :: "lib \<Rightarrow> bool" where
  "remediation_json_law L \<longleftrightarrow>
     (\<forall>d s. marshalRemediation L d = Inr s \<longrightarrow>
        unmarshalRemediation L s = Inr (d\<lparr>rd_Timestamp := trunc_second (rd_Timestamp d)\<rparr>))"

lemma oldest_in: "oldest_laws L \<Longrightarrow> Oldest L ms = Some m \<Longrightarrow> m \<in> set ms"
  and oldest_None: "oldest_laws L \<Longrightarrow> Oldest L ms = None \<longleftrightarrow> ms = []"
  and oldest_min: "oldest_laws L \<Longrightarrow> Oldest L ms = Some m \<Longrightarrow> m' \<in> set ms \<Longrightarrow> created m \<le> created m'"
  and newest_in: "newest_laws L \<Longrightarrow> Newest L ms = Some m \<Longrightarrow> m \<in> set ms"
  and newest_None: "newest_laws L \<Longrightarrow> Newest L ms = None \<longleftrightarrow> ms = []"
  by (auto simp: oldest_laws_def newest_laws_def)

lemma cond_get_set:
  "condition_laws L \<Longrightarrow> ma_GetCond L (ma_SetCond L m c) t = (if t = c_Type c then Some c else ma_GetCond L m t)"
  by (simp add: condition_laws_def ma_GetCond_def ma_SetCond_def)

lemma cond_IsTrue:
  "condition_laws L \<Longrightarrow> ma_IsTrue L m t \<longleftrightarrow> (\<exists>c. ma_GetCond L m t = Some c \<and> c_Status c = CTrue)"
  by (simp add: condition_laws_def ma_GetCond_def ma_IsTrue_def)

end
