(* ===== verification/ControlPlane.thy ===== *)
theory ControlPlane
  imports Client
begin

text \<open>
  \<^verbatim>\<open>pkg/k3s/control_plane.go\<close> and \<^verbatim>\<open>pkg/machinefilters/machine_filters.go\<close>: the
  business logic around the machines of one control plane. The filters classify a machine
  as matching the control plane's configuration or not; \<open>MachinesNeedingRollout\<close> and
  \<open>UpToDateMachines\<close> split the machines; the failure-domain functions choose where a
  machine is added or removed.
\<close>

text \<open>An undefined contract reference is the empty struct.\<close>

definition the_ref :: "ContractRef option \<Rightarrow> ContractRef" where
  "the_ref r = (case r of None \<Rightarrow> \<lparr>cr_APIGroup = [], cr_Kind = [], cr_Name = []\<rparr> | Some x \<Rightarrow> x)"

definition controlplane_group_version :: string where
  "controlplane_group_version = ''controlplane.cluster.x-k8s.io/v1beta2''"
definition bootstrap_group :: string where
  "bootstrap_group = ''bootstrap.cluster.x-k8s.io''"

text \<open>Label and annotation keys of Cluster API.\<close>

definition ClusterNameLabel :: string where "ClusterNameLabel = ''cluster.x-k8s.io/cluster-name''"
definition MachineControlPlaneNameLabel :: string where
  "MachineControlPlaneNameLabel = ''cluster.x-k8s.io/control-plane-name''"
definition MachineControlPlaneLabel :: string where
  "MachineControlPlaneLabel = ''cluster.x-k8s.io/control-plane''"
definition DeleteMachineAnnotation :: string where
  "DeleteMachineAnnotation = ''cluster.x-k8s.io/delete-machine''"
definition TemplateClonedFromNameAnnotation :: string where
  "TemplateClonedFromNameAnnotation = ''cluster.x-k8s.io/cloned-from-name''"
definition TemplateClonedFromGroupKindAnnotation :: string where
  "TemplateClonedFromGroupKindAnnotation = ''cluster.x-k8s.io/cloned-from-groupkind''"

definition ErrFailedToPickForDeletion :: goerr where
  "ErrFailedToPickForDeletion = Sentinel ''failed to pick machine to mark for deletion''"
definition ErrFailedToCreatePatchHelper :: goerr where
  "ErrFailedToCreatePatchHelper = Sentinel ''failed to create patch for machine''"

section \<open>Machine filters\<close>

definition MatchesTemplateClonedFrom ::
  "lib \<Rightarrow> (string \<rightharpoonup> Unstructured) \<Rightarrow> KThreesControlPlane \<Rightarrow> Machine \<Rightarrow> bool" where
  "MatchesTemplateClonedFrom L infraConfigs kcp machine =
     (case infraConfigs (ma_Name machine) of
        None \<Rightarrow> True
      | Some infraObj \<Rightarrow>
          (let annotations = om_Annotations (u_Meta infraObj);
               ref = mt_InfrastructureRef (ps_MachineTemplate (kp_Spec kcp))
           in case (mget annotations TemplateClonedFromNameAnnotation,
                    mget annotations TemplateClonedFromGroupKindAnnotation) of
                (Some clonedFromName, Some clonedFromGroupKind) \<Rightarrow>
                  \<not> (clonedFromName \<noteq> ref_Name ref \<or> clonedFromGroupKind \<noteq> groupKindOf L ref)
              | _ \<Rightarrow> True))"

definition MatchesKubernetesVersion :: "string \<Rightarrow> Machine \<Rightarrow> bool" where
  "MatchesKubernetesVersion kubernetesVersion machine =
     (if ma_Version machine = [] then False else ma_Version machine = kubernetesVersion)"

text \<open>The source blanks the version of the stored config in place before it compares; no
  code reads that version afterwards, so only the comparison is modelled.
  \<^verbatim>\<open>reflect.DeepEqual\<close> is equality: it separates a nil from an empty slice.\<close>

definition MatchesKThreesBootstrapConfig ::
  "(string \<rightharpoonup> KThreesConfig) \<Rightarrow> KThreesControlPlane \<Rightarrow> Machine \<Rightarrow> bool" where
  "MatchesKThreesBootstrapConfig machineConfigs kcp machine =
     (case ma_ConfigRef machine of
        None \<Rightarrow> True
      | Some _ \<Rightarrow>
         (case machineConfigs (ma_Name machine) of
            None \<Rightarrow> True
          | Some machineConfig \<Rightarrow>
              (kt_Spec machineConfig)\<lparr>kc_Version := []\<rparr>
                = (ps_KThreesConfigSpec (kp_Spec kcp))\<lparr>kc_Version := []\<rparr>))"

definition AgentHealthy :: "lib \<Rightarrow> Machine \<Rightarrow> bool" where
  "AgentHealthy L machine = ma_IsTrue L machine MachineAgentHealthyCondition"

definition MatchesKCPConfiguration ::
  "lib \<Rightarrow> (string \<rightharpoonup> Unstructured) \<Rightarrow> (string \<rightharpoonup> KThreesConfig) \<Rightarrow> KThreesControlPlane \<Rightarrow> Machine \<Rightarrow> bool" where
  "MatchesKCPConfiguration L infraConfigs machineConfigs kcp machine =
     (MatchesKubernetesVersion (ps_Version (kp_Spec kcp)) machine \<and>
      MatchesKThreesBootstrapConfig machineConfigs kcp machine \<and>
      MatchesTemplateClonedFrom L infraConfigs kcp machine)"

section \<open>The control plane\<close>

text \<open>Of the patch helpers only the names matter: a helper writes the difference between
  the machine given to it and the machine it was created for.\<close>

record ControlPlane =
  cp_KCP :: KThreesControlPlane
  cp_Cluster :: Cluster
  cp_Machines :: "Machine list"
  cp_machinesPatchHelpers :: "string list"
  cp_hasEtcdCA :: bool
  cp_reconciliationTime :: time
  cp_KthreesConfigs :: "string \<rightharpoonup> KThreesConfig"
  cp_InfraResources :: "string \<rightharpoonup> Unstructured"

text \<open>Assignments through the pointers of the control plane.\<close>

definition cp_upd :: "ControlPlane \<Rightarrow> string \<Rightarrow> (Machine \<Rightarrow> Machine) \<Rightarrow> ControlPlane" where
  "cp_upd cp n f = cp\<lparr>cp_Machines := upd_machine n f (cp_Machines cp)\<rparr>"

primrec getInfraResources ::
  "env \<Rightarrow> Machine list \<Rightarrow> (string \<rightharpoonup> Unstructured) \<Rightarrow> (call, goerr + (string \<rightharpoonup> Unstructured)) go" where
  "getInfraResources E [] result = ret (Inr result)"
| "getInfraResources E (m # ms) result =
     bnd (api E e_unstructured (GetByRef (the_ref (ma_InfrastructureRef m)) (om_Namespace (ma_Meta m))))
      (\<lambda>r. case r of
         Inl err \<Rightarrow> if IsNotFound err then getInfraResources E ms result
                    else ret (Inl (Wrap ''failed to retrieve infra obj for machine'' err))
       | Inr infraObj \<Rightarrow> getInfraResources E ms (result(ma_Name m \<mapsto> infraObj)))"

primrec getKThreesConfigs ::
  "env \<Rightarrow> Machine list \<Rightarrow> (string \<rightharpoonup> KThreesConfig) \<Rightarrow> (call, goerr + (string \<rightharpoonup> KThreesConfig)) go" where
  "getKThreesConfigs E [] result = ret (Inr result)"
| "getKThreesConfigs E (m # ms) result =
     (case ma_ConfigRef m of
        None \<Rightarrow> getKThreesConfigs E ms result
      | Some ref \<Rightarrow>
          bnd (api E e_config (GetConfig (om_Namespace (ma_Meta m), cr_Name ref)))
           (\<lambda>r. case r of
              Inl err \<Rightarrow> if IsNotFound err then getKThreesConfigs E ms result
                         else ret (Inl (Wrap ''failed to retrieve bootstrap config for machine'' err))
            | Inr machineConfig \<Rightarrow> getKThreesConfigs E ms (result(ma_Name m \<mapsto> machineConfig))))"

primrec newPatchHelpers :: "env \<Rightarrow> Machine list \<Rightarrow> string list \<Rightarrow> (call, goerr + string list) go" where
  "newPatchHelpers E [] helpers = ret (Inr helpers)"
| "newPatchHelpers E (m # ms) helpers =
     bnd (new_helper E (ma_Name m))
      (\<lambda>e. case e of
         Some _ \<Rightarrow> ret (Inl (Wrap ''machine'' ErrFailedToCreatePatchHelper))
       | None \<Rightarrow> newPatchHelpers E ms (helpers @ [ma_Name m]))"

definition NewControlPlane ::
  "env \<Rightarrow> Cluster \<Rightarrow> KThreesControlPlane \<Rightarrow> Machine list \<Rightarrow> (call, goerr + ControlPlane) go" where
  "NewControlPlane E cluster kcp ownedMachines =
     bnd (getInfraResources E ownedMachines Map.empty) (\<lambda>r. case r of Inl err \<Rightarrow> ret (Inl err) | Inr infraObjects \<Rightarrow>
     bnd (getKThreesConfigs E ownedMachines Map.empty) (\<lambda>r. case r of Inl err \<Rightarrow> ret (Inl err) | Inr kthreesConfigs \<Rightarrow>
     bnd (newPatchHelpers E ownedMachines []) (\<lambda>r. case r of Inl err \<Rightarrow> ret (Inl err) | Inr patchHelpers \<Rightarrow>
     bnd (api E e_secret (GetSecret (om_Namespace (cl_Meta cluster), cl_Name cluster @ ''-etcd'')))
      (\<lambda>r. case (case r of Inr _ \<Rightarrow> Inr True | Inl err \<Rightarrow> if IsNotFound err then Inr False else Inl err) of
         Inl err \<Rightarrow> ret (Inl err)
       | Inr hasEtcdCA \<Rightarrow>
           bnd (now E) (\<lambda>t.
             ret (Inr \<lparr>cp_KCP = kcp, cp_Cluster = cluster, cp_Machines = ownedMachines,
                       cp_machinesPatchHelpers = patchHelpers, cp_hasEtcdCA = hasEtcdCA,
                       cp_reconciliationTime = t, cp_KthreesConfigs = kthreesConfigs,
                       cp_InfraResources = infraObjects\<rparr>))))))"

subsection \<open>Failure domains\<close>

definition FailureDomains :: "ControlPlane \<Rightarrow> FailureDomain list" where
  "FailureDomains c = (case cl_FailureDomains (cp_Cluster c) of None \<Rightarrow> [] | Some fds \<Rightarrow> fds)"

definition FailureDomainNames :: "ControlPlane \<Rightarrow> string list" where
  "FailureDomainNames c = map fd_Name (elems (cl_FailureDomains (cp_Cluster c)))"

definition ControlPlaneFailureDomains :: "ControlPlane \<Rightarrow> FailureDomain list" where
  "ControlPlaneFailureDomains c =
     filter (\<lambda>fd. case fd_ControlPlane fd of None \<Rightarrow> False | Some b \<Rightarrow> b) (elems (cl_FailureDomains (cp_Cluster c)))"

definition ControlPlane_Version :: "ControlPlane \<Rightarrow> string" where
  "ControlPlane_Version c = ps_Version (kp_Spec (cp_KCP c))"

definition EtcdImageData :: "ControlPlane \<Rightarrow> string \<times> string" where
  "EtcdImageData c = ([], [])"

definition InfrastructureTemplate :: "ControlPlane \<Rightarrow> ObjectReference" where
  "InfrastructureTemplate c = mt_InfrastructureRef (ps_MachineTemplate (kp_Spec (cp_KCP c)))"

definition AsOwnerReference :: "KThreesControlPlane \<Rightarrow> OwnerReference" where
  "AsOwnerReference p =
     \<lparr>or_APIVersion = controlplane_group_version, or_Kind = ''KThreesControlPlane'',
      or_Name = om_Name (kp_Meta p), or_UID = om_UID (kp_Meta p), or_Controller = None\<rparr>"

text \<open>\<open>None\<close>: \<^verbatim>\<open>Oldest()\<close> returned nil and its field is read, a panic.\<close>

definition FailureDomainWithMostMachines :: "lib \<Rightarrow> ControlPlane \<Rightarrow> Machine list \<Rightarrow> string option" where
  "FailureDomainWithMostMachines L c machines =
     (let notInFailureDomains =
            MFilter [\<lambda>m. \<not> InFailureDomains L (FailureDomainNames c) m, IsControlPlaneMachine L] machines
      in if length notInFailureDomains > 0
         then map_option ma_FailureDomain (Oldest L notInFailureDomains)
         else Some (PickMost L (ControlPlaneFailureDomains c) (cp_Machines c) machines))"

definition MachineInFailureDomainWithMostMachines ::
  "lib \<Rightarrow> ControlPlane \<Rightarrow> Machine list \<Rightarrow> (goerr + Machine) option" where
  "MachineInFailureDomainWithMostMachines L c machines =
     map_option
      (\<lambda>fd. case Oldest L (MFilter [InFailureDomains L [fd]] machines) of
              None \<Rightarrow> Inl ErrFailedToPickForDeletion
            | Some machineToMark \<Rightarrow> Inr machineToMark)
      (FailureDomainWithMostMachines L c machines)"

definition MachineWithDeleteAnnotation :: "lib \<Rightarrow> Machine list \<Rightarrow> Machine list" where
  "MachineWithDeleteAnnotation L machines = MFilter [HasAnnotationKey L DeleteMachineAnnotation] machines"

subsection \<open>Which machines have to be replaced\<close>

definition MachinesNeedingRollout :: "lib \<Rightarrow> ControlPlane \<Rightarrow> Machine list" where
  "MachinesNeedingRollout L c =
     (let machines = MFilter [\<lambda>m. \<not> HasDeletionTimestamp L m] (cp_Machines c);
          rolloutAfter = (case ps_RolloutAfter (kp_Spec (cp_KCP c)) of None \<Rightarrow> 0 | Some t \<Rightarrow> t)
      in MAnyFilter
           [ShouldRolloutAfter L (cp_reconciliationTime c) rolloutAfter,
            \<lambda>m. \<not> MatchesKCPConfiguration L (cp_InfraResources c) (cp_KthreesConfigs c) (cp_KCP c) m]
           machines)"

definition UpToDateMachines :: "lib \<Rightarrow> ControlPlane \<Rightarrow> Machine list" where
  "UpToDateMachines L c = MDifference (cp_Machines c) (MachinesNeedingRollout L c)"

definition NextFailureDomainForScaleUp :: "lib \<Rightarrow> ControlPlane \<Rightarrow> string" where
  "NextFailureDomainForScaleUp L c =
     (if length (ControlPlaneFailureDomains c) = 0 then []
      else PickFewest L (ControlPlaneFailureDomains c) (cp_Machines c) (UpToDateMachines L c))"

definition NeedsReplacementNode :: "ControlPlane \<Rightarrow> bool" where
  "NeedsReplacementNode c =
     (case ps_Replicas (kp_Spec (cp_KCP c)) of None \<Rightarrow> False
      | Some n \<Rightarrow> int (length (cp_Machines c)) + 1 = sint n)"

definition IsEtcdManaged :: "ControlPlane \<Rightarrow> bool" where
  "IsEtcdManaged c = (IsEtcdEmbedded (ps_KThreesConfigSpec (kp_Spec (cp_KCP c))) \<and> cp_hasEtcdCA c)"

definition UnhealthyMachines :: "lib \<Rightarrow> ControlPlane \<Rightarrow> Machine list" where
  "UnhealthyMachines L c = MFilter [IsUnhealthy L] (cp_Machines c)"

definition HealthyMachines :: "lib \<Rightarrow> ControlPlane \<Rightarrow> Machine list" where
  "HealthyMachines L c = MFilter [\<lambda>m. \<not> IsUnhealthy L m] (cp_Machines c)"

definition HasUnhealthyMachine :: "lib \<Rightarrow> ControlPlane \<Rightarrow> bool" where
  "HasUnhealthyMachine L c = (length (UnhealthyMachines L c) > 0)"

definition HasHealthyMachineStillProvisioning :: "lib \<Rightarrow> ControlPlane \<Rightarrow> bool" where
  "HasHealthyMachineStillProvisioning L c = (length (MFilter [\<lambda>m. \<not> HasNode L m] (HealthyMachines L c)) > 0)"

definition HasDeletingMachine :: "lib \<Rightarrow> ControlPlane \<Rightarrow> bool" where
  "HasDeletingMachine L c = (length (MFilter [HasDeletionTimestamp L] (cp_Machines c)) > 0)"

subsection \<open>New objects\<close>

definition InitialControlPlaneConfig :: "ControlPlane \<Rightarrow> KThreesConfigSpec" where
  "InitialControlPlaneConfig c = ps_KThreesConfigSpec (kp_Spec (cp_KCP c))"
definition JoinControlPlaneConfig :: "ControlPlane \<Rightarrow> KThreesConfigSpec" where
  "JoinControlPlaneConfig c = ps_KThreesConfigSpec (kp_Spec (cp_KCP c))"

definition ControlPlaneLabelsForCluster :: "string \<Rightarrow> MachineTemplate \<Rightarrow> gomap" where
  "ControlPlaneLabelsForCluster clusterName machineTemplate =
     Some ((case mt_Labels machineTemplate of None \<Rightarrow> Map.empty | Some labels \<Rightarrow> labels)
       (ClusterNameLabel \<mapsto> clusterName, MachineControlPlaneNameLabel \<mapsto> [], MachineControlPlaneLabel \<mapsto> []))"

definition emptyConfigStatus :: KThreesConfigStatus where
  "emptyConfigStatus = \<lparr>ks_Ready = False, ks_BootstrapData = None, ks_DataSecretName = None,
     ks_FailureReason = [], ks_FailureMessage = [], ks_ObservedGeneration = 0, ks_Conditions = None\<rparr>"

definition GenerateKThreesConfig :: "env \<Rightarrow> ControlPlane \<Rightarrow> KThreesConfigSpec \<Rightarrow> (call, KThreesConfig) go" where
  "GenerateKThreesConfig E c spec =
     (let kcp = cp_KCP c in
      bnd (gen_name E (om_Name (kp_Meta kcp) @ ''-'')) (\<lambda>name.
        ret \<lparr>kt_Meta = emptyMeta\<lparr>om_Name := name, om_Namespace := om_Namespace (kp_Meta kcp),
                om_Labels := ControlPlaneLabelsForCluster (cl_Name (cp_Cluster c)) (ps_MachineTemplate (kp_Spec kcp)),
                om_OwnerReferences := [AsOwnerReference kcp]\<rparr>,
             kt_Spec = spec, kt_Status = emptyConfigStatus\<rparr>))"

text \<open>A machine of the older Cluster API version, with the fields \<open>NewMachine\<close> sets.\<close>

record V1Machine =
  vm_Meta :: ObjectMeta
  vm_ClusterName :: string
  vm_Version :: "string option"
  vm_InfrastructureRef :: ObjectReference
  vm_ConfigRef :: "ObjectReference option"
  vm_FailureDomain :: "string option"

text \<open>\<open>infraRef\<close> is dereferenced.\<close>

definition NewMachine ::
  "env \<Rightarrow> lib \<Rightarrow> ControlPlane \<Rightarrow> ObjectReference option \<Rightarrow> ObjectReference option \<Rightarrow> string option \<Rightarrow> (call, V1Machine) go" where
  "NewMachine E L c infraRef bootstrapRef failureDomain =
     (let kcp = cp_KCP c in
      bnd (gen_name E (om_Name (kp_Meta kcp) @ ''-'')) (\<lambda>name.
      bnd (deref infraRef) (\<lambda>infraRef.
        ret \<lparr>vm_Meta = emptyMeta\<lparr>om_Name := name, om_Namespace := om_Namespace (kp_Meta kcp),
                om_Labels := ControlPlaneLabelsForCluster (cl_Name (cp_Cluster c)) (ps_MachineTemplate (kp_Spec kcp)),
                om_OwnerReferences := [NewControllerRef L (kp_Meta kcp) ''KThreesControlPlane'']\<rparr>,
             vm_ClusterName = cl_Name (cp_Cluster c), vm_Version = Some (ControlPlane_Version c), vm_InfrastructureRef = infraRef,
             vm_ConfigRef = bootstrapRef, vm_FailureDomain = failureDomain\<rparr>)))"

subsection \<open>Patching the machines\<close>

definition PatchMachines :: "env \<Rightarrow> ControlPlane \<Rightarrow> (call, goerr option) go" where
  "PatchMachines E c =
     bnd (foldG (\<lambda>machine errList.
            if ma_Name machine \<in> set (cp_machinesPatchHelpers c)
            then bnd (do_write E (PatchMachine machine)) (\<lambda>e. case e of
                   None \<Rightarrow> ret errList
                 | Some err \<Rightarrow> ret (errList @ [Some (Wrap ''failed to patch machine'' err)]))
            else ret (errList @ [Some (Wrap ''machine'' ErrFailedToCreatePatchHelper)]))
          (cp_Machines c) [])
      (\<lambda>errList. ret (NewAggregate errList))"

definition SetPatchHelpers :: "ControlPlane \<Rightarrow> string list \<Rightarrow> ControlPlane" where
  "SetPatchHelpers c helpers = c\<lparr>cp_machinesPatchHelpers := cp_machinesPatchHelpers c @ helpers\<rparr>"

section \<open>Properties\<close>

lemma MachinesNeedingRollout_set:
  "m \<in> set (MachinesNeedingRollout L c) \<longleftrightarrow>
     m \<in> set (cp_Machines c) \<and> \<not> HasDeletionTimestamp L m \<and>
     (ShouldRolloutAfter L (cp_reconciliationTime c) (case ps_RolloutAfter (kp_Spec (cp_KCP c)) of None \<Rightarrow> 0 | Some t \<Rightarrow> t) m \<or>
      \<not> MatchesKCPConfiguration L (cp_InfraResources c) (cp_KthreesConfigs c) (cp_KCP c) m)"
  by (auto simp: MachinesNeedingRollout_def Let_def)

lemma UpToDateMachines_set:
  "m \<in> set (UpToDateMachines L c) \<longleftrightarrow>
     m \<in> set (cp_Machines c) \<and> ma_Name m \<notin> ma_Name ` set (MachinesNeedingRollout L c)"
  by (simp add: UpToDateMachines_def)

text \<open>Distinct names: then the two collections partition the machines.\<close>

lemma rollout_partition:
  assumes "distinct (map ma_Name (cp_Machines c))"
  shows "set (UpToDateMachines L c) = set (cp_Machines c) - set (MachinesNeedingRollout L c)"
proof -
  have inj: "inj_on ma_Name (set (cp_Machines c))" using assms by (simp add: distinct_map)
  have sub: "set (MachinesNeedingRollout L c) \<subseteq> set (cp_Machines c)" using MachinesNeedingRollout_set by blast
  have "ma_Name m \<in> ma_Name ` set (MachinesNeedingRollout L c) \<longleftrightarrow> m \<in> set (MachinesNeedingRollout L c)"
    if "m \<in> set (cp_Machines c)" for m
    using inj_on_image_mem_iff[OF inj that sub] .
  then show ?thesis unfolding set_eq_iff UpToDateMachines_set by blast
qed

lemma MachineInFailureDomain_mem:
  assumes "oldest_laws L" "MachineInFailureDomainWithMostMachines L c ms = Some (Inr m)"
  shows "m \<in> set ms"
  using assms
  by (auto simp: MachineInFailureDomainWithMostMachines_def split: option.splits dest: oldest_in)

lemma FailureDomainWithMostMachines_total:
  assumes "oldest_laws L"
  obtains fd where "FailureDomainWithMostMachines L c ms = Some fd"
  using assms oldest_None[OF assms]
  by (fastforce simp: FailureDomainWithMostMachines_def Let_def split: if_splits option.splits)

lemma getInfraResources_emits [THEN emits_mono, go_intros]: "emits reads (getInfraResources E ms result)"
  by (induction ms arbitrary: result) (auto intro!: go_intros)

lemma getKThreesConfigs_emits [THEN emits_mono, go_intros]: "emits reads (getKThreesConfigs E ms result)"
  by (induction ms arbitrary: result) (auto intro!: go_intros)

lemma newPatchHelpers_emits [go_intros]: "emits S (newPatchHelpers E ms hs)"
  by (induction ms arbitrary: hs) (auto intro!: go_intros)

lemma NewControlPlane_emits [THEN emits_mono, go_intros]: "emits reads (NewControlPlane E cl kcp ms)"
  by (auto simp: NewControlPlane_def intro!: go_intros)

lemma newPatchHelpers_names:
  "newPatchHelpers E ms hs h = (Some (Inr hs'), h') \<Longrightarrow> hs' = hs @ map ma_Name ms"
proof (induction ms arbitrary: hs h)
  case (Cons m ms)
  then show ?case by (fastforce simp: go_runs split: option.splits)
qed (simp add: go_runs)

lemma NewControlPlane_fields:
  assumes "NewControlPlane E cluster kcp ms h = (Some (Inr cp), h')"
  shows "cp_KCP cp = kcp" "cp_Cluster cp = cluster" "cp_Machines cp = ms"
    "cp_machinesPatchHelpers cp = map ma_Name ms"
  using assms
  by (auto simp: NewControlPlane_def go_runs split: prod.splits option.splits sum.splits if_splits
      dest: newPatchHelpers_names)

lemma emits_PatchMachines [go_intros]: "emits (PatchMachine ` set (cp_Machines c)) (PatchMachines E c)"
  by (auto simp: PatchMachines_def intro!: go_intros)

lemma cp_upd_simps [simp]:
  "cp_KCP (cp_upd c n f) = cp_KCP c" "cp_Cluster (cp_upd c n f) = cp_Cluster c"
  "cp_hasEtcdCA (cp_upd c n f) = cp_hasEtcdCA c" "cp_Machines (cp_upd c n f) = upd_machine n f (cp_Machines c)"
  "IsEtcdManaged (cp_upd c n f) = IsEtcdManaged c"
  by (simp_all add: cp_upd_def IsEtcdManaged_def)

end
