(* ===== verification/EtcdMembers.thy ===== *)
theory EtcdMembers
  imports Client
begin

text \<open>
  \<^verbatim>\<open>pkg/etcd/etcd.go\<close>, \<^verbatim>\<open>pkg/etcd/util/util.go\<close> and
  \<^verbatim>\<open>pkg/k3s/etcd_client_generator.go\<close>: the etcd client, the relation between etcd
  members and nodes, and the choice of the node through which etcd is reached. The
  generator caches the proxy pods by node; the cache is passed along explicitly. A Go
  result \<^verbatim>\<open>(*Client, error)\<close> is a pair of options, so that the result
  \<^verbatim>\<open>nil, nil\<close> exists and has to be excluded by proof.
\<close>

section \<open>The client\<close>

type_synonym AlarmType = int32

definition AlarmOK :: AlarmType where "AlarmOK = 0"
definition AlarmNoSpace :: AlarmType where "AlarmNoSpace = 1"
definition AlarmCorrupt :: AlarmType where "AlarmCorrupt = 2"

definition AlarmTypeName :: "AlarmType \<rightharpoonup> string" where
  "AlarmTypeName = [AlarmOK \<mapsto> ''NONE'', AlarmNoSpace \<mapsto> ''NOSPACE'', AlarmCorrupt \<mapsto> ''CORRUPT'']"

record MemberAlarm =
  al_MemberID :: uint64
  al_Type :: AlarmType

record Member =
  em_ClusterID :: uint64
  em_ID :: uint64
  em_Name :: string
  em_PeerURLs :: "string list"
  em_ClientURLs :: "string list"
  em_IsLearner :: bool
  em_Alarms :: "AlarmType list"

text \<open>The endpoint of a client is the proxy pod it dials.\<close>

record EtcdClient =
  ec_Endpoint :: string
  ec_LeaderID :: uint64
  ec_Errors :: "string list"

definition pbMemberToMember :: "PbMember \<Rightarrow> Member" where
  "pbMemberToMember m =
     \<lparr>em_ClusterID = 0, em_ID = pm_ID m, em_Name = pm_Name m, em_PeerURLs = pm_PeerURLs m,
      em_ClientURLs = pm_ClientURLs m, em_IsLearner = pm_IsLearner m, em_Alarms = []\<rparr>"

definition Close :: "env \<Rightarrow> EtcdClient \<Rightarrow> (call, goerr option) go" where
  "Close E c = do_write E (EtcdClose (ec_Endpoint c))"

definition newEtcdClient :: "env \<Rightarrow> string list \<Rightarrow> (call, goerr + EtcdClient) go" where
  "newEtcdClient E endpoints =
     (case endpoints of
        [] \<Rightarrow> ret (Inl (Msg ''etcd client was not configured with any endpoints''))
      | endpoint # _ \<Rightarrow>
     bnd (api E e_status (EtcdStatus endpoint)) (\<lambda>r. case r of
       Inl err \<Rightarrow> ret (Inl (Wrap ''failed to get etcd status'' err))
     | Inr (leader, errors) \<Rightarrow>
         ret (Inr \<lparr>ec_Endpoint = endpoint, ec_LeaderID = leader, ec_Errors = errors\<rparr>)))"

text \<open>The dialer and the gRPC client are created without sending anything; the client is
  configured with the one endpoint.\<close>

definition NewClient :: "env \<Rightarrow> string \<Rightarrow> (call, goerr + EtcdClient) go" where
  "NewClient E endpoint =
     bnd (new_helper E ''etcd dialer'') (\<lambda>e. case e of
       Some err \<Rightarrow> ret (Inl (Wrap ''unable to create a dialer for etcd client'' err))
     | None \<Rightarrow>
     bnd (new_helper E ''etcd client'') (\<lambda>e. case e of
       Some err \<Rightarrow> ret (Inl (Wrap ''unable to create etcd client'' err))
     | None \<Rightarrow>
     bnd (newEtcdClient E [endpoint]) (\<lambda>r. case r of
       Inl err \<Rightarrow>
         bnd (do_write E (EtcdClose endpoint)) (\<lambda>closeErr.
           ret (Inl (case NewAggregate [Some err, closeErr] of
                       Some agg \<Rightarrow> Wrap ''unable to create etcd client'' agg
                     | None \<Rightarrow> err)))
     | Inr client \<Rightarrow> ret (Inr client))))"

definition Alarms :: "env \<Rightarrow> EtcdClient \<Rightarrow> (call, goerr + MemberAlarm list) go" where
  "Alarms E c =
     bnd (api E e_alarms (EtcdAlarmList (ec_Endpoint c))) (\<lambda>r. case r of
       Inl err \<Rightarrow> ret (Inl (Wrap ''failed to get alarms for etcd cluster'' err))
     | Inr as \<Rightarrow> ret (Inr (map (\<lambda>(i, t). \<lparr>al_MemberID = i, al_Type = t\<rparr>) as)))"

definition memberWithAlarms :: "uint64 \<Rightarrow> MemberAlarm list \<Rightarrow> PbMember \<Rightarrow> Member" where
  "memberWithAlarms clusterID alarms m =
     (pbMemberToMember m)\<lparr>em_ClusterID := clusterID,
        em_Alarms := map al_Type (filter (\<lambda>a. al_MemberID a = pm_ID m) alarms)\<rparr>"

definition Members :: "env \<Rightarrow> EtcdClient \<Rightarrow> (call, goerr + Member list) go" where
  "Members E c =
     bnd (api E e_members (EtcdMemberList (ec_Endpoint c))) (\<lambda>r. case r of
       Inl err \<Rightarrow> ret (Inl (Wrap ''failed to get list of members for etcd cluster'' err))
     | Inr (clusterID, ms) \<Rightarrow>
         bnd (Alarms E c) (\<lambda>r. case r of
           Inl err \<Rightarrow> ret (Inl err)
         | Inr alarms \<Rightarrow> ret (Inr (map (memberWithAlarms clusterID alarms) ms))))"

definition MoveLeader :: "env \<Rightarrow> EtcdClient \<Rightarrow> uint64 \<Rightarrow> (call, goerr option) go" where
  "MoveLeader E c newLeaderID =
     bnd (do_write E (EtcdMoveLeader (ec_Endpoint c) newLeaderID))
      (\<lambda>e. ret (map_option (Wrap ''failed to move etcd leader'') e))"

definition RemoveMember :: "env \<Rightarrow> EtcdClient \<Rightarrow> uint64 \<Rightarrow> (call, goerr option) go" where
  "RemoveMember E c i =
     bnd (do_write E (EtcdMemberRemove (ec_Endpoint c) i))
      (\<lambda>e. ret (map_option (Wrap ''failed to remove member'') e))"

definition UpdateMemberPeerURLs :: "env \<Rightarrow> EtcdClient \<Rightarrow> uint64 \<Rightarrow> string list \<Rightarrow> (call, goerr + Member list) go" where
  "UpdateMemberPeerURLs E c i peerURLs =
     bnd (api E e_members (EtcdMemberUpdate (ec_Endpoint c) i peerURLs)) (\<lambda>r. case r of
       Inl err \<Rightarrow> ret (Inl (Wrap ''failed to update the peer list of an etcd member'' err))
     | Inr (_, ms) \<Rightarrow> ret (Inr (map pbMemberToMember ms)))"

section \<open>Members and nodes\<close>

definition NodeNameFromMember :: "Member \<Rightarrow> string" where
  "NodeNameFromMember member =
     (let lastIndex = LastIndex (em_Name member) CHR ''-''
      in if lastIndex \<noteq> -1 then take (nat lastIndex) (em_Name member) else em_Name member)"

definition MemberForName :: "Member list \<Rightarrow> string \<Rightarrow> Member option" where
  "MemberForName members name = List.find (\<lambda>m. NodeNameFromMember m = name) members"

definition MemberNames :: "Member list \<Rightarrow> string list" where
  "MemberNames members = map NodeNameFromMember members"

definition MemberEqual :: "Member list \<Rightarrow> Member list \<Rightarrow> bool" where
  "MemberEqual members1 members2 = (set (MemberNames members1) = set (MemberNames members2))"

section \<open>The client generator\<close>

type_synonym podmap = "(string \<rightharpoonup> string) option"

definition errEtcdNodeConnection :: string where
  "errEtcdNodeConnection = ''failed to connect to etcd node''"

definition findEtcdProxyPod :: "env \<Rightarrow> podmap \<Rightarrow> string \<Rightarrow> (call, podmap \<times> (goerr + string)) go" where
  "findEtcdProxyPod E pm nodeName =
     bnd (case pm of
            Some _ \<Rightarrow> ret (Inr pm)
          | None \<Rightarrow>
              bnd (new_helper E ''kubernetes client'') (\<lambda>e. case e of
                Some err \<Rightarrow> ret (Inl (Wrap ''unable to create client to target cluster'' err))
              | None \<Rightarrow>
              bnd (api E e_pods WListEtcdProxyPods) (\<lambda>r. case r of
                Inl err \<Rightarrow> ret (Inl (Wrap ''unable to list etcd-proxy pods in target cluster'' err))
              | Inr pods \<Rightarrow>
                  if length pods = 0 then ret (Inl (Msg ''there isn't any etcd-proxy pods in target cluster''))
                  else ret (Inr (Some (map_of (rev pods)))))))
      (\<lambda>r. case r of
         Inl err \<Rightarrow> ret (pm, Inl err)
       | Inr pm' \<Rightarrow>
           ret (pm', (case (case pm' of None \<Rightarrow> None | Some f \<Rightarrow> f nodeName) of
                        None \<Rightarrow> Inl (Msg ''unable to find etcd proxy pod for node'')
                      | Some podName \<Rightarrow> Inr podName)))"

text \<open>A Go result of a pointer and an error.\<close>

type_synonym clientResult = "podmap \<times> EtcdClient option \<times> goerr option"

primrec firstAvailable :: "env \<Rightarrow> podmap \<Rightarrow> goerr option list \<Rightarrow> string list \<Rightarrow> (call, clientResult) go" where
  "firstAvailable E pm errs [] =
     ret (pm, None, map_option (Wrap ''could not establish a connection to any etcd node'') (NewAggregate errs))"
| "firstAvailable E pm errs (name # names) =
     bnd (findEtcdProxyPod E pm name) (\<lambda>(pm1, r). case r of
       Inl err \<Rightarrow> firstAvailable E pm1 (errs @ [Some err]) names
     | Inr podName \<Rightarrow>
         bnd (NewClient E podName) (\<lambda>r. case r of
           Inl err \<Rightarrow> firstAvailable E None (errs @ [Some err]) names
         | Inr client \<Rightarrow> ret (pm1, Some client, None)))"

definition forFirstAvailableNode :: "env \<Rightarrow> podmap \<Rightarrow> string list \<Rightarrow> (call, clientResult) go" where
  "forFirstAvailableNode E pm nodeNames =
     (if nodeNames = []
      then ret (pm, None, Some (Msg ''invalid argument: forLeader can't be called with an empty list of nodes''))
      else firstAvailable E pm [] nodeNames)"

text \<open>The part of \<open>getLeaderClient\<close> between the temporary client and its deferred
  \<^verbatim>\<open>Close\<close>.\<close>

definition clientOfLeader :: "env \<Rightarrow> podmap \<Rightarrow> EtcdClient \<Rightarrow> string set \<Rightarrow> (call, clientResult) go" where
  "clientOfLeader E pm client allNodes =
     bnd (Members E client) (\<lambda>r. case r of
       Inl err \<Rightarrow> ret (pm, None, NewAggregate [Some err, Some (Sentinel errEtcdNodeConnection)])
     | Inr members \<Rightarrow>
         (case List.find (\<lambda>m. em_ID m = ec_LeaderID client) members of
            Some leaderMember \<Rightarrow>
              (let nodeName = NodeNameFromMember leaderMember
               in if nodeName \<notin> allNodes
                  then ret (pm, None, Some (Msg ''etcd leader without a corresponding Node in the cluster''))
                  else forFirstAvailableNode E pm [nodeName])
          | None \<Rightarrow> ret (pm, None, Some (Msg ''etcd leader without any matching member''))))"

definition getLeaderClient :: "env \<Rightarrow> podmap \<Rightarrow> string \<Rightarrow> string set \<Rightarrow> (call, clientResult) go" where
  "getLeaderClient E pm nodeName allNodes =
     bnd (forFirstAvailableNode E pm [nodeName]) (\<lambda>(pm, c, err). case err of
       Some err \<Rightarrow> ret (pm, None, NewAggregate [Some err, Some (Sentinel errEtcdNodeConnection)])
     | None \<Rightarrow>
         bnd (deref c) (\<lambda>client.
         bnd (clientOfLeader E pm client allNodes) (\<lambda>result.
         bnd (Close E client) (\<lambda>_. ret result))))"

primrec leaderLoop ::
  "env \<Rightarrow> string set \<Rightarrow> podmap \<Rightarrow> goerr option list \<Rightarrow> string list \<Rightarrow> (call, clientResult) go" where
  "leaderLoop E nodes pm errs [] =
     ret (pm, None, map_option (Wrap ''could not establish a connection to the etcd leader'') (NewAggregate errs))"
| "leaderLoop E nodes pm errs (nodeName # names) =
     bnd (getLeaderClient E pm nodeName nodes) (\<lambda>(pm, cl, err). case err of
       Some err \<Rightarrow>
         if is_sentinel err errEtcdNodeConnection then leaderLoop E nodes pm (errs @ [Some err]) names
         else ret (pm, None, Some err)
     | None \<Rightarrow> ret (pm, cl, None))"

definition forLeader :: "env \<Rightarrow> podmap \<Rightarrow> string list \<Rightarrow> (call, clientResult) go" where
  "forLeader E pm nodeNames =
     (if nodeNames = []
      then ret (pm, None, Some (Msg ''invalid argument: forLeader can't be called with an empty list of nodes''))
      else leaderLoop E (set nodeNames) pm [] nodeNames)"

text \<open>The interface \<^verbatim>\<open>etcdClientFor\<close> of workload\_cluster.go, and the generator as its
  implementation.\<close>

record etcdClientFor =
  ForFirstAvailableNode :: "podmap \<Rightarrow> string list \<Rightarrow> (call, clientResult) go"
  ForLeader :: "podmap \<Rightarrow> string list \<Rightarrow> (call, clientResult) go"

definition NewEtcdClientGenerator :: "env \<Rightarrow> etcdClientFor" where
  "NewEtcdClientGenerator E =
     \<lparr>ForFirstAvailableNode = forFirstAvailableNode E, ForLeader = forLeader E\<rparr>"

section \<open>The contract of the interface\<close>

text \<open>Exactly one of client and error: what every caller relies on when it uses the client
  after the error was nil.\<close>

definition client_xor_error :: "clientResult \<Rightarrow> bool" where
  "client_xor_error r = ((fst (snd r) \<noteq> None) = (snd (snd r) = None))"

locale etcd_client_for =
  fixes G :: etcdClientFor
  assumes first_reads: "emits reads (ForFirstAvailableNode G pm names)"
    and leader_reads: "emits reads (ForLeader G pm names)"
    and first_xor: "ForFirstAvailableNode G pm names h = (Some r, h') \<Longrightarrow> client_xor_error r"
    and leader_xor: "ForLeader G pm names h = (Some r, h') \<Longrightarrow> client_xor_error r"
    and first_total: "nopanic (ForFirstAvailableNode G pm names)"
    and leader_total: "nopanic (ForLeader G pm names)"
    and first_empty: "ForFirstAvailableNode G pm [] h = (Some (pm', Some c, e), h') \<Longrightarrow> False"
    and leader_empty: "ForLeader G pm [] h = (Some (pm', Some c, e), h') \<Longrightarrow> False"
begin

text \<open>A client operation after a successful connection: the client is there, so
  dereferencing it cannot panic.\<close>

lemma leader_client:
  assumes "ForLeader G pm names h = (Some (pm', c, None), h')"
  obtains client where "c = Some client"
  using leader_xor[OF assms] by (auto simp: client_xor_error_def)

lemma first_client:
  assumes "ForFirstAvailableNode G pm names h = (Some (pm', c, None), h')"
  obtains client where "c = Some client"
  using first_xor[OF assms] by (auto simp: client_xor_error_def)

end

section \<open>The generator keeps the contract\<close>

lemma etcd_reads [THEN emits_mono, go_intros]:
  "emits reads (Close E c)" "emits reads (newEtcdClient E es)" "emits reads (NewClient E p)"
  "emits reads (Alarms E c)" "emits reads (Members E c)" "emits reads (findEtcdProxyPod E pm n)"
proof -
  show n: "emits reads (newEtcdClient E es)" for es by (auto simp: newEtcdClient_def split: list.splits intro!: go_intros)
  show "emits reads (Close E c)" by (auto simp: Close_def intro!: go_intros)
  show "emits reads (NewClient E p)" by (auto simp: NewClient_def intro!: go_intros n)
  show a: "emits reads (Alarms E c)" by (auto simp: Alarms_def intro!: go_intros)
  show "emits reads (Members E c)" by (auto simp: Members_def intro!: go_intros a)
  show "emits reads (findEtcdProxyPod E pm n)" by (auto simp: findEtcdProxyPod_def intro!: go_intros)
qed

lemma firstAvailable_reads [THEN emits_mono, go_intros]: "emits reads (firstAvailable E pm errs names)"
  by (induction names arbitrary: pm errs) (auto intro!: go_intros)

lemma forFirstAvailableNode_reads [THEN emits_mono, go_intros]: "emits reads (forFirstAvailableNode E pm names)"
  by (auto simp: forFirstAvailableNode_def intro!: go_intros)

lemma clientOfLeader_reads [THEN emits_mono, go_intros]: "emits reads (clientOfLeader E pm c ns)"
  by (auto simp: clientOfLeader_def intro!: go_intros)

lemma getLeaderClient_reads [THEN emits_mono, go_intros]: "emits reads (getLeaderClient E pm n ns)"
  by (auto simp: getLeaderClient_def intro!: go_intros)

lemma leaderLoop_reads [THEN emits_mono, go_intros]: "emits reads (leaderLoop E ns pm errs names)"
  by (induction names arbitrary: pm errs) (auto intro!: go_intros)

lemma forLeader_reads [THEN emits_mono, go_intros]: "emits reads (forLeader E pm names)"
  by (auto simp: forLeader_def intro!: go_intros)

lemma firstAvailable_xor: "errs \<noteq> [] \<or> names \<noteq> [] \<Longrightarrow> None \<notin> set errs \<Longrightarrow> returns (firstAvailable E pm errs names) client_xor_error"
proof (induction names arbitrary: pm errs)
  case Nil
  then have "NewAggregate errs \<noteq> None" by (cases errs) auto
  then show ?case by (auto simp: client_xor_error_def intro!: go_intros)
next
  case (Cons n ns)
  then show ?case by (auto simp: client_xor_error_def intro!: go_intros)
qed

lemma forFirstAvailableNode_xor: "returns (forFirstAvailableNode E pm names) client_xor_error"
  by (auto simp: forFirstAvailableNode_def client_xor_error_def intro!: go_intros firstAvailable_xor)

lemma clientOfLeader_xor: "returns (clientOfLeader E pm c ns) client_xor_error"
  unfolding clientOfLeader_def
  by (intro go_intros forFirstAvailableNode_xor) (auto simp: client_xor_error_def)

lemma getLeaderClient_xor: "returns (getLeaderClient E pm n ns) client_xor_error"
proof -
  have "returns (bnd (clientOfLeader E pm client ns) (\<lambda>result. bnd (Close E client) (\<lambda>_. ret result)))
          client_xor_error" for pm client
    by (rule returns_bnd[OF clientOfLeader_xor]) (intro go_intros)
  then show ?thesis
    unfolding getLeaderClient_def
    by (intro returns_bnd_any[where m = "forFirstAvailableNode E pm [n]"] returns_bnd_any[where m = "deref c" for c]
          returns_cases returns_intros)
      (auto simp: client_xor_error_def)
qed

lemma leaderLoop_xor: "errs \<noteq> [] \<or> names \<noteq> [] \<Longrightarrow> None \<notin> set errs \<Longrightarrow> returns (leaderLoop E ns pm errs names) client_xor_error"
proof (induction names arbitrary: pm errs)
  case Nil
  then have "NewAggregate errs \<noteq> None" by (cases errs) auto
  then show ?case by (auto simp: client_xor_error_def intro!: go_intros)
next
  case (Cons n names)
  show ?case
    unfolding leaderLoop.simps
    by (rule returns_bnd[OF getLeaderClient_xor]) (use Cons in \<open>auto simp: client_xor_error_def intro!: go_intros\<close>)
qed

lemma forLeader_xor: "returns (forLeader E pm names) client_xor_error"
  by (auto simp: forLeader_def client_xor_error_def intro!: go_intros leaderLoop_xor)

lemma etcd_total [go_intros]:
  "nopanic (Close E c)" "nopanic (newEtcdClient E es)" "nopanic (NewClient E p)"
  "nopanic (Alarms E c)" "nopanic (Members E c)" "nopanic (findEtcdProxyPod E pm n)"
proof -
  show n: "nopanic (newEtcdClient E es)" for es by (auto simp: newEtcdClient_def split: list.splits intro!: go_intros)
  show "nopanic (Close E c)" by (auto simp: Close_def intro!: go_intros)
  show "nopanic (NewClient E p)" by (auto simp: NewClient_def intro!: go_intros n)
  show a: "nopanic (Alarms E c)" by (auto simp: Alarms_def intro!: go_intros)
  show "nopanic (Members E c)" by (auto simp: Members_def intro!: go_intros a)
  show "nopanic (findEtcdProxyPod E pm n)" by (auto simp: findEtcdProxyPod_def intro!: go_intros)
qed

lemma firstAvailable_total [go_intros]: "nopanic (firstAvailable E pm errs names)"
  by (induction names arbitrary: pm errs) (auto intro!: go_intros)

lemma forFirstAvailableNode_total [go_intros]: "nopanic (forFirstAvailableNode E pm names)"
  by (auto simp: forFirstAvailableNode_def intro!: go_intros)

text \<open>The dereference in \<open>getLeaderClient\<close> is safe because client and error exclude each other.\<close>

lemma clientOfLeader_total [go_intros]: "nopanic (clientOfLeader E pm c ns)"
  by (auto simp: clientOfLeader_def intro!: go_intros)

lemma getLeaderClient_total [go_intros]: "nopanic (getLeaderClient E pm n ns)"
  unfolding getLeaderClient_def
  by (rule nopanic_bnd[OF forFirstAvailableNode_total forFirstAvailableNode_xor])
    (auto simp: client_xor_error_def intro!: go_intros)

lemma leaderLoop_total [go_intros]: "nopanic (leaderLoop E ns pm errs names)"
  by (induction names arbitrary: pm errs) (auto intro!: go_intros)

lemma forLeader_total [go_intros]: "nopanic (forLeader E pm names)"
  by (auto simp: forLeader_def intro!: go_intros)

interpretation ecg: etcd_client_for "NewEtcdClientGenerator E" for E
proof
  fix pm names h h' r
  show "emits reads (ForFirstAvailableNode (NewEtcdClientGenerator E) pm names)"
    and "emits reads (ForLeader (NewEtcdClientGenerator E) pm names)"
    by (auto simp: NewEtcdClientGenerator_def intro!: go_intros)
  show "nopanic (ForFirstAvailableNode (NewEtcdClientGenerator E) pm names)"
    and "nopanic (ForLeader (NewEtcdClientGenerator E) pm names)"
    using forFirstAvailableNode_total forLeader_total by (auto simp: NewEtcdClientGenerator_def)
  show "client_xor_error r" if "ForFirstAvailableNode (NewEtcdClientGenerator E) pm names h = (Some r, h')"
    using that forFirstAvailableNode_xor by (auto simp: NewEtcdClientGenerator_def dest: returnsD)
  show "client_xor_error r" if "ForLeader (NewEtcdClientGenerator E) pm names h = (Some r, h')"
    using that forLeader_xor by (auto simp: NewEtcdClientGenerator_def dest: returnsD)
qed (simp_all add: NewEtcdClientGenerator_def forFirstAvailableNode_def forLeader_def go_runs)

section \<open>Members and nodes\<close>

text \<open>k3s names a member after its node, a dash and a suffix without dashes.\<close>

lemma NodeNameFromMember_suffix:
  assumes "em_Name m = node @ CHR ''-'' # suffix" "CHR ''-'' \<notin> set suffix"
  shows "NodeNameFromMember m = node"
  using assms by (simp add: NodeNameFromMember_def LastIndex_last Let_def)

lemma NodeNameFromMember_plain: "CHR ''-'' \<notin> set (em_Name m) \<Longrightarrow> NodeNameFromMember m = em_Name m"
  by (simp add: NodeNameFromMember_def LastIndex_absent Let_def)

lemma MemberForName_Some:
  "MemberForName ms n = Some m \<Longrightarrow> m \<in> set ms \<and> NodeNameFromMember m = n"
  by (auto simp: MemberForName_def find_Some_iff)

lemma MemberForName_None: "MemberForName ms n = None \<longleftrightarrow> n \<notin> set (MemberNames ms)"
  by (auto simp: MemberForName_def find_None_iff MemberNames_def)

end
