(* ===== verification/WorkloadCluster.thy ===== *)
theory WorkloadCluster
  imports ControlPlane EtcdMembers
begin

text \<open>
  \<^verbatim>\<open>pkg/k3s/workload_cluster.go\<close>, \<^verbatim>\<open>workload_cluster_etcd.go\<close> and
  \<^verbatim>\<open>management_cluster.go\<close>: what the control-plane controller does to the cluster it
  manages. The conditions of machines and control plane are updated from the nodes and from
  etcd; etcd members are removed and the leadership is moved.

  A \<open>Workload\<close> carries the etcd client generator (nil when the management cluster has no
  etcd CA, a call through it then panics) with the pod map the generator caches. The
  updated workload is returned with the result. A \<^verbatim>\<open>defer etcdClient.Close()\<close> is
  \<open>with_client\<close>.
\<close>

definition labelNodeRoleMaster :: string where "labelNodeRoleMaster = ''node-role.kubernetes.io/master''"
definition labelNodeRoleControlPlane :: string where
  "labelNodeRoleControlPlane = ''node-role.kubernetes.io/control-plane''"
definition k3sServingSecretKey :: string where "k3sServingSecretKey = ''k3s-serving''"
definition EtcdRemoveAnnotation :: string where "EtcdRemoveAnnotation = ''etcd.k3s.cattle.io/remove''"
definition EtcdRemovedNodeAnnotation :: string where
  "EtcdRemovedNodeAnnotation = ''etcd.k3s.cattle.io/removed-node-name''"
definition ErrControlPlaneMinNodes :: goerr where
  "ErrControlPlaneMinNodes =
     Sentinel ''cluster has fewer than 2 control plane nodes; removing an etcd member is not supported''"

section \<open>Reaching the workload cluster\<close>

record Workload =
  wl_gen :: "etcdClientFor option"
  wl_pods :: podmap

definition getEtcdCAKeyPair :: "env \<Rightarrow> ObjectKey \<Rightarrow> (call, goerr + string option \<times> string) go" where
  "getEtcdCAKeyPair E clusterKey =
     bnd (api E e_secret (GetSecret (fst clusterKey, snd clusterKey @ ''-etcd''))) (\<lambda>r. case r of
       Inl err \<Rightarrow> if IsNotFound err then ret (Inr (None, []))
                  else ret (Inl (Wrap ''failed to get secret; etcd CA bundle'' err))
     | Inr s \<Rightarrow>
        (case mget (s_Data s) ''tls.crt'' of
           None \<Rightarrow> ret (Inl (Msg ''etcd tls crt does not exist for cluster''))
         | Some crtData \<Rightarrow>
             ret (Inr (Some crtData, case mget (s_Data s) ''tls.key'' of None \<Rightarrow> [] | Some k \<Rightarrow> k))))"

text \<open>The client certificate for etcd, signed by the cluster's etcd authority. A bundle without
  a PEM block decodes to nil without an error; creating a certificate with a nil parent panics
  unless it fails before.\<close>

definition clientTemplate :: "time \<Rightarrow> CertTemplate" where
  "clientTemplate t =
     \<lparr>tp_SerialNumber = 0, tp_CommonName = ''cluster-api.x-k8s.io'', tp_Organization = [],
      tp_NotBefore = t + sint Minute * - 5, tp_NotAfter = t + sint Hour * 24 * 365 * 10,
      tp_KeyUsage = {KeyUsageDigitalSignature}, tp_ExtKeyUsage = [ExtKeyUsageClientAuth],
      tp_MaxPathLenZero = False, tp_BasicConstraintsValid = False, tp_MaxPathLen = 0, tp_IsCA = False\<rparr>"

definition newClientCert :: "env \<Rightarrow> string option \<Rightarrow> string \<Rightarrow> string option \<Rightarrow> (call, goerr + string) go" where
  "newClientCert E caCert key caKey =
     bnd (now E) (\<lambda>t.
     bnd (api E e_random (CreateCertificate (clientTemplate t) (Parent caCert) key caKey)) (\<lambda>r. case r of
       Inl err \<Rightarrow> ret (Inl (Wrap ''failed to create signed client certificate'' err))
     | Inr b \<Rightarrow>
         bnd (deref caCert) (\<lambda>_. ret (e_ParseCertificate E b))))"

definition generateClientCert :: "env \<Rightarrow> string \<Rightarrow> string \<Rightarrow> (call, goerr + string \<times> string) go" where
  "generateClientCert E caCertEncoded caKeyEncoded =
     bnd (api E e_random NewPrivateKey) (\<lambda>r. case r of
       Inl err \<Rightarrow> ret (Inl (Wrap ''error creating client key'' err))
     | Inr clientKey \<Rightarrow>
     (case e_DecodeCertPEM E caCertEncoded of
        Inl err \<Rightarrow> ret (Inl err)
      | Inr caCert \<Rightarrow>
     (case e_DecodePrivateKeyPEM E caKeyEncoded of
        Inl err \<Rightarrow> ret (Inl err)
      | Inr caKey \<Rightarrow>
     bnd (newClientCert E caCert clientKey caKey) (\<lambda>r. case r of
       Inl err \<Rightarrow> ret (Inl err)
     | Inr x509Cert \<Rightarrow>
         ret (case e_X509KeyPair E x509Cert clientKey of
                Some err \<Rightarrow> Inl err
              | None \<Rightarrow> Inr (x509Cert, clientKey))))))"

definition GetWorkloadCluster :: "env \<Rightarrow> ObjectKey \<Rightarrow> (call, goerr + Workload) go" where
  "GetWorkloadCluster E clusterKey =
     (let clusterName = fst clusterKey @ ''/'' @ snd clusterKey in
      bnd (do_write E (RESTConfig clusterKey)) (\<lambda>e. case e of
        Some err \<Rightarrow> ret (Inl (ConnErr clusterName err))
      | None \<Rightarrow>
      bnd (new_helper E ''workload cluster client'') (\<lambda>e. case e of
        Some err \<Rightarrow> ret (Inl (ConnErr clusterName err))
      | None \<Rightarrow>
      bnd (getEtcdCAKeyPair E clusterKey) (\<lambda>r. case r of
        Inl err \<Rightarrow> ret (Inl err)
      | Inr (None, _) \<Rightarrow> ret (Inr \<lparr>wl_gen = None, wl_pods = None\<rparr>)
      | Inr (Some crtData, keyData) \<Rightarrow>
          bnd (generateClientCert E crtData keyData) (\<lambda>r. case r of
            Inl err \<Rightarrow> ret (Inl err)
          | Inr clientCert \<Rightarrow> ret (Inr \<lparr>wl_gen = Some (NewEtcdClientGenerator E), wl_pods = None\<rparr>))))))"

definition GetMachinesForCluster ::
  "env \<Rightarrow> ObjectKey \<Rightarrow> (Machine \<Rightarrow> bool) list \<Rightarrow> (call, goerr + Machine list) go" where
  "GetMachinesForCluster E cluster filters =
     bnd (api E e_machines (ListMachines (fst cluster) (snd cluster))) (\<lambda>r. case r of
       Inl err \<Rightarrow> ret (Inl (Wrap ''failed to list machines'' err))
     | Inr ms \<Rightarrow> ret (Inr (MFilter filters ms)))"

text \<open>Connections through the generator of a workload.\<close>

type_synonym wlClient = "Workload \<times> EtcdClient option \<times> goerr option"

definition wlFirst :: "Workload \<Rightarrow> string list \<Rightarrow> (call, wlClient) go" where
  "wlFirst w names =
     bnd (deref (wl_gen w)) (\<lambda>G. bnd (ForFirstAvailableNode G (wl_pods w) names)
       (\<lambda>(pm, c, err). ret (w\<lparr>wl_pods := pm\<rparr>, c, err)))"

definition wlLeader :: "Workload \<Rightarrow> string list \<Rightarrow> (call, wlClient) go" where
  "wlLeader w names =
     bnd (deref (wl_gen w)) (\<lambda>G. bnd (ForLeader G (wl_pods w) names)
       (\<lambda>(pm, c, err). ret (w\<lparr>wl_pods := pm\<rparr>, c, err)))"

definition with_client ::
  "env \<Rightarrow> (call, wlClient) go \<Rightarrow> (Workload \<Rightarrow> goerr \<Rightarrow> (call, 'a) go) \<Rightarrow> (Workload \<Rightarrow> EtcdClient \<Rightarrow> (call, 'a) go) \<Rightarrow> (call, 'a) go" where
  "with_client E conn onerr body =
     bnd conn (\<lambda>(w, c, err). case err of
       Some e \<Rightarrow> onerr w e
     | None \<Rightarrow> bnd (deref c) (\<lambda>client. bnd (body w client) (\<lambda>r. bnd (Close E client) (\<lambda>_. ret r))))"

section \<open>Nodes\<close>

definition hasControlPlaneRoleLabel :: "gomap \<Rightarrow> bool" where
  "hasControlPlaneRoleLabel labels =
     (case labels of None \<Rightarrow> False
      | Some f \<Rightarrow> f labelNodeRoleMaster \<noteq> None \<or> f labelNodeRoleControlPlane \<noteq> None)"

definition getControlPlaneNodes :: "env \<Rightarrow> (call, goerr + Node list) go" where
  "getControlPlaneNodes E =
     bnd (api E e_nodes WListNodes) (\<lambda>r. case r of
       Inl err \<Rightarrow> ret (Inl err)
     | Inr nodes \<Rightarrow> ret (Inr (filter (\<lambda>n. hasControlPlaneRoleLabel (om_Labels (n_Meta n))) nodes)))"

record ClusterStatus =
  cs_Nodes :: int32
  cs_ReadyNodes :: int32
  cs_HasK3sServingSecret :: bool

definition ClusterStatus_of :: "env \<Rightarrow> lib \<Rightarrow> (call, goerr + ClusterStatus) go" where
  "ClusterStatus_of E L =
     bnd (getControlPlaneNodes E) (\<lambda>r. case r of
       Inl err \<Rightarrow> ret (Inl err)
     | Inr nodes \<Rightarrow>
        bnd (api E e_secret (WGetSecret (''kube-system'', k3sServingSecretKey))) (\<lambda>s.
          ret (Inr \<lparr>cs_Nodes = of_nat (length nodes),
                    cs_ReadyNodes = of_nat (length (filter (IsNodeReady L) nodes)),
                    cs_HasK3sServingSecret = (case s of Inl _ \<Rightarrow> False | Inr _ \<Rightarrow> True)\<rparr>)))"

definition hasProvisioningMachine :: "Machine list \<Rightarrow> bool" where
  "hasProvisioningMachine machines = (\<exists>m\<in>set machines. ma_NodeRef m = None)"

definition nodeHasUnreachableTaint :: "Node \<Rightarrow> bool" where
  "nodeHasUnreachableTaint node =
     (\<exists>t\<in>set (n_Taints node). t_Key t = ''node.kubernetes.io/unreachable'' \<and> t_Effect t = ''NoExecute'')"

text \<open>The machine of a node: the first, and the last, that a range over the machines meets.\<close>

definition machineForNode :: "ControlPlane \<Rightarrow> string \<Rightarrow> Machine option" where
  "machineForNode cp n = List.find (\<lambda>m. ma_NodeRef m = Some n) (cp_Machines cp)"
definition lastMachineForNode :: "ControlPlane \<Rightarrow> string \<Rightarrow> Machine option" where
  "lastMachineForNode cp n = List.find (\<lambda>m. ma_NodeRef m = Some n) (rev (cp_Machines cp))"

definition setCond :: "lib \<Rightarrow> ControlPlane \<Rightarrow> Machine \<Rightarrow> Condition \<Rightarrow> ControlPlane" where
  "setCond L cp m c = cp_upd cp (ma_Name m) (\<lambda>x. ma_SetCond L x c)"

definition setCondAll :: "lib \<Rightarrow> ControlPlane \<Rightarrow> Condition \<Rightarrow> ControlPlane" where
  "setCondAll L cp c = cp\<lparr>cp_Machines := map (\<lambda>m. ma_SetCond L m c) (cp_Machines cp)\<rparr>"

definition updKCP :: "(KThreesControlPlane \<Rightarrow> KThreesControlPlane) \<Rightarrow> ControlPlane \<Rightarrow> ControlPlane" where
  "updKCP f cp = cp\<lparr>cp_KCP := f (cp_KCP cp)\<rparr>"

section \<open>Aggregation of machine conditions\<close>

definition machinesWith :: "lib \<Rightarrow> ConditionStatus \<Rightarrow> string list \<Rightarrow> Machine list \<Rightarrow> string list" where
  "machinesWith L st conds ms =
     sorted_names (map ma_Name (filter (\<lambda>m. \<exists>t\<in>set conds.
        (case ma_GetCond L m t of None \<Rightarrow> False | Some c \<Rightarrow> c_Status c = st)) ms))"

definition aggregateFromMachinesToKCP ::
  "lib \<Rightarrow> ControlPlane \<Rightarrow> string list \<Rightarrow> string list \<Rightarrow> string \<Rightarrow> string \<Rightarrow> string \<Rightarrow> string \<Rightarrow> ControlPlane" where
  "aggregateFromMachinesToKCP L cp machineConditions kcpErrors condition unhealthyReason unknownReason note =
     (let kcpMachinesWithInfo = ([] :: string list);
          kcpMachinesWithTrue = machinesWith L CTrue machineConditions (cp_Machines cp);
          kcpMachinesWithFalse = machinesWith L CFalse machineConditions (cp_Machines cp);
          kcpMachinesWithUnknown = machinesWith L CUnknown machineConditions (cp_Machines cp);
          kcpErrors = (if length kcpMachinesWithFalse > 0
                       then kcpErrors @ [''Following machines are reporting '' @ note @ '' false: '' @
                                          Join kcpMachinesWithFalse '', '']
                       else kcpErrors)
      in if length kcpErrors > 0
         then updKCP (\<lambda>p. kp_MarkFalse L p condition unhealthyReason SevError
                (''errors found: '' @ Join kcpErrors ''; '')) cp
         else if length kcpMachinesWithInfo > 0
         then updKCP (\<lambda>p. kp_MarkFalse L p condition unhealthyReason SevWarning
                (''Following machines are reporting '' @ note @ '' info: '' @ Join kcpMachinesWithInfo '', '')) cp
         else if length kcpMachinesWithTrue > 0
         then updKCP (\<lambda>p. kp_MarkTrue L p condition) cp
         else if length kcpMachinesWithUnknown > 0
         then updKCP (\<lambda>p. kp_MarkUnknown L p condition unknownReason
                (''Following machines are reporting unknown '' @ note @ '' status: '' @ Join kcpMachinesWithUnknown '', '')) cp
         else cp)"

section \<open>Conditions of the agents\<close>

text \<open>One node; \<open>None\<close> for the errors means that the function returned from inside the loop.\<close>

definition agentNode ::
  "env \<Rightarrow> lib \<Rightarrow> Node \<Rightarrow> ControlPlane \<Rightarrow> string list \<Rightarrow> (call, ControlPlane \<times> string list option) go" where
  "agentNode E L node cp kcpErrors =
     (let agent = MachineAgentHealthyCondition in
      case machineForNode cp (n_Name node) of
        None \<Rightarrow>
          if hasProvisioningMachine (cp_Machines cp) then ret (cp, Some kcpErrors)
          else ret (cp, Some (kcpErrors @ [''Control plane node '' @ n_Name node @ '' does not have a corresponding machine'']))
      | Some machine \<Rightarrow>
          if ma_deleting machine
          then ret (setCond L cp machine (mkCond agent CFalse ''Deleting'' []), Some kcpErrors)
          else if nodeHasUnreachableTaint node
          then ret (setCond L cp machine (mkCond agent CUnknown ''PodInspectionFailed'' ''Node is unreachable''), Some kcpErrors)
          else
            bnd (api E e_node (WGetNode (''kube-system'', n_Name node))) (\<lambda>r. case r of
              Inl err \<Rightarrow>
                if IsNotFound err
                then ret (setCond L cp machine (mkCond agent CFalse ''PodMissing'' (''Node '' @ n_Name node @ '' is missing'')), None)
                else ret (setCond L cp machine (mkCond agent CUnknown ''PodInspectionFailed''
                            (''Failed to get node status: '' @ errText L err)), None)
            | Inr targetnode \<Rightarrow>
                ret (foldl (\<lambda>cp c. if c = (''Ready'', ''True'')
                              then setCond L cp machine (mkCond agent CTrue ''NodeReady'' []) else cp)
                       cp (n_Conditions targetnode), Some kcpErrors)))"

primrec agentNodes ::
  "env \<Rightarrow> lib \<Rightarrow> Node list \<Rightarrow> ControlPlane \<Rightarrow> string list \<Rightarrow> (call, ControlPlane \<times> string list option) go" where
  "agentNodes E L [] cp kcpErrors = ret (cp, Some kcpErrors)"
| "agentNodes E L (node # nodes) cp kcpErrors =
     bnd (agentNode E L node cp kcpErrors) (\<lambda>(cp, r). case r of
       None \<Rightarrow> ret (cp, None)
     | Some kcpErrors \<Rightarrow> agentNodes E L nodes cp kcpErrors)"

definition missingNodes :: "lib \<Rightarrow> Node list \<Rightarrow> ControlPlane \<Rightarrow> ControlPlane" where
  "missingNodes L nodes cp =
     cp\<lparr>cp_Machines := map (\<lambda>m. case ma_NodeRef m of
          None \<Rightarrow> m
        | Some n \<Rightarrow> if n \<in> n_Name ` set nodes then m
                    else ma_SetCond L m (mkCond MachineAgentHealthyCondition CFalse ''PodFailed'' ''Missing node''))
        (cp_Machines cp)\<rparr>"

definition UpdateAgentConditions :: "env \<Rightarrow> lib \<Rightarrow> ControlPlane \<Rightarrow> (call, ControlPlane) go" where
  "UpdateAgentConditions E L cp =
     bnd (getControlPlaneNodes E) (\<lambda>r. case r of
       Inl err \<Rightarrow>
         ret (updKCP (\<lambda>p. kp_MarkUnknown L p ControlPlaneComponentsHealthyCondition
                ''ControlPlaneComponentsInspectionFailed''
                ''Failed to list nodes which are hosting control plane components'')
              (setCondAll L cp (mkCond MachineAgentHealthyCondition CUnknown ''PodInspectionFailed''
                ''Failed to get the node which is hosting this component'')))
     | Inr nodes \<Rightarrow>
        bnd (agentNodes E L nodes cp []) (\<lambda>(cp, r). case r of
          None \<Rightarrow> ret cp
        | Some kcpErrors \<Rightarrow>
            ret (aggregateFromMachinesToKCP L (missingNodes L nodes cp) [MachineAgentHealthyCondition]
                   kcpErrors ControlPlaneComponentsHealthyCondition ''ControlPlaneComponentsUnhealthy''
                   ''ControlPlaneComponentsUnknown'' ''control plane'')))"

section \<open>Conditions of the etcd members\<close>

definition setEtcdCond :: "lib \<Rightarrow> ControlPlane \<Rightarrow> Machine \<Rightarrow> ConditionStatus \<Rightarrow> string \<Rightarrow> string \<Rightarrow> ControlPlane" where
  "setEtcdCond L cp m st reason msg = setCond L cp m (mkCond MachineEtcdMemberHealthyCondition st reason msg)"

definition getCurrentEtcdMembers ::
  "env \<Rightarrow> lib \<Rightarrow> Workload \<Rightarrow> ControlPlane \<Rightarrow> Machine \<Rightarrow> string \<Rightarrow> (call, Workload \<times> ControlPlane \<times> (goerr + Member list)) go" where
  "getCurrentEtcdMembers E L w cp machine nodeName =
     with_client E (wlFirst w [nodeName])
       (\<lambda>w err. ret (w, setEtcdCond L cp machine CFalse ''MemberInspectionFailed''
                  (''Failed to connect to the etcd pod on the '' @ nodeName @ '' node: '' @ errText L err),
                Inl (Wrap ''failed to get current etcd members'' err)))
       (\<lambda>w etcdClient.
          if length (ec_Errors etcdClient) > 0
          then ret (w, setEtcdCond L cp machine CFalse ''EtcdMemberUnhealthy''
                  (''Etcd member status reports errors: '' @ Join (ec_Errors etcdClient) '', ''),
                Inl (Msg ''failed to get current etcd members: etcd member status reports errors''))
          else bnd (Members E etcdClient) (\<lambda>r. case r of
            Inl _ \<Rightarrow> ret (w, setEtcdCond L cp machine CFalse ''EtcdMemberUnhealthy''
                  (''Failed get answer from the etcd member on the '' @ nodeName @ '' node''),
                Inl (Msg ''failed to get current etcd members: failed get answer from the etcd member''))
          | Inr currentMembers \<Rightarrow> ret (w, cp, Inr currentMembers)))"

text \<open>The baselines \<open>members\<close> and \<open>clusterID\<close> are those of the first node that reported them.\<close>

record etcdLoop =
  el_w :: Workload
  el_cp :: ControlPlane
  el_kcpErrors :: "string list"
  el_clusterID :: "uint64 option"
  el_members :: "Member list option"

definition etcdNode :: "env \<Rightarrow> lib \<Rightarrow> Node \<Rightarrow> etcdLoop \<Rightarrow> (call, etcdLoop) go" where
  "etcdNode E L node s =
     (let cp = el_cp s in
      case lastMachineForNode cp (n_Name node) of
        None \<Rightarrow>
          if hasProvisioningMachine (cp_Machines cp) then ret s
          else ret (s\<lparr>el_kcpErrors := el_kcpErrors s @
                      [''Control plane node '' @ n_Name node @ '' does not have a corresponding machine'']\<rparr>)
      | Some machine \<Rightarrow>
          if ma_deleting machine
          then ret (s\<lparr>el_cp := setEtcdCond L cp machine CFalse ''Deleting'' []\<rparr>)
          else
            bnd (getCurrentEtcdMembers E L (el_w s) cp machine (n_Name node)) (\<lambda>(w, cp, r).
              let s = s\<lparr>el_w := w, el_cp := cp\<rparr> in
              case r of
                Inl _ \<Rightarrow> ret s
              | Inr currentMembers \<Rightarrow>
                  (let members = (case el_members s of None \<Rightarrow> currentMembers | Some ms \<Rightarrow> ms);
                       s = s\<lparr>el_members := Some members\<rparr>
                   in if \<not> MemberEqual members currentMembers
                      then ret (s\<lparr>el_cp := setEtcdCond L cp machine CFalse ''EtcdMemberUnhealthy''
                             (''etcd member reports the cluster is composed by members '' @
                              fmt_list (MemberNames currentMembers) @
                              '', but all previously seen etcd members are reporting '' @
                              fmt_list (MemberNames members))\<rparr>)
                      else case MemberForName currentMembers (n_Name node) of
                        None \<Rightarrow> ret (s\<lparr>el_cp := setEtcdCond L cp machine CFalse ''EtcdMemberUnhealthy''
                             (''etcd member reports the cluster is composed by members '' @
                              fmt_list (MemberNames currentMembers) @ '', but the member itself ('' @
                              n_Name node @ '') is not included'')\<rparr>)
                      | Some member \<Rightarrow>
                          (let alarmList = map (\<lambda>a. case AlarmTypeName a of None \<Rightarrow> [] | Some t \<Rightarrow> t)
                                 (filter (\<lambda>a. a \<noteq> AlarmOK) (em_Alarms member))
                           in if length alarmList > 0
                              then ret (s\<lparr>el_cp := setEtcdCond L cp machine CFalse ''EtcdMemberUnhealthy''
                                     (''etcd member reports alarms: '' @ Join alarmList '', '')\<rparr>)
                              else
                                let clusterID = (case el_clusterID s of None \<Rightarrow> em_ClusterID member | Some i \<Rightarrow> i);
                                    s = s\<lparr>el_clusterID := Some clusterID\<rparr>
                                in if clusterID \<noteq> em_ClusterID member
                                   then ret (s\<lparr>el_cp := setEtcdCond L cp machine CFalse ''EtcdMemberUnhealthy''
                                          (''etcd member has cluster ID '' @ show_nat (unat (em_ClusterID member)) @
                                           '', but all previously seen etcd members have cluster ID '' @
                                           show_nat (unat clusterID))\<rparr>)
                                   else ret (s\<lparr>el_cp := setEtcdCond L cp machine CTrue ''EtcdMemberHealthy'' []\<rparr>)))))"

definition compareMachinesAndMembers ::
  "lib \<Rightarrow> ControlPlane \<Rightarrow> Member list option \<Rightarrow> string list \<Rightarrow> ControlPlane \<times> string list" where
  "compareMachinesAndMembers L cp members kcpErrors =
     (case members of
        None \<Rightarrow> (cp, kcpErrors)
      | Some members \<Rightarrow>
          (cp\<lparr>cp_Machines := map (\<lambda>m. case ma_NodeRef m of
                 None \<Rightarrow> m
               | Some n \<Rightarrow> if n \<in> set (MemberNames members) then m
                           else ma_SetCond L m (mkCond MachineEtcdMemberHealthyCondition CFalse
                                  ''EtcdMemberUnhealthy'' ''Missing etcd member''))
              (cp_Machines cp)\<rparr>,
           kcpErrors @
             map (\<lambda>member.
                let name = NodeNameFromMember member in
                ''etcd member '' @
                  (if name = [] then show_nat (unat (em_ID member)) @ '' (Name not yet assigned)'' else name) @
                  '' does not have a corresponding machine'')
               (filter (\<lambda>member. \<not> (\<exists>m\<in>set (cp_Machines cp). ma_NodeRef m = Some (NodeNameFromMember member))) members)))"

definition updateManagedEtcdConditions ::
  "env \<Rightarrow> lib \<Rightarrow> Workload \<Rightarrow> ControlPlane \<Rightarrow> (call, Workload \<times> ControlPlane) go" where
  "updateManagedEtcdConditions E L w cp =
     bnd (getControlPlaneNodes E) (\<lambda>r. case r of
       Inl err \<Rightarrow>
         ret (w, setCondAll L
                (updKCP (\<lambda>p. kp_MarkUnknown L p EtcdClusterHealthyCondition ''EtcdClusterInspectionFailed''
                   ''Failed to list nodes which are hosting the etcd members'') cp)
                (mkCond MachineEtcdMemberHealthyCondition CUnknown ''MemberInspectionFailed''
                   ''Failed to get the node which is hosting the etcd member''))
     | Inr nodes \<Rightarrow>
        bnd (foldG (etcdNode E L) nodes
              \<lparr>el_w = w, el_cp = cp, el_kcpErrors = [], el_clusterID = None, el_members = None\<rparr>) (\<lambda>s.
          let (cp, kcpErrors) = compareMachinesAndMembers L (el_cp s) (el_members s) (el_kcpErrors s)
          in ret (el_w s, aggregateFromMachinesToKCP L cp [MachineEtcdMemberHealthyCondition] kcpErrors
                   EtcdClusterHealthyCondition ''EtcdClusterUnhealthy'' ''EtcdClusterUnknown'' ''etcd member'')))"

definition UpdateEtcdConditions :: "env \<Rightarrow> lib \<Rightarrow> Workload \<Rightarrow> ControlPlane \<Rightarrow> (call, Workload \<times> ControlPlane) go" where
  "UpdateEtcdConditions E L w cp = updateManagedEtcdConditions E L w cp"

section \<open>Changing the etcd cluster\<close>

definition namesOfNodes :: "Node list \<Rightarrow> string list" where
  "namesOfNodes nodes = map n_Name nodes"

definition removeMemberForNonExistingNode ::
  "env \<Rightarrow> Workload \<Rightarrow> string \<Rightarrow> (call, Workload \<times> goerr option) go" where
  "removeMemberForNonExistingNode E w name =
     bnd (getControlPlaneNodes E) (\<lambda>r. case r of
       Inl err \<Rightarrow> ret (w, Some err)
     | Inr nodes \<Rightarrow>
        if length nodes < 2 then ret (w, Some ErrControlPlaneMinNodes)
        else
          with_client E (wlFirst w (filter (\<lambda>n. n \<noteq> name) (namesOfNodes nodes)))
            (\<lambda>w err. ret (w, Some (Wrap ''failed to create etcd client'' err)))
            (\<lambda>w etcdClient. bnd (Members E etcdClient) (\<lambda>r. case r of
               Inl err \<Rightarrow> ret (w, Some (Wrap ''failed to list etcd members using etcd client'' err))
             | Inr members \<Rightarrow>
                 (case MemberForName members name of
                    None \<Rightarrow> ret (w, None)
                  | Some member \<Rightarrow>
                      bnd (RemoveMember E etcdClient (em_ID member)) (\<lambda>e.
                        ret (w, map_option (Wrap ''failed to remove member from etcd'') e))))))"

text \<open>Which members are orphaned: a name, and no node of that name.\<close>

definition orphaned :: "string list \<Rightarrow> Member \<Rightarrow> bool" where
  "orphaned nodeNames member = (NodeNameFromMember member \<noteq> [] \<and> NodeNameFromMember member \<notin> set nodeNames)"

definition reconcileOne ::
  "env \<Rightarrow> string list \<Rightarrow> Member \<Rightarrow> Workload \<times> string list \<times> goerr option list \<Rightarrow>
    (call, Workload \<times> string list \<times> goerr option list) go" where
  "reconcileOne E nodeNames member s =
     (case s of (w, removedMembers, errs) \<Rightarrow>
        if \<not> orphaned nodeNames member then ret (w, removedMembers, errs)
        else bnd (removeMemberForNonExistingNode E w (NodeNameFromMember member)) (\<lambda>(w, e).
          ret (w, removedMembers @ [NodeNameFromMember member],
               case e of None \<Rightarrow> errs | Some _ \<Rightarrow> errs @ [e])))"

definition reconcileEtcdMember ::
  "env \<Rightarrow> Workload \<Rightarrow> string list \<Rightarrow> string \<Rightarrow> (call, Workload \<times> string list \<times> goerr option list) go" where
  "reconcileEtcdMember E w nodeNames nodeName =
     with_client E (wlFirst w [nodeName])
       (\<lambda>w err. ret (w, [], []))
       (\<lambda>w etcdClient. bnd (Members E etcdClient) (\<lambda>r. case r of
          Inl _ \<Rightarrow> ret (w, [], [])
        | Inr members \<Rightarrow> foldG (reconcileOne E nodeNames) members (w, [], [])))"

definition ReconcileEtcdMembers ::
  "env \<Rightarrow> Workload \<Rightarrow> string list \<Rightarrow> (call, Workload \<times> string list \<times> goerr option) go" where
  "ReconcileEtcdMembers E w nodeNames =
     bnd (foldG (\<lambda>nodeName (w, allRemovedMembers, allErrs).
            bnd (reconcileEtcdMember E w nodeNames nodeName) (\<lambda>(w, removedMembers, errs).
              ret (w, allRemovedMembers @ removedMembers, allErrs @ errs)))
          nodeNames (w, [], []))
      (\<lambda>(w, allRemovedMembers, allErrs). ret (w, allRemovedMembers, NewAggregate allErrs))"

definition emptyNode :: Node where
  "emptyNode = \<lparr>n_Meta = emptyMeta, n_Taints = [], n_Conditions = []\<rparr>"

definition removeMemberForNode :: "env \<Rightarrow> string \<Rightarrow> (call, goerr + bool) go" where
  "removeMemberForNode E name =
     bnd (getControlPlaneNodes E) (\<lambda>r. case r of
       Inl err \<Rightarrow> ret (Inl err)
     | Inr nodes \<Rightarrow>
        if length nodes < 2 then ret (Inl ErrControlPlaneMinNodes)
        else
          let removingNode = foldl (\<lambda>r n. if n_Name n = name then n else r) emptyNode nodes
          in if n_Name removingNode \<noteq> name then ret (Inr True)
             else if mget (om_Annotations (n_Meta removingNode)) EtcdRemovedNodeAnnotation \<noteq> None then ret (Inr True)
             else
               bnd (new_helper E name) (\<lambda>e. case e of
                 Some err \<Rightarrow> ret (Inl (Wrap ''failed to create patch helper for node'' err))
               | None \<Rightarrow>
                 bnd (deref (mput (om_Annotations (n_Meta removingNode)) EtcdRemoveAnnotation ''true'')) (\<lambda>annotations.
                 bnd (do_write E (WPatchNode (removingNode\<lparr>n_Meta := (n_Meta removingNode)\<lparr>om_Annotations := annotations\<rparr>\<rparr>))) (\<lambda>e.
                   case e of Some err \<Rightarrow> ret (Inl (Wrap ''failed patch node'' err))
                   | None \<Rightarrow> ret (Inr False)))))"

definition RemoveEtcdMemberForMachine :: "env \<Rightarrow> Machine option \<Rightarrow> (call, goerr + bool) go" where
  "RemoveEtcdMemberForMachine E machine =
     (case machine of None \<Rightarrow> ret (Inr True)
      | Some m \<Rightarrow> (case ma_NodeRef m of None \<Rightarrow> ret (Inr True)
                   | Some node \<Rightarrow> removeMemberForNode E node))"

definition ForwardEtcdLeadership ::
  "env \<Rightarrow> Workload \<Rightarrow> Machine option \<Rightarrow> Machine option \<Rightarrow> (call, Workload \<times> goerr option) go" where
  "ForwardEtcdLeadership E w machine leaderCandidate =
     (case (case machine of None \<Rightarrow> None | Some m \<Rightarrow> ma_NodeRef m) of
        None \<Rightarrow> ret (w, None)
      | Some node \<Rightarrow>
        (case leaderCandidate of
           None \<Rightarrow> ret (w, Some (Msg ''leader candidate cannot be nil''))
         | Some candidate \<Rightarrow>
           (case ma_NodeRef candidate of
              None \<Rightarrow> ret (w, Some (Msg ''leader has no node reference''))
            | Some candidateNode \<Rightarrow>
              bnd (getControlPlaneNodes E) (\<lambda>r. case r of
                Inl err \<Rightarrow> ret (w, Some (Wrap ''failed to list control plane nodes'' err))
              | Inr nodes \<Rightarrow>
                with_client E (wlLeader w (namesOfNodes nodes))
                  (\<lambda>w err. ret (w, Some (Wrap ''failed to create etcd client'' err)))
                  (\<lambda>w etcdClient. bnd (Members E etcdClient) (\<lambda>r. case r of
                     Inl err \<Rightarrow> ret (w, Some (Wrap ''failed to list etcd members using etcd client'' err))
                   | Inr members \<Rightarrow>
                      (if (case MemberForName members node of
                             None \<Rightarrow> True
                           | Some currentMember \<Rightarrow> em_ID currentMember \<noteq> ec_LeaderID etcdClient)
                       then ret (w, None)
                       else case MemberForName members candidateNode of
                          None \<Rightarrow> ret (w, Some (Msg ''failed to get etcd member from node''))
                        | Some nextLeader \<Rightarrow>
                            bnd (MoveLeader E etcdClient (em_ID nextLeader)) (\<lambda>e.
                              ret (w, map_option (Wrap ''failed to move leader'') e)))))))))"

definition EtcdMembers_of :: "env \<Rightarrow> Workload \<Rightarrow> (call, Workload \<times> (goerr + string list)) go" where
  "EtcdMembers_of E w =
     bnd (getControlPlaneNodes E) (\<lambda>r. case r of
       Inl err \<Rightarrow> ret (w, Inl (Wrap ''failed to list control plane nodes'' err))
     | Inr nodes \<Rightarrow>
        with_client E (wlLeader w (namesOfNodes nodes))
          (\<lambda>w err. ret (w, Inl (Wrap ''failed to create etcd client'' err)))
          (\<lambda>w etcdClient. bnd (Members E etcdClient) (\<lambda>r. case r of
             Inl err \<Rightarrow> ret (w, Inl (Wrap ''failed to list etcd members using etcd client'' err))
           | Inr members \<Rightarrow> ret (w, Inr (map NodeNameFromMember members)))))"

section \<open>Calls\<close>

text \<open>A workload whose generator, if there is one, keeps the contract of the interface.\<close>

definition good_gen :: "Workload \<Rightarrow> bool" where
  "good_gen w = (\<forall>G. wl_gen w = Some G \<longrightarrow> etcd_client_for G)"

text \<open>The calls of the workload operations that change no machine.\<close>

definition nonmachine :: "call set" where
  "nonmachine = {c. \<not> is_delete_machine c \<and> \<not> is_apply_machine c}"

lemma in_nonmachine [simp]: "c \<in> nonmachine \<longleftrightarrow> \<not> is_delete_machine c \<and> \<not> is_apply_machine c"
  by (simp add: nonmachine_def)

lemma reads_nonmachine [simp]: "reads \<subseteq> nonmachine"
  by auto

lemma is_machine_simps [simp]:
  "\<not> is_delete_machine (PatchKCP p)" "\<not> is_delete_machine (PatchMachine m)" "\<not> is_delete_machine (ApplyMachine m)"
  "\<not> is_delete_machine (PatchManagedFields knd ky mf)" "\<not> is_apply_machine (PatchManagedFields knd ky mf)"
  "\<not> is_delete_machine (PatchUnstructured u)" "\<not> is_delete_machine (ApplyUnstructured u)"
  "\<not> is_delete_machine (DeleteUnstructured u)" "\<not> is_delete_machine (CloneTemplate a b c d e)"
  "\<not> is_delete_machine (CreateConfig k)" "\<not> is_delete_machine (CreateSecret s)" "\<not> is_delete_machine (UpdateSecret s)"
  "\<not> is_delete_machine (Event ev)" "\<not> is_delete_machine (WPatchNode n)" "\<not> is_delete_machine (EtcdMoveLeader q i)"
  "\<not> is_delete_machine (EtcdMemberRemove q i)" "is_delete_machine (DeleteMachine m)"
  "\<not> is_apply_machine (PatchKCP p)" "\<not> is_apply_machine (PatchMachine m)" "is_apply_machine (ApplyMachine m)"
  "\<not> is_apply_machine (PatchUnstructured u)" "\<not> is_apply_machine (ApplyUnstructured u)"
  "\<not> is_apply_machine (DeleteUnstructured u)" "\<not> is_apply_machine (CloneTemplate a b c d e)"
  "\<not> is_apply_machine (CreateConfig k)" "\<not> is_apply_machine (CreateSecret s)" "\<not> is_apply_machine (UpdateSecret s)"
  "\<not> is_apply_machine (Event ev)" "\<not> is_apply_machine (WPatchNode n)" "\<not> is_apply_machine (EtcdMoveLeader q i)"
  "\<not> is_apply_machine (EtcdMemberRemove q i)" "\<not> is_apply_machine (DeleteMachine m)"
  by (simp_all add: is_delete_machine_def is_apply_machine_def)

lemma nonmachine_bounded:
  assumes "emits nonmachine m"
  shows "bounded is_delete_machine 0 m" "bounded is_apply_machine 0 m"
  using assms by (auto simp: bounded_0 elim: emits_mono)

lemma bounded_bnd_ret:
  "emits nonmachine m \<Longrightarrow> returns m R \<Longrightarrow> (\<And>x. R x \<Longrightarrow> bounded is_delete_machine n (f x)) \<Longrightarrow>
   bounded is_delete_machine n (bnd m f)"
  using bounded_bnd[of is_delete_machine 0 m n f] by (auto dest: nonmachine_bounded returnsD)

lemma bounded_bnd_nm [go_intros]:
  "emits nonmachine m \<Longrightarrow> (\<And>x. bounded is_delete_machine n (f x)) \<Longrightarrow> bounded is_delete_machine n (bnd m f)"
  "emits nonmachine m \<Longrightarrow> (\<And>x. bounded is_apply_machine n (f x)) \<Longrightarrow> bounded is_apply_machine n (bnd m f)"
  by (auto intro: bounded_bnd0 nonmachine_bounded)

lemma workload_reads [THEN emits_mono, go_intros]:
  "emits reads (getControlPlaneNodes E)"
  "emits reads (getEtcdCAKeyPair E k)"
  "emits reads (GetMachinesForCluster E k fs)"
  by (auto simp: getControlPlaneNodes_def getEtcdCAKeyPair_def GetMachinesForCluster_def intro!: go_intros)

lemma workload_reads2 [THEN emits_mono, go_intros]:
  "emits reads (GetWorkloadCluster E k)"
  "emits reads (ClusterStatus_of E L)"
  by (auto simp: GetWorkloadCluster_def generateClientCert_def newClientCert_def ClusterStatus_of_def intro!: go_intros)

lemma agentNode_reads [THEN emits_mono, go_intros]: "emits reads (agentNode E L n cp errs)"
  by (auto simp: agentNode_def intro!: go_intros)

lemma agentNodes_reads [THEN emits_mono, go_intros]: "emits reads (agentNodes E L ns cp errs)"
  by (induction ns arbitrary: cp errs) (auto intro!: go_intros)

lemma UpdateAgentConditions_reads [THEN emits_mono, go_intros]: "emits reads (UpdateAgentConditions E L cp)"
  by (auto simp: UpdateAgentConditions_def intro!: go_intros)

lemma GetWorkloadCluster_good: "returns (GetWorkloadCluster E k) (\<lambda>r. case r of Inl _ \<Rightarrow> True | Inr w \<Rightarrow> good_gen w)"
  unfolding GetWorkloadCluster_def Let_def
  by (intro go_intros) (auto simp: good_gen_def intro: ecg.etcd_client_for_axioms go_intros)

lemma emits_with_client [go_intros]:
  "emits S conn \<Longrightarrow> (\<And>w e. emits S (onerr w e)) \<Longrightarrow> (\<And>w c. emits S (body w c)) \<Longrightarrow> reads \<subseteq> S \<Longrightarrow>
   emits S (with_client E conn onerr body)"
  by (auto simp: with_client_def intro!: go_intros)

lemma etcd_writes [go_intros]:
  "EtcdMoveLeader (ec_Endpoint c) i \<in> S \<Longrightarrow> emits S (MoveLeader E c i)"
  "EtcdMemberRemove (ec_Endpoint c) i \<in> S \<Longrightarrow> emits S (RemoveMember E c i)"
  by (auto simp: MoveLeader_def RemoveMember_def intro!: go_intros)

section \<open>Operations over the etcd client interface\<close>

context etcd_client_for
begin

lemma wl_reads [THEN emits_mono, go_intros]:
  "wl_gen w = Some G \<Longrightarrow> emits reads (wlFirst w ns)"
  "wl_gen w = Some G \<Longrightarrow> emits reads (wlLeader w ns)"
  by (auto simp: wlFirst_def wlLeader_def deref_def intro!: go_intros first_reads leader_reads)

lemma wl_nopanic:
  assumes "wl_gen w = Some G"
  shows "nopanic (wlFirst w ns)" "nopanic (wlLeader w ns)"
  by (auto simp: wlFirst_def wlLeader_def assms deref_simps intro!: go_intros first_total leader_total)

lemma wl_xor:
  assumes "wl_gen w = Some G"
  shows "returns (wlFirst w ns) (\<lambda>(w', c, e). wl_gen w' = Some G \<and> (c \<noteq> None) = (e = None))"
    and "returns (wlLeader w ns) (\<lambda>(w', c, e). wl_gen w' = Some G \<and> (c \<noteq> None) = (e = None))"
  using assms first_xor leader_xor
  by (fastforce simp: wlFirst_def wlLeader_def deref_def returns_def go_runs client_xor_error_def
      split: prod.splits option.splits)+

lemma with_client_nopanic:
  assumes "nopanic conn" "returns conn (\<lambda>(w', c, e). wl_gen w' = Some G \<and> (c \<noteq> None) = (e = None))"
    and "\<And>w e. wl_gen w = Some G \<Longrightarrow> nopanic (onerr w e)" "\<And>w c. wl_gen w = Some G \<Longrightarrow> nopanic (body w c)"
  shows "nopanic (with_client E conn onerr body)"
  unfolding with_client_def
  by (rule nopanic_bnd[OF assms(1,2)]) (auto intro!: go_intros assms(3,4) split: prod.splits)

lemma with_client_keeps:
  assumes "returns conn (\<lambda>(w', c, e). wl_gen w' = Some G \<and> (c \<noteq> None) = (e = None))"
    and "\<And>w e. wl_gen w = Some G \<Longrightarrow> returns (onerr w e) Q" "\<And>w c. wl_gen w = Some G \<Longrightarrow> returns (body w c) Q"
  shows "returns (with_client E conn onerr body) Q"
proof -
  have body: "returns (bnd (body w client) (\<lambda>r. bnd (Close E client) (\<lambda>_. ret r))) Q" if "wl_gen w = Some G" for w client
    by (rule returns_bnd[OF assms(3)[OF that]]) (intro go_intros)
  show ?thesis
    unfolding with_client_def
    by (rule returns_bnd[OF assms(1)])
      (auto intro!: returns_cases returns_bnd_any[where m = "deref c" for c] body assms(2) split: prod.splits)
qed

text \<open>No operation panics when the workload has its generator, and all keep it.\<close>

lemma EtcdMembers_nopanic: "wl_gen w = Some G \<Longrightarrow> nopanic (EtcdMembers_of E w)"
  unfolding EtcdMembers_of_def
  by (intro go_intros with_client_nopanic wl_nopanic wl_xor) (auto simp: getControlPlaneNodes_def intro!: go_intros)

lemma ForwardEtcdLeadership_nopanic:
  assumes "wl_gen w = Some G"
  shows "nopanic (ForwardEtcdLeadership E w m c)"
proof -
  have [simp]: "nopanic (getControlPlaneNodes E)" by (auto simp: getControlPlaneNodes_def intro!: go_intros)
  have [simp]: "nopanic (MoveLeader E c i)" for c i by (auto simp: MoveLeader_def intro!: go_intros)
  show ?thesis
    unfolding ForwardEtcdLeadership_def using assms
    by (intro go_intros with_client_nopanic wl_nopanic wl_xor) simp_all
qed

lemma removeMemberForNonExistingNode_nopanic:
  assumes "wl_gen w = Some G"
  shows "nopanic (removeMemberForNonExistingNode E w n)"
proof -
  have [simp]: "nopanic (getControlPlaneNodes E)" by (auto simp: getControlPlaneNodes_def intro!: go_intros)
  have [simp]: "nopanic (RemoveMember E c i)" for c i by (auto simp: RemoveMember_def intro!: go_intros)
  show ?thesis
    unfolding removeMemberForNonExistingNode_def using assms
    by (intro go_intros with_client_nopanic wl_nopanic wl_xor) simp_all
qed

lemma removeMemberForNonExistingNode_gen:
  "wl_gen w = Some G \<Longrightarrow> returns (removeMemberForNonExistingNode E w n) (\<lambda>(w', e). wl_gen w' = Some G)"
  unfolding removeMemberForNonExistingNode_def
  by (intro returns_bnd_any returns_cases with_client_keeps wl_xor go_intros) (auto intro!: go_intros with_client_keeps wl_xor)

lemma reconcileOne_gen:
  "wl_gen (fst s) = Some G \<Longrightarrow> returns (reconcileOne E ns m s) (\<lambda>s'. wl_gen (fst s') = Some G)"
  unfolding reconcileOne_def
  by (cases s) (auto intro!: returns_cases returns_intros returns_bnd[OF removeMemberForNonExistingNode_gen])

lemma reconcileOne_nopanic: "wl_gen (fst s) = Some G \<Longrightarrow> nopanic (reconcileOne E ns m s)"
  unfolding reconcileOne_def
  by (cases s) (auto intro!: go_intros removeMemberForNonExistingNode_nopanic)

lemma reconcileEtcdMember_gen:
  assumes "wl_gen w = Some G"
  shows "returns (reconcileEtcdMember E w ns n) (\<lambda>s. wl_gen (fst s) = Some G)"
  unfolding reconcileEtcdMember_def
  by (rule with_client_keeps[OF wl_xor(1)[OF assms]])
    (auto intro!: returns_bnd_any[where m = "Members E c" for c] returns_cases returns_intros returns_foldG
      intro: reconcileOne_gen)

lemma reconcileEtcdMember_nopanic:
  assumes "wl_gen w = Some G"
  shows "nopanic (reconcileEtcdMember E w ns n)"
proof -
  have loop: "nopanic (foldG (reconcileOne E ns) ms (w, [], []))" if "wl_gen w = Some G" for w ms
    by (rule nopanic_foldG_inv[where Q = "\<lambda>s. wl_gen (fst s) = Some G"])
      (use that in \<open>auto intro: reconcileOne_gen reconcileOne_nopanic\<close>)
  show ?thesis
    unfolding reconcileEtcdMember_def
    by (intro with_client_nopanic wl_nopanic wl_xor assms) (auto intro!: nopanic_bnd_any nopanic_cases nopanic_intros etcd_total loop)
qed

lemma ReconcileEtcdMembers_nopanic:
  assumes "wl_gen w = Some G"
  shows "nopanic (ReconcileEtcdMembers E w ns)"
proof -
  have step: "returns (bnd (reconcileEtcdMember E w ns n) (\<lambda>(w, rs, es). ret (w, ars @ rs, aes @ es)))
      (\<lambda>s. wl_gen (fst s) = Some G)" if "wl_gen w = Some G" for w n ars aes
    by (rule returns_bnd[OF reconcileEtcdMember_gen[OF that]]) (auto intro!: go_intros)
  have "nopanic (foldG (\<lambda>nodeName (w, allRemovedMembers, allErrs).
            bnd (reconcileEtcdMember E w ns nodeName) (\<lambda>(w, removedMembers, errs).
              ret (w, allRemovedMembers @ removedMembers, allErrs @ errs))) ns (w, [], []))"
    by (rule nopanic_foldG_inv[where Q = "\<lambda>s. wl_gen (fst s) = Some G"])
      (auto intro!: go_intros step reconcileEtcdMember_nopanic assms split: prod.splits)
  then show ?thesis unfolding ReconcileEtcdMembers_def by (auto intro!: nopanic_bnd_any nopanic_cases nopanic_intros)
qed

lemma getCurrentEtcdMembers_gen:
  "wl_gen w = Some G \<Longrightarrow> returns (getCurrentEtcdMembers E L w cp m n) (\<lambda>(w', cp', r). wl_gen w' = Some G)"
  unfolding getCurrentEtcdMembers_def
  by (intro with_client_keeps wl_xor) (auto intro!: go_intros)

lemma getCurrentEtcdMembers_nopanic:
  "wl_gen w = Some G \<Longrightarrow> nopanic (getCurrentEtcdMembers E L w cp m n)"
  unfolding getCurrentEtcdMembers_def
  by (intro with_client_nopanic wl_nopanic wl_xor) (auto intro!: go_intros)

lemma etcdNode_gen:
  assumes "wl_gen (el_w s) = Some G"
  shows "returns (etcdNode E L n s) (\<lambda>s'. wl_gen (el_w s') = Some G)"
  unfolding etcdNode_def using assms
  by (auto simp: Let_def intro!: returns_cases returns_intros returns_bnd[OF getCurrentEtcdMembers_gen])

lemma etcdNode_nopanic:
  assumes "wl_gen (el_w s) = Some G"
  shows "nopanic (etcdNode E L n s)"
  unfolding etcdNode_def using assms
  by (auto simp: Let_def intro!: go_intros getCurrentEtcdMembers_nopanic)

lemma updateManagedEtcdConditions_nopanic:
  assumes "wl_gen w = Some G"
  shows "nopanic (updateManagedEtcdConditions E L w cp)"
proof -
  have [simp]: "nopanic (getControlPlaneNodes E)" by (auto simp: getControlPlaneNodes_def intro!: go_intros)
  have "nopanic (foldG (etcdNode E L) ns s)" if "wl_gen (el_w s) = Some G" for ns s
    by (rule nopanic_foldG_inv[where Q = "\<lambda>s. wl_gen (el_w s) = Some G"])
      (auto intro!: etcdNode_gen etcdNode_nopanic that)
  then show ?thesis
    unfolding updateManagedEtcdConditions_def
    by (intro nopanic_bnd_any nopanic_cases nopanic_intros) (simp_all add: assms)
qed

end

section \<open>Which calls the etcd operations issue\<close>

lemma good_gen_cases:
  assumes "good_gen w"
  obtains "wl_gen w = None" | G where "wl_gen w = Some G" "etcd_client_for G"
  using assms by (cases "wl_gen w") (auto simp: good_gen_def)

lemma wl_emits [go_intros]:
  assumes "good_gen w" "reads \<subseteq> S"
  shows "emits S (wlFirst w ns)" "emits S (wlLeader w ns)"
proof -
  show "emits S (wlFirst w ns)"
    using assms(1)
  proof (cases rule: good_gen_cases)
    case 1
    then show ?thesis by (simp add: wlFirst_def bnd_def panic_def emits_def)
  next
    case (2 G)
    then show ?thesis using emits_mono[OF etcd_client_for.wl_reads(1)[OF 2(2,1)] assms(2)] by simp
  qed
  show "emits S (wlLeader w ns)"
    using assms(1)
  proof (cases rule: good_gen_cases)
    case 1
    then show ?thesis by (simp add: wlLeader_def bnd_def panic_def emits_def)
  next
    case (2 G)
    then show ?thesis using emits_mono[OF etcd_client_for.wl_reads(2)[OF 2(2,1)] assms(2)] by simp
  qed
qed

lemma wl_keeps_gen:
  "returns (wlFirst w ns) (\<lambda>(w', c, e). wl_gen w' = wl_gen w)"
  "returns (wlLeader w ns) (\<lambda>(w', c, e). wl_gen w' = wl_gen w)"
  by (auto simp: wlFirst_def wlLeader_def intro!: go_intros)

lemma good_gen_cong: "wl_gen w' = wl_gen w \<Longrightarrow> good_gen w \<Longrightarrow> good_gen w'"
  by (simp add: good_gen_def)

lemma ForwardEtcdLeadership_emits [go_intros]:
  assumes "good_gen w" "reads \<subseteq> S" "\<And>p i. EtcdMoveLeader p i \<in> S"
  shows "emits S (ForwardEtcdLeadership E w m c)"
  unfolding ForwardEtcdLeadership_def by (intro go_intros assms)

lemma EtcdMembers_emits [go_intros]:
  assumes "good_gen w" "reads \<subseteq> S"
  shows "emits S (EtcdMembers_of E w)"
  unfolding EtcdMembers_of_def by (intro go_intros assms)

lemma removeMemberForNode_emits [go_intros]:
  assumes "reads \<subseteq> S" "\<And>n. WPatchNode n \<in> S"
  shows "emits S (removeMemberForNode E n)"
  unfolding removeMemberForNode_def by (intro go_intros assms)

lemma RemoveEtcdMemberForMachine_emits [go_intros]:
  assumes "reads \<subseteq> S" "\<And>n. WPatchNode n \<in> S"
  shows "emits S (RemoveEtcdMemberForMachine E m)"
  unfolding RemoveEtcdMemberForMachine_def by (intro go_intros assms)

lemma removeMemberForNonExistingNode_emits [go_intros]:
  assumes "good_gen w" "reads \<subseteq> S" "\<And>p i. EtcdMemberRemove p i \<in> S"
  shows "emits S (removeMemberForNonExistingNode E w n)"
  unfolding removeMemberForNonExistingNode_def by (intro go_intros assms)

text \<open>A computation that returns a workload with the same generator.\<close>

lemma with_client_same_gen:
  assumes "returns conn (\<lambda>(w', c, e). wl_gen w' = g)"
    and "\<And>w e. wl_gen w = g \<Longrightarrow> returns (onerr w e) Q" "\<And>w c. wl_gen w = g \<Longrightarrow> returns (body w c) Q"
  shows "returns (with_client E conn onerr body) Q"
proof -
  have body: "returns (bnd (body w client) (\<lambda>r. bnd (Close E client) (\<lambda>_. ret r))) Q" if "wl_gen w = g" for w client
    by (rule returns_bnd[OF assms(3)[OF that]]) (intro go_intros)
  show ?thesis
    unfolding with_client_def
    by (rule returns_bnd[OF assms(1)])
      (auto intro!: returns_cases returns_bnd_any[where m = "deref c" for c] body assms(2) split: prod.splits)
qed

lemma emits_with_client_gen:
  assumes "emits S conn" "returns conn (\<lambda>(w', c, e). wl_gen w' = g)"
    and "\<And>w e. wl_gen w = g \<Longrightarrow> emits S (onerr w e)" "\<And>w c. wl_gen w = g \<Longrightarrow> emits S (body w c)" "reads \<subseteq> S"
  shows "emits S (with_client E conn onerr body)"
  unfolding with_client_def
  by (rule emits_bnd_ret[OF assms(1,2)]) (auto intro!: go_intros assms(3-5) split: prod.splits)

lemma removeMemberForNonExistingNode_same:
  "returns (removeMemberForNonExistingNode E w n) (\<lambda>(w', e). wl_gen w' = wl_gen w)"
  unfolding removeMemberForNonExistingNode_def
  by (intro returns_bnd_any[where m = "getControlPlaneNodes E"] returns_cases with_client_same_gen[OF wl_keeps_gen(1)] go_intros)
    auto

section \<open>Justified etcd writes\<close>

text \<open>A history \<open>h1\<close> in which the member \<open>i\<close> was listed, through the same pod, with a
  property of its name.\<close>

definition listed :: "env \<Rightarrow> call list \<Rightarrow> string \<Rightarrow> uint64 \<Rightarrow> (Member \<Rightarrow> bool) \<Rightarrow> bool" where
  "listed E h1 p i Q \<longleftrightarrow>
     (\<exists>g g' cid ms m. h1 = g @ EtcdMemberList p # g' \<and> e_members E g (EtcdMemberList p) = Inr (cid, ms) \<and>
        m \<in> set ms \<and> pm_ID m = i \<and> Q (pbMemberToMember m))"

text \<open>All calls from position \<open>n\<close> on that match are justified by the history before them.\<close>

definition justified :: "nat \<Rightarrow> (call \<Rightarrow> bool) \<Rightarrow> (call list \<Rightarrow> call \<Rightarrow> bool) \<Rightarrow> call list \<Rightarrow> bool" where
  "justified n w J h \<longleftrightarrow> (\<forall>h1 c h2. h = h1 @ c # h2 \<and> n \<le> length h1 \<and> w c \<longrightarrow> J h1 c)"

lemma justified_snoc:
  "justified n w J (h @ [c]) \<longleftrightarrow> justified n w J h \<and> (n \<le> length h \<and> w c \<longrightarrow> J h c)"
proof
  assume l: "justified n w J (h @ [c])"
  then show "justified n w J h \<and> (n \<le> length h \<and> w c \<longrightarrow> J h c)"
    by (auto simp: justified_def)
next
  assume r: "justified n w J h \<and> (n \<le> length h \<and> w c \<longrightarrow> J h c)"
  show "justified n w J (h @ [c])"
    unfolding justified_def
  proof (intro allI impI)
    fix h1 d h2 assume *: "h @ [c] = h1 @ d # h2 \<and> n \<le> length h1 \<and> w d"
    then show "J h1 d"
    proof (cases h2 rule: rev_cases)
      case Nil
      with * r show ?thesis by auto
    next
      case (snoc h2' x)
      with * have "h = h1 @ d # h2'" by simp
      with * r show ?thesis by (auto simp: justified_def)
    qed
  qed
qed

lemma justified_start: "justified (length h) w J h"
  by (auto simp: justified_def)

lemma justified_emits:
  "emits S m \<Longrightarrow> (\<And>c. c \<in> S \<Longrightarrow> \<not> w c) \<Longrightarrow> keeps (justified n w J) m"
  by (rule keeps_emits) (auto simp: justified_snoc)

lemma Members_run:
  assumes "Members E c h = (Some (Inr ms), h1)"
  obtains cid pbs al where "e_members E h (EtcdMemberList (ec_Endpoint c)) = Inr (cid, pbs)"
    "ms = map (memberWithAlarms cid al) pbs"
    "h1 = h @ [EtcdMemberList (ec_Endpoint c), EtcdAlarmList (ec_Endpoint c)]"
  using assms
  by (auto simp: Members_def Alarms_def go_runs split: sum.splits prod.splits)

lemma NodeName_memberWithAlarms [simp]:
  "NodeNameFromMember (memberWithAlarms cid al m) = NodeNameFromMember (pbMemberToMember m)"
  "em_ID (memberWithAlarms cid al m) = pm_ID m"
  by (simp_all add: NodeNameFromMember_def memberWithAlarms_def pbMemberToMember_def Let_def)

lemma Members_listed:
  assumes "Members E c h = (Some (Inr ms), h1)" "MemberForName ms n = Some m"
  shows "listed E h1 (ec_Endpoint c) (em_ID m) (\<lambda>x. NodeNameFromMember x = n)"
proof -
  obtain cid pbs al where *: "e_members E h (EtcdMemberList (ec_Endpoint c)) = Inr (cid, pbs)"
    "ms = map (memberWithAlarms cid al) pbs"
    "h1 = h @ [EtcdMemberList (ec_Endpoint c), EtcdAlarmList (ec_Endpoint c)]"
    using assms(1) by (rule Members_run)
  from assms(2) have "m \<in> set ms" "NodeNameFromMember m = n" by (auto dest: MemberForName_Some)
  with *(2) obtain pb where "pb \<in> set pbs" "m = memberWithAlarms cid al pb" by auto
  with *(1,3) \<open>NodeNameFromMember m = n\<close> show ?thesis
    unfolding listed_def by (intro exI[of _ h] exI[of _ "[EtcdAlarmList (ec_Endpoint c)]"]) auto
qed

lemma keeps_with_client:
  assumes "keeps J conn" "\<And>w e. keeps J (onerr w e)" "\<And>w c. keeps J (body w c)" "\<And>c. keeps J (Close E c)"
  shows "keeps J (with_client E conn onerr body)"
  unfolding with_client_def by (intro go_intros assms)

lemma keeps_with_client_gen:
  assumes "keeps J conn" "returns conn (\<lambda>(w', c, e). wl_gen w' = g)"
    and "\<And>w e. wl_gen w = g \<Longrightarrow> keeps J (onerr w e)" "\<And>w c. wl_gen w = g \<Longrightarrow> keeps J (body w c)"
    and "\<And>c. keeps J (Close E c)"
  shows "keeps J (with_client E conn onerr body)"
  unfolding with_client_def
  by (rule keeps_bnd_ret[OF assms(1,2)]) (auto intro!: go_intros assms(3-5) split: prod.splits)

lemma returns_mono: "returns m P \<Longrightarrow> (\<And>x. P x \<Longrightarrow> Q x) \<Longrightarrow> returns m Q"
  by (auto simp: returns_def)

text \<open>What justifies a removal: the member was listed under the name that is removed.\<close>

definition is_remove :: "call \<Rightarrow> bool" where
  "is_remove c = (case c of EtcdMemberRemove _ _ \<Rightarrow> True | _ \<Rightarrow> False)"

definition removal_of :: "env \<Rightarrow> (string \<Rightarrow> bool) \<Rightarrow> call list \<Rightarrow> call \<Rightarrow> bool" where
  "removal_of E N h1 c = (case c of EtcdMemberRemove p i \<Rightarrow> listed E h1 p i (\<lambda>m. N (NodeNameFromMember m)) | _ \<Rightarrow> True)"

lemma reads_not_remove: "c \<in> reads \<Longrightarrow> \<not> is_remove c"
  by (auto simp: is_remove_def is_read_def split: call.splits)

lemma remove_justified:
  assumes "good_gen w" "N n"
  shows "keeps (justified k is_remove (removal_of E N)) (removeMemberForNonExistingNode E w n)"
proof -
  note rd = justified_emits[OF _ reads_not_remove]
  have r: "keeps (justified k is_remove (removal_of E N))
     (bnd (Members E c) (\<lambda>r. case r of
               Inl err \<Rightarrow> ret (w, Some (Wrap ''failed to list etcd members using etcd client'' err))
             | Inr members \<Rightarrow>
                 (case MemberForName members n of
                    None \<Rightarrow> ret (w, None)
                  | Some member \<Rightarrow>
                      bnd (RemoveMember E c (em_ID member)) (\<lambda>e.
                        ret (w, map_option (Wrap ''failed to remove member from etcd'') e)))))" for w c
  proof (rule keeps_bnd_run)
    show k: "keeps (justified k is_remove (removal_of E N)) (Members E c)" by (rule rd) (auto intro!: go_intros)
    fix x h h1 r h2
    assume J: "justified k is_remove (removal_of E N) h" and m: "Members E c h = (Some x, h1)"
      and run: "(case x of
               Inl err \<Rightarrow> ret (w, Some (Wrap ''failed to list etcd members using etcd client'' err))
             | Inr members \<Rightarrow>
                 (case MemberForName members n of
                    None \<Rightarrow> ret (w, None)
                  | Some member \<Rightarrow>
                      bnd (RemoveMember E c (em_ID member)) (\<lambda>e.
                        ret (w, map_option (Wrap ''failed to remove member from etcd'') e)))) h1 = (r, h2)"
    have J1: "justified k is_remove (removal_of E N) h1"
      using k J m by (rule keepsD)
    have "removal_of E N h1 (EtcdMemberRemove (ec_Endpoint c) (em_ID member))"
      if "x = Inr ms" "MemberForName ms n = Some member" for ms member
      using Members_listed[of E c h ms h1 n member] m that assms(2)
      by (auto simp: removal_of_def listed_def)
    then show "justified k is_remove (removal_of E N) h2"
      using run J1 by (auto simp: go_runs RemoveMember_def justified_snoc split: sum.splits option.splits)
  qed
  have nodes: "keeps (justified k is_remove (removal_of E N)) (getControlPlaneNodes E)"
    by (rule rd) (auto intro!: go_intros)
  have conn: "keeps (justified k is_remove (removal_of E N)) (wlFirst w ns)" for ns
    by (rule rd) (auto intro!: go_intros assms(1))
  have close: "keeps (justified k is_remove (removal_of E N)) (Close E c)" for c
    by (rule rd) (auto intro!: go_intros)
  show ?thesis
    unfolding removeMemberForNonExistingNode_def
    by (rule keeps_bnd[OF nodes]) (auto intro!: keeps_with_client conn close r keeps_intros split: sum.split)
qed

abbreviation removals :: "nat \<Rightarrow> env \<Rightarrow> string list \<Rightarrow> call list \<Rightarrow> bool" where
  "removals k E names \<equiv> justified k is_remove (removal_of E (\<lambda>n. n \<noteq> [] \<and> n \<notin> set names))"

lemma removals_reads: "emits reads m \<Longrightarrow> keeps (removals k E names) m"
  by (rule justified_emits) (auto dest: reads_not_remove)

lemma reconcileOne_removals:
  assumes "good_gen (fst s)"
  shows "keeps (removals k E names) (reconcileOne E names m s)"
    and "returns (reconcileOne E names m s) (\<lambda>s'. wl_gen (fst s') = wl_gen (fst s))"
  unfolding reconcileOne_def using assms
  by (cases s; auto simp: orphaned_def intro!: keeps_cases keeps_bnd keeps_intros remove_justified
      returns_cases returns_intros returns_bnd[OF removeMemberForNonExistingNode_same] split: option.split)+

lemma reconcileEtcdMember_removals:
  assumes "good_gen w"
  shows "keeps (removals k E names) (reconcileEtcdMember E w names n)"
    and "returns (reconcileEtcdMember E w names n) (\<lambda>s. wl_gen (fst s) = wl_gen w)"
proof -
  have step: "returns (reconcileOne E names m s) (\<lambda>s'. wl_gen (fst s') = wl_gen w)"
    if "wl_gen (fst s) = wl_gen w" for m s
    using reconcileOne_removals(2)[OF good_gen_cong[OF that assms]] that by simp
  have r: "returns (foldG (reconcileOne E names) ms (w', [], [])) (\<lambda>s. wl_gen (fst s) = wl_gen w)"
    if "wl_gen w' = wl_gen w" for ms w'
    by (rule returns_foldG) (use that in \<open>auto intro: step\<close>)
  have l: "keeps (removals k E names) (foldG (reconcileOne E names) ms (w', [], []))" if "wl_gen w' = wl_gen w" for ms w'
    by (rule keeps_foldG_inv[where Q = "\<lambda>s. wl_gen (fst s) = wl_gen w"])
      (use that in \<open>auto intro: reconcileOne_removals(1) step good_gen_cong[OF _ assms]\<close>)
  show "returns (reconcileEtcdMember E w names n) (\<lambda>s. wl_gen (fst s) = wl_gen w)"
    unfolding reconcileEtcdMember_def
    by (rule with_client_same_gen[OF wl_keeps_gen(1)])
      (auto intro!: returns_bnd_any[where m = "Members E c" for c] returns_cases returns_intros r)
  show "keeps (removals k E names) (reconcileEtcdMember E w names n)"
    unfolding reconcileEtcdMember_def
    by (rule keeps_with_client_gen[OF _ wl_keeps_gen(1)])
      (auto intro!: keeps_bnd keeps_cases keeps_intros l removals_reads[where m = "Members E c" for c]
        removals_reads[where m = "wlFirst w ns" for ns] removals_reads[where m = "Close E c" for c] wl_emits etcd_reads assms)
qed

lemma ReconcileEtcdMembers_removals:
  assumes "good_gen w"
  shows "keeps (removals k E names) (ReconcileEtcdMembers E w names)"
proof -
  have "keeps (removals k E names) (foldG (\<lambda>nodeName (w, allRemovedMembers, allErrs).
            bnd (reconcileEtcdMember E w names nodeName) (\<lambda>(w, removedMembers, errs).
              ret (w, allRemovedMembers @ removedMembers, allErrs @ errs))) ns (w, [], []))" for ns
    by (rule keeps_foldG_inv[where Q = "\<lambda>s. wl_gen (fst s) = wl_gen w"])
      (auto intro!: keeps_bnd keeps_cases keeps_intros returns_intros reconcileEtcdMember_removals(1) good_gen_cong[OF _ assms]
        returns_bnd[OF reconcileEtcdMember_removals(2)] split: prod.splits)
  then show ?thesis unfolding ReconcileEtcdMembers_def by (auto intro!: keeps_bnd keeps_cases keeps_intros)
qed

end
