(* ===== verification/Remediation.thy ===== *)
theory Remediation
  imports WorkloadCluster
begin

text \<open>
  \<^verbatim>\<open>controlplane/controllers/remediation.go\<close>: replacing an unhealthy machine. The
  machine under remediation is a pointer into the control plane's machines, so a condition
  set on it is set in both (\<open>setBoth\<close>). The deferred patch of that machine runs on every
  exit after the patch helper exists, a panic included (\<open>outcome\<close>); the only statement
  that can panic with a modified machine is the assignment to its annotations, which leaves
  it unmodified.
\<close>

definition MachineOwnerRemediatedCondition :: string where
  "MachineOwnerRemediatedCondition = ''OwnerRemediated''"
definition MachineHealthCheckSucceededCondition :: string where
  "MachineHealthCheckSucceededCondition = ''HealthCheckSucceeded''"
definition WaitingForRemediationReason :: string where
  "WaitingForRemediationReason = ''WaitingForRemediation''"
definition RemediationFailedReason :: string where "RemediationFailedReason = ''RemediationFailed''"
definition RemediationInProgressReason :: string where "RemediationInProgressReason = ''RemediationInProgress''"
definition PreTerminateDeleteHookAnnotationPrefix :: string where
  "PreTerminateDeleteHookAnnotationPrefix = ''pre-terminate.delete.hook.machine.cluster.x-k8s.io''"
definition k3sHookName :: string where "k3sHookName = ''k3s''"

section \<open>Remediation data\<close>

definition RemediationDataFromAnnotation :: "lib \<Rightarrow> string \<Rightarrow> goerr + RemediationData" where
  "RemediationDataFromAnnotation L value =
     (case unmarshalRemediation L value of
        Inl err \<Rightarrow> Inl (Wrap ''failed to unmarshal value for RemediationInProgress annotation'' err)
      | Inr d \<Rightarrow> Inr d)"

definition Marshal :: "lib \<Rightarrow> RemediationData \<Rightarrow> goerr + string" where
  "Marshal L r =
     (case marshalRemediation L r of
        Inl err \<Rightarrow> Inl (Wrap ''failed to marshal value for RemediationInProgress annotation'' err)
      | Inr b \<Rightarrow> Inr b)"

definition ToStatus :: "RemediationData \<Rightarrow> LastRemediationStatus" where
  "ToStatus r = \<lparr>lr_Machine = rd_Machine r, lr_Timestamp = rd_Timestamp r,
                 lr_RetryCount = ucast (rd_RetryCount r)\<rparr>"

section \<open>Retry limits\<close>

definition getMachineToBeRemediated :: "lib \<Rightarrow> Machine list \<Rightarrow> Machine option" where
  "getMachineToBeRemediated L unhealthyMachines =
     (case Oldest L (MFilter [\<lambda>m. \<not> HasNode L m] unhealthyMachines) of
        None \<Rightarrow> Oldest L unhealthyMachines
      | Some m \<Rightarrow> Some m)"

definition maxDuration :: "duration \<Rightarrow> duration \<Rightarrow> duration" where
  "maxDuration x y = (if sint x < sint y then y else x)"

text \<open>\<^verbatim>\<open>time.Time.Add\<close>.\<close>

definition addDuration :: "time \<Rightarrow> duration \<Rightarrow> time" where
  "addDuration t d = t + sint d"

definition minHealthyPeriodOf :: "KThreesControlPlane \<Rightarrow> duration" where
  "minHealthyPeriodOf kcp =
     (case ps_RemediationStrategy (kp_Spec kcp) of
        None \<Rightarrow> DefaultMinHealthyPeriod
      | Some rs \<Rightarrow> (case rs_MinHealthyPeriod rs of None \<Rightarrow> DefaultMinHealthyPeriod | Some d \<Rightarrow> d))"

definition retryPeriodOf :: "KThreesControlPlane \<Rightarrow> duration" where
  "retryPeriodOf kcp =
     (case ps_RemediationStrategy (kp_Spec kcp) of None \<Rightarrow> 0 | Some rs \<Rightarrow> rs_RetryPeriod rs)"

definition setBoth :: "lib \<Rightarrow> ControlPlane \<times> Machine \<Rightarrow> Condition \<Rightarrow> ControlPlane \<times> Machine" where
  "setBoth L s c = (setCond L (fst s) (snd s) c, ma_SetCond L (snd s) c)"

definition notRemediated :: "string \<Rightarrow> string \<Rightarrow> Condition" where
  "notRemediated reason msg = mkCond MachineOwnerRemediatedCondition CFalse reason msg"

text \<open>The result is the state with the condition that was set, and an error or the data
  with the permission to remediate.\<close>

definition checkRetryLimits ::
  "lib \<Rightarrow> ControlPlane \<times> Machine \<Rightarrow> time \<Rightarrow> (ControlPlane \<times> Machine) \<times> (goerr + RemediationData \<times> bool)" where
  "checkRetryLimits L s reconciliationTime =
     (let kcp = cp_KCP (fst s); machine = snd s;
          fresh = \<lparr>rd_Machine = ma_Name machine, rd_Timestamp = reconciliationTime, rd_RetryCount = 0\<rparr>
      in case mget (ma_Annotations machine) RemediationForAnnotation of
           None \<Rightarrow> (s, Inr (fresh, True))
         | Some value \<Rightarrow>
          (case RemediationDataFromAnnotation L value of
             Inl err \<Rightarrow> (s, Inl err)
           | Inr lastRemediationData \<Rightarrow>
              (let minHealthyPeriod = minHealthyPeriodOf kcp;
                   retryPeriod = retryPeriodOf kcp;
                   lastRemediationTime =
                     (if rd_Timestamp lastRemediationData = 0
                      then addDuration reconciliationTime (- 2 * maxDuration minHealthyPeriod retryPeriod)
                      else rd_Timestamp lastRemediationData)
               in if \<not> addDuration lastRemediationTime minHealthyPeriod > reconciliationTime
                  then (s, Inr (fresh, True))
                  else
                    let d = fresh\<lparr>rd_RetryCount := rd_RetryCount lastRemediationData\<rparr>
                    in if addDuration lastRemediationTime retryPeriod > reconciliationTime
                       then (setBoth L s (notRemediated WaitingForRemediationReason
                               ''KCP can't remediate this machine because the operation already failed in the latest RetryPeriod''),
                             Inr (d, False))
                       else if (case ps_RemediationStrategy (kp_Spec kcp) of
                                  None \<Rightarrow> False
                                | Some rs \<Rightarrow> (case rs_MaxRetry rs of
                                     None \<Rightarrow> False
                                   | Some maxRetry \<Rightarrow> sint (rd_RetryCount d) \<ge> sint maxRetry))
                       then (setBoth L s (notRemediated WaitingForRemediationReason
                               ''KCP can't remediate this machine because the operation already failed MaxRetry times''),
                             Inr (d, False))
                       else (s, Inr (d\<lparr>rd_RetryCount := rd_RetryCount d + 1\<rparr>, True)))))"

section \<open>Etcd quorum\<close>

text \<open>The projected etcd cluster: the members that stay, and those of them that count as
  unhealthy, because no machine hosts them or because their machine does not report a
  healthy member.\<close>

definition targetMembers :: "Machine \<Rightarrow> string list \<Rightarrow> string list" where
  "targetMembers machine etcdMembers = filter (\<lambda>e. \<not> ma_NodeRef machine = Some e) etcdMembers"

definition memberUnhealthy :: "lib \<Rightarrow> ControlPlane \<Rightarrow> string \<Rightarrow> bool" where
  "memberUnhealthy L cp etcdMember =
     (case machineForNode cp etcdMember of
        None \<Rightarrow> True
      | Some machine \<Rightarrow> \<not> ma_IsTrue L machine MachineEtcdMemberHealthyCondition)"

definition quorumSafe :: "lib \<Rightarrow> ControlPlane \<Rightarrow> Machine \<Rightarrow> string list \<Rightarrow> bool" where
  "quorumSafe L cp machine etcdMembers =
     (let targetTotalMembers = int (length (targetMembers machine etcdMembers));
          targetUnhealthyMembers = int (length (filter (memberUnhealthy L cp) (targetMembers machine etcdMembers)));
          targetQuorum = targetTotalMembers div 2 + 1
      in targetTotalMembers - targetUnhealthyMembers \<ge> targetQuorum)"

definition canSafelyRemoveEtcdMember ::
  "env \<Rightarrow> lib \<Rightarrow> ControlPlane \<Rightarrow> Machine \<Rightarrow> (call, goerr + bool) go" where
  "canSafelyRemoveEtcdMember E L cp machine =
     bnd (GetWorkloadCluster E (cl_Key (cp_Cluster cp))) (\<lambda>r. case r of
       Inl err \<Rightarrow> ret (Inl (Wrap ''failed to get client for workload cluster'' err))
     | Inr workloadCluster \<Rightarrow>
         bnd (EtcdMembers_of E workloadCluster) (\<lambda>(_, r). case r of
           Inl err \<Rightarrow> ret (Inl (Wrap ''failed to get etcdStatus for workload cluster'' err))
         | Inr etcdMembers \<Rightarrow> ret (Inr (quorumSafe L cp machine etcdMembers))))"

section \<open>The remediation of a machine\<close>

type_synonym remState = "ControlPlane \<times> Machine"
type_synonym remOut = "remState \<times> Result \<times> goerr option"

definition stop :: "remState \<Rightarrow> (call, remOut) go" where
  "stop s = ret (s, NoResult, None)"
definition fail :: "remState \<Rightarrow> goerr \<Rightarrow> (call, remOut) go" where
  "fail s err = ret (s, NoResult, Some err)"

text \<open>The last part: delete the machine and record what was done.\<close>

definition deleteUnhealthyMachine :: "env \<Rightarrow> lib \<Rightarrow> RemediationData \<Rightarrow> remState \<Rightarrow> (call, remOut) go" where
  "deleteUnhealthyMachine E L remediationInProgressData s =
     bnd (do_write E (DeleteMachine (snd s))) (\<lambda>e. case e of
       Some err \<Rightarrow>
         fail (setBoth L s (notRemediated RemediationFailedReason (errText L err)))
           (Wrap ''failed to delete unhealthy machine'' err)
     | None \<Rightarrow>
        (let s = setBoth L s (notRemediated RemediationInProgressReason [])
         in case Marshal L remediationInProgressData of
              Inl err \<Rightarrow> fail s err
            | Inr value \<Rightarrow>
                ret ((updKCP (\<lambda>p. kp_setAnnotations p
                        (AddAnnotation L (kp_Annotations p) RemediationInProgressAnnotation value)) (fst s), snd s),
                     Requeue, None)))"

text \<open>Before that, on an initialized control plane with managed etcd: move the leadership
  away and make the machine controller remove the member.\<close>

definition addPreTerminateHook :: "env \<Rightarrow> remState \<Rightarrow> (call, remState \<times> goerr option) go" where
  "addPreTerminateHook E s =
     bnd (new_helper E (ma_Name (snd s))) (\<lambda>e. case e of
       Some err \<Rightarrow> ret (s, Some (Wrap ''failed to create patch helper for machine'' err))
     | None \<Rightarrow>
        bnd (deref (mput (ma_Annotations (snd s)) PreTerminateDeleteHookAnnotationPrefix k3sHookName)) (\<lambda>mAnnotations.
        let s = (cp_upd (fst s) (ma_Name (snd s)) (\<lambda>m. ma_setAnnotations m mAnnotations),
                 ma_setAnnotations (snd s) mAnnotations)
        in bnd (do_write E (PatchMachine (snd s))) (\<lambda>e.
             ret (s, map_option (Wrap ''failed patch machine for adding preTerminate hook'') e))))"

definition forwardLeadership ::
  "env \<Rightarrow> lib \<Rightarrow> Workload \<Rightarrow> remState \<Rightarrow> (remState \<Rightarrow> (call, remOut) go) \<Rightarrow> (call, remOut) go" where
  "forwardLeadership E L workloadCluster s continue =
     (if \<not> IsEtcdManaged (fst s) then continue s
      else case Newest L (HealthyMachines L (fst s)) of
        None \<Rightarrow>
          stop (setBoth L s (notRemediated RemediationFailedReason
            ''A control plane machine needs remediation, but there is no healthy machine to forward etcd leadership to. Skipping remediation''))
      | Some etcdLeaderCandidate \<Rightarrow>
          bnd (ForwardEtcdLeadership E workloadCluster (Some (snd s)) (Some etcdLeaderCandidate)) (\<lambda>(_, e). case e of
            Some err \<Rightarrow> fail (setBoth L s (notRemediated RemediationFailedReason (errText L err))) err
          | None \<Rightarrow>
              bnd (addPreTerminateHook E s) (\<lambda>(s, e). case e of
                Some err \<Rightarrow> fail s err
              | None \<Rightarrow> continue s)))"

definition connectAndForward ::
  "env \<Rightarrow> lib \<Rightarrow> remState \<Rightarrow> (remState \<Rightarrow> (call, remOut) go) \<Rightarrow> (call, remOut) go" where
  "connectAndForward E L s continue =
     bnd (GetWorkloadCluster E (cl_Key (cp_Cluster (fst s)))) (\<lambda>r. case r of
       Inl err \<Rightarrow> fail s (Wrap ''failed to create client to workload cluster'' err)
     | Inr workloadCluster \<Rightarrow> forwardLeadership E L workloadCluster s continue)"

definition quorumCheck :: "env \<Rightarrow> lib \<Rightarrow> remState \<Rightarrow> (remState \<Rightarrow> (call, remOut) go) \<Rightarrow> (call, remOut) go" where
  "quorumCheck E L s continue =
     (if \<not> IsEtcdManaged (fst s) then continue s
      else bnd (canSafelyRemoveEtcdMember E L (fst s) (snd s)) (\<lambda>r. case r of
        Inl err \<Rightarrow> fail (setBoth L s (notRemediated RemediationFailedReason (errText L err))) err
      | Inr canSafelyRemediate \<Rightarrow>
          if \<not> canSafelyRemediate
          then stop (setBoth L s (notRemediated WaitingForRemediationReason
                 ''KCP can't remediate this machine because this could result in etcd loosing quorum''))
          else continue s))"

definition remediateInitialized ::
  "env \<Rightarrow> lib \<Rightarrow> remState \<Rightarrow> (remState \<Rightarrow> (call, remOut) go) \<Rightarrow> (call, remOut) go" where
  "remediateInitialized E L s continue =
     (let wait = (\<lambda>msg. stop (setBoth L s (notRemediated WaitingForRemediationReason msg)))
      in if length (cp_Machines (fst s)) \<le> 1
         then wait ''KCP can't remediate if current replicas are less or equal to 1''
         else if HasHealthyMachineStillProvisioning L (fst s)
         then wait ''KCP waiting for control plane machine provisioning to complete before triggering remediation''
         else if HasDeletingMachine L (fst s)
         then wait ''KCP waiting for control plane machine deletion to complete before triggering remediation''
         else quorumCheck E L s (\<lambda>s. connectAndForward E L s continue))"

definition remediateMachine :: "env \<Rightarrow> lib \<Rightarrow> time \<Rightarrow> remState \<Rightarrow> (call, remOut) go" where
  "remediateMachine E L reconciliationTime s =
     (case checkRetryLimits L s reconciliationTime of
        (s, Inl err) \<Rightarrow> fail s err
      | (s, Inr (remediationInProgressData, canRemediate)) \<Rightarrow>
          if \<not> canRemediate then stop s
          else if st_Initialized (kp_Status (cp_KCP (fst s)))
          then remediateInitialized E L s (deleteUnhealthyMachine E L remediationInProgressData)
          else deleteUnhealthyMachine E L remediationInProgressData s)"

section \<open>reconcileUnhealthyMachines\<close>

definition cleanupRemediated ::
  "env \<Rightarrow> lib \<Rightarrow> Machine \<Rightarrow> ControlPlane \<times> goerr option list \<Rightarrow> (call, ControlPlane \<times> goerr option list) go" where
  "cleanupRemediated E L m s =
     (case s of (cp, errList) \<Rightarrow>
        if condIsTrue L MachineHealthCheckSucceededCondition (ma_Conditions m) \<and>
           condIsFalse L MachineOwnerRemediatedCondition (ma_Conditions m) \<and> \<not> ma_deleting m
        then bnd (new_helper E (ma_Name m)) (\<lambda>e. case e of
               Some err \<Rightarrow> ret (cp, errList @ [Some (Wrap ''failed to get PatchHelper for machine'' err)])
             | None \<Rightarrow>
                 (let clear = (\<lambda>x. x\<lparr>ma_Conditions := condDelete L MachineOwnerRemediatedCondition (ma_Conditions x)\<rparr>);
                      cp = cp_upd cp (ma_Name m) clear
                  in bnd (do_write E (PatchMachine (clear m))) (\<lambda>e.
                       ret (cp, case e of None \<Rightarrow> errList
                                | Some err \<Rightarrow> errList @ [Some (Wrap ''failed to patch machine'' err)]))))
        else ret (cp, errList))"

text \<open>The selected machine is patched in every case, even when the remediation panics.\<close>

definition remediateSelected ::
  "env \<Rightarrow> lib \<Rightarrow> time \<Rightarrow> Machine list \<Rightarrow> ControlPlane \<Rightarrow> (call, ControlPlane \<times> Result \<times> goerr option) go" where
  "remediateSelected E L reconciliationTime unhealthyMachines cp =
     bnd (deref (getMachineToBeRemediated L unhealthyMachines)) (\<lambda>machine.
       if ma_deleting machine then ret (cp, NoResult, None)
       else if mget (kp_Annotations (cp_KCP cp)) RemediationInProgressAnnotation \<noteq> None
       then ret (cp, NoResult, None)
       else bnd (new_helper E (ma_Name machine)) (\<lambda>e. case e of
         Some err \<Rightarrow> ret (cp, NoResult, Some err)
       | None \<Rightarrow>
           bnd (outcome (remediateMachine E L reconciliationTime (cp, machine))) (\<lambda>out.
           let patched = (case out of None \<Rightarrow> machine | Some ((_, m), _) \<Rightarrow> m)
           in bnd (do_write E (PatchMachine patched)) (\<lambda>e.
                case out of
                  None \<Rightarrow> panic
                | Some ((cp, _), result, retErr) \<Rightarrow>
                    ret (cp, result,
                         case retErr of Some err \<Rightarrow> Some err
                         | None \<Rightarrow> map_option (Wrap ''failed to patch control plane Machine'') e)))))"

definition reconcileUnhealthyMachines ::
  "env \<Rightarrow> lib \<Rightarrow> ControlPlane \<Rightarrow> (call, ControlPlane \<times> Result \<times> goerr option) go" where
  "reconcileUnhealthyMachines E L cp =
     bnd (now E) (\<lambda>reconciliationTime.
     bnd (foldG (cleanupRemediated E L) (HealthyMachines L cp) (cp, [])) (\<lambda>(cp, errList).
     if length errList > 0 then ret (cp, NoResult, NewAggregate errList)
     else
       let unhealthyMachines = UnhealthyMachines L cp
       in if length unhealthyMachines = 0 then ret (cp, NoResult, None)
          else remediateSelected E L reconciliationTime unhealthyMachines cp))"

section \<open>Properties\<close>

subsection \<open>Selection\<close>

lemma getMachineToBeRemediated_mem:
  assumes "oldest_laws L" "getMachineToBeRemediated L ms = Some m"
  shows "m \<in> set ms"
  using assms by (auto simp: getMachineToBeRemediated_def split: option.splits dest: oldest_in)

lemma getMachineToBeRemediated_total:
  assumes "oldest_laws L" "ms \<noteq> []"
  shows "getMachineToBeRemediated L ms \<noteq> None"
  using assms oldest_None[OF assms(1)] by (auto simp: getMachineToBeRemediated_def split: option.splits)

text \<open>A machine without a node is preferred; among the preferred ones the oldest is taken.\<close>

lemma getMachineToBeRemediated_choice:
  assumes "oldest_laws L" "getMachineToBeRemediated L ms = Some m"
  shows "(\<exists>x\<in>set ms. \<not> HasNode L x) \<Longrightarrow> \<not> HasNode L m \<and> (\<forall>x\<in>set ms. \<not> HasNode L x \<longrightarrow> created m \<le> created x)"
    and "(\<forall>x\<in>set ms. HasNode L x) \<Longrightarrow> (\<forall>x\<in>set ms. created m \<le> created x)"
proof -
  let ?p = "MFilter [\<lambda>m. \<not> HasNode L m] ms"
  note o = oldest_in[OF assms(1)] oldest_min[OF assms(1)] oldest_None[OF assms(1)]
  {
    assume "\<exists>x\<in>set ms. \<not> HasNode L x"
    then have "?p \<noteq> []" by (auto simp: MFilter_def filter_empty_conv)
    then obtain m' where m': "Oldest L ?p = Some m'" using o(3) by fastforce
    with assms(2) have "m' = m" by (simp add: getMachineToBeRemediated_def)
    with o(1)[OF m'] o(2)[OF m'] show "\<not> HasNode L m \<and> (\<forall>x\<in>set ms. \<not> HasNode L x \<longrightarrow> created m \<le> created x)" by auto
  }
  {
    assume "\<forall>x\<in>set ms. HasNode L x"
    then have "?p = []" by (auto simp: MFilter_def)
    with o(3) have "Oldest L ?p = None" by simp
    with assms(2) have "Oldest L ms = Some m" by (simp add: getMachineToBeRemediated_def)
    from o(2)[OF this] show "\<forall>x\<in>set ms. created m \<le> created x" by auto
  }
qed

subsection \<open>Quorum\<close>

lemma quorumSafe_majority:
  "quorumSafe L cp m es \<longleftrightarrow>
     2 * length (filter (\<lambda>e. \<not> memberUnhealthy L cp e) (targetMembers m es)) > length (targetMembers m es)"
proof -
  let ?t = "targetMembers m es"
  let ?u = "memberUnhealthy L cp"
  have "length ?t = length (filter ?u ?t) + length (filter (\<lambda>e. \<not> ?u e) ?t)"
    by (simp add: sum_length_filter_compl)
  then show ?thesis unfolding quorumSafe_def Let_def by linarith
qed

lemma memberUnhealthy_iff:
  "\<not> memberUnhealthy L cp e \<longleftrightarrow>
     (\<exists>x. machineForNode cp e = Some x \<and> ma_IsTrue L x MachineEtcdMemberHealthyCondition)"
  by (simp add: memberUnhealthy_def split: option.split)

text \<open>The failure tolerance of the comment in the source: a cluster of 3, 5, 7 members, all
  hosted by machines, tolerates 0, 1, 2 unhealthy members besides the one removed.\<close>

lemma quorumSafe_tolerance:
  assumes "length (targetMembers m es) = 2 * k"
  shows "quorumSafe L cp m es \<longleftrightarrow> length (filter (memberUnhealthy L cp) (targetMembers m es)) < k"
  using assms unfolding quorumSafe_def Let_def by linarith

subsection \<open>Retry limits\<close>

lemma sint_succ:
  fixes w :: int64 and m :: int32
  assumes "sint w < sint m"
  shows "sint (w + 1) = sint w + 1"
proof -
  have "sint m < 2 ^ 31" using sint_lt[of m] by simp
  moreover have "- (2 ^ 63) \<le> sint w" using sint_ge[of w] by simp
  ultimately have "- (2 ^ 63) \<le> sint w + 1" "sint w + 1 < 2 ^ 63" using assms by auto
  then show ?thesis by (simp add: sint_word_ariths signed_take_bit_int_eq_self)
qed

text \<open>Permission to remediate: either a new sequence of retries starts with count 0, or the
  retry period has passed, the count grows by one and stays within the limit.\<close>

lemma checkRetryLimits_allowed:
  assumes run: "checkRetryLimits L s t = (s', Inr (d, True))"
    and ann: "mget (ma_Annotations (snd s)) RemediationForAnnotation = Some v"
    and last: "RemediationDataFromAnnotation L v = Inr l" "rd_Timestamp l \<noteq> 0"
  shows "s' = s" "rd_Machine d = ma_Name (snd s)" "rd_Timestamp d = t"
    and "(addDuration (rd_Timestamp l) (minHealthyPeriodOf (cp_KCP (fst s))) \<le> t \<and> rd_RetryCount d = 0) \<or>
         (addDuration (rd_Timestamp l) (minHealthyPeriodOf (cp_KCP (fst s))) > t \<and>
          addDuration (rd_Timestamp l) (retryPeriodOf (cp_KCP (fst s))) \<le> t \<and>
          rd_RetryCount d = rd_RetryCount l + 1 \<and>
          (\<forall>rs mr. ps_RemediationStrategy (kp_Spec (cp_KCP (fst s))) = Some rs \<longrightarrow> rs_MaxRetry rs = Some mr \<longrightarrow>
             sint (rd_RetryCount d) \<le> sint mr))"
proof -
  note defs = checkRetryLimits_def Let_def ann last
  show "s' = s" "rd_Machine d = ma_Name (snd s)" "rd_Timestamp d = t"
    using run by (auto simp: defs split: if_splits option.splits)
  show "(addDuration (rd_Timestamp l) (minHealthyPeriodOf (cp_KCP (fst s))) \<le> t \<and> rd_RetryCount d = 0) \<or>
         (addDuration (rd_Timestamp l) (minHealthyPeriodOf (cp_KCP (fst s))) > t \<and>
          addDuration (rd_Timestamp l) (retryPeriodOf (cp_KCP (fst s))) \<le> t \<and>
          rd_RetryCount d = rd_RetryCount l + 1 \<and>
          (\<forall>rs mr. ps_RemediationStrategy (kp_Spec (cp_KCP (fst s))) = Some rs \<longrightarrow> rs_MaxRetry rs = Some mr \<longrightarrow>
             sint (rd_RetryCount d) \<le> sint mr))"
    using run by (auto simp: defs not_less not_le sint_succ split: if_splits option.splits)
qed

subsection \<open>Which machine is deleted, and when\<close>

text \<open>The two control planes differ in the conditions of their machines only.\<close>

definition same_but_conditions :: "ControlPlane \<Rightarrow> ControlPlane \<Rightarrow> bool" where
  "same_but_conditions cp cp1 \<longleftrightarrow>
     (\<exists>ms. cp1 = cp\<lparr>cp_Machines := ms\<rparr> \<and>
           map (ma_Conditions_update (\<lambda>_. [])) ms = map (ma_Conditions_update (\<lambda>_. [])) (cp_Machines cp))"

lemma same_but_conditions_refl: "same_but_conditions cp cp"
  unfolding same_but_conditions_def by (intro exI[of _ "cp_Machines cp"]) simp

lemma same_but_conditions_trans:
  "same_but_conditions a b \<Longrightarrow> same_but_conditions b c \<Longrightarrow> same_but_conditions a c"
  unfolding same_but_conditions_def by auto

lemma cp_upd_same_but_conditions:
  assumes "\<And>m. \<exists>cs. f m = m\<lparr>ma_Conditions := cs\<rparr>"
  shows "same_but_conditions cp (cp_upd cp n f)"
proof -
  have "(f m)\<lparr>ma_Conditions := []\<rparr> = m\<lparr>ma_Conditions := []\<rparr>" for m using assms[of m] by auto
  then show ?thesis
    unfolding same_but_conditions_def cp_upd_def
    by (intro exI[of _ "upd_machine n f (cp_Machines cp)"]) (auto simp: upd_machine_def)
qed

lemma cleanupRemediated_same:
  "returns (cleanupRemediated E L m (cp, es)) (\<lambda>(cp1, es1). same_but_conditions cp cp1)"
  unfolding cleanupRemediated_def Let_def
  by (auto intro!: go_intros same_but_conditions_refl cp_upd_same_but_conditions)

lemma cleanup_loop_same:
  "returns (foldG (cleanupRemediated E L) ms (cp, es)) (\<lambda>(cp1, es1). same_but_conditions cp cp1)"
proof (rule returns_foldG)
  show "case (cp, es) of (cp1, es1) \<Rightarrow> same_but_conditions cp cp1" by (simp add: same_but_conditions_refl)
  fix x and b :: "ControlPlane \<times> goerr option list"
  assume "case b of (cp1, es1) \<Rightarrow> same_but_conditions cp cp1"
  then show "returns (cleanupRemediated E L x b) (\<lambda>(cp1, es1). same_but_conditions cp cp1)"
    by (cases b) (auto intro: returns_mono[OF cleanupRemediated_same] same_but_conditions_trans)
qed

lemma cleanup_nonmachine: "emits nonmachine (cleanupRemediated E L m s)"
  unfolding cleanupRemediated_def Let_def by (auto intro!: go_intros split: prod.splits)

text \<open>The evidence for the quorum: a listing of the etcd members taken before.\<close>

definition quorumEvidence :: "env \<Rightarrow> lib \<Rightarrow> ControlPlane \<Rightarrow> Machine \<Rightarrow> call list \<Rightarrow> bool" where
  "quorumEvidence E L cp m h \<longleftrightarrow>
     (\<exists>w w' g g' es t. EtcdMembers_of E w g = (Some (w', Inr es), g') \<and> h = g' @ t \<and> quorumSafe L cp m es)"

lemma quorumEvidence_snoc: "quorumEvidence E L cp m h \<Longrightarrow> quorumEvidence E L cp m (h @ [c])"
  unfolding quorumEvidence_def by (metis append_assoc)

lemma canSafelyRemoveEtcdMember_evidence:
  assumes "canSafelyRemoveEtcdMember E L cp m h = (Some (Inr True), h')"
  shows "quorumEvidence E L cp m h'"
proof -
  from assms obtain r g where r: "(case r of
       Inl err \<Rightarrow> ret (Inl (Wrap ''failed to get client for workload cluster'' err))
     | Inr w \<Rightarrow> bnd (EtcdMembers_of E w) (\<lambda>(_, r). case r of
           Inl err \<Rightarrow> ret (Inl (Wrap ''failed to get etcdStatus for workload cluster'' err))
         | Inr etcdMembers \<Rightarrow> ret (Inr (quorumSafe L cp m etcdMembers)))) g = (Some (Inr True), h')"
    unfolding canSafelyRemoveEtcdMember_def by (elim bnd_SomeE)
  show ?thesis
  proof (cases r)
    case (Inl e)
    with r show ?thesis by (simp add: go_runs)
  next
    case (Inr w)
    with r obtain x g' where "EtcdMembers_of E w g = (Some x, g')" "(case x of (_, r) \<Rightarrow> (case r of
           Inl err \<Rightarrow> ret (Inl (Wrap ''failed to get etcdStatus for workload cluster'' err))
         | Inr etcdMembers \<Rightarrow> ret (Inr (quorumSafe L cp m etcdMembers)))) g' = (Some (Inr True), h')"
      by (auto elim: bnd_SomeE)
    then obtain w' es where "EtcdMembers_of E w g = (Some (w', Inr es), h')" "quorumSafe L cp m es"
      by (auto simp: go_runs split: prod.splits sum.splits)
    then show ?thesis unfolding quorumEvidence_def by (metis append_Nil2)
  qed
qed

lemma canSafelyRemoveEtcdMember_reads [THEN emits_mono, go_intros]:
  "emits reads (canSafelyRemoveEtcdMember E L cp m)"
  unfolding canSafelyRemoveEtcdMember_def
  by (rule emits_bnd_ret[OF _ GetWorkloadCluster_good]) (auto intro!: go_intros)

text \<open>Every machine deletion from position \<open>k\<close> on is one of the machine named \<open>n\<close>, at a
  point where \<open>P\<close> held.\<close>

abbreviation deletions :: "nat \<Rightarrow> string \<Rightarrow> (call list \<Rightarrow> bool) \<Rightarrow> call list \<Rightarrow> bool" where
  "deletions k n P \<equiv> justified k is_delete_machine (\<lambda>h1 c. (\<forall>x. c = DeleteMachine x \<longrightarrow> ma_Name x = n) \<and> P h1)"

lemma deletions_nonmachine:
  assumes "emits nonmachine m"
  shows "keeps (deletions k n P) m"
    and "(\<And>h c. P h \<Longrightarrow> P (h @ [c])) \<Longrightarrow> keeps (\<lambda>h. deletions k n P h \<and> P h) m"
  by (rule keeps_emits[OF assms]; simp add: justified_snoc)+

lemma deleteUnhealthyMachine_deletions:
  assumes P: "\<And>h c. P h \<Longrightarrow> P (h @ [c])" and n: "ma_Name (snd s) = n"
  shows "keeps (\<lambda>h. deletions k n P h \<and> P h) (deleteUnhealthyMachine E L d s)"
proof -
  have "keeps (\<lambda>h. deletions k n P h \<and> P h) (do_write E (DeleteMachine (snd s)))"
    unfolding api_def by (rule keeps_issue) (simp add: justified_snoc P n)
  then show ?thesis
    unfolding deleteUnhealthyMachine_def Let_def stop_def fail_def
    by (intro keeps_bnd keeps_cases keeps_intros)
qed

lemma addPreTerminateHook_name:
  "returns (addPreTerminateHook E s) (\<lambda>(s1, e). ma_Name (snd s1) = ma_Name (snd s))"
  unfolding addPreTerminateHook_def Let_def
  by (intro go_intros) (auto simp: ma_setAnnotations_def ma_Name_def)

lemma addPreTerminateHook_nonmachine: "emits nonmachine (addPreTerminateHook E s)"
  unfolding addPreTerminateHook_def Let_def by (auto intro!: go_intros)

lemma forwardLeadership_deletions:
  assumes P: "\<And>h c. P h \<Longrightarrow> P (h @ [c])" and w: "good_gen w"
    and cont: "\<And>s1. ma_Name (snd s1) = ma_Name (snd s) \<Longrightarrow> keeps (\<lambda>h. deletions k n P h \<and> P h) (cont s1)"
  shows "keeps (\<lambda>h. deletions k n P h \<and> P h) (forwardLeadership E L w s cont)"
proof -
  have nm: "keeps (\<lambda>h. deletions k n P h \<and> P h) m" if "emits nonmachine m" for m :: "(call, 'z) go"
    using that P by (rule deletions_nonmachine(2))
  have hook: "keeps (\<lambda>h. deletions k n P h \<and> P h) (bnd (addPreTerminateHook E s) (\<lambda>(s, e). case e of
                Some err \<Rightarrow> fail s err | None \<Rightarrow> cont s))"
    by (rule keeps_bnd_ret[OF nm[OF addPreTerminateHook_nonmachine] addPreTerminateHook_name])
      (auto simp: fail_def intro!: keeps_cases keeps_intros cont)
  have fwd: "keeps (\<lambda>h. deletions k n P h \<and> P h) (ForwardEtcdLeadership E w a b)" for a b
    by (rule nm) (auto intro!: go_intros w)
  show ?thesis
    unfolding forwardLeadership_def stop_def fail_def[of "setBoth _ _ _"]
    by (auto intro!: keeps_cases keeps_intros cont keeps_bnd[OF fwd] hook)
qed

text \<open>The guards of the deletion of machine \<open>m\<close> of control plane \<open>cp\<close>.\<close>

definition remediationGuards :: "env \<Rightarrow> lib \<Rightarrow> ControlPlane \<Rightarrow> Machine \<Rightarrow> call list \<Rightarrow> bool" where
  "remediationGuards E L cp m h \<longleftrightarrow>
     getMachineToBeRemediated L (UnhealthyMachines L cp) = Some m \<and> \<not> ma_deleting m \<and>
     mget (kp_Annotations (cp_KCP cp)) RemediationInProgressAnnotation = None \<and>
     (st_Initialized (kp_Status (cp_KCP cp)) \<longrightarrow>
        1 < length (cp_Machines cp) \<and> \<not> HasHealthyMachineStillProvisioning L cp \<and> \<not> HasDeletingMachine L cp \<and>
        (IsEtcdManaged cp \<longrightarrow> quorumEvidence E L cp m h))"

lemma remediationGuards_snoc: "remediationGuards E L cp m h \<Longrightarrow> remediationGuards E L cp m (h @ [c])"
  unfolding remediationGuards_def using quorumEvidence_snoc by blast

lemma keeps_weaken: "keeps (\<lambda>h. J h \<and> P h) m \<Longrightarrow> J h \<Longrightarrow> P h \<Longrightarrow> m h = (r, h') \<Longrightarrow> J h'"
  by (drule keepsD[where h = h and h' = h']) auto

lemma setBoth_name [simp]: "ma_Name (snd (setBoth L s c)) = ma_Name (snd s)"
  by (simp add: setBoth_def)

lemma connectAndForward_deletions:
  assumes P: "\<And>h c. P h \<Longrightarrow> P (h @ [c])"
    and cont: "\<And>s1. ma_Name (snd s1) = ma_Name (snd s) \<Longrightarrow> keeps (\<lambda>h. deletions k n P h \<and> P h) (cont s1)"
  shows "keeps (\<lambda>h. deletions k n P h \<and> P h) (connectAndForward E L s cont)"
proof -
  have get: "keeps (\<lambda>h. deletions k n P h \<and> P h) (GetWorkloadCluster E key)" for key
    by (rule deletions_nonmachine(2)) (auto intro!: go_intros intro: P)
  show ?thesis
    unfolding connectAndForward_def
    by (rule keeps_bnd_ret[OF get GetWorkloadCluster_good])
      (auto simp: fail_def intro!: keeps_cases keeps_intros forwardLeadership_deletions P cont)
qed

text \<open>What is left of a deletion's guards when the quorum check is reached is whether the
  check ran and said yes.\<close>

lemma quorumCheck_deletions:
  assumes unmanaged: "\<And>h. \<not> IsEtcdManaged cp \<Longrightarrow> P h"
    and managed: "\<And>h. quorumEvidence E L cp m h \<Longrightarrow> P h"
    and cont: "keeps (\<lambda>h. deletions k n P h \<and> P h) (cont (cp, m))"
  shows "keeps (deletions k n P) (quorumCheck E L (cp, m) cont)"
proof (cases "IsEtcdManaged cp")
  case False
  with cont unmanaged show ?thesis by (simp add: quorumCheck_def)
next
  case True
  let ?J = "deletions k n P"
  have safe: "keeps ?J (canSafelyRemoveEtcdMember E L cp m)"
    by (rule deletions_nonmachine(1)) (auto intro!: go_intros)
  show ?thesis
    unfolding quorumCheck_def fst_conv snd_conv using True safe
  proof (simp only: not_True_eq_False if_False, elim keeps_bnd_run)
    fix x h h1 r h2
    assume J: "?J h" and can: "canSafelyRemoveEtcdMember E L cp m h = (Some x, h1)"
      and run: "(case x of Inl err \<Rightarrow> fail (setBoth L (cp, m) (notRemediated RemediationFailedReason (errText L err))) err
       | Inr b \<Rightarrow> if \<not> b then stop (setBoth L (cp, m) (notRemediated WaitingForRemediationReason
             ''KCP can't remediate this machine because this could result in etcd loosing quorum''))
          else cont (cp, m)) h1 = (r, h2)"
    have J1: "?J h1" using safe J can by (rule keepsD)
    show "?J h2"
    proof (cases "x = Inr True")
      case t: True
      with can have "P h1" by (simp add: canSafelyRemoveEtcdMember_evidence managed)
      with cont J1 show ?thesis by (rule keeps_weaken) (use run t in simp)
    next
      case False
      with run J1 show ?thesis by (cases x) (auto simp: stop_def fail_def go_runs)
    qed
  qed
qed

lemma remediateMachine_deletions:
  assumes guards: "getMachineToBeRemediated L (UnhealthyMachines L cp) = Some m" "\<not> ma_deleting m"
      "mget (kp_Annotations (cp_KCP cp)) RemediationInProgressAnnotation = None"
  shows "keeps (deletions k (ma_Name m) (remediationGuards E L cp m)) (remediateMachine E L t (cp, m))"
proof (cases "checkRetryLimits L (cp, m) t")
  case (Pair s r)
  let ?P = "remediationGuards E L cp m"
  let ?J = "deletions k (ma_Name m) ?P"
  have del: "keeps (\<lambda>h. ?J h \<and> ?P h) (deleteUnhealthyMachine E L d s1)" if "ma_Name (snd s1) = ma_Name m" for d s1
    by (rule deleteUnhealthyMachine_deletions) (auto intro: remediationGuards_snoc that)
  have same: "s = (cp, m)" if "r = Inr (d, True)" for d
    using Pair that by (auto simp: checkRetryLimits_def Let_def split: option.splits sum.splits if_splits)
  have init: "keeps ?J (remediateInitialized E L (cp, m) (deleteUnhealthyMachine E L d))"
    if "st_Initialized (kp_Status (cp_KCP cp))" for d
    unfolding remediateInitialized_def Let_def stop_def fst_conv
    by (intro keeps_cases keeps_intros quorumCheck_deletions connectAndForward_deletions remediationGuards_snoc del)
      (use guards that in \<open>simp_all add: remediationGuards_def\<close>)
  have "keeps ?J (deleteUnhealthyMachine E L d (cp, m))" if "\<not> st_Initialized (kp_Status (cp_KCP cp))" for d
  proof (rule keepsI)
    fix h r h' assume "?J h" "deleteUnhealthyMachine E L d (cp, m) h = (r, h')"
    moreover have "?P h" using guards that by (simp add: remediationGuards_def)
    ultimately show "?J h'" using del[of "(cp, m)" d] by (auto elim: keeps_weaken)
  qed
  then show ?thesis
    unfolding remediateMachine_def Pair
    using same by (auto simp: fail_def stop_def init intro!: keeps_cases keeps_intros split: sum.split)
qed

lemma justified_weaken:
  assumes ext: "emits UNIV m" and k: "\<And>k. keeps (justified k w J1) m" and J: "\<And>h c. J1 h c \<Longrightarrow> J2 h c"
  shows "keeps (justified k w J2) m"
proof (rule keepsI)
  fix h r h' assume J2: "justified k w J2 h" and run: "m h = (r, h')"
  from ext run obtain cs where h': "h' = h @ cs" by (rule emitsE)
  have J1: "justified (length h) w J1 h'" by (rule keepsD[OF k justified_start run])
  show "justified k w J2 h'"
    unfolding justified_def
  proof (intro allI impI)
    fix h1 c h2 assume *: "h' = h1 @ c # h2 \<and> k \<le> length h1 \<and> w c"
    show "J2 h1 c"
    proof (cases "length h \<le> length h1")
      case True
      with J1 * show ?thesis by (auto simp: justified_def intro: J)
    next
      case False
      with * h' have "h = h1 @ c # drop (Suc (length h1)) h"
        by (metis append_Cons append_eq_append_conv_if append_take_drop_id drop_Suc_Cons id_take_nth_drop linorder_not_le nth_append_length nth_append)
      with J2 * show ?thesis unfolding justified_def by metis
    qed
  qed
qed

text \<open>Some control plane that differs from \<open>cp\<close> in conditions only justifies the deletion.\<close>

definition remediationDelete :: "env \<Rightarrow> lib \<Rightarrow> ControlPlane \<Rightarrow> call list \<Rightarrow> call \<Rightarrow> bool" where
  "remediationDelete E L cp h1 c \<longleftrightarrow>
     (\<exists>cp1 m. same_but_conditions cp cp1 \<and> remediationGuards E L cp1 m h1 \<and>
              (\<forall>x. c = DeleteMachine x \<longrightarrow> ma_Name x = ma_Name m))"

lemma remediateMachine_ext: "emits UNIV (remediateMachine E L t s)"
proof -
  have fwd: "emits UNIV (forwardLeadership E L w s1 (deleteUnhealthyMachine E L d))" if "good_gen w" for w s1 d
    unfolding forwardLeadership_def deleteUnhealthyMachine_def addPreTerminateHook_def stop_def fail_def Let_def
    by (intro go_intros that) auto
  have "emits UNIV (connectAndForward E L s1 (deleteUnhealthyMachine E L d))" for s1 d
    unfolding connectAndForward_def
    by (rule emits_bnd_ret[OF _ GetWorkloadCluster_good]) (auto simp: fail_def intro!: go_intros fwd)
  then show ?thesis
    unfolding remediateMachine_def remediateInitialized_def quorumCheck_def Let_def
    by (auto simp: stop_def fail_def deleteUnhealthyMachine_def intro!: go_intros split: prod.split sum.split)
qed

lemma remediateSelected_keeps:
  assumes same: "same_but_conditions cp cp1"
  shows "keeps (justified k is_delete_machine (remediationDelete E L cp)) (remediateSelected E L t (UnhealthyMachines L cp1) cp1)"
proof (cases "getMachineToBeRemediated L (UnhealthyMachines L cp1)")
  case None
  then show ?thesis by (auto simp: remediateSelected_def bnd_def panic_def keeps_def)
next
  case (Some m)
  let ?J = "justified k is_delete_machine (remediationDelete E L cp)"
  have nm: "keeps ?J (new_helper E n)" "keeps ?J (do_write E (PatchMachine x))" for n x
    by (rule justified_emits, auto intro!: go_intros)+
  have rem: "keeps ?J (remediateMachine E L t (cp1, m))"
    if "\<not> ma_deleting m" "mget (kp_Annotations (cp_KCP cp1)) RemediationInProgressAnnotation = None"
    by (rule justified_weaken[OF remediateMachine_ext remediateMachine_deletions[OF Some that]])
      (use same in \<open>auto simp: remediationDelete_def\<close>)
  show ?thesis
    using rem Some
    by (auto simp: remediateSelected_def Let_def
        intro!: keeps_cases keeps_intros keeps_bnd[OF nm(1)] keeps_bnd[OF nm(2)] keeps_bnd[OF keeps_outcome])
qed

lemma reconcileUnhealthyMachines_keeps:
  "keeps (justified k is_delete_machine (remediationDelete E L cp)) (reconcileUnhealthyMachines E L cp)"
proof -
  let ?J = "justified k is_delete_machine (remediationDelete E L cp)"
  have nm: "keeps ?J (now E)" "keeps ?J (foldG (cleanupRemediated E L) ms s)" for ms s
    by (rule justified_emits, auto intro!: go_intros emits_foldG cleanup_nonmachine)+
  show ?thesis
    unfolding reconcileUnhealthyMachines_def Let_def
    by (intro keeps_bnd[OF nm(1)] keeps_bnd_ret[OF nm(2) cleanup_loop_same])
      (auto intro!: keeps_cases keeps_intros remediateSelected_keeps)
qed

subsection \<open>At most one machine is deleted\<close>

lemma deleteUnhealthyMachine_bounded: "bounded is_delete_machine (Suc 0) (deleteUnhealthyMachine E L d s)"
proof -
  have "bounded is_delete_machine (Suc 0) (do_write E (DeleteMachine m))" for m
    by (rule api_bounded1)
  then show ?thesis
    unfolding deleteUnhealthyMachine_def Let_def fail_def
    by (intro bounded_bnd_last) (auto intro!: bounded_ret split: option.split sum.split)
qed

lemma forwardLeadership_bounded:
  assumes "good_gen w" "\<And>s. bounded is_delete_machine n (cont s)"
  shows "bounded is_delete_machine n (forwardLeadership E L w s cont)"
  unfolding forwardLeadership_def stop_def fail_def
  by (auto intro!: bounded_if bounded_option bounded_prod bounded_bnd_nm bounded_ret assms
      ForwardEtcdLeadership_emits addPreTerminateHook_nonmachine)

lemma remediateMachine_bounded: "bounded is_delete_machine (Suc 0) (remediateMachine E L t s)"
proof -
  have "bounded is_delete_machine (Suc 0) (connectAndForward E L s1 (deleteUnhealthyMachine E L d))" for s1 d
    unfolding connectAndForward_def
    by (rule bounded_bnd_ret[OF _ GetWorkloadCluster_good])
      (auto simp: fail_def intro!: go_intros forwardLeadership_bounded deleteUnhealthyMachine_bounded split: sum.split)
  then show ?thesis
    unfolding remediateMachine_def remediateInitialized_def quorumCheck_def Let_def stop_def fail_def
    by (auto intro!: bounded_if bounded_option bounded_sum bounded_prod bounded_bnd_nm bounded_ret
        canSafelyRemoveEtcdMember_reads deleteUnhealthyMachine_bounded)
qed

lemma reconcileUnhealthyMachines_bounded:
  "bounded is_delete_machine (Suc 0) (reconcileUnhealthyMachines E L cp)"
proof -
  have o: "bounded is_delete_machine (Suc 0) (outcome (remediateMachine E L t s))" for t s
    by (intro go_intros remediateMachine_bounded)
  have w: "bounded is_delete_machine (Suc 0) (bnd (outcome (remediateMachine E L t s)) (\<lambda>out.
      bnd (do_write E (PatchMachine (f out))) (g out)))" if "\<And>out e. bounded is_delete_machine 0 (g out e)" for t s f g
    by (rule bounded_bnd_last[OF o]) (auto intro!: bounded_bnd_nm client_emits that)
  show ?thesis
    unfolding reconcileUnhealthyMachines_def remediateSelected_def Let_def
    by (intro bounded_bnd_nm bounded_if bounded_option bounded_prod bounded_ret w)
      (auto intro!: client_emits emits_foldG cleanup_nonmachine deref_intros bounded_ret bounded_panic split: option.split)
qed

end
