(* ===== verification/Sample.thy ===== *)
theory Sample
  imports Remediation
begin

text \<open>
  Concrete instances for the witnesses: the library functions \<open>L0\<close>, which keep all the
  laws of theory \<open>Client\<close>, a friendly environment \<open>E0\<close> in which every call succeeds, and
  small objects.
\<close>

section \<open>Library functions that keep the laws\<close>

definition best :: "(Machine \<Rightarrow> Machine \<Rightarrow> bool) \<Rightarrow> Machine list \<Rightarrow> Machine option" where
  "best lt ms = (case ms of [] \<Rightarrow> None | m # ms \<Rightarrow> Some (foldl (\<lambda>a b. if lt b a then b else a) m ms))"

lemma best_fold:
  fixes f :: "Machine \<Rightarrow> int"
  shows "foldl (\<lambda>a b. if f b < f a then b else a) m ms \<in> set (m # ms) \<and>
    (\<forall>x\<in>set (m # ms). f (foldl (\<lambda>a b. if f b < f a then b else a) m ms) \<le> f x)"
proof (induction ms arbitrary: m)
  case (Cons y ys)
  show ?case using Cons[of "if f y < f m then y else m"] by (auto split: if_splits)
qed simp

definition find0 :: "string \<Rightarrow> Condition list \<Rightarrow> Condition option" where
  "find0 t cs = List.find (\<lambda>c. c_Type c = t) cs"

definition has_status :: "ConditionStatus \<Rightarrow> string \<Rightarrow> V1Condition list \<Rightarrow> bool" where
  "has_status st t cs = (case List.find (\<lambda>c. v_Type c = t) cs of None \<Rightarrow> False | Some c \<Rightarrow> v_Status c = st)"

definition v1put :: "V1Condition \<Rightarrow> V1Condition list \<Rightarrow> V1Condition list" where
  "v1put c cs = c # filter (\<lambda>x. v_Type x \<noteq> v_Type c) cs"

text \<open>Whole numbers as strings: the sign, and as many ticks as the absolute value.\<close>

definition ticks :: "int \<Rightarrow> string" where
  "ticks i = (if i < 0 then CHR ''-'' else CHR ''+'') # replicate (nat \<bar>i\<bar>) CHR ''i'' @ '',''"

definition untick :: "string \<Rightarrow> int \<times> string" where
  "untick s = (let n = int (length (takeWhile (\<lambda>c. c = CHR ''i'') (tl s)));
                   rest = tl (dropWhile (\<lambda>c. c = CHR ''i'') (tl s))
               in (if hd s = CHR ''-'' then - n else n, rest))"

lemma untick_ticks: "untick (ticks i @ s) = (i, s)"
proof -
  have "takeWhile (\<lambda>c. c = CHR ''i'') (replicate n CHR ''i'' @ CHR '','' # s) = replicate n CHR ''i''" for n
    by (induction n) auto
  moreover have "dropWhile (\<lambda>c. c = CHR ''i'') (replicate n CHR ''i'' @ CHR '','' # s) = CHR '','' # s" for n
    by (induction n) auto
  ultimately show ?thesis by (auto simp: ticks_def untick_def)
qed

definition encodeRem :: "RemediationData \<Rightarrow> goerr + string" where
  "encodeRem d = Inr (ticks (rd_Timestamp d div 1000000000) @ ticks (sint (rd_RetryCount d)) @ rd_Machine d)"

definition decodeRem :: "string \<Rightarrow> goerr + RemediationData" where
  "decodeRem s = (let (t, s1) = untick s; (c, m) = untick s1
     in Inr \<lparr>rd_Machine = m, rd_Timestamp = t * 1000000000, rd_RetryCount = word_of_int c\<rparr>)"

definition L0 :: lib where
  "L0 = \<lparr>
     Oldest = best (\<lambda>a b. created a < created b),
     Newest = best (\<lambda>a b. - created a < - created b),
     LowestVersion = (\<lambda>ms. case ms of [] \<Rightarrow> [] | m # _ \<Rightarrow> ma_Version m),
     InFailureDomains = (\<lambda>fds m. ma_FailureDomain m \<in> set fds),
     IsControlPlaneMachine = (\<lambda>_. True),
     HasAnnotationKey = (\<lambda>k m. mget (ma_Annotations m) k \<noteq> None),
     IsUnhealthy = (\<lambda>m. (case find0 ''HealthCheckSucceeded'' (ma_Conditions m) of None \<Rightarrow> False | Some c \<Rightarrow> c_Status c = CFalse)),
     HasNode = (\<lambda>m. ma_NodeRef m \<noteq> None),
     HasDeletionTimestamp = ma_deleting,
     IsReady = (\<lambda>m. ma_NodeRef m \<noteq> None),
     OwnedMachines = (\<lambda>p m. \<exists>r\<in>set (om_OwnerReferences (ma_Meta m)). or_UID r = om_UID (kp_Meta p)),
     ControlPlaneMachines = (\<lambda>_ _. True),
     AdoptableControlPlaneMachines = (\<lambda>_ m. om_OwnerReferences (ma_Meta m) = []),
     ActiveMachines = (\<lambda>m. \<not> ma_deleting m),
     ShouldRolloutAfter = (\<lambda>now after m. after \<noteq> 0 \<and> after < now \<and> created m < after),
     PickMost = (\<lambda>fds all ms. case ms of [] \<Rightarrow> [] | m # _ \<Rightarrow> ma_FailureDomain m),
     PickFewest = (\<lambda>fds all ms. case fds of [] \<Rightarrow> [] | f # _ \<Rightarrow> fd_Name f),
     condGet = find0,
     condSet = (\<lambda>c cs. c # filter (\<lambda>x. c_Type x \<noteq> c_Type c) cs),
     condDelete = (\<lambda>t cs. filter (\<lambda>x. c_Type x \<noteq> t) cs),
     condIsTrue = (\<lambda>t cs. case find0 t cs of None \<Rightarrow> False | Some c \<Rightarrow> c_Status c = CTrue),
     condIsFalse = (\<lambda>t cs. case find0 t cs of None \<Rightarrow> False | Some c \<Rightarrow> c_Status c = CFalse),
     v1MarkTrue = (\<lambda>t. v1put \<lparr>v_Type = t, v_Status = CTrue, v_Severity = SevNone, v_Reason = [], v_Message = []\<rparr>),
     v1MarkFalse = (\<lambda>t r sv ms. v1put \<lparr>v_Type = t, v_Status = CFalse, v_Severity = sv, v_Reason = r, v_Message = ms\<rparr>),
     v1MarkUnknown = (\<lambda>t r ms. v1put \<lparr>v_Type = t, v_Status = CUnknown, v_Severity = SevNone, v_Reason = r, v_Message = ms\<rparr>),
     v1Has = (\<lambda>t cs. \<exists>c\<in>set cs. v_Type c = t),
     v1IsTrue = has_status CTrue,
     v1IsFalse = has_status CFalse,
     v1GetReason = (\<lambda>t cs. case List.find (\<lambda>c. v_Type c = t) cs of None \<Rightarrow> [] | Some c \<Rightarrow> v_Reason c),
     v1SetSummary = (\<lambda>_ cs. cs),
     v1SetAggregate = (\<lambda>_ _ cs. cs),
     NewControllerRef = (\<lambda>om k. \<lparr>or_APIVersion = controlplane_group_version, or_Kind = k, or_Name = om_Name om,
        or_UID = om_UID om, or_Controller = Some True\<rparr>),
     IsControlledBy = (\<lambda>rs om. \<exists>r\<in>set rs. or_Controller r = Some True \<and> or_UID r = om_UID om),
     AddAnnotation = (\<lambda>a k v. Some ((case a of None \<Rightarrow> Map.empty | Some f \<Rightarrow> f)(k \<mapsto> v))),
     EnsureOwnerRef = (\<lambda>rs r. if r \<in> set rs then rs else rs @ [r]),
     IsNodeReady = (\<lambda>n. (''Ready'', ''True'') \<in> set (n_Conditions n)),
     IsPaused = (\<lambda>_ _. False),
     ControlPlaneSelector = (\<lambda>n. ClusterNameLabel @ ''='' @ n),
     errText = (\<lambda>_. ''error''),
     groupKindOf = ref_Kind,
     marshalServerConfig = (\<lambda>c. Inr (sc_ClusterDomain c)),
     marshalRemediation = encodeRem,
     unmarshalRemediation = decodeRem\<rparr>"

lemma L0_oldest: "oldest_laws L0"
proof -
  have "best (\<lambda>a b. created a < created b) ms = Some m \<Longrightarrow> m \<in> set ms \<and> (\<forall>x\<in>set ms. created m \<le> created x)" for ms m
    using best_fold[of created "hd ms" "tl ms"] by (cases ms) (auto simp: best_def)
  moreover have "best (\<lambda>a b. created a < created b) ms = None \<longleftrightarrow> ms = []" for ms
    by (cases ms) (auto simp: best_def)
  ultimately show ?thesis by (simp add: oldest_laws_def L0_def)
qed

lemma L0_newest: "newest_laws L0"
proof -
  have "best (\<lambda>a b. - created a < - created b) ms = Some m \<Longrightarrow> m \<in> set ms \<and> (\<forall>x\<in>set ms. created x \<le> created m)" for ms m
    using best_fold[of "\<lambda>x. - created x" "hd ms" "tl ms"] by (cases ms) (auto simp: best_def)
  moreover have "best (\<lambda>a b. - created a < - created b) ms = None \<longleftrightarrow> ms = []" for ms
    by (cases ms) (auto simp: best_def)
  ultimately show ?thesis by (simp add: newest_laws_def L0_def)
qed

lemma find_filter_other: "t \<noteq> t' \<Longrightarrow> List.find (\<lambda>c. f c = t) (filter (\<lambda>x. f x \<noteq> t') cs) = List.find (\<lambda>c. f c = t) cs"
  by (induction cs) auto

lemma L0_conditions: "condition_laws L0"
  unfolding condition_laws_def
  by (auto simp: L0_def find0_def find_filter_other split: option.splits)

lemma L0_v1conditions: "v1condition_laws L0"
  unfolding v1condition_laws_def
  by (auto simp: L0_def has_status_def v1put_def find_filter_other)

lemma L0_annotation: "annotation_law L0"
  by (auto simp: annotation_law_def L0_def mget_def split: option.split)

lemma L0_json: "remediation_json_law L0"
proof -
  have "t div 1000000000 * 1000000000 = trunc_second t" for t
    by (simp add: trunc_second_def minus_mod_eq_div_mult)
  then show ?thesis
    by (simp add: remediation_json_law_def L0_def encodeRem_def decodeRem_def untick_ticks Let_def)
qed

section \<open>Small objects\<close>

definition meta0 :: "string \<Rightarrow> string \<Rightarrow> ObjectMeta" where
  "meta0 n uid = emptyMeta\<lparr>om_Name := n, om_Namespace := ''ns'', om_UID := uid, om_Annotations := Some Map.empty\<rparr>"

definition server0 :: KThreesServerConfig where
  "server0 = \<lparr>sc_KubeAPIServerArgs = None, sc_KubeControllerManagerArgs = None, sc_KubeSchedulerArgs = None,
     sc_TLSSan = None, sc_BindAddress = [], sc_HTTPSListenPort = [], sc_AdvertiseAddress = [], sc_AdvertisePort = [],
     sc_ClusterCidr = [], sc_ServiceCidr = [], sc_ClusterDNS = [], sc_ClusterDomain = ''cluster.local'',
     sc_DisableComponents = None, sc_DeprecatedDisableExternalCloudProvider = False, sc_DisableCloudController = None,
     sc_CloudProviderName = None, sc_SystemDefaultRegistry = [], sc_EtcdProxyImage = []\<rparr>"

definition agent0 :: KThreesAgentConfig where
  "agent0 = \<lparr>ac_NodeLabels = None, ac_NodeTaints = None, ac_PrivateRegistry = [], ac_KubeletArgs = None,
     ac_KubeProxyArgs = None, ac_NodeName = [], ac_AirGapped = False, ac_AirGappedInstallScriptPath = []\<rparr>"

definition config0 :: KThreesConfigSpec where
  "config0 = \<lparr>kc_Files = None, kc_PreK3sCommands = None, kc_PostK3sCommands = None, kc_AgentConfig = agent0,
     kc_ServerConfig = server0, kc_Version = ''v1.30.0''\<rparr>"

definition kcp0 :: KThreesControlPlane where
  "kcp0 = \<lparr>kp_Meta = meta0 ''kcp'' ''uid-kcp'',
     kp_Spec = \<lparr>ps_Replicas = Some 3, ps_Version = ''v1.30.0'', ps_KThreesConfigSpec = config0, ps_RolloutAfter = None,
        ps_MachineTemplate = \<lparr>mt_Labels = None, mt_Annotations = None,
           mt_InfrastructureRef = \<lparr>ref_Kind = ''InfraTemplate'', ref_Namespace = ''ns'', ref_Name = ''tpl'', ref_UID = [],
              ref_APIVersion = ''infra/v1''\<rparr>,
           mt_NodeDrainTimeout = None, mt_NodeVolumeDetachTimeout = None, mt_NodeDeletionTimeout = None\<rparr>,
        ps_RemediationStrategy = None\<rparr>,
     kp_Status = \<lparr>st_Selector = [], st_Replicas = 0, st_Version = None, st_UpdatedReplicas = 0, st_ReadyReplicas = 0,
        st_UnavailableReplicas = 0, st_Initialized = False, st_Ready = False, st_FailureReason = [],
        st_FailureMessage = None, st_ObservedGeneration = 0, st_Conditions = None, st_LastRemediation = None\<rparr>\<rparr>"

definition cluster0 :: Cluster where
  "cluster0 = \<lparr>cl_Meta = meta0 ''c'' ''uid-c'', cl_ControlPlaneEndpoint = \<lparr>ep_Host = ''host'', ep_Port = 6443\<rparr>,
     cl_ControlPlaneRef = None, cl_FailureDomains = None, cl_InfrastructureProvisioned = Some True,
     cl_ControlPlaneInitialized = None\<rparr>"

definition machine0 :: "string \<Rightarrow> string option \<Rightarrow> Condition list \<Rightarrow> Machine" where
  "machine0 n node cs = \<lparr>ma_Meta = meta0 n n, ma_ClusterName = ''c'', ma_Version = ''v1.30.0'', ma_FailureDomain = [],
     ma_InfrastructureRef = None, ma_ConfigRef = None,
     ma_Deletion = \<lparr>md_NodeDrainTimeoutSeconds = None, md_NodeVolumeDetachTimeoutSeconds = None,
       md_NodeDeletionTimeoutSeconds = None\<rparr>,
     ma_NodeRef = node, ma_Conditions = cs\<rparr>"

definition cp0 :: "Machine list \<Rightarrow> ControlPlane" where
  "cp0 ms = \<lparr>cp_KCP = kcp0, cp_Cluster = cluster0, cp_Machines = ms, cp_machinesPatchHelpers = map ma_Name ms,
     cp_hasEtcdCA = True, cp_reconciliationTime = 1000, cp_KthreesConfigs = Map.empty, cp_InfraResources = Map.empty\<rparr>"

section \<open>An environment in which every call succeeds\<close>

definition node0 :: "string \<Rightarrow> Node" where
  "node0 n = \<lparr>n_Meta = (meta0 n n)\<lparr>om_Labels := Some [labelNodeRoleControlPlane \<mapsto> []]\<rparr>, n_Taints = [],
     n_Conditions = [(''Ready'', ''True'')]\<rparr>"

definition member0 :: "uint64 \<Rightarrow> string \<Rightarrow> PbMember" where
  "member0 i n = \<lparr>pm_ID = i, pm_Name = n, pm_PeerURLs = [], pm_ClientURLs = [], pm_IsLearner = False\<rparr>"

definition E0 :: env where
  "E0 = \<lparr>e_err = (\<lambda>_ _. None),
     e_kcp = (\<lambda>_ _. Inr kcp0), e_cluster = (\<lambda>_ _. Inr (Some cluster0)),
     e_machine = (\<lambda>_ _. Inr (machine0 ''m'' None [])), e_machines = (\<lambda>_ _. Inr []),
     e_config = (\<lambda>_ _. Inl (ApiErr NotFound [])),
     e_secret = (\<lambda>_ _. Inr \<lparr>s_Meta = meta0 ''s'' ''s'', s_Data = Some [''tls.crt'' \<mapsto> ''crt'', ''tls.key'' \<mapsto> ''key''], s_Type = []\<rparr>),
     e_configmap = (\<lambda>_ _. Inl (ApiErr NotFound [])),
     e_node = (\<lambda>_ _. Inr (node0 ''n1'')),
     e_nodes = (\<lambda>_ _. Inr [node0 ''n1'', node0 ''n2'']),
     e_unstructured = (\<lambda>_ _. Inl (ApiErr NotFound [])),
     e_ref = (\<lambda>_ _. Inr \<lparr>cr_APIGroup = ''infra'', cr_Kind = ''Infra'', cr_Name = ''infra-1''\<rparr>),
     e_pods = (\<lambda>_ _. Inr [(''n1'', ''p1''), (''n2'', ''p2'')]),
     e_status = (\<lambda>_ _. Inr (1, [])),
     e_members = (\<lambda>_ _. Inr (7, [member0 1 ''n1-a'', member0 2 ''n2-b'', member0 3 ''n3-c''])),
     e_alarms = (\<lambda>_ _. Inr []),
     e_applied = (\<lambda>_ _. Inr ''2''), e_merged = (\<lambda>_ m. m),
     e_now = (\<lambda>_. 5000), e_name = (\<lambda>_ base. base @ ''x7k2p''),
     e_helper = (\<lambda>_ _. None), e_random = (\<lambda>_ _. Inr ''material''),
     e_DecodeCertPEM = (\<lambda>x. Inr (Some x)), e_DecodePrivateKeyPEM = (\<lambda>x. Inr (Some x)), e_ParseCertificate = Inr,
     e_EncodePublicKeyPEM = Inr, e_X509KeyPair = (\<lambda>_ _. None)\<rparr>"

end
