(* ===== verification/Ssa.thy ===== *)
theory Ssa
  imports Client
begin

unbundle bit_operations_syntax

text \<open>
  \<^verbatim>\<open>pkg/util/ssa\<close> and \<^verbatim>\<open>pkg/util/contract\<close>: server-side apply. Paths into
  unstructured objects, the filter that reduces an object to the fields the controller has an
  opinion on, the one-time surgery on managed fields, and \<^verbatim>\<open>Patch\<close> with the cache of
  requests that change nothing.

  An unstructured value is a map (an association list in the order of a range) or anything
  else, which the code never looks into.
\<close>

section \<open>Paths\<close>

type_synonym Path = "string list"

definition Append :: "Path \<Rightarrow> string \<Rightarrow> Path" where
  "Append p k = p @ [k]"

definition IsParentOf :: "Path \<Rightarrow> Path \<Rightarrow> bool" where
  "IsParentOf p other =
     (if length p \<ge> length other then False else \<forall>i<length p. p ! i = other ! i)"

definition Equal :: "Path \<Rightarrow> Path \<Rightarrow> bool" where
  "Equal p other = (if length p \<noteq> length other then False else \<forall>i<length p. p ! i = other ! i)"

definition Overlaps :: "Path \<Rightarrow> Path \<Rightarrow> bool" where
  "Overlaps p other = (Equal other p \<or> IsParentOf other p \<or> IsParentOf p other)"

definition PathString :: "Path \<Rightarrow> string" where
  "PathString p = Join p ''.''"

definition IsPathAllowed :: "Path list \<Rightarrow> Path \<Rightarrow> bool" where
  "IsPathAllowed allowedPaths path = (\<exists>p\<in>set allowedPaths. Overlaps path p)"
definition IsPathNotAllowed :: "Path list \<Rightarrow> Path \<Rightarrow> bool" where
  "IsPathNotAllowed allowedPaths path = (\<not> IsPathAllowed allowedPaths path)"
definition IsPathIgnored :: "Path list \<Rightarrow> Path \<Rightarrow> bool" where
  "IsPathIgnored ignorePaths path = (\<exists>p\<in>set ignorePaths. Equal path p)"

section \<open>Filtering an intent\<close>

datatype jval = JMap "(string \<times> jval) list" | JOther string

text \<open>The value after the in-place deletions, and whether fields were deleted.\<close>

fun FilterIntent :: "(Path \<Rightarrow> bool) \<Rightarrow> Path \<Rightarrow> jval \<Rightarrow> jval \<times> bool"
  and filterFields :: "(Path \<Rightarrow> bool) \<Rightarrow> Path \<Rightarrow> (string \<times> jval) list \<Rightarrow> (string \<times> jval) list \<times> bool" where
  "FilterIntent ShouldFilter path (JOther x) = (JOther x, False)"
| "FilterIntent ShouldFilter path (JMap value) =
     (let r = filterFields ShouldFilter path value in (JMap (fst r), snd r))"
| "filterFields ShouldFilter path [] = ([], False)"
| "filterFields ShouldFilter path ((field, v) # fs) =
     (let rest = filterFields ShouldFilter path fs
      in if ShouldFilter (Append path field) then (fst rest, True)
         else let r = FilterIntent ShouldFilter (Append path field) v
              in if snd r \<and> fst r = JMap [] then (fst rest, True)
                 else ((field, fst r) # fst rest, snd rest))"

definition FilterObject :: "Path list \<Rightarrow> Path list \<Rightarrow> jval \<Rightarrow> jval" where
  "FilterObject allowedPaths ignorePaths obj =
     (let o1 = (if length allowedPaths > 0 then fst (FilterIntent (IsPathNotAllowed allowedPaths) [] obj) else obj)
      in if length ignorePaths > 0 then fst (FilterIntent (IsPathIgnored ignorePaths) [] o1) else o1)"

definition allowedIntentPaths :: "Path list" where
  "allowedIntentPaths =
     [[''apiVersion''], [''kind''], [''metadata'', ''name''], [''metadata'', ''namespace''], [''metadata'', ''uid''],
      [''metadata'', ''labels''], [''metadata'', ''annotations''], [''metadata'', ''finalizers''],
      [''metadata'', ''ownerReferences''], [''spec'']]"

text \<open>The conversion to unstructured is the scheme's.\<close>

definition prepareModified :: "('obj \<Rightarrow> goerr + jval) \<Rightarrow> 'obj \<Rightarrow> goerr + jval" where
  "prepareModified convert obj =
     (case convert obj of
        Inl err \<Rightarrow> Inl (Wrap ''failed to convert object to Unstructured'' err)
      | Inr u \<Rightarrow> Inr (FilterObject allowedIntentPaths [] u))"

section \<open>Managed fields\<close>

definition classicManager :: string where "classicManager = ''manager''"

definition hasFieldsManagedBy :: "ManagedFieldsEntry list \<Rightarrow> string \<Rightarrow> bool" where
  "hasFieldsManagedBy managedFields manager = (\<exists>mf\<in>set managedFields. mf_Manager mf = manager)"

definition is_classic :: "ManagedFieldsEntry \<Rightarrow> bool" where
  "is_classic mf = (mf_Manager mf = classicManager \<and> mf_Operation mf = ''Update'')"

text \<open>One entry: the ownership of \<open>paths\<close> is dropped in place, through the pointer to the
  fields, which is dereferenced without a check (\<open>None\<close> is the panic). JSON is a parameter.\<close>

definition dropOwnershipOf ::
  "(string \<Rightarrow> goerr + jval) \<Rightarrow> (jval \<Rightarrow> goerr + string) \<Rightarrow> Path list \<Rightarrow> ManagedFieldsEntry \<Rightarrow>
    (ManagedFieldsEntry \<times> goerr option) option" where
  "dropOwnershipOf unmarshal marshal paths mf =
     (if \<not> is_classic mf then Some (mf, None)
      else case mf_FieldsV1 mf of
        None \<Rightarrow> None
      | Some raw \<Rightarrow>
          Some (case unmarshal raw of
             Inl err \<Rightarrow> (mf, Some (Wrap ''failed to unmarshal managed fields'' err))
           | Inr fieldsV1 \<Rightarrow>
              (case marshal (fst (FilterIntent (IsPathIgnored paths) [] fieldsV1)) of
                 Inl err \<Rightarrow> (mf, Some (Wrap ''failed to marshal managed fields'' err))
               | Inr fieldsV1Raw \<Rightarrow> (mf\<lparr>mf_FieldsV1 := Some fieldsV1Raw\<rparr>, None))))"

text \<open>The loop stops at the first error. The entries share their fields with those of the
  object, so the entries handled before the error stay changed.\<close>

primrec dropOwnership ::
  "(string \<Rightarrow> goerr + jval) \<Rightarrow> (jval \<Rightarrow> goerr + string) \<Rightarrow> Path list \<Rightarrow> ManagedFieldsEntry list \<Rightarrow>
    (ManagedFieldsEntry list \<times> goerr option) option" where
  "dropOwnership unmarshal marshal paths [] = Some ([], None)"
| "dropOwnership unmarshal marshal paths (mf # mfs) =
     (case dropOwnershipOf unmarshal marshal paths mf of
        None \<Rightarrow> None
      | Some (mf1, Some err) \<Rightarrow> Some (mf1 # mfs, Some err)
      | Some (mf1, None) \<Rightarrow>
          map_option (\<lambda>(mfs1, e). (mf1 # mfs1, e)) (dropOwnership unmarshal marshal paths mfs))"

text \<open>Both functions return the object's metadata with the managed fields they set and, when
  the patch succeeded, the resource version of the server's answer.\<close>

definition patchedManagedFields ::
  "ObjectMeta \<Rightarrow> ManagedFieldsEntry list \<Rightarrow> goerr + string \<Rightarrow> ObjectMeta \<times> goerr option" where
  "patchedManagedFields obj managedFields r =
     (case r of
        Inl err \<Rightarrow> (obj\<lparr>om_ManagedFields := managedFields\<rparr>, Some err)
      | Inr resourceVersion \<Rightarrow>
          (obj\<lparr>om_ManagedFields := managedFields, om_ResourceVersion := resourceVersion\<rparr>, None))"

definition DropManagedFields ::
  "env \<Rightarrow> (string \<Rightarrow> goerr + jval) \<Rightarrow> (jval \<Rightarrow> goerr + string) \<Rightarrow> string \<Rightarrow> ObjectMeta \<Rightarrow> string \<Rightarrow> Path list \<Rightarrow>
    (call, ObjectMeta \<times> goerr option) go" where
  "DropManagedFields E unmarshal marshal kind obj ssaManager paths =
     (if hasFieldsManagedBy (om_ManagedFields obj) ssaManager then ret (obj, None)
      else bnd (deref (dropOwnership unmarshal marshal paths (om_ManagedFields obj))) (\<lambda>(managedFields, e). case e of
        Some err \<Rightarrow> ret (obj\<lparr>om_ManagedFields := managedFields\<rparr>, Some err)
      | None \<Rightarrow>
          bnd (api E e_applied (PatchManagedFields kind (om_Namespace obj, om_Name obj) managedFields))
           (\<lambda>r. ret (patchedManagedFields obj managedFields r))))"

definition seedEntry :: "string \<Rightarrow> string \<Rightarrow> ManagedFieldsEntry" where
  "seedEntry ssaManager apiVersion =
     \<lparr>mf_Manager = ssaManager, mf_Operation = ''Apply'', mf_APIVersion = apiVersion,
      mf_FieldsV1 = Some ''{\"f:metadata\":{\"f:name\":{}}}''\<rparr>"

text \<open>The group and version of the object come from the scheme, which may not know it.\<close>

definition CleanUpManagedFieldsForSSAAdoption ::
  "env \<Rightarrow> string \<Rightarrow> goerr + string \<Rightarrow> ObjectMeta \<Rightarrow> string \<Rightarrow> (call, ObjectMeta \<times> goerr option) go" where
  "CleanUpManagedFieldsForSSAAdoption E kind gvk obj ssaManager =
     (if hasFieldsManagedBy (om_ManagedFields obj) ssaManager then ret (obj, None)
      else case gvk of
        Inl err \<Rightarrow> ret (obj, Some (Wrap ''failed to get GroupVersionKind of object'' err))
      | Inr apiVersion \<Rightarrow>
          (let managedFields = filter (\<lambda>mf. \<not> is_classic mf) (om_ManagedFields obj) @ [seedEntry ssaManager apiVersion]
           in bnd (api E e_applied (PatchManagedFields kind (om_Namespace obj, om_Name obj) managedFields))
                (\<lambda>r. ret (patchedManagedFields obj managedFields r))))"

section \<open>The cache\<close>

text \<open>The interface \<^verbatim>\<open>Cache\<close>, with its state and the current time made explicit.\<close>

record 'c CacheOps =
  CacheAdd :: "'c \<Rightarrow> time \<Rightarrow> string \<Rightarrow> 'c"
  CacheHas :: "'c \<Rightarrow> time \<Rightarrow> string \<Rightarrow> bool"

definition ttl :: duration where "ttl = 10 * Minute"

text \<open>\<^verbatim>\<open>ssaCache\<close>: a store of keys with the time at which they were added; a key
  expires when it is older than \<open>ttl\<close>.\<close>

type_synonym ssaCache = "string \<rightharpoonup> time"

definition ssaCache_Add :: "ssaCache \<Rightarrow> time \<Rightarrow> string \<Rightarrow> ssaCache" where
  "ssaCache_Add c t key = c(key \<mapsto> t)"

definition ssaCache_Has :: "ssaCache \<Rightarrow> time \<Rightarrow> string \<Rightarrow> bool" where
  "ssaCache_Has c t key = (case c key of None \<Rightarrow> False | Some added \<Rightarrow> \<not> t - added > sint ttl)"

definition NewCache :: "ssaCache CacheOps" where
  "NewCache = \<lparr>CacheAdd = ssaCache_Add, CacheHas = ssaCache_Has\<rparr>"

text \<open>The contract: a key is found until its time to live is over, adding a key does not make
  another one appear or vanish.\<close>

locale ssa_cache =
  fixes ops :: "'c CacheOps"
  assumes has_add: "t' \<le> t + sint ttl \<Longrightarrow> CacheHas ops (CacheAdd ops c t k) t' k"
    and has_other: "k' \<noteq> k \<Longrightarrow> CacheHas ops (CacheAdd ops c t k) t' k' = CacheHas ops c t' k'"

section \<open>The hash of an object\<close>

text \<open>\<^verbatim>\<open>pkg/util/hash\<close>: the 32-bit FNV-1a sum of the text the spew library prints for the
  object. The printer is a parameter.\<close>

definition New32a :: "32 word" where "New32a = 2166136261"

definition Write32a :: "32 word \<Rightarrow> string \<Rightarrow> 32 word" where
  "Write32a start data = foldl (\<lambda>h c. (h XOR of_char c) * 16777619) start data"

definition Compute :: "(jval \<Rightarrow> goerr + string) \<Rightarrow> jval \<Rightarrow> goerr + 32 word" where
  "Compute printer obj =
     (case printer obj of
        Inl _ \<Rightarrow> Inl (Msg ''failed to calculate hash'')
      | Inr text \<Rightarrow> Inr (Write32a New32a text))"

section \<open>Patch\<close>

definition ComputeRequestIdentifier ::
  "(jval \<Rightarrow> goerr + 32 word) \<Rightarrow> goerr + string \<Rightarrow> ObjectMeta \<Rightarrow> jval \<Rightarrow> goerr + string" where
  "ComputeRequestIdentifier hash gvk original modified =
     (case hash modified of
        Inl err \<Rightarrow> Inl (Wrap ''failed to calculate request identifier: failed to compute hash for modified object'' err)
      | Inr modifiedObjectHash \<Rightarrow>
         (case gvk of
            Inl err \<Rightarrow> Inl (Wrap ''failed to calculate request identifier: failed to get GroupVersionKind'' err)
          | Inr g \<Rightarrow>
              Inr (g @ ''.'' @ (if om_Namespace original = [] then om_Name original
                                else om_Namespace original @ ''/'' @ om_Name original) @ ''.'' @
                   om_ResourceVersion original @ ''.'' @ show_nat (unat modifiedObjectHash))))"

text \<open>
  \<open>apply\<close> is the request, \<open>prepared\<close> the filtered intent, \<open>gvk\<close> the kind of the object;
  with a caching proxy the original object and its kind are given. The result is the cache,
  whether the caller's object now holds the server's answer (it holds the original when the
  request was cached), and the error. Writing the object back is a conversion of the scheme.
\<close>

definition sendApply ::
  "env \<Rightarrow> 'c CacheOps \<Rightarrow> 'c \<Rightarrow> call \<Rightarrow> (ObjectMeta \<times> string) option \<Rightarrow> (call, 'c \<times> bool \<times> goerr option) go" where
  "sendApply E ops cache apply caching =
     bnd (api E e_applied apply) (\<lambda>r. case r of
       Inl err \<Rightarrow> ret (cache, False, Some (Wrap ''failed to apply'' err))
     | Inr resourceVersion \<Rightarrow>
         bnd (new_helper E ''convert'') (\<lambda>e. case e of
           Some err \<Rightarrow> ret (cache, False, Some (Wrap ''failed to write modified object'' err))
         | None \<Rightarrow>
            (case caching of
               None \<Rightarrow> ret (cache, True, None)
             | Some (original, requestIdentifier) \<Rightarrow>
                 if om_ResourceVersion original = resourceVersion
                 then bnd (now E) (\<lambda>t. ret (CacheAdd ops cache t requestIdentifier, True, None))
                 else ret (cache, True, None))))"

definition Patch ::
  "env \<Rightarrow> 'c CacheOps \<Rightarrow> 'c \<Rightarrow> (jval \<Rightarrow> goerr + 32 word) \<Rightarrow> call \<Rightarrow> goerr + jval \<Rightarrow> goerr + string \<Rightarrow>
    (ObjectMeta \<times> (goerr + string)) option \<Rightarrow> (call, 'c \<times> bool \<times> goerr option) go" where
  "Patch E ops cache hash apply prepared gvk caching =
     (case prepared of
        Inl err \<Rightarrow> ret (cache, False, Some err)
      | Inr modified \<Rightarrow>
       (case gvk of
          Inl err \<Rightarrow> ret (cache, False, Some (Wrap ''failed to apply object: failed to get GroupVersionKind of modified object'' err))
        | Inr _ \<Rightarrow>
         (case caching of
            None \<Rightarrow> sendApply E ops cache apply None
          | Some (original, originalGVK) \<Rightarrow>
             (case ComputeRequestIdentifier hash originalGVK original modified of
                Inl err \<Rightarrow> ret (cache, False, Some (Wrap ''failed to apply object'' err))
              | Inr requestIdentifier \<Rightarrow>
                  bnd (now E) (\<lambda>t.
                  if CacheHas ops cache t requestIdentifier
                  then bnd (new_helper E ''convert'') (\<lambda>e.
                         ret (cache, False, map_option (Wrap ''failed to write original into modified object'') e))
                  else sendApply E ops cache apply (Some (original, requestIdentifier)))))))"

text \<open>What the package takes from the scheme, the printer and the JSON libraries.\<close>

record ssaLib =
  convMachine :: "Machine \<Rightarrow> goerr + jval"
  convUnstructured :: "Unstructured \<Rightarrow> goerr + jval"
  gvkMachine :: "goerr + string"
  gvkUnstructured :: "Unstructured \<Rightarrow> goerr + string"
  spewPrint :: "jval \<Rightarrow> goerr + string"
  unmarshalFields :: "string \<Rightarrow> goerr + jval"
  marshalFields :: "jval \<Rightarrow> goerr + string"

abbreviation hashOf :: "ssaLib \<Rightarrow> jval \<Rightarrow> goerr + 32 word" where
  "hashOf X \<equiv> Compute (spewPrint X)"

definition PatchMachineObject ::
  "env \<Rightarrow> ssaLib \<Rightarrow> ssaCache \<Rightarrow> Machine \<Rightarrow> Machine option \<Rightarrow> (call, ssaCache \<times> bool \<times> goerr option) go" where
  "PatchMachineObject E X cache m original =
     Patch E NewCache cache (hashOf X) (ApplyMachine m) (prepareModified (convMachine X) m) (gvkMachine X)
       (map_option (\<lambda>o1. (ma_Meta o1, gvkMachine X)) original)"

definition PatchUnstructuredObject ::
  "env \<Rightarrow> ssaLib \<Rightarrow> ssaCache \<Rightarrow> Unstructured \<Rightarrow> (ObjectMeta \<times> (goerr + string)) option \<Rightarrow>
    (call, ssaCache \<times> bool \<times> goerr option) go" where
  "PatchUnstructuredObject E X cache u original =
     Patch E NewCache cache (hashOf X) (ApplyUnstructured u) (prepareModified (convUnstructured X) u)
       (gvkUnstructured X u) original"

section \<open>Properties\<close>

lemma sendApply_emits [go_intros]: "apply \<in> S \<Longrightarrow> emits S (sendApply E ops cache apply caching)"
  unfolding sendApply_def by (intro go_intros)

lemma Patch_emits [go_intros]: "apply \<in> S \<Longrightarrow> emits S (Patch E ops cache hash apply prepared gvk caching)"
  unfolding Patch_def by (intro go_intros)

lemma sendApply_bounded: "bounded p (Suc 0) (sendApply E ops cache apply caching)"
  unfolding sendApply_def by (rule bounded_bnd_last[OF api_bounded1]) (intro go_intros)

lemma Patch_bounded: "bounded p (Suc 0) (Patch E ops cache hash apply prepared gvk caching)"
  unfolding Patch_def by (intro go_intros sendApply_bounded)

lemma Patch_nopanic [go_intros]: "nopanic (Patch E ops cache hash apply prepared gvk caching)"
  unfolding Patch_def sendApply_def by (intro go_intros)


subsection \<open>Paths\<close>

lemma Equal_iff [simp]: "Equal p q \<longleftrightarrow> p = q"
  by (auto simp: Equal_def list_eq_iff_nth_eq)

lemma IsParentOf_iff: "IsParentOf p q \<longleftrightarrow> (\<exists>r. r \<noteq> [] \<and> q = p @ r)"
proof
  assume l: "IsParentOf p q"
  then have "length p < length q" "\<forall>i<length p. p ! i = q ! i" by (auto simp: IsParentOf_def split: if_splits)
  then have "q = p @ drop (length p) q" "drop (length p) q \<noteq> []"
    by (auto simp: list_eq_iff_nth_eq nth_append)
  then show "\<exists>r. r \<noteq> [] \<and> q = p @ r" by blast
next
  assume "\<exists>r. r \<noteq> [] \<and> q = p @ r"
  then show "IsParentOf p q" by (auto simp: IsParentOf_def nth_append)
qed

lemma Overlaps_iff: "Overlaps p q \<longleftrightarrow> (\<exists>r. q = p @ r \<or> p = q @ r)"
  unfolding Overlaps_def IsParentOf_iff by auto

lemma Overlaps_sym: "Overlaps p q = Overlaps q p"
  by (auto simp: Overlaps_iff)

subsection \<open>What a filtered intent contains\<close>

text \<open>The leaves of a value, with their paths: everything that is not a non-empty map.\<close>

fun leaves :: "jval \<Rightarrow> (Path \<times> jval) list" and fieldLeaves :: "(string \<times> jval) list \<Rightarrow> (Path \<times> jval) list" where
  "leaves (JOther x) = [([], JOther x)]"
| "leaves (JMap fs) = (if fs = [] then [([], JMap [])] else fieldLeaves fs)"
| "fieldLeaves [] = []"
| "fieldLeaves ((k, v) # fs) = map (\<lambda>(q, x). (k # q, x)) (leaves v) @ fieldLeaves fs"

text \<open>No prefix of the path, itself included, is to be filtered.\<close>

definition survives :: "(Path \<Rightarrow> bool) \<Rightarrow> Path \<Rightarrow> Path \<Rightarrow> bool" where
  "survives S path q = (\<forall>n. 0 < n \<and> n \<le> length q \<longrightarrow> \<not> S (path @ take n q))"

lemma survives_Cons: "survives S path (k # q) \<longleftrightarrow> \<not> S (path @ [k]) \<and> survives S (path @ [k]) q"
proof
  assume s: "survives S path (k # q)"
  have "\<not> S (path @ [k])" using s[unfolded survives_def, rule_format, of 1] by simp
  moreover have "\<not> S ((path @ [k]) @ take n q)" if "0 < n \<and> n \<le> length q" for n
    using s[unfolded survives_def, rule_format, of "Suc n"] that by simp
  ultimately show "\<not> S (path @ [k]) \<and> survives S (path @ [k]) q" by (simp add: survives_def)
next
  assume s: "\<not> S (path @ [k]) \<and> survives S (path @ [k]) q"
  show "survives S path (k # q)"
    unfolding survives_def
  proof (intro allI impI)
    fix n assume n: "0 < n \<and> n \<le> length (k # q)"
    then obtain m where "n = Suc m" by (cases n) auto
    with s n show "\<not> S (path @ take n (k # q))" by (cases m) (auto simp: survives_def)
  qed
qed

lemma leaves_nonempty: "leaves v \<noteq> []" "fs \<noteq> [] \<Longrightarrow> fieldLeaves fs \<noteq> []"
  by (induction v and fs rule: leaves_fieldLeaves.induct) auto

abbreviation surviving :: "(Path \<Rightarrow> bool) \<Rightarrow> Path \<Rightarrow> (Path \<times> jval) list \<Rightarrow> (Path \<times> jval) list" where
  "surviving S path \<equiv> filter (\<lambda>l. survives S path (fst l))"

lemma surviving_Cons:
  "surviving S path (map (\<lambda>(q, x). (k # q, x)) ls) =
     (if S (path @ [k]) then [] else map (\<lambda>(q, x). (k # q, x)) (surviving S (path @ [k]) ls))"
  by (induction ls) (auto simp: survives_Cons)

text \<open>Filtering keeps exactly the surviving leaves; a map that loses all its fields goes too.\<close>

lemma FilterIntent_leaves:
  "(if snd (FilterIntent S path v) \<and> fst (FilterIntent S path v) = JMap [] then surviving S path (leaves v) = []
    else leaves (fst (FilterIntent S path v)) = surviving S path (leaves v))"
  "fieldLeaves (fst (filterFields S path fs)) = surviving S path (fieldLeaves fs) \<and>
   (fs \<noteq> [] \<longrightarrow> fst (filterFields S path fs) = [] \<longrightarrow> snd (filterFields S path fs))"
proof (induction S path v and S path fs rule: FilterIntent_filterFields.induct)
  case (1 S path x)
  then show ?case by (simp add: survives_def)
next
  case (2 S path fs)
  show ?case
  proof (cases "fst (filterFields S path fs) = []")
    case True
    with 2 show ?thesis by (auto simp: Let_def survives_def)
  next
    case False
    then have "fs \<noteq> []" by auto
    with 2 False show ?thesis by (simp add: Let_def)
  qed
next
  case (3 S path)
  then show ?case by simp
next
  case (4 S path k v fs)
  note rest = 4(1)
  show ?case
  proof (cases "S (Append path k)")
    case True
    with rest show ?thesis by (simp add: Let_def surviving_Cons Append_def)
  next
    case False
    note inner = 4(2)[OF refl False]
    show ?thesis
    proof (cases "snd (FilterIntent S (Append path k) v) \<and> fst (FilterIntent S (Append path k) v) = JMap []")
      case t: True
      with inner have "surviving S (Append path k) (leaves v) = []" by simp
      with t False rest show ?thesis by (simp add: Let_def surviving_Cons Append_def)
    next
      case f: False
      with inner have "leaves (fst (FilterIntent S (Append path k) v)) = surviving S (Append path k) (leaves v)"
        by (simp only: if_False)
      with f False rest show ?thesis by (auto simp: Let_def surviving_Cons Append_def)
    qed
  qed
qed

lemma filtered_leaves:
  assumes "fst (FilterIntent S [] v) \<noteq> JMap []"
  shows "leaves (fst (FilterIntent S [] v)) = surviving S [] (leaves v)"
  using FilterIntent_leaves(1)[of S "[]" v] assms by simp

lemma survives_allowed:
  assumes "q \<noteq> []" "survives (IsPathNotAllowed ps) [] q"
  shows "\<exists>p\<in>set ps. Overlaps q p"
  using assms(2)[unfolded survives_def, rule_format, of "length q"] assms(1)
  by (auto simp: IsPathNotAllowed_def IsPathAllowed_def)

lemma allowed_survives:
  assumes "p \<in> set ps" "Overlaps q p"
  shows "survives (IsPathNotAllowed ps) [] q"
proof -
  have "Overlaps (take n q) p" for n
  proof -
    from assms(2) consider r where "p = q @ r" | r where "q = p @ r" by (auto simp: Overlaps_iff)
    then show ?thesis
    proof cases
      case 1
      then have "p = take n q @ (drop n q @ r)" by (simp add: append_take_drop_id flip: append_assoc)
      then show ?thesis by (auto simp: Overlaps_iff)
    next
      case 2
      then show ?thesis by (cases "n \<le> length p") (auto simp: Overlaps_iff intro: append_take_drop_id[symmetric])
    qed
  qed
  with assms(1) show ?thesis by (auto simp: survives_def IsPathNotAllowed_def IsPathAllowed_def)
qed

subsection \<open>Managed fields\<close>

lemma seedEntry_manager [simp]: "mf_Manager (seedEntry s a) = s"
  by (simp add: seedEntry_def)

lemma dropOwnership_managers:
  "dropOwnership u ma ps mfs = Some (mfs', e) \<Longrightarrow> map mf_Manager mfs' = map mf_Manager mfs \<and> map mf_Operation mfs' = map mf_Operation mfs"
  by (induction mfs arbitrary: mfs' e) (auto simp: dropOwnershipOf_def split: sum.splits if_splits option.splits)

subsection \<open>Requests that change nothing are not repeated\<close>

context ssa_cache
begin

lemma cached_not_sent:
  assumes "ComputeRequestIdentifier hash og orig m = Inr i" "CacheHas ops cache (e_now E h) i"
  shows "Patch E ops cache hash apply (Inr m) (Inr g) (Some (orig, og)) h =
    (Some (cache, False, map_option (Wrap ''failed to write original into modified object'') (e_helper E h ''convert'')), h)"
  using assms by (simp add: Patch_def go_runs)

lemma added_when_unchanged:
  assumes "ComputeRequestIdentifier hash og orig m = Inr i" "\<not> CacheHas ops cache (e_now E h) i"
    and "e_applied E h apply = Inr (om_ResourceVersion orig)"
    and "Patch E ops cache hash apply (Inr m) (Inr g) (Some (orig, og)) h = (Some (cache', True, None), h1)"
  shows "cache' = CacheAdd ops cache (e_now E (h @ [apply])) i" "h1 = h @ [apply]"
  using assms by (auto simp: Patch_def sendApply_def go_runs split: option.splits)

lemma not_repeated:
  assumes "ComputeRequestIdentifier hash og orig m = Inr i" "\<not> CacheHas ops cache (e_now E h) i"
    and "e_applied E h apply = Inr (om_ResourceVersion orig)"
    and "Patch E ops cache hash apply (Inr m) (Inr g) (Some (orig, og)) h = (Some (cache', True, None), h1)"
    and "e_now E h2 \<le> e_now E (h @ [apply]) + sint ttl" "hash m' = hash m"
  shows "snd (Patch E ops cache' hash apply' (Inr m') (Inr g) (Some (orig, og)) h2) = h2"
proof -
  have "ComputeRequestIdentifier hash og orig m' = Inr i"
    using assms(1) unfolding ComputeRequestIdentifier_def assms(6) .
  from cached_not_sent[OF this, of cache' E h2 apply' g] added_when_unchanged[OF assms(1-4)] has_add[OF assms(5)]
  show ?thesis by simp
qed

end

subsection \<open>The cache\<close>

lemma ttl_pos: "sint ttl = 600000000000"
  by (simp add: ttl_def Minute_def)

interpretation new_cache: ssa_cache NewCache
  by unfold_locales (auto simp: NewCache_def ssaCache_Add_def ssaCache_Has_def ttl_pos)

end
