(* ===== verification/Scale.thy ===== *)
theory Scale
  imports Remediation Ssa
begin

text \<open>
  \<^verbatim>\<open>controlplane/controllers/scale.go\<close>: creating the first machine, adding and
  removing machines, and the desired state of a machine. The \<^verbatim>\<open>kcp\<close> and
  \<^verbatim>\<open>cluster\<close> arguments of these functions are the pointers held by the control plane;
  functions that change the control plane return it. The machines of a control plane are
  never nil.
\<close>

definition deleteRequeueAfter :: duration where "deleteRequeueAfter = 30 * Second"
definition preflightFailedRequeueAfter :: duration where "preflightFailedRequeueAfter = 15 * Second"
definition kcpManagerName :: string where "kcpManagerName = ''capi-kthreescontrolplane''"
definition ErrPreConditionFailed :: goerr where "ErrPreConditionFailed = Sentinel ''precondition check failed''"

section \<open>The desired machine\<close>

text \<open>\<^verbatim>\<open>int32(d.Seconds())\<close>: whole seconds, truncated towards zero. Durations of more than
  \<open>2 ^ 24\<close> seconds with a fraction just below one second, which \<^verbatim>\<open>float64\<close> would
  round up, are not distinguished.\<close>

definition secondsInt32 :: "duration \<Rightarrow> int32" where
  "secondsInt32 d = word_of_int (sgn (sint d) * (\<bar>sint d\<bar> div 1000000000))"

definition optional :: "string \<Rightarrow> string option \<Rightarrow> (string \<rightharpoonup> string) \<Rightarrow> (string \<rightharpoonup> string)" where
  "optional k v m = (case v of None \<Rightarrow> m | Some x \<Rightarrow> m(k \<mapsto> x))"

text \<open>Name, UID, version and the annotations the controller computes.\<close>

definition machineIdentity ::
  "env \<Rightarrow> lib \<Rightarrow> KThreesControlPlane \<Rightarrow> Machine option \<Rightarrow>
    (call, goerr + string \<times> string \<times> string \<times> (string \<rightharpoonup> string)) go" where
  "machineIdentity E L kcp existingMachine =
     (case existingMachine of
        None \<Rightarrow>
          bnd (gen_name E (om_Name (kp_Meta kcp) @ ''-'')) (\<lambda>machineName.
            case marshalServerConfig L (kc_ServerConfig (ps_KThreesConfigSpec (kp_Spec kcp))) of
              Inl err \<Rightarrow> ret (Inl (Wrap ''failed to marshal cluster configuration'' err))
            | Inr serverConfig \<Rightarrow>
                ret (Inr (machineName, [], ps_Version (kp_Spec kcp),
                  optional RemediationForAnnotation (mget (kp_Annotations kcp) RemediationInProgressAnnotation)
                    [KThreesServerConfigurationAnnotation \<mapsto> serverConfig])))
      | Some m \<Rightarrow>
          ret (Inr (ma_Name m, om_UID (ma_Meta m), ma_Version m,
            optional RemediationForAnnotation (mget (ma_Annotations m) RemediationForAnnotation)
              (optional KThreesServerConfigurationAnnotation
                 (mget (ma_Annotations m) KThreesServerConfigurationAnnotation) Map.empty))))"

definition computeDesiredMachine ::
  "env \<Rightarrow> lib \<Rightarrow> KThreesControlPlane \<Rightarrow> Cluster \<Rightarrow> string \<Rightarrow> Machine option \<Rightarrow> (call, goerr + Machine) go" where
  "computeDesiredMachine E L kcp cluster failureDomain existingMachine =
     bnd (machineIdentity E L kcp existingMachine) (\<lambda>r. case r of
       Inl err \<Rightarrow> ret (Inl err)
     | Inr (machineName, machineUID, version, annotations) \<Rightarrow>
         (let mt = ps_MachineTemplate (kp_Spec kcp) in
          ret (Inr \<lparr>ma_Meta = emptyMeta\<lparr>om_Name := machineName, om_Namespace := om_Namespace (kp_Meta kcp),
                 om_UID := machineUID, om_Labels := ControlPlaneLabelsForCluster (cl_Name cluster) mt,
                 om_Annotations := Some (annotations ++ (case mt_Annotations mt of None \<Rightarrow> Map.empty | Some a \<Rightarrow> a)),
                 om_OwnerReferences := [NewControllerRef L (kp_Meta kcp) ''KThreesControlPlane'']\<rparr>,
              ma_ClusterName = cl_Name cluster, ma_Version = version, ma_FailureDomain = failureDomain,
              ma_InfrastructureRef = (case existingMachine of None \<Rightarrow> None | Some m \<Rightarrow> ma_InfrastructureRef m),
              ma_ConfigRef = (case existingMachine of None \<Rightarrow> None | Some m \<Rightarrow> ma_ConfigRef m),
              ma_Deletion = \<lparr>md_NodeDrainTimeoutSeconds = map_option secondsInt32 (mt_NodeDrainTimeout mt),
                 md_NodeVolumeDetachTimeoutSeconds = map_option secondsInt32 (mt_NodeVolumeDetachTimeout mt),
                 md_NodeDeletionTimeoutSeconds = map_option secondsInt32 (mt_NodeDeletionTimeout mt)\<rparr>,
              ma_NodeRef = None, ma_Conditions = []\<rparr>)))"

section \<open>Creating and updating objects\<close>

definition createMachine ::
  "env \<Rightarrow> ssaLib \<Rightarrow> KThreesControlPlane \<Rightarrow> Machine \<Rightarrow> (call, KThreesControlPlane \<times> goerr option) go" where
  "createMachine E X kcp machine =
     bnd (PatchMachineObject E X Map.empty machine None) (\<lambda>(_, _, e). case e of
       Some err \<Rightarrow> ret (kcp, Some (Wrap ''failed to create Machine'' err))
     | None \<Rightarrow> ret (kp_setAnnotations kcp (mdelete (kp_Annotations kcp) RemediationInProgressAnnotation), None))"

definition updateMachine ::
  "env \<Rightarrow> lib \<Rightarrow> ssaLib \<Rightarrow> ssaCache \<Rightarrow> Machine \<Rightarrow> KThreesControlPlane \<Rightarrow> Cluster \<Rightarrow> (call, ssaCache \<times> (goerr + Machine)) go" where
  "updateMachine E L X cache machine kcp cluster =
     bnd (computeDesiredMachine E L kcp cluster (ma_FailureDomain machine) (Some machine)) (\<lambda>r. case r of
       Inl err \<Rightarrow> ret (cache, Inl (Wrap ''failed to update Machine: failed to compute desired Machine'' err))
     | Inr updatedMachine \<Rightarrow>
         bnd (PatchMachineObject E X cache updatedMachine (Some machine)) (\<lambda>(cache, sent, e). case e of
           Some err \<Rightarrow> ret (cache, Inl (Wrap ''failed to update Machine'' err))
         | None \<Rightarrow>
             if sent then bnd (merged E updatedMachine) (\<lambda>m. ret (cache, Inr m))
             else ret (cache, Inr machine)))"

definition updateExternalObject ::
  "env \<Rightarrow> ssaLib \<Rightarrow> ssaCache \<Rightarrow> ObjectMeta \<Rightarrow> goerr + string \<Rightarrow> string \<Rightarrow> string \<Rightarrow> KThreesControlPlane \<Rightarrow> Cluster \<Rightarrow>
    (call, ssaCache \<times> goerr option) go" where
  "updateExternalObject E X cache obj objGVK kind apiVersion kcp cluster =
     (let updatedObject = \<lparr>u_Kind = kind, u_APIVersion = apiVersion,
            u_Meta = emptyMeta\<lparr>om_Namespace := om_Namespace obj, om_Name := om_Name obj, om_UID := om_UID obj,
              om_Labels := ControlPlaneLabelsForCluster (cl_Name cluster) (ps_MachineTemplate (kp_Spec kcp)),
              om_Annotations := mt_Annotations (ps_MachineTemplate (kp_Spec kcp))\<rparr>\<rparr>
      in bnd (PatchUnstructuredObject E X cache updatedObject (Some (obj, objGVK))) (\<lambda>(cache, _, e).
           ret (cache, map_option (Wrap ''failed to update'') e)))"

definition generateKThreesConfig ::
  "env \<Rightarrow> KThreesControlPlane \<Rightarrow> Cluster \<Rightarrow> KThreesConfigSpec \<Rightarrow> (call, goerr + ContractRef) go" where
  "generateKThreesConfig E kcp cluster spec =
     bnd (gen_name E (om_Name (kp_Meta kcp) @ ''-'')) (\<lambda>name.
     let bootstrapConfig =
           \<lparr>kt_Meta = emptyMeta\<lparr>om_Name := name, om_Namespace := om_Namespace (kp_Meta kcp),
               om_Labels := ControlPlaneLabelsForCluster (cl_Name cluster) (ps_MachineTemplate (kp_Spec kcp)),
               om_OwnerReferences := [AsOwnerReference kcp]\<rparr>,
            kt_Spec = spec, kt_Status = emptyConfigStatus\<rparr>
     in bnd (do_write E (CreateConfig bootstrapConfig)) (\<lambda>e. case e of
          Some err \<Rightarrow> ret (Inl (Wrap ''failed to create bootstrap configuration'' err))
        | None \<Rightarrow> ret (Inr \<lparr>cr_APIGroup = bootstrap_group, cr_Kind = ''KThreesConfig'', cr_Name = name\<rparr>)))"

definition cleanupOne :: "env \<Rightarrow> string \<Rightarrow> ContractRef option \<Rightarrow> goerr option list \<Rightarrow> (call, goerr option list) go" where
  "cleanupOne E namespace ref errs =
     (case ref of
        None \<Rightarrow> ret errs
      | Some ref \<Rightarrow>
          bnd (api E e_unstructured (GetByRef ref namespace)) (\<lambda>r. case r of
            Inl err \<Rightarrow>
              if IsNotFound err then ret errs
              else ret (errs @ [Some (Wrap ''failed to retrieve generated resource'' err)])
          | Inr obj \<Rightarrow>
              bnd (do_write E (DeleteUnstructured obj)) (\<lambda>e. case e of
                None \<Rightarrow> ret errs
              | Some err \<Rightarrow>
                  if IsNotFound err then ret errs
                  else ret (errs @ [Some (Wrap ''failed to cleanup generated resources after error'' err)]))))"

definition cleanupFromGeneration :: "env \<Rightarrow> string \<Rightarrow> ContractRef option list \<Rightarrow> (call, goerr option) go" where
  "cleanupFromGeneration E namespace remoteRefs =
     bnd (foldG (cleanupOne E namespace) remoteRefs []) (\<lambda>errs. ret (NewAggregate errs))"

text \<open>The second half of \<open>cloneConfigsAndGenerateMachine\<close>, once the infrastructure exists;
  on an error the generated objects are cleaned up.\<close>

definition abandonMachine ::
  "env \<Rightarrow> ControlPlane \<Rightarrow> string \<Rightarrow> ContractRef option list \<Rightarrow> goerr \<Rightarrow> (call, ControlPlane \<times> goerr option) go" where
  "abandonMachine E cp namespace refs err =
     bnd (cleanupFromGeneration E namespace refs) (\<lambda>e.
       ret (cp, NewAggregate (case e of None \<Rightarrow> [Some err]
                  | Some err1 \<Rightarrow> [Some err, Some (Wrap ''failed to cleanup generated resources'' err1)])))"

definition finishMachine ::
  "env \<Rightarrow> ssaLib \<Rightarrow> ControlPlane \<Rightarrow> KThreesConfigSpec \<Rightarrow> Machine \<Rightarrow> ContractRef \<Rightarrow> (call, ControlPlane \<times> goerr option) go" where
  "finishMachine E X cp bootstrapSpec machine infraRef =
     bnd (generateKThreesConfig E (cp_KCP cp) (cp_Cluster cp) bootstrapSpec) (\<lambda>r. case r of
       Inl err \<Rightarrow>
         abandonMachine E cp (om_Namespace (ma_Meta machine)) [Some infraRef, None]
           (Wrap ''failed to generate bootstrap config'' err)
     | Inr bootstrapRef \<Rightarrow>
         bnd (createMachine E X (cp_KCP cp) (machine\<lparr>ma_ConfigRef := Some bootstrapRef\<rparr>)) (\<lambda>(kcp, e). case e of
           Some err \<Rightarrow>
             abandonMachine E (cp\<lparr>cp_KCP := kcp\<rparr>) (om_Namespace (ma_Meta machine)) [Some infraRef, Some bootstrapRef]
               (Wrap ''failed to create Machine'' err)
         | None \<Rightarrow> ret (cp\<lparr>cp_KCP := kcp\<rparr>, None)))"

definition cloneConfigsAndGenerateMachine ::
  "env \<Rightarrow> lib \<Rightarrow> ssaLib \<Rightarrow> ControlPlane \<Rightarrow> KThreesConfigSpec \<Rightarrow> string \<Rightarrow> (call, ControlPlane \<times> goerr option) go" where
  "cloneConfigsAndGenerateMachine E L X cp bootstrapSpec failureDomain =
     (let kcp = cp_KCP cp; cluster = cp_Cluster cp; mt = ps_MachineTemplate (kp_Spec kcp) in
      bnd (computeDesiredMachine E L kcp cluster failureDomain None) (\<lambda>r. case r of
        Inl err \<Rightarrow> ret (cp, Some (Wrap ''failed to create Machine: failed to compute desired Machine'' err))
      | Inr machine \<Rightarrow>
          bnd (api E e_ref (CloneTemplate (mt_InfrastructureRef mt) (om_Namespace (kp_Meta kcp)) (AsOwnerReference kcp)
                 (cl_Name cluster) (ControlPlaneLabelsForCluster (cl_Name cluster) mt))) (\<lambda>r. case r of
            Inl err \<Rightarrow> ret (cp, Some (Wrap ''failed to clone infrastructure template'' err))
          | Inr infraRef \<Rightarrow>
              finishMachine E X cp bootstrapSpec (machine\<lparr>ma_InfrastructureRef := Some infraRef\<rparr>) infraRef)))"

section \<open>Preflight checks\<close>

definition preflightCheckCondition :: "lib \<Rightarrow> Machine \<Rightarrow> string \<Rightarrow> goerr option" where
  "preflightCheckCondition L obj condition =
     (case ma_GetCond L obj condition of
        None \<Rightarrow> Some (Wrap (''machine does not have '' @ condition @ '' condition'') ErrPreConditionFailed)
      | Some c \<Rightarrow>
          if c_Status c = CFalse
          then Some (Wrap (''machine reports '' @ condition @ '' condition is false ('' @ c_Message c @ '')'') ErrPreConditionFailed)
          else if c_Status c = CUnknown
          then Some (Wrap (''machine reports '' @ condition @ '' condition is unknown ('' @ c_Message c @ '')'') ErrPreConditionFailed)
          else None)"

definition allMachineHealthConditions :: "ControlPlane \<Rightarrow> string list" where
  "allMachineHealthConditions cp =
     MachineAgentHealthyCondition # (if IsEtcdManaged cp then [MachineEtcdMemberHealthyCondition] else [])"

definition preflightErrors :: "lib \<Rightarrow> ControlPlane \<Rightarrow> Machine list \<Rightarrow> goerr list" where
  "preflightErrors L cp excludeFor =
     concat (map (\<lambda>machine.
         if \<exists>excluded\<in>set excludeFor. ma_Name machine = ma_Name excluded then []
         else List.map_filter (preflightCheckCondition L machine) (allMachineHealthConditions cp))
       (cp_Machines cp))"

definition preflightChecks ::
  "env \<Rightarrow> lib \<Rightarrow> ControlPlane \<Rightarrow> Machine list \<Rightarrow> (call, Result \<times> goerr option) go" where
  "preflightChecks E L cp excludeFor =
     (if length (cp_Machines cp) = 0 then ret (NoResult, None)
      else if HasDeletingMachine L cp then ret (RequeueAfter deleteRequeueAfter, None)
      else if length (preflightErrors L cp excludeFor) > 0
      then bnd (do_write E (Event ''ControlPlaneUnhealthy'')) (\<lambda>_. ret (RequeueAfter preflightFailedRequeueAfter, None))
      else ret (NoResult, None))"

section \<open>Scaling\<close>

definition initializeControlPlane ::
  "env \<Rightarrow> lib \<Rightarrow> ssaLib \<Rightarrow> ControlPlane \<Rightarrow> (call, ControlPlane \<times> Result \<times> goerr option) go" where
  "initializeControlPlane E L X cp =
     bnd (GetMachinesForCluster E (cl_Key (cp_Cluster cp)) [OwnedMachines L (cp_KCP cp)]) (\<lambda>r. case r of
       Inl err \<Rightarrow> ret (cp, NoResult, Some err)
     | Inr ownedMachines \<Rightarrow>
         if length ownedMachines > 0
         then ret (cp, NoResult, Some (Msg ''control plane has already been initialized: controller cache or management cluster is misbehaving''))
         else bnd (cloneConfigsAndGenerateMachine E L X cp (InitialControlPlaneConfig cp) (NextFailureDomainForScaleUp L cp))
           (\<lambda>(cp, e). case e of
              Some err \<Rightarrow> bnd (do_write E (Event ''FailedInitialization'')) (\<lambda>_. ret (cp, NoResult, Some err))
            | None \<Rightarrow> ret (cp, Requeue, None)))"

definition scaleUpControlPlane ::
  "env \<Rightarrow> lib \<Rightarrow> ssaLib \<Rightarrow> ControlPlane \<Rightarrow> (call, ControlPlane \<times> Result \<times> goerr option) go" where
  "scaleUpControlPlane E L X cp =
     bnd (preflightChecks E L cp []) (\<lambda>(result, err).
       if err \<noteq> None \<or> \<not> r_IsZero result then ret (cp, result, err)
       else bnd (cloneConfigsAndGenerateMachine E L X cp (JoinControlPlaneConfig cp) (NextFailureDomainForScaleUp L cp))
         (\<lambda>(cp, e). case e of
            Some err \<Rightarrow> bnd (do_write E (Event ''FailedScaleUp'')) (\<lambda>_. ret (cp, NoResult, Some err))
          | None \<Rightarrow> ret (cp, Requeue, None)))"

definition selectMachineForScaleDown :: "lib \<Rightarrow> ControlPlane \<Rightarrow> Machine list \<Rightarrow> (goerr + Machine) option" where
  "selectMachineForScaleDown L cp outdatedMachines =
     (let machines = cp_Machines cp;
          machines =
            (if length (MachineWithDeleteAnnotation L outdatedMachines) > 0 then MachineWithDeleteAnnotation L outdatedMachines
             else if length (MachineWithDeleteAnnotation L machines) > 0 then MachineWithDeleteAnnotation L machines
             else if length outdatedMachines > 0 then outdatedMachines
             else machines)
      in MachineInFailureDomainWithMostMachines L cp machines)"

definition prepareDeletion ::
  "env \<Rightarrow> lib \<Rightarrow> remState \<Rightarrow> (call, remState \<times> goerr option) go" where
  "prepareDeletion E L s =
     (if \<not> IsEtcdManaged (fst s) then ret (s, None)
      else bnd (GetWorkloadCluster E (cl_Key (cp_Cluster (fst s)))) (\<lambda>r. case r of
        Inl err \<Rightarrow> ret (s, Some (Wrap ''failed to create client to workload cluster'' err))
      | Inr workloadCluster \<Rightarrow>
          bnd (ForwardEtcdLeadership E workloadCluster (Some (snd s)) (Newest L (cp_Machines (fst s)))) (\<lambda>(_, e).
            case e of Some err \<Rightarrow> bnd (deref (Newest L (cp_Machines (fst s)))) (\<lambda>_. ret (s, Some err))
            | None \<Rightarrow> addPreTerminateHook E s)))"

definition deleteForScaleDown :: "env \<Rightarrow> remState \<Rightarrow> (call, ControlPlane \<times> Result \<times> goerr option) go" where
  "deleteForScaleDown E s =
     bnd (do_write E (DeleteMachine (snd s))) (\<lambda>e. case e of
       None \<Rightarrow> ret (fst s, Requeue, None)
     | Some err \<Rightarrow>
         if IsNotFound err then ret (fst s, Requeue, None)
         else bnd (do_write E (Event ''FailedScaleDown'')) (\<lambda>_. ret (fst s, NoResult, Some err)))"

definition prepareAndDelete :: "env \<Rightarrow> lib \<Rightarrow> remState \<Rightarrow> (call, ControlPlane \<times> Result \<times> goerr option) go" where
  "prepareAndDelete E L s =
     bnd (prepareDeletion E L s) (\<lambda>(s, e). case e of
       Some err \<Rightarrow> ret (fst s, NoResult, Some err)
     | None \<Rightarrow> deleteForScaleDown E s)"

definition scaleDownControlPlane ::
  "env \<Rightarrow> lib \<Rightarrow> ControlPlane \<Rightarrow> Machine list \<Rightarrow> (call, ControlPlane \<times> Result \<times> goerr option) go" where
  "scaleDownControlPlane E L cp outdatedMachines =
     bnd (deref (selectMachineForScaleDown L cp outdatedMachines)) (\<lambda>r. case r of
       Inl err \<Rightarrow> ret (cp, NoResult, Some (Wrap ''failed to select machine for scale down'' err))
     | Inr machineToDelete \<Rightarrow>
         bnd (preflightChecks E L cp [machineToDelete]) (\<lambda>(result, err).
           if err \<noteq> None \<or> \<not> r_IsZero result then ret (cp, result, err)
           else prepareAndDelete E L (cp, machineToDelete)))"

section \<open>Properties\<close>

subsection \<open>Preflight checks\<close>

text \<open>What the preflight checks promise: the control plane is empty, or no machine is being
  deleted and all machines but the excluded ones report every health condition as true.\<close>

definition preflightPassed :: "lib \<Rightarrow> ControlPlane \<Rightarrow> Machine list \<Rightarrow> bool" where
  "preflightPassed L cp excludeFor \<longleftrightarrow>
     cp_Machines cp = [] \<or>
     (\<forall>m\<in>set (cp_Machines cp). \<not> HasDeletionTimestamp L m) \<and>
     (\<forall>m\<in>set (cp_Machines cp). ma_Name m \<notin> ma_Name ` set excludeFor \<longrightarrow>
        (\<forall>c\<in>set (allMachineHealthConditions cp). \<exists>x. ma_GetCond L m c = Some x \<and> c_Status x = CTrue))"

lemma preflightCheckCondition_None:
  "preflightCheckCondition L m c = None \<longleftrightarrow> (\<exists>x. ma_GetCond L m c = Some x \<and> c_Status x = CTrue)"
  by (auto simp: preflightCheckCondition_def split: option.splits) (metis ConditionStatus.exhaust)

lemma map_filter_Nil: "List.map_filter f xs = [] \<longleftrightarrow> (\<forall>x\<in>set xs. f x = None)"
  by (induction xs) (auto simp: List.map_filter_simps split: option.splits)

lemma preflightErrors_Nil:
  "preflightErrors L cp ex = [] \<longleftrightarrow>
     (\<forall>m\<in>set (cp_Machines cp). ma_Name m \<notin> ma_Name ` set ex \<longrightarrow>
        (\<forall>c\<in>set (allMachineHealthConditions cp). \<exists>x. ma_GetCond L m c = Some x \<and> c_Status x = CTrue))"
proof -
  have "(\<exists>e\<in>set ex. ma_Name m = ma_Name e) \<longleftrightarrow> ma_Name m \<in> ma_Name ` set ex" for m by auto
  then have "preflightErrors L cp ex = [] \<longleftrightarrow>
      (\<forall>m\<in>set (cp_Machines cp). (if ma_Name m \<in> ma_Name ` set ex then []
         else List.map_filter (preflightCheckCondition L m) (allMachineHealthConditions cp)) = [])"
    by (simp only: preflightErrors_def concat_eq_Nil_conv set_map ball_simps)
  also have "\<dots> \<longleftrightarrow> (\<forall>m\<in>set (cp_Machines cp). ma_Name m \<notin> ma_Name ` set ex \<longrightarrow>
        List.map_filter (preflightCheckCondition L m) (allMachineHealthConditions cp) = [])"
    by (rule ball_cong) simp_all
  finally show ?thesis by (simp only: map_filter_Nil preflightCheckCondition_None)
qed

lemma HasDeletingMachine_iff: "HasDeletingMachine L cp \<longleftrightarrow> (\<exists>m\<in>set (cp_Machines cp). HasDeletionTimestamp L m)"
proof -
  have "HasDeletingMachine L cp \<longleftrightarrow> set (MFilter [HasDeletionTimestamp L] (cp_Machines cp)) \<noteq> {}"
    by (simp only: HasDeletingMachine_def set_empty length_greater_0_conv)
  then show ?thesis by auto
qed

lemma requeue_durations [simp]: "deleteRequeueAfter \<noteq> 0" "preflightFailedRequeueAfter \<noteq> 0"
  by (simp_all add: deleteRequeueAfter_def preflightFailedRequeueAfter_def Second_def)

lemma preflightChecks_run:
  "preflightChecks E L cp ex h = (if preflightPassed L cp ex then (Some (NoResult, None), h)
     else if HasDeletingMachine L cp then (Some (RequeueAfter deleteRequeueAfter, None), h)
     else (Some (RequeueAfter preflightFailedRequeueAfter, None), h @ [Event ''ControlPlaneUnhealthy'']))"
proof (cases "cp_Machines cp = []")
  case True
  then show ?thesis by (simp add: preflightChecks_def preflightPassed_def go_runs)
next
  case ne: False
  show ?thesis
  proof (cases "HasDeletingMachine L cp")
    case True
    with ne show ?thesis by (auto simp: preflightChecks_def preflightPassed_def HasDeletingMachine_iff go_runs)
  next
    case False
    then have "preflightPassed L cp ex \<longleftrightarrow> preflightErrors L cp ex = []"
      using ne by (auto simp: preflightPassed_def preflightErrors_Nil HasDeletingMachine_iff)
    with ne False show ?thesis by (simp add: preflightChecks_def go_runs)
  qed
qed

lemma preflightChecks_bnd:
  "bnd (preflightChecks E L cp ex) (\<lambda>(result, err). if err \<noteq> None \<or> \<not> r_IsZero result then f result err else g) h =
     (if preflightPassed L cp ex then g h
      else if HasDeletingMachine L cp then f (RequeueAfter deleteRequeueAfter) None h
      else f (RequeueAfter preflightFailedRequeueAfter) None (h @ [Event ''ControlPlaneUnhealthy'']))"
  by (simp add: bnd_run preflightChecks_run)

subsection \<open>How many machines are created and deleted\<close>

lemma cleanupOne_emits [go_intros]:
  "reads \<subseteq> S \<Longrightarrow> (\<And>u. DeleteUnstructured u \<in> S) \<Longrightarrow> emits S (cleanupOne E ns ref errs)"
  unfolding cleanupOne_def by (auto intro!: go_intros)

lemma cleanupFromGeneration_emits [go_intros]:
  "reads \<subseteq> S \<Longrightarrow> (\<And>u. DeleteUnstructured u \<in> S) \<Longrightarrow> emits S (cleanupFromGeneration E ns refs)"
  unfolding cleanupFromGeneration_def by (auto intro!: go_intros)

lemma machineIdentity_emits [go_intros]: "emits S (machineIdentity E L kcp em)"
  unfolding machineIdentity_def by (intro go_intros)

lemma computeDesiredMachine_emits [go_intros]: "emits S (computeDesiredMachine E L kcp cl fd em)"
  unfolding computeDesiredMachine_def Let_def by (intro go_intros)

lemma generateKThreesConfig_emits [go_intros]: "(\<And>c. CreateConfig c \<in> S) \<Longrightarrow> emits S (generateKThreesConfig E kcp cl spec)"
  unfolding generateKThreesConfig_def Let_def by (intro go_intros) auto

lemma createMachine_emits [go_intros]: "ApplyMachine m \<in> S \<Longrightarrow> emits S (createMachine E X kcp m)"
  unfolding createMachine_def PatchMachineObject_def by (intro go_intros)

lemma createMachine_bounded: "bounded is_apply_machine (Suc 0) (createMachine E X kcp m)"
  unfolding createMachine_def PatchMachineObject_def by (rule bounded_bnd_last[OF Patch_bounded]) (intro go_intros)

lemma abandonMachine_emits [go_intros]:
  "reads \<subseteq> S \<Longrightarrow> (\<And>u. DeleteUnstructured u \<in> S) \<Longrightarrow> emits S (abandonMachine E cp ns refs err)"
  unfolding abandonMachine_def by (intro go_intros)

lemma nonmachine_bounded_any:
  "emits nonmachine m \<Longrightarrow> bounded is_apply_machine n m" "emits nonmachine m \<Longrightarrow> bounded is_delete_machine n m"
  by (auto intro!: bounded_emits elim: emits_mono)

lemma abandonMachine_bounded [go_intros]: "bounded is_apply_machine n (abandonMachine E cp ns refs err)"
  by (rule nonmachine_bounded_any) (auto intro!: go_intros)

lemma finishMachine_bounded: "bounded is_apply_machine (Suc 0) (finishMachine E X cp spec m ref)"
  unfolding finishMachine_def
proof (rule bounded_bnd_nm)
  show "emits nonmachine (generateKThreesConfig E (cp_KCP cp) (cp_Cluster cp) spec)" by (intro go_intros) simp
qed (intro go_intros bounded_bnd_last[OF createMachine_bounded])

lemma cloneConfigsAndGenerateMachine_bounded:
  "bounded is_apply_machine (Suc 0) (cloneConfigsAndGenerateMachine E L X cp spec fd)"
  unfolding cloneConfigsAndGenerateMachine_def Let_def
  by (auto intro!: go_intros finishMachine_bounded)

lemma preflightChecks_emits [go_intros]: "(\<And>e. Event e \<in> S) \<Longrightarrow> emits S (preflightChecks E L cp ex)"
  unfolding preflightChecks_def by (auto intro!: go_intros)

lemma scaleUpControlPlane_bounded: "bounded is_apply_machine (Suc 0) (scaleUpControlPlane E L X cp)"
  unfolding scaleUpControlPlane_def
  by (rule bounded_bnd_nm, intro go_intros, simp)
     (auto intro!: go_intros bounded_bnd_last[OF cloneConfigsAndGenerateMachine_bounded] split: prod.splits)

lemma initializeControlPlane_bounded: "bounded is_apply_machine (Suc 0) (initializeControlPlane E L X cp)"
  unfolding initializeControlPlane_def
  by (rule bounded_bnd_nm, intro go_intros, simp)
     (auto intro!: go_intros bounded_bnd_last[OF cloneConfigsAndGenerateMachine_bounded])

subsection \<open>What the creation of a machine leaves behind\<close>

text \<open>The object of a reference was looked up, and deleted at once if it was found.\<close>

definition cleanedUp :: "env \<Rightarrow> string \<Rightarrow> ContractRef \<Rightarrow> call list \<Rightarrow> bool" where
  "cleanedUp E namespace ref h \<longleftrightarrow>
     (\<exists>g t. h = g @ GetByRef ref namespace # t \<and>
        (\<forall>obj. e_unstructured E g (GetByRef ref namespace) = Inr obj \<longrightarrow> (\<exists>t'. t = DeleteUnstructured obj # t')))"

lemma cleanedUp_append: "cleanedUp E ns ref h \<Longrightarrow> cleanedUp E ns ref (h @ cs)"
proof -
  assume "cleanedUp E ns ref h"
  then obtain g t where h: "h = g @ GetByRef ref ns # t"
    and t: "\<And>obj. e_unstructured E g (GetByRef ref ns) = Inr obj \<Longrightarrow> \<exists>t'. t = DeleteUnstructured obj # t'"
    unfolding cleanedUp_def by blast
  have "h @ cs = g @ GetByRef ref ns # (t @ cs)" using h by simp
  moreover have "\<exists>t'. t @ cs = DeleteUnstructured obj # t'" if "e_unstructured E g (GetByRef ref ns) = Inr obj" for obj
    using t[OF that] by auto
  ultimately show ?thesis unfolding cleanedUp_def by blast
qed

lemma cleanupOne_cleans: "cleanedUp E ns ref (snd (cleanupOne E ns (Some ref) errs h))"
proof (cases "e_unstructured E h (GetByRef ref ns)")
  case (Inl err)
  then show ?thesis
    unfolding cleanedUp_def by - (rule exI[of _ h], rule exI[of _ "[]"], simp add: cleanupOne_def go_runs)
next
  case (Inr obj)
  then show ?thesis
    unfolding cleanedUp_def
    by - (rule exI[of _ h], rule exI[of _ "[DeleteUnstructured obj]"], auto simp: cleanupOne_def go_runs split: option.split)
qed

lemma cleanupOne_nopanic: "nopanic (cleanupOne E ns ref errs)"
  unfolding cleanupOne_def by (intro go_intros)

lemma cleanup_loop_cleans:
  "Some ref \<in> set refs \<Longrightarrow> cleanedUp E ns ref (snd (foldG (cleanupOne E ns) refs errs h))"
proof (induction refs arbitrary: errs h)
  case (Cons r refs)
  obtain x h1 where run: "cleanupOne E ns r errs h = (Some x, h1)"
    using cleanupOne_nopanic by (rule nopanicE)
  obtain cs where cs: "snd (foldG (cleanupOne E ns) refs x h1) = h1 @ cs"
    using emits_foldG[of refs UNIV "cleanupOne E ns" x] cleanupOne_emits[of UNIV E ns]
    unfolding emits_def by blast
  have step: "snd (foldG (cleanupOne E ns) (r # refs) errs h) = snd (foldG (cleanupOne E ns) refs x h1)"
    by (simp only: foldG.simps bnd_run run prod.case option.case)
  show ?case
  proof (cases "r = Some ref")
    case True
    have "cleanedUp E ns ref h1" using cleanupOne_cleans[of E ns ref errs h] run True by simp
    then show ?thesis unfolding step cs by (rule cleanedUp_append)
  next
    case False
    with Cons.prems have "Some ref \<in> set refs" by auto
    then show ?thesis unfolding step by (rule Cons.IH)
  qed
qed simp

lemma cleanupFromGeneration_cleans:
  assumes "Some ref \<in> set refs" "cleanupFromGeneration E ns refs h = (r, h')"
  shows "cleanedUp E ns ref h'"
proof -
  have "snd (cleanupFromGeneration E ns refs h) = snd (foldG (cleanupOne E ns) refs [] h)"
    by (simp add: cleanupFromGeneration_def bnd_def ret_def split: prod.split option.split)
  with assms(2) cleanup_loop_cleans[OF assms(1), of E ns "[]" h] show ?thesis by simp
qed

lemma createMachine_run:
  assumes "createMachine E X kcp m h = (Some (kcp', e), h')"
  shows "e = None \<Longrightarrow> h' = h @ [ApplyMachine m] \<and> kcp' = kp_setAnnotations kcp (mdelete (kp_Annotations kcp) RemediationInProgressAnnotation)"
    and "e \<noteq> None \<Longrightarrow> kcp' = kcp"
  using assms
  by (auto simp: createMachine_def PatchMachineObject_def Patch_def sendApply_def go_runs
      split: sum.splits option.splits prod.splits)

lemma generateKThreesConfig_run:
  assumes "generateKThreesConfig E kcp cluster spec h = (Some r, h')"
  shows "\<exists>k. h' = h @ [CreateConfig k] \<and> kt_Spec k = spec \<and> om_Namespace (kt_Meta k) = om_Namespace (kp_Meta kcp) \<and>
     (case e_err E h (CreateConfig k) of Some _ \<Rightarrow> \<exists>e. r = Inl e
      | None \<Rightarrow> r = Inr \<lparr>cr_APIGroup = bootstrap_group, cr_Kind = ''KThreesConfig'', cr_Name = om_Name (kt_Meta k)\<rparr>)"
  using assms by (auto simp: generateKThreesConfig_def Let_def go_runs split: option.splits)

text \<open>After a failure nothing created is left over unless its lookup or deletion failed: the
  references of the objects that were created have been cleaned up, and the control plane
  still carries the annotation of a remediation in progress. After a success the machine has
  been applied last, with both references, and that annotation is gone.\<close>

definition creationOutcome ::
  "env \<Rightarrow> ControlPlane \<Rightarrow> call list \<Rightarrow> ContractRef \<Rightarrow> ControlPlane \<times> goerr option \<Rightarrow> call list \<Rightarrow> bool" where
  "creationOutcome E cp h infraRef out h' \<longleftrightarrow>
     (let namespace = om_Namespace (kp_Meta (cp_KCP cp)) in
      \<exists>k. CreateConfig k \<in> set (drop (length h) h') \<and>
        (case snd out of
          None \<Rightarrow>
            (\<exists>m h1. h' = h1 @ [ApplyMachine m] \<and> ma_InfrastructureRef m = Some infraRef \<and>
               map_option cr_Name (ma_ConfigRef m) = Some (om_Name (kt_Meta k)) \<and>
               mget (kp_Annotations (cp_KCP (fst out))) RemediationInProgressAnnotation = None)
        | Some _ \<Rightarrow>
            fst out = cp \<and> cleanedUp E namespace infraRef h' \<and>
            (e_err E h (CreateConfig k) = None \<longrightarrow>
               cleanedUp E namespace \<lparr>cr_APIGroup = bootstrap_group, cr_Kind = ''KThreesConfig'', cr_Name = om_Name (kt_Meta k)\<rparr> h')))"

lemma kp_setAnnotations_simps [simp]:
  "kp_Annotations (kp_setAnnotations p a) = a" "kp_Spec (kp_setAnnotations p a) = kp_Spec p"
  "kp_Status (kp_setAnnotations p a) = kp_Status p"
  by (simp_all add: kp_setAnnotations_def kp_Annotations_def)

lemma abandonMachine_run:
  assumes "abandonMachine E cp ns refs err h = (Some out, h')"
  shows "fst out = cp" "snd out \<noteq> None" "Some ref \<in> set refs \<Longrightarrow> cleanedUp E ns ref h'" "\<exists>t. h' = h @ t"
proof -
  from assms obtain e where c: "cleanupFromGeneration E ns refs h = (Some e, h')"
    and out: "(cp, NewAggregate (case e of None \<Rightarrow> [Some err]
                  | Some err1 \<Rightarrow> [Some err, Some (Wrap ''failed to cleanup generated resources'' err1)])) = out"
    unfolding abandonMachine_def by (elim bnd_SomeE) (simp add: ret_def)
  from out have "snd out = NewAggregate (case e of None \<Rightarrow> [Some err]
                  | Some err1 \<Rightarrow> [Some err, Some (Wrap ''failed to cleanup generated resources'' err1)])" by auto
  then show "snd out \<noteq> None" by (cases e) (simp_all del: not_None_eq)
  from out show "fst out = cp" by auto
  show "Some ref \<in> set refs \<Longrightarrow> cleanedUp E ns ref h'" using c by (rule cleanupFromGeneration_cleans[rotated])
  have "emits UNIV (cleanupFromGeneration E ns refs)" by (intro go_intros) auto
  then show "\<exists>t. h' = h @ t" using c by (auto elim: emitsE)
qed

abbreviation configRef :: "KThreesConfig \<Rightarrow> ContractRef" where
  "configRef k \<equiv> \<lparr>cr_APIGroup = bootstrap_group, cr_Kind = ''KThreesConfig'', cr_Name = om_Name (kt_Meta k)\<rparr>"

lemma creationOutcome_abandoned:
  assumes "abandonMachine E (cp\<lparr>cp_KCP := cp_KCP cp\<rparr>) (om_Namespace (kp_Meta (cp_KCP cp))) [Some infraRef, ref] err (h @ CreateConfig k # t) = (Some out, h')"
    and "e_err E h (CreateConfig k) = None \<Longrightarrow> ref = Some (configRef k)"
  shows "creationOutcome E cp h infraRef out h'"
  using abandonMachine_run[OF assms(1)] assms(2)
  unfolding creationOutcome_def Let_def by - (rule exI[of _ k], auto split: option.split)

lemma machineApplied_outcome:
  assumes run: "bnd (createMachine E X (cp_KCP cp) (m\<lparr>ma_ConfigRef := Some (configRef k)\<rparr>)) (\<lambda>(kcp, e). case e of
           Some err \<Rightarrow>
             abandonMachine E (cp\<lparr>cp_KCP := kcp\<rparr>) (om_Namespace (ma_Meta m)) [Some infraRef, Some (configRef k)]
               (Wrap ''failed to create Machine'' err)
         | None \<Rightarrow> ret (cp\<lparr>cp_KCP := kcp\<rparr>, None)) (h @ [CreateConfig k]) = (Some out, h')"
    and m: "ma_InfrastructureRef m = Some infraRef" "om_Namespace (ma_Meta m) = om_Namespace (kp_Meta (cp_KCP cp))"
  shows "creationOutcome E cp h infraRef out h'"
proof -
  from run obtain kcp e h2 where cm: "createMachine E X (cp_KCP cp) (m\<lparr>ma_ConfigRef := Some (configRef k)\<rparr>) (h @ [CreateConfig k]) = (Some (kcp, e), h2)"
    and fin: "(case e of
         Some err \<Rightarrow>
           abandonMachine E (cp\<lparr>cp_KCP := kcp\<rparr>) (om_Namespace (ma_Meta m)) [Some infraRef, Some (configRef k)]
             (Wrap ''failed to create Machine'' err)
       | None \<Rightarrow> ret (cp\<lparr>cp_KCP := kcp\<rparr>, None)) h2 = (Some out, h')"
    by (auto elim: bnd_SomeE)
  show ?thesis
  proof (cases e)
    case None
    with fin have out: "out = (cp\<lparr>cp_KCP := kcp\<rparr>, None)" "h' = h2" by (simp_all add: ret_def)
    with createMachine_run(1)[OF cm None] m(1) show ?thesis
      unfolding creationOutcome_def Let_def by - (rule exI[of _ k], simp)
  next
    case (Some err)
    obtain t where t: "h2 = (h @ [CreateConfig k]) @ t"
      by (rule emitsE[OF createMachine_emits[OF UNIV_I] cm]) blast
    from fin Some createMachine_run(2)[OF cm] m(2) show ?thesis
      by (intro creationOutcome_abandoned[where t = t]) (simp_all add: t)
  qed
qed

lemma finishMachine_outcome:
  assumes run: "finishMachine E X cp spec m infraRef h = (Some out, h')"
    and m: "ma_InfrastructureRef m = Some infraRef" "om_Namespace (ma_Meta m) = om_Namespace (kp_Meta (cp_KCP cp))"
  shows "creationOutcome E cp h infraRef out h'"
proof -
  from run obtain r h1 where gen: "generateKThreesConfig E (cp_KCP cp) (cp_Cluster cp) spec h = (Some r, h1)"
    unfolding finishMachine_def by (elim bnd_SomeE)
  obtain k where h1: "h1 = h @ [CreateConfig k]"
    and r: "case e_err E h (CreateConfig k) of Some _ \<Rightarrow> \<exists>e. r = Inl e | None \<Rightarrow> r = Inr (configRef k)"
    using generateKThreesConfig_run[OF gen] by blast
  show ?thesis
  proof (cases r)
    case (Inl err)
    with run gen h1 r m(2) show ?thesis
      by (intro creationOutcome_abandoned[where k = k and t = "[]" and ref = None])
        (auto simp: finishMachine_def bnd_run split: option.splits)
  next
    case (Inr ref)
    with r have "ref = configRef k" by (auto split: option.splits)
    with run gen h1 Inr show ?thesis
      by (intro machineApplied_outcome[OF _ m]) (simp add: finishMachine_def bnd_run)
  qed
qed

lemma machineIdentity_run: "\<exists>r. machineIdentity E L kcp em h = (Some r, h)"
  by (cases em; cases "marshalServerConfig L (kc_ServerConfig (ps_KThreesConfigSpec (kp_Spec kcp)))")
     (simp_all add: machineIdentity_def go_runs)

lemma computeDesiredMachine_run:
  assumes "computeDesiredMachine E L kcp cl fd em h = (x, h')"
  shows "h' = h" "\<exists>r. x = Some r"
    "x = Some (Inr m) \<Longrightarrow> om_Namespace (ma_Meta m) = om_Namespace (kp_Meta kcp)"
  using assms machineIdentity_run[of E L kcp em h]
  by (auto simp: computeDesiredMachine_def Let_def go_runs split: sum.splits)

text \<open>The template is cloned first; from the reference on, \<open>creationOutcome\<close> holds.\<close>

lemma cloned_outcome:
  assumes run: "bnd (api E e_ref c) (\<lambda>r. case r of
       Inl err \<Rightarrow> ret (cp, Some (Wrap ''failed to clone infrastructure template'' err))
     | Inr infraRef \<Rightarrow>
         finishMachine E X cp spec (m\<lparr>ma_InfrastructureRef := Some infraRef\<rparr>) infraRef) h = (Some out, h')"
    and ns: "om_Namespace (ma_Meta m) = om_Namespace (kp_Meta (cp_KCP cp))"
  shows "case e_ref E h c of
         Inl _ \<Rightarrow> fst out = cp \<and> snd out \<noteq> None \<and> h' = h @ [c]
       | Inr infraRef \<Rightarrow> creationOutcome E cp (h @ [c]) infraRef out h'"
proof (cases "e_ref E h c")
  case (Inl err)
  with run show ?thesis by (auto simp: bnd_run client_run ret_def)
next
  case (Inr infraRef)
  with run have "finishMachine E X cp spec (m\<lparr>ma_InfrastructureRef := Some infraRef\<rparr>) infraRef (h @ [c]) = (Some out, h')"
    by (simp add: bnd_run client_run)
  then have "creationOutcome E cp (h @ [c]) infraRef out h'" by (rule finishMachine_outcome) (simp_all add: ns)
  with Inr show ?thesis by simp
qed

lemma cloneConfigsAndGenerateMachine_outcome:
  assumes run: "cloneConfigsAndGenerateMachine E L X cp spec fd h = (Some out, h')"
  shows "(fst out = cp \<and> snd out \<noteq> None \<and> h' = h) \<or>
    (\<exists>tpl ns own cn ls. let c = CloneTemplate tpl ns own cn ls in
       case e_ref E h c of
         Inl _ \<Rightarrow> fst out = cp \<and> snd out \<noteq> None \<and> h' = h @ [c]
       | Inr infraRef \<Rightarrow> creationOutcome E cp (h @ [c]) infraRef out h')"
proof -
  from run obtain r where d: "computeDesiredMachine E L (cp_KCP cp) (cp_Cluster cp) fd None h = (Some r, h)"
    unfolding cloneConfigsAndGenerateMachine_def Let_def
    using computeDesiredMachine_run(1,2)[of E L "cp_KCP cp" "cp_Cluster cp" fd None h] by (metis prod.collapse)
  then have step: "bnd (computeDesiredMachine E L (cp_KCP cp) (cp_Cluster cp) fd None) f h = f r h" for f :: "_ \<Rightarrow> (call, 'z) go"
    by (simp add: bnd_run)
  show ?thesis
  proof (cases r)
    case (Inl err)
    with run d show ?thesis by (intro disjI1) (auto simp: cloneConfigsAndGenerateMachine_def Let_def bnd_run ret_def)
  next
    case (Inr m)
    have ns: "om_Namespace (ma_Meta m) = om_Namespace (kp_Meta (cp_KCP cp))"
      using computeDesiredMachine_run(3)[OF d, of m] Inr by simp
    show ?thesis
      using cloned_outcome[OF run[unfolded cloneConfigsAndGenerateMachine_def Let_def step, unfolded Inr sum.case] ns]
      unfolding Let_def by blast
  qed
qed

subsection \<open>The desired machine\<close>

lemma computeDesiredMachine_update:
  assumes "computeDesiredMachine E L kcp cl fd (Some m) h = (Some (Inr d), h')"
  shows "ma_Name d = ma_Name m" "om_UID (ma_Meta d) = om_UID (ma_Meta m)" "ma_Version d = ma_Version m"
    "ma_InfrastructureRef d = ma_InfrastructureRef m" "ma_ConfigRef d = ma_ConfigRef m" "ma_FailureDomain d = fd"
    "mget (mt_Annotations (ps_MachineTemplate (kp_Spec kcp))) k = None \<Longrightarrow>
       k \<in> {KThreesServerConfigurationAnnotation, RemediationForAnnotation} \<Longrightarrow>
       mget (ma_Annotations d) k = mget (ma_Annotations m) k"
  using assms
  by (auto simp: computeDesiredMachine_def machineIdentity_def Let_def go_runs ma_Name_def ma_Annotations_def optional_def
      map_add_def split: option.splits)

lemma computeDesiredMachine_create:
  assumes "computeDesiredMachine E L kcp cl fd None h = (Some (Inr d), h')"
    and "mt_Annotations (ps_MachineTemplate (kp_Spec kcp)) = None"
  shows "ma_Version d = ps_Version (kp_Spec kcp)" "ma_InfrastructureRef d = None" "ma_ConfigRef d = None"
    "mget (ma_Annotations d) RemediationForAnnotation = mget (kp_Annotations kcp) RemediationInProgressAnnotation"
    "marshalServerConfig L (kc_ServerConfig (ps_KThreesConfigSpec (kp_Spec kcp))) =
       Inr (the (mget (ma_Annotations d) KThreesServerConfigurationAnnotation))"
  using assms
  by (auto simp: computeDesiredMachine_def machineIdentity_def Let_def go_runs ma_Annotations_def optional_def
      split: option.splits sum.splits)

subsection \<open>Scaling down\<close>

text \<open>The candidates, in the order of preference of the code.\<close>

definition scaleDownCandidates :: "lib \<Rightarrow> ControlPlane \<Rightarrow> Machine list \<Rightarrow> Machine \<Rightarrow> bool" where
  "scaleDownCandidates L cp outdated m \<longleftrightarrow>
     (let marked = HasAnnotationKey L DeleteMachineAnnotation in
      if \<exists>x\<in>set outdated. marked x then m \<in> set outdated \<and> marked m
      else if \<exists>x\<in>set (cp_Machines cp). marked x then m \<in> set (cp_Machines cp) \<and> marked m
      else if outdated \<noteq> [] then m \<in> set outdated
      else m \<in> set (cp_Machines cp))"

lemma MachineWithDeleteAnnotation_ne:
  "0 < length (MachineWithDeleteAnnotation L ms) \<longleftrightarrow> (\<exists>x\<in>set ms. HasAnnotationKey L DeleteMachineAnnotation x)"
proof -
  have "0 < length (MachineWithDeleteAnnotation L ms) \<longleftrightarrow> set (MachineWithDeleteAnnotation L ms) \<noteq> {}" by simp
  then show ?thesis by (auto simp: MachineWithDeleteAnnotation_def)
qed

lemma selectMachineForScaleDown_candidate:
  assumes "oldest_laws L" "selectMachineForScaleDown L cp outdated = Some (Inr m)"
  shows "scaleDownCandidates L cp outdated m"
  using MachineInFailureDomain_mem[OF assms(1) assms(2)[unfolded selectMachineForScaleDown_def Let_def]]
  unfolding scaleDownCandidates_def Let_def MachineWithDeleteAnnotation_ne
  by (auto simp: MachineWithDeleteAnnotation_def split: if_splits)

lemma selectMachineForScaleDown_total:
  assumes "oldest_laws L"
  shows "selectMachineForScaleDown L cp outdated \<noteq> None"
proof -
  have "MachineInFailureDomainWithMostMachines L cp ms \<noteq> None" for ms
  proof -
    obtain fd where "FailureDomainWithMostMachines L cp ms = Some fd"
      using FailureDomainWithMostMachines_total[OF assms] .
    then show ?thesis by (simp add: MachineInFailureDomainWithMostMachines_def)
  qed
  then show ?thesis by (simp only: selectMachineForScaleDown_def Let_def not_False_eq_True)
qed

lemma addPreTerminateHook_run:
  assumes "addPreTerminateHook E s h = (Some (s', None), h')"
  shows "h' = h @ [PatchMachine (snd s')]" "ma_Name (snd s') = ma_Name (snd s)"
    "mget (ma_Annotations (snd s')) PreTerminateDeleteHookAnnotationPrefix = Some k3sHookName"
  using assms
  by (auto simp: addPreTerminateHook_def Let_def go_runs deref_def ma_setAnnotations_def ma_Name_def ma_Annotations_def
      mget_mput split: option.splits)

lemma prepareDeletion_hook:
  assumes run: "prepareDeletion E L s h = (Some (s', None), h')" and etcd: "IsEtcdManaged (fst s)"
  shows "\<exists>g. addPreTerminateHook E s g = (Some (s', None), h')"
proof -
  from run etcd obtain r h1 where rest: "(case r of
        Inl err \<Rightarrow> ret (s, Some (Wrap ''failed to create client to workload cluster'' err))
      | Inr workloadCluster \<Rightarrow>
          bnd (ForwardEtcdLeadership E workloadCluster (Some (snd s)) (Newest L (cp_Machines (fst s)))) (\<lambda>(_, e).
            case e of Some err \<Rightarrow> bnd (deref (Newest L (cp_Machines (fst s)))) (\<lambda>_. ret (s, Some err))
            | None \<Rightarrow> addPreTerminateHook E s)) h1 = (Some (s', None), h')"
    unfolding prepareDeletion_def by (auto elim: bnd_SomeE)
  show ?thesis
  proof (cases r)
    case (Inl e)
    with rest show ?thesis by (simp add: ret_def)
  next
    case (Inr w)
    with rest obtain y g where y: "(case y of (_, e) \<Rightarrow>
            case e of Some err \<Rightarrow> bnd (deref (Newest L (cp_Machines (fst s)))) (\<lambda>_. ret (s, Some err))
            | None \<Rightarrow> addPreTerminateHook E s) g = (Some (s', None), h')"
      by (auto elim: bnd_SomeE)
    have "snd y = None"
    proof (rule ccontr)
      assume "snd y \<noteq> None"
      with y show False
        by (cases y; cases "snd y"; cases "Newest L (cp_Machines (fst s))") (simp_all add: go_runs)
    qed
    with y have "addPreTerminateHook E s g = (Some (s', None), h')" by (cases y) simp
    then show ?thesis ..
  qed
qed

lemma prepareDeletion_run:
  assumes "prepareDeletion E L s h = (Some (s', None), h')"
  shows "\<not> IsEtcdManaged (fst s) \<Longrightarrow> s' = s \<and> h' = h"
    "IsEtcdManaged (fst s) \<Longrightarrow> \<exists>h1. h' = h1 @ [PatchMachine (snd s')] \<and> ma_Name (snd s') = ma_Name (snd s) \<and>
       mget (ma_Annotations (snd s')) PreTerminateDeleteHookAnnotationPrefix = Some k3sHookName"
proof -
  show "\<not> IsEtcdManaged (fst s) \<Longrightarrow> s' = s \<and> h' = h" using assms by (simp add: prepareDeletion_def ret_def)
  assume "IsEtcdManaged (fst s)"
  then obtain g where "addPreTerminateHook E s g = (Some (s', None), h')" using prepareDeletion_hook[OF assms] by blast
  from addPreTerminateHook_run[OF this]
  show "\<exists>h1. h' = h1 @ [PatchMachine (snd s')] \<and> ma_Name (snd s') = ma_Name (snd s) \<and>
       mget (ma_Annotations (snd s')) PreTerminateDeleteHookAnnotationPrefix = Some k3sHookName" by blast
qed

lemma prepareDeletion_nonmachine: "emits nonmachine (prepareDeletion E L s)"
  unfolding prepareDeletion_def
proof (rule emits_if)
  show "emits nonmachine (ret (s, None))" by (rule emits_ret)
  show "emits nonmachine (bnd (GetWorkloadCluster E (cl_Key (cp_Cluster (fst s)))) (\<lambda>r. case r of
        Inl err \<Rightarrow> ret (s, Some (Wrap ''failed to create client to workload cluster'' err))
      | Inr workloadCluster \<Rightarrow>
          bnd (ForwardEtcdLeadership E workloadCluster (Some (snd s)) (Newest L (cp_Machines (fst s)))) (\<lambda>(_, e).
            case e of Some err \<Rightarrow> bnd (deref (Newest L (cp_Machines (fst s)))) (\<lambda>_. ret (s, Some err))
            | None \<Rightarrow> addPreTerminateHook E s)))"
  proof (rule emits_bnd_ret[OF _ GetWorkloadCluster_good], goal_cases)
    case 1
    show ?case by (intro go_intros) simp
  next
    case (2 r)
    then show ?case
      by (cases r) (simp_all add: emits_ret, intro emits_bnd ForwardEtcdLeadership_emits emits_prod emits_option
          deref_intros emits_ret addPreTerminateHook_nonmachine, simp_all)
  qed
qed

text \<open>What has to hold when a machine is deleted by scaling down.\<close>

definition scaleDownGuards ::
  "lib \<Rightarrow> ControlPlane \<Rightarrow> Machine list \<Rightarrow> Machine \<Rightarrow> call list \<Rightarrow> bool" where
  "scaleDownGuards L cp outdated x h \<longleftrightarrow>
     (\<exists>m. selectMachineForScaleDown L cp outdated = Some (Inr m) \<and> ma_Name x = ma_Name m \<and> preflightPassed L cp [m] \<and>
       (if IsEtcdManaged cp
        then last h = PatchMachine x \<and> mget (ma_Annotations x) PreTerminateDeleteHookAnnotationPrefix = Some k3sHookName
        else x = m))"

lemma deleteForScaleDown_emits: "emits (insert (DeleteMachine (snd s)) nonmachine) (deleteForScaleDown E s)"
  unfolding deleteForScaleDown_def by (intro go_intros) simp_all

abbreviation guardedDeletions :: "nat \<Rightarrow> lib \<Rightarrow> ControlPlane \<Rightarrow> Machine list \<Rightarrow> call list \<Rightarrow> bool" where
  "guardedDeletions n L cp outdated \<equiv>
     justified n is_delete_machine (\<lambda>h c. \<exists>x. c = DeleteMachine x \<and> scaleDownGuards L cp outdated x h)"

lemma guardedDeletions_nonmachine: "emits nonmachine m \<Longrightarrow> keeps (guardedDeletions n L cp outdated) m"
  by (rule justified_emits[of nonmachine]) simp_all

lemma deleteForScaleDown_guarded:
  assumes "guardedDeletions n L cp outdated h" "scaleDownGuards L cp outdated (snd s) h" "deleteForScaleDown E s h = (r, h')"
  shows "guardedDeletions n L cp outdated h'"
proof -
  have "h' = h @ [DeleteMachine (snd s)] \<or> h' = h @ [DeleteMachine (snd s), Event ''FailedScaleDown'']"
    using assms(3) by (auto simp: deleteForScaleDown_def go_runs split: option.splits if_splits)
  moreover have "guardedDeletions n L cp outdated (h @ [DeleteMachine (snd s)])"
    using assms(1,2) by (simp add: justified_snoc)
  moreover from this have "guardedDeletions n L cp outdated ((h @ [DeleteMachine (snd s)]) @ [Event ''FailedScaleDown''])"
    by (simp only: justified_snoc) simp
  ultimately show ?thesis by auto
qed

lemma prepareAndDelete_guarded:
  assumes sel: "selectMachineForScaleDown L cp outdated = Some (Inr m)" and pre: "preflightPassed L cp [m]"
  shows "keeps (guardedDeletions n L cp outdated) (prepareAndDelete E L (cp, m))"
  unfolding prepareAndDelete_def
proof (rule keeps_bnd_run)
  show "keeps (guardedDeletions n L cp outdated) (prepareDeletion E L (cp, m))"
    using prepareDeletion_nonmachine by (rule guardedDeletions_nonmachine)
next
  fix x g g1 r g2
  assume J: "guardedDeletions n L cp outdated g" and p: "prepareDeletion E L (cp, m) g = (Some x, g1)"
    and d: "(case x of (s, e) \<Rightarrow> case e of Some err \<Rightarrow> ret (fst s, NoResult, Some err) | None \<Rightarrow> deleteForScaleDown E s) g1 = (r, g2)"
  have J1: "guardedDeletions n L cp outdated g1"
    using keepsD[OF guardedDeletions_nonmachine[OF prepareDeletion_nonmachine] J p] .
  obtain s e where x: "x = (s, e)" by fastforce
  show "guardedDeletions n L cp outdated g2"
  proof (cases e)
    case (Some err)
    with d x J1 show ?thesis by (simp add: ret_def)
  next
    case None
    with p x have run: "prepareDeletion E L (cp, m) g = (Some (s, None), g1)" by simp
    have "scaleDownGuards L cp outdated (snd s) g1"
      using prepareDeletion_run[OF run] sel pre unfolding scaleDownGuards_def
      by (cases "IsEtcdManaged cp") auto
    with J1 d x None show ?thesis by (simp add: deleteForScaleDown_guarded)
  qed
qed

lemma scaleDownControlPlane_guarded:
  "keeps (guardedDeletions n L cp outdated) (scaleDownControlPlane E L cp outdated)"
  unfolding scaleDownControlPlane_def
proof (rule keeps_bnd_run, rule keeps_deref, goal_cases)
  case (1 r h h1 res h2)
  then have sel: "selectMachineForScaleDown L cp outdated = Some r" and h1: "guardedDeletions n L cp outdated h1"
    by (auto simp: deref_def go_runs split: option.splits)
  show ?case
  proof (cases r)
    case (Inl e)
    with 1 h1 show ?thesis by (simp add: ret_def)
  next
    case (Inr m)
    with 1(3) have run: "bnd (preflightChecks E L cp [m]) (\<lambda>(result, err).
         if err \<noteq> None \<or> \<not> r_IsZero result then (\<lambda>a b. ret (cp, a, b)) result err
         else prepareAndDelete E L (cp, m)) h1 = (res, h2)" by simp
    show ?thesis
    proof (cases "preflightPassed L cp [m]")
      case True
      with run have "prepareAndDelete E L (cp, m) h1 = (res, h2)" by (simp only: preflightChecks_bnd if_True)
      with prepareAndDelete_guarded[OF sel[unfolded Inr] True] h1 show ?thesis by (rule keepsD)
    next
      case False
      with run have "h2 = h1 \<or> h2 = h1 @ [Event ''ControlPlaneUnhealthy'']"
        unfolding preflightChecks_bnd by (auto simp: ret_def split: if_splits)
      with h1 show ?thesis by (auto simp: justified_snoc)
    qed
  qed
qed

lemma scaleDownControlPlane_bounded: "bounded is_delete_machine (Suc 0) (scaleDownControlPlane E L cp outdated)"
proof -
  have del: "bounded is_delete_machine (Suc 0) (deleteForScaleDown E s)" for s
    unfolding deleteForScaleDown_def by (rule bounded_bnd_last[OF api_bounded1]) (intro go_intros, simp)
  show ?thesis
    unfolding scaleDownControlPlane_def prepareAndDelete_def
    by (intro go_intros bounded_bnd_nm(1)[OF prepareDeletion_nonmachine] del) simp_all
qed

end
