(* ===== verification/ScaleResults.thy ===== *)
theory ScaleResults
  imports Sample Scale
begin

text \<open>
  The properties of scaling: how many machines one pass creates and deletes, under which
  conditions, what a failed creation leaves behind, and how a machine is derived from the
  control plane. \<open>X0\<close> is an instance of the libraries for the witnesses.
\<close>

definition X0 :: ssaLib where
  "X0 = \<lparr>convMachine = (\<lambda>m. Inr (JMap [(''kind'', JOther ''Machine''), (''status'', JOther ''s'')])),
     convUnstructured = (\<lambda>u. Inr (JMap [])), gvkMachine = Inr ''Machine'', gvkUnstructured = (\<lambda>u. Inr (u_Kind u)),
     spewPrint = (\<lambda>v. case v of JMap _ \<Rightarrow> Inr ''{}'' | JOther t \<Rightarrow> Inr t), unmarshalFields = (\<lambda>s. Inr (JOther s)), marshalFields = (\<lambda>v. Inr [])\<rparr>"

lemma justifiedD: "justified n w J (h1 @ c # h2) \<Longrightarrow> n \<le> length h1 \<Longrightarrow> w c \<Longrightarrow> J h1 c"
  unfolding justified_def by blast

text \<open>One pass creates at most one machine: neither the first machine nor a further one
  is ever requested twice, whatever is answered, and scaling down deletes at most one.\<close>

theorem one_machine_per_pass:
  "(\<exists>cs. snd (initializeControlPlane E L X cp h) = h @ cs \<and> length (filter is_apply_machine cs) \<le> 1) \<and>
   (\<exists>cs. snd (scaleUpControlPlane E L X cp h) = h @ cs \<and> length (filter is_apply_machine cs) \<le> 1) \<and>
   (\<exists>cs. snd (scaleDownControlPlane E L cp outdated h) = h @ cs \<and> length (filter is_delete_machine cs) \<le> 1)"
  using initializeControlPlane_bounded[of E L X cp] scaleUpControlPlane_bounded[of E L X cp]
    scaleDownControlPlane_bounded[of E L cp outdated]
  unfolding bounded_def by simp_all

text \<open>C23 Scaling up waits for a stable control plane: while a machine is being deleted, or any
  health condition of any machine is missing, false or unknown, nothing is created, the
  control plane is left as it is and the request is queued again after a positive time.\<close>

theorem scale_up_waits:
  assumes "\<not> preflightPassed L cp []"
  shows "\<exists>d. 0 < sint d \<and> scaleUpControlPlane E L X cp h =
     (Some (cp, RequeueAfter d, None), h @ (if HasDeletingMachine L cp then [] else [Event ''ControlPlaneUnhealthy'']))"
proof -
  have pos: "0 < sint deleteRequeueAfter" "0 < sint preflightFailedRequeueAfter"
    by (simp_all add: deleteRequeueAfter_def preflightFailedRequeueAfter_def Second_def)
  show ?thesis
  proof (cases "HasDeletingMachine L cp")
    case True
    with assms pos show ?thesis
      by (intro exI[of _ deleteRequeueAfter]) (simp add: scaleUpControlPlane_def bnd_run preflightChecks_run ret_def)
  next
    case False
    with assms pos show ?thesis
      by (intro exI[of _ preflightFailedRequeueAfter]) (simp add: scaleUpControlPlane_def bnd_run preflightChecks_run ret_def)
  qed
qed

theorem scale_up_waits_witness:
  "\<exists>d. 0 < sint d \<and> scaleUpControlPlane E0 L0 X0 (cp0 [machine0 ''m1'' None []]) [] =
     (Some (cp0 [machine0 ''m1'' None []], RequeueAfter d, None), [Event ''ControlPlaneUnhealthy''])"
proof -
  have "\<not> preflightPassed L0 (cp0 [machine0 ''m1'' None []]) []"
    by (simp add: preflightPassed_def cp0_def machine0_def L0_def ma_GetCond_def find0_def allMachineHealthConditions_def exI[of _ MachineAgentHealthyCondition])
  moreover have "\<not> HasDeletingMachine L0 (cp0 [machine0 ''m1'' None []])"
    by (simp add: HasDeletingMachine_iff cp0_def machine0_def L0_def ma_deleting_def deleting_def meta0_def emptyMeta_def)
  ultimately show ?thesis using scale_up_waits[of L0 "cp0 [machine0 ''m1'' None []]" E0 X0 "[]"] by simp
qed

text \<open>C21 The creation of a machine leaves nothing half done: after a failure the references of
  whatever was created have been cleaned up and the control plane is unchanged, so that a
  remediation in progress is still recorded; after a success the machine carries both
  references and the remediation is no longer marked as in progress.\<close>

theorem creation_all_or_nothing:
  assumes "cloneConfigsAndGenerateMachine E L X cp spec fd h = (Some out, h')"
  shows "(fst out = cp \<and> snd out \<noteq> None \<and> h' = h) \<or>
    (\<exists>tpl ns own cn ls. let c = CloneTemplate tpl ns own cn ls in
       case e_ref E h c of
         Inl _ \<Rightarrow> fst out = cp \<and> snd out \<noteq> None \<and> h' = h @ [c]
       | Inr infraRef \<Rightarrow> creationOutcome E cp (h @ [c]) infraRef out h')"
  using assms by (rule cloneConfigsAndGenerateMachine_outcome)

theorem creation_all_or_nothing_witness:
  "\<exists>out h' c infraRef. cloneConfigsAndGenerateMachine E0 L0 X0 (cp0 []) config0 ''fd1'' [] = (Some out, h') \<and>
     snd out = None \<and> creationOutcome E0 (cp0 []) [c] infraRef out h'"
proof -
  have "\<exists>out h'. cloneConfigsAndGenerateMachine E0 L0 X0 (cp0 []) config0 ''fd1'' [] = (Some out, h') \<and> snd out = None"
    by (simp add: cloneConfigsAndGenerateMachine_def computeDesiredMachine_def machineIdentity_def finishMachine_def
        generateKThreesConfig_def createMachine_def PatchMachineObject_def Patch_def sendApply_def prepareModified_def
        go_runs E0_def L0_def X0_def cp0_def Let_def)
  then obtain out h' where run: "cloneConfigsAndGenerateMachine E0 L0 X0 (cp0 []) config0 ''fd1'' [] = (Some out, h')"
    and ok: "snd out = None" by blast
  have "\<exists>c infraRef. creationOutcome E0 (cp0 []) [c] infraRef out h'"
    using creation_all_or_nothing[OF run] ok by (auto simp: Let_def E0_def)
  with run ok show ?thesis by blast
qed

text \<open>C2 Scaling down deletes the machine it selected, and only when the preflight checks
  pass with that machine left out: no machine is being deleted and all others are healthy.
  The machine is one of the preferred candidates (marked for deletion and outdated, then
  marked, then outdated, then any). With managed etcd the pre-terminate hook has been patched
  onto the very object that is deleted by the call just before.\<close>

theorem scale_down_guarded:
  assumes "scaleDownControlPlane E L cp outdated h = (r, h1 @ DeleteMachine x # h2)" "length h \<le> length h1"
    and "oldest_laws L"
  shows "\<exists>m. ma_Name x = ma_Name m \<and> scaleDownCandidates L cp outdated m \<and> preflightPassed L cp [m] \<and>
    (if IsEtcdManaged cp
     then last h1 = PatchMachine x \<and> mget (ma_Annotations x) PreTerminateDeleteHookAnnotationPrefix = Some k3sHookName
     else x = m)"
proof -
  have "guardedDeletions (length h) L cp outdated (h1 @ DeleteMachine x # h2)"
    using keepsD[OF scaleDownControlPlane_guarded justified_start assms(1)] .
  from justifiedD[OF this assms(2)] have "scaleDownGuards L cp outdated x h1" by (auto simp: is_delete_machine_def)
  then show ?thesis
    unfolding scaleDownGuards_def using selectMachineForScaleDown_candidate[OF assms(3)] by blast
qed

theorem scale_down_guarded_witness:
  "\<exists>x. scaleDownCandidates L0 (cp0 [machine0 ''m1'' None []]) [] (machine0 ''m1'' None []) \<and> ma_Name x = ''m1'' \<and>
     mget (ma_Annotations x) PreTerminateDeleteHookAnnotationPrefix = Some k3sHookName"
proof -
  let ?m = "machine0 ''m1'' None []"
  let ?x = "ma_setAnnotations ?m (Some [PreTerminateDeleteHookAnnotationPrefix \<mapsto> k3sHookName])"
  have "\<exists>r h1. scaleDownControlPlane E0 L0 (cp0 [?m]) [] [] = (r, (h1 @ [PatchMachine ?x]) @ DeleteMachine ?x # [])"
    by (simp add: scaleDownControlPlane_def selectMachineForScaleDown_def MachineWithDeleteAnnotation_def MFilter_def
        MachineInFailureDomainWithMostMachines_def FailureDomainWithMostMachines_def ControlPlaneFailureDomains_def
        FailureDomains_def FailureDomainNames_def prepareAndDelete_def prepareDeletion_def deleteForScaleDown_def IsEtcdManaged_def IsEtcdEmbedded_def
        GetWorkloadCluster_def getEtcdCAKeyPair_def generateClientCert_def newClientCert_def ForwardEtcdLeadership_def addPreTerminateHook_def preflightChecks_def
        HasDeletingMachine_def preflightErrors_def go_runs E0_def L0_def cp0_def machine0_def meta0_def emptyMeta_def Let_def
        best_def ma_Annotations_def ma_Name_def mput_def ma_setAnnotations_def ma_deleting_def deleting_def cp_upd_def
        kcp0_def config0_def cluster0_def)
  then obtain r h1 where run: "scaleDownControlPlane E0 L0 (cp0 [?m]) [] [] = (r, (h1 @ [PatchMachine ?x]) @ DeleteMachine ?x # [])"
    by blast
  have etcd: "IsEtcdManaged (cp0 [?m])" by (simp add: IsEtcdManaged_def IsEtcdEmbedded_def cp0_def)
  from scale_down_guarded[OF run _ L0_oldest] etcd obtain m where m: "ma_Name ?x = ma_Name m"
    "scaleDownCandidates L0 (cp0 [?m]) [] m" "mget (ma_Annotations ?x) PreTerminateDeleteHookAnnotationPrefix = Some k3sHookName"
    by auto
  then have "m = ?m" by (auto simp: scaleDownCandidates_def cp0_def Let_def split: if_splits)
  with m show ?thesis by (intro exI[of _ ?x]) (simp add: ma_Name_def machine0_def meta0_def)
qed

text \<open>Updating a machine keeps what identifies it: name, UID, version, both references. Its
  annotations are those of the template, and the two the controller maintains, unless the
  template itself sets them; nothing else is carried over, and no condition or node.\<close>

theorem desired_machine_update:
  assumes "computeDesiredMachine E L kcp cl fd (Some m) h = (Some (Inr d), h')"
  shows "ma_Name d = ma_Name m \<and> om_UID (ma_Meta d) = om_UID (ma_Meta m) \<and> ma_Version d = ma_Version m \<and>
    ma_InfrastructureRef d = ma_InfrastructureRef m \<and> ma_ConfigRef d = ma_ConfigRef m \<and> ma_FailureDomain d = fd \<and>
    (\<forall>k. mget (ma_Annotations d) k =
       (case mget (mt_Annotations (ps_MachineTemplate (kp_Spec kcp))) k of
          Some v \<Rightarrow> Some v
        | None \<Rightarrow> if k \<in> {KThreesServerConfigurationAnnotation, RemediationForAnnotation} then mget (ma_Annotations m) k else None))"
  using assms
  by (auto simp: computeDesiredMachine_def machineIdentity_def Let_def go_runs ma_Name_def ma_Annotations_def optional_def
      map_add_def split: option.splits)

theorem desired_machine_update_witness:
  "\<exists>d. computeDesiredMachine E0 L0 kcp0 cluster0 ''fd'' (Some (machine0 ''m1'' (Some ''n1'') [])) [] = (Some (Inr d), []) \<and>
     ma_Name d = ''m1'' \<and> ma_FailureDomain d = ''fd'' \<and> mget (ma_Annotations d) RemediationForAnnotation = None"
proof -
  obtain d where d: "computeDesiredMachine E0 L0 kcp0 cluster0 ''fd'' (Some (machine0 ''m1'' (Some ''n1'') [])) [] = (Some (Inr d), [])"
    by (simp add: computeDesiredMachine_def machineIdentity_def go_runs Let_def)
  from desired_machine_update[OF d] have "ma_Name d = ''m1''" "ma_FailureDomain d = ''fd''"
    "mget (ma_Annotations d) RemediationForAnnotation = None"
    by (simp_all add: machine0_def ma_Name_def meta0_def ma_Annotations_def kcp0_def)
  with d show ?thesis by blast
qed

text \<open>A new machine has the version of the control plane, no references yet, the marshalled
  server configuration, and the data of the remediation in progress exactly when there is one
  (unless the template overrides these two annotations).\<close>

theorem desired_machine_create:
  assumes "computeDesiredMachine E L kcp cl fd None h = (Some (Inr d), h')"
  shows "ma_Version d = ps_Version (kp_Spec kcp) \<and> ma_InfrastructureRef d = None \<and> ma_ConfigRef d = None \<and>
    ma_Name d = e_name E h (om_Name (kp_Meta kcp) @ ''-'') \<and>
    (\<exists>sc. marshalServerConfig L (kc_ServerConfig (ps_KThreesConfigSpec (kp_Spec kcp))) = Inr sc \<and>
      (\<forall>k. mget (ma_Annotations d) k =
       (case mget (mt_Annotations (ps_MachineTemplate (kp_Spec kcp))) k of
          Some v \<Rightarrow> Some v
        | None \<Rightarrow> if k = RemediationForAnnotation then mget (kp_Annotations kcp) RemediationInProgressAnnotation
                  else if k = KThreesServerConfigurationAnnotation then Some sc else None)))"
  using assms
  by (auto simp: computeDesiredMachine_def machineIdentity_def Let_def go_runs ma_Name_def ma_Annotations_def optional_def
      map_add_def split: option.splits sum.splits)

theorem desired_machine_create_witness:
  "\<exists>d. computeDesiredMachine E0 L0 kcp0 cluster0 ''fd'' None [] = (Some (Inr d), []) \<and>
     ma_Version d = ''v1.30.0'' \<and> mget (ma_Annotations d) KThreesServerConfigurationAnnotation = Some ''cluster.local''"
proof -
  obtain d where d: "computeDesiredMachine E0 L0 kcp0 cluster0 ''fd'' None [] = (Some (Inr d), [])"
    by (simp add: computeDesiredMachine_def machineIdentity_def go_runs Let_def L0_def)
  from desired_machine_create[OF d] have "ma_Version d = ''v1.30.0''"
    "mget (ma_Annotations d) KThreesServerConfigurationAnnotation = Some ''cluster.local''"
    by (auto simp: kcp0_def config0_def server0_def L0_def)
  with d show ?thesis by blast
qed

end
