(* ===== verification/Certificates.thy ===== *)
theory Certificates
  imports ControlPlane
begin

text \<open>
  \<^verbatim>\<open>pkg/secret\<close>: the names of cluster secrets and the certificates of a cluster.
  A list of certificates is looked up in secrets, completed by generating the missing ones,
  and saved. The functions work on the certificates in place; here they return them. Keys and
  signatures come from the environment.
\<close>

section \<open>Secret names\<close>

definition KubeconfigDataName :: string where "KubeconfigDataName = ''value''"
definition TLSKeyDataName :: string where "TLSKeyDataName = ''tls.key''"
definition TLSCrtDataName :: string where "TLSCrtDataName = ''tls.crt''"
definition KubeconfigPurpose :: string where "KubeconfigPurpose = ''kubeconfig''"
definition ClusterCA :: string where "ClusterCA = ''ca''"
definition ClientClusterCA :: string where "ClientClusterCA = ''cca''"
definition EtcdCA :: string where "EtcdCA = ''etcd''"
definition ServiceAccount :: string where "ServiceAccount = ''sa''"
definition FrontProxyCA :: string where "FrontProxyCA = ''proxy''"
definition APIServerEtcdClient :: string where "APIServerEtcdClient = ''apiserver-etcd-client''"

definition allSecretPurposes :: "string list" where
  "allSecretPurposes = [KubeconfigPurpose, ClusterCA, EtcdCA, ServiceAccount, FrontProxyCA, APIServerEtcdClient]"

lemmas purpose_defs = KubeconfigPurpose_def ClusterCA_def ClientClusterCA_def EtcdCA_def ServiceAccount_def
  FrontProxyCA_def APIServerEtcdClient_def

definition ErrSecretInvalidSuffix :: goerr where
  "ErrSecretInvalidSuffix = Sentinel ''not a valid cluster secret name''"

definition SecretName :: "string \<Rightarrow> string \<Rightarrow> string" where
  "SecretName cluster suffix = cluster @ ''-'' @ suffix"

definition ParseSecretName :: "string \<Rightarrow> goerr + string \<times> string" where
  "ParseSecretName name =
     (let separatorPos = LastIndex name CHR ''-'' in
      if separatorPos = -1 then Inl (Wrap ''the purpose of the suffix is missing'' ErrSecretInvalidSuffix)
      else let clusterName = take (nat separatorPos) name; purposeSuffix = drop (nat separatorPos + 1) name in
        if purposeSuffix \<in> set allSecretPurposes then Inr (clusterName, purposeSuffix)
        else Inl (Wrap ''invalid purpose suffix'' ErrSecretInvalidSuffix))"

definition GetFromNamespacedName :: "env \<Rightarrow> ObjectKey \<Rightarrow> string \<Rightarrow> (call, goerr + Secret) go" where
  "GetFromNamespacedName E clusterName purpose =
     api E e_secret (GetSecret (fst clusterName, SecretName (snd clusterName) purpose))"

definition SecretGet :: "env \<Rightarrow> ObjectKey \<Rightarrow> string \<Rightarrow> (call, goerr + Secret) go" where
  "SecretGet E cluster purpose = GetFromNamespacedName E cluster purpose"

section \<open>Certificates\<close>

definition ErrMissingCertificate :: goerr where "ErrMissingCertificate = Sentinel ''missing certificate''"
definition ErrMissingCrt :: goerr where "ErrMissingCrt = Sentinel ''missing crt data''"
definition ErrMissingKey :: goerr where "ErrMissingKey = Sentinel ''missing key data''"
definition ErrMissingData :: goerr where "ErrMissingData = Sentinel ''missing data''"
definition rootOwnerValue :: string where "rootOwnerValue = ''root:root''"
definition DefaultCertificatesDir :: string where "DefaultCertificatesDir = ''/var/lib/rancher/k3s/server/tls''"
definition ClusterSecretType :: string where "ClusterSecretType = ''cluster.x-k8s.io/secret''"

record KeyPair =
  kp_Cert :: string
  kp_Key :: string

record Certificate =
  ct_Generated :: bool
  ct_External :: bool
  ct_Purpose :: string
  ct_KeyPair :: "KeyPair option"
  ct_CertFile :: string
  ct_KeyFile :: string

definition newCertificate :: "string \<Rightarrow> string \<Rightarrow> Certificate" where
  "newCertificate purpose file =
     \<lparr>ct_Generated = False, ct_External = False, ct_Purpose = purpose, ct_KeyPair = None,
      ct_CertFile = DefaultCertificatesDir @ ''/'' @ file @ ''.crt'',
      ct_KeyFile = DefaultCertificatesDir @ ''/'' @ file @ ''.key''\<rparr>"

definition NewCertificatesForInitialControlPlane :: "KThreesConfigSpec \<Rightarrow> Certificate list" where
  "NewCertificatesForInitialControlPlane config =
     [newCertificate ClusterCA ''server-ca'', newCertificate ClientClusterCA ''client-ca''] @
     (if IsEtcdEmbedded config then [newCertificate EtcdCA ''etcd/server-ca''] else [])"

definition GetByPurpose :: "Certificate list \<Rightarrow> string \<Rightarrow> Certificate option" where
  "GetByPurpose cs purpose = List.find (\<lambda>c. ct_Purpose c = purpose) cs"

definition secretToKeyPair :: "Secret \<Rightarrow> goerr + KeyPair" where
  "secretToKeyPair s =
     (case mget (s_Data s) TLSCrtDataName of
        None \<Rightarrow> Inl (Wrap (''key '' @ TLSCrtDataName) ErrMissingData)
      | Some c \<Rightarrow>
          Inr \<lparr>kp_Cert = c, kp_Key = (case mget (s_Data s) TLSKeyDataName of None \<Rightarrow> [] | Some k \<Rightarrow> k)\<rparr>)"

subsection \<open>Lookup\<close>

primrec Lookup :: "env \<Rightarrow> ObjectKey \<Rightarrow> Certificate list \<Rightarrow> (call, Certificate list \<times> goerr option) go" where
  "Lookup E clusterName [] = ret ([], None)"
| "Lookup E clusterName (certificate # cs) =
     bnd (api E e_secret (GetSecret (fst clusterName, SecretName (snd clusterName) (ct_Purpose certificate)))) (\<lambda>r. case r of
       Inl err \<Rightarrow>
         if IsNotFound err
         then if ct_External certificate
              then ret (certificate # cs, Some (Wrap ''external certificate not found'' err))
              else bnd (Lookup E clusterName cs) (\<lambda>(cs', e). ret (certificate # cs', e))
         else ret (certificate # cs, Some err)
     | Inr s \<Rightarrow>
        (case secretToKeyPair s of
           Inl err \<Rightarrow> ret (certificate # cs, Some err)
         | Inr kp \<Rightarrow> bnd (Lookup E clusterName cs) (\<lambda>(cs', e). ret (certificate\<lparr>ct_KeyPair := Some kp\<rparr> # cs', e))))"

primrec EnsureAllExist :: "Certificate list \<Rightarrow> goerr option" where
  "EnsureAllExist [] = None"
| "EnsureAllExist (certificate # cs) =
     (case ct_KeyPair certificate of
        None \<Rightarrow> Some ErrMissingCertificate
      | Some kp \<Rightarrow>
          if length (kp_Cert kp) = 0 then Some (Wrap (''for certificate '' @ ct_Purpose certificate) ErrMissingCrt)
          else if \<not> ct_External certificate \<and> length (kp_Key kp) = 0
          then Some (Wrap (''for certificate '' @ ct_Purpose certificate) ErrMissingKey)
          else EnsureAllExist cs)"

subsection \<open>Generation\<close>

text \<open>A certificate authority of the cluster: valid from five minutes before its creation, for
  ten years.\<close>

definition caTemplate :: "time \<Rightarrow> CertTemplate" where
  "caTemplate t =
     \<lparr>tp_SerialNumber = 0, tp_CommonName = ''kubernetes'', tp_Organization = [],
      tp_NotBefore = t + sint Minute * - 5, tp_NotAfter = t + sint Hour * 24 * 365 * 10,
      tp_KeyUsage = {KeyUsageKeyEncipherment, KeyUsageDigitalSignature, KeyUsageCertSign}, tp_ExtKeyUsage = [],
      tp_MaxPathLenZero = True, tp_BasicConstraintsValid = True, tp_MaxPathLen = 0, tp_IsCA = True\<rparr>"

definition newSelfSignedCACert :: "env \<Rightarrow> string \<Rightarrow> (call, goerr + string) go" where
  "newSelfSignedCACert E key =
     bnd (now E) (\<lambda>t.
     bnd (api E e_random (CreateCertificate (caTemplate t) SelfSigned key (Some key))) (\<lambda>r. case r of
       Inl err \<Rightarrow> ret (Inl (Wrap ''failed to create self signed CA certificate'' err))
     | Inr b \<Rightarrow> ret (e_ParseCertificate E b)))"

definition newCertificateAuthority :: "env \<Rightarrow> (call, goerr + string \<times> string) go" where
  "newCertificateAuthority E =
     bnd (api E e_random NewPrivateKey) (\<lambda>r. case r of
       Inl err \<Rightarrow> ret (Inl err)
     | Inr key \<Rightarrow>
     bnd (newSelfSignedCACert E key) (\<lambda>r. case r of
       Inl err \<Rightarrow> ret (Inl err)
     | Inr c \<Rightarrow> ret (Inr (c, key))))"

definition generateCACert :: "env \<Rightarrow> (call, goerr + KeyPair) go" where
  "generateCACert E =
     bnd (newCertificateAuthority E) (\<lambda>r. case r of
       Inl err \<Rightarrow> ret (Inl err)
     | Inr (x509Cert, privKey) \<Rightarrow> ret (Inr \<lparr>kp_Cert = x509Cert, kp_Key = privKey\<rparr>))"

definition generateServiceAccountKeys :: "env \<Rightarrow> (call, goerr + KeyPair) go" where
  "generateServiceAccountKeys E =
     bnd (api E e_random NewPrivateKey) (\<lambda>r. case r of
       Inl err \<Rightarrow> ret (Inl err)
     | Inr saCreds \<Rightarrow>
         ret (case e_EncodePublicKeyPEM E saCreds of
                Inl err \<Rightarrow> Inl err
              | Inr saPub \<Rightarrow> Inr \<lparr>kp_Cert = saPub, kp_Key = saCreds\<rparr>))"

definition Certificate_Generate :: "env \<Rightarrow> Certificate \<Rightarrow> (call, Certificate \<times> goerr option) go" where
  "Certificate_Generate E c =
     (if ct_Purpose c = APIServerEtcdClient then ret (c, None)
      else bnd (if ct_Purpose c = ServiceAccount then generateServiceAccountKeys E else generateCACert E) (\<lambda>r. case r of
        Inl err \<Rightarrow> ret (c, Some err)
      | Inr kp \<Rightarrow> ret (c\<lparr>ct_KeyPair := Some kp, ct_Generated := True\<rparr>, None)))"

primrec Generate :: "env \<Rightarrow> Certificate list \<Rightarrow> (call, Certificate list \<times> goerr option) go" where
  "Generate E [] = ret ([], None)"
| "Generate E (certificate # cs) =
     (if ct_KeyPair certificate = None
      then bnd (Certificate_Generate E certificate) (\<lambda>(certificate, e). case e of
        Some err \<Rightarrow> ret (certificate # cs, Some err)
      | None \<Rightarrow> bnd (Generate E cs) (\<lambda>(cs, e). ret (certificate # cs, e)))
      else bnd (Generate E cs) (\<lambda>(cs, e). ret (certificate # cs, e)))"

subsection \<open>Secrets and files\<close>

text \<open>\<open>None\<close>: the key pair is nil and is dereferenced.\<close>

definition AsSecret :: "Certificate \<Rightarrow> ObjectKey \<Rightarrow> OwnerReference \<Rightarrow> Secret option" where
  "AsSecret c clusterName owner =
     map_option (\<lambda>kp. \<lparr>s_Meta = emptyMeta\<lparr>om_Namespace := fst clusterName, om_Name := SecretName (snd clusterName) (ct_Purpose c),
          om_Labels := Some [ClusterNameLabel \<mapsto> snd clusterName],
          om_OwnerReferences := (if ct_Generated c then [owner] else [])\<rparr>,
        s_Data = Some [TLSKeyDataName \<mapsto> kp_Key kp, TLSCrtDataName \<mapsto> kp_Cert kp],
        s_Type = ClusterSecretType\<rparr>) (ct_KeyPair c)"

primrec SaveGenerated :: "env \<Rightarrow> ObjectKey \<Rightarrow> OwnerReference \<Rightarrow> Certificate list \<Rightarrow> (call, goerr option) go" where
  "SaveGenerated E clusterName owner [] = ret None"
| "SaveGenerated E clusterName owner (certificate # cs) =
     (if \<not> ct_Generated certificate then SaveGenerated E clusterName owner cs
      else bnd (deref (AsSecret certificate clusterName owner)) (\<lambda>s.
        bnd (do_write E (CreateSecret s)) (\<lambda>e. case e of
          Some err \<Rightarrow> ret (Some err)
        | None \<Rightarrow> SaveGenerated E clusterName owner cs)))"

definition LookupOrGenerate ::
  "env \<Rightarrow> ObjectKey \<Rightarrow> OwnerReference \<Rightarrow> Certificate list \<Rightarrow> (call, Certificate list \<times> goerr option) go" where
  "LookupOrGenerate E clusterName owner cs =
     bnd (Lookup E clusterName cs) (\<lambda>(cs, e). case e of Some err \<Rightarrow> ret (cs, Some err) | None \<Rightarrow>
     bnd (Generate E cs) (\<lambda>(cs, e). case e of Some err \<Rightarrow> ret (cs, Some err) | None \<Rightarrow>
     bnd (SaveGenerated E clusterName owner cs) (\<lambda>e. ret (cs, e))))"

definition certFile :: "string \<Rightarrow> string \<Rightarrow> string \<Rightarrow> File" where
  "certFile path permissions content =
     \<lparr>f_Path = path, f_Owner = rootOwnerValue, f_Permissions = permissions, f_Encoding = [], f_Content = content,
      f_ContentFrom = None\<rparr>"

definition Certificate_AsFiles :: "Certificate \<Rightarrow> File list option" where
  "Certificate_AsFiles c =
     map_option (\<lambda>kp.
       (if length (kp_Cert kp) > 0 then [certFile (ct_CertFile c) ''0640'' (kp_Cert kp)] else []) @
       (if length (kp_Key kp) > 0 then [certFile (ct_KeyFile c) ''0600'' (kp_Key kp)] else []))
     (ct_KeyPair c)"

text \<open>The files of the certificates of the given purposes, in that order.\<close>

primrec filesOf :: "Certificate list \<Rightarrow> string list \<Rightarrow> File list option" where
  "filesOf cs [] = Some []"
| "filesOf cs (p # ps) =
     (case GetByPurpose cs p of
        None \<Rightarrow> filesOf cs ps
      | Some c \<Rightarrow>
         (case Certificate_AsFiles c of None \<Rightarrow> None
          | Some fs \<Rightarrow> map_option (\<lambda>rest. fs @ rest) (filesOf cs ps)))"

definition AsFiles :: "Certificate list \<Rightarrow> File list option" where
  "AsFiles cs = filesOf cs [ClusterCA, ClientClusterCA, EtcdCA, APIServerEtcdClient]"

text \<open>The hashes of the certificates of a bundle; parsing, the subject public key and SHA-256 are
  the library's. \<open>None\<close>: the key pair is nil.\<close>

record hashLib =
  ParseCertsPEM :: "string \<Rightarrow> goerr + string list"
  RawSubjectPublicKeyInfo :: "string \<Rightarrow> string"
  Sum256 :: "string \<Rightarrow> string"

definition hashCert :: "hashLib \<Rightarrow> string \<Rightarrow> string" where
  "hashCert H certificate = ''sha256:'' @ EncodeToString (Sum256 H (RawSubjectPublicKeyInfo H certificate))"

definition Hashes :: "hashLib \<Rightarrow> Certificate \<Rightarrow> (goerr + string list) option" where
  "Hashes H c =
     map_option (\<lambda>kp. case ParseCertsPEM H (kp_Cert kp) of
         Inl err \<Rightarrow> Inl (Wrap (''unable to parse '' @ ct_Purpose c @ '' certificate'') err)
       | Inr certificates \<Rightarrow> Inr (map (hashCert H) certificates)) (ct_KeyPair c)"

section \<open>Properties\<close>

subsection \<open>Names\<close>

lemma SecretName_suffix:
  assumes "CHR ''-'' \<notin> set p"
  shows "ParseSecretName (SecretName c p) =
     (if p \<in> set allSecretPurposes then Inr (c, p) else Inl (Wrap ''invalid purpose suffix'' ErrSecretInvalidSuffix))"
  using LastIndex_last[OF assms, of c] by (simp add: ParseSecretName_def SecretName_def Let_def)

lemma SecretName_etcd_client: "\<exists>err. ParseSecretName (SecretName c APIServerEtcdClient) = Inl err"
proof -
  have n: "SecretName c APIServerEtcdClient = (c @ ''-apiserver-etcd'') @ CHR ''-'' # ''client''"
    by (simp add: SecretName_def purpose_defs)
  have i: "LastIndex (SecretName c APIServerEtcdClient) CHR ''-'' = int (length (c @ ''-apiserver-etcd''))"
    unfolding n by (rule LastIndex_last) simp
  have "nat (int (length (c @ ''-apiserver-etcd'')) + 1) = Suc (length (c @ ''-apiserver-etcd''))" by simp
  then have "drop (nat (LastIndex (SecretName c APIServerEtcdClient) CHR ''-'') + 1) (SecretName c APIServerEtcdClient) = ''client''"
    unfolding i unfolding n by (simp only: nat_int) simp
  moreover have "''client'' \<notin> set allSecretPurposes" by (simp add: allSecretPurposes_def purpose_defs)
  ultimately show ?thesis unfolding ParseSecretName_def Let_def by (simp split: if_split)
qed

subsection \<open>Lookup, generation, saving\<close>

lemma Lookup_emits [THEN emits_mono, go_intros]: "emits reads (Lookup E k cs)"
  by (induction cs) (auto intro!: go_intros)

lemmas generate_defs = generateCACert_def generateServiceAccountKeys_def newCertificateAuthority_def newSelfSignedCACert_def

lemma Certificate_Generate_emits [THEN emits_mono, go_intros]: "emits reads (Certificate_Generate E c)"
  unfolding Certificate_Generate_def generate_defs by (intro go_intros) simp_all

lemma Generate_emits [THEN emits_mono, go_intros]: "emits reads (Generate E cs)"
  by (induction cs) (auto intro!: go_intros)

text \<open>The lookup of a secret was answered with not found.\<close>

definition notFound :: "env \<Rightarrow> ObjectKey \<Rightarrow> call list \<Rightarrow> bool" where
  "notFound E key h \<longleftrightarrow>
     (\<exists>g t err. h = g @ GetSecret key # t \<and> e_secret E g (GetSecret key) = Inl err \<and> IsNotFound err)"

lemma notFound_append: "notFound E key h \<Longrightarrow> notFound E key (h @ cs)"
  unfolding notFound_def by (metis append.assoc append_Cons)

definition certKey :: "ObjectKey \<Rightarrow> Certificate \<Rightarrow> ObjectKey" where
  "certKey clusterName c = (fst clusterName, SecretName (snd clusterName) (ct_Purpose c))"

text \<open>After a lookup without error, a certificate without key pair is one without secret.\<close>

lemma Lookup_missing:
  assumes "Lookup E k cs h = (Some (cs', None), h')" "\<forall>c\<in>set cs. \<not> ct_Generated c"
  shows "map ct_Purpose cs' = map ct_Purpose cs \<and> (\<forall>c\<in>set cs'. \<not> ct_Generated c) \<and>
     (\<forall>c\<in>set cs'. ct_KeyPair c = None \<longrightarrow> notFound E (certKey k c) h')"
  using assms
proof (induction cs arbitrary: cs' h)
  case Nil
  then show ?case by (simp add: go_runs)
next
  case (Cons c cs)
  let ?g = "GetSecret (certKey k c)"
  have ext: "\<exists>t. h' = (h @ [?g]) @ t" if "Lookup E k cs (h @ [?g]) = (Some (x, e), h')" for x e
    using emitsE[OF Lookup_emits[of UNIV E k cs] that] by auto
  show ?case
  proof (cases "e_secret E h ?g")
    case (Inl err)
    with Cons.prems(1) obtain cs1 where run: "Lookup E k cs (h @ [?g]) = (Some (cs1, None), h')" "cs' = c # cs1" "IsNotFound err"
      by (auto simp: go_runs certKey_def split: if_splits prod.splits option.splits)
    from Inl run(3) have "notFound E (certKey k c) (h @ [?g])" unfolding notFound_def by blast
    moreover obtain t where "h' = (h @ [?g]) @ t" using ext[OF run(1)] by blast
    ultimately have "notFound E (certKey k c) h'" using notFound_append by blast
    with Cons.IH[OF run(1)] Cons.prems(2) run(2) show ?thesis by auto
  next
    case (Inr s)
    with Cons.prems(1) obtain cs1 kp where "Lookup E k cs (h @ [?g]) = (Some (cs1, None), h')" "cs' = c\<lparr>ct_KeyPair := Some kp\<rparr> # cs1"
      by (auto simp: go_runs certKey_def split: sum.splits prod.splits option.splits)
    with Cons.IH Cons.prems(2) show ?thesis by auto
  qed
qed

text \<open>A certificate after the generation: it was there before, or it was missing.\<close>

definition completed :: "Certificate list \<Rightarrow> Certificate \<Rightarrow> bool" where
  "completed cs c' \<longleftrightarrow>
     (ct_Purpose c' \<noteq> APIServerEtcdClient \<longrightarrow> ct_KeyPair c' \<noteq> None) \<and>
     (if ct_Generated c' then ct_KeyPair c' \<noteq> None \<and> (\<exists>c\<in>set cs. ct_Purpose c = ct_Purpose c' \<and> ct_KeyPair c = None)
      else c' \<in> set cs)"

lemma completed_key: "completed cs c \<Longrightarrow> ct_Generated c \<Longrightarrow> ct_KeyPair c \<noteq> None"
  by (simp add: completed_def)

lemma completed_Cons: "completed cs c' \<Longrightarrow> completed (c # cs) c'"
  by (auto simp: completed_def split: if_splits)

lemma Certificate_Generate_completed:
  assumes "Certificate_Generate E c h = (Some (c', None), h')" "\<not> ct_Generated c" "ct_KeyPair c = None"
  shows "ct_Purpose c' = ct_Purpose c \<and> completed (c # cs) c'"
proof (cases "ct_Purpose c = APIServerEtcdClient")
  case True
  with assms show ?thesis by (simp add: Certificate_Generate_def completed_def go_runs)
next
  case False
  with assms have "\<exists>kp. c' = c\<lparr>ct_KeyPair := Some kp, ct_Generated := True\<rparr>"
    by (auto simp: Certificate_Generate_def ret_def elim!: bnd_SomeE split: if_splits sum.splits)
  with assms show ?thesis by (auto simp: completed_def)
qed

lemma Generate_run:
  assumes "Generate E cs h = (Some (cs', None), h')" "\<forall>c\<in>set cs. \<not> ct_Generated c"
  shows "map ct_Purpose cs' = map ct_Purpose cs \<and> (\<forall>c'\<in>set cs'. completed cs c')"
  using assms
proof (induction cs arbitrary: cs' h)
  case Nil
  then show ?case by (simp add: go_runs)
next
  case (Cons c cs)
  have gen: "\<not> ct_Generated c" and rest: "\<forall>c\<in>set cs. \<not> ct_Generated c" using Cons.prems(2) by auto
  show ?case
  proof (cases "ct_KeyPair c = None")
    case True
    with Cons.prems(1) obtain x h1 where x: "Certificate_Generate E c h = (Some x, h1)"
      and y: "(case x of (certificate, e) \<Rightarrow> case e of
        Some err \<Rightarrow> ret (certificate # cs, Some err)
      | None \<Rightarrow> bnd (Generate E cs) (\<lambda>(cs, e). ret (certificate # cs, e))) h1 = (Some (cs', None), h')"
      by (auto elim: bnd_SomeE)
    obtain c1 e where xe: "x = (c1, e)" by fastforce
    with y have e: "e = None" by (cases e) (auto simp: ret_def)
    with y xe obtain z where z: "Generate E cs h1 = (Some z, h')" "(fst z, snd z) = z" "cs' = c1 # fst z" "snd z = None"
      by (auto elim!: bnd_SomeE simp: ret_def split: prod.splits)
    then have z1: "Generate E cs h1 = (Some (fst z, None), h')" by (metis)
    have c1: "ct_Purpose c1 = ct_Purpose c \<and> completed (c # cs) c1"
      using x xe e gen True by (intro Certificate_Generate_completed) simp_all
    show ?thesis using Cons.IH[OF z1 rest] c1 z(3) by (simp add: completed_Cons)
  next
    case False
    with Cons.prems(1) obtain z where z: "Generate E cs h = (Some z, h')" "cs' = c # fst z" "snd z = None"
      by (auto elim!: bnd_SomeE simp: ret_def split: prod.splits)
    then have z1: "Generate E cs h = (Some (fst z, None), h')" by (metis prod.collapse)
    have "completed (c # cs) c" using False gen by (simp add: completed_def)
    with Cons.IH[OF z1 rest] z(2) show ?thesis by (simp add: completed_Cons)
  qed
qed

lemma SaveGenerated_emits:
  "emits {CreateSecret s | s c. c \<in> set cs \<and> ct_Generated c \<and> AsSecret c k owner = Some s} (SaveGenerated E k owner cs)"
proof (induction cs)
  case (Cons c cs)
  let ?S = "{CreateSecret s | s c'. c' \<in> set (c # cs) \<and> ct_Generated c' \<and> AsSecret c' k owner = Some s}"
  have tl: "emits ?S (SaveGenerated E k owner cs)" by (rule emits_mono[OF Cons]) auto
  show ?case
  proof (cases "AsSecret c k owner")
    case None
    then show ?thesis using tl by (auto intro!: go_intros simp del: mem_Collect_eq)
  next
    case (Some s)
    then have "\<not> ct_Generated c \<or> CreateSecret s \<in> ?S" by auto
    with Some tl show ?thesis by (auto intro!: go_intros simp del: mem_Collect_eq)
  qed
qed (simp add: go_intros)

lemma LookupOrGenerate_emits:
  "emits (reads \<union> range CreateSecret) (LookupOrGenerate E k owner cs)"
  unfolding LookupOrGenerate_def
  by (intro go_intros emits_mono[OF SaveGenerated_emits]) auto

lemma AsSecret_name: "AsSecret c k owner = Some s \<Longrightarrow> (om_Namespace (s_Meta s), om_Name (s_Meta s)) = certKey k c"
  by (auto simp: AsSecret_def certKey_def)

lemma LookupOrGenerate_creates:
  assumes run: "LookupOrGenerate E k owner cs h = (r, h')" and fresh: "\<forall>c\<in>set cs. \<not> ct_Generated c"
    and s: "CreateSecret s \<in> set (drop (length h) h')"
  shows "\<exists>g t. h' = g @ t \<and> CreateSecret s \<in> set t \<and> notFound E (om_Namespace (s_Meta s), om_Name (s_Meta s)) g"
proof -
  obtain o1 h1 where l: "Lookup E k cs h = (o1, h1)" by fastforce
  obtain t1 where t1: "h1 = h @ t1" "set t1 \<subseteq> reads" using emitsE[OF Lookup_emits[OF order_refl] l] by blast
  have no: "CreateSecret s \<notin> set t1" using t1(2) by (auto simp: is_read_def)
  consider (stop) "h' = h1" | cs1 where "o1 = Some (cs1, None)"
    using run l by (cases o1) (auto simp: LookupOrGenerate_def bnd_run ret_def split: option.splits)
  then show ?thesis
  proof cases
    case stop
    with s no t1 show ?thesis by simp
  next
    case 2
    obtain o2 h2 where g: "Generate E cs1 h1 = (o2, h2)" by fastforce
    obtain t2 where t2: "h2 = h1 @ t2" "set t2 \<subseteq> reads" using emitsE[OF Generate_emits[OF order_refl] g] by blast
    have no2: "CreateSecret s \<notin> set t2" using t2(2) by (auto simp: is_read_def)
    consider (stop) "h' = h2" | cs2 where "o2 = Some (cs2, None)"
      using run l 2 g by (cases o2) (auto simp: LookupOrGenerate_def bnd_run ret_def split: option.splits)
    then show ?thesis
    proof cases
      case stop
      with s no no2 t1 t2 show ?thesis by simp
    next
      case (2 cs2)
      with g have g2: "Generate E cs1 h1 = (Some (cs2, None), h2)" by simp
      have l2: "Lookup E k cs h = (Some (cs1, None), h1)" using l \<open>o1 = Some (cs1, None)\<close> by simp
      obtain o3 where sv: "SaveGenerated E k owner cs2 h2 = (o3, h')"
        using run l2 g2 by (auto simp: LookupOrGenerate_def bnd_run ret_def split: prod.splits option.splits)
      obtain t where t: "h' = h2 @ t" "set t \<subseteq> {CreateSecret s | s c. c \<in> set cs2 \<and> ct_Generated c \<and> AsSecret c k owner = Some s}"
        using emitsE[OF SaveGenerated_emits sv] by blast
      have st: "CreateSecret s \<in> set t" using s no no2 t(1) t1(1) t2(1) by auto
      then obtain c where c: "c \<in> set cs2" "ct_Generated c" "AsSecret c k owner = Some s" using t(2) by auto
      note lm = Lookup_missing[OF l2 fresh]
      obtain c1 where "c1 \<in> set cs1" "ct_Purpose c1 = ct_Purpose c" "ct_KeyPair c1 = None"
      proof -
        have "completed cs1 c" using Generate_run[OF g2] lm c(1) by blast
        with c(2) show ?thesis using that by (auto simp: completed_def)
      qed
      then have "notFound E (certKey k c) h2" using lm notFound_append t2(1) by (auto simp: certKey_def)
      then show ?thesis using t(1) st AsSecret_name[OF c(3)] by metis
    qed
  qed
qed

lemma LookupOrGenerate_complete:
  assumes run: "LookupOrGenerate E k owner cs h = (Some (cs', None), h')" and fresh: "\<forall>c\<in>set cs. \<not> ct_Generated c"
  shows "map ct_Purpose cs' = map ct_Purpose cs"
    "c \<in> set cs' \<Longrightarrow> ct_Purpose c \<noteq> APIServerEtcdClient \<Longrightarrow> ct_KeyPair c \<noteq> None"
proof -
  from run obtain x h1 where l: "Lookup E k cs h = (Some x, h1)" and r1: "(case x of (cs, e) \<Rightarrow> case e of Some err \<Rightarrow> ret (cs, Some err) | None \<Rightarrow>
     bnd (Generate E cs) (\<lambda>(cs, e). case e of Some err \<Rightarrow> ret (cs, Some err) | None \<Rightarrow>
     bnd (SaveGenerated E k owner cs) (\<lambda>e. ret (cs, e)))) h1 = (Some (cs', None), h')"
    unfolding LookupOrGenerate_def by (elim bnd_SomeE)
  obtain cs1 e1 where x: "x = (cs1, e1)" by fastforce
  with r1 have e1: "e1 = None" by (cases e1) (auto simp: ret_def)
  with r1 x obtain y h2 where g: "Generate E cs1 h1 = (Some y, h2)" and r2: "(case y of (cs, e) \<Rightarrow> case e of Some err \<Rightarrow> ret (cs, Some err) | None \<Rightarrow>
     bnd (SaveGenerated E k owner cs) (\<lambda>e. ret (cs, e))) h2 = (Some (cs', None), h')"
    by (auto elim: bnd_SomeE)
  obtain cs2 e2 where y: "y = (cs2, e2)" by fastforce
  with r2 have e2: "e2 = None" by (cases e2) (auto simp: ret_def)
  with r2 y have out: "cs' = cs2" by (auto elim!: bnd_SomeE simp: ret_def)
  note lm = Lookup_missing[OF l[unfolded x e1] fresh]
  with Generate_run[OF g[unfolded y e2]] out show "map ct_Purpose cs' = map ct_Purpose cs"
    "c \<in> set cs' \<Longrightarrow> ct_Purpose c \<noteq> APIServerEtcdClient \<Longrightarrow> ct_KeyPair c \<noteq> None" by (auto simp: completed_def)
qed

subsection \<open>Files\<close>

text \<open>What a certificate is for and where its files go: looking it up or generating it never
  changes that.\<close>

definition certPlace :: "Certificate \<Rightarrow> string \<times> string \<times> string" where
  "certPlace c = (ct_Purpose c, ct_CertFile c, ct_KeyFile c)"

lemma certPlace_update [simp]:
  "certPlace (c\<lparr>ct_KeyPair := kp\<rparr>) = certPlace c" "certPlace (c\<lparr>ct_KeyPair := kp, ct_Generated := g\<rparr>) = certPlace c"
  by (simp_all add: certPlace_def)

lemma Lookup_certPlace: "Lookup E k cs h = (Some (cs', e), h') \<Longrightarrow> map certPlace cs' = map certPlace cs"
proof (induction cs arbitrary: cs' h e)
  case (Cons c cs)
  let ?g = "GetSecret (certKey k c)"
  show ?case
  proof (cases "e_secret E h ?g")
    case (Inl err)
    with Cons show ?thesis
      by (auto simp: go_runs certKey_def split: if_splits prod.splits option.splits)
  next
    case (Inr s)
    with Cons show ?thesis
      by (auto simp: go_runs certKey_def split: sum.splits prod.splits option.splits)
  qed
qed (simp add: go_runs)

lemma Certificate_Generate_certPlace:
  "Certificate_Generate E c h = (Some (c', e), h') \<Longrightarrow> certPlace c' = certPlace c"
  by (auto simp: Certificate_Generate_def ret_def elim!: bnd_SomeE split: if_splits sum.splits)

lemma Generate_certPlace: "Generate E cs h = (Some (cs', e), h') \<Longrightarrow> map certPlace cs' = map certPlace cs"
proof (induction cs arbitrary: cs' h e)
  case (Cons c cs)
  show ?case
  proof (cases "ct_KeyPair c = None")
    case True
    with Cons.prems obtain c1 e1 h1 where x: "Certificate_Generate E c h = (Some (c1, e1), h1)"
      and y: "(case e1 of Some err \<Rightarrow> ret (c1 # cs, Some err)
        | None \<Rightarrow> bnd (Generate E cs) (\<lambda>(cs, e). ret (c1 # cs, e))) h1 = (Some (cs', e), h')"
      by (auto elim!: bnd_SomeE split: prod.splits)
    from y Certificate_Generate_certPlace[OF x] Cons.IH show ?thesis
      by (cases e1) (auto elim!: bnd_SomeE simp: ret_def split: prod.splits)
  next
    case False
    with Cons show ?thesis by (auto elim!: bnd_SomeE simp: ret_def split: prod.splits)
  qed
qed (simp add: go_runs)

lemma LookupOrGenerate_certPlace:
  assumes "LookupOrGenerate E k owner cs h = (Some (cs', e), h')"
  shows "map certPlace cs' = map certPlace cs"
proof -
  from assms obtain cs1 e1 h1 where l: "Lookup E k cs h = (Some (cs1, e1), h1)"
    and r: "e1 = None \<and> bnd (Generate E cs1) (\<lambda>(cs, e). case e of Some err \<Rightarrow> ret (cs, Some err) | None \<Rightarrow>
       bnd (SaveGenerated E k owner cs) (\<lambda>e. ret (cs, e))) h1 = (Some (cs', e), h') \<or> cs' = cs1"
    unfolding LookupOrGenerate_def by (elim bnd_SomeE) (auto simp: ret_def split: option.splits)
  have "map certPlace cs' = map certPlace cs1"
    using r by (auto elim!: bnd_SomeE simp: ret_def split: prod.splits option.splits dest: Generate_certPlace)
  with Lookup_certPlace[OF l] show ?thesis by simp
qed

lemma filesOf_total: "\<forall>c\<in>set cs. ct_KeyPair c \<noteq> None \<Longrightarrow> filesOf cs ps \<noteq> None"
proof (induction ps)
  case (Cons p ps)
  have "Certificate_AsFiles c \<noteq> None" if "GetByPurpose cs p = Some c" for c
    using that Cons.prems by (auto simp: GetByPurpose_def Certificate_AsFiles_def find_Some_iff)
  with Cons show ?case by (auto split: option.split)
qed simp

subsection \<open>No panics\<close>

lemma Lookup_nopanic [go_intros]: "nopanic (Lookup E k cs)"
  by (induction cs) (auto intro!: go_intros)

lemma Certificate_Generate_nopanic [go_intros]: "nopanic (Certificate_Generate E c)"
  unfolding Certificate_Generate_def generate_defs by (intro go_intros)

lemma Generate_nopanic [go_intros]: "nopanic (Generate E cs)"
  by (induction cs) (auto intro!: go_intros)

lemma SaveGenerated_nopanic: "\<forall>c\<in>set cs. ct_Generated c \<longrightarrow> ct_KeyPair c \<noteq> None \<Longrightarrow> nopanic (SaveGenerated E k owner cs)"
  by (induction cs) (auto simp: AsSecret_def intro!: go_intros)

lemma LookupOrGenerate_nopanic:
  assumes "\<forall>c\<in>set cs. \<not> ct_Generated c"
  shows "nopanic (LookupOrGenerate E k owner cs)"
  unfolding LookupOrGenerate_def
proof (rule nopanic_bnd[OF Lookup_nopanic, where R = "\<lambda>(cs, e). e = None \<longrightarrow> (\<forall>c\<in>set cs. \<not> ct_Generated c)"])
  show "returns (Lookup E k cs) (\<lambda>(cs, e). e = None \<longrightarrow> (\<forall>c\<in>set cs. \<not> ct_Generated c))"
  proof (rule returnsI)
    fix g x g' assume run: "Lookup E k cs g = (Some x, g')"
    show "case x of (cs, e) \<Rightarrow> e = None \<longrightarrow> (\<forall>c\<in>set cs. \<not> ct_Generated c)"
    proof (cases x)
      case (Pair cs1 e)
      with run Lookup_missing[OF _ assms, of E k g cs1 g'] show ?thesis by simp
    qed
  qed
  fix x :: "Certificate list \<times> goerr option"
  assume x: "case x of (cs, e) \<Rightarrow> e = None \<longrightarrow> (\<forall>c\<in>set cs. \<not> ct_Generated c)"
  have save: "nopanic (bnd (Generate E cs1) (\<lambda>(cs, e). case e of Some err \<Rightarrow> ret (cs, Some err) | None \<Rightarrow>
     bnd (SaveGenerated E k owner cs) (\<lambda>e. ret (cs, e))))" if "\<forall>c\<in>set cs1. \<not> ct_Generated c" for cs1
  proof (rule nopanic_bnd[OF Generate_nopanic, where R = "\<lambda>(cs, e). e = None \<longrightarrow> (\<forall>c\<in>set cs. ct_Generated c \<longrightarrow> ct_KeyPair c \<noteq> None)"])
    show "returns (Generate E cs1) (\<lambda>(cs, e). e = None \<longrightarrow> (\<forall>c\<in>set cs. ct_Generated c \<longrightarrow> ct_KeyPair c \<noteq> None))"
    proof (rule returnsI)
      fix g x g' assume run: "Generate E cs1 g = (Some x, g')"
      show "case x of (cs, e) \<Rightarrow> e = None \<longrightarrow> (\<forall>c\<in>set cs. ct_Generated c \<longrightarrow> ct_KeyPair c \<noteq> None)"
      proof (cases x)
        case (Pair cs2 e)
        show ?thesis
        proof (cases e)
          case None
          with run Pair Generate_run[OF _ that, of E g cs2 g'] have "\<forall>c\<in>set cs2. completed cs1 c" by simp
          with Pair completed_key show ?thesis by blast
        qed (simp add: Pair)
      qed
    qed
  qed (auto intro!: go_intros SaveGenerated_nopanic)
  obtain cs1 e where x1: "x = (cs1, e)" by fastforce
  show "nopanic (case x of (cs, e) \<Rightarrow> case e of Some err \<Rightarrow> ret (cs, Some err) | None \<Rightarrow>
     bnd (Generate E cs) (\<lambda>(cs, e). case e of Some err \<Rightarrow> ret (cs, Some err) | None \<Rightarrow>
     bnd (SaveGenerated E k owner cs) (\<lambda>e. ret (cs, e))))"
  proof (cases e)
    case None
    with x x1 save[of cs1] show ?thesis by simp
  qed (simp add: x1 nopanic_intros)
qed

lemma NewCertificates_fresh:
  "\<forall>c\<in>set (NewCertificatesForInitialControlPlane config). \<not> ct_Generated c \<and> ct_Purpose c \<noteq> APIServerEtcdClient"
  by (auto simp: NewCertificatesForInitialControlPlane_def newCertificate_def purpose_defs)

text \<open>The certificates of a control plane always have files once they were looked up or
  generated.\<close>

lemma control_plane_files:
  assumes "LookupOrGenerate E k owner (NewCertificatesForInitialControlPlane config) h = (Some (cs, None), h')"
  shows "AsFiles cs \<noteq> None"
proof -
  have fresh: "\<forall>c\<in>set (NewCertificatesForInitialControlPlane config). \<not> ct_Generated c" using NewCertificates_fresh by blast
  note compl = LookupOrGenerate_complete[OF assms fresh]
  have "ct_Purpose ` set cs = ct_Purpose ` set (NewCertificatesForInitialControlPlane config)"
    using compl(1) by (metis set_map)
  then have "ct_Purpose c \<noteq> APIServerEtcdClient" if "c \<in> set cs" for c
    using that NewCertificates_fresh by (metis image_iff)
  with compl(2) have "\<forall>c\<in>set cs. ct_KeyPair c \<noteq> None" by blast
  then show ?thesis unfolding AsFiles_def by (rule filesOf_total)
qed

end
