(* ===== verification/Token.thy ===== *)
theory Token
  imports Certificates
begin

text \<open>
  \<^verbatim>\<open>pkg/token\<close>: the join token of a cluster, a random string in a secret. \<open>Reconcile\<close>
  creates the secret or makes the control plane its controller.
\<close>

section \<open>The token secret\<close>

definition tokenSecretName :: "string \<Rightarrow> string" where
  "tokenSecretName clusterName = clusterName @ ''-token''"

definition getSecret :: "env \<Rightarrow> ObjectKey \<Rightarrow> (call, goerr + Secret) go" where
  "getSecret E clusterKey = api E e_secret (GetSecret (fst clusterKey, tokenSecretName (snd clusterKey)))"

definition token_Lookup :: "env \<Rightarrow> ObjectKey \<Rightarrow> (call, goerr + string) go" where
  "token_Lookup E clusterKey =
     bnd (getSecret E clusterKey) (\<lambda>r. case r of
       Inl err \<Rightarrow> ret (Inl (Msg ''failed to lookup token''))
     | Inr s \<Rightarrow>
        (case mget (s_Data s) ''value'' of
           Some val \<Rightarrow> ret (Inr val)
         | None \<Rightarrow> ret (Inl (Msg ''found token secret without value''))))"

text \<open>The random bytes: a buffer of the given size filled by the environment.\<close>

definition fillBuffer :: "nat \<Rightarrow> string \<Rightarrow> string" where
  "fillBuffer n bytes = take n bytes @ replicate (n - length bytes) (char_of (0::nat))"

definition randomB64 :: "env \<Rightarrow> nat \<Rightarrow> (call, goerr + string) go" where
  "randomB64 E n =
     bnd (api E e_random (RandomBytes n)) (\<lambda>r. case r of
       Inl err \<Rightarrow> ret (Inl err)
     | Inr bytes \<Rightarrow> ret (Inr (EncodeToString (fillBuffer n bytes))))"

section \<open>Ownership\<close>

definition isController :: "OwnerReference \<Rightarrow> bool" where
  "isController r = (case or_Controller r of None \<Rightarrow> False | Some b \<Rightarrow> b)"

text \<open>The loop of \<open>upsertControllerRef\<close>, with the references collected so far.\<close>

fun upsertLoop :: "OwnerReference \<Rightarrow> OwnerReference list \<Rightarrow> OwnerReference list \<Rightarrow> bool \<Rightarrow> OwnerReference list \<times> bool" where
  "upsertLoop new [] updated controllerRefUpdated = (updated, controllerRefUpdated)"
| "upsertLoop new (ownerRef # refs) updated controllerRefUpdated =
     (if isController ownerRef then upsertLoop new refs (updated @ [new]) True
      else upsertLoop new refs (updated @ [ownerRef]) controllerRefUpdated)"

definition upsertControllerRef :: "OwnerReference \<Rightarrow> ObjectMeta \<Rightarrow> ObjectMeta" where
  "upsertControllerRef newControllerRef controllee =
     (let (updated, controllerRefUpdated) = upsertLoop newControllerRef (om_OwnerReferences controllee) [] False
      in controllee\<lparr>om_OwnerReferences := (if controllerRefUpdated then updated else updated @ [newControllerRef])\<rparr>)"

text \<open>The owner: its metadata and the kind in its type information.
  \<^verbatim>\<open>controllerutil.SetControllerReference\<close> is a parameter; its error is ignored and leaves
  the secret as it is.\<close>

record tokenLib =
  SetControllerReference :: "ObjectMeta \<Rightarrow> ObjectMeta \<Rightarrow> goerr + ObjectMeta"

definition generateAndStore :: "env \<Rightarrow> tokenLib \<Rightarrow> ObjectKey \<Rightarrow> ObjectMeta \<Rightarrow> (call, goerr + string) go" where
  "generateAndStore E T clusterKey owner =
     bnd (randomB64 E 16) (\<lambda>r. case r of
       Inl err \<Rightarrow> ret (Inl (Msg ''failed to generate token''))
     | Inr tokn \<Rightarrow>
        (let meta = emptyMeta\<lparr>om_Name := tokenSecretName (snd clusterKey), om_Namespace := fst clusterKey,
               om_Labels := Some [ClusterNameLabel \<mapsto> snd clusterKey]\<rparr>;
             meta = (case SetControllerReference T owner meta of Inl _ \<Rightarrow> meta | Inr m \<Rightarrow> m);
             secret = \<lparr>s_Meta = meta, s_Data = Some [''value'' \<mapsto> tokn], s_Type = ClusterSecretType\<rparr>
         in bnd (do_write E (CreateSecret secret)) (\<lambda>e. case e of
              Some err \<Rightarrow> ret (Inl (Msg ''failed to store token''))
            | None \<Rightarrow> ret (Inr tokn))))"

text \<open>After an error other than not found the secret is nil, and it is dereferenced.\<close>

definition token_Reconcile :: "env \<Rightarrow> lib \<Rightarrow> tokenLib \<Rightarrow> ObjectKey \<Rightarrow> ObjectMeta \<Rightarrow> string \<Rightarrow> (call, goerr option) go" where
  "token_Reconcile E L T clusterKey owner kind =
     bnd (getSecret E clusterKey) (\<lambda>r.
       case (case r of Inl err \<Rightarrow> IsNotFound err | Inr _ \<Rightarrow> False) of
         True \<Rightarrow> bnd (generateAndStore E T clusterKey owner) (\<lambda>r. ret (case r of Inl err \<Rightarrow> Some err | Inr _ \<Rightarrow> None))
       | False \<Rightarrow>
           bnd (deref (case r of Inl _ \<Rightarrow> None | Inr s \<Rightarrow> Some s)) (\<lambda>s.
             if \<not> IsControlledBy L (om_OwnerReferences (s_Meta s)) owner
             then bnd (do_write E (UpdateSecret (s\<lparr>s_Meta := upsertControllerRef (NewControllerRef L owner kind) (s_Meta s)\<rparr>)))
                    (\<lambda>e. ret (map_option (\<lambda>_. Msg ''failed to update ownership of token'') e))
             else ret None))"

section \<open>Properties\<close>

lemma upsertLoop_result:
  "upsertLoop new refs acc b =
     (acc @ map (\<lambda>r. if isController r then new else r) refs, b \<or> (\<exists>r\<in>set refs. isController r))"
  by (induction refs arbitrary: acc b) auto

lemma upsertControllerRef_refs:
  "om_OwnerReferences (upsertControllerRef new m) =
     map (\<lambda>r. if isController r then new else r) (om_OwnerReferences m) @
     (if \<exists>r\<in>set (om_OwnerReferences m). isController r then [] else [new])"
  by (simp add: upsertControllerRef_def upsertLoop_result)

lemma EncodeToString_length: "length (EncodeToString s) = 2 * length s"
  by (induction s) auto

lemma hexDigit_range: "n < 16 \<Longrightarrow> hexDigit n \<in> set ''0123456789abcdef''"
  unfolding hexDigit_def by (rule nth_mem) simp

lemma EncodeToString_range: "set (EncodeToString s) \<subseteq> set ''0123456789abcdef''"
proof (induction s)
  case (Cons c s)
  have "(of_char c :: nat) < 16 * 16" by simp
  then have "of_char c div 16 < (16::nat)" by (rule less_mult_imp_div_less)
  moreover have "of_char c mod 16 < (16::nat)" by simp
  ultimately show ?case using Cons hexDigit_range by simp
qed simp

lemma fillBuffer_length [simp]: "length (fillBuffer n b) = n"
  by (simp add: fillBuffer_def)

lemma randomB64_token:
  "returns (randomB64 E n) (\<lambda>r. case r of Inl _ \<Rightarrow> True
     | Inr t \<Rightarrow> length t = 2 * n \<and> set t \<subseteq> set ''0123456789abcdef'')"
  unfolding randomB64_def
  by (intro go_intros) (auto simp: EncodeToString_length simp del: set_simps dest: subsetD[OF EncodeToString_range])

lemma token_Lookup_emits [THEN emits_mono, go_intros]: "emits reads (token_Lookup E k)"
  unfolding token_Lookup_def getSecret_def by (intro go_intros) simp

end
