(* ===== verification/Kubeconfig.thy ===== *)
theory Kubeconfig
  imports Certificates
begin

text \<open>
  \<^verbatim>\<open>pkg/kubeconfig\<close>: the kubeconfig secret of a cluster, created from the two
  certificate authorities and rotated before its client certificate expires. Certificates are
  their PEM text; decoding them and the YAML form are parameters, keys and signatures come from
  the environment.
\<close>

record KubeConfig =
  kb_Clusters :: "string \<rightharpoonup> string \<times> string"           \<comment> \<open>server, CA data\<close>
  kb_Contexts :: "string \<rightharpoonup> string \<times> string"           \<comment> \<open>cluster, user\<close>
  kb_AuthInfos :: "(string \<times> string \<times> string) list"    \<comment> \<open>user, key data, certificate data\<close>
  kb_CurrentContext :: string

record kubeLib =
  decodeCertPEM :: "string \<Rightarrow> goerr + string option"
  decodeKeyPEM :: "string \<Rightarrow> goerr + string option"
  notAfter :: "string \<Rightarrow> time"
  writeConfig :: "KubeConfig \<Rightarrow> goerr + string"
  loadConfig :: "string \<Rightarrow> goerr + KubeConfig"

definition ErrDependentCertificateNotFound :: goerr where
  "ErrDependentCertificateNotFound = Sentinel ''could not find secret ca''"
definition ErrCertNotInKubeconfig :: goerr where
  "ErrCertNotInKubeconfig = Sentinel ''certificate not found in config''"
definition ErrCAPrivateKeyNotFound :: goerr where
  "ErrCAPrivateKeyNotFound = Sentinel ''CA private key not found''"

definition clientCertConfig :: CertsConfig where
  "clientCertConfig =
     \<lparr>cf_CommonName = ''kubernetes-admin'', cf_Organization = [''system:masters''], cf_Usages = [ExtKeyUsageClientAuth]\<rparr>"

definition New ::
  "env \<Rightarrow> string \<Rightarrow> string \<Rightarrow> string \<Rightarrow> string \<Rightarrow> string \<Rightarrow> (call, goerr + KubeConfig) go" where
  "New E clusterName endpoint clientCACert clientCAKey serverCACert =
     bnd (api E e_random NewPrivateKey) (\<lambda>r. case r of
       Inl err \<Rightarrow> ret (Inl (Wrap ''unable to create private key'' err))
     | Inr clientKey \<Rightarrow>
     bnd (api E e_random (NewSignedCert clientCertConfig clientKey clientCACert clientCAKey)) (\<lambda>r. case r of
       Inl err \<Rightarrow> ret (Inl (Wrap ''unable to sign certificate'' err))
     | Inr clientCert \<Rightarrow>
         (let userName = clusterName @ ''-admin'';
              contextName = userName @ ''@'' @ clusterName
          in ret (Inr \<lparr>kb_Clusters = [clusterName \<mapsto> (endpoint, serverCACert)],
                       kb_Contexts = [contextName \<mapsto> (clusterName, userName)],
                       kb_AuthInfos = [(userName, clientKey, clientCert)],
                       kb_CurrentContext = contextName\<rparr>))))"

definition notFoundAs :: "goerr \<Rightarrow> goerr" where
  "notFoundAs err = (if IsNotFound err then ErrDependentCertificateNotFound else err)"

text \<open>A missing key of the data decodes as the empty byte slice.\<close>

definition dataOf :: "Secret \<Rightarrow> string \<Rightarrow> string" where
  "dataOf s k = (case mget (s_Data s) k of None \<Rightarrow> [] | Some d \<Rightarrow> d)"

definition decoded :: "goerr + string option \<Rightarrow> string \<Rightarrow> goerr \<Rightarrow> goerr + string" where
  "decoded r msg missing =
     (case r of Inl err \<Rightarrow> Inl (Wrap msg err) | Inr None \<Rightarrow> Inl missing | Inr (Some c) \<Rightarrow> Inr c)"

definition generateKubeconfig :: "env \<Rightarrow> kubeLib \<Rightarrow> ObjectKey \<Rightarrow> string \<Rightarrow> (call, goerr + string) go" where
  "generateKubeconfig E U clusterName endpoint =
     bnd (GetFromNamespacedName E clusterName ClusterCA) (\<lambda>r. case r of Inl err \<Rightarrow> ret (Inl (notFoundAs err)) | Inr clusterCA \<Rightarrow>
     bnd (GetFromNamespacedName E clusterName ClientClusterCA) (\<lambda>r. case r of Inl err \<Rightarrow> ret (Inl (notFoundAs err)) | Inr clientClusterCA \<Rightarrow>
     (case decoded (decodeCertPEM U (dataOf clientClusterCA TLSCrtDataName)) ''failed to decode CA Cert'' ErrCertNotInKubeconfig of
        Inl err \<Rightarrow> ret (Inl err)
      | Inr clientCACert \<Rightarrow>
     (case decoded (decodeKeyPEM U (dataOf clientClusterCA TLSKeyDataName)) ''failed to decode private key'' ErrCAPrivateKeyNotFound of
        Inl err \<Rightarrow> ret (Inl err)
      | Inr clientCAKey \<Rightarrow>
     (case decoded (decodeCertPEM U (dataOf clusterCA TLSCrtDataName)) ''failed to decode CA Cert'' ErrCertNotInKubeconfig of
        Inl err \<Rightarrow> ret (Inl err)
      | Inr serverCACert \<Rightarrow>
          bnd (New E (snd clusterName) endpoint clientCACert clientCAKey serverCACert) (\<lambda>r. case r of
            Inl err \<Rightarrow> ret (Inl (Wrap ''failed to generate a kubeconfig'' err))
          | Inr cfg \<Rightarrow>
             (case writeConfig U cfg of
                Inl err \<Rightarrow> ret (Inl (Wrap ''failed to serialize config to yaml'' err))
              | Inr out \<Rightarrow> ret (Inr out))))))))"

definition GenerateSecretWithOwner :: "ObjectKey \<Rightarrow> string \<Rightarrow> OwnerReference \<Rightarrow> Secret" where
  "GenerateSecretWithOwner clusterName data owner =
     \<lparr>s_Meta = emptyMeta\<lparr>om_Name := SecretName (snd clusterName) KubeconfigPurpose, om_Namespace := fst clusterName,
         om_Labels := Some [ClusterNameLabel \<mapsto> snd clusterName], om_OwnerReferences := [owner]\<rparr>,
      s_Data = Some [KubeconfigDataName \<mapsto> data], s_Type = []\<rparr>"

definition CreateSecretWithOwner ::
  "env \<Rightarrow> kubeLib \<Rightarrow> ObjectKey \<Rightarrow> string \<Rightarrow> OwnerReference \<Rightarrow> (call, goerr option) go" where
  "CreateSecretWithOwner E U clusterName endpoint owner =
     (let server = ''https://'' @ endpoint in
      bnd (generateKubeconfig E U clusterName server) (\<lambda>r. case r of
        Inl err \<Rightarrow> ret (Some err)
      | Inr out \<Rightarrow> do_write E (CreateSecret (GenerateSecretWithOwner clusterName out owner))))"

text \<open>The variants for a cluster as the owner, of which the functions use the metadata and the
  endpoint; printing the endpoint is Cluster API's.\<close>

definition clusterOwner :: "Cluster \<Rightarrow> OwnerReference" where
  "clusterOwner cluster =
     \<lparr>or_APIVersion = ''cluster.x-k8s.io/v1beta1'', or_Kind = ''Cluster'', or_Name = cl_Name cluster,
      or_UID = om_UID (cl_Meta cluster), or_Controller = None\<rparr>"

definition CreateKubeconfigSecret ::
  "env \<Rightarrow> kubeLib \<Rightarrow> (APIEndpoint \<Rightarrow> string) \<Rightarrow> Cluster \<Rightarrow> (call, goerr option) go" where
  "CreateKubeconfigSecret E U endpointString cluster =
     CreateSecretWithOwner E U (cl_Key cluster) (endpointString (cl_ControlPlaneEndpoint cluster)) (clusterOwner cluster)"

definition GenerateSecret :: "Cluster \<Rightarrow> string \<Rightarrow> Secret" where
  "GenerateSecret cluster data = GenerateSecretWithOwner (cl_Key cluster) data (clusterOwner cluster)"

section \<open>Rotation\<close>

definition toKubeconfigBytes :: "Secret \<Rightarrow> goerr + string" where
  "toKubeconfigBytes s =
     (case mget (s_Data s) KubeconfigDataName of
        None \<Rightarrow> Inl (Msg ''missing key \"value\" in secret data'') | Some data \<Rightarrow> Inr data)"

text \<open>The loop over the users, in the order of the range. \<open>None\<close>: the certificate data
  holds no certificate, and the nil result is dereferenced.\<close>

primrec rotationLoop :: "kubeLib \<Rightarrow> time \<Rightarrow> duration \<Rightarrow> (string \<times> string \<times> string) list \<Rightarrow> (goerr + bool) option" where
  "rotationLoop U t threshold [] = Some (Inr False)"
| "rotationLoop U t threshold (authInfo # as) =
     (case decodeCertPEM U (snd (snd authInfo)) of
        Inl err \<Rightarrow> Some (Inl (Wrap ''failed to decode kubeconfig client certificate'' err))
      | Inr None \<Rightarrow> None
      | Inr (Some cert) \<Rightarrow>
          if notAfter U cert - t < sint threshold then Some (Inr True) else rotationLoop U t threshold as)"

definition NeedsClientCertRotation :: "env \<Rightarrow> kubeLib \<Rightarrow> Secret \<Rightarrow> duration \<Rightarrow> (call, goerr + bool) go" where
  "NeedsClientCertRotation E U configSecret threshold =
     bnd (now E) (\<lambda>t.
       case toKubeconfigBytes configSecret of
         Inl err \<Rightarrow> ret (Inl err)
       | Inr data \<Rightarrow>
          (case loadConfig U data of
             Inl err \<Rightarrow> ret (Inl (Wrap ''failed to convert kubeconfig Secret into a clientcmdapi.Config'' err))
           | Inr config \<Rightarrow> deref (rotationLoop U t threshold (kb_AuthInfos config))))"

definition RegenerateSecret :: "env \<Rightarrow> kubeLib \<Rightarrow> Secret \<Rightarrow> (call, goerr option) go" where
  "RegenerateSecret E U configSecret =
     (case ParseSecretName (om_Name (s_Meta configSecret)) of
        Inl err \<Rightarrow> ret (Some (Wrap ''failed to parse secret name'' err))
      | Inr (clusterName, _) \<Rightarrow>
     (case toKubeconfigBytes configSecret of
        Inl err \<Rightarrow> ret (Some err)
      | Inr data \<Rightarrow>
     (case loadConfig U data of
        Inl err \<Rightarrow> ret (Some (Wrap ''failed to convert kubeconfig Secret into a clientcmdapi.Config'' err))
      | Inr config \<Rightarrow>
          bnd (deref (kb_Clusters config clusterName)) (\<lambda>c.
          bnd (generateKubeconfig E U (om_Namespace (s_Meta configSecret), clusterName) (fst c)) (\<lambda>r. case r of
            Inl err \<Rightarrow> ret (Some err)
          | Inr out \<Rightarrow>
              bnd (deref (mput (s_Data configSecret) KubeconfigDataName out)) (\<lambda>d.
                do_write E (UpdateSecret (configSecret\<lparr>s_Data := d\<rparr>))))))))"

section \<open>Properties\<close>

text \<open>The current context of a generated configuration resolves to its cluster and user.\<close>

definition wellFormed :: "KubeConfig \<Rightarrow> bool" where
  "wellFormed cfg \<longleftrightarrow>
     (\<exists>cluster user. kb_Contexts cfg (kb_CurrentContext cfg) = Some (cluster, user) \<and>
        cluster \<in> dom (kb_Clusters cfg) \<and> user \<in> fst ` set (kb_AuthInfos cfg))"

lemma New_config:
  "returns (New E clusterName endpoint cc ck ca) (\<lambda>r. case r of Inl _ \<Rightarrow> True
     | Inr cfg \<Rightarrow> wellFormed cfg \<and> kb_Clusters cfg clusterName = Some (endpoint, ca))"
  unfolding New_def by (intro go_intros) (auto simp: Let_def wellFormed_def intro!: go_intros)

lemma New_emits [THEN emits_mono, go_intros]: "emits reads (New E c ep cc ck ca)"
  unfolding New_def Let_def by (intro go_intros) simp_all

lemma generateKubeconfig_emits [THEN emits_mono, go_intros]: "emits reads (generateKubeconfig E U c ep)"
  unfolding generateKubeconfig_def GetFromNamespacedName_def by (intro go_intros) simp_all

lemma generateKubeconfig_config:
  "returns (generateKubeconfig E U c ep) (\<lambda>r. case r of Inl _ \<Rightarrow> True
     | Inr out \<Rightarrow> \<exists>cfg ca. writeConfig U cfg = Inr out \<and> wellFormed cfg \<and> kb_Clusters cfg (snd c) = Some (ep, ca))"
  unfolding generateKubeconfig_def
  by (intro returns_bnd_any returns_cases returns_intros returns_bnd[OF New_config]) (auto intro!: go_intros split: sum.split)

lemma GenerateSecretWithOwner_name:
  "ParseSecretName (om_Name (s_Meta (GenerateSecretWithOwner k data owner))) = Inr (snd k, KubeconfigPurpose)"
  by (simp add: GenerateSecretWithOwner_def SecretName_suffix allSecretPurposes_def purpose_defs)

lemma rotationLoop_True:
  "rotationLoop U t d as = Some (Inr True) \<Longrightarrow>
     \<exists>a\<in>set as. \<exists>c. decodeCertPEM U (snd (snd a)) = Inr (Some c) \<and> notAfter U c < t + sint d"
  by (induction as) (auto split: sum.splits option.splits if_splits)

lemma rotationLoop_False:
  "rotationLoop U t d as = Some (Inr False) \<Longrightarrow>
     \<forall>a\<in>set as. \<exists>c. decodeCertPEM U (snd (snd a)) = Inr (Some c) \<and> t + sint d \<le> notAfter U c"
  by (induction as) (auto split: sum.splits option.splits if_splits)

text \<open>What an update by \<open>RegenerateSecret\<close> stores: the same object with a well-formed
  configuration for the same server as the old one.\<close>

definition regenerated :: "kubeLib \<Rightarrow> Secret \<Rightarrow> Secret \<Rightarrow> bool" where
  "regenerated U old new \<longleftrightarrow>
     s_Meta new = s_Meta old \<and> s_Type new = s_Type old \<and>
     (\<exists>cluster purpose data config server ca0 out cfg ca.
        ParseSecretName (om_Name (s_Meta old)) = Inr (cluster, purpose) \<and>
        mget (s_Data old) KubeconfigDataName = Some data \<and> loadConfig U data = Inr config \<and>
        kb_Clusters config cluster = Some (server, ca0) \<and>
        mget (s_Data new) KubeconfigDataName = Some out \<and> writeConfig U cfg = Inr out \<and> wellFormed cfg \<and>
        kb_Clusters cfg cluster = Some (server, ca))"

lemma RegenerateSecret_emits:
  "emits (reads \<union> {UpdateSecret new | new. regenerated U old new}) (RegenerateSecret E U old)"
proof (cases "\<exists>cluster purpose data config server ca0. ParseSecretName (om_Name (s_Meta old)) = Inr (cluster, purpose) \<and>
    mget (s_Data old) KubeconfigDataName = Some data \<and> loadConfig U data = Inr config \<and> kb_Clusters config cluster = Some (server, ca0)")
  case True
  then obtain cluster purpose data config server ca0 where
    old: "ParseSecretName (om_Name (s_Meta old)) = Inr (cluster, purpose)" "mget (s_Data old) KubeconfigDataName = Some data"
      "loadConfig U data = Inr config" "kb_Clusters config cluster = Some (server, ca0)" by blast
  have upd: "emits (reads \<union> {UpdateSecret new | new. regenerated U old new}) (bnd (deref (mput (s_Data old) KubeconfigDataName out)) (\<lambda>d.
                do_write E (UpdateSecret (old\<lparr>s_Data := d\<rparr>))))"
    if "\<exists>cfg ca. writeConfig U cfg = Inr out \<and> wellFormed cfg \<and> kb_Clusters cfg cluster = Some (server, ca)" for out
  proof (cases "mput (s_Data old) KubeconfigDataName out")
    case None
    then show ?thesis by (simp add: emits_panic)
  next
    case (Some d)
    then have "mget d KubeconfigDataName = Some out" by (simp add: mget_mput)
    then have "regenerated U old (old\<lparr>s_Data := d\<rparr>)" using that old unfolding regenerated_def by fastforce
    with Some show ?thesis by (auto intro!: go_intros)
  qed
  have "emits (reads \<union> {UpdateSecret new | new. regenerated U old new})
      (bnd (generateKubeconfig E U (om_Namespace (s_Meta old), cluster) server) (\<lambda>r. case r of
            Inl err \<Rightarrow> ret (Some err)
          | Inr out \<Rightarrow>
              bnd (deref (mput (s_Data old) KubeconfigDataName out)) (\<lambda>d.
                do_write E (UpdateSecret (old\<lparr>s_Data := d\<rparr>)))))"
    by (rule emits_bnd_ret[OF _ generateKubeconfig_config])
       (auto intro!: go_intros upd split: sum.split)
  with old show ?thesis by (simp add: RegenerateSecret_def toKubeconfigBytes_def)
next
  case False
  then have "kb_Clusters config cluster = None"
    if "ParseSecretName (om_Name (s_Meta old)) = Inr (cluster, purpose)" "mget (s_Data old) KubeconfigDataName = Some data"
      "loadConfig U data = Inr config" for cluster purpose data config
    using that by (metis not_None_eq prod.exhaust)
  then show ?thesis
    unfolding RegenerateSecret_def toKubeconfigBytes_def
    by (auto intro!: emits_ret emits_panic split: sum.splits option.splits)
qed

end
