(* ===== verification/InitLock.thy ===== *)
theory InitLock
  imports Certificates
begin

text \<open>
  \<^verbatim>\<open>pkg/locking/control_plane_init_mutex.go\<close>: the mutex around the initialization of
  a control plane. It is a ConfigMap of the cluster that names the machine holding the lock;
  creating the ConfigMap acquires the lock, deleting it releases the lock. The JSON form of
  the holder is a parameter.
\<close>

section \<open>The mutex\<close>

definition semaphoreInformationKey :: string where "semaphoreInformationKey = ''lock-information''"

record lockLib =
  marshalInformation :: "string \<Rightarrow> goerr + string"
  unmarshalInformation :: "string \<Rightarrow> goerr + string"

definition information_law :: "lockLib \<Rightarrow> bool" where
  "information_law K \<longleftrightarrow> (\<forall>n s. marshalInformation K n = Inr s \<longrightarrow> unmarshalInformation K s = Inr n)"

definition configMapName :: "string \<Rightarrow> string" where
  "configMapName clusterName = clusterName @ ''-lock''"

definition newSemaphore :: ConfigMap where
  "newSemaphore = \<lparr>cm_Meta = emptyMeta, cm_Data = None\<rparr>"

definition information :: "lockLib \<Rightarrow> ConfigMap \<Rightarrow> goerr + string" where
  "information K s =
     (case unmarshalInformation K (case mget (cm_Data s) semaphoreInformationKey of None \<Rightarrow> [] | Some d \<Rightarrow> d) of
        Inl err \<Rightarrow> Inl (Wrap ''failed to unmarshal semaphore information'' err)
      | Inr li \<Rightarrow> Inr li)"

definition setInformation :: "lockLib \<Rightarrow> string \<Rightarrow> ConfigMap \<Rightarrow> goerr + ConfigMap" where
  "setInformation K machineName s =
     (case marshalInformation K machineName of
        Inl err \<Rightarrow> Inl (Wrap ''failed to marshal semaphore information'' err)
      | Inr b \<Rightarrow> Inr (s\<lparr>cm_Data := Some [semaphoreInformationKey \<mapsto> b]\<rparr>))"

definition setMetadata :: "Cluster \<Rightarrow> ConfigMap \<Rightarrow> ConfigMap" where
  "setMetadata cluster s =
     s\<lparr>cm_Meta := emptyMeta\<lparr>om_Namespace := om_Namespace (cl_Meta cluster), om_Name := configMapName (cl_Name cluster),
        om_Labels := Some [ClusterNameLabel \<mapsto> cl_Name cluster],
        om_OwnerReferences := [\<lparr>or_APIVersion = ''cluster.x-k8s.io/v1beta1'', or_Kind = ''Cluster'',
          or_Name = cl_Name cluster, or_UID = om_UID (cl_Meta cluster), or_Controller = None\<rparr>]\<rparr>\<rparr>"

definition lockKey :: "Cluster \<Rightarrow> ObjectKey" where
  "lockKey cluster = (om_Namespace (cl_Meta cluster), configMapName (cl_Name cluster))"

definition Unlock :: "env \<Rightarrow> Cluster \<Rightarrow> (call, bool) go" where
  "Unlock E cluster =
     bnd (api E e_configmap (GetConfigMap (lockKey cluster))) (\<lambda>r. case r of
       Inl err \<Rightarrow> ret (IsNotFound err)
     | Inr cm \<Rightarrow>
         bnd (do_write E (DeleteConfigMap cm)) (\<lambda>e. case e of
           None \<Rightarrow> ret True
         | Some err \<Rightarrow> ret (IsNotFound err)))"

text \<open>The lock is held by another machine: release it if that machine does not exist.\<close>

definition checkHolder :: "env \<Rightarrow> Cluster \<Rightarrow> string \<Rightarrow> (call, bool) go" where
  "checkHolder E cluster holder =
     bnd (api E e_machine (GetMachine (om_Namespace (cl_Meta cluster), holder))) (\<lambda>r. case r of
       Inr _ \<Rightarrow> ret False
     | Inl err \<Rightarrow> if IsNotFound err then bnd (Unlock E cluster) (\<lambda>_. ret False) else ret False)"

definition acquire :: "env \<Rightarrow> lockLib \<Rightarrow> Cluster \<Rightarrow> string \<Rightarrow> (call, bool) go" where
  "acquire E K cluster machineName =
     (case setInformation K machineName (setMetadata cluster newSemaphore) of
        Inl err \<Rightarrow> ret False
      | Inr sema \<Rightarrow> bnd (do_write E (CreateConfigMap sema)) (\<lambda>e. ret (e = None)))"

definition Lock :: "env \<Rightarrow> lockLib \<Rightarrow> Cluster \<Rightarrow> string \<Rightarrow> (call, bool) go" where
  "Lock E K cluster machineName =
     bnd (api E e_configmap (GetConfigMap (lockKey cluster))) (\<lambda>r. case r of
       Inl err \<Rightarrow> if IsNotFound err then acquire E K cluster machineName else ret False
     | Inr cm \<Rightarrow>
        (case information K cm of
           Inl err \<Rightarrow> ret False
         | Inr holder \<Rightarrow> if holder = machineName then ret True else checkHolder E cluster holder))"

section \<open>The interface\<close>

text \<open>\<^verbatim>\<open>InitLocker\<close> of the bootstrap controller: what it relies on.\<close>

record InitLocker =
  il_Lock :: "Cluster \<Rightarrow> string \<Rightarrow> (call, bool) go"
  il_Unlock :: "Cluster \<Rightarrow> (call, bool) go"

definition ControlPlaneInitMutex :: "env \<Rightarrow> lockLib \<Rightarrow> InitLocker" where
  "ControlPlaneInitMutex E K = \<lparr>il_Lock = Lock E K, il_Unlock = Unlock E\<rparr>"

definition lockCalls :: "call set" where
  "lockCalls = {c. is_read c} \<union> range CreateConfigMap \<union> range DeleteConfigMap"

locale init_locker =
  fixes I :: InitLocker
  assumes lock_calls: "emits lockCalls (il_Lock I cluster m)"
    and unlock_calls: "emits lockCalls (il_Unlock I cluster)"
    and lock_returns: "nopanic (il_Lock I cluster m)"
    and unlock_returns: "nopanic (il_Unlock I cluster)"

lemma Unlock_emits: "emits ({c. is_read c} \<union> range DeleteConfigMap) (Unlock E cluster)"
  unfolding Unlock_def by (intro go_intros) auto

lemma checkHolder_emits: "emits ({c. is_read c} \<union> range DeleteConfigMap) (checkHolder E cluster holder)"
  unfolding checkHolder_def by (intro go_intros Unlock_emits) auto

lemma Unlock_nopanic [go_intros]: "nopanic (Unlock E cluster)"
  unfolding Unlock_def by (intro go_intros)

interpretation init_mutex: init_locker "ControlPlaneInitMutex E K" for E K
proof
  show "emits lockCalls (il_Lock (ControlPlaneInitMutex E K) cluster m)" for cluster m
    unfolding ControlPlaneInitMutex_def InitLocker.simps Lock_def acquire_def
    by (intro go_intros emits_mono[OF checkHolder_emits]) (auto simp: lockCalls_def)
  show "emits lockCalls (il_Unlock (ControlPlaneInitMutex E K) cluster)" for cluster
    unfolding ControlPlaneInitMutex_def InitLocker.simps
    by (rule emits_mono[OF Unlock_emits]) (auto simp: lockCalls_def)
  show "nopanic (il_Lock (ControlPlaneInitMutex E K) cluster m)" for cluster m
    unfolding ControlPlaneInitMutex_def InitLocker.simps Lock_def acquire_def checkHolder_def by (intro go_intros)
  show "nopanic (il_Unlock (ControlPlaneInitMutex E K) cluster)" for cluster
    unfolding ControlPlaneInitMutex_def InitLocker.simps by (rule Unlock_nopanic)
qed

section \<open>Several machines\<close>

text \<open>
  The API server as the clients share it: the ConfigMap of the lock, and the calls on it in
  the order in which the server executed them, with their answers. A call may fail without
  an effect for any reason (\<open>failed\<close>), and calls on other objects do not touch the lock
  (\<open>other\<close>).
\<close>

definition onConfigMaps :: "call \<Rightarrow> bool" where
  "onConfigMaps c \<longleftrightarrow> (case c of GetConfigMap _ \<Rightarrow> True | CreateConfigMap _ \<Rightarrow> True | DeleteConfigMap _ \<Rightarrow> True | _ \<Rightarrow> False)"

datatype answer = AGet "goerr + ConfigMap" | AWrite "goerr option" | ANone

inductive serves :: "ConfigMap option \<Rightarrow> (call \<times> answer) list \<Rightarrow> ConfigMap option \<Rightarrow> bool" where
  start: "serves st [] st"
| found: "serves st tr (Some cm) \<Longrightarrow> serves st (tr @ [(GetConfigMap k, AGet (Inr cm))]) (Some cm)"
| missing: "serves st tr None \<Longrightarrow> serves st (tr @ [(GetConfigMap k, AGet (Inl (ApiErr NotFound msg)))]) None"
| get_failed: "serves st tr s \<Longrightarrow> \<not> IsNotFound err \<Longrightarrow> serves st (tr @ [(GetConfigMap k, AGet (Inl err))]) s"
| created: "serves st tr None \<Longrightarrow> serves st (tr @ [(CreateConfigMap cm, AWrite None)]) (Some cm)"
| deleted: "serves st tr (Some cm') \<Longrightarrow> serves st (tr @ [(DeleteConfigMap cm, AWrite None)]) None"
| failed: "serves st tr s \<Longrightarrow> serves st (tr @ [(c, AWrite (Some err))]) s"
| other: "serves st tr s \<Longrightarrow> \<not> onConfigMaps c \<Longrightarrow> serves st (tr @ [(c, ANone)]) s"

inductive_simps serves_Nil [simp]: "serves st [] st'"

lemma serves_others:
  "serves st tr s \<Longrightarrow> \<forall>c\<in>set cs. \<not> onConfigMaps c \<Longrightarrow> serves st (tr @ map (\<lambda>c. (c, ANone)) cs) s"
proof (induction cs arbitrary: tr)
  case (Cons c cs)
  then show ?case using Cons.IH[OF serves.other[OF Cons.prems(1), of c]] by simp
qed simp

text \<open>The answer a client got for a call, and a run of a client as a part of the trace.\<close>

definition answerOf :: "env \<Rightarrow> call list \<Rightarrow> call \<Rightarrow> answer" where
  "answerOf E g c =
     (case c of GetConfigMap _ \<Rightarrow> AGet (e_configmap E g c)
      | CreateConfigMap _ \<Rightarrow> AWrite (e_err E g c)
      | DeleteConfigMap _ \<Rightarrow> AWrite (e_err E g c)
      | _ \<Rightarrow> ANone)"

definition takesPart :: "env \<Rightarrow> call list \<Rightarrow> call list \<Rightarrow> (call \<times> answer) list \<Rightarrow> bool" where
  "takesPart E h h' tr \<longleftrightarrow>
     (\<forall>g c t. h' = g @ c # t \<and> length h \<le> length g \<longrightarrow> (c, answerOf E g c) \<in> set tr)"

text \<open>A run takes part with all its calls, so any first part of it does.\<close>

lemma takesPart_prefix: "takesPart E h (h' @ t) tr \<Longrightarrow> takesPart E h h' tr"
  unfolding takesPart_def by auto

text \<open>A call and its answer that give the lock to a machine.\<close>

definition grants :: "lockLib \<Rightarrow> string \<Rightarrow> call \<times> answer \<Rightarrow> bool" where
  "grants K m x \<longleftrightarrow>
     (\<exists>k cm. x = (GetConfigMap k, AGet (Inr cm)) \<and> information K cm = Inr m) \<or>
     (\<exists>cm. x = (CreateConfigMap cm, AWrite None) \<and> information K cm = Inr m)"

definition releases :: "call \<times> answer \<Rightarrow> bool" where
  "releases x \<longleftrightarrow> (\<exists>cm. x = (DeleteConfigMap cm, AWrite None))"

lemma information_set:
  "information_law K \<Longrightarrow> setInformation K m s = Inr s' \<Longrightarrow> information K s' = Inr m"
  by (auto simp: information_law_def setInformation_def information_def split: sum.splits)

text \<open>While nobody releases the lock, it stays with whom it was given to.\<close>

lemma serves_holder:
  assumes "serves st tr st'" "\<forall>x\<in>set tr. \<not> releases x"
  shows "(\<forall>cm. st = Some cm \<longrightarrow> st' = Some cm) \<and>
     (\<forall>m x. x \<in> set tr \<longrightarrow> grants K m x \<longrightarrow> (\<exists>cm. st' = Some cm \<and> information K cm = Inr m))"
  using assms
  by (induction rule: serves.induct) (auto simp: grants_def releases_def)

lemma checkHolder_False: "checkHolder E cluster holder h \<noteq> (Some True, h')"
proof -
  have "returns (checkHolder E cluster holder) (\<lambda>b. \<not> b)"
    unfolding checkHolder_def by (intro go_intros) simp_all
  then show ?thesis by (auto simp: returns_def)
qed

lemma Lock_granted:
  assumes "information_law K" "Lock E K cluster m h = (Some True, h')" "takesPart E h h' tr"
  shows "\<exists>x\<in>set tr. grants K m x"
proof -
  let ?g = "GetConfigMap (lockKey cluster)"
  show ?thesis
  proof (cases "e_configmap E h ?g")
    case (Inr cm)
    from Inr assms(2) checkHolder_False have "information K cm = Inr m" "h' = h @ [?g]"
      by (auto simp: Lock_def go_runs split: sum.splits if_splits)
    moreover have "(?g, answerOf E h ?g) \<in> set tr"
      using assms(3) \<open>h' = h @ [?g]\<close> unfolding takesPart_def by auto
    ultimately show ?thesis using Inr unfolding grants_def answerOf_def by (intro bexI[of _ "(?g, answerOf E h ?g)"]) (auto simp: answerOf_def)
  next
    case (Inl err)
    with assms(2) obtain sema where s: "setInformation K m (setMetadata cluster newSemaphore) = Inr sema"
      "e_err E (h @ [?g]) (CreateConfigMap sema) = None" "h' = h @ [?g] @ [CreateConfigMap sema]"
      by (auto simp: Lock_def acquire_def go_runs split: sum.splits if_splits)
    have "(CreateConfigMap sema, answerOf E (h @ [?g]) (CreateConfigMap sema)) \<in> set tr"
      using assms(3) s(3) unfolding takesPart_def by auto
    with s information_set[OF assms(1) s(1)] show ?thesis
      unfolding grants_def by (intro bexI[of _ "(CreateConfigMap sema, AWrite None)"]) (auto simp: answerOf_def)
  qed
qed

lemma mutual_exclusion:
  assumes "information_law K" "serves st tr st'" "\<forall>x\<in>set tr. \<not> releases x"
    and "Lock E1 K cluster m1 h1 = (Some True, h1')" "takesPart E1 h1 h1' tr"
    and "Lock E2 K cluster m2 h2 = (Some True, h2')" "takesPart E2 h2 h2' tr"
  shows "m1 = m2"
proof -
  note held = serves_holder[OF assms(2,3), of K, THEN conjunct2, rule_format]
  obtain x where "x \<in> set tr" "grants K m1 x" using Lock_granted[OF assms(1,4,5)] by blast
  then obtain cm where cm: "st' = Some cm" "information K cm = Inr m1" using held by blast
  obtain y where "y \<in> set tr" "grants K m2 y" using Lock_granted[OF assms(1,6,7)] by blast
  then obtain cm' where "st' = Some cm'" "information K cm' = Inr m2" using held by blast
  with cm show ?thesis by simp
qed

end
