(* ===== verification/SecretResults.thy ===== *)
theory SecretResults
  imports Sample Certificates Token Kubeconfig InitLock
begin

text \<open>
  The properties of the secrets (names, certificates, token, kubeconfig) and of the init
  lock. \<open>K0\<close>, \<open>U0\<close> and \<open>T0\<close> are instances of the libraries for the
  witnesses.
\<close>

definition K0 :: lockLib where
  "K0 = \<lparr>marshalInformation = Inr, unmarshalInformation = Inr\<rparr>"

definition U0 :: kubeLib where
  "U0 = \<lparr>decodeCertPEM = (\<lambda>s. Inr (Some s)), decodeKeyPEM = (\<lambda>s. Inr (Some s)), notAfter = (\<lambda>c. int (length c)),
     writeConfig = (\<lambda>c. Inr (kb_CurrentContext c)),
     loadConfig = (\<lambda>s. Inr \<lparr>kb_Clusters = [''c'' \<mapsto> (''https://host'', ''ca'')], kb_Contexts = Map.empty,
        kb_AuthInfos = [(''u'', ''key'', s)], kb_CurrentContext = []\<rparr>)\<rparr>"

section \<open>Names of secrets\<close>

text \<open>A secret name is parsed back into the cluster and the purpose, whatever characters
  the cluster name has, for the five purposes without a dash in the list of purposes. The
  client CA (not in the list) and the apiserver etcd client (whose suffix has dashes) are
  never recognized.\<close>

theorem secret_names:
  "ParseSecretName (SecretName c KubeconfigPurpose) = Inr (c, KubeconfigPurpose) \<and>
   ParseSecretName (SecretName c ClusterCA) = Inr (c, ClusterCA) \<and>
   ParseSecretName (SecretName c EtcdCA) = Inr (c, EtcdCA) \<and>
   ParseSecretName (SecretName c ServiceAccount) = Inr (c, ServiceAccount) \<and>
   ParseSecretName (SecretName c FrontProxyCA) = Inr (c, FrontProxyCA) \<and>
   ParseSecretName (SecretName c ClientClusterCA) = Inl (Wrap ''invalid purpose suffix'' ErrSecretInvalidSuffix) \<and>
   (\<exists>err. ParseSecretName (SecretName c APIServerEtcdClient) = Inl err)"
  using SecretName_etcd_client[of c] by (simp add: SecretName_suffix allSecretPurposes_def purpose_defs)

section \<open>Certificates\<close>

text \<open>C27 \<open>LookupOrGenerate\<close> never replaces a certificate: every secret it creates was looked
  up before under the same name, and the answer was that it does not exist.\<close>

theorem certificates_only_missing:
  assumes "LookupOrGenerate E k owner cs h = (r, h')" "\<forall>c\<in>set cs. \<not> ct_Generated c"
    and "CreateSecret s \<in> set (drop (length h) h')"
  shows "\<exists>g t. h' = g @ t \<and> CreateSecret s \<in> set t \<and> notFound E (om_Namespace (s_Meta s), om_Name (s_Meta s)) g"
  using assms by (rule LookupOrGenerate_creates)

definition E_empty :: env where
  "E_empty = E0\<lparr>e_secret := (\<lambda>_ _. Inl (ApiErr NotFound []))\<rparr>"

definition own0 :: OwnerReference where
  "own0 = AsOwnerReference kcp0"

definition T0 :: tokenLib where
  "T0 = \<lparr>SetControllerReference = (\<lambda>_ m. Inr m)\<rparr>"

definition etcdCert :: Certificate where
  "etcdCert = newCertificate EtcdCA ''etcd/server-ca''"

theorem certificates_only_missing_witness:
  "\<exists>s g t. snd (LookupOrGenerate E_empty (''ns'', ''c'') own0 [etcdCert] []) = g @ t \<and> CreateSecret s \<in> set t \<and>
     notFound E_empty (''ns'', ''c-etcd'') g"
proof -
  have "\<exists>r s. LookupOrGenerate E_empty (''ns'', ''c'') own0 [etcdCert] [] =
      (r, [GetSecret (''ns'', ''c-etcd''), NewPrivateKey,
       CreateCertificate (caTemplate 5000) SelfSigned ''material'' (Some ''material''), CreateSecret s]) \<and> om_Namespace (s_Meta s) = ''ns'' \<and> om_Name (s_Meta s) = ''c-etcd''"
    by (simp add: LookupOrGenerate_def Certificate_Generate_def generate_defs AsSecret_def etcdCert_def
        newCertificate_def E_empty_def E0_def SecretName_def purpose_defs go_runs Let_def)
  then obtain r s where run: "LookupOrGenerate E_empty (''ns'', ''c'') own0 [etcdCert] [] =
      (r, [GetSecret (''ns'', ''c-etcd''), NewPrivateKey,
       CreateCertificate (caTemplate 5000) SelfSigned ''material'' (Some ''material''), CreateSecret s])"
    and s: "om_Namespace (s_Meta s) = ''ns''" "om_Name (s_Meta s) = ''c-etcd''" by blast
  from certificates_only_missing[OF run, of s] s show ?thesis
    unfolding run by (force simp: etcdCert_def newCertificate_def)
qed

text \<open>The files a certificate is to have on a control plane node.\<close>

definition certificateFiles :: "Certificate \<Rightarrow> File list" where
  "certificateFiles c =
     (let kp = the (ct_KeyPair c);
          file = (\<lambda>path permissions content.
            \<lparr>f_Path = path, f_Owner = ''root:root'', f_Permissions = permissions, f_Encoding = [], f_Content = content,
             f_ContentFrom = None\<rparr>)
      in filter (\<lambda>f. f_Content f \<noteq> []) [file (ct_CertFile c) ''0640'' (kp_Cert kp), file (ct_KeyFile c) ''0600'' (kp_Key kp)])"

lemma Certificate_AsFiles_files: "ct_KeyPair c \<noteq> None \<Longrightarrow> Certificate_AsFiles c = Some (certificateFiles c)"
  by (cases "ct_KeyPair c") (simp_all add: Certificate_AsFiles_def certificateFiles_def certFile_def rootOwnerValue_def Let_def)

lemma controlPlane_places:
  "map certPlace (NewCertificatesForInitialControlPlane config) =
     [(ClusterCA, ''/var/lib/rancher/k3s/server/tls/server-ca.crt'', ''/var/lib/rancher/k3s/server/tls/server-ca.key''),
      (ClientClusterCA, ''/var/lib/rancher/k3s/server/tls/client-ca.crt'', ''/var/lib/rancher/k3s/server/tls/client-ca.key'')] @
     (if IsEtcdEmbedded config
      then [(EtcdCA, ''/var/lib/rancher/k3s/server/tls/etcd/server-ca.crt'', ''/var/lib/rancher/k3s/server/tls/etcd/server-ca.key'')]
      else [])"
  by (simp add: NewCertificatesForInitialControlPlane_def newCertificate_def certPlace_def DefaultCertificatesDir_def)

text \<open>The certificates of a control plane have the purposes \<open>AsFiles\<close> collects, in its order, so
  it leaves none out.\<close>

lemma AsFiles_all:
  assumes "map certPlace cs = map certPlace (NewCertificatesForInitialControlPlane config)" "\<forall>c\<in>set cs. ct_KeyPair c \<noteq> None"
  shows "AsFiles cs = Some (concat (map certificateFiles cs))"
proof (cases "IsEtcdEmbedded config")
  case True
  with assms(1) obtain a b c where "cs = [a, b, c]" "ct_Purpose a = ClusterCA" "ct_Purpose b = ClientClusterCA" "ct_Purpose c = EtcdCA"
    unfolding controlPlane_places by (auto simp: certPlace_def)
  with assms(2) show ?thesis by (simp add: AsFiles_def GetByPurpose_def Certificate_AsFiles_files purpose_defs)
next
  case False
  with assms(1) obtain a b where "cs = [a, b]" "ct_Purpose a = ClusterCA" "ct_Purpose b = ClientClusterCA"
    unfolding controlPlane_places by (auto simp: certPlace_def)
  with assms(2) show ?thesis by (simp add: AsFiles_def GetByPurpose_def Certificate_AsFiles_files purpose_defs)
qed

text \<open>C28 When the certificates of an initial control plane have been looked up or generated
  without an error, they are exactly those that were asked for, in order: the server CA, the
  client CA and, if etcd is embedded, the etcd CA, each with its own two files under
  \<open>/var/lib/rancher/k3s/server/tls\<close>. Every one of them has a key pair, and the files that are
  written are, for each of them in turn, exactly its certificate (with permissions 0640) and its
  key (0600), owned by root, with the data of its key pair; only a file without data is left out.\<close>

theorem certificates_complete:
  assumes "LookupOrGenerate E k owner (NewCertificatesForInitialControlPlane config) h = (Some (cs, None), h')"
  shows "map certPlace cs =
      [(ClusterCA, ''/var/lib/rancher/k3s/server/tls/server-ca.crt'', ''/var/lib/rancher/k3s/server/tls/server-ca.key''),
       (ClientClusterCA, ''/var/lib/rancher/k3s/server/tls/client-ca.crt'', ''/var/lib/rancher/k3s/server/tls/client-ca.key'')] @
      (if IsEtcdEmbedded config
       then [(EtcdCA, ''/var/lib/rancher/k3s/server/tls/etcd/server-ca.crt'', ''/var/lib/rancher/k3s/server/tls/etcd/server-ca.key'')]
       else []) \<and>
    list_all (\<lambda>c. ct_KeyPair c \<noteq> None) cs \<and> AsFiles cs = Some (concat (map certificateFiles cs))"
proof -
  let ?cs = "NewCertificatesForInitialControlPlane config"
  have fresh: "\<forall>c\<in>set ?cs. \<not> ct_Generated c" using NewCertificates_fresh by blast
  note compl = LookupOrGenerate_complete[OF assms fresh]
  have "ct_Purpose c \<noteq> APIServerEtcdClient" if "c \<in> set cs" for c
  proof -
    have "ct_Purpose c \<in> ct_Purpose ` set ?cs" using that compl(1) by (metis image_eqI set_map)
    then show ?thesis using NewCertificates_fresh[of config] by auto
  qed
  with compl have keys: "\<forall>c\<in>set cs. ct_KeyPair c \<noteq> None" by blast
  note places = LookupOrGenerate_certPlace[OF assms]
  from AsFiles_all[OF places keys] places keys show ?thesis unfolding controlPlane_places by (simp add: list_all_iff)
qed

theorem certificates_complete_witness:
  "\<exists>cs h'. LookupOrGenerate E0 (''ns'', ''c'') own0 (NewCertificatesForInitialControlPlane config0) [] = (Some (cs, None), h') \<and>
     length cs = 3 \<and> AsFiles cs = Some (concat (map certificateFiles cs)) \<and>
     map f_Path (concat (map certificateFiles cs)) =
       [''/var/lib/rancher/k3s/server/tls/server-ca.crt'', ''/var/lib/rancher/k3s/server/tls/server-ca.key'',
        ''/var/lib/rancher/k3s/server/tls/client-ca.crt'', ''/var/lib/rancher/k3s/server/tls/client-ca.key'',
        ''/var/lib/rancher/k3s/server/tls/etcd/server-ca.crt'', ''/var/lib/rancher/k3s/server/tls/etcd/server-ca.key'']"
proof -
  have "\<exists>cs h'. LookupOrGenerate E0 (''ns'', ''c'') own0 (NewCertificatesForInitialControlPlane config0) [] = (Some (cs, None), h') \<and>
      (\<exists>kp. kp_Cert kp \<noteq> [] \<and> kp_Key kp \<noteq> [] \<and> map ct_KeyPair cs = replicate 3 (Some kp))"
    by (simp add: NewCertificatesForInitialControlPlane_def newCertificate_def LookupOrGenerate_def secretToKeyPair_def
        IsEtcdEmbedded_def E0_def go_runs mget_def TLSCrtDataName_def TLSKeyDataName_def eval_nat_numeral)
  then obtain cs h' kp where run:
    "LookupOrGenerate E0 (''ns'', ''c'') own0 (NewCertificatesForInitialControlPlane config0) [] = (Some (cs, None), h')"
    and kp: "kp_Cert kp \<noteq> []" "kp_Key kp \<noteq> []" "map ct_KeyPair cs = replicate 3 (Some kp)" by blast
  from kp(3) obtain a b c where cs: "cs = [a, b, c]" by (auto simp: eval_nat_numeral)
  with certificates_complete[OF run] kp run show ?thesis
    by (simp add: certPlace_def certificateFiles_def IsEtcdEmbedded_def eval_nat_numeral Let_def)
qed

section \<open>Token\<close>

definition newToken :: "Secret \<Rightarrow> bool" where
  "newToken s \<longleftrightarrow>
     (\<exists>t. mget (s_Data s) ''value'' = Some t \<and> length t = 32 \<and> set t \<subseteq> set ''0123456789abcdef'')"

definition ownedBy :: "OwnerReference \<Rightarrow> Secret \<Rightarrow> Secret \<Rightarrow> bool" where
  "ownedBy owner s0 s \<longleftrightarrow>
     s_Data s = s_Data s0 \<and>
     om_OwnerReferences (s_Meta s) =
       map (\<lambda>r. if isController r then owner else r) (om_OwnerReferences (s_Meta s0)) @
       (if \<exists>r\<in>set (om_OwnerReferences (s_Meta s0)). isController r then [] else [owner])"

definition tokenWrites :: "env \<Rightarrow> ObjectKey \<Rightarrow> OwnerReference \<Rightarrow> call set" where
  "tokenWrites E k owner =
     {RandomBytes 16} \<union> {CreateSecret s | s. newToken s} \<union>
     {UpdateSecret s | s s0 g. e_secret E g (GetSecret (fst k, tokenSecretName (snd k))) = Inr s0 \<and> ownedBy owner s0 s}"

lemma generateAndStore_writes: "emits (tokenWrites E k owner') (generateAndStore E T k owner)"
  unfolding generateAndStore_def
proof (rule emits_bnd_ret[OF _ randomB64_token])
  show "emits (tokenWrites E k owner') (randomB64 E 16)" unfolding randomB64_def tokenWrites_def by (intro go_intros) simp
next
  fix r :: "goerr + string"
  assume "case r of Inl _ \<Rightarrow> True | Inr t \<Rightarrow> length t = 2 * 16 \<and> set t \<subseteq> set ''0123456789abcdef''"
  then have "newToken (\<lparr>s_Meta = m, s_Data = Some [''value'' \<mapsto> t], s_Type = ty\<rparr>)" if "r = Inr t" for t m ty
    using that unfolding newToken_def by simp
  then have "CreateSecret (\<lparr>s_Meta = m, s_Data = Some [''value'' \<mapsto> t], s_Type = ty\<rparr>) \<in> tokenWrites E k owner'"
    if "r = Inr t" for t m ty using that unfolding tokenWrites_def by blast
  then show "emits (tokenWrites E k owner') (case r of
       Inl err \<Rightarrow> ret (Inl (Msg ''failed to generate token''))
     | Inr tokn \<Rightarrow>
        (let meta = emptyMeta\<lparr>om_Name := tokenSecretName (snd k), om_Namespace := fst k,
               om_Labels := Some [ClusterNameLabel \<mapsto> snd k]\<rparr>;
             meta = (case SetControllerReference T owner meta of Inl _ \<Rightarrow> meta | Inr m \<Rightarrow> m);
             secret = \<lparr>s_Meta = meta, s_Data = Some [''value'' \<mapsto> tokn], s_Type = ClusterSecretType\<rparr>
         in bnd (do_write E (CreateSecret secret)) (\<lambda>e. case e of
              Some err \<Rightarrow> ret (Inl (Msg ''failed to store token''))
            | None \<Rightarrow> ret (Inr tokn))))"
    by (auto intro!: go_intros split: sum.split simp: Let_def)
qed

text \<open>C34 Reconciling the token only ever creates a secret whose token is 32 hexadecimal digits,
  and only ever updates the secret it read by making the owner the one controller among its
  owner references: the token and all other references stay as they are. Besides, it reads the
  secret and draws the random bytes.\<close>

theorem token_reconcile_writes:
  "emits (insert (GetSecret (fst k, tokenSecretName (snd k))) (tokenWrites E k (NewControllerRef L owner kind)))
     (token_Reconcile E L T k owner kind)"
  (is "emits (insert ?g ?W) _")
  unfolding token_Reconcile_def
proof (rule emits_bnd_dep)
  show "emits (insert ?g ?W) (getSecret E k)" unfolding getSecret_def by (intro go_intros) simp
next
  fix r h h1 assume run: "getSecret E k h = (Some r, h1)"
  then have r: "r = e_secret E h ?g" by (auto simp: getSecret_def go_runs split: sum.splits)
  have store: "emits (insert ?g ?W) (generateAndStore E T k owner)"
    by (rule emits_mono[OF generateAndStore_writes]) blast
  show "emits (insert ?g ?W) (case (case r of Inl err \<Rightarrow> IsNotFound err | Inr _ \<Rightarrow> False) of
         True \<Rightarrow> bnd (generateAndStore E T k owner) (\<lambda>r. ret (case r of Inl err \<Rightarrow> Some err | Inr _ \<Rightarrow> None))
       | False \<Rightarrow>
           bnd (deref (case r of Inl _ \<Rightarrow> None | Inr s \<Rightarrow> Some s)) (\<lambda>s.
             if \<not> IsControlledBy L (om_OwnerReferences (s_Meta s)) owner
             then bnd (do_write E (UpdateSecret (s\<lparr>s_Meta := upsertControllerRef (NewControllerRef L owner kind) (s_Meta s)\<rparr>)))
                    (\<lambda>e. ret (map_option (\<lambda>_. Msg ''failed to update ownership of token'') e))
             else ret None))"
  proof (cases r)
    case (Inl err)
    then show ?thesis using store by (auto intro!: go_intros split: bool.split)
  next
    case (Inr s)
    let ?s = "s\<lparr>s_Meta := upsertControllerRef (NewControllerRef L owner kind) (s_Meta s)\<rparr>"
    have "ownedBy (NewControllerRef L owner kind) s ?s" unfolding ownedBy_def by (simp add: upsertControllerRef_refs)
    with r Inr have "UpdateSecret ?s \<in> ?W" unfolding tokenWrites_def by blast
    with Inr show ?thesis by (auto intro!: go_intros split: bool.split)
  qed
qed

lemma generateAndStore_nopanic: "nopanic (generateAndStore E T k owner)"
  unfolding generateAndStore_def randomB64_def by (auto intro!: go_intros split: sum.split simp: Let_def)

text \<open>C35 The reconciliation of the token panics exactly when reading its secret fails with another
  error than not found: the error is not returned, and the nil secret is dereferenced. Nothing
  was written then.\<close>

theorem token_reconcile_panics:
  "(\<exists>h'. token_Reconcile E L T k owner kind h = (None, h')) =
     (\<exists>err. e_secret E h (GetSecret (fst k, tokenSecretName (snd k))) = Inl err \<and> \<not> IsNotFound err) \<and>
   (fst (token_Reconcile E L T k owner kind h) = None \<longrightarrow>
      snd (token_Reconcile E L T k owner kind h) = h @ [GetSecret (fst k, tokenSecretName (snd k))])"
proof (cases "e_secret E h (GetSecret (fst k, tokenSecretName (snd k)))")
  case (Inl err)
  show ?thesis
  proof (cases "IsNotFound err")
    case True
    obtain r h' where "generateAndStore E T k owner (h @ [GetSecret (fst k, tokenSecretName (snd k))]) = (Some r, h')"
      using generateAndStore_nopanic by (rule nopanicE)
    with Inl True show ?thesis by (simp add: token_Reconcile_def getSecret_def go_runs)
  next
    case False
    with Inl show ?thesis by (simp add: token_Reconcile_def getSecret_def go_runs)
  qed
next
  case (Inr s)
  then show ?thesis by (simp add: token_Reconcile_def getSecret_def go_runs)
qed

theorem token_reconcile_panics_witness:
  "fst (token_Reconcile (E0\<lparr>e_secret := (\<lambda>_ _. Inl (ApiErr OtherApi ''timeout''))\<rparr>) L0 T0 (''ns'', ''c'') (meta0 ''c'' ''u'') ''Cluster'' []) = None"
  using token_reconcile_panics[of "E0\<lparr>e_secret := (\<lambda>_ _. Inl (ApiErr OtherApi ''timeout''))\<rparr>" L0 T0 "(''ns'', ''c'')"
      "meta0 ''c'' ''u''" "''Cluster''" "[]"]
  by auto

section \<open>Kubeconfig\<close>

text \<open>C36 Regenerating a kubeconfig secret writes nothing but an update of that secret, in which
  only the data changed: the new configuration is well formed and points at the same server
  as the old one.\<close>

theorem kubeconfig_regenerated:
  "emits (reads \<union> {UpdateSecret new | new. regenerated U old new}) (RegenerateSecret E U old)"
  by (rule RegenerateSecret_emits)

text \<open>The client certificate is to be rotated exactly when some user's certificate expires
  within the threshold.\<close>

lemma rotation_threshold:
  assumes "NeedsClientCertRotation E U s d h = (Some (Inr b), h')"
  shows "\<exists>data config. mget (s_Data s) KubeconfigDataName = Some data \<and> loadConfig U data = Inr config \<and>
    b = (\<exists>a\<in>set (kb_AuthInfos config). \<exists>c. decodeCertPEM U (snd (snd a)) = Inr (Some c) \<and> notAfter U c < e_now E h + sint d)"
proof -
  obtain data where data: "mget (s_Data s) KubeconfigDataName = Some data"
    using assms by (auto simp: NeedsClientCertRotation_def toKubeconfigBytes_def go_runs split: option.splits)
  obtain config where config: "loadConfig U data = Inr config"
    using assms data by (auto simp: NeedsClientCertRotation_def toKubeconfigBytes_def go_runs split: sum.splits)
  have run: "rotationLoop U (e_now E h) d (kb_AuthInfos config) = Some (Inr b)"
    using assms data config by (simp add: NeedsClientCertRotation_def toKubeconfigBytes_def go_runs deref_def split: option.splits)
  have "b = (\<exists>a\<in>set (kb_AuthInfos config). \<exists>c. decodeCertPEM U (snd (snd a)) = Inr (Some c) \<and> notAfter U c < e_now E h + sint d)"
    using rotationLoop_True[of U "e_now E h" d "kb_AuthInfos config"] rotationLoop_False[of U "e_now E h" d "kb_AuthInfos config"] run
    by (cases b) fastforce+
  with data config show ?thesis by blast
qed

section \<open>The init lock\<close>

text \<open>C15 Mutual exclusion: two machines that are both granted the lock, by clients whose calls
  are part of one serial history of the API server in which nobody released the lock, are the
  same machine.\<close>

theorem init_lock_exclusive:
  assumes "information_law K" "serves st tr st'" "\<forall>x\<in>set tr. \<not> releases x"
    and "Lock E1 K cluster m1 h1 = (Some True, h1')" "takesPart E1 h1 h1' tr"
    and "Lock E2 K cluster m2 h2 = (Some True, h2')" "takesPart E2 h2 h2' tr"
  shows "m1 = m2"
  using assms by (rule mutual_exclusion)

text \<open>The ConfigMap of a holder, an API server that hands it out, and the calls and answers
  of a run in their order.\<close>

definition heldBy :: "string \<Rightarrow> ConfigMap" where
  "heldBy m = (setMetadata cluster0 newSemaphore)\<lparr>cm_Data := Some [semaphoreInformationKey \<mapsto> m]\<rparr>"

definition E_held :: "string \<Rightarrow> env" where
  "E_held m = E0\<lparr>e_configmap := (\<lambda>_ _. Inr (heldBy m))\<rparr>"

definition answered :: "env \<Rightarrow> call list \<Rightarrow> (call \<times> answer) list" where
  "answered E h = map (\<lambda>i. (h ! i, answerOf E (take i h) (h ! i))) [0..<length h]"

lemma answered_snoc: "answered E (h @ [c]) = answered E h @ [(c, answerOf E h c)]"
  by (simp add: answered_def nth_append)

lemma answered_Nil [simp]: "answered E [] = []"
  by (simp add: answered_def)

lemma answered_takesPart:
  assumes "set (answered E h') \<subseteq> set tr"
  shows "takesPart E [] h' tr"
  unfolding takesPart_def
proof (intro allI impI)
  fix g c t assume "h' = g @ c # t \<and> length ([] :: call list) \<le> length g"
  then have "(c, answerOf E g c) \<in> set (answered E h')"
    unfolding answered_def by (auto simp: nth_append image_iff intro!: bexI[of _ "length g"])
  with assms show "(c, answerOf E g c) \<in> set tr" by blast
qed

lemma K0_law: "information_law K0"
  by (simp add: information_law_def K0_def)

lemma information_heldBy: "information K0 (heldBy m) = Inr m"
  by (simp add: information_def heldBy_def K0_def)

lemma Lock_free:
  assumes "e_configmap E h (GetConfigMap (lockKey cluster0)) = Inl (ApiErr NotFound [])"
    "e_err E (h @ [GetConfigMap (lockKey cluster0)]) (CreateConfigMap (heldBy m)) = None"
  shows "Lock E K0 cluster0 m h = (Some True, h @ [GetConfigMap (lockKey cluster0), CreateConfigMap (heldBy m)])"
  using assms by (simp add: Lock_def acquire_def setInformation_def heldBy_def K0_def go_runs)

lemma Lock_held:
  "Lock (E_held m) K0 cluster0 m' h =
     (if m = m' then (Some True, h @ [GetConfigMap (lockKey cluster0)])
      else (Some False, h @ [GetConfigMap (lockKey cluster0), GetMachine (''ns'', m)]))"
  using information_heldBy[of m]
  by (simp add: Lock_def checkHolder_def E_held_def E0_def cluster0_def meta0_def go_runs)

theorem init_lock_exclusive_witness:
  "{m. fst (Lock (E_held ''m1'') K0 cluster0 m []) = Some True \<and> fst (Lock E0 K0 cluster0 ''m1'' []) = Some True} = {''m1''}"
proof -
  let ?k = "lockKey cluster0" and ?cm = "heldBy ''m1''"
  let ?h1 = "[GetConfigMap ?k, CreateConfigMap ?cm]" and ?h2 = "[GetConfigMap ?k]"
  let ?tr = "answered E0 ?h1 @ answered (E_held ''m1'') ?h2"
  have tr: "?tr = (([] @ [(GetConfigMap ?k, AGet (Inl (ApiErr NotFound [])))]) @ [(CreateConfigMap ?cm, AWrite None)]) @
      [(GetConfigMap ?k, AGet (Inr ?cm))]"
    by (simp add: answered_def answerOf_def E0_def E_held_def numeral_2_eq_2)
  have sv: "serves None ?tr (Some ?cm)"
    unfolding tr by (intro serves.found serves.created serves.missing serves.start)
  have nr: "\<forall>x\<in>set ?tr. \<not> releases x" unfolding tr by (simp add: releases_def)
  have l1: "Lock E0 K0 cluster0 ''m1'' [] = (Some True, ?h1)" using Lock_free[of E0 "[]" "''m1''"] by (simp add: E0_def)
  have "m = ''m1''" if m: "fst (Lock (E_held ''m1'') K0 cluster0 m []) = Some True" for m
  proof -
    have l2: "Lock (E_held ''m1'') K0 cluster0 m [] = (Some True, ?h2)" using m by (simp add: Lock_held split: if_splits)
    show ?thesis
      using init_lock_exclusive[OF K0_law sv nr l1 _ l2] answered_takesPart[of E0 ?h1 ?tr] answered_takesPart[of "E_held ''m1''" ?h2 ?tr]
      by simp
  qed
  with l1 Lock_held[of "''m1''" "''m1''" "[]"] show ?thesis by auto
qed

text \<open>An API server at which the holder A of the lock no longer exists.\<close>

definition E_vanished :: env where
  "E_vanished = E0\<lparr>e_configmap := (\<lambda>h _. if length h < 4 then Inr (heldBy ''A'') else Inl (ApiErr NotFound [])),
     e_machine := (\<lambda>_ _. Inl (ApiErr NotFound []))\<rparr>"

definition recovering :: "call list" where
  "recovering = [GetConfigMap (lockKey cluster0), GetMachine (''ns'', ''A''), GetConfigMap (lockKey cluster0),
     DeleteConfigMap (heldBy ''A'')]"

lemma Lock_recovers:
  "m \<noteq> ''A'' \<Longrightarrow> Lock E_vanished K0 cluster0 m [] = (Some False, recovering)"
  "Lock E_vanished K0 cluster0 m recovering =
     (Some True, recovering @ [GetConfigMap (lockKey cluster0), CreateConfigMap (heldBy m)])"
  using information_heldBy[of "''A''"] Lock_free[of E_vanished recovering m]
  by (auto simp: Lock_def checkHolder_def Unlock_def recovering_def E_vanished_def E0_def cluster0_def meta0_def go_runs)

text \<open>C26 Without that condition the lock is not exclusive. The recovery from a holder that no
  longer exists deletes the ConfigMap whatever it contains by then: of two machines that both
  find the vanished holder A, C deletes A's lock and acquires its own; then B's deletion, still
  under way, removes the lock of C, and B acquires it too. C has not released the lock.\<close>

theorem init_lock_race:
  "\<exists>hB hC. Lock E_vanished K0 cluster0 ''B'' recovering = (Some True, hB) \<and>
     Lock E_vanished K0 cluster0 ''C'' recovering = (Some True, hC) \<and>
     fst (Lock E_vanished K0 cluster0 ''B'' []) = Some False \<and> snd (Lock E_vanished K0 cluster0 ''B'' []) = recovering \<and>
     fst (Lock E_vanished K0 cluster0 ''C'' []) = Some False \<and> snd (Lock E_vanished K0 cluster0 ''C'' []) = recovering \<and>
     serves (Some (heldBy ''A''))
       (take 3 (answered E_vanished hB) @ answered E_vanished hC @ drop 3 (answered E_vanished hB)) (Some (heldBy ''B''))"
proof -
  let ?k = "lockKey cluster0" and ?A = "heldBy ''A''"
  let ?read = "[(GetConfigMap ?k, AGet (Inr ?A)), (GetMachine (''ns'', ''A''), ANone), (GetConfigMap ?k, AGet (Inr ?A))]"
  let ?take = "\<lambda>m. [(DeleteConfigMap ?A, AWrite None), (GetConfigMap ?k, AGet (Inl (ApiErr NotFound []))),
      (CreateConfigMap (heldBy m), AWrite None)]"
  have ans: "answered E_vanished (recovering @ [GetConfigMap ?k, CreateConfigMap (heldBy m)]) = ?read @ ?take m" for m
    by (simp add: answered_def answerOf_def recovering_def E_vanished_def E0_def upt_rec nth_Cons')
  have r: "serves st tr (Some ?A) \<Longrightarrow> serves st (tr @ ?read) (Some ?A)" for st tr
    using serves.found[OF serves.other[OF serves.found[of st tr ?A ?k], of "GetMachine (''ns'', ''A'')"], of ?k] by (simp add: onConfigMaps_def)
  have t: "serves st tr (Some cm) \<Longrightarrow> serves st (tr @ ?take m) (Some (heldBy m))" for st tr cm m
    using serves.created[OF serves.missing[OF serves.deleted[of st tr cm ?A], of ?k "[]"], of "heldBy m"] by simp
  have "serves (Some ?A) (((([] @ ?read) @ ?read) @ ?take ''C'') @ ?take ''B'') (Some (heldBy ''B''))"
    by (rule t, rule t, rule r, rule r, rule serves.start)
  then show ?thesis using Lock_recovers[of "''B''"] Lock_recovers[of "''C''"] ans by simp
qed

end
