(* ===== verification/K3sConfig.thy ===== *)
theory K3sConfig
  imports ApiTypes
begin

text \<open>
  \<^verbatim>\<open>pkg/k3s/config.go\<close>: the configuration of the k3s server and agent processes of a
  node, for the first control plane machine, a joining one, and a worker.
\<close>

definition DefaultK3sConfigLocation :: string where
  "DefaultK3sConfigLocation = ''/etc/rancher/k3s/config.yaml''"

record K3sAgentConfig =
  ka_Token :: string
  ka_Server :: string
  ka_KubeletArgs :: "string slice"
  ka_NodeLabels :: "string slice"
  ka_NodeTaints :: "string slice"
  ka_PrivateRegistry :: string
  ka_KubeProxyArgs :: "string slice"
  ka_NodeName :: string

record K3sServerConfig =
  ks3_DisableCloudController :: bool
  ks3_KubeAPIServerArgs :: "string slice"
  ks3_KubeControllerManagerArgs :: "string slice"
  ks3_KubeSchedulerArgs :: "string slice"
  ks3_TLSSan :: "string slice"
  ks3_BindAddress :: string
  ks3_HTTPSListenPort :: string
  ks3_AdvertiseAddress :: string
  ks3_AdvertisePort :: string
  ks3_ClusterCidr :: string
  ks3_ServiceCidr :: string
  ks3_ClusterDNS :: string
  ks3_ClusterDomain :: string
  ks3_DisableComponents :: "string slice"
  ks3_ClusterInit :: bool
  ks3_SystemDefaultRegistry :: string
  ks3_AgentConfig :: K3sAgentConfig

section \<open>Arguments\<close>

definition ciphers :: "string list" where
  "ciphers = [''TLS_ECDHE_ECDSA_WITH_AES_256_GCM_SHA384'', ''TLS_ECDHE_RSA_WITH_AES_256_GCM_SHA384'',
     ''TLS_ECDHE_ECDSA_WITH_AES_128_GCM_SHA256'', ''TLS_ECDHE_RSA_WITH_AES_128_GCM_SHA256'',
     ''TLS_ECDHE_ECDSA_WITH_CHACHA20_POLY1305'', ''TLS_ECDHE_RSA_WITH_CHACHA20_POLY1305'',
     ''TLS_RSA_WITH_AES_128_GCM_SHA256'', ''TLS_RSA_WITH_AES_256_GCM_SHA384'']"

text \<open>\<^verbatim>\<open>strings.TrimRight\<close> with one character.\<close>

definition TrimRight :: "string \<Rightarrow> char \<Rightarrow> string" where
  "TrimRight s c = rev (dropWhile (\<lambda>x. x = c) (rev s))"

definition getTLSCipherSuiteArg :: string where
  "getTLSCipherSuiteArg =
     ''tls-cipher-suites='' @ TrimRight (foldl (\<lambda>ciphersList cc. ciphersList @ cc @ '','') [] ciphers) CHR '',''"

definition getKubeletExtraArgs :: "KThreesServerConfig \<Rightarrow> string list" where
  "getKubeletExtraArgs serverConfig =
     (case sc_CloudProviderName serverConfig of
        None \<Rightarrow> []
      | Some n \<Rightarrow> if length n > 0 then [''cloud-provider='' @ n] else [])"

definition getDisableCloudController :: "KThreesServerConfig \<Rightarrow> bool" where
  "getDisableCloudController serverConfig =
     (case sc_DisableCloudController serverConfig of None \<Rightarrow> True | Some b \<Rightarrow> b)"

section \<open>The three configurations\<close>

definition agentConfigFor ::
  "string \<Rightarrow> string \<Rightarrow> KThreesServerConfig \<Rightarrow> KThreesAgentConfig \<Rightarrow> K3sAgentConfig" where
  "agentConfigFor serverURL token serverConfig agentConfig =
     \<lparr>ka_Token = token, ka_Server = serverURL,
      ka_KubeletArgs = append_slice (ac_KubeletArgs agentConfig) (getKubeletExtraArgs serverConfig),
      ka_NodeLabels = ac_NodeLabels agentConfig, ka_NodeTaints = ac_NodeTaints agentConfig,
      ka_PrivateRegistry = ac_PrivateRegistry agentConfig, ka_KubeProxyArgs = ac_KubeProxyArgs agentConfig,
      ka_NodeName = ac_NodeName agentConfig\<rparr>"

definition serverConfigFor ::
  "bool \<Rightarrow> string \<Rightarrow> KThreesServerConfig \<Rightarrow> K3sAgentConfig \<Rightarrow> K3sServerConfig" where
  "serverConfigFor clusterInit controlPlaneEndpoint serverConfig agent =
     \<lparr>ks3_DisableCloudController = getDisableCloudController serverConfig,
      ks3_KubeAPIServerArgs = append_slice (sc_KubeAPIServerArgs serverConfig) [''anonymous-auth=true'', getTLSCipherSuiteArg],
      ks3_KubeControllerManagerArgs = append_slice (sc_KubeControllerManagerArgs serverConfig) (getKubeletExtraArgs serverConfig),
      ks3_KubeSchedulerArgs = sc_KubeSchedulerArgs serverConfig,
      ks3_TLSSan = append_slice (sc_TLSSan serverConfig) [controlPlaneEndpoint],
      ks3_BindAddress = sc_BindAddress serverConfig, ks3_HTTPSListenPort = sc_HTTPSListenPort serverConfig,
      ks3_AdvertiseAddress = sc_AdvertiseAddress serverConfig, ks3_AdvertisePort = sc_AdvertisePort serverConfig,
      ks3_ClusterCidr = sc_ClusterCidr serverConfig, ks3_ServiceCidr = sc_ServiceCidr serverConfig,
      ks3_ClusterDNS = sc_ClusterDNS serverConfig, ks3_ClusterDomain = sc_ClusterDomain serverConfig,
      ks3_DisableComponents = sc_DisableComponents serverConfig, ks3_ClusterInit = clusterInit,
      ks3_SystemDefaultRegistry = sc_SystemDefaultRegistry serverConfig, ks3_AgentConfig = agent\<rparr>"

definition GenerateInitControlPlaneConfig ::
  "string \<Rightarrow> string \<Rightarrow> KThreesServerConfig \<Rightarrow> KThreesAgentConfig \<Rightarrow> K3sServerConfig" where
  "GenerateInitControlPlaneConfig controlPlaneEndpoint token serverConfig agentConfig =
     serverConfigFor True controlPlaneEndpoint serverConfig (agentConfigFor [] token serverConfig agentConfig)"

definition GenerateJoinControlPlaneConfig ::
  "string \<Rightarrow> string \<Rightarrow> string \<Rightarrow> KThreesServerConfig \<Rightarrow> KThreesAgentConfig \<Rightarrow> K3sServerConfig" where
  "GenerateJoinControlPlaneConfig serverURL token controlplaneendpoint serverConfig agentConfig =
     serverConfigFor False controlplaneendpoint serverConfig (agentConfigFor serverURL token serverConfig agentConfig)"

definition GenerateWorkerConfig ::
  "string \<Rightarrow> string \<Rightarrow> KThreesServerConfig \<Rightarrow> KThreesAgentConfig \<Rightarrow> K3sAgentConfig" where
  "GenerateWorkerConfig serverURL token serverConfig agentConfig = agentConfigFor serverURL token serverConfig agentConfig"

section \<open>Properties\<close>

lemma init_is_join_without_server:
  "GenerateInitControlPlaneConfig ep t s a =
     (GenerateJoinControlPlaneConfig url t ep s a)
       \<lparr>ks3_ClusterInit := True,
        ks3_AgentConfig := (ks3_AgentConfig (GenerateJoinControlPlaneConfig url t ep s a))\<lparr>ka_Server := []\<rparr>\<rparr>"
  by (simp add: GenerateInitControlPlaneConfig_def GenerateJoinControlPlaneConfig_def serverConfigFor_def agentConfigFor_def)

lemma TrimRight_snoc: "xs \<noteq> [] \<Longrightarrow> last xs \<noteq> c \<Longrightarrow> TrimRight (xs @ [c]) c = xs"
  by (cases xs rule: rev_cases) (auto simp: TrimRight_def)

text \<open>The cipher argument is the list of names, separated by commas.\<close>

lemma cipher_argument: "getTLSCipherSuiteArg = ''tls-cipher-suites='' @ Join ciphers '',''"
  by (simp add: getTLSCipherSuiteArg_def ciphers_def TrimRight_def)

lemma defaulted_arguments:
  "getDisableCloudController (defaultServerConfig s) = getDisableCloudController s"
  "sc_CloudProviderName s = None \<Longrightarrow> getKubeletExtraArgs (defaultServerConfig s) = [''cloud-provider=external'']"
  "sc_CloudProviderName s \<noteq> None \<Longrightarrow> getKubeletExtraArgs (defaultServerConfig s) = getKubeletExtraArgs s"
  by (auto simp: getDisableCloudController_def getKubeletExtraArgs_def defaultServerConfig_def Let_def split: option.split)

end
