(* ===== verification/CloudInit.thy ===== *)
theory CloudInit
  imports Certificates
begin

text \<open>
  \<^verbatim>\<open>pkg/cloudinit\<close>: the cloud-config user data of a node. The templates are fixed
  texts, so their execution is written out: the white space next to the trim markers is
  gone, and \<^verbatim>\<open>printf "%q"\<close> is \<^verbatim>\<open>strconv.Quote\<close>, here for bytes; those above 127
  are kept, as they are for printable UTF-8. The version is put into the template before it
  is parsed: a version with actions of its own is left to the parameter \<open>other\<close>.
\<close>

section \<open>Templates\<close>

definition newline :: char where "newline = CHR 0x0A"

definition templateYAMLIndent :: "nat \<Rightarrow> string \<Rightarrow> string" where
  "templateYAMLIndent i input =
     (let split = Split input newline; ident = newline # replicate i CHR '' ''
      in replicate i CHR '' '' @ Join split ident)"

definition hexPair :: "char \<Rightarrow> string" where
  "hexPair c = [''0123456789abcdef'' ! (of_char c div 16), ''0123456789abcdef'' ! (of_char c mod 16)]"

definition quoteChar :: "char \<Rightarrow> string" where
  "quoteChar c =
     (let n = (of_char c :: nat); bs = CHR 0x5C in
      if n = 34 \<or> n = 92 then [bs, c]
      else if n = 7 then [bs, CHR ''a''] else if n = 8 then [bs, CHR ''b''] else if n = 12 then [bs, CHR ''f'']
      else if n = 10 then [bs, CHR ''n''] else if n = 13 then [bs, CHR ''r''] else if n = 9 then [bs, CHR ''t'']
      else if n = 11 then [bs, CHR ''v'']
      else if n < 32 \<or> n = 127 then [bs, CHR ''x''] @ hexPair c
      else [c])"

definition quote :: "string \<Rightarrow> string" where
  "quote s = CHR 0x22 # concat (map quoteChar s) @ [CHR 0x22]"

definition k3s_header :: string where
  "k3s_header = ''## template: jinja'' @ [newline] @ ''#cloud-config'' @ [newline]"
definition sentinelFileCommand :: string where
  "sentinelFileCommand = ''mkdir -p /run/cluster-api && echo success > /run/cluster-api/bootstrap-success.complete''"
definition defaultAirGappedInstallScriptPath :: string where
  "defaultAirGappedInstallScriptPath = ''/opt/install.sh''"

text \<open>A line break and the four spaces before an attribute of a file.\<close>

definition attribute :: string where "attribute = newline # ''    ''"

definition fileEntry :: "File \<Rightarrow> string" where
  "fileEntry f =
     newline # ''-   path: '' @ f_Path f @ attribute @
     (if f_Encoding f \<noteq> [] then ''encoding: \"'' @ f_Encoding f @ ''\"'' @ attribute else []) @
     (if f_Owner f \<noteq> [] then ''owner: '' @ f_Owner f @ attribute else []) @
     (if f_Permissions f \<noteq> [] then ''permissions: '' @ [CHR 0x27] @ f_Permissions f @ [CHR 0x27] @ attribute else []) @
     ''content: |'' @ [newline] @ templateYAMLIndent 6 (f_Content f)"

definition filesTemplate :: "File list \<Rightarrow> string" where
  "filesTemplate fs = ''write_files:'' @ concat (map fileEntry fs)"

definition commandsTemplate :: "string list \<Rightarrow> string" where
  "commandsTemplate cs = concat (map (\<lambda>c. newline # ''  - '' @ quote c) cs)"

section \<open>User data\<close>

record BaseUserData =
  bu_Header :: string
  bu_PreK3sCommands :: "string list"
  bu_PostK3sCommands :: "string list"
  bu_AdditionalFiles :: "File list"
  bu_WriteFiles :: "File list"
  bu_ConfigFile :: File
  bu_K3sVersion :: string
  bu_AirGapped :: bool
  bu_AirGappedInstallScriptPath :: string
  bu_SentinelFileCommand :: string

definition prepare :: "BaseUserData \<Rightarrow> BaseUserData" where
  "prepare input =
     input\<lparr>bu_Header := k3s_header,
       bu_WriteFiles := (bu_WriteFiles input @ bu_AdditionalFiles input) @ [bu_ConfigFile input],
       bu_AirGappedInstallScriptPath :=
         (if bu_AirGappedInstallScriptPath input = [] then defaultAirGappedInstallScriptPath
          else bu_AirGappedInstallScriptPath input),
       bu_SentinelFileCommand := sentinelFileCommand\<rparr>"

fun hasAction :: "string \<Rightarrow> bool" where
  "hasAction (a # b # cs) = (a = CHR ''{'' \<and> b = CHR ''{'' \<or> hasAction (b # cs))"
| "hasAction _ = False"

definition installCommand :: "string \<Rightarrow> string \<Rightarrow> string \<Rightarrow> BaseUserData \<Rightarrow> string" where
  "installCommand role afterPath pipe d =
     (if bu_AirGapped d
      then '' INSTALL_K3S_SKIP_DOWNLOAD=true INSTALL_K3S_EXEC='' @ [CHR 0x27] @ role @ [CHR 0x27] @ '' sh '' @
           bu_AirGappedInstallScriptPath d @ afterPath
      else '' curl -sfL https://get.k3s.io |'' @ pipe @ ''INSTALL_K3S_VERSION='' @ bu_K3sVersion d @ '' sh -s - '' @ role @ '' '')"

definition cloudConfig :: "string \<Rightarrow> BaseUserData \<Rightarrow> string" where
  "cloudConfig install d =
     bu_Header d @ [newline] @ filesTemplate (bu_WriteFiles d) @ [newline] @ ''runcmd:'' @
     commandsTemplate (bu_PreK3sCommands d) @ [newline] @ ''  - '' @ install @ '' && '' @ bu_SentinelFileCommand d @
     commandsTemplate (bu_PostK3sCommands d) @ [newline]"

type_synonym otherTemplate = "string \<Rightarrow> BaseUserData \<Rightarrow> goerr + string"

definition generate :: "otherTemplate \<Rightarrow> string \<Rightarrow> string \<Rightarrow> BaseUserData \<Rightarrow> goerr + string" where
  "generate other kind install d =
     (if hasAction (bu_K3sVersion d) then other kind d else Inr (cloudConfig install d))"

definition controlPlaneInstall :: "BaseUserData \<Rightarrow> string" where
  "controlPlaneInstall d = installCommand ''server'' '' '' '' '' d"
definition workerInstall :: "BaseUserData \<Rightarrow> string" where
  "workerInstall d = installCommand ''agent'' [] ''  '' d"

text \<open>\<open>None\<close>: a certificate without key pair is dereferenced.\<close>

definition NewInitControlPlane :: "otherTemplate \<Rightarrow> Certificate list \<Rightarrow> BaseUserData \<Rightarrow> (goerr + string) option" where
  "NewInitControlPlane other certificates input =
     map_option (\<lambda>fs. let d = prepare (input\<lparr>bu_WriteFiles := fs\<rparr>)
        in generate other ''InitControlplane'' (controlPlaneInstall d) d)
     (AsFiles certificates)"

definition NewJoinControlPlane :: "otherTemplate \<Rightarrow> BaseUserData \<Rightarrow> goerr + string" where
  "NewJoinControlPlane other input =
     (let d = prepare input in generate other ''JoinControlplane'' (controlPlaneInstall d) d)"

definition NewWorker :: "otherTemplate \<Rightarrow> BaseUserData \<Rightarrow> goerr + string" where
  "NewWorker other input = (let d = prepare input in generate other ''Worker'' (workerInstall d) d)"

section \<open>Properties\<close>

subsection \<open>Indentation\<close>

lemma Split_append_nl: "c \<notin> set w \<Longrightarrow> Split (w @ c # s) c = w # Split s c"
  by (induction w) auto

lemma Split_none: "c \<notin> set w \<Longrightarrow> Split w c = [w]"
  by (induction w) auto

lemma Split_Join: "ws \<noteq> [] \<Longrightarrow> \<forall>w\<in>set ws. c \<notin> set w \<Longrightarrow> Split (Join ws [c]) c = ws"
  by (induction ws rule: induct_list012) (auto simp: Split_none Split_append_nl)

lemma Split_free: "w \<in> set (Split s c) \<Longrightarrow> c \<notin> set w"
  by (induction s arbitrary: w) (auto split: if_splits list.splits)

lemma Join_indent: "ws \<noteq> [] \<Longrightarrow> p @ Join ws (c # p) = Join (map (\<lambda>w. p @ w) ws) [c]"
  by (induction ws rule: induct_list012) auto

text \<open>Indenting adds the spaces in front of every line and nothing else.\<close>

lemma Indent_lines:
  "Split (templateYAMLIndent i s) newline = map (\<lambda>w. replicate i CHR '' '' @ w) (Split s newline)"
proof -
  have "newline \<noteq> CHR '' ''" by (simp add: newline_def)
  then have "\<forall>w\<in>set (map (\<lambda>w. replicate i CHR '' '' @ w) (Split s newline)). newline \<notin> set w"
    using Split_free[of _ s newline] by auto
  then show ?thesis
    unfolding templateYAMLIndent_def Let_def Join_indent[OF Split_ne] by (intro Split_Join) simp_all
qed

lemma Indent_unindent: "Join (map (drop i) (Split (templateYAMLIndent i s) newline)) [newline] = s"
  by (simp add: Indent_lines o_def Join_Split)

subsection \<open>Files\<close>

lemma prepare_files:
  "bu_WriteFiles (prepare d) = bu_WriteFiles d @ bu_AdditionalFiles d @ [bu_ConfigFile d]"
  by (simp add: prepare_def)

subsection \<open>Commands\<close>

lemma hexPair_printable: "x \<in> set (hexPair c) \<Longrightarrow> 32 \<le> (of_char x :: nat)"
proof -
  have all: "\<forall>x\<in>set ''0123456789abcdef''. 32 \<le> (of_char x :: nat)" by simp
  have "(of_char c :: nat) < 16 * 16" by simp
  then have "of_char c div 16 < (16::nat)" by (rule less_mult_imp_div_less)
  moreover have "of_char c mod 16 < (16::nat)" by simp
  moreover have "''0123456789abcdef'' ! n \<in> set ''0123456789abcdef''" if "n < 16" for n
    using that by (intro nth_mem) simp
  ultimately have hex: "set (hexPair c) \<subseteq> set ''0123456789abcdef''"
    unfolding hexPair_def by (metis empty_subsetI insert_subset list.set(1) list.set(2))
  assume "x \<in> set (hexPair c)"
  with hex all show ?thesis by blast
qed

lemma quoteChar_printable: "x \<in> set (quoteChar c) \<Longrightarrow> 32 \<le> (of_char x :: nat)"
  using hexPair_printable[of x c] by (auto simp: quoteChar_def Let_def split: if_splits)

lemma quote_printable: "x \<in> set (quote s) \<Longrightarrow> 32 \<le> (of_char x :: nat)"
  by (auto simp: quote_def dest: quoteChar_printable)

text \<open>So every command takes one line of the list.\<close>

lemma commandsTemplate_lines:
  "Split (commandsTemplate cs) newline = [] # map (\<lambda>c. ''  - '' @ quote c) cs"
proof (induction cs rule: rev_induct)
  case (snoc c cs)
  have nl: "newline \<notin> set (''  - '' @ quote c)"
    using quote_printable[of newline c] by (auto simp: newline_def)
  have Split_last: "Split (w @ newline # v) newline = Split w newline @ [v]" if "newline \<notin> set v" for w v
    using that by (induction w) (auto simp: Split_none split: list.split)
  show ?case using Split_last[OF nl] snoc by (simp add: commandsTemplate_def)
qed (simp add: commandsTemplate_def)

end
