(* ===== verification/Bootstrap.thy ===== *)
theory Bootstrap
  imports Token K3sConfig CloudInit InitLock WorkloadCluster
begin

text \<open>
  \<^verbatim>\<open>bootstrap/controllers/kthreesconfig_controller.go\<close>: the reconciler of
  KThreesConfig. It decides between initializing the control plane (under the init lock),
  joining it, and joining a worker, and stores the user data in a secret. The functions
  change the configuration object in place; here they return it.
\<close>

section \<open>The owner of a configuration\<close>

text \<open>\<^verbatim>\<open>bsutil.ConfigOwner\<close>: its fields as the controller reads them, and the outcome
  of converting it to a Machine (its name and version).\<close>

record ConfigOwner =
  co_Kind :: string
  co_Namespace :: string
  co_ClusterName :: string
  co_DataSecretName :: "string option"
  co_IsControlPlaneMachine :: bool
  co_Machine :: "goerr + string \<times> string option"

record bootEnv =
  be_owner :: "call list \<Rightarrow> call \<Rightarrow> goerr + ConfigOwner option"
  be_cluster :: "call list \<Rightarrow> call \<Rightarrow> goerr + Cluster"

record bootLib =
  marshalServer :: "K3sServerConfig \<Rightarrow> goerr + string"
  marshalAgent :: "K3sAgentConfig \<Rightarrow> goerr + string"
  otherTpl :: otherTemplate
  endpointString :: "APIEndpoint \<Rightarrow> string"

definition ErrInvalidRef :: goerr where "ErrInvalidRef = Sentinel ''invalid reference''"
definition ErrFailedUnlock :: goerr where "ErrFailedUnlock = Sentinel ''failed to unlock the k3s init lock''"
definition ErrNoCluster :: string where "ErrNoCluster = ''no cluster name label present''"
definition DataSecretGenerationFailedReason :: string where
  "DataSecretGenerationFailedReason = ''DataSecretGenerationFailed''"
definition WaitingForClusterInfrastructureReason :: string where
  "WaitingForClusterInfrastructureReason = ''WaitingForClusterInfrastructure''"
definition WaitingForControlPlaneAvailableReason :: string where
  "WaitingForControlPlaneAvailableReason = ''WaitingForControlPlaneAvailable''"
definition CertificatesGenerationFailedReason :: string where
  "CertificatesGenerationFailedReason = ''CertificatesGenerationFailed''"
definition bootstrap_group_version :: string where
  "bootstrap_group_version = ''bootstrap.cluster.x-k8s.io/v1beta2''"

definition kt_MarkTrue :: "lib \<Rightarrow> KThreesConfig \<Rightarrow> string \<Rightarrow> KThreesConfig" where
  "kt_MarkTrue L c t = kt_SetConditions c (v1MarkTrue L t (kt_GetConditions c))"
definition kt_MarkFalse :: "lib \<Rightarrow> KThreesConfig \<Rightarrow> string \<Rightarrow> string \<Rightarrow> Severity \<Rightarrow> string \<Rightarrow> KThreesConfig" where
  "kt_MarkFalse L c t reason sev msg = kt_SetConditions c (v1MarkFalse L t reason sev msg (kt_GetConditions c))"

definition dataFailed :: "lib \<Rightarrow> KThreesConfig \<Rightarrow> goerr \<Rightarrow> KThreesConfig" where
  "dataFailed L config err =
     kt_MarkFalse L config DataSecretAvailableCondition DataSecretGenerationFailedReason SevWarning (errText L err)"

section \<open>Files\<close>

definition resolveSecretFileContent :: "env \<Rightarrow> string \<Rightarrow> SecretFileSource \<Rightarrow> (call, goerr + string) go" where
  "resolveSecretFileContent E ns source =
     bnd (api E e_secret (GetSecret (ns, sf_Name source))) (\<lambda>r. case r of
       Inl err \<Rightarrow>
         ret (Inl (Wrap (if IsNotFound err then ''secret not found'' else ''failed to retrieve Secret'') err))
     | Inr secret \<Rightarrow>
        (case mget (s_Data secret) (sf_Key source) of
           None \<Rightarrow> ret (Inl (Wrap ''secret references non-existent secret key'' ErrInvalidRef))
         | Some data \<Rightarrow> ret (Inr data)))"

primrec resolveLoop :: "env \<Rightarrow> string \<Rightarrow> File list \<Rightarrow> File list \<Rightarrow> (call, goerr + File list) go" where
  "resolveLoop E ns [] collected = ret (Inr collected)"
| "resolveLoop E ns (f # fs) collected =
     (case f_ContentFrom f of
        None \<Rightarrow> resolveLoop E ns fs (collected @ [f])
      | Some src \<Rightarrow>
          bnd (resolveSecretFileContent E ns (fs_Secret src)) (\<lambda>r. case r of
            Inl err \<Rightarrow> ret (Inl (Wrap ''failed to resolve file source'' err))
          | Inr data \<Rightarrow> resolveLoop E ns fs (collected @ [f\<lparr>f_ContentFrom := None, f_Content := data\<rparr>])))"

definition resolveFiles :: "env \<Rightarrow> KThreesConfig \<Rightarrow> (call, goerr + File list) go" where
  "resolveFiles E cfg = resolveLoop E (om_Namespace (kt_Meta cfg)) (elems (kc_Files (kt_Spec cfg))) []"

text \<open>The lines of \<^verbatim>\<open>pkg/etcd/etcd-proxy.yaml\<close> before and after its conditional.\<close>

definition proxyBefore :: "string list" where
  "proxyBefore = [
    ''apiVersion: apps/v1'', ''kind: DaemonSet'', ''metadata:'', ''  name: etcd-proxy'',
    ''  namespace: kube-system'', ''  labels:'', ''    app: etcd-proxy'', ''spec:'', ''  selector:'',
    ''    matchLabels:'', ''      app: etcd-proxy'', ''  template:'', ''    metadata:'', ''      labels:'',
    ''        app: etcd-proxy'', ''    spec:'', ''      nodeSelector:'',
    ''        node-role.kubernetes.io/etcd: \"true\"'', ''      tolerations:'',
    ''      - key: node-role.kubernetes.io/control-plane'', ''        operator: Exists'',
    ''        effect: NoSchedule'', ''      - key: node-role.kubernetes.io/master'',
    ''        operator: Exists'', ''        effect: NoSchedule'', ''      containers:'',
    ''      - name: etcd-proxy'']"

definition proxyAfter :: "string list" where
  "proxyAfter = [
    ''        env:'', ''        - name: HOSTIP'', ''          valueFrom:'', ''            fieldRef:'',
    ''              fieldPath: status.hostIP'', ''        args: '',
    ''        - TCP4-LISTEN:2379,fork,reuseaddr'', ''        - TCP4:$(HOSTIP):2379'', ''        resources:'',
    ''          limits:'', ''            memory: 200Mi'', ''          requests:'', ''            cpu: 100m'',
    ''            memory: 200Mi'', ''        volumeMounts:'', ''        - name: varlog'',
    ''          mountPath: /var/log'', ''      terminationGracePeriodSeconds: 30'', ''      volumes:'',
    ''      - name: varlog'', ''        hostPath:'', ''          path: /var/log'', []]"

definition EtcdProxyDaemonsetYamlLocation :: string where
  "EtcdProxyDaemonsetYamlLocation = ''/var/lib/rancher/k3s/server/manifests/etcd-proxy.yaml''"

definition rootFile :: "string \<Rightarrow> string \<Rightarrow> File" where
  "rootFile path content =
     \<lparr>f_Path = path, f_Owner = ''root:root'', f_Permissions = ''0640'', f_Encoding = [], f_Content = content,
      f_ContentFrom = None\<rparr>"

definition etcdProxyImage :: "KThreesConfig \<Rightarrow> string" where
  "etcdProxyImage cfg =
     (let systemDefaultRegistry = sc_SystemDefaultRegistry (kc_ServerConfig (kt_Spec cfg));
          systemDefaultRegistry = (if systemDefaultRegistry \<noteq> [] then systemDefaultRegistry @ ''/'' else [])
      in if sc_EtcdProxyImage (kc_ServerConfig (kt_Spec cfg)) \<noteq> [] then sc_EtcdProxyImage (kc_ServerConfig (kt_Spec cfg))
         else systemDefaultRegistry @ ''alpine/socat:1.8.0.0'')"

definition resolveEtcdProxyFile :: "KThreesConfig \<Rightarrow> File" where
  "resolveEtcdProxyFile cfg =
     rootFile EtcdProxyDaemonsetYamlLocation
       (Join (proxyBefore @ [''        '', ''        image: '' @ etcdProxyImage cfg, ''        ''] @ proxyAfter) [newline])"

section \<open>User data\<close>

definition storeBootstrapData ::
  "env \<Rightarrow> lib \<Rightarrow> Cluster \<Rightarrow> KThreesConfig \<Rightarrow> string \<Rightarrow> (call, KThreesConfig \<times> goerr option) go" where
  "storeBootstrapData E L cluster config data =
     (let secret = \<lparr>s_Meta = emptyMeta\<lparr>om_Name := om_Name (kt_Meta config), om_Namespace := om_Namespace (kt_Meta config),
              om_Labels := Some [ClusterNameLabel \<mapsto> cl_Name cluster],
              om_OwnerReferences := [\<lparr>or_APIVersion = bootstrap_group_version, or_Kind = ''KThreesConfig'',
                 or_Name = om_Name (kt_Meta config), or_UID = om_UID (kt_Meta config), or_Controller = Some True\<rparr>]\<rparr>,
            s_Data = Some [''value'' \<mapsto> data], s_Type = ClusterSecretType\<rparr>;
          ready = kt_MarkTrue L (config\<lparr>kt_Status := (kt_Status config)
                    \<lparr>ks_DataSecretName := Some (om_Name (kt_Meta config)), ks_Ready := True\<rparr>\<rparr>) DataSecretAvailableCondition
      in bnd (do_write E (CreateSecret secret)) (\<lambda>e. case e of
           None \<Rightarrow> ret (ready, None)
         | Some err \<Rightarrow>
             if \<not> IsAlreadyExists err then ret (config, Some (Wrap ''failed to create bootstrap data secret for KThreesConfig'' err))
             else bnd (do_write E (UpdateSecret secret)) (\<lambda>e. case e of
               Some err \<Rightarrow> ret (config, Some (Wrap ''failed to update bootstrap data secret for KThreesConfig'' err))
             | None \<Rightarrow> ret (ready, None))))"

definition reconcileTopLevelObjectSettings :: "string option \<Rightarrow> KThreesConfig \<Rightarrow> KThreesConfig" where
  "reconcileTopLevelObjectSettings machineVersion config =
     (case machineVersion of
        Some v \<Rightarrow> if kc_Version (kt_Spec config) = [] then config\<lparr>kt_Spec := (kt_Spec config)\<lparr>kc_Version := v\<rparr>\<rparr> else config
      | None \<Rightarrow> config)"

definition userData :: "KThreesConfig \<Rightarrow> File list \<Rightarrow> File \<Rightarrow> BaseUserData" where
  "userData config files configFile =
     \<lparr>bu_Header = [], bu_PreK3sCommands = elems (kc_PreK3sCommands (kt_Spec config)),
      bu_PostK3sCommands = elems (kc_PostK3sCommands (kt_Spec config)), bu_AdditionalFiles = files, bu_WriteFiles = [],
      bu_ConfigFile = configFile, bu_K3sVersion = kc_Version (kt_Spec config),
      bu_AirGapped = ac_AirGapped (kc_AgentConfig (kt_Spec config)),
      bu_AirGappedInstallScriptPath = ac_AirGappedInstallScriptPath (kc_AgentConfig (kt_Spec config)),
      bu_SentinelFileCommand = []\<rparr>"

text \<open>The common end of the three scenarios: resolve the files, add the etcd proxy, render and
  store. \<open>None\<close> from the renderer is a nil dereference.\<close>

definition finishUserData ::
  "env \<Rightarrow> lib \<Rightarrow> Cluster \<Rightarrow> KThreesConfig \<Rightarrow> bool \<Rightarrow> File \<Rightarrow> (BaseUserData \<Rightarrow> (goerr + string) option) \<Rightarrow>
    (call, KThreesConfig \<times> goerr option) go" where
  "finishUserData E L cluster config proxy configFile render =
     bnd (resolveFiles E config) (\<lambda>r. case r of
       Inl err \<Rightarrow> ret (dataFailed L config err, Some err)
     | Inr files \<Rightarrow>
         (let files = (if proxy \<and> IsEtcdEmbedded (kt_Spec config) then files @ [resolveEtcdProxyFile config] else files)
          in bnd (deref (render (userData config files configFile))) (\<lambda>r. case r of
               Inl err \<Rightarrow> ret (config, Some err)
             | Inr cloudInitData \<Rightarrow> storeBootstrapData E L cluster config cloudInitData)))"

section \<open>The three scenarios\<close>

definition serverURL :: "bootLib \<Rightarrow> Cluster \<Rightarrow> string" where
  "serverURL W cluster = ''https://'' @ endpointString W (cl_ControlPlaneEndpoint cluster)"

definition joinControlplane ::
  "env \<Rightarrow> lib \<Rightarrow> bootLib \<Rightarrow> ConfigOwner \<Rightarrow> Cluster \<Rightarrow> KThreesConfig \<Rightarrow> (call, KThreesConfig \<times> goerr option) go" where
  "joinControlplane E L W owner cluster config =
     (case co_Machine owner of
        Inl err \<Rightarrow> ret (config, Some (Wrap ''cannot convert owner to Machine'' err))
      | Inr (_, machineVersion) \<Rightarrow>
         (let config = reconcileTopLevelObjectSettings machineVersion config in
          bnd (token_Lookup E (cl_Key cluster)) (\<lambda>r. case r of
            Inl err \<Rightarrow> ret (dataFailed L config err, Some err)
          | Inr tokn \<Rightarrow>
             (case marshalServer W (GenerateJoinControlPlaneConfig (serverURL W cluster) tokn
                     (ep_Host (cl_ControlPlaneEndpoint cluster)) (kc_ServerConfig (kt_Spec config)) (kc_AgentConfig (kt_Spec config))) of
                Inl err \<Rightarrow> ret (config, Some err)
              | Inr b \<Rightarrow>
                  finishUserData E L cluster config True (rootFile DefaultK3sConfigLocation b)
                    (\<lambda>d. Some (NewJoinControlPlane (otherTpl W) d))))))"

definition joinWorker ::
  "env \<Rightarrow> lib \<Rightarrow> bootLib \<Rightarrow> ConfigOwner \<Rightarrow> Cluster \<Rightarrow> KThreesConfig \<Rightarrow> (call, KThreesConfig \<times> goerr option) go" where
  "joinWorker E L W owner cluster config =
     (case co_Machine owner of
        Inl err \<Rightarrow> ret (config, Some (Wrap ''cannot convert owner to Machine'' err))
      | Inr (_, machineVersion) \<Rightarrow>
         (let config = reconcileTopLevelObjectSettings machineVersion config in
          bnd (token_Lookup E (cl_Key cluster)) (\<lambda>r. case r of
            Inl err \<Rightarrow> ret (dataFailed L config err, Some err)
          | Inr tokn \<Rightarrow>
             (case marshalAgent W (GenerateWorkerConfig (serverURL W cluster) tokn
                     (kc_ServerConfig (kt_Spec config)) (kc_AgentConfig (kt_Spec config))) of
                Inl err \<Rightarrow> ret (config, Some err)
              | Inr b \<Rightarrow>
                  finishUserData E L cluster config False (rootFile DefaultK3sConfigLocation b)
                    (\<lambda>d. Some (NewWorker (otherTpl W) d))))))"

text \<open>The initialization, with the lock held.\<close>

definition initControlplane ::
  "env \<Rightarrow> lib \<Rightarrow> bootLib \<Rightarrow> Cluster \<Rightarrow> string option \<Rightarrow> KThreesConfig \<Rightarrow> (call, KThreesConfig \<times> goerr option) go" where
  "initControlplane E L W cluster machineVersion config =
     (let config = reconcileTopLevelObjectSettings machineVersion config in
      bnd (LookupOrGenerate E (cl_Key cluster) (NewControllerRef L (kt_Meta config) ''KThreesConfig'')
             (NewCertificatesForInitialControlPlane (kt_Spec config))) (\<lambda>(certificates, e). case e of
        Some err \<Rightarrow>
          ret (kt_MarkFalse L config CertificatesAvailableCondition CertificatesGenerationFailedReason SevWarning
                 (''failed looking up or generating certificates: '' @ errText L err), Some err)
      | None \<Rightarrow>
         (let config = kt_MarkTrue L config CertificatesAvailableCondition in
          bnd (token_Lookup E (cl_Key cluster)) (\<lambda>r. case r of
            Inl err \<Rightarrow> ret (config, Some err)
          | Inr token \<Rightarrow>
             (case marshalServer W (GenerateInitControlPlaneConfig (ep_Host (cl_ControlPlaneEndpoint cluster)) token
                     (kc_ServerConfig (kt_Spec config)) (kc_AgentConfig (kt_Spec config))) of
                Inl err \<Rightarrow> ret (config, Some err)
              | Inr b \<Rightarrow>
                  finishUserData E L cluster config True (rootFile DefaultK3sConfigLocation b)
                    (NewInitControlPlane (otherTpl W) certificates))))))"

text \<open>The deferred release of the lock after an error; a panic leaves the lock.\<close>

definition unlockOnError ::
  "InitLocker \<Rightarrow> Cluster \<Rightarrow> KThreesConfig \<times> goerr option \<Rightarrow> (call, KThreesConfig \<times> Result \<times> goerr option) go" where
  "unlockOnError I cluster out =
     (case snd out of
        None \<Rightarrow> ret (fst out, NoResult, None)
      | Some reterr \<Rightarrow>
          bnd (il_Unlock I cluster) (\<lambda>unlocked.
            ret (fst out, NoResult, if unlocked then Some reterr else NewAggregate [Some reterr, Some ErrFailedUnlock])))"

definition handleClusterNotInitialized ::
  "env \<Rightarrow> lib \<Rightarrow> bootLib \<Rightarrow> InitLocker \<Rightarrow> ConfigOwner \<Rightarrow> Cluster \<Rightarrow> KThreesConfig \<Rightarrow>
    (call, KThreesConfig \<times> Result \<times> goerr option) go" where
  "handleClusterNotInitialized E L W I owner cluster config =
     (let config = (if v1GetReason L DataSecretAvailableCondition (kt_GetConditions config) \<noteq> DataSecretGenerationFailedReason
                    then kt_MarkFalse L config DataSecretAvailableCondition WaitingForControlPlaneAvailableReason SevInfo []
                    else config)
      in if \<not> co_IsControlPlaneMachine owner then ret (config, RequeueAfter (30 * Second), None)
         else case co_Machine owner of
           Inl err \<Rightarrow> ret (config, NoResult, Some (Wrap ''cannot convert owner to Machine'' err))
         | Inr (machineName, machineVersion) \<Rightarrow>
             bnd (il_Lock I cluster machineName) (\<lambda>locked.
               if \<not> locked then ret (config, RequeueAfter (30 * Second), None)
               else bnd (initControlplane E L W cluster machineVersion config) (unlockOnError I cluster)))"

section \<open>Reconcile\<close>

definition reconcileConfig ::
  "env \<Rightarrow> lib \<Rightarrow> bootLib \<Rightarrow> InitLocker \<Rightarrow> ConfigOwner \<Rightarrow> Cluster \<Rightarrow> KThreesConfig \<Rightarrow>
    (call, KThreesConfig \<times> Result \<times> goerr option) go" where
  "reconcileConfig E L W I owner cluster config =
     (let status = kt_Status config in
      if \<not> (case cl_InfrastructureProvisioned cluster of None \<Rightarrow> False | Some b \<Rightarrow> b)
      then ret (kt_MarkFalse L config DataSecretAvailableCondition WaitingForClusterInfrastructureReason SevInfo [],
                RequeueAfter (1 * Minute), None)
      else if co_DataSecretName owner \<noteq> None \<and> (\<not> ks_Ready status \<or> ks_DataSecretName status = None)
      then ret (kt_MarkTrue L (config\<lparr>kt_Status := status\<lparr>ks_Ready := True, ks_DataSecretName := co_DataSecretName owner\<rparr>\<rparr>)
                  DataSecretAvailableCondition, NoResult, None)
      else if ks_Ready status then ret (config, NoResult, None)
      else if \<not> (case cl_ControlPlaneInitialized cluster of None \<Rightarrow> False | Some b \<Rightarrow> b)
      then handleClusterNotInitialized E L W I owner cluster config
      else bnd (il_Unlock I cluster) (\<lambda>_.
        bnd (if co_IsControlPlaneMachine owner then joinControlplane E L W owner cluster config
             else joinWorker E L W owner cluster config) (\<lambda>(config, e). ret (config, NoResult, e))))"

text \<open>The deferred patch; after a panic the configuration is patched as it was read.\<close>

definition patchConfig ::
  "env \<Rightarrow> lib \<Rightarrow> KThreesConfig \<Rightarrow> Result \<Rightarrow> goerr option \<Rightarrow> (call, Result \<times> goerr option) go" where
  "patchConfig E L config result rerr =
     (let config = kt_SetConditions config
            (v1SetSummary L [DataSecretAvailableCondition, CertificatesAvailableCondition] (kt_GetConditions config))
      in bnd (do_write E (PatchConfig config (rerr = None))) (\<lambda>e.
           ret (result, case rerr of Some err \<Rightarrow> Some err | None \<Rightarrow> e)))"

definition KThreesConfig_Reconcile ::
  "env \<Rightarrow> bootEnv \<Rightarrow> lib \<Rightarrow> bootLib \<Rightarrow> InitLocker \<Rightarrow> ObjectKey \<Rightarrow> (call, Result \<times> goerr option) go" where
  "KThreesConfig_Reconcile E B L W I req =
     bnd (api E e_config (GetConfig req)) (\<lambda>r. case r of
       Inl err \<Rightarrow> ret (NoResult, if IsNotFound err then None else Some err)
     | Inr config \<Rightarrow>
     bnd (issue (GetConfigOwner config) (\<lambda>h. be_owner B h (GetConfigOwner config))) (\<lambda>r. case r of
       Inl err \<Rightarrow> ret (NoResult, if IsNotFound err then None else Some err)
     | Inr None \<Rightarrow> ret (NoResult, None)
     | Inr (Some configOwner) \<Rightarrow>
     bnd (issue (GetCluster (co_Namespace configOwner) (co_ClusterName configOwner))
            (\<lambda>h. be_cluster B h (GetCluster (co_Namespace configOwner) (co_ClusterName configOwner)))) (\<lambda>r. case r of
       Inl err \<Rightarrow> ret (NoResult, if is_sentinel err ErrNoCluster \<or> IsNotFound err then None else Some err)
     | Inr cluster \<Rightarrow>
         if IsPaused L cluster (kt_Meta config) then ret (NoResult, None)
         else bnd (new_helper E (om_Name (kt_Meta config))) (\<lambda>e. case e of
           Some err \<Rightarrow> ret (NoResult, Some err)
         | None \<Rightarrow>
             bnd (outcome (reconcileConfig E L W I configOwner cluster config)) (\<lambda>out. case out of
               None \<Rightarrow> bnd (patchConfig E L config NoResult None) (\<lambda>_. panic)
             | Some (config, result, rerr) \<Rightarrow> patchConfig E L config result rerr)))))"

section \<open>Properties\<close>

lemma resolveSecret_intros [go_intros]:
  "reads \<subseteq> S \<Longrightarrow> emits S (resolveSecretFileContent E ns src)" "nopanic (resolveSecretFileContent E ns src)"
  unfolding resolveSecretFileContent_def by (auto intro!: go_intros)

lemma resolveLoop_intros [go_intros]:
  "reads \<subseteq> S \<Longrightarrow> emits S (resolveLoop E ns fs acc)" "nopanic (resolveLoop E ns fs acc)"
  by (induction fs arbitrary: acc) (auto intro!: go_intros split: option.split)

lemma resolveFiles_intros [go_intros]:
  "reads \<subseteq> S \<Longrightarrow> emits S (resolveFiles E cfg)" "nopanic (resolveFiles E cfg)"
  unfolding resolveFiles_def by (intro go_intros; assumption)+

text \<open>Resolved files have no reference left, and keep path, owner and permissions.\<close>

definition resolvedFrom :: "File list \<Rightarrow> goerr + File list \<Rightarrow> bool" where
  "resolvedFrom fs r \<longleftrightarrow>
     (\<forall>fs'. r = Inr fs' \<longrightarrow> (\<forall>f\<in>set fs'. f_ContentFrom f = None) \<and>
        map f_Path fs' = map f_Path fs \<and> map f_Owner fs' = map f_Owner fs \<and> map f_Permissions fs' = map f_Permissions fs)"

lemma resolveLoop_resolved:
  "(\<forall>f\<in>set acc. f_ContentFrom f = None) \<Longrightarrow> returns (resolveLoop E ns fs acc) (resolvedFrom (acc @ fs))"
proof (induction fs arbitrary: acc)
  case Nil
  then show ?case by (simp add: resolvedFrom_def returns_intros)
next
  case (Cons f fs)
  show ?case
  proof (cases "f_ContentFrom f")
    case None
    with Cons.IH[of "acc @ [f]"] Cons.prems show ?thesis by simp
  next
    case (Some src)
    have step: "resolvedFrom ((acc @ [f\<lparr>f_ContentFrom := None, f_Content := d\<rparr>]) @ fs) r \<Longrightarrow> resolvedFrom (acc @ f # fs) r" for d r
      by (simp add: resolvedFrom_def)
    have "returns (resolveLoop E ns fs (acc @ [f\<lparr>f_ContentFrom := None, f_Content := d\<rparr>])) (resolvedFrom (acc @ f # fs))" for d
      by (rule returns_mono[OF Cons.IH step]) (use Cons.prems in auto)
    moreover have "resolvedFrom (acc @ f # fs) (Inl e)" for e by (simp add: resolvedFrom_def)
    ultimately show ?thesis using Some by (auto intro!: go_intros)
  qed
qed

text \<open>A configuration is finished when it is ready and names its own secret.\<close>

definition finished :: "KThreesConfig \<Rightarrow> bool" where
  "finished c \<longleftrightarrow> ks_Ready (kt_Status c) \<and> ks_DataSecretName (kt_Status c) = Some (om_Name (kt_Meta c))"

lemma kt_mark_simps [simp]:
  "kt_Meta (kt_MarkTrue L c t) = kt_Meta c" "kt_Meta (kt_MarkFalse L c t r s m) = kt_Meta c"
  "kt_Meta (dataFailed L c err) = kt_Meta c"
  "ks_Ready (kt_Status (kt_MarkTrue L c t)) = ks_Ready (kt_Status c)"
  "ks_DataSecretName (kt_Status (kt_MarkTrue L c t)) = ks_DataSecretName (kt_Status c)"
  "ks_Ready (kt_Status (kt_MarkFalse L c t r s m)) = ks_Ready (kt_Status c)"
  "ks_DataSecretName (kt_Status (kt_MarkFalse L c t r s m)) = ks_DataSecretName (kt_Status c)"
  by (simp_all add: kt_MarkTrue_def kt_MarkFalse_def dataFailed_def)

lemma reconcileTopLevel_simps [simp]:
  "kt_Meta (reconcileTopLevelObjectSettings v c) = kt_Meta c"
  "kt_Status (reconcileTopLevelObjectSettings v c) = kt_Status c"
  by (auto simp: reconcileTopLevelObjectSettings_def split: option.split)

abbreviation finishedOrError :: "KThreesConfig \<times> goerr option \<Rightarrow> bool" where
  "finishedOrError \<equiv> (\<lambda>(c, e). e = None \<longrightarrow> finished c)"

lemma storeBootstrapData_finished: "returns (storeBootstrapData E L cluster config d) finishedOrError"
  unfolding storeBootstrapData_def Let_def by (intro go_intros) (auto simp: finished_def)

lemma storeBootstrapData_nopanic [go_intros]: "nopanic (storeBootstrapData E L cluster config d)"
  unfolding storeBootstrapData_def Let_def by (intro go_intros)

lemma finishUserData_finished: "returns (finishUserData E L cluster config proxy f render) finishedOrError"
  unfolding finishUserData_def Let_def by (intro returns_bnd_any returns_cases returns_intros storeBootstrapData_finished) auto

lemma finishUserData_nopanic: "(\<And>d. render d \<noteq> None) \<Longrightarrow> nopanic (finishUserData E L cluster config proxy f render)"
  unfolding finishUserData_def Let_def by (intro go_intros) auto

lemma token_Lookup_nopanic [go_intros]: "nopanic (token_Lookup E k)"
  unfolding token_Lookup_def getSecret_def by (intro go_intros)

lemma join_finished:
  "returns (joinControlplane E L W owner cluster config) finishedOrError"
  "returns (joinWorker E L W owner cluster config) finishedOrError"
  unfolding joinControlplane_def joinWorker_def Let_def
  by (intro returns_bnd_any returns_cases returns_intros finishUserData_finished; simp)+

lemma join_nopanic:
  "nopanic (joinControlplane E L W owner cluster config)" "nopanic (joinWorker E L W owner cluster config)"
  unfolding joinControlplane_def joinWorker_def Let_def
  by (intro go_intros finishUserData_nopanic; simp)+

lemma initControlplane_finished: "returns (initControlplane E L W cluster v config) finishedOrError"
  unfolding initControlplane_def Let_def
  by (intro returns_bnd_any returns_cases returns_intros finishUserData_finished) simp_all

lemma initControlplane_nopanic: "nopanic (initControlplane E L W cluster v config)"
proof -
  let ?cs = "NewCertificatesForInitialControlPlane (kt_Spec (reconcileTopLevelObjectSettings v config))"
  have fresh: "\<forall>c\<in>set ?cs. \<not> ct_Generated c" using NewCertificates_fresh by blast
  show ?thesis
    unfolding initControlplane_def Let_def
  proof (rule nopanic_bnd[OF LookupOrGenerate_nopanic[OF fresh], where R = "\<lambda>(cs, e). e = None \<longrightarrow> AsFiles cs \<noteq> None"])
    show "returns (LookupOrGenerate E (cl_Key cluster) (NewControllerRef L (kt_Meta (reconcileTopLevelObjectSettings v config)) ''KThreesConfig'')
        ?cs) (\<lambda>(cs, e). e = None \<longrightarrow> AsFiles cs \<noteq> None)"
    proof (rule returnsI)
      fix g x g'
      assume run: "LookupOrGenerate E (cl_Key cluster) (NewControllerRef L (kt_Meta (reconcileTopLevelObjectSettings v config)) ''KThreesConfig'')
        ?cs g = (Some x, g')"
      obtain cs e where x: "x = (cs, e)" by fastforce
      show "case x of (cs, e) \<Rightarrow> e = None \<longrightarrow> AsFiles cs \<noteq> None"
        using control_plane_files run unfolding x by blast
    qed
  qed (auto intro!: go_intros finishUserData_nopanic simp: NewInitControlPlane_def)
qed

lemma initControlplane_ext: "emits UNIV (initControlplane E L W cluster v config)"
  unfolding initControlplane_def finishUserData_def storeBootstrapData_def token_Lookup_def getSecret_def Let_def
  by (intro go_intros emits_mono[OF LookupOrGenerate_emits]) auto

subsection \<open>Under the init lock\<close>

definition waitingConfig :: "lib \<Rightarrow> KThreesConfig \<Rightarrow> KThreesConfig" where
  "waitingConfig L config =
     (if v1GetReason L DataSecretAvailableCondition (kt_GetConditions config) \<noteq> DataSecretGenerationFailedReason
      then kt_MarkFalse L config DataSecretAvailableCondition WaitingForControlPlaneAvailableReason SevInfo []
      else config)"

lemma NewAggregate_error: "NewAggregate (Some err # es) \<noteq> None"
  by (simp only: NewAggregate_None) simp

lemma unlockOnError_result:
  "returns (unlockOnError I cluster out) (\<lambda>(c, res, e). c = fst out \<and> res = NoResult \<and> (e = None \<longleftrightarrow> snd out = None))"
  unfolding unlockOnError_def
  by (intro go_intros) (auto simp del: not_None_eq simp: NewAggregate_error)

context init_locker
begin

lemma unlockOnError_nopanic: "nopanic (unlockOnError I cluster out)"
  unfolding unlockOnError_def by (intro go_intros unlock_returns)

lemma handle_nopanic: "nopanic (handleClusterNotInitialized E L W I owner cluster config)"
  unfolding handleClusterNotInitialized_def Let_def
  by (intro go_intros lock_returns initControlplane_nopanic unlockOnError_nopanic)

lemma reconcileConfig_nopanic: "nopanic (reconcileConfig E L W I owner cluster config)"
  unfolding reconcileConfig_def Let_def
  by (intro go_intros handle_nopanic unlock_returns join_nopanic)

lemma not_locked:
  assumes "co_IsControlPlaneMachine owner" "co_Machine owner = Inr (m, v)" "il_Lock I cluster m h = (Some False, h1)"
  shows "handleClusterNotInitialized E L W I owner cluster config h =
     (Some (waitingConfig L config, RequeueAfter (30 * Second), None), h1)"
  using assms by (simp add: handleClusterNotInitialized_def waitingConfig_def Let_def bnd_run ret_def)

lemma locked:
  assumes "co_IsControlPlaneMachine owner" "co_Machine owner = Inr (m, v)" "il_Lock I cluster m h = (Some True, h1)"
    and "handleClusterNotInitialized E L W I owner cluster config h = (Some (c, res, e), h')"
  shows "res = NoResult \<and> (case e of None \<Rightarrow> finished c | Some _ \<Rightarrow> \<exists>g u. il_Unlock I cluster g = (Some u, h'))"
proof -
  from assms have "bnd (initControlplane E L W cluster v (waitingConfig L config)) (unlockOnError I cluster) h1 = (Some (c, res, e), h')"
    by (simp add: handleClusterNotInitialized_def waitingConfig_def Let_def bnd_run)
  then obtain x h2 where init: "initControlplane E L W cluster v (waitingConfig L config) h1 = (Some x, h2)"
    and un: "unlockOnError I cluster x h2 = (Some (c, res, e), h')" by (rule bnd_SomeE)
  obtain c1 e1 where x: "x = (c1, e1)" by fastforce
  show ?thesis
  proof (cases e1)
    case None
    then have "finished c1" using returnsD[OF initControlplane_finished init] x by simp
    with un x None show ?thesis by (auto simp: unlockOnError_def ret_def)
  next
    case (Some err)
    with un x obtain u h3 where u: "il_Unlock I cluster h2 = (Some u, h3)"
      and fin: "(c1, NoResult, if u then Some err else NewAggregate [Some err, Some ErrFailedUnlock]) = (c, res, e)" "h3 = h'"
      by (auto simp: unlockOnError_def ret_def elim!: bnd_SomeE)
    have "e \<noteq> None" using returnsD[OF unlockOnError_result un] x Some by simp
    with u fin show ?thesis by (auto split: option.split)
  qed
qed

lemma finished_locked:
  assumes "co_IsControlPlaneMachine owner" "co_Machine owner = Inr (m, v)"
    and "handleClusterNotInitialized E L W I owner cluster config h = (Some (c, NoResult, None), h')"
  shows "\<exists>h1 t. il_Lock I cluster m h = (Some True, h1) \<and> h' = h1 @ t"
proof -
  obtain b h1 where lock: "il_Lock I cluster m h = (Some b, h1)" using lock_returns by (rule nopanicE)
  have b
  proof (rule ccontr)
    assume "\<not> b"
    with lock not_locked[OF assms(1,2), of cluster h h1 E L W config] assms(3)
    have "NoResult = RequeueAfter (30 * Second)" by simp
    then have "r_IsZero (RequeueAfter (30 * Second)) = r_IsZero NoResult" by simp
    then show False by (simp add: Second_def)
  qed
  with lock assms have run: "bnd (initControlplane E L W cluster v (waitingConfig L config)) (unlockOnError I cluster) h1 = (Some (c, NoResult, None), h')"
    by (simp add: handleClusterNotInitialized_def waitingConfig_def Let_def bnd_run)
  have "emits UNIV (bnd (initControlplane E L W cluster v (waitingConfig L config)) (unlockOnError I cluster))"
    unfolding unlockOnError_def
    by (intro emits_bnd initControlplane_ext emits_option emits_ret emits_mono[OF unlock_calls]) auto
  with run obtain t where "h' = h1 @ t" by (auto elim: emitsE)
  with lock \<open>b\<close> show ?thesis by auto
qed

lemma reconcileConfig_outcome:
  "returns (reconcileConfig E L W I owner cluster config)
     (\<lambda>(c, res, e). e = None \<and> r_IsZero res \<longrightarrow> ks_Ready (kt_Status c))"
proof -
  have handle: "returns (handleClusterNotInitialized E L W I owner cluster config)
     (\<lambda>(c, res, e). e = None \<and> r_IsZero res \<longrightarrow> ks_Ready (kt_Status c))"
  proof -
    have init: "returns (bnd (initControlplane E L W cluster v config1) (unlockOnError I cluster))
        (\<lambda>(c, res, e). e = None \<and> r_IsZero res \<longrightarrow> ks_Ready (kt_Status c))" for v config1
      by (rule returns_bnd[OF initControlplane_finished], rule returns_mono[OF unlockOnError_result])
         (auto simp: finished_def)
    show ?thesis
      unfolding handleClusterNotInitialized_def Let_def
      by (intro returns_bnd_any returns_cases returns_intros init) (auto simp: Second_def)
  qed
  have join: "returns (bnd (if co_IsControlPlaneMachine owner then joinControlplane E L W owner cluster config
             else joinWorker E L W owner cluster config) (\<lambda>(config, e). ret (config, NoResult, e)))
     (\<lambda>(c, res, e). e = None \<and> r_IsZero res \<longrightarrow> ks_Ready (kt_Status c))"
    by (rule returns_bnd[where R = finishedOrError], simp only: join_finished split: if_split)
       (auto simp: finished_def intro!: returns_intros)
  show ?thesis
    unfolding reconcileConfig_def Let_def
    by (intro returns_cases handle returns_bnd_any join returns_intros) (simp_all add: Minute_def)
qed

end

end
