(* ===== verification/ContractVersion.thy ===== *)
theory ContractVersion
  imports Client
begin

text \<open>
  \<^verbatim>\<open>pkg/contract/version.go\<close>: the API version of a provider's kind, found in the
  labels of its custom resource definition. The order on Kubernetes version strings and the
  name of a definition are parameters.
\<close>

record contractLib =
  compareVersions :: "string \<Rightarrow> string \<Rightarrow> int"
  calculateCRDName :: "string \<Rightarrow> string \<Rightarrow> string"
  groupVersionString :: "string \<Rightarrow> string \<Rightarrow> string"
  parseGroupVersion :: "string \<Rightarrow> goerr + string"

definition Version :: string where "Version = ''v1beta2''"
definition core_group :: string where "core_group = ''cluster.x-k8s.io''"

text \<open>The set, listed.\<close>

definition GetCompatibleVersions :: "string \<Rightarrow> string list" where
  "GetCompatibleVersions contract = (if contract = ''v1beta2'' then [contract, ''v1beta1''] else [contract])"

definition versionLess :: "contractLib \<Rightarrow> string \<Rightarrow> string \<Rightarrow> bool" where
  "versionLess V a b = (compareVersions V a b < 0)"

text \<open>\<^verbatim>\<open>sort.Sort\<close>.\<close>

primrec insertBy :: "('a \<Rightarrow> 'a \<Rightarrow> bool) \<Rightarrow> 'a \<Rightarrow> 'a list \<Rightarrow> 'a list" where
  "insertBy lt x [] = [x]"
| "insertBy lt x (y # ys) = (if lt y x then y # insertBy lt x ys else x # y # ys)"

definition sortBy :: "('a \<Rightarrow> 'a \<Rightarrow> bool) \<Rightarrow> 'a list \<Rightarrow> 'a list" where
  "sortBy lt xs = foldr (insertBy lt) xs []"

text \<open>The loop over the contract versions.\<close>

primrec findContract :: "contractLib \<Rightarrow> gomap \<Rightarrow> string list \<Rightarrow> (string \<times> string) option" where
  "findContract V labels [] = None"
| "findContract V labels (contractVersion # cs) =
     (case mget labels (core_group @ ''/'' @ contractVersion) of
        None \<Rightarrow> findContract V labels cs
      | Some supportedVersions \<Rightarrow>
          if supportedVersions = [] then findContract V labels cs
          else Some (contractVersion, last (sortBy (versionLess V) (Split supportedVersions CHR ''_''))))"

definition GetLatestContractAndAPIVersionFromContract ::
  "contractLib \<Rightarrow> ObjectMeta \<Rightarrow> string \<Rightarrow> goerr + string \<times> string" where
  "GetLatestContractAndAPIVersionFromContract V metadata currentContractVersion =
     (if currentContractVersion = [] then Inl (Msg ''current contract version cannot be empty'')
      else case findContract V (om_Labels metadata)
                  (sortBy (\<lambda>a b. versionLess V b a) (GetCompatibleVersions currentContractVersion)) of
        Some r \<Rightarrow> Inr r
      | None \<Rightarrow> Inl (Msg ''cannot find any versions matching contract versions for CRD''))"

definition GetGKMetadata :: "env \<Rightarrow> contractLib \<Rightarrow> string \<Rightarrow> string \<Rightarrow> (call, goerr + ObjectMeta) go" where
  "GetGKMetadata E V grp kind =
     bnd (api E e_unstructured (GetCRD (calculateCRDName V grp kind))) (\<lambda>r. case r of
       Inl err \<Rightarrow> ret (Inl (Wrap ''failed to get CustomResourceDefinition metadata'' err))
     | Inr u \<Rightarrow> ret (Inr (u_Meta u)))"

definition GetAPIVersion :: "env \<Rightarrow> contractLib \<Rightarrow> string \<Rightarrow> string \<Rightarrow> (call, goerr + string) go" where
  "GetAPIVersion E V grp kind =
     bnd (GetGKMetadata E V grp kind) (\<lambda>r. case r of
       Inl err \<Rightarrow> ret (Inl (Wrap ''failed to get apiVersion for kind'' err))
     | Inr crdMetadata \<Rightarrow>
        (case GetLatestContractAndAPIVersionFromContract V crdMetadata Version of
           Inl err \<Rightarrow> ret (Inl (Wrap ''failed to get apiVersion for kind'' err))
         | Inr (_, version) \<Rightarrow> ret (Inr (groupVersionString V grp version))))"

section \<open>Properties\<close>

text \<open>The comparison is a total order.\<close>

definition version_order :: "contractLib \<Rightarrow> bool" where
  "version_order V \<longleftrightarrow>
     (\<forall>a b. compareVersions V a b < 0 \<longleftrightarrow> compareVersions V b a > 0) \<and>
     (\<forall>a b. compareVersions V a b = 0 \<longleftrightarrow> a = b) \<and>
     (\<forall>a b c. compareVersions V a b < 0 \<longrightarrow> compareVersions V b c < 0 \<longrightarrow> compareVersions V a c < 0)"

lemma insertBy_set [simp]: "set (insertBy lt x ys) = insert x (set ys)"
  by (induction ys) auto

lemma sortBy_set [simp]: "set (sortBy lt xs) = set xs"
  unfolding sortBy_def by (induction xs) auto

definition strict_order :: "('a \<Rightarrow> 'a \<Rightarrow> bool) \<Rightarrow> bool" where
  "strict_order lt \<longleftrightarrow> (\<forall>a b. \<not> lt a b \<longrightarrow> \<not> lt b a \<longrightarrow> a = b) \<and> (\<forall>a b c. lt a b \<longrightarrow> lt b c \<longrightarrow> lt a c) \<and> (\<forall>a. \<not> lt a a)"

lemma strict_order_le_trans: "strict_order lt \<Longrightarrow> \<not> lt b a \<Longrightarrow> \<not> lt c b \<Longrightarrow> \<not> lt c a"
  unfolding strict_order_def by metis

lemma strict_order_asym: "strict_order lt \<Longrightarrow> lt a b \<Longrightarrow> \<not> lt b a"
  unfolding strict_order_def by metis

lemma insertBy_sorted:
  assumes "strict_order lt"
  shows "sorted_wrt (\<lambda>a b. \<not> lt b a) ys \<Longrightarrow> sorted_wrt (\<lambda>a b. \<not> lt b a) (insertBy lt x ys)"
  by (induction ys) (auto dest: strict_order_le_trans[OF assms] strict_order_asym[OF assms])

lemma sortBy_sorted: "strict_order lt \<Longrightarrow> sorted_wrt (\<lambda>a b. \<not> lt b a) (sortBy lt us)"
  unfolding sortBy_def by (induction us) (simp_all add: insertBy_sorted)

lemma last_sortBy:
  assumes "strict_order lt" "y \<in> set us"
  shows "\<not> lt (last (sortBy lt us)) y"
proof -
  let ?s = "sortBy lt us"
  have "y \<in> set ?s" using assms(2) by simp
  then obtain as bs where s: "?s = as @ y # bs" by (meson split_list)
  show ?thesis
  proof (cases "bs = []")
    case True
    then show ?thesis using s assms(1) by (simp add: strict_order_def)
  next
    case False
    then have "last ?s \<in> set bs" using s by simp
    then show ?thesis using sortBy_sorted[OF assms(1), of us] s by (auto simp: sorted_wrt_append)
  qed
qed

lemma last_sortBy_in: "us \<noteq> [] \<Longrightarrow> last (sortBy lt us) \<in> set us"
  by (metis last_in_set set_empty sortBy_set)

lemma version_order_strict: "version_order V \<Longrightarrow> strict_order (versionLess V)"
  unfolding version_order_def strict_order_def versionLess_def by (metis linorder_less_linear less_irrefl)

text \<open>The version found is listed for the contract version, and no listed one is later.\<close>

lemma findContract_latest:
  assumes "version_order V" "findContract V labels cs = Some (c, v)"
  shows "c \<in> set cs \<and> (\<exists>s. mget labels (core_group @ ''/'' @ c) = Some s \<and> s \<noteq> [] \<and> v \<in> set (Split s CHR ''_'') \<and>
     (\<forall>w\<in>set (Split s CHR ''_''). \<not> versionLess V v w))"
  using assms(2)
proof (induction cs)
  case (Cons x cs)
  show ?case
  proof (cases "mget labels (core_group @ ''/'' @ x)")
    case None
    with Cons show ?thesis by auto
  next
    case (Some s)
    show ?thesis
    proof (cases "s = []")
      case True
      with Some Cons show ?thesis by auto
    next
      case False
      with Some Cons.prems have cv: "c = x" "v = last (sortBy (versionLess V) (Split s CHR ''_''))" by auto
      have "v \<in> set (Split s CHR ''_'')" "\<forall>w\<in>set (Split s CHR ''_''). \<not> versionLess V v w"
        unfolding cv(2) using last_sortBy[OF version_order_strict[OF assms(1)]] by (auto intro: last_sortBy_in)
      with cv(1) Some False show ?thesis by auto
    qed
  qed
qed simp

lemma GetAPIVersion_emits [THEN emits_mono, go_intros]: "emits reads (GetAPIVersion E V g k)"
  unfolding GetAPIVersion_def GetGKMetadata_def by (intro go_intros) simp

lemma GetAPIVersion_nopanic [go_intros]: "nopanic (GetAPIVersion E V g k)"
  unfolding GetAPIVersion_def GetGKMetadata_def by (intro go_intros)

end
