(* ===== verification/BootstrapResults.thy ===== *)
theory BootstrapResults
  imports SecretResults Bootstrap ContractVersion
begin

text \<open>
  The properties of the bootstrap provider: the reconciler of a KThreesConfig with the mutex of
  theory \<open>InitLock\<close> as its init lock, the k3s configuration, the cloud-init documents, and
  the choice of a contract version. \<open>W0\<close>, \<open>B0\<close> and \<open>V0\<close> are instances for
  the witnesses.
\<close>

definition W0 :: bootLib where
  "W0 = \<lparr>marshalServer = (\<lambda>c. Inr ''config''), marshalAgent = (\<lambda>c. Inr ''config''), otherTpl = (\<lambda>_ _. Inr []),
     endpointString = ep_Host\<rparr>"

definition owner0 :: ConfigOwner where
  "owner0 = \<lparr>co_Kind = ''Machine'', co_Namespace = ''ns'', co_ClusterName = ''c'', co_DataSecretName = None,
     co_IsControlPlaneMachine = True, co_Machine = Inr (''m1'', Some ''v1.30.0'')\<rparr>"

definition B0 :: bootEnv where
  "B0 = \<lparr>be_owner = (\<lambda>_ _. Inr (Some owner0)), be_cluster = (\<lambda>_ _. Inr cluster0)\<rparr>"

definition kt0 :: KThreesConfig where
  "kt0 = \<lparr>kt_Meta = meta0 ''cfg'' ''u'', kt_Spec = config0, kt_Status = emptyConfigStatus\<rparr>"

section \<open>The reconciler\<close>

text \<open>C22 The first control plane machine is prepared only under the init lock. When the lock is
  not granted the reconciler issues no further call, marks the configuration as waiting and
  asks to be called again. When it is granted, the run either ends with the configuration
  ready and naming its data secret, or ends with releasing the lock.\<close>

theorem init_under_lock:
  assumes "co_IsControlPlaneMachine owner" "co_Machine owner = Inr (m, v)"
    and "handleClusterNotInitialized E L W (ControlPlaneInitMutex E K) owner cluster config h = (Some (c, res, e), h')"
  shows "\<exists>granted h1. Lock E K cluster m h = (Some granted, h1) \<and>
    (if granted
     then res = NoResult \<and> (case e of None \<Rightarrow> finished c | Some _ \<Rightarrow> \<exists>g u. Unlock E cluster g = (Some u, h'))
     else c = waitingConfig L config \<and> res = RequeueAfter (30 * Second) \<and> e = None \<and> h' = h1)"
proof -
  have il: "il_Lock (ControlPlaneInitMutex E K) = Lock E K" "il_Unlock (ControlPlaneInitMutex E K) = Unlock E"
    by (simp_all add: ControlPlaneInitMutex_def)
  have "nopanic (il_Lock (ControlPlaneInitMutex E K) cluster m)" by (rule init_mutex.lock_returns)
  then obtain granted h1 where lock: "il_Lock (ControlPlaneInitMutex E K) cluster m h = (Some granted, h1)"
    by (rule nopanicE)
  show ?thesis
  proof (cases granted)
    case True
    with lock have "il_Lock (ControlPlaneInitMutex E K) cluster m h = (Some True, h1)" by simp
    from init_mutex.locked[OF assms(1,2) this assms(3)] lock True show ?thesis
      unfolding il by (intro exI[of _ granted] exI[of _ h1] conjI) simp_all
  next
    case False
    with lock have l: "il_Lock (ControlPlaneInitMutex E K) cluster m h = (Some False, h1)" by simp
    have "handleClusterNotInitialized E L W (ControlPlaneInitMutex E K) owner cluster config h =
      (Some (waitingConfig L config, RequeueAfter (30 * Second), None), h1)"
      by (rule init_mutex.not_locked[OF assms(1,2) l])
    with assms(3) lock False show ?thesis
      unfolding il by (intro exI[of _ granted] exI[of _ h1] conjI) simp_all
  qed
qed

theorem init_under_lock_witness:
  "\<exists>c res e h'. handleClusterNotInitialized (E_held ''m2'') L0 W0 (ControlPlaneInitMutex (E_held ''m2'') K0) owner0 cluster0 kt0 [] =
     (Some (c, res, e), h') \<and> c = waitingConfig L0 kt0 \<and> res = RequeueAfter (30 * Second) \<and> e = None"
proof -
  have handle_run: "nopanic (handleClusterNotInitialized (E_held ''m2'') L0 W0 (ControlPlaneInitMutex (E_held ''m2'') K0) owner0 cluster0 kt0)"
    by (rule init_mutex.handle_nopanic)
  have o0: "co_IsControlPlaneMachine owner0" "co_Machine owner0 = Inr (''m1'', Some ''v1.30.0'')" by (simp_all add: owner0_def)
  obtain c res e h' where run: "handleClusterNotInitialized (E_held ''m2'') L0 W0 (ControlPlaneInitMutex (E_held ''m2'') K0) owner0 cluster0 kt0 [] =
     (Some (c, res, e), h')"
    using handle_run by (metis nopanicE prod_cases3)
  from init_under_lock[OF o0 run] Lock_held[of "''m2''" "''m1''" "[]"]
  have "c = waitingConfig L0 kt0 \<and> res = RequeueAfter (30 * Second) \<and> e = None" by (auto split: if_splits)
  with run show ?thesis by blast
qed

text \<open>C17 At most one machine initializes a cluster. Two runs of the bootstrap reconciler for control
  plane machines of a cluster without a control plane, whose calls are part of one serial history
  of the API server in which nobody released the lock: if both prepared their machine without an
  error, they are for the same machine.\<close>

theorem single_init:
  assumes "information_law K" "serves st tr st'" "\<forall>x\<in>set tr. \<not> releases x"
    and "co_IsControlPlaneMachine o1" "co_Machine o1 = Inr (m1, v1)" "takesPart E1 h1 h1' tr"
    and "handleClusterNotInitialized E1 L1 W1 (ControlPlaneInitMutex E1 K) o1 cluster cfg1 h1 = (Some (c1, NoResult, None), h1')"
    and "co_IsControlPlaneMachine o2" "co_Machine o2 = Inr (m2, v2)" "takesPart E2 h2 h2' tr"
    and "handleClusterNotInitialized E2 L2 W2 (ControlPlaneInitMutex E2 K) o2 cluster cfg2 h2 = (Some (c2, NoResult, None), h2')"
  shows "m1 = m2"
proof -
  have il: "il_Lock (ControlPlaneInitMutex E K) = Lock E K" for E by (simp add: ControlPlaneInitMutex_def)
  obtain g1 t1 where g1: "Lock E1 K cluster m1 h1 = (Some True, g1)" "h1' = g1 @ t1"
    using init_mutex.finished_locked[OF assms(4,5,7)] unfolding il by blast
  obtain g2 t2 where g2: "Lock E2 K cluster m2 h2 = (Some True, g2)" "h2' = g2 @ t2"
    using init_mutex.finished_locked[OF assms(8,9,11)] unfolding il by blast
  show ?thesis
    by (rule mutual_exclusion[OF assms(1-3) g1(1) _ g2(1)]) (use assms(6,10) g1(2) g2(2) in \<open>auto dest: takesPart_prefix\<close>)
qed

definition E_init :: env where
  "E_init = (E_held ''m1'')\<lparr>e_secret := (\<lambda>_ _. Inr \<lparr>s_Meta = meta0 ''s'' ''s'',
     s_Data = Some [''tls.crt'' \<mapsto> ''crt'', ''tls.key'' \<mapsto> ''key'', ''value'' \<mapsto> ''token''], s_Type = []\<rparr>)\<rparr>"

lemma E_init_answers:
  "e_err E_init h c = None" "e_configmap E_init h c = Inr (heldBy ''m1'')"
  "e_secret E_init h c = Inr \<lparr>s_Meta = meta0 ''s'' ''s'',
     s_Data = Some [''tls.crt'' \<mapsto> ''crt'', ''tls.key'' \<mapsto> ''key'', ''value'' \<mapsto> ''token''], s_Type = []\<rparr>"
  by (simp_all add: E_init_def E_held_def E0_def)

lemma certificates_run:
  "\<exists>cs ds. LookupOrGenerate E_init k own0' (NewCertificatesForInitialControlPlane config0) h = (Some (cs, None), h @ ds) \<and>
     (\<forall>c\<in>set ds. \<not> onConfigMaps c)"
  by (simp add: NewCertificatesForInitialControlPlane_def newCertificate_def LookupOrGenerate_def secretToKeyPair_def
        IsEtcdEmbedded_def E_init_answers go_runs mget_def TLSCrtDataName_def TLSKeyDataName_def onConfigMaps_def)

lemma init_run:
  "\<exists>c cs. initControlplane E_init L0 W0 cluster0 (Some v) (waitingConfig L0 kt0) h = (Some (c, None), h @ cs) \<and>
     (\<forall>x\<in>set cs. \<not> onConfigMaps x)"
proof -
  let ?c = "waitingConfig L0 kt0"
  have same: "reconcileTopLevelObjectSettings (Some v) ?c = ?c" and spec: "kt_Spec ?c = config0"
    by (simp_all add: reconcileTopLevelObjectSettings_def waitingConfig_def kt_MarkFalse_def kt0_def config0_def)
  obtain cs ds where run: "LookupOrGenerate E_init (cl_Key cluster0) (NewControllerRef L0 (kt_Meta ?c) ''KThreesConfig'')
      (NewCertificatesForInitialControlPlane config0) h = (Some (cs, None), h @ ds)" "\<forall>c\<in>set ds. \<not> onConfigMaps c"
    using certificates_run by blast
  from control_plane_files[OF run(1)] obtain fs where fs: "AsFiles cs = Some fs" by blast
  have render: "\<exists>data. NewInitControlPlane (otherTpl W0) cs u = Some (Inr data)" for u
    by (simp add: NewInitControlPlane_def fs generate_def W0_def Let_def)
  have files: "resolveFiles E_init (kt_MarkTrue L0 ?c t) = ret (Inr [])" for t
    by (simp add: resolveFiles_def waitingConfig_def kt_MarkFalse_def kt_MarkTrue_def kt0_def config0_def)
  have store: "\<exists>c d. storeBootstrapData E_init L0 cluster0 cfg data g = (Some (c, None), g @ [d]) \<and> \<not> onConfigMaps d" for cfg data g
    by (simp add: storeBootstrapData_def Let_def E_init_answers go_runs onConfigMaps_def)
  have finish: "\<exists>c d. finishUserData E_init L0 cluster0 (kt_MarkTrue L0 ?c t) True f (NewInitControlPlane (otherTpl W0) cs) g =
      (Some (c, None), g @ [d]) \<and> \<not> onConfigMaps d" for t f g
  proof -
    let ?u = "userData (kt_MarkTrue L0 ?c t) (if True \<and> IsEtcdEmbedded (kt_Spec (kt_MarkTrue L0 ?c t))
        then [] @ [resolveEtcdProxyFile (kt_MarkTrue L0 ?c t)] else []) f"
    obtain data where "NewInitControlPlane (otherTpl W0) cs ?u = Some (Inr data)" using render by blast
    then have "finishUserData E_init L0 cluster0 (kt_MarkTrue L0 ?c t) True f (NewInitControlPlane (otherTpl W0) cs) g =
        storeBootstrapData E_init L0 cluster0 (kt_MarkTrue L0 ?c t) data g"
      by (simp add: finishUserData_def files Let_def)
    with store show ?thesis by simp
  qed
  let ?s = "GetSecret (fst (cl_Key cluster0), tokenSecretName (snd (cl_Key cluster0)))"
  have tok: "token_Lookup E_init (cl_Key cluster0) g = (Some (Inr ''token''), g @ [?s])" "\<not> onConfigMaps ?s" for g
    by (simp_all add: token_Lookup_def getSecret_def go_runs E_init_answers mget_def onConfigMaps_def)
  have "\<exists>f. initControlplane E_init L0 W0 cluster0 (Some v) ?c h =
      finishUserData E_init L0 cluster0 (kt_MarkTrue L0 ?c CertificatesAvailableCondition) True f (NewInitControlPlane (otherTpl W0) cs) (h @ ds @ [?s])"
    by (simp add: initControlplane_def Let_def same spec run(1) bnd_run tok) (auto simp: W0_def)
  with finish obtain c d where "initControlplane E_init L0 W0 cluster0 (Some v) ?c h = (Some (c, None), (h @ ds @ [?s]) @ [d])" "\<not> onConfigMaps d"
    by metis
  with run(2) tok(2) show ?thesis by (intro exI[of _ c] exI[of _ "ds @ [?s] @ [d]"]) auto
qed

lemma answerOf_other: "\<not> onConfigMaps c \<Longrightarrow> answerOf E g c = ANone"
  by (auto simp: answerOf_def onConfigMaps_def split: call.splits)

lemma prepare_run:
  "\<exists>c cs. handleClusterNotInitialized E_init L0 W0 (ControlPlaneInitMutex E_init K0) owner0 cluster0 kt0 [] =
     (Some (c, NoResult, None), GetConfigMap (lockKey cluster0) # cs) \<and> (\<forall>x\<in>set cs. \<not> onConfigMaps x)"
proof -
  have lock: "Lock E_init K0 cluster0 ''m1'' [] = (Some True, [GetConfigMap (lockKey cluster0)])"
    using information_heldBy[of "''m1''"] by (simp add: Lock_def E_init_answers go_runs)
  obtain c cs where "initControlplane E_init L0 W0 cluster0 (Some ''v1.30.0'') (waitingConfig L0 kt0) [GetConfigMap (lockKey cluster0)] =
      (Some (c, None), [GetConfigMap (lockKey cluster0)] @ cs)" "\<forall>x\<in>set cs. \<not> onConfigMaps x"
    using init_run by blast
  then show ?thesis
    by (simp add: handleClusterNotInitialized_def ControlPlaneInitMutex_def owner0_def waitingConfig_def[symmetric] Let_def bnd_run lock
        unlockOnError_def ret_def)
qed

lemma answered_Cons_other:
  "\<forall>x\<in>set cs. \<not> onConfigMaps x \<Longrightarrow> answered E (h @ cs) = answered E h @ map (\<lambda>c. (c, ANone)) cs"
proof (induction cs rule: rev_induct)
  case (snoc c cs)
  then show ?case using answered_snoc[of E "h @ cs" c] by (simp add: answerOf_other)
qed simp

theorem single_init_witness:
  "\<exists>c h'. handleClusterNotInitialized E_init L0 W0 (ControlPlaneInitMutex E_init K0) owner0 cluster0 kt0 [] = (Some (c, NoResult, None), h') \<and>
     (\<forall>m v c'. handleClusterNotInitialized E_init L0 W0 (ControlPlaneInitMutex E_init K0) (owner0\<lparr>co_Machine := Inr (m, v)\<rparr>) cluster0 kt0 [] =
        (Some (c', NoResult, None), h') \<longrightarrow> m = ''m1'')"
proof -
  obtain c cs where run: "handleClusterNotInitialized E_init L0 W0 (ControlPlaneInitMutex E_init K0) owner0 cluster0 kt0 [] =
      (Some (c, NoResult, None), [GetConfigMap (lockKey cluster0)] @ cs)" and cs: "\<forall>x\<in>set cs. \<not> onConfigMaps x"
    using prepare_run by auto
  let ?h = "[GetConfigMap (lockKey cluster0)] @ cs" and ?cm = "heldBy ''m1''"
  have tr: "answered E_init ?h = ([] @ [(GetConfigMap (lockKey cluster0), AGet (Inr ?cm))]) @ map (\<lambda>c. (c, ANone)) cs"
    unfolding answered_Cons_other[OF cs] by (simp add: answered_def answerOf_def E_init_answers)
  have sv: "serves (Some ?cm) (answered E_init ?h) (Some ?cm)"
    unfolding tr using cs by (intro serves_others serves.found serves.start)
  have nr: "\<forall>x\<in>set (answered E_init ?h). \<not> releases x" unfolding tr by (auto simp: releases_def)
  have tp: "takesPart E_init [] ?h (answered E_init ?h)" by (rule answered_takesPart) simp
  have o0: "co_IsControlPlaneMachine owner0" "co_Machine owner0 = Inr (''m1'', Some ''v1.30.0'')" by (simp_all add: owner0_def)
  have "m = ''m1''" if "handleClusterNotInitialized E_init L0 W0 (ControlPlaneInitMutex E_init K0) (owner0\<lparr>co_Machine := Inr (m, v)\<rparr>) cluster0 kt0 [] =
        (Some (c', NoResult, None), ?h)" for m v c'
    by (rule single_init[OF K0_law sv nr _ _ tp that o0 tp run]) (simp_all add: o0)
  with run show ?thesis by blast
qed

text \<open>C29 The reconciler never panics, whatever the API server answers: in particular the
  certificates it renders into files always have their key pairs.\<close>

theorem bootstrap_nopanic: "nopanic (KThreesConfig_Reconcile E B L W (ControlPlaneInitMutex E K) req)"
proof -
  have np: "nopanic (reconcileConfig E L W (ControlPlaneInitMutex E K) owner cluster config)" for owner cluster config
    by (rule init_mutex.reconcileConfig_nopanic)
  have no: "fst (outcome (reconcileConfig E L W (ControlPlaneInitMutex E K) owner cluster config) h) \<noteq> Some None" for owner cluster config h
  proof -
    obtain x h' where "reconcileConfig E L W (ControlPlaneInitMutex E K) owner cluster config h = (Some x, h')"
      using np by (rule nopanicE)
    then show ?thesis by (simp add: outcome_def)
  qed
  have out: "nopanic (bnd (outcome (reconcileConfig E L W (ControlPlaneInitMutex E K) owner cluster config)) (\<lambda>out. case out of
               None \<Rightarrow> bnd (patchConfig E L config NoResult None) (\<lambda>_. panic)
             | Some (config, result, rerr) \<Rightarrow> patchConfig E L config result rerr))" for owner cluster config
  proof (rule nopanic_bnd[where R = "\<lambda>out. out \<noteq> None"])
    show "returns (outcome (reconcileConfig E L W (ControlPlaneInitMutex E K) owner cluster config)) (\<lambda>out. out \<noteq> None)"
      using no by (intro returnsI) (metis fst_conv)
  qed (auto intro!: go_intros simp: patchConfig_def Let_def split: option.split)
  show ?thesis
    unfolding KThreesConfig_Reconcile_def by (intro go_intros out)
qed

text \<open>C30 The configuration is complete when the reconciler has nothing left to do: a result
  without an error and without a requeue means that it is ready.\<close>

theorem bootstrap_ready_or_again:
  "returns (reconcileConfig E L W (ControlPlaneInitMutex E K) owner cluster config)
     (\<lambda>(c, res, e). e = None \<and> r_IsZero res \<longrightarrow> ks_Ready (kt_Status c))"
  by (rule init_mutex.reconcileConfig_outcome)

theorem bootstrap_ready_or_again_witness:
  "fst (reconcileConfig E0 L0 W0 (ControlPlaneInitMutex E0 K0) (owner0\<lparr>co_DataSecretName := Some ''cfg''\<rparr>) cluster0 kt0 []) \<noteq> None \<and>
   ks_Ready (kt_Status (fst (the (fst (reconcileConfig E0 L0 W0 (ControlPlaneInitMutex E0 K0)
     (owner0\<lparr>co_DataSecretName := Some ''cfg''\<rparr>) cluster0 kt0 [])))))"
proof -
  let ?r = "reconcileConfig E0 L0 W0 (ControlPlaneInitMutex E0 K0) (owner0\<lparr>co_DataSecretName := Some ''cfg''\<rparr>) cluster0 kt0"
  obtain c where c: "?r [] = (Some (c, NoResult, None), [])"
    by (simp add: reconcileConfig_def Let_def go_runs cluster0_def kt0_def emptyConfigStatus_def)
  with returnsD[OF bootstrap_ready_or_again c] show ?thesis by simp
qed

text \<open>Files whose content is in a secret are resolved: afterwards no file refers to a secret,
  and path, owner and permissions of all files are as declared, in the same order.\<close>

theorem files_resolved:
  "returns (resolveFiles E cfg) (resolvedFrom (elems (kc_Files (kt_Spec cfg))))"
  using resolveLoop_resolved[of "[]"] by (simp add: resolveFiles_def)

section \<open>The k3s configuration and the cloud-init document\<close>

text \<open>The configuration of the first server is that of a joining server with the cluster
  initialization switched on and without the URL of a server to join.\<close>

theorem init_and_join_config:
  "GenerateInitControlPlaneConfig ep t s a =
     (GenerateJoinControlPlaneConfig url t ep s a)
       \<lparr>ks3_ClusterInit := True,
        ks3_AgentConfig := (ks3_AgentConfig (GenerateJoinControlPlaneConfig url t ep s a))\<lparr>ka_Server := []\<rparr>\<rparr>"
  by (rule init_is_join_without_server)

text \<open>The defaulting webhook changes nothing in what the generated configuration says about
  the cloud controller, makes the cloud provider external when none is named, and leaves a
  named one alone; applying it again changes nothing.\<close>

theorem defaulting_and_arguments:
  "getDisableCloudController (defaultServerConfig s) = getDisableCloudController s \<and>
   getKubeletExtraArgs (defaultServerConfig s) =
     (if sc_CloudProviderName s = None then [''cloud-provider=external''] else getKubeletExtraArgs s) \<and>
   KThreesControlPlane_Default (KThreesControlPlane_Default p) = KThreesControlPlane_Default p \<and>
   KThreesConfig_Default (KThreesConfig_Default c) = KThreesConfig_Default c"
proof -
  have "defaultKThreesControlPlaneSpec (defaultKThreesControlPlaneSpec q ns) ns = defaultKThreesControlPlaneSpec q ns" for q ns
    by (simp add: defaultKThreesControlPlaneSpec_def Let_def defaultServerConfig_idem)
  then show ?thesis
    using defaulted_arguments[of s]
    by (simp add: KThreesControlPlane_Default_def KThreesConfig_Default_def defaultServerConfig_idem)
qed

text \<open>C38 The content of a file survives the YAML block it is written into: the indented text has
  one line for each line of the content, each with the same number of leading spaces added,
  and removing them gives the content back.\<close>

theorem indentation_round_trip:
  "Split (templateYAMLIndent i s) newline = map (\<lambda>w. replicate i CHR '' '' @ w) (Split s newline) \<and>
   Join (map (drop i) (Split (templateYAMLIndent i s) newline)) [newline] = s"
  by (rule conjI[OF Indent_lines Indent_unindent])

text \<open>However a command is written, it takes exactly one line of the list of commands, and
  the commands appear in their order.\<close>

theorem one_line_per_command:
  "Split (commandsTemplate cs) newline = [] # map (\<lambda>c. ''  - '' @ quote c) cs"
  by (rule commandsTemplate_lines)

section \<open>Contract versions\<close>

text \<open>The version chosen for a contract is one that the definition lists for a compatible
  contract version, and none of those listed with it is later.\<close>

theorem latest_contract_version:
  assumes "version_order V" "GetLatestContractAndAPIVersionFromContract V om current = Inr (c, v)"
  shows "c \<in> set (GetCompatibleVersions current) \<and>
    (\<exists>s. mget (om_Labels om) (core_group @ ''/'' @ c) = Some s \<and> s \<noteq> [] \<and> v \<in> set (Split s CHR ''_'') \<and>
       (\<forall>w\<in>set (Split s CHR ''_''). \<not> versionLess V v w))"
proof -
  from assms(2) have "findContract V (om_Labels om)
      (sortBy (\<lambda>a b. versionLess V b a) (GetCompatibleVersions current)) = Some (c, v)"
    by (auto simp: GetLatestContractAndAPIVersionFromContract_def split: if_splits option.splits)
  from findContract_latest[OF assms(1) this] show ?thesis by simp
qed

text \<open>Versions compared by their length and then as texts.\<close>

definition V0 :: contractLib where
  "V0 = \<lparr>compareVersions = (\<lambda>a b. if a = b then 0 else if length a < length b \<or> length a = length b \<and> a < b then -1 else 1),
     calculateCRDName = (\<lambda>g k. k @ ''.'' @ g), groupVersionString = (\<lambda>g v. g @ ''/'' @ v), parseGroupVersion = Inr\<rparr>"

lemma V0_order: "version_order V0"
  unfolding version_order_def V0_def by (auto split: if_splits)

definition crdMeta :: ObjectMeta where
  "crdMeta = emptyMeta\<lparr>om_Labels := Some [''cluster.x-k8s.io/v1beta2'' \<mapsto> ''v1beta1_v1beta2'']\<rparr>"

lemma V0_versions: "versionLess V0 ''v1beta1'' ''v1beta2''" "\<not> versionLess V0 ''v1beta2'' ''v1beta1''"
  by (simp_all add: versionLess_def V0_def)

lemma crd_versions: "Split ''v1beta1_v1beta2'' CHR ''_'' = [''v1beta1'', ''v1beta2'']"
  by simp

theorem latest_contract_version_witness:
  "GetLatestContractAndAPIVersionFromContract V0 crdMeta Version = Inr (''v1beta2'', ''v1beta2'') \<and>
   \<not> versionLess V0 ''v1beta2'' ''v1beta1''"
proof -
  have r: "GetLatestContractAndAPIVersionFromContract V0 crdMeta Version = Inr (''v1beta2'', ''v1beta2'')"
    by (simp add: GetLatestContractAndAPIVersionFromContract_def GetCompatibleVersions_def Version_def sortBy_def
       core_group_def crdMeta_def V0_versions crd_versions del: Split.simps)
  have "mget (om_Labels crdMeta) (core_group @ ''/'' @ ''v1beta2'') = Some ''v1beta1_v1beta2''"
    by (simp add: crdMeta_def core_group_def)
  with latest_contract_version[OF V0_order r] r show ?thesis
    by (auto simp only: crd_versions option.inject list.set)
qed

end
