(* ===== verification/ClusterResults.thy ===== *)
theory ClusterResults
  imports ScaleResults
begin

text \<open>
  The properties of the workload cluster (etcd members and clients), of the choice of machines
  to replace, and of server-side apply.
\<close>

section \<open>etcd\<close>

text \<open>C33 The etcd client generator returns a client or an error, never both and never neither,
  for any list of nodes and any state of the pod cache; it never panics and changes nothing.\<close>

theorem etcd_client_or_error:
  "returns (ForLeader (NewEtcdClientGenerator E) pm names) client_xor_error \<and>
   returns (ForFirstAvailableNode (NewEtcdClientGenerator E) pm names) client_xor_error \<and>
   nopanic (ForLeader (NewEtcdClientGenerator E) pm names) \<and>
   nopanic (ForFirstAvailableNode (NewEtcdClientGenerator E) pm names) \<and>
   emits reads (ForLeader (NewEtcdClientGenerator E) pm names)"
  by (intro conjI returnsI ecg.leader_total ecg.first_total ecg.leader_reads) (erule ecg.leader_xor ecg.first_xor)+

text \<open>C18 Reconciling the etcd members removes a member only after it was listed through the same
  connection under the name of a node that is not among the given ones. A member without a
  name (one that has not started) is never removed.\<close>

theorem etcd_removals_justified:
  assumes "GetWorkloadCluster E k h0 = (Some (Inr w), h)"
    and "ReconcileEtcdMembers E w names h = (r, h1 @ EtcdMemberRemove p i # h2)" "length h \<le> length h1"
  shows "listed E h1 p i (\<lambda>x. NodeNameFromMember x \<noteq> [] \<and> NodeNameFromMember x \<notin> set names)"
proof -
  have "good_gen w" using returnsD[OF GetWorkloadCluster_good assms(1)] by simp
  from keepsD[OF ReconcileEtcdMembers_removals[OF this] justified_start assms(2)]
  have "removals (length h) E names (h1 @ EtcdMemberRemove p i # h2)" .
  from justifiedD[OF this assms(3)] have "removal_of E (\<lambda>n. n \<noteq> [] \<and> n \<notin> set names) h1 (EtcdMemberRemove p i)"
    by (simp add: is_remove_def)
  then show ?thesis by (auto simp: removal_of_def)
qed

theorem etcd_removals_justified_witness:
  "\<exists>w h h1 h2. GetWorkloadCluster E0 (''ns'', ''c'') [] = (Some (Inr w), h) \<and>
     snd (ReconcileEtcdMembers E0 w [''n1'', ''n2''] h) = h1 @ EtcdMemberRemove ''p1'' 3 # h2 \<and>
     listed E0 h1 ''p1'' 3 (\<lambda>x. NodeNameFromMember x \<noteq> [] \<and> NodeNameFromMember x \<notin> set [''n1'', ''n2''])"
proof -
  let ?w = "\<lparr>wl_gen = Some (NewEtcdClientGenerator E0), wl_pods = None\<rparr>"
  let ?h = "[RESTConfig (''ns'', ''c''), GetSecret (''ns'', ''c-etcd''), NewPrivateKey,
     CreateCertificate (clientTemplate 5000) (Parent (Some ''crt'')) ''material'' (Some ''key'')]"
  let ?h1 = "?h @ [WListEtcdProxyPods, EtcdStatus ''p1'', EtcdMemberList ''p1'', EtcdAlarmList ''p1'', WListNodes,
     EtcdStatus ''p1'', EtcdMemberList ''p1'', EtcdAlarmList ''p1'']"
  have w: "GetWorkloadCluster E0 (''ns'', ''c'') [] = (Some (Inr ?w), ?h)"
    by (simp add: GetWorkloadCluster_def getEtcdCAKeyPair_def generateClientCert_def newClientCert_def go_runs E0_def mget_def Let_def)
  have "\<exists>h2. snd (ReconcileEtcdMembers E0 ?w [''n1'', ''n2''] ?h) = ?h1 @ EtcdMemberRemove ''p1'' 3 # h2"
    by (simp add: ReconcileEtcdMembers_def reconcileEtcdMember_def with_client_def wlFirst_def NewEtcdClientGenerator_def
      forFirstAvailableNode_def findEtcdProxyPod_def NewClient_def newEtcdClient_def Members_def Alarms_def reconcileOne_def orphaned_def
      removeMemberForNonExistingNode_def getControlPlaneNodes_def RemoveMember_def Close_def NodeNameFromMember_def
      memberWithAlarms_def pbMemberToMember_def member0_def MemberForName_def namesOfNodes_def n_Name_def node0_def meta0_def
      hasControlPlaneRoleLabel_def go_runs E0_def Let_def)
  then obtain h2 r where run: "ReconcileEtcdMembers E0 ?w [''n1'', ''n2''] ?h = (r, ?h1 @ EtcdMemberRemove ''p1'' 3 # h2)"
    by (metis prod.collapse)
  from etcd_removals_justified[OF w run] w run show ?thesis by (metis (no_types, lifting) le_add1 length_append snd_conv)
qed

section \<open>Which machines are replaced\<close>

text \<open>The machines that need a rollout and those that are up to date partition the machines
  of the control plane; a machine that is being deleted never needs a rollout.\<close>

theorem rollout_partitions:
  assumes "distinct (map ma_Name (cp_Machines cp))"
  shows "set (UpToDateMachines L cp) \<union> set (MachinesNeedingRollout L cp) = set (cp_Machines cp) \<and>
    set (UpToDateMachines L cp) \<inter> set (MachinesNeedingRollout L cp) = {} \<and>
    {m \<in> set (cp_Machines cp). HasDeletionTimestamp L m} \<subseteq> set (UpToDateMachines L cp)"
proof -
  have "set (MachinesNeedingRollout L cp) \<subseteq> set (cp_Machines cp)" by (auto simp: MachinesNeedingRollout_set)
  then show ?thesis using rollout_partition[OF assms, of L] by (auto simp: MachinesNeedingRollout_set)
qed

theorem rollout_partitions_witness:
  "set (UpToDateMachines L0 (cp0 [machine0 ''m1'' None [], machine0 ''m2'' None []])) \<union>
     set (MachinesNeedingRollout L0 (cp0 [machine0 ''m1'' None [], machine0 ''m2'' None []])) =
     {machine0 ''m1'' None [], machine0 ''m2'' None []}"
proof -
  have "distinct (map ma_Name (cp_Machines (cp0 [machine0 ''m1'' None [], machine0 ''m2'' None []])))"
    by (simp add: cp0_def machine0_def ma_Name_def meta0_def)
  from rollout_partitions[OF this, of L0] show ?thesis by (simp add: cp0_def)
qed

text \<open>Among unhealthy machines the one to be remediated is the oldest of those without a node,
  and if all have nodes the oldest of all; there is one whenever there are unhealthy machines.\<close>

lemma remediation_choice:
  assumes "oldest_laws L" "ms \<noteq> []"
  shows "\<exists>m. getMachineToBeRemediated L ms = Some m \<and> m \<in> set ms \<and>
    list_all (\<lambda>x. (HasNode L m \<or> HasNode L x \<or> created m \<le> created x) \<and>
                  (HasNode L m = False \<or> (HasNode L x \<and> created m \<le> created x))) ms"
proof -
  obtain m where m: "getMachineToBeRemediated L ms = Some m"
    using getMachineToBeRemediated_total[OF assms] by auto
  note c = getMachineToBeRemediated_choice[OF assms(1) m]
  have "m \<in> set ms" by (rule getMachineToBeRemediated_mem[OF assms(1) m])
  with c m show ?thesis by (cases "\<exists>x\<in>set ms. \<not> HasNode L x") (auto simp: list_all_iff)
qed

section \<open>Server-side apply\<close>

text \<open>C31 A filtered intent has exactly the leaves of the object whose path overlaps an allowed
  path, in their order: nothing the controller has no opinion on is sent, and nothing it has
  one on is lost.\<close>

theorem intent_leaves:
  assumes "convert obj = Inr v" "prepareModified convert obj = Inr u" "u \<noteq> JMap []"
  shows "leaves u = filter (\<lambda>l. \<exists>p\<in>set allowedIntentPaths. Overlaps (fst l) p) (leaves v)"
proof -
  have u: "u = fst (FilterIntent (IsPathNotAllowed allowedIntentPaths) [] v)"
    using assms by (simp add: prepareModified_def FilterObject_def allowedIntentPaths_def)
  have "survives (IsPathNotAllowed allowedIntentPaths) [] q \<longleftrightarrow> (\<exists>p\<in>set allowedIntentPaths. Overlaps q p)" for q
  proof (cases "q = []")
    case True
    then show ?thesis by (simp add: survives_def Overlaps_iff allowedIntentPaths_def)
  next
    case False
    with survives_allowed[OF False, of allowedIntentPaths] allowed_survives[of _ allowedIntentPaths q] show ?thesis by blast
  qed
  with filtered_leaves[of "IsPathNotAllowed allowedIntentPaths" v] assms(3) u show ?thesis by simp
qed

theorem intent_leaves_witness:
  "\<exists>u. prepareModified (convMachine X0) (machine0 ''m'' None []) = Inr u \<and> leaves u = [([''kind''], JOther ''Machine'')]"
proof -
  let ?v = "JMap [(''kind'', JOther ''Machine''), (''status'', JOther ''s'')]"
  have u: "prepareModified (convMachine X0) (machine0 ''m'' None []) = Inr (JMap [(''kind'', JOther ''Machine'')])"
    by (simp add: prepareModified_def X0_def FilterObject_def allowedIntentPaths_def IsPathNotAllowed_def IsPathAllowed_def
        Overlaps_def Equal_def IsParentOf_def Append_def Let_def)
  have "convMachine X0 (machine0 ''m'' None []) = Inr ?v" by (simp add: X0_def)
  from intent_leaves[OF this u] u show ?thesis
    by (intro exI[of _ "JMap [(''kind'', JOther ''Machine'')]"]) simp
qed

text \<open>C32 A request that did not change the object is not repeated: once the server answered with
  the resource version the object already had, the same intent on the same object is not sent
  again within ten minutes. Neither is another intent with the same hash, although it might
  change the object: the identifier of a request tells intents apart only as far as a sum of
  32 bits does.\<close>

theorem apply_not_repeated:
  assumes "ComputeRequestIdentifier (Compute spew) og orig m = Inr i" "\<not> ssaCache_Has cache (e_now E h) i"
    and "e_applied E h req = Inr (om_ResourceVersion orig)"
    and "Patch E NewCache cache (Compute spew) req (Inr m) (Inr g) (Some (orig, og)) h = (Some (cache', True, None), h1)"
    and "e_now E h2 \<le> e_now E (h @ [req]) + sint (10 * Minute)" "Compute spew m' = Compute spew m"
  shows "snd (Patch E NewCache cache' (Compute spew) req' (Inr m') (Inr g) (Some (orig, og)) h2) = h2"
proof -
  have "CacheHas NewCache = ssaCache_Has" by (simp add: NewCache_def)
  with new_cache.not_repeated[of "Compute spew" og orig m i cache E h req g cache' h1 h2 m' req'] assms show ?thesis
    by (simp add: ttl_def)
qed

text \<open>Two texts with the same sum.\<close>

lemma colliding_texts: "Write32a New32a ''costarring'' = Write32a New32a ''liquid''"
  by (simp add: Write32a_def New32a_def)

theorem apply_not_repeated_witness:
  "\<exists>cache'. Patch E0 NewCache Map.empty (hashOf X0) (ApplyMachine (machine0 ''m'' None [])) (Inr (JOther ''costarring'')) (Inr ''Machine'')
       (Some (emptyMeta\<lparr>om_ResourceVersion := ''2''\<rparr>, Inr ''Machine'')) [] = (Some (cache', True, None), [(ApplyMachine (machine0 ''m'' None []))]) \<and>
     snd (Patch E0 NewCache cache' (hashOf X0) (ApplyMachine (machine0 ''n'' None [])) (Inr (JOther ''liquid'')) (Inr ''Machine'')
       (Some (emptyMeta\<lparr>om_ResourceVersion := ''2''\<rparr>, Inr ''Machine'')) [(ApplyMachine (machine0 ''m'' None []))]) = [(ApplyMachine (machine0 ''m'' None []))]"
proof -
  let ?o = "emptyMeta\<lparr>om_ResourceVersion := ''2''\<rparr>" and ?m = "JOther ''costarring''"
  obtain i where i: "ComputeRequestIdentifier (hashOf X0) (Inr ''Machine'') ?o ?m = Inr i"
    by (simp add: ComputeRequestIdentifier_def Compute_def X0_def)
  have e: "e_applied E0 h c = Inr (om_ResourceVersion ?o)" for h c by (simp add: E0_def)
  obtain cache' where run: "Patch E0 NewCache Map.empty (hashOf X0) (ApplyMachine (machine0 ''m'' None [])) (Inr ?m) (Inr ''Machine'') (Some (?o, Inr ''Machine'')) [] =
      (Some (cache', True, None), [(ApplyMachine (machine0 ''m'' None []))])"
    using i by (simp add: Patch_def sendApply_def NewCache_def ssaCache_Has_def E0_def go_runs)
  have "hashOf X0 (JOther ''liquid'') = hashOf X0 ?m"
    using colliding_texts by (simp add: Compute_def X0_def)
  from apply_not_repeated[OF i _ e run _ this, of "[(ApplyMachine (machine0 ''m'' None []))]" "ApplyMachine (machine0 ''n'' None [])"]
  have "snd (Patch E0 NewCache cache' (hashOf X0) (ApplyMachine (machine0 ''n'' None [])) (Inr (JOther ''liquid'')) (Inr ''Machine'') (Some (?o, Inr ''Machine'')) [(ApplyMachine (machine0 ''m'' None []))]) = [(ApplyMachine (machine0 ''m'' None []))]"
    by (simp add: ssaCache_Has_def E0_def Minute_def)
  with run show ?thesis by blast
qed

text \<open>Adopting server-side apply for an object is done once: after it succeeded the manager
  owns fields, no entry of the previous manager is left if it had to act, and doing it again
  changes and sends nothing.\<close>

theorem ssa_adoption_once:
  assumes "CleanUpManagedFieldsForSSAAdoption E kind gvk obj manager h = (Some (obj', None), h')"
  shows "hasFieldsManagedBy (om_ManagedFields obj') manager \<and>
    CleanUpManagedFieldsForSSAAdoption E kind gvk' obj' manager h2 = (Some (obj', None), h2) \<and>
    (if hasFieldsManagedBy (om_ManagedFields obj) manager then obj' = obj \<and> h' = h
     else list_all (\<lambda>mf. \<not> is_classic mf) (om_ManagedFields obj'))"
  using assms
  by (auto simp: CleanUpManagedFieldsForSSAAdoption_def go_runs hasFieldsManagedBy_def list_all_iff Let_def is_classic_def
      seedEntry_def patchedManagedFields_def split: if_splits sum.splits option.splits)

theorem ssa_adoption_once_witness:
  "\<exists>obj' h'. CleanUpManagedFieldsForSSAAdoption E0 ''Machine'' (Inr ''v1'') (meta0 ''m'' ''u'') kcpManagerName [] = (Some (obj', None), h') \<and>
     hasFieldsManagedBy (om_ManagedFields obj') kcpManagerName"
proof -
  obtain obj' h' where run:
    "CleanUpManagedFieldsForSSAAdoption E0 ''Machine'' (Inr ''v1'') (meta0 ''m'' ''u'') kcpManagerName [] = (Some (obj', None), h')"
    by (simp add: CleanUpManagedFieldsForSSAAdoption_def hasFieldsManagedBy_def meta0_def emptyMeta_def go_runs Let_def E0_def
        patchedManagedFields_def)
  with ssa_adoption_once[OF run] show ?thesis by blast
qed

end
