(* ===== verification/KcpController.thy ===== *)
theory KcpController
  imports Scale Certificates Token Kubeconfig ContractVersion
begin

text \<open>
  \<^verbatim>\<open>controlplane/controllers/kthreescontrolplane_controller.go\<close>: the reconciler of a
  KThreesControlPlane. It calls every other component of the control plane provider: the
  secrets (certificates, token, kubeconfig), the synchronisation of the machines by
  server-side apply, the conditions, the etcd members, remediation, rollout and scaling, and
  at the end the status.

  The object under reconciliation is passed on and returned; \<^verbatim>\<open>kcp\<close> and
  \<^verbatim>\<open>controlPlane.KCP\<close> are one pointer, and so are \<^verbatim>\<open>ownedMachines\<close> and
  \<^verbatim>\<open>controlPlane.Machines\<close>. The cache of apply requests is the state the reconciler
  keeps between calls.
\<close>

definition dependentCertRequeueAfter :: duration where "dependentCertRequeueAfter = 30 * Second"

text \<open>What the controller takes from the libraries, besides \<open>lib\<close>: finalizers, the endpoint
  of a cluster, \<^verbatim>\<open>util.IsControlledBy\<close>, the kind of the fetched object, whether a
  machine implements the getter of the v1beta1 conditions, the scheme, and the renewal time
  of client certificates.\<close>

record kcpLib =
  ContainsFinalizer :: "string list \<Rightarrow> string \<Rightarrow> bool"
  AddFinalizer :: "string list \<Rightarrow> string \<Rightarrow> string list"
  RemoveFinalizer :: "string list \<Rightarrow> string \<Rightarrow> string list"
  ep_IsZero :: "APIEndpoint \<Rightarrow> bool"
  ep_IsValid :: "APIEndpoint \<Rightarrow> bool"
  ep_String :: "APIEndpoint \<Rightarrow> string"
  ControlledByKCP :: "OwnerReference list \<Rightarrow> ObjectMeta \<Rightarrow> bool"
  fetchedKind :: "KThreesControlPlane \<Rightarrow> string"
  implementsGetter :: "Machine \<Rightarrow> bool"
  gvkConfig :: "goerr + string"
  ParseGroupVersion :: "string \<Rightarrow> goerr + string"
  ClientCertificateRenewalDuration :: duration

text \<open>Everything a controller is configured with.\<close>

record kcpEnv =
  k_lib :: lib
  k_ssa :: ssaLib
  k_token :: tokenLib
  k_kube :: kubeLib
  k_contract :: contractLib
  k_kcp :: kcpLib

definition kp_setFinalizers :: "KThreesControlPlane \<Rightarrow> string list \<Rightarrow> KThreesControlPlane" where
  "kp_setFinalizers p fs = p\<lparr>kp_Meta := (kp_Meta p)\<lparr>om_Finalizers := fs\<rparr>\<rparr>"
definition kp_deleting :: "KThreesControlPlane \<Rightarrow> bool" where
  "kp_deleting p = deleting (kp_Meta p)"

section \<open>Conditions over all machines\<close>

definition getters :: "kcpLib \<Rightarrow> Machine list \<Rightarrow> Machine list" where
  "getters K ms = filter (implementsGetter K) ms"

definition kp_SetAggregate :: "lib \<Rightarrow> KThreesControlPlane \<Rightarrow> string \<Rightarrow> Machine list \<Rightarrow> KThreesControlPlane" where
  "kp_SetAggregate L p t ms = kp_SetConditions p (v1SetAggregate L t ms (kp_GetConditions p))"

definition kp_SetSummary :: "lib \<Rightarrow> KThreesControlPlane \<Rightarrow> string list \<Rightarrow> KThreesControlPlane" where
  "kp_SetSummary L p ts = kp_SetConditions p (v1SetSummary L ts (kp_GetConditions p))"

definition summaryConditions :: "string list" where
  "summaryConditions =
     [MachinesSpecUpToDateCondition, ResizedCondition, MachinesReadyCondition, AvailableCondition,
      CertificatesAvailableCondition, TokenAvailableCondition]"

definition patchKThreesControlPlane ::
  "env \<Rightarrow> lib \<Rightarrow> KThreesControlPlane \<Rightarrow> (call, KThreesControlPlane \<times> goerr option) go" where
  "patchKThreesControlPlane E L kcp =
     (let kcp = kp_SetSummary L kcp summaryConditions
      in bnd (do_write E (PatchKCP kcp)) (\<lambda>e. ret (kcp, e)))"

definition reconcileControlPlaneConditions ::
  "env \<Rightarrow> lib \<Rightarrow> ControlPlane \<Rightarrow> (call, ControlPlane \<times> goerr option) go" where
  "reconcileControlPlaneConditions E L cp =
     (if \<not> st_Initialized (kp_Status (cp_KCP cp)) then ret (cp, None)
      else bnd (GetWorkloadCluster E (cl_Key (cp_Cluster cp))) (\<lambda>r. case r of
        Inl err \<Rightarrow> ret (cp, Some (Wrap ''cannot get remote client to workload cluster'' err))
      | Inr workloadCluster \<Rightarrow>
          bnd (UpdateAgentConditions E L cp) (\<lambda>cp.
          bnd (UpdateEtcdConditions E L workloadCluster cp) (\<lambda>(_, cp).
          bnd (PatchMachines E cp) (\<lambda>e. ret (cp, e))))))"

section \<open>Etcd members\<close>

definition kcp_reconcileEtcdMembers :: "env \<Rightarrow> lib \<Rightarrow> ControlPlane \<Rightarrow> (call, goerr option) go" where
  "kcp_reconcileEtcdMembers E L cp =
     (if \<not> IsEtcdManaged cp then ret None
      else if length (cp_Machines cp) = 0 then ret None
      else if \<exists>machine\<in>set (cp_Machines cp). ma_NodeRef machine = None then ret None
      else
        let nodeNames = List.map_filter ma_NodeRef (cp_Machines cp)
        in if v1IsTrue L EtcdClusterHealthyCondition (kp_GetConditions (cp_KCP cp)) then ret None
           else bnd (GetWorkloadCluster E (cl_Key (cp_Cluster cp))) (\<lambda>r. case r of
             Inl err \<Rightarrow> ret (Some (Wrap ''cannot get remote client to workload cluster'' err))
           | Inr workloadCluster \<Rightarrow>
               bnd (ReconcileEtcdMembers E workloadCluster nodeNames) (\<lambda>(_, removedMembers, e).
                 ret (map_option (Wrap ''failed attempt to reconcile etcd members'') e))))"

section \<open>The external reference, the kubeconfig\<close>

definition HasSuffix :: "string \<Rightarrow> string \<Rightarrow> bool" where
  "HasSuffix s suffix \<longleftrightarrow> length suffix \<le> length s \<and> drop (length s - length suffix) s = suffix"

definition clusterOwner :: "Cluster \<Rightarrow> OwnerReference" where
  "clusterOwner cluster =
     \<lparr>or_APIVersion = ''cluster.x-k8s.io/v1beta1'', or_Kind = ''Cluster'', or_Name = cl_Name cluster,
      or_UID = om_UID (cl_Meta cluster), or_Controller = None\<rparr>"

definition reconcileExternalReference ::
  "env \<Rightarrow> lib \<Rightarrow> Cluster \<Rightarrow> ObjectReference \<Rightarrow> (call, goerr option) go" where
  "reconcileExternalReference E L cluster ref =
     (if \<not> HasSuffix (ref_Kind ref) ''Template'' then ret None
      else bnd (api E e_unstructured (GetExternal (ref_APIVersion ref) (ref_Kind ref) (ref_Namespace ref) (ref_Name ref))) (\<lambda>r. case r of
        Inl err \<Rightarrow> ret (Some err)
      | Inr obj \<Rightarrow>
          bnd (new_helper E (ref_Name ref)) (\<lambda>e. case e of
            Some err \<Rightarrow> ret (Some err)
          | None \<Rightarrow>
              do_write E (PatchUnstructured (obj\<lparr>u_Meta := (u_Meta obj)\<lparr>om_OwnerReferences :=
                EnsureOwnerRef L (om_OwnerReferences (u_Meta obj)) (clusterOwner cluster)\<rparr>\<rparr>)))))"

definition reconcileKubeconfig ::
  "env \<Rightarrow> kcpEnv \<Rightarrow> ObjectKey \<Rightarrow> APIEndpoint \<Rightarrow> KThreesControlPlane \<Rightarrow> (call, Result \<times> goerr option) go" where
  "reconcileKubeconfig E C clusterName endpoint kcp =
     (if ep_IsZero (k_kcp C) endpoint then ret (NoResult, None)
      else
        let controllerOwnerRef = NewControllerRef (k_lib C) (kp_Meta kcp) ''KThreesControlPlane'' in
        bnd (GetFromNamespacedName E clusterName KubeconfigPurpose) (\<lambda>r. case r of
          Inl err \<Rightarrow>
            if IsNotFound err
            then bnd (CreateSecretWithOwner E (k_kube C) clusterName (ep_String (k_kcp C) endpoint) controllerOwnerRef) (\<lambda>createErr.
              if (case createErr of None \<Rightarrow> False | Some e \<Rightarrow> is_sentinel e ''could not find secret ca'')
              then ret (RequeueAfter dependentCertRequeueAfter, None)
              else ret (NoResult, createErr))
            else ret (NoResult, Some (Wrap ''failed to retrieve kubeconfig Secret'' err))
        | Inr configSecret \<Rightarrow>
            if \<not> ControlledByKCP (k_kcp C) (om_OwnerReferences (s_Meta configSecret)) (kp_Meta kcp) then ret (NoResult, None)
            else bnd (NeedsClientCertRotation E (k_kube C) configSecret (ClientCertificateRenewalDuration (k_kcp C))) (\<lambda>r. case r of
              Inl err \<Rightarrow> ret (NoResult, Some err)
            | Inr needsRotation \<Rightarrow>
                if needsRotation
                then bnd (RegenerateSecret E (k_kube C) configSecret) (\<lambda>e.
                       ret (NoResult, map_option (Wrap ''failed to regenerate kubeconfig'') e))
                else ret (NoResult, None))))"

section \<open>Synchronising the machines\<close>

definition labelsAndAnnotationsManagedFieldPaths :: "Path list" where
  "labelsAndAnnotationsManagedFieldPaths = [[''f:metadata'', ''f:annotations''], [''f:metadata'', ''f:labels'']]"

text \<open>Drop the ownership of the previous manager, then apply labels and annotations.\<close>

definition syncExternal ::
  "env \<Rightarrow> kcpEnv \<Rightarrow> ssaCache \<Rightarrow> ObjectMeta \<Rightarrow> goerr + string \<Rightarrow> string \<Rightarrow> string \<Rightarrow> ControlPlane \<Rightarrow> string \<Rightarrow>
    (call, ssaCache \<times> goerr option) go" where
  "syncExternal E C cache obj objGVK kind apiVersion cp what =
     bnd (DropManagedFields E (unmarshalFields (k_ssa C)) (marshalFields (k_ssa C)) kind obj kcpManagerName
            labelsAndAnnotationsManagedFieldPaths) (\<lambda>(obj, e). case e of
       Some err \<Rightarrow> ret (cache, Some (Wrap (''failed to clean up managedFields of '' @ what) err))
     | None \<Rightarrow>
         bnd (updateExternalObject E (k_ssa C) cache obj objGVK kind apiVersion (cp_KCP cp) (cp_Cluster cp)) (\<lambda>(cache, e).
           ret (cache, map_option (Wrap (''failed to update '' @ what)) e)))"

definition syncInfraMachine ::
  "env \<Rightarrow> kcpEnv \<Rightarrow> string \<Rightarrow> ControlPlane \<Rightarrow> ssaCache \<Rightarrow> (call, ssaCache \<times> goerr option) go" where
  "syncInfraMachine E C machineName cp cache =
     (case cp_InfraResources cp machineName of
        None \<Rightarrow> ret (cache, None)
      | Some infraMachine \<Rightarrow>
          syncExternal E C cache (u_Meta infraMachine) (gvkUnstructured (k_ssa C) infraMachine)
            (u_Kind infraMachine) (u_APIVersion infraMachine) cp ''InfrastructureMachine'')"

definition syncKThreesConfig ::
  "env \<Rightarrow> kcpEnv \<Rightarrow> Machine \<Rightarrow> ControlPlane \<Rightarrow> ssaCache \<Rightarrow> (call, ssaCache \<times> goerr option) go" where
  "syncKThreesConfig E C m cp cache =
     (case cp_KthreesConfigs cp (ma_Name m) of
        None \<Rightarrow> ret (cache, None)
      | Some kthreesConfigs \<Rightarrow>
          (let ref = the_ref (ma_ConfigRef m) in
           bnd (GetAPIVersion E (k_contract C) (cr_APIGroup ref) (cr_Kind ref)) (\<lambda>r. case r of
             Inl err \<Rightarrow> ret (cache, Some (Wrap ''failed to get api version for bootstrap config'' err))
           | Inr version \<Rightarrow>
              (case ParseGroupVersion (k_kcp C) version of
                 Inl err \<Rightarrow> ret (cache, Some (Wrap ''failed to parse api version for bootstrap config'' err))
               | Inr groupVersion \<Rightarrow>
                   syncExternal E C cache (kt_Meta kthreesConfigs) (gvkConfig (k_kcp C)) (cr_Kind ref) groupVersion cp
                     ''KThreesConfigs''))))"

definition setMachineMeta :: "Machine \<Rightarrow> ObjectMeta \<Rightarrow> Machine" where
  "setMachineMeta m meta = m\<lparr>ma_Meta := meta\<rparr>"

definition syncMachine ::
  "env \<Rightarrow> kcpEnv \<Rightarrow> Machine \<Rightarrow> ControlPlane \<Rightarrow> ssaCache \<Rightarrow> (call, ControlPlane \<times> ssaCache \<times> goerr option) go" where
  "syncMachine E C m cp cache =
     bnd (CleanUpManagedFieldsForSSAAdoption E ''Machine'' (gvkMachine (k_ssa C)) (ma_Meta m) kcpManagerName) (\<lambda>(meta, e).
     case e of
       Some err \<Rightarrow> ret (cp, cache, Some (Wrap ''failed to update Machine: failed to adjust the managedFields of the Machine'' err))
     | None \<Rightarrow>
         (let m = setMachineMeta m meta in
          bnd (updateMachine E (k_lib C) (k_ssa C) cache m (cp_KCP cp) (cp_Cluster cp)) (\<lambda>(cache, r). case r of
            Inl err \<Rightarrow> ret (cp, cache, Some (Wrap ''failed to update Machine'' err))
          | Inr updatedMachine \<Rightarrow>
              (let cp = cp_upd cp (ma_Name m) (\<lambda>_. updatedMachine) in
               bnd (new_helper E (ma_Name updatedMachine)) (\<lambda>e. case e of
                 Some err \<Rightarrow> ret (cp, cache, Some err)
               | None \<Rightarrow>
                   bnd (syncInfraMachine E C (ma_Name m) cp cache) (\<lambda>(cache, e). case e of
                     Some err \<Rightarrow> ret (cp, cache, Some err)
                   | None \<Rightarrow>
                       bnd (syncKThreesConfig E C m cp cache) (\<lambda>(cache, e). ret (cp, cache, e))))))))"

primrec syncLoop ::
  "env \<Rightarrow> kcpEnv \<Rightarrow> Machine list \<Rightarrow> string list \<Rightarrow> ControlPlane \<Rightarrow> ssaCache \<Rightarrow>
    (call, ControlPlane \<times> ssaCache \<times> (goerr + string list)) go" where
  "syncLoop E C [] patchHelpers cp cache = ret (cp, cache, Inr patchHelpers)"
| "syncLoop E C (m # ms) patchHelpers cp cache =
     (if ma_deleting m then syncLoop E C ms patchHelpers cp cache
      else bnd (syncMachine E C m cp cache) (\<lambda>(cp, cache, e). case e of
        Some err \<Rightarrow> ret (cp, cache, Inl err)
      | None \<Rightarrow> syncLoop E C ms (patchHelpers @ [ma_Name m]) cp cache))"

definition syncMachines ::
  "env \<Rightarrow> kcpEnv \<Rightarrow> ControlPlane \<Rightarrow> ssaCache \<Rightarrow> (call, ControlPlane \<times> ssaCache \<times> goerr option) go" where
  "syncMachines E C cp cache =
     bnd (syncLoop E C (cp_Machines cp) [] cp cache) (\<lambda>(cp, cache, r). case r of
       Inl err \<Rightarrow> ret (cp, cache, Some err)
     | Inr patchHelpers \<Rightarrow> ret (SetPatchHelpers cp patchHelpers, cache, None))"

section \<open>Rollout and scaling\<close>

definition upgradeControlPlane ::
  "env \<Rightarrow> kcpEnv \<Rightarrow> ControlPlane \<Rightarrow> Machine list \<Rightarrow> (call, ControlPlane \<times> Result \<times> goerr option) go" where
  "upgradeControlPlane E C cp machinesRequireUpgrade =
     bnd (deref (ps_Replicas (kp_Spec (cp_KCP cp)))) (\<lambda>replicas.
       if int (length (cp_Machines cp)) \<le> sint replicas
       then scaleUpControlPlane E (k_lib C) (k_ssa C) cp
       else scaleDownControlPlane E (k_lib C) cp machinesRequireUpgrade)"

definition markRollout :: "lib \<Rightarrow> ControlPlane \<Rightarrow> Machine list \<Rightarrow> ControlPlane" where
  "markRollout L cp needRollout =
     updKCP (\<lambda>p. kp_MarkFalse L p MachinesSpecUpToDateCondition ''RollingUpdateInProgress'' SevWarning
       (''Rolling '' @ show_nat (length needRollout) @ '' replicas with outdated spec ('' @
        show_int (int (length (cp_Machines cp)) - int (length needRollout)) @ '' replicas up to date)'')) cp"

definition markUpToDate :: "lib \<Rightarrow> ControlPlane \<Rightarrow> ControlPlane" where
  "markUpToDate L cp =
     (if v1Has L MachinesSpecUpToDateCondition (kp_GetConditions (cp_KCP cp))
      then updKCP (\<lambda>p. kp_MarkTrue L p MachinesSpecUpToDateCondition) cp else cp)"

definition markWaitingForServer :: "lib \<Rightarrow> ControlPlane \<Rightarrow> ControlPlane" where
  "markWaitingForServer L cp =
     updKCP (\<lambda>p. kp_MarkFalse L p AvailableCondition ''WaitingForKthreesServer'' SevInfo []) cp"

definition scaleControlPlane ::
  "env \<Rightarrow> kcpEnv \<Rightarrow> ControlPlane \<Rightarrow> (call, ControlPlane \<times> Result \<times> goerr option) go" where
  "scaleControlPlane E C cp =
     bnd (deref (ps_Replicas (kp_Spec (cp_KCP cp)))) (\<lambda>replicas.
       let numMachines = int (length (cp_Machines cp)); desiredReplicas = sint replicas in
       if numMachines < desiredReplicas \<and> numMachines = 0
       then initializeControlPlane E (k_lib C) (k_ssa C) (markWaitingForServer (k_lib C) cp)
       else if numMachines < desiredReplicas \<and> numMachines > 0
       then scaleUpControlPlane E (k_lib C) (k_ssa C) cp
       else if numMachines > desiredReplicas
       then scaleDownControlPlane E (k_lib C) cp []
       else ret (cp, NoResult, None))"

definition rolloutOrScale ::
  "env \<Rightarrow> kcpEnv \<Rightarrow> ControlPlane \<Rightarrow> (call, ControlPlane \<times> Result \<times> goerr option) go" where
  "rolloutOrScale E C cp =
     (let needRollout = MachinesNeedingRollout (k_lib C) cp in
      if length needRollout > 0
      then upgradeControlPlane E C (markRollout (k_lib C) cp needRollout) needRollout
      else scaleControlPlane E C (markUpToDate (k_lib C) cp))"

section \<open>Reconciling\<close>

text \<open>From the conditions on; every step may end the pass.\<close>

definition operate ::
  "env \<Rightarrow> kcpEnv \<Rightarrow> ControlPlane \<Rightarrow> (call, ControlPlane \<times> Result \<times> goerr option) go" where
  "operate E C cp =
     (let conditionGetters = getters (k_kcp C) (cp_Machines cp);
          cp = (if length conditionGetters > 0
                then updKCP (\<lambda>p. kp_SetAggregate (k_lib C) p MachinesReadyCondition conditionGetters) cp else cp)
      in bnd (reconcileControlPlaneConditions E (k_lib C) cp) (\<lambda>(cp, e). case e of
           Some err \<Rightarrow> ret (cp, NoResult, Some err)
         | None \<Rightarrow>
             bnd (kcp_reconcileEtcdMembers E (k_lib C) cp) (\<lambda>e. case e of
               Some err \<Rightarrow> ret (cp, NoResult, Some err)
             | None \<Rightarrow>
                 bnd (reconcileUnhealthyMachines E (k_lib C) cp) (\<lambda>(cp, result, e).
                   if e \<noteq> None \<or> \<not> r_IsZero result then ret (cp, result, e)
                   else rolloutOrScale E C cp))))"

text \<open>Certificates and token.\<close>

definition reconcileSecrets ::
  "env \<Rightarrow> kcpEnv \<Rightarrow> Cluster \<Rightarrow> KThreesControlPlane \<Rightarrow> (call, KThreesControlPlane \<times> goerr option) go" where
  "reconcileSecrets E C cluster kcp =
     (let L = k_lib C;
          certificates = NewCertificatesForInitialControlPlane (ps_KThreesConfigSpec (kp_Spec kcp));
          controllerRef = NewControllerRef L (kp_Meta kcp) ''KThreesControlPlane''
      in bnd (LookupOrGenerate E (cl_Key cluster) controllerRef certificates) (\<lambda>(_, e). case e of
           Some err \<Rightarrow>
             ret (kp_MarkFalse L kcp CertificatesAvailableCondition ''CertificatesGenerationFailed'' SevWarning
                    (''failed to lookup or create cluster certificates: '' @ errText L err), Some err)
         | None \<Rightarrow>
             (let kcp = kp_MarkTrue L kcp CertificatesAvailableCondition in
              bnd (token_Reconcile E L (k_token C) (cl_Key cluster) (kp_Meta kcp) (fetchedKind (k_kcp C) kcp)) (\<lambda>e. case e of
                Some err \<Rightarrow>
                  ret (kp_MarkFalse L kcp TokenAvailableCondition ''TokenGenerationFailed'' SevWarning
                         (''failed to reconcile token: '' @ errText L err), Some err)
              | None \<Rightarrow> ret (kp_MarkTrue L kcp TokenAvailableCondition, None)))))"

text \<open>From the list of machines on.\<close>

definition reconcileMachines ::
  "env \<Rightarrow> kcpEnv \<Rightarrow> ssaCache \<Rightarrow> Cluster \<Rightarrow> KThreesControlPlane \<Rightarrow>
    (call, ssaCache \<times> KThreesControlPlane \<times> Result \<times> goerr option) go" where
  "reconcileMachines E C cache cluster kcp =
     (let L = k_lib C in
      bnd (GetMachinesForCluster E (cl_Key cluster) [ControlPlaneMachines L (cl_Name cluster)]) (\<lambda>r. case r of
        Inl err \<Rightarrow> ret (cache, kcp, NoResult, Some err)
      | Inr controlPlaneMachines \<Rightarrow>
          if length (MFilter [AdoptableControlPlaneMachines L (cl_Name cluster)] controlPlaneMachines) > 0
          then ret (cache, kcp, NoResult, None)
          else
            let ownedMachines = MFilter [OwnedMachines L kcp] controlPlaneMachines in
            if length ownedMachines \<noteq> length controlPlaneMachines then ret (cache, kcp, NoResult, None)
            else bnd (NewControlPlane E cluster kcp ownedMachines) (\<lambda>r. case r of
              Inl err \<Rightarrow> ret (cache, kcp, NoResult, Some err)
            | Inr cp \<Rightarrow>
                bnd (syncMachines E C cp cache) (\<lambda>(cp, cache, e). case e of
                  Some err \<Rightarrow> ret (cache, cp_KCP cp, NoResult, Some (Wrap ''failed to sync Machines'' err))
                | None \<Rightarrow>
                    bnd (operate E C cp) (\<lambda>(cp, result, e). ret (cache, cp_KCP cp, result, e))))))"

text \<open>The result of \<open>reconcileKubeconfig\<close> is used only when it has an error.\<close>

definition reconcile ::
  "env \<Rightarrow> kcpEnv \<Rightarrow> ssaCache \<Rightarrow> Cluster \<Rightarrow> KThreesControlPlane \<Rightarrow>
    (call, ssaCache \<times> KThreesControlPlane \<times> Result \<times> goerr option) go" where
  "reconcile E C cache cluster kcp =
     bnd (reconcileExternalReference E (k_lib C) cluster (mt_InfrastructureRef (ps_MachineTemplate (kp_Spec kcp)))) (\<lambda>e. case e of
       Some err \<Rightarrow> ret (cache, kcp, NoResult, Some err)
     | None \<Rightarrow>
     bnd (reconcileSecrets E C cluster kcp) (\<lambda>(kcp, e). case e of
       Some err \<Rightarrow> ret (cache, kcp, NoResult, Some err)
     | None \<Rightarrow>
     if \<not> ep_IsValid (k_kcp C) (cl_ControlPlaneEndpoint cluster) then ret (cache, kcp, NoResult, None)
     else
     bnd (reconcileKubeconfig E C (cl_Key cluster) (cl_ControlPlaneEndpoint cluster) kcp) (\<lambda>(result, e). case e of
       Some err \<Rightarrow> ret (cache, kcp, result, Some err)
     | None \<Rightarrow> reconcileMachines E C cache cluster kcp)))"

section \<open>Deleting\<close>

definition deleteMachines :: "env \<Rightarrow> Machine list \<Rightarrow> (call, goerr list) go" where
  "deleteMachines E machinesToDelete =
     foldG (\<lambda>m errs. bnd (do_write E (DeleteMachine m)) (\<lambda>e. case e of
              None \<Rightarrow> ret errs
            | Some err \<Rightarrow> if IsNotFound err then ret errs else ret (errs @ [err]))) machinesToDelete []"

text \<open>From the list of all machines of the cluster on.\<close>

definition deleteListed ::
  "env \<Rightarrow> kcpEnv \<Rightarrow> Cluster \<Rightarrow> KThreesControlPlane \<Rightarrow> Machine list \<Rightarrow> (call, KThreesControlPlane \<times> Result \<times> goerr option) go" where
  "deleteListed E C cluster kcp allMachines =
     (let L = k_lib C; K = k_kcp C; ownedMachines = MFilter [OwnedMachines L kcp] allMachines in
          if length ownedMachines = 0
          then ret (kp_setFinalizers kcp (RemoveFinalizer K (om_Finalizers (kp_Meta kcp)) KThreesControlPlaneFinalizer), NoResult, None)
          else bnd (NewControlPlane E cluster kcp ownedMachines) (\<lambda>r. case r of
            Inl err \<Rightarrow> ret (kcp, NoResult, Some err)
          | Inr cp \<Rightarrow>
              bnd (reconcileControlPlaneConditions E L cp) (\<lambda>(cp, _).
              let kcp = kp_SetAggregate L (cp_KCP cp) MachinesReadyCondition (getters K (cp_Machines cp)) in
              if length allMachines \<noteq> length ownedMachines
              then ret (kp_MarkFalse L kcp ResizedCondition ''Deleting'' SevInfo ''Waiting for worker nodes to be deleted first'',
                        RequeueAfter deleteRequeueAfter, None)
              else
                let machinesToDelete = MFilter [\<lambda>m. \<not> HasDeletionTimestamp L m] (cp_Machines cp) in
                bnd (deleteMachines E machinesToDelete) (\<lambda>errs.
                  if length errs > 0
                  then bnd (do_write E (Event ''FailedDelete'')) (\<lambda>_. ret (kcp, NoResult, NewAggregate (map Some errs)))
                  else ret (kp_MarkFalse L kcp ResizedCondition ''Deleting'' SevInfo [], RequeueAfter deleteRequeueAfter, None)))))"

definition reconcileDelete ::
  "env \<Rightarrow> kcpEnv \<Rightarrow> Cluster \<Rightarrow> KThreesControlPlane \<Rightarrow> (call, KThreesControlPlane \<times> Result \<times> goerr option) go" where
  "reconcileDelete E C cluster kcp =
     bnd (GetMachinesForCluster E (cl_Key cluster) []) (\<lambda>r. case r of
       Inl err \<Rightarrow> ret (kcp, NoResult, Some err)
     | Inr allMachines \<Rightarrow> deleteListed E C cluster kcp allMachines)"

section \<open>Status\<close>

definition kp_updStatus :: "(KThreesControlPlaneStatus \<Rightarrow> KThreesControlPlaneStatus) \<Rightarrow> KThreesControlPlane \<Rightarrow> KThreesControlPlane" where
  "kp_updStatus f p = p\<lparr>kp_Status := f (kp_Status p)\<rparr>"

definition resizedStatus :: "lib \<Rightarrow> Machine list \<Rightarrow> int32 \<Rightarrow> int32 \<Rightarrow> KThreesControlPlane \<Rightarrow> KThreesControlPlane" where
  "resizedStatus L ownedMachines replicas desiredReplicas kcp =
     (if sint replicas < sint desiredReplicas
      then kp_MarkFalse L kcp ResizedCondition ''ScalingUp'' SevWarning
             (''Scaling up control plane to '' @ show_int (sint desiredReplicas) @ '' replicas (actual '' @ show_int (sint replicas) @ '')'')
      else if sint replicas > sint desiredReplicas
      then kp_MarkFalse L kcp ResizedCondition ''ScalingDown'' SevWarning
             (''Scaling down control plane to '' @ show_int (sint desiredReplicas) @ '' replicas (actual '' @ show_int (sint replicas) @ '')'')
      else if (word_of_nat (length (MFilter [IsReady L] ownedMachines)) :: int32) = replicas
      then kp_MarkTrue L kcp ResizedCondition
      else kcp)"

primrec lastRemediationOf :: "lib \<Rightarrow> Machine list \<Rightarrow> RemediationData option \<Rightarrow> goerr + RemediationData option" where
  "lastRemediationOf L [] lastRemediation = Inr lastRemediation"
| "lastRemediationOf L (m # ms) lastRemediation =
     (case mget (ma_Annotations m) RemediationForAnnotation of
        None \<Rightarrow> lastRemediationOf L ms lastRemediation
      | Some v \<Rightarrow>
         (case RemediationDataFromAnnotation L v of
            Inl err \<Rightarrow> Inl err
          | Inr remediationData \<Rightarrow>
              lastRemediationOf L ms
                (case lastRemediation of
                   None \<Rightarrow> Some remediationData
                 | Some l \<Rightarrow> if rd_Timestamp l < rd_Timestamp remediationData then Some remediationData else Some l)))"

definition surfaceRemediation :: "lib \<Rightarrow> Machine list \<Rightarrow> KThreesControlPlane \<Rightarrow> KThreesControlPlane \<times> goerr option" where
  "surfaceRemediation L machines kcp =
     (case (case mget (kp_Annotations kcp) RemediationInProgressAnnotation of
              Some v \<Rightarrow> map_sum id Some (RemediationDataFromAnnotation L v)
            | None \<Rightarrow> lastRemediationOf L machines None) of
        Inl err \<Rightarrow> (kcp, Some err)
      | Inr None \<Rightarrow> (kcp, None)
      | Inr (Some lastRemediation) \<Rightarrow>
          (kp_updStatus (\<lambda>st. st\<lparr>st_LastRemediation := Some (ToStatus lastRemediation)\<rparr>) kcp, None))"

text \<open>The fields that come from the workload cluster.\<close>

definition workloadStatus :: "lib \<Rightarrow> ClusterStatus \<Rightarrow> int32 \<Rightarrow> KThreesControlPlane \<Rightarrow> KThreesControlPlane" where
  "workloadStatus L status replicas kcp =
     (let kcp = kp_updStatus (\<lambda>st. st\<lparr>st_ReadyReplicas := cs_ReadyNodes status,
                  st_UnavailableReplicas := replicas - cs_ReadyNodes status\<rparr>) kcp;
          kcp = (if cs_HasK3sServingSecret status then kp_updStatus (\<lambda>st. st\<lparr>st_Initialized := True\<rparr>) kcp else kcp)
      in if sint (st_ReadyReplicas (kp_Status kcp)) > 0
         then kp_MarkTrue L (kp_updStatus (\<lambda>st. st\<lparr>st_Ready := True\<rparr>) kcp) AvailableCondition
         else kcp)"

definition replicaStatus :: "lib \<Rightarrow> ControlPlane \<Rightarrow> int32 \<Rightarrow> KThreesControlPlane" where
  "replicaStatus L cp replicas =
     kp_updStatus (\<lambda>st. st\<lparr>st_UpdatedReplicas := word_of_nat (length (UpToDateMachines L cp)),
        st_Replicas := replicas, st_ReadyReplicas := 0, st_UnavailableReplicas := replicas\<rparr>) (cp_KCP cp)"

text \<open>The part that needs the control plane: the version of the machines, the progress of the
  resizing, and what the workload cluster says.\<close>

definition versionStatus :: "lib \<Rightarrow> Machine list \<Rightarrow> KThreesControlPlane \<Rightarrow> KThreesControlPlane" where
  "versionStatus L machines kcp =
     (let lowestVersion = LowestVersion L machines
      in if lowestVersion \<noteq> [] then kp_updStatus (\<lambda>st. st\<lparr>st_Version := Some lowestVersion\<rparr>) kcp else kcp)"

definition reportStatus ::
  "env \<Rightarrow> lib \<Rightarrow> Cluster \<Rightarrow> Machine list \<Rightarrow> ControlPlane \<Rightarrow> (call, KThreesControlPlane \<times> goerr option) go" where
  "reportStatus E L cluster ownedMachines cp =
     bnd (deref (ps_Replicas (kp_Spec (cp_KCP cp)))) (\<lambda>desiredReplicas.
     let replicas = word_of_nat (length ownedMachines); kcp = replicaStatus L cp replicas in
     if kp_deleting kcp then ret (kcp, None)
     else
       let kcp = resizedStatus L ownedMachines replicas desiredReplicas (versionStatus L (cp_Machines cp) kcp)
       in bnd (GetWorkloadCluster E (cl_Key cluster)) (\<lambda>r. case r of
            Inl err \<Rightarrow> ret (kcp, Some (Wrap ''failed to create remote cluster client'' err))
          | Inr workloadCluster \<Rightarrow>
              bnd (ClusterStatus_of E L) (\<lambda>r. case r of
                Inl err \<Rightarrow> ret (kcp, Some (ConnErr (fst (cl_Key cluster) @ ''/'' @ snd (cl_Key cluster)) err))
              | Inr status \<Rightarrow>
                  ret (surfaceRemediation L (cp_Machines cp) (workloadStatus L status replicas kcp)))))"

definition selectorStatus :: "lib \<Rightarrow> Cluster \<Rightarrow> KThreesControlPlane \<Rightarrow> KThreesControlPlane" where
  "selectorStatus L cluster kcp = kp_updStatus (\<lambda>st. st\<lparr>st_Selector := ControlPlaneSelector L (cl_Name cluster)\<rparr>) kcp"

definition updateStatus ::
  "env \<Rightarrow> lib \<Rightarrow> KThreesControlPlane \<Rightarrow> Cluster \<Rightarrow> (call, KThreesControlPlane \<times> goerr option) go" where
  "updateStatus E L kcp cluster =
     (let kcp = selectorStatus L cluster kcp in
      bnd (GetMachinesForCluster E (cl_Key cluster) [OwnedMachines L kcp]) (\<lambda>r. case r of
        Inl err \<Rightarrow> ret (kcp, Some (Wrap ''failed to get list of owned machines'' err))
      | Inr ownedMachines \<Rightarrow>
          bnd (NewControlPlane E cluster kcp ownedMachines) (\<lambda>r. case r of
            Inl err \<Rightarrow> ret (kcp, Some err)
          | Inr cp \<Rightarrow> reportStatus E L cluster ownedMachines cp)))"

section \<open>The reconciler\<close>

text \<open>Status, patch and the final decision to requeue, after the body of the pass.\<close>

definition finalRequeue :: "lib \<Rightarrow> KThreesControlPlane \<Rightarrow> Result \<Rightarrow> goerr option \<Rightarrow> Result" where
  "finalRequeue L kcp res err =
     (if err = None \<and> r_IsZero res \<and> \<not> kp_deleting kcp
      then let res = (if \<not> st_Ready (kp_Status kcp) then RequeueAfter (20 * Second) else res)
           in if v1IsFalse L ControlPlaneComponentsHealthyCondition (kp_GetConditions kcp) then RequeueAfter (20 * Second) else res
      else res)"

definition finishReconcile ::
  "env \<Rightarrow> lib \<Rightarrow> Cluster \<Rightarrow> KThreesControlPlane \<Rightarrow> Result \<Rightarrow> goerr option \<Rightarrow> (call, KThreesControlPlane \<times> Result \<times> goerr option) go" where
  "finishReconcile E L cluster kcp res err =
     bnd (updateStatus E L kcp cluster) (\<lambda>(kcp, updateErr).
     let err = (case updateErr of None \<Rightarrow> err | Some u \<Rightarrow> if is_connerr u then err else NewAggregate [err, Some u]) in
     bnd (patchKThreesControlPlane E L kcp) (\<lambda>(kcp, patchErr).
     let err = (case patchErr of None \<Rightarrow> err | Some p \<Rightarrow> if \<not> IsNotFound p then NewAggregate [err, Some p] else err) in
     ret (kcp, finalRequeue L kcp res err, err)))"

definition addFinalizerAndPatch :: "env \<Rightarrow> kcpLib \<Rightarrow> KThreesControlPlane \<Rightarrow> (call, Result \<times> goerr option) go" where
  "addFinalizerAndPatch E K kcp =
     bnd (do_write E (PatchKCP (kp_setFinalizers kcp (AddFinalizer K (om_Finalizers (kp_Meta kcp)) KThreesControlPlaneFinalizer))))
       (\<lambda>e. ret (NoResult, e))"

definition reconcileBody ::
  "env \<Rightarrow> kcpEnv \<Rightarrow> ssaCache \<Rightarrow> Cluster \<Rightarrow> KThreesControlPlane \<Rightarrow>
    (call, ssaCache \<times> KThreesControlPlane \<times> Result \<times> goerr option) go" where
  "reconcileBody E C cache cluster kcp =
     (if kp_deleting kcp
      then bnd (reconcileDelete E C cluster kcp) (\<lambda>out. ret (cache, out))
      else reconcile E C cache cluster kcp)"

text \<open>After the control plane was fetched.\<close>

definition reconcileFetched ::
  "env \<Rightarrow> kcpEnv \<Rightarrow> ssaCache \<Rightarrow> KThreesControlPlane \<Rightarrow> (call, ssaCache \<times> Result \<times> goerr option) go" where
  "reconcileFetched E C cache kcp =
     bnd (api E e_cluster (GetOwnerCluster (kp_Meta kcp))) (\<lambda>r. case r of
       Inl err \<Rightarrow> ret (cache, NoResult, Some err)
     | Inr None \<Rightarrow> ret (cache, NoResult, None)
     | Inr (Some cluster) \<Rightarrow>
     if IsPaused (k_lib C) cluster (kp_Meta kcp) then ret (cache, NoResult, None)
     else if \<not> (case cl_InfrastructureProvisioned cluster of None \<Rightarrow> False | Some b \<Rightarrow> b) then ret (cache, NoResult, None)
     else bnd (new_helper E (om_Name (kp_Meta kcp))) (\<lambda>e. case e of
       Some err \<Rightarrow> ret (cache, Requeue, None)
     | None \<Rightarrow>
         if \<not> ContainsFinalizer (k_kcp C) (om_Finalizers (kp_Meta kcp)) KThreesControlPlaneFinalizer
         then bnd (addFinalizerAndPatch E (k_kcp C) kcp) (\<lambda>out. ret (cache, out))
         else
           bnd (reconcileBody E C cache cluster kcp) (\<lambda>(cache, kcp, res, err).
           bnd (finishReconcile E (k_lib C) cluster kcp res err) (\<lambda>(_, res, err). ret (cache, res, err)))))"

definition kcp_Reconcile ::
  "env \<Rightarrow> kcpEnv \<Rightarrow> ssaCache \<Rightarrow> ObjectKey \<Rightarrow> (call, ssaCache \<times> Result \<times> goerr option) go" where
  "kcp_Reconcile E C cache key =
     bnd (api E e_kcp (GetKCP key)) (\<lambda>r. case r of
       Inl err \<Rightarrow> if IsNotFound err then ret (cache, NoResult, None) else ret (cache, Requeue, None)
     | Inr kcp \<Rightarrow> reconcileFetched E C cache kcp)"

text \<open>\<^verbatim>\<open>ClusterToKThreesControlPlane\<close>: which control plane an event on a cluster
  concerns.\<close>

definition ClusterToKThreesControlPlane :: "Cluster \<Rightarrow> ObjectKey list" where
  "ClusterToKThreesControlPlane c =
     (let controlPlaneRef = the_ref (cl_ControlPlaneRef c) in
      if cr_Kind controlPlaneRef = ''KThreesControlPlane''
      then [(om_Namespace (cl_Meta c), cr_Name controlPlaneRef)] else [])"

end
