(* ===== verification/KcpLemmas.thy ===== *)
theory KcpLemmas
  imports KcpController
begin

text \<open>
  The facts about the controller of theory \<open>KcpController\<close> that its properties share:
  updating the conditions changes conditions only (\<open>bare\<close>), which calls each part of a
  pass issues, and the calculus \<open>quiet\<close> for the central argument that a pass which has
  deleted a machine does nothing else afterwards.
\<close>

section \<open>Updating the conditions changes conditions only\<close>

definition bareMachine :: "Machine \<Rightarrow> Machine" where
  "bareMachine m = m\<lparr>ma_Conditions := []\<rparr>"

definition bare :: "ControlPlane \<Rightarrow> ControlPlane" where
  "bare cp = cp\<lparr>cp_Machines := map bareMachine (cp_Machines cp), cp_KCP := kp_SetConditions (cp_KCP cp) []\<rparr>"

lemma bare_kcp [simp]:
  "kp_SetConditions (kp_SetConditions p cs) cs' = kp_SetConditions p cs'"
  "kp_SetConditions (kp_MarkTrue L p t) cs = kp_SetConditions p cs"
  "kp_SetConditions (kp_MarkFalse L p t r sv ms) cs = kp_SetConditions p cs"
  "kp_SetConditions (kp_MarkUnknown L p t r ms) cs = kp_SetConditions p cs"
  by (simp_all add: kp_SetConditions_def kp_MarkTrue_def kp_MarkFalse_def kp_MarkUnknown_def)

lemma bareMachine_simps [simp]: "bareMachine (ma_SetCond L m c) = bareMachine m"
  by (simp add: bareMachine_def ma_SetCond_def)

lemma bare_update [simp]:
  "bare (setCond L cp m c) = bare cp"
  "bare (setEtcdCond L cp m st r ms) = bare cp"
  "bare (setCondAll L cp c) = bare cp"
  "bare (missingNodes L nodes cp) = bare cp"
  by (auto simp: bare_def setCond_def cp_upd_def upd_machine_def setEtcdCond_def setCondAll_def missingNodes_def
      split: option.split)

lemma bare_updKCP: "(\<And>p. kp_SetConditions (f p) [] = kp_SetConditions p []) \<Longrightarrow> bare (updKCP f cp) = bare cp"
  by (simp add: bare_def updKCP_def)

lemma bare_aggregate [simp]: "bare (aggregateFromMachinesToKCP L cp a b c d e f) = bare cp"
  by (simp add: aggregateFromMachinesToKCP_def Let_def bare_updKCP)

lemma bare_foldl: "(\<And>cp c. bare (f cp c) = bare cp) \<Longrightarrow> bare (foldl f cp cs) = bare cp"
  by (induction cs arbitrary: cp) auto

lemma agentNode_bare: "returns (agentNode E L n cp es) (\<lambda>(cp1, r). bare cp1 = bare cp)"
  unfolding agentNode_def by (auto simp: Let_def bare_foldl intro!: go_intros)

lemma agentNodes_bare: "returns (agentNodes E L ns cp es) (\<lambda>(cp1, r). bare cp1 = bare cp)"
proof (induction ns arbitrary: cp es)
  case (Cons n ns)
  show ?case
    by (auto intro!: returns_bnd[OF agentNode_bare] returns_cases returns_intros intro: returns_mono[OF Cons])
qed (auto intro!: go_intros)

lemma UpdateAgentConditions_bare: "returns (UpdateAgentConditions E L cp) (\<lambda>cp1. bare cp1 = bare cp)"
  unfolding UpdateAgentConditions_def
  by (intro returns_bnd_any returns_cases returns_bnd[OF agentNodes_bare]) (auto simp: bare_updKCP intro!: go_intros)

lemma getCurrentEtcdMembers_bare:
  "returns (getCurrentEtcdMembers E L w cp m n) (\<lambda>(w1, cp1, r). bare cp1 = bare cp)"
  unfolding getCurrentEtcdMembers_def with_client_def
  by (auto intro!: returns_bnd_any[where m = "wlFirst w ns" for w ns] returns_bnd_any[where m = "deref c" for c]
      returns_bnd_any[where m = "Close E c" for c] returns_bnd_any[where m = "Members E c" for c]
      returns_bnd[where R = "\<lambda>(w1, cp1, r). bare cp1 = bare cp"] returns_cases returns_intros)

lemma etcdNode_bare: "returns (etcdNode E L n s) (\<lambda>s1. bare (el_cp s1) = bare (el_cp s))"
  unfolding etcdNode_def
  by (auto simp: Let_def intro!: returns_cases returns_intros returns_bnd[OF getCurrentEtcdMembers_bare])

lemma bare_compare [simp]: "bare (fst (compareMachinesAndMembers L cp ms es)) = bare cp"
  by (auto simp: compareMachinesAndMembers_def bare_def split: option.split)

lemma UpdateEtcdConditions_bare: "returns (UpdateEtcdConditions E L w cp) (\<lambda>(w1, cp1). bare cp1 = bare cp)"
proof -
  let ?s = "\<lparr>el_w = w, el_cp = cp, el_kcpErrors = [], el_clusterID = None, el_members = None\<rparr>"
  have loop: "returns (foldG (etcdNode E L) ns ?s) (\<lambda>s. bare (el_cp s) = bare cp)" for ns
    by (rule returns_foldG) (auto intro: returns_mono[OF etcdNode_bare])
  have last: "returns (let (cp, kcpErrors) = compareMachinesAndMembers L (el_cp s) (el_members s) (el_kcpErrors s)
        in ret (el_w s, aggregateFromMachinesToKCP L cp a kcpErrors b c d e)) (\<lambda>(w1, cp1). bare cp1 = bare cp)"
    if "bare (el_cp s) = bare cp" for s a b c d e
    using that bare_compare[of L "el_cp s" "el_members s" "el_kcpErrors s"]
    by (cases "compareMachinesAndMembers L (el_cp s) (el_members s) (el_kcpErrors s)") (auto intro!: go_intros)
  show ?thesis
    unfolding UpdateEtcdConditions_def updateManagedEtcdConditions_def
    by (intro returns_bnd_any[where m = "getControlPlaneNodes E"] returns_cases returns_bnd[OF loop] last)
      (auto simp: bare_updKCP intro!: go_intros)
qed

lemma reconcileControlPlaneConditions_bare:
  "returns (reconcileControlPlaneConditions E L cp) (\<lambda>(cp1, e). bare cp1 = bare cp)"
  unfolding reconcileControlPlaneConditions_def
  by (intro returns_cases returns_intros returns_bnd_any[where m = "GetWorkloadCluster E k" for k]
      returns_bnd[OF UpdateAgentConditions_bare] returns_bnd[OF UpdateEtcdConditions_bare]
      returns_bnd_any[where m = "PatchMachines E c" for c])
    (auto intro!: go_intros intro: returns_bnd[OF UpdateEtcdConditions_bare])

section \<open>Which calls are issued\<close>

lemma getCurrentEtcdMembers_same:
  "returns (getCurrentEtcdMembers E L w cp m n) (\<lambda>(w', cp', r). wl_gen w' = wl_gen w)"
  unfolding getCurrentEtcdMembers_def
  by (rule with_client_same_gen[OF wl_keeps_gen(1)])
    (auto intro!: returns_bnd_any[where m = "Members E c" for c] returns_cases returns_intros)

lemma etcdNode_same: "returns (etcdNode E L n s) (\<lambda>s'. wl_gen (el_w s') = wl_gen (el_w s))"
  unfolding etcdNode_def
  by (auto simp: Let_def intro!: returns_cases returns_intros returns_bnd[OF getCurrentEtcdMembers_same])

lemma etcdNode_emits:
  assumes "good_gen (el_w s)" "reads \<subseteq> S"
  shows "emits S (etcdNode E L n s)"
  unfolding etcdNode_def getCurrentEtcdMembers_def Let_def by (intro go_intros assms)

lemma UpdateEtcdConditions_emits:
  assumes "good_gen w" "reads \<subseteq> S"
  shows "emits S (UpdateEtcdConditions E L w cp)"
proof -
  have loop: "emits S (foldG (etcdNode E L) ns \<lparr>el_w = w, el_cp = cp, el_kcpErrors = [], el_clusterID = None, el_members = None\<rparr>)" for ns
  proof (rule emits_foldG_inv[where Q = "\<lambda>s. wl_gen (el_w s) = wl_gen w"])
    fix n and s :: etcdLoop
    assume s: "wl_gen (el_w s) = wl_gen w"
    then show "returns (etcdNode E L n s) (\<lambda>s'. wl_gen (el_w s') = wl_gen w)"
      by (auto intro: returns_mono[OF etcdNode_same])
    show "emits S (etcdNode E L n s)" by (rule etcdNode_emits[OF good_gen_cong[OF s assms(1)] assms(2)])
  qed simp
  then show ?thesis
    unfolding UpdateEtcdConditions_def updateManagedEtcdConditions_def
    by (intro emits_bnd emits_sum emits_let emits_prod emits_ret loop workload_reads assms(2))
qed

lemma reconcileControlPlaneConditions_emits:
  assumes "reads \<subseteq> S" "\<And>m. PatchMachine m \<in> S"
  shows "emits S (reconcileControlPlaneConditions E L cp)"
proof -
  have p: "emits S (PatchMachines E c)" for c by (rule emits_mono[OF emits_PatchMachines]) (auto intro: assms)
  show ?thesis
    unfolding reconcileControlPlaneConditions_def
    by (intro emits_if emits_ret emits_bnd_ret[OF _ GetWorkloadCluster_good])
      (auto intro!: go_intros assms(1) p UpdateEtcdConditions_emits split: sum.split)
qed

lemma ReconcileEtcdMembers_emits:
  assumes "good_gen w" "reads \<subseteq> S" "\<And>p i. EtcdMemberRemove p i \<in> S"
  shows "emits S (ReconcileEtcdMembers E w names)"
proof -
  have one: "emits S (reconcileOne E names m s)" if "wl_gen (fst s) = wl_gen w" for m s
    using good_gen_cong[OF that assms(1)] unfolding reconcileOne_def
    by (cases s) (auto intro!: go_intros assms(2,3))
  have step: "returns (reconcileOne E names m s) (\<lambda>s'. wl_gen (fst s') = wl_gen w)" if "wl_gen (fst s) = wl_gen w" for m s
    using reconcileOne_removals(2)[OF good_gen_cong[OF that assms(1)]] that by simp
  have loop: "emits S (foldG (reconcileOne E names) ms (w', [], []))" if "wl_gen w' = wl_gen w" for ms w'
    by (rule emits_foldG_inv[where Q = "\<lambda>s. wl_gen (fst s) = wl_gen w"]) (use that in \<open>auto intro: one step\<close>)
  have mem: "emits S (reconcileEtcdMember E w' names n)" if "wl_gen w' = wl_gen w" for w' n
    unfolding reconcileEtcdMember_def
    by (rule emits_with_client_gen[OF _ wl_keeps_gen(1)])
      (auto intro!: go_intros good_gen_cong[OF that assms(1)] assms(2) loop simp: that)
  have outer: "emits S (foldG (\<lambda>nodeName (w, allRemovedMembers, allErrs).
            bnd (reconcileEtcdMember E w names nodeName) (\<lambda>(w, removedMembers, errs).
              ret (w, allRemovedMembers @ removedMembers, allErrs @ errs))) ns (w, [], []))" for ns
    by (rule emits_foldG_inv[where Q = "\<lambda>s. wl_gen (fst s) = wl_gen w"])
      (auto intro!: emits_bnd emits_prod emits_ret returns_cases returns_intros mem good_gen_cong[OF _ assms(1)]
        returns_bnd[OF reconcileEtcdMember_removals(2)] split: prod.splits)
  then show ?thesis unfolding ReconcileEtcdMembers_def by (intro emits_bnd emits_prod emits_ret outer)
qed

lemma kcp_reconcileEtcdMembers_emits:
  assumes "reads \<subseteq> S" "\<And>p i. EtcdMemberRemove p i \<in> S"
  shows "emits S (kcp_reconcileEtcdMembers E L cp)"
  unfolding kcp_reconcileEtcdMembers_def Let_def
  by (intro emits_if emits_ret emits_bnd_ret[OF _ GetWorkloadCluster_good])
    (auto intro!: go_intros assms ReconcileEtcdMembers_emits split: sum.split)

lemma sync_emits:
  assumes S: "reads \<subseteq> S" "\<And>k n mf. PatchManagedFields k n mf \<in> S" "\<And>m. ApplyMachine m \<in> S" "\<And>u. ApplyUnstructured u \<in> S"
  shows "emits S (syncMachines E C cp cache)"
proof -
  have ext: "emits S (syncExternal E C cache obj gvk kind v cp what)" for cache obj gvk kind v cp what
    unfolding syncExternal_def DropManagedFields_def updateExternalObject_def PatchUnstructuredObject_def Let_def
    by (intro go_intros S)
  have one: "emits S (syncMachine E C m cp cache)" for m cp cache
    unfolding syncMachine_def syncInfraMachine_def syncKThreesConfig_def CleanUpManagedFieldsForSSAAdoption_def
      updateMachine_def PatchMachineObject_def Let_def
    by (intro go_intros S ext)
  have "emits S (syncLoop E C ms hs cp cache)" for ms hs cp cache
    by (induction ms arbitrary: hs cp cache) (auto intro!: go_intros one)
  then show ?thesis unfolding syncMachines_def by (intro go_intros)
qed

section \<open>One machine per pass\<close>

text \<open>The calls that change the number of machines: a deletion, and the first call of a
  creation, which clones the infrastructure template.\<close>

definition is_clone :: "call \<Rightarrow> bool" where
  "is_clone c = (case c of CloneTemplate _ _ _ _ _ \<Rightarrow> True | _ \<Rightarrow> False)"
definition is_resize :: "call \<Rightarrow> bool" where
  "is_resize c \<longleftrightarrow> is_delete_machine c \<or> is_clone c"

lemma is_resize_simps [simp]:
  "is_resize (DeleteMachine m)" "is_resize (CloneTemplate a b own d e)" "is_read c \<Longrightarrow> \<not> is_resize c"
  "\<not> is_resize (PatchKCP p)" "\<not> is_resize (PatchMachine m)" "\<not> is_resize (PatchUnstructured u)"
  "\<not> is_resize (PatchManagedFields knd ky mf)" "\<not> is_resize (ApplyMachine m)" "\<not> is_resize (ApplyUnstructured u)"
  "\<not> is_resize (DeleteUnstructured u)" "\<not> is_resize (CreateConfig k)" "\<not> is_resize (CreateSecret s)"
  "\<not> is_resize (UpdateSecret s)" "\<not> is_resize (Event ev)" "\<not> is_resize (WPatchNode n)"
  "\<not> is_resize (EtcdMoveLeader q i)" "\<not> is_resize (EtcdMemberRemove q i)"
  by (auto simp: is_resize_def is_clone_def is_delete_machine_def is_read_def split: call.splits)

lemma is_clone_simps [simp]:
  "is_clone (CloneTemplate a b own d e)" "is_read c \<Longrightarrow> \<not> is_clone c" "\<not> is_clone (DeleteMachine m)"
  "\<not> is_clone (PatchMachine m)" "\<not> is_clone (Event ev)" "\<not> is_clone (EtcdMoveLeader q i)"
  by (auto simp: is_clone_def is_read_def split: call.splits)

abbreviation still :: "call set" where
  "still \<equiv> {c. \<not> is_resize c}"

lemma reads_still: "reads \<subseteq> still"
  by auto

lemma bounded_cong:
  assumes "emits S m" "\<And>c. c \<in> S \<Longrightarrow> p c \<Longrightarrow> q c" "bounded q n m"
  shows "bounded p n m"
  unfolding bounded_def
proof
  fix h
  obtain r h' where run: "m h = (r, h')" by fastforce
  from assms(1) run obtain cs where cs: "h' = h @ cs" "set cs \<subseteq> S" by (rule emitsE)
  from assms(3) run obtain cs' where cs': "h' = h @ cs'" "length (filter q cs') \<le> n" by (rule boundedE)
  have sub: "length (filter p ds) \<le> length (filter q ds)" if "set ds \<subseteq> S" for ds
    using that assms(2) by (induction ds) (auto simp: le_SucI)
  from cs cs' have "length (filter p cs) \<le> n" using sub[of cs] by simp
  with run cs show "\<exists>cs. snd (m h) = h @ cs \<and> length (filter p cs) \<le> n" by auto
qed

subsection \<open>Quiet results\<close>

text \<open>Whenever the result satisfies \<open>z\<close>, no call that matches \<open>p\<close> was issued.\<close>

definition quiet :: "('c \<Rightarrow> bool) \<Rightarrow> ('a \<Rightarrow> bool) \<Rightarrow> ('c, 'a) go \<Rightarrow> bool" where
  "quiet p z m \<longleftrightarrow> (\<forall>h x h'. m h = (Some x, h') \<and> z x \<longrightarrow> (\<exists>cs. h' = h @ cs \<and> filter p cs = []))"

lemma quiet_emits: "emits {c. \<not> p c} m \<Longrightarrow> quiet p z m"
  unfolding quiet_def by (fastforce elim: emitsE simp: filter_empty_conv)

lemma quiet_never: "returns m (\<lambda>x. \<not> z x) \<Longrightarrow> quiet p z m"
  by (auto simp: quiet_def returns_def)

lemma quiet_bnd:
  assumes "quiet p y m" "\<And>x. y x \<Longrightarrow> quiet p z (f x)" "\<And>x. \<not> y x \<Longrightarrow> returns (f x) (\<lambda>r. \<not> z r)"
  shows "quiet p z (bnd m f)"
  unfolding quiet_def
proof (intro allI impI, elim conjE)
  fix h r h'
  assume run: "bnd m f h = (Some r, h')" and z: "z r"
  from run obtain x h1 where m: "m h = (Some x, h1)" and f: "f x h1 = (Some r, h')" by (rule bnd_SomeE)
  have y: "y x" using assms(3) f z by (blast dest: returnsD)
  then obtain cs where "h1 = h @ cs" "filter p cs = []" using assms(1) m unfolding quiet_def by blast
  moreover from y obtain ds where "h' = h1 @ ds" "filter p ds = []"
    using assms(2)[OF y] f z unfolding quiet_def by blast
  ultimately show "\<exists>cs. h' = h @ cs \<and> filter p cs = []" by simp
qed

lemma quiet_bnd_emits: "emits {c. \<not> p c} m \<Longrightarrow> (\<And>x. quiet p z (f x)) \<Longrightarrow> quiet p z (bnd m f)"
  by (rule quiet_bnd[where y = "\<lambda>_. True"]) (auto intro: quiet_emits)

lemma quiet_bnd_ret:
  assumes "emits {c. \<not> p c} m" "returns m R" "\<And>x. R x \<Longrightarrow> quiet p z (f x)"
  shows "quiet p z (bnd m f)"
  unfolding quiet_def
proof (intro allI impI, elim conjE)
  fix h r h'
  assume run: "bnd m f h = (Some r, h')" and z: "z r"
  from run obtain x h1 where m: "m h = (Some x, h1)" and f: "f x h1 = (Some r, h')" by (rule bnd_SomeE)
  from assms(1) m obtain cs where "h1 = h @ cs" "set cs \<subseteq> {c. \<not> p c}" by (rule emitsE)
  moreover from assms(2) m have "R x" by (rule returnsD)
  with assms(3) f z obtain ds where "h' = h1 @ ds" "filter p ds = []" unfolding quiet_def by blast
  ultimately show "\<exists>cs. h' = h @ cs \<and> filter p cs = []" by (auto simp: filter_empty_conv)
qed

lemma quiet_cases:
  "(b \<Longrightarrow> quiet p z m) \<Longrightarrow> (\<not> b \<Longrightarrow> quiet p z n) \<Longrightarrow> quiet p z (if b then m else n)"
  "(o1 = None \<Longrightarrow> quiet p z m) \<Longrightarrow> (\<And>y. o1 = Some y \<Longrightarrow> quiet p z (f1 y)) \<Longrightarrow> quiet p z (case o1 of None \<Rightarrow> m | Some y \<Rightarrow> f1 y)"
  "(\<And>e. s1 = Inl e \<Longrightarrow> quiet p z (f2 e)) \<Longrightarrow> (\<And>y. s1 = Inr y \<Longrightarrow> quiet p z (g2 y)) \<Longrightarrow> quiet p z (case s1 of Inl e \<Rightarrow> f2 e | Inr y \<Rightarrow> g2 y)"
  "(\<And>a b. p1 = (a, b) \<Longrightarrow> quiet p z (f3 a b)) \<Longrightarrow> quiet p z (case p1 of (a, b) \<Rightarrow> f3 a b)"
  by (auto split: option.split sum.split prod.split)

lemma quiet_ret: "quiet p z (ret x)" and quiet_panic: "quiet p z panic"
  by (auto intro: quiet_emits emits_ret emits_panic)

lemma quiet_outcome:
  "quiet p z m \<Longrightarrow> quiet p (\<lambda>out. case out of None \<Rightarrow> False | Some x \<Rightarrow> z x) (outcome m)"
  by (auto simp: quiet_def outcome_def split: prod.splits option.splits)

text \<open>After a quiet result the budget is still there; after any other nothing is spent.\<close>

lemma bounded_quiet:
  assumes m: "bounded p n m" and q: "quiet p z m"
    and yes: "\<And>x. z x \<Longrightarrow> bounded p n (f x)" and no: "\<And>x. \<not> z x \<Longrightarrow> bounded p 0 (f x)"
  shows "bounded p n (bnd m f)"
  unfolding bounded_def
proof
  fix h
  obtain r h1 where r: "m h = (r, h1)" by fastforce
  with m obtain cs where cs: "h1 = h @ cs" "length (filter p cs) \<le> n" by (rule boundedE)
  show "\<exists>cs. snd (bnd m f h) = h @ cs \<and> length (filter p cs) \<le> n"
  proof (cases r)
    case None
    with r cs show ?thesis by (simp add: bnd_def)
  next
    case (Some x)
    obtain r2 h2 where r2: "f x h1 = (r2, h2)" by fastforce
    with r Some have h2: "snd (bnd m f h) = h2" by (simp add: bnd_def)
    show ?thesis
    proof (cases "z x")
      case True
      then obtain ds where ds: "h1 = h @ ds" "filter p ds = []" using q r Some unfolding quiet_def by blast
      from yes[OF True] r2 obtain es where "h2 = h1 @ es" "length (filter p es) \<le> n" by (rule boundedE)
      with ds h2 show ?thesis by simp
    next
      case False
      from no[OF False] r2 obtain es where "h2 = h1 @ es" "length (filter p es) \<le> 0" by (rule boundedE)
      with cs h2 show ?thesis by simp
    qed
  qed
qed

subsection \<open>Remediation\<close>

text \<open>The result that lets the pass go on.\<close>

definition goesOn :: "'a \<times> Result \<times> goerr option \<Rightarrow> bool" where
  "goesOn out \<longleftrightarrow> r_IsZero (fst (snd out)) \<and> snd (snd out) = None"

lemma addPreTerminateHook_still: "emits still (addPreTerminateHook E s)"
  unfolding addPreTerminateHook_def Let_def by (intro go_intros) simp

lemma deleteUnhealthyMachine_quiet: "quiet is_resize goesOn (deleteUnhealthyMachine E L d s)"
  unfolding deleteUnhealthyMachine_def Let_def fail_def
  by (intro quiet_never) (auto simp: goesOn_def intro!: go_intros)

lemma remediateMachine_quiet: "quiet is_resize goesOn (remediateMachine E L t s)"
proof -
  have fwd: "quiet is_resize goesOn (forwardLeadership E L w s1 (deleteUnhealthyMachine E L d))" if "good_gen w" for w s1 d
    unfolding forwardLeadership_def stop_def fail_def
    by (intro quiet_cases quiet_bnd_emits quiet_ret deleteUnhealthyMachine_quiet addPreTerminateHook_still
        ForwardEtcdLeadership_emits that reads_still) simp_all
  have conn: "quiet is_resize goesOn (connectAndForward E L s1 (deleteUnhealthyMachine E L d))" for s1 d
    unfolding connectAndForward_def fail_def
    by (rule quiet_bnd_ret[OF workload_reads2(1)[OF reads_still] GetWorkloadCluster_good])
      (auto intro!: quiet_cases quiet_ret fwd split: sum.split)
  show ?thesis
    unfolding remediateMachine_def remediateInitialized_def quorumCheck_def Let_def stop_def fail_def
    by (intro quiet_cases quiet_ret quiet_bnd_emits deleteUnhealthyMachine_quiet conn
        canSafelyRemoveEtcdMember_reads reads_still)
qed

lemma cleanup_still: "emits still (cleanupRemediated E L m s)"
  unfolding cleanupRemediated_def Let_def by (auto intro!: go_intros split: prod.splits)

lemma reconcileUnhealthyMachines_quiet: "quiet is_resize goesOn (reconcileUnhealthyMachines E L cp)"
proof -
  have last: "quiet is_resize goesOn (bnd (outcome (remediateMachine E L t (cp, m))) (\<lambda>out.
      bnd (do_write E (PatchMachine (case out of None \<Rightarrow> m | Some ((_, m), _) \<Rightarrow> m))) (\<lambda>e.
        case out of
          None \<Rightarrow> panic
        | Some ((cp, _), result, retErr) \<Rightarrow>
            ret (cp, result,
                 case retErr of Some err \<Rightarrow> Some err
                 | None \<Rightarrow> map_option (Wrap ''failed to patch control plane Machine'') e))))" for t cp m
  proof (rule quiet_bnd[OF quiet_outcome[OF remediateMachine_quiet]], goal_cases)
    case (1 out)
    then show ?case
      by (intro quiet_bnd_emits) (auto intro!: go_intros quiet_cases quiet_ret quiet_panic split: prod.splits)
  next
    case (2 out)
    then show ?case
      by (intro returns_bnd_any)
        (auto simp: goesOn_def intro!: go_intros split: option.splits prod.splits)
  qed
  show ?thesis
    unfolding reconcileUnhealthyMachines_def remediateSelected_def Let_def
    by (intro quiet_bnd_emits quiet_cases quiet_ret last emits_foldG cleanup_still deref_intros client_emits)
qed

lemma remediation_no_clone: "emits {c. \<not> is_clone c} (reconcileUnhealthyMachines E L cp)"
proof -
  let ?S = "{c. \<not> is_clone c}"
  have S: "reads \<subseteq> ?S" by auto
  have del: "emits ?S (deleteUnhealthyMachine E L d s)" for d s
    unfolding deleteUnhealthyMachine_def Let_def fail_def by (intro go_intros) simp
  have hook: "emits ?S (addPreTerminateHook E s)" for s
    unfolding addPreTerminateHook_def Let_def by (intro go_intros) simp
  have fwd: "emits ?S (forwardLeadership E L w s (deleteUnhealthyMachine E L d))" if "good_gen w" for w s d
    unfolding forwardLeadership_def stop_def fail_def
    by (intro emits_if emits_option emits_bnd emits_prod emits_ret del hook ForwardEtcdLeadership_emits that S) simp_all
  have conn: "emits ?S (connectAndForward E L s (deleteUnhealthyMachine E L d))" for s d
    unfolding connectAndForward_def fail_def
    by (rule emits_bnd_ret[OF workload_reads2(1)[OF S] GetWorkloadCluster_good]) (auto intro!: emits_ret fwd split: sum.split)
  have rem: "emits ?S (remediateMachine E L t s)" for t s
    unfolding remediateMachine_def remediateInitialized_def quorumCheck_def Let_def stop_def fail_def
    by (intro emits_if emits_option emits_sum emits_prod emits_bnd emits_ret del conn canSafelyRemoveEtcdMember_reads S)
  have cl: "emits ?S (cleanupRemediated E L m s)" for m s
    unfolding cleanupRemediated_def Let_def by (auto intro!: go_intros split: prod.splits)
  show ?thesis
    unfolding reconcileUnhealthyMachines_def remediateSelected_def Let_def
    by (intro emits_bnd emits_if emits_option emits_sum emits_prod emits_ret emits_panic emits_foldG outcome_intros rem cl
        deref_intros client_emits) simp
qed

lemma reconcileUnhealthyMachines_one: "bounded is_resize (Suc 0) (reconcileUnhealthyMachines E L cp)"
  by (rule bounded_cong[OF remediation_no_clone _ reconcileUnhealthyMachines_bounded]) (simp add: is_resize_def)

subsection \<open>Rollout, scaling, the whole pass\<close>

lemma scaleDown_no_clone: "emits {c. \<not> is_clone c} (scaleDownControlPlane E L cp outdated)"
proof -
  have hook: "emits {c. \<not> is_clone c} (addPreTerminateHook E s)" for s
    unfolding addPreTerminateHook_def Let_def by (intro go_intros) simp
  have prep: "emits {c. \<not> is_clone c} (prepareDeletion E L s)" for s
    unfolding prepareDeletion_def
    by (intro emits_if emits_ret emits_bnd_ret[OF workload_reads2(1) GetWorkloadCluster_good])
      (auto intro!: go_intros hook split: sum.split)
  show ?thesis
    unfolding scaleDownControlPlane_def prepareAndDelete_def deleteForScaleDown_def
    by (intro go_intros prep) simp_all
qed

lemma scaleDownControlPlane_one: "bounded is_resize (Suc 0) (scaleDownControlPlane E L cp outdated)"
  by (rule bounded_cong[OF scaleDown_no_clone _ scaleDownControlPlane_bounded]) (simp add: is_resize_def)

lemma creation_one: "bounded is_resize (Suc 0) (cloneConfigsAndGenerateMachine E L X cp spec fd)"
proof -
  have fin: "bounded is_resize 0 (finishMachine E X cp spec m ref)" for m ref
    unfolding finishMachine_def
    by (rule bounded_emits[where n = 0]) (auto intro!: go_intros)
  show ?thesis
    unfolding cloneConfigsAndGenerateMachine_def Let_def
    by (intro bounded_bnd0 bounded_sum bounded_ret bounded_bnd_last[OF api_bounded1] fin)
      (auto simp: bounded_0 intro!: go_intros)
qed

lemma scaleUpControlPlane_one: "bounded is_resize (Suc 0) (scaleUpControlPlane E L X cp)"
  unfolding scaleUpControlPlane_def
  by (rule bounded_bnd0, simp add: bounded_0, intro go_intros, simp)
    (auto intro!: bounded_bnd_last[OF creation_one] go_intros split: prod.splits)

lemma initializeControlPlane_one: "bounded is_resize (Suc 0) (initializeControlPlane E L X cp)"
  unfolding initializeControlPlane_def
  by (rule bounded_bnd0, simp only: bounded_0, rule workload_reads[OF reads_still])
    (auto intro!: bounded_bnd_last[OF creation_one] go_intros)

text \<open>Creating a machine deletes none.\<close>

lemma creation_no_delete: "emits {c. \<not> is_delete_machine c} (cloneConfigsAndGenerateMachine E L X cp spec fd)"
  unfolding cloneConfigsAndGenerateMachine_def finishMachine_def Let_def
  by (auto intro!: go_intros)

lemma scaleUp_no_delete: "emits {c. \<not> is_delete_machine c} (scaleUpControlPlane E L X cp)"
  unfolding scaleUpControlPlane_def by (auto intro!: go_intros creation_no_delete split: prod.splits)

lemma initialize_no_delete: "emits {c. \<not> is_delete_machine c} (initializeControlPlane E L X cp)"
  unfolding initializeControlPlane_def
  by (rule emits_bnd, rule workload_reads) (auto intro!: go_intros creation_no_delete)

lemma rolloutOrScale_one: "bounded is_resize (Suc 0) (rolloutOrScale E C cp)"
  unfolding rolloutOrScale_def upgradeControlPlane_def scaleControlPlane_def Let_def
  by (intro bounded_if bounded_bnd0 bounded_ret deref_intros scaleUpControlPlane_one scaleDownControlPlane_one
      initializeControlPlane_one)

lemma operate_one: "bounded is_resize (Suc 0) (operate E C cp)"
proof -
  have tail: "bounded is_resize (Suc 0) (bnd (reconcileUnhealthyMachines E L cp) (\<lambda>(cp, result, e).
      if e \<noteq> None \<or> \<not> r_IsZero result then ret (cp, result, e) else rolloutOrScale E C cp))" for L cp
    by (rule bounded_quiet[OF reconcileUnhealthyMachines_one reconcileUnhealthyMachines_quiet])
      (auto simp: goesOn_def intro!: bounded_if bounded_ret rolloutOrScale_one split: prod.split)
  have conds: "bounded is_resize 0 (reconcileControlPlaneConditions E L cp)" for L cp
    by (simp only: bounded_0, rule reconcileControlPlaneConditions_emits[OF reads_still]) simp
  have etcd: "bounded is_resize 0 (kcp_reconcileEtcdMembers E L cp)" for L cp
    by (simp only: bounded_0, rule kcp_reconcileEtcdMembers_emits[OF reads_still]) simp
  show ?thesis
    unfolding operate_def Let_def
    by (intro bounded_bnd0[OF conds] bounded_bnd0[OF etcd] bounded_prod bounded_option bounded_ret tail)
qed

lemma CreateSecretWithOwner_emits [go_intros]:
  "reads \<subseteq> S \<Longrightarrow> (\<And>s. CreateSecret s \<in> S) \<Longrightarrow> emits S (CreateSecretWithOwner E U k ep own)"
  unfolding CreateSecretWithOwner_def Let_def by (intro go_intros)

lemma token_Reconcile_emits [go_intros]:
  assumes "reads \<subseteq> S" "\<And>s. CreateSecret s \<in> S" "\<And>s. UpdateSecret s \<in> S"
  shows "emits S (token_Reconcile E L T k om kind)"
proof -
  have [go_intros]: "emits S (randomB64 E n)" for n
    unfolding randomB64_def by (intro go_intros) (use assms(1) in auto)
  have g: "GetSecret k \<in> S" for k using assms(1) by (auto simp: reads_def)
  show ?thesis
    unfolding token_Reconcile_def generateAndStore_def getSecret_def Let_def
    by (auto intro!: go_intros assms g split: bool.split)
qed

lemma reconcileKubeconfig_emits:
  assumes "reads \<subseteq> S" "\<And>s. CreateSecret s \<in> S" "\<And>s. UpdateSecret s \<in> S"
  shows "emits S (reconcileKubeconfig E C k ep kcp)"
proof -
  have r: "emits S (RegenerateSecret E U s)" for U s
    by (rule emits_mono[OF RegenerateSecret_emits]) (use assms in auto)
  have g: "GetSecret k \<in> S" for k using assms(1) by (auto simp: reads_def)
  show ?thesis
    unfolding reconcileKubeconfig_def GetFromNamespacedName_def NeedsClientCertRotation_def Let_def
    by (intro go_intros r assms g)
qed

lemma reconcileSecrets_emits:
  assumes "reads \<subseteq> S" "\<And>s. CreateSecret s \<in> S" "\<And>s. UpdateSecret s \<in> S"
  shows "emits S (reconcileSecrets E C cluster kcp)"
proof -
  have l: "emits S (LookupOrGenerate E k own cs)" for k own cs
    by (rule emits_mono[OF LookupOrGenerate_emits]) (use assms in auto)
  show ?thesis unfolding reconcileSecrets_def Let_def by (intro go_intros l assms)
qed

lemma reconcileExternalReference_emits:
  assumes "reads \<subseteq> S" "\<And>u. PatchUnstructured u \<in> S"
  shows "emits S (reconcileExternalReference E L cluster ref)"
proof -
  have g: "GetExternal a b c d \<in> S" for a b c d using assms(1) by (auto simp: reads_def)
  show ?thesis unfolding reconcileExternalReference_def by (intro go_intros assms g)
qed

text \<open>A pass over a live control plane changes the number of machines by at most one.\<close>

lemma reconcile_one: "bounded is_resize (Suc 0) (reconcile E C cache cluster kcp)"
proof -
  have sync: "bounded is_resize 0 (syncMachines E C cp cache)" for cp
    by (simp only: bounded_0, rule sync_emits[OF reads_still]) simp_all
  have new: "bounded is_resize 0 (NewControlPlane E cluster kcp ms)" for kcp ms
    by (simp only: bounded_0) (intro go_intros reads_still)
  have get: "bounded is_resize 0 (GetMachinesForCluster E k fs)" for k fs
    by (simp only: bounded_0) (intro go_intros reads_still)
  have ext: "bounded is_resize 0 (reconcileExternalReference E L cluster ref)" for L ref
    by (simp only: bounded_0, rule reconcileExternalReference_emits[OF reads_still]) simp
  have sec: "bounded is_resize 0 (reconcileSecrets E C cluster kcp)"
    by (simp only: bounded_0, rule reconcileSecrets_emits[OF reads_still]) simp_all
  have kube: "bounded is_resize 0 (reconcileKubeconfig E C k ep kcp)" for k ep kcp
    by (simp only: bounded_0, rule reconcileKubeconfig_emits[OF reads_still]) simp_all
  have ms: "bounded is_resize (Suc 0) (reconcileMachines E C cache cluster kcp)" for kcp
    unfolding reconcileMachines_def Let_def
    by (intro bounded_bnd0[OF get] bounded_bnd0[OF new] bounded_bnd0[OF sync] bounded_sum bounded_if bounded_prod
        bounded_option bounded_ret bounded_bnd_last[OF operate_one])
  show ?thesis
    unfolding reconcile_def
    by (intro bounded_bnd0[OF ext] bounded_bnd0[OF sec] bounded_bnd0[OF kube] bounded_option bounded_if bounded_prod
        bounded_ret ms)
qed

end
