(* ===== verification/MachineController.thy ===== *)
theory MachineController
  imports Scale
begin

text \<open>
  \<^verbatim>\<open>controlplane/controllers/machine_controller.go\<close>: the reconciler that resolves the
  pre-terminate hook of a deleted control plane machine. The hook keeps the machine (and its
  node) alive until its etcd member is gone, so the essential property is that the hook is
  released only then, or when there is no etcd cluster left to protect.
\<close>

definition etcdRemovalRequeueAfter :: duration where "etcdRemovalRequeueAfter = 30 * Second"

text \<open>What the reconciler takes from Cluster API: \<^verbatim>\<open>annotations.HasWithPrefix\<close>, and
  \<^verbatim>\<open>conditions.IsFalse\<close> on the deprecated conditions of a machine.\<close>

record machineLib =
  HasWithPrefix :: "string \<Rightarrow> gomap \<Rightarrow> bool"
  machineIsFalse :: "Machine \<Rightarrow> string \<Rightarrow> bool"

definition PreTerminateDeleteHookSucceededV1Beta1Condition :: string where
  "PreTerminateDeleteHookSucceededV1Beta1Condition = ''PreTerminateDeleteHookSucceeded''"

text \<open>The package-level errors; \<^verbatim>\<open>switch err\<close> compares them by identity, so they are
  separate from every error an API call returns.\<close>

datatype notNeeded = errNilNodeRef | errNoControlPlaneNodes | errClusterIsBeingDeleted | errControlPlaneIsBeingDeleted

text \<open>\<open>None\<close> is the nil error: the member has to be removed.\<close>

definition isRemoveEtcdMemberNeeded ::
  "env \<Rightarrow> lib \<Rightarrow> Cluster \<Rightarrow> Machine \<Rightarrow> (call, (notNeeded + goerr) option) go" where
  "isRemoveEtcdMemberNeeded E L cluster machine =
     (if deleting (cl_Meta cluster) then ret (Some (Inl errClusterIsBeingDeleted))
      else if ma_NodeRef machine = None then ret (Some (Inl errNilNodeRef))
      else
        bnd (case cl_ControlPlaneRef cluster of
               None \<Rightarrow> ret None
             | Some ref \<Rightarrow>
                 bnd (api E e_unstructured (GetByRef ref (om_Namespace (cl_Meta cluster)))) (\<lambda>r. case r of
                   Inl err \<Rightarrow> if IsNotFound err then ret None else ret (Some (Inr err))
                 | Inr controlPlane \<Rightarrow>
                     if deleting (u_Meta controlPlane) then ret (Some (Inl errControlPlaneIsBeingDeleted))
                     else ret None)) (\<lambda>e. case e of
          Some err \<Rightarrow> ret (Some err)
        | None \<Rightarrow>
            bnd (api E e_machines (ListMachines (om_Namespace (cl_Meta cluster)) (cl_Name cluster))) (\<lambda>r. case r of
              Inl err \<Rightarrow> ret (Some (Inr err))
            | Inr ms \<Rightarrow>
                let machines = MFilter [ActiveMachines L] ms;
                    numControlPlaneMachines = length (MFilter [ControlPlaneMachines L (cl_Name cluster)] machines)
                in if numControlPlaneMachines = 0 then ret (Some (Inl errNoControlPlaneNodes)) else ret None)))"

text \<open>The part that deals with the etcd member: \<open>Some\<close> is an early return, \<open>None\<close> lets
  the reconciler go on. A cluster without error is not nil.\<close>

definition settleEtcdMember ::
  "env \<Rightarrow> lib \<Rightarrow> Cluster \<Rightarrow> Machine \<Rightarrow> (call, (Result \<times> goerr option) option) go" where
  "settleEtcdMember E L cluster m =
     bnd (isRemoveEtcdMemberNeeded E L cluster m) (\<lambda>err. case err of
       Some (Inr err) \<Rightarrow> ret (Some (NoResult, Some (Wrap ''failed to check if k3s etcd member remove is needed'' err)))
     | Some (Inl _) \<Rightarrow> ret None
     | None \<Rightarrow>
         bnd (GetWorkloadCluster E (cl_Key cluster)) (\<lambda>r. case r of
           Inl err \<Rightarrow> ret (Some (NoResult, Some (Wrap ''failed to create client to workload cluster'' err)))
         | Inr workloadCluster \<Rightarrow>
             bnd (RemoveEtcdMemberForMachine E (Some m)) (\<lambda>r. case r of
               Inl err \<Rightarrow> ret (Some (NoResult, Some err))
             | Inr etcdRemoved \<Rightarrow>
                 if \<not> etcdRemoved then ret (Some (RequeueAfter etcdRemovalRequeueAfter, None))
                 else ret None)))"

definition withoutHook :: "Machine \<Rightarrow> Machine" where
  "withoutHook m = ma_setAnnotations m (mdelete (ma_Annotations m) PreTerminateDeleteHookAnnotationPrefix)"

definition removeHook :: "env \<Rightarrow> Machine \<Rightarrow> (call, Result \<times> goerr option) go" where
  "removeHook E m =
     bnd (new_helper E (ma_Name m)) (\<lambda>e. case e of
       Some err \<Rightarrow> ret (NoResult, Some (Wrap ''failed to create patch helper for machine'' err))
     | None \<Rightarrow>
         bnd (do_write E (PatchMachine (withoutHook m))) (\<lambda>e. case e of
           Some err \<Rightarrow> ret (NoResult, Some (Wrap ''failed patch machine'' err))
         | None \<Rightarrow> ret (NoResult, None)))"

definition hasK3sHook :: "machineLib \<Rightarrow> Machine \<Rightarrow> bool" where
  "hasK3sHook M m \<longleftrightarrow>
     HasWithPrefix M PreTerminateDeleteHookAnnotationPrefix (ma_Annotations m) \<and>
     mget (ma_Annotations m) PreTerminateDeleteHookAnnotationPrefix = Some k3sHookName"

text \<open>\<^verbatim>\<open>util.GetClusterFromMetadata\<close> looks the cluster up by the label of the machine.\<close>

definition clusterLabel :: "Machine \<Rightarrow> string" where
  "clusterLabel m = (case mget (om_Labels (ma_Meta m)) ClusterNameLabel of None \<Rightarrow> [] | Some n \<Rightarrow> n)"

definition machine_Reconcile ::
  "env \<Rightarrow> lib \<Rightarrow> machineLib \<Rightarrow> ObjectKey \<Rightarrow> (call, Result \<times> goerr option) go" where
  "machine_Reconcile E L M key =
     bnd (api E e_machine (GetMachine key)) (\<lambda>r. case r of
       Inl err \<Rightarrow> if IsNotFound err then ret (NoResult, None) else ret (NoResult, Some err)
     | Inr m \<Rightarrow>
         if \<not> ma_deleting m then ret (NoResult, None)
         else if \<not> hasK3sHook M m then ret (NoResult, None)
         else if \<not> machineIsFalse M m PreTerminateDeleteHookSucceededV1Beta1Condition then ret (NoResult, None)
         else
           bnd (api E e_cluster (GetCluster (om_Namespace (ma_Meta m)) (clusterLabel m))) (\<lambda>r. case r of
             Inl err \<Rightarrow> ret (NoResult, Some (Wrap ''unable to get cluster'' err))
           | Inr c \<Rightarrow>
               bnd (deref c) (\<lambda>cluster.
               bnd (settleEtcdMember E L cluster m) (\<lambda>early. case early of
                 Some out \<Rightarrow> ret out
               | None \<Rightarrow> removeHook E m))))"

section \<open>Properties\<close>

text \<open>What has to be known before the hook of a machine is released: there is no etcd cluster
  to protect (the cluster or the control plane is being deleted, or no other control plane
  machine is active), the machine never had a node, or the workload cluster, seen with at
  least two control plane nodes, no longer has the node or reports its member as removed. What
  has to be asked for is asked from position \<open>n\<close> of the history on: an answer to an earlier pass
  does not count.\<close>

definition asked :: "nat \<Rightarrow> call list \<Rightarrow> call list \<Rightarrow> call \<Rightarrow> bool" where
  "asked n h g c \<longleftrightarrow> n \<le> length g \<and> (\<exists>t. h = g @ c # t)"

lemma asked_last: "n \<le> length g \<Longrightarrow> asked n (g @ [c]) g c"
  by (simp add: asked_def)

definition nothingToProtect :: "env \<Rightarrow> lib \<Rightarrow> Cluster \<Rightarrow> nat \<Rightarrow> call list \<Rightarrow> bool" where
  "nothingToProtect E L cluster n h \<longleftrightarrow>
     deleting (cl_Meta cluster) \<or>
     (\<exists>ref g obj. cl_ControlPlaneRef cluster = Some ref \<and> asked n h g (GetByRef ref (om_Namespace (cl_Meta cluster))) \<and>
        e_unstructured E g (GetByRef ref (om_Namespace (cl_Meta cluster))) = Inr obj \<and> deleting (u_Meta obj)) \<or>
     (\<exists>g ms. asked n h g (ListMachines (om_Namespace (cl_Meta cluster)) (cl_Name cluster)) \<and>
        e_machines E g (ListMachines (om_Namespace (cl_Meta cluster)) (cl_Name cluster)) = Inr ms \<and>
        (\<forall>x\<in>set ms. \<not> (ActiveMachines L x \<and> ControlPlaneMachines L (cl_Name cluster) x)))"

definition memberGone :: "env \<Rightarrow> Machine \<Rightarrow> nat \<Rightarrow> call list \<Rightarrow> bool" where
  "memberGone E m n h \<longleftrightarrow>
     (\<exists>node g nodes. ma_NodeRef m = Some node \<and> asked n h g WListNodes \<and> e_nodes E g WListNodes = Inr nodes \<and>
        (let ns = filter (\<lambda>n. hasControlPlaneRoleLabel (om_Labels (n_Meta n))) nodes in
         2 \<le> length ns \<and>
         ((\<forall>n\<in>set ns. n_Name n \<noteq> node) \<or>
          (\<exists>n\<in>set ns. n_Name n = node \<and> mget (om_Annotations (n_Meta n)) EtcdRemovedNodeAnnotation \<noteq> None))))"

definition memberSettled :: "env \<Rightarrow> lib \<Rightarrow> Cluster \<Rightarrow> Machine \<Rightarrow> nat \<Rightarrow> call list \<Rightarrow> bool" where
  "memberSettled E L cluster m n h \<longleftrightarrow> nothingToProtect E L cluster n h \<or> ma_NodeRef m = None \<or> memberGone E m n h"

lemma isRemoveEtcdMemberNeeded_reads [THEN emits_mono, go_intros]:
  "emits reads (isRemoveEtcdMemberNeeded E L cluster m)"
  unfolding isRemoveEtcdMemberNeeded_def by (auto intro!: go_intros)

lemma settleEtcdMember_emits [go_intros]:
  "reads \<subseteq> S \<Longrightarrow> (\<And>n. WPatchNode n \<in> S) \<Longrightarrow> emits S (settleEtcdMember E L cluster m)"
  unfolding settleEtcdMember_def by (auto intro!: go_intros)

lemma isRemoveEtcdMemberNeeded_skip:
  assumes "isRemoveEtcdMemberNeeded E L cluster m h = (Some (Some (Inl why)), h')" "n \<le> length h"
  shows "nothingToProtect E L cluster n h' \<or> ma_NodeRef m = None"
proof (cases "deleting (cl_Meta cluster) \<or> ma_NodeRef m = None")
  case True
  then show ?thesis by (auto simp: nothingToProtect_def)
next
  case False
  let ?ns = "om_Namespace (cl_Meta cluster)" and ?n = "cl_Name cluster"
  have list: "nothingToProtect E L cluster n (g @ [ListMachines ?ns ?n])"
    if "e_machines E g (ListMachines ?ns ?n) = Inr ms" "n \<le> length g"
      "MFilter [ControlPlaneMachines L ?n] (MFilter [ActiveMachines L] ms) = []" for g ms
  proof -
    from that(3) have "\<forall>x\<in>set ms. \<not> (ActiveMachines L x \<and> ControlPlaneMachines L ?n x)"
      by (auto simp: MFilter_def filter_empty_conv)
    with that(1,2) show ?thesis unfolding nothingToProtect_def using asked_last by blast
  qed
  show ?thesis
  proof (cases "cl_ControlPlaneRef cluster")
    case None
    with assms False list[of h] show ?thesis
      by (auto simp: isRemoveEtcdMemberNeeded_def go_runs Let_def split: sum.splits if_splits)
  next
    case (Some ref)
    let ?c = "GetByRef ref ?ns"
    have obj: "nothingToProtect E L cluster n (h @ [?c])" if "e_unstructured E h ?c = Inr obj" "deleting (u_Meta obj)" for obj
      using that Some asked_last[OF assms(2)] unfolding nothingToProtect_def by blast
    from assms False Some list[of "h @ [?c]"] obj show ?thesis
      by (auto simp: isRemoveEtcdMemberNeeded_def go_runs Let_def split: sum.splits if_splits)
  qed
qed

text \<open>The loop over the nodes keeps the last one of the name.\<close>

lemma lastNamed:
  "foldl (\<lambda>r n. if f n = x then n else r) d ns = (case filter (\<lambda>n. f n = x) ns of [] \<Rightarrow> d | ms \<Rightarrow> last ms)"
  by (induction ns arbitrary: d) (auto split: list.split)

lemma removed_memberGone:
  assumes "RemoveEtcdMemberForMachine E (Some m) h = (Some (Inr True), h')" "ma_NodeRef m \<noteq> None" "n \<le> length h"
  shows "memberGone E m n h'"
proof -
  from assms(2) obtain node where node: "ma_NodeRef m = Some node" by blast
  with assms(1) have run: "removeMemberForNode E node h = (Some (Inr True), h')"
    by (simp add: RemoveEtcdMemberForMachine_def)
  obtain nodes where nodes: "e_nodes E h WListNodes = Inr nodes"
    using run by (cases "e_nodes E h WListNodes") (auto simp: removeMemberForNode_def getControlPlaneNodes_def go_runs)
  define ns where "ns = filter (\<lambda>n. hasControlPlaneRoleLabel (om_Labels (n_Meta n))) nodes"
  define x where "x = foldl (\<lambda>r n. if n_Name n = node then n else r) emptyNode ns"
  have len: "2 \<le> length ns"
    using run nodes by (auto simp: removeMemberForNode_def getControlPlaneNodes_def go_runs ns_def split: if_splits)
  with run nodes have x: "n_Name x \<noteq> node \<or> mget (om_Annotations (n_Meta x)) EtcdRemovedNodeAnnotation \<noteq> None"
    and h': "h' = h @ [WListNodes]"
    by (auto simp: removeMemberForNode_def getControlPlaneNodes_def go_runs ns_def[symmetric] x_def[symmetric] Let_def
        split: if_splits option.splits prod.splits)
  have mem: "x = emptyNode \<and> (\<forall>n\<in>set ns. n_Name n \<noteq> node) \<or> x \<in> set ns \<and> n_Name x = node"
  proof (cases "filter (\<lambda>n. n_Name n = node) ns")
    case Nil
    then have "\<forall>n\<in>set ns. n_Name n \<noteq> node" by (simp add: filter_empty_conv)
    with Nil show ?thesis by (simp add: x_def lastNamed)
  next
    case (Cons a as)
    then have "x = last (filter (\<lambda>n. n_Name n = node) ns)" by (simp add: x_def lastNamed)
    with Cons have "x \<in> set (filter (\<lambda>n. n_Name n = node) ns)" by (metis last_in_set list.distinct(1))
    then show ?thesis by auto
  qed
  have "(\<forall>n\<in>set ns. n_Name n \<noteq> node) \<or>
      (\<exists>n\<in>set ns. n_Name n = node \<and> mget (om_Annotations (n_Meta n)) EtcdRemovedNodeAnnotation \<noteq> None)"
    using x mem by blast
  with len node nodes asked_last[OF assms(3)] show ?thesis
    unfolding memberGone_def Let_def ns_def h' by blast
qed

lemma settleEtcdMember_settled:
  assumes "settleEtcdMember E L cluster m h = (Some None, h')"
  shows "memberSettled E L cluster m (length h) h'"
proof -
  from assms obtain err h1 where n: "isRemoveEtcdMemberNeeded E L cluster m h = (Some err, h1)"
    unfolding settleEtcdMember_def by (rule bnd_SomeE)
  obtain t1 where t1: "h1 = h @ t1" by (rule emitsE[OF isRemoveEtcdMemberNeeded_reads[OF order_refl] n]) blast
  show ?thesis
  proof (cases err)
    case None
    with assms n obtain w h2 where w: "GetWorkloadCluster E (cl_Key cluster) h1 = (Some w, h2)"
      and "RemoveEtcdMemberForMachine E (Some m) h2 = (Some (Inr True), h')"
      by (auto simp: settleEtcdMember_def bnd_run ret_def split: prod.splits option.splits sum.splits if_splits)
    moreover obtain t2 where "h2 = h1 @ t2" by (rule emitsE[OF workload_reads2(1)[OF order_refl] w]) blast
    ultimately show ?thesis unfolding memberSettled_def using removed_memberGone t1 by force
  next
    case (Some e)
    with assms n obtain why where "e = Inl why" "h' = h1"
      by (cases e) (auto simp: settleEtcdMember_def bnd_run ret_def)
    with n Some show ?thesis unfolding memberSettled_def using isRemoveEtcdMemberNeeded_skip by blast
  qed
qed

definition is_patch_machine :: "call \<Rightarrow> bool" where
  "is_patch_machine c = (case c of PatchMachine _ \<Rightarrow> True | _ \<Rightarrow> False)"

lemma is_patch_machine_simps [simp]:
  "is_patch_machine (PatchMachine m)" "\<not> is_patch_machine (WPatchNode n)" "is_read c \<Longrightarrow> \<not> is_patch_machine c"
  by (auto simp: is_patch_machine_def is_read_def split: call.splits)

text \<open>What a release rests on, in a pass that began at history \<open>h\<close>: the machine and its cluster are
  the ones the pass read, in its first two requests, and the member of this machine was settled
  in this cluster by the answers to the requests after them.\<close>

definition releaseJustified ::
  "env \<Rightarrow> lib \<Rightarrow> machineLib \<Rightarrow> ObjectKey \<Rightarrow> call list \<Rightarrow> call list \<Rightarrow> Machine \<Rightarrow> bool" where
  "releaseJustified E L M key h h1 x \<longleftrightarrow>
     (\<exists>m cluster t. let c = GetCluster (om_Namespace (ma_Meta m)) (clusterLabel m) in
        e_machine E h (GetMachine key) = Inr m \<and> e_cluster E (h @ [GetMachine key]) c = Inr (Some cluster) \<and>
        h1 = h @ GetMachine key # c # t \<and> x = withoutHook m \<and> ma_deleting m \<and> hasK3sHook M m \<and>
        machineIsFalse M m PreTerminateDeleteHookSucceededV1Beta1Condition \<and>
        memberSettled E L cluster m (length h + 2) h1)"

lemma first_of_kind:
  assumes "h1 @ c # h2 = h @ cs" "\<forall>d\<in>set cs. \<not> P d" "P c" "length h \<le> length h1"
  shows False
proof -
  from assms(1,4) obtain us where "h1 = h @ us" by (auto simp: append_eq_append_conv2)
  with assms(1) have "c \<in> set cs" by auto
  with assms(2,3) show False by blast
qed

text \<open>The release of the hook is the last request of its pass.\<close>

lemma machine_Reconcile_released:
  assumes run: "machine_Reconcile E L M key h = (r, h1 @ PatchMachine x # h2)" and len: "length h \<le> length h1"
  shows "h2 = [] \<and> releaseJustified E L M key h h1 x"
proof -
  have quiet: False if "h1 @ PatchMachine x # t = h @ cs" "\<forall>d\<in>set cs. \<not> is_patch_machine d" for t cs
    using first_of_kind[where P = is_patch_machine, OF that is_patch_machine_simps(1) len] .
  obtain m where m: "e_machine E h (GetMachine key) = Inr m"
    using run quiet[of h2 "[GetMachine key]"] by (cases "e_machine E h (GetMachine key)") (auto simp: machine_Reconcile_def go_runs split: if_splits)
  let ?c = "GetCluster (om_Namespace (ma_Meta m)) (clusterLabel m)" and ?h = "h @ [GetMachine key]"
  have g: "ma_deleting m" "hasK3sHook M m" "machineIsFalse M m PreTerminateDeleteHookSucceededV1Beta1Condition"
    using run m quiet[of h2 "[GetMachine key]"] by (auto simp: machine_Reconcile_def go_runs split: if_splits)
  obtain cluster where cl: "e_cluster E ?h ?c = Inr (Some cluster)"
    using run m g quiet[of h2 "[GetMachine key, ?c]"]
    by (cases "e_cluster E ?h ?c") (auto simp: machine_Reconcile_def go_runs deref_def split: option.splits)
  obtain early h3 where s: "settleEtcdMember E L cluster m (?h @ [?c]) = (early, h3)" by fastforce
  have em: "emits {c. \<not> is_patch_machine c} (settleEtcdMember E L cluster m)" by (auto intro!: go_intros)
  obtain cs where h3: "h3 = (?h @ [?c]) @ cs" and cs: "\<forall>d\<in>set cs. \<not> is_patch_machine d"
    by (rule emitsE[OF em s]) auto
  have q: "\<forall>d\<in>set (GetMachine key # ?c # cs). \<not> is_patch_machine d" using cs by simp
  have rest: "(case early of None \<Rightarrow> (None, h3) | Some None \<Rightarrow> removeHook E m h3 | Some (Some out) \<Rightarrow> (Some out, h3)) = (r, h1 @ PatchMachine x # h2)"
    using run m g cl s by (auto simp: machine_Reconcile_def bnd_run client_run deref_def ret_def split: option.splits)
  have "early = Some None" and rm: "removeHook E m h3 = (r, h1 @ PatchMachine x # h2)"
    using rest quiet[OF _ q] h3 by (auto split: option.splits)
  have "h1 @ PatchMachine x # h2 = h3 @ [PatchMachine (withoutHook m)]"
    using rm quiet[OF _ q] h3 by (auto simp: removeHook_def go_runs split: option.splits)
  moreover have "h2 = []"
  proof (cases h2 rule: rev_cases)
    case (snoc ys y)
    with calculation have "h1 @ PatchMachine x # ys = h @ (GetMachine key # ?c # cs)" by (simp add: h3)
    from quiet[OF this q] show ?thesis ..
  qed
  ultimately have "h1 = h3" "x = withoutHook m" "h2 = []" by auto
  moreover have "memberSettled E L cluster m (length h + 2) h3"
    using settleEtcdMember_settled s \<open>early = Some None\<close> by fastforce
  ultimately show ?thesis using m cl g h3 unfolding releaseJustified_def Let_def by auto
qed

end
