(* ===== verification/KcpResults.thy ===== *)
theory KcpResults
  imports SecretResults ScaleResults BootstrapResults KcpLemmas MachineController
begin

text \<open>
  The properties of the two controllers of the control plane provider, which compose all the
  other components. \<open>C0\<close> is an instance of everything the controller is configured
  with, for the witnesses.
\<close>

definition C0 :: kcpEnv where
  "C0 = \<lparr>k_lib = L0, k_ssa = X0, k_token = T0, k_kube = U0, k_contract = V0,
     k_kcp = \<lparr>ContainsFinalizer = (\<lambda>fs f. f \<in> set fs), AddFinalizer = (\<lambda>fs f. fs @ [f]),
        RemoveFinalizer = (\<lambda>fs f. filter (\<lambda>x. x \<noteq> f) fs),
        ep_IsZero = (\<lambda>ep. ep_Host ep = [] \<and> ep_Port ep = 0), ep_IsValid = (\<lambda>ep. ep_Host ep \<noteq> [] \<and> ep_Port ep \<noteq> 0),
        ep_String = ep_Host, ControlledByKCP = IsControlledBy L0, fetchedKind = (\<lambda>_. ''KThreesControlPlane''),
        implementsGetter = (\<lambda>_. False), gvkConfig = Inr ''KThreesConfig'', ParseGroupVersion = Inr,
        ClientCertificateRenewalDuration = 15552000 * Second\<rparr>\<rparr>"

lemma E0_answers:
  "e_err E0 h c = None" "e_kcp E0 h c = Inr kcp0" "e_cluster E0 h c = Inr (Some cluster0)" "e_machines E0 h c = Inr []"
  "e_config E0 h c = Inl (ApiErr NotFound [])" "e_unstructured E0 h c = Inl (ApiErr NotFound [])"
  "e_secret E0 h c = Inr \<lparr>s_Meta = meta0 ''s'' ''s'', s_Data = Some [''tls.crt'' \<mapsto> ''crt'', ''tls.key'' \<mapsto> ''key''], s_Type = []\<rparr>"
  "e_nodes E0 h c = Inr [node0 ''n1'', node0 ''n2'']" "e_pods E0 h c = Inr [(''n1'', ''p1''), (''n2'', ''p2'')]"
  "e_helper E0 h n = None" "e_now E0 h = 5000"
  "e_random E0 h c = Inr ''material''" "e_DecodeCertPEM E0 x = Inr (Some x)" "e_DecodePrivateKeyPEM E0 x = Inr (Some x)"
  "e_ParseCertificate E0 x = Inr x" "e_X509KeyPair E0 x y = None"
  by (simp_all add: E0_def)

section \<open>Deleting a control plane\<close>

lemma NewControlPlane_returns:
  "returns (NewControlPlane E cluster kcp ms) (\<lambda>r. case r of Inl _ \<Rightarrow> True
     | Inr cp \<Rightarrow> cp_KCP cp = kcp \<and> cp_Machines cp = ms \<and> cp_Cluster cp = cluster)"
  by (rule returnsI) (auto dest: NewControlPlane_fields split: sum.split)

definition machineListing :: "Cluster \<Rightarrow> call" where
  "machineListing cluster = ListMachines (fst (cl_Key cluster)) (snd (cl_Key cluster))"

lemma GetMachinesForCluster_run:
  "GetMachinesForCluster E (cl_Key cluster) fs h =
     (Some (case e_machines E h (machineListing cluster) of
        Inl err \<Rightarrow> Inl (Wrap ''failed to list machines'' err) | Inr ms \<Rightarrow> Inr (MFilter fs ms)), h @ [machineListing cluster])"
  by (simp add: GetMachinesForCluster_def machineListing_def go_runs split: sum.split)

text \<open>The deletions of a loop are of its elements.\<close>

lemma deleteMachines_emits: "emits (DeleteMachine ` set ms) (deleteMachines E ms)"
  unfolding deleteMachines_def by (intro go_intros) auto

definition deletable :: "kcpEnv \<Rightarrow> KThreesControlPlane \<Rightarrow> Machine list \<Rightarrow> call \<Rightarrow> bool" where
  "deletable C kcp ms c \<longleftrightarrow>
     (\<forall>y\<in>set ms. OwnedMachines (k_lib C) kcp y) \<and>
     (\<forall>x. c = DeleteMachine x \<longrightarrow> \<not> HasDeletionTimestamp (k_lib C) x \<and> bareMachine x \<in> bareMachine ` set ms)"

lemma MFilter_all: "length (MFilter [P] ms) = length ms \<Longrightarrow> \<forall>y\<in>set ms. P y"
  by (simp add: MFilter_def) (metis filter_id_conv length_filter_less less_irrefl)

lemma bare_machines:
  assumes "bare cp1 = bare cp"
  shows "bareMachine ` set (cp_Machines cp1) = bareMachine ` set (cp_Machines cp)"
proof -
  have "cp_Machines (bare cp1) = cp_Machines (bare cp)" using assms by simp
  then have "map bareMachine (cp_Machines cp1) = map bareMachine (cp_Machines cp)" by (simp add: bare_def)
  then show ?thesis by (metis set_map)
qed

lemma bare_meta:
  assumes "bare cp1 = bare cp"
  shows "kp_Meta (cp_KCP cp1) = kp_Meta (cp_KCP cp)"
proof -
  have "kp_Meta (cp_KCP (bare cp1)) = kp_Meta (cp_KCP (bare cp))" using assms by simp
  then show ?thesis by (simp add: bare_def)
qed

lemma MFilter_Nil [simp]: "MFilter [] ms = ms"
  by (simp add: MFilter_def)

lemma reconcileDelete_run:
  "reconcileDelete E C cluster kcp h =
     (case e_machines E h (machineListing cluster) of
        Inl err \<Rightarrow> (Some (kcp, NoResult, Some (Wrap ''failed to list machines'' err)), h @ [machineListing cluster])
      | Inr ms \<Rightarrow> deleteListed E C cluster kcp ms (h @ [machineListing cluster]))"
  by (simp add: reconcileDelete_def deleteListed_def Let_def bnd_run GetMachinesForCluster_run ret_def split: sum.split)

lemma deleteListed_emits:
  "emits {c. is_delete_machine c \<longrightarrow> deletable C kcp ms c} (deleteListed E C cluster kcp ms)"
proof -
  let ?S = "{c. is_delete_machine c \<longrightarrow> deletable C kcp ms c}" and ?L = "k_lib C"
  let ?owned = "MFilter [OwnedMachines ?L kcp] ms"
  have S: "reads \<subseteq> ?S" by auto
  have del: "emits ?S (deleteMachines E (MFilter [\<lambda>m. \<not> HasDeletionTimestamp ?L m] (cp_Machines cp1)))"
    if "bare cp1 = bare cp" "cp_Machines cp = ?owned" "length ms = length ?owned" for cp cp1
  proof (rule emits_mono[OF deleteMachines_emits], rule subsetI)
    fix c
    assume "c \<in> DeleteMachine ` set (MFilter [\<lambda>m. \<not> HasDeletionTimestamp ?L m] (cp_Machines cp1))"
    then obtain x where x: "c = DeleteMachine x" "x \<in> set (cp_Machines cp1)" "\<not> HasDeletionTimestamp ?L x" by auto
    moreover have "bareMachine x \<in> bareMachine ` set ?owned" using x(2) bare_machines[OF that(1)] that(2) by auto
    then have "bareMachine x \<in> bareMachine ` set ms" by auto
    ultimately show "c \<in> ?S" using MFilter_all[of "OwnedMachines ?L kcp" ms] that(3) by (simp add: deletable_def)
  qed
  have rest: "emits ?S (bnd (reconcileControlPlaneConditions E ?L cp) (\<lambda>(cp, _).
      let kcp = kp_SetAggregate ?L (cp_KCP cp) MachinesReadyCondition (getters (k_kcp C) (cp_Machines cp)) in
      if length ms \<noteq> length ?owned
      then ret (kp_MarkFalse ?L kcp ResizedCondition ''Deleting'' SevInfo ''Waiting for worker nodes to be deleted first'',
                RequeueAfter deleteRequeueAfter, None)
      else bnd (deleteMachines E (MFilter [\<lambda>m. \<not> HasDeletionTimestamp ?L m] (cp_Machines cp))) (\<lambda>errs.
          if length errs > 0
          then bnd (do_write E (Event ''FailedDelete'')) (\<lambda>_. ret (kcp, NoResult, NewAggregate (map Some errs)))
          else ret (kp_MarkFalse ?L kcp ResizedCondition ''Deleting'' SevInfo [], RequeueAfter deleteRequeueAfter, None))))"
    if "cp_Machines cp = ?owned" for cp
    by (rule emits_bnd_ret[OF reconcileControlPlaneConditions_emits reconcileControlPlaneConditions_bare])
      (auto simp: Let_def intro!: S emits_if emits_ret emits_bnd del that client_emits)
  show ?thesis
    unfolding deleteListed_def Let_def
    by (intro emits_if emits_ret emits_bnd_ret[OF NewControlPlane_emits[OF S] NewControlPlane_returns])
      (auto intro!: emits_ret rest[unfolded Let_def] split: sum.split)
qed

lemma tail_mem: "h @ xs = h1 @ c # h2 \<Longrightarrow> length h \<le> length h1 \<Longrightarrow> c \<in> set xs"
  by (auto simp: append_eq_append_conv2 Cons_eq_append_conv)

text \<open>C8 A control plane that is being deleted deletes machines only when no other machine of
  the cluster is left: every machine in the listing with which the pass starts is owned by
  the control plane, and the machine deleted is one of them (up to its conditions) that is
  not being deleted already.\<close>

theorem deletion_waits_for_workers:
  assumes "reconcileDelete E C cluster kcp h = (r, h1 @ DeleteMachine x # h2)" "length h \<le> length h1"
  shows "\<exists>ms. e_machines E h (machineListing cluster) = Inr ms \<and> (\<forall>y\<in>set ms. OwnedMachines (k_lib C) kcp y) \<and>
    bareMachine x \<in> bareMachine ` set ms \<and> \<not> HasDeletionTimestamp (k_lib C) x"
proof (cases "e_machines E h (machineListing cluster)")
  case (Inl err)
  with assms(1) have "h @ [machineListing cluster] = h1 @ DeleteMachine x # h2" by (simp add: reconcileDelete_run)
  from tail_mem[OF this assms(2)] show ?thesis by (simp add: machineListing_def)
next
  case (Inr ms)
  with assms(1) have "deleteListed E C cluster kcp ms (h @ [machineListing cluster]) = (r, h1 @ DeleteMachine x # h2)"
    by (simp add: reconcileDelete_run)
  with deleteListed_emits obtain cs where cs: "h1 @ DeleteMachine x # h2 = (h @ [machineListing cluster]) @ cs"
    "set cs \<subseteq> {c. is_delete_machine c \<longrightarrow> deletable C kcp ms c}" by (rule emitsE)
  then have "h @ (machineListing cluster # cs) = h1 @ DeleteMachine x # h2" by simp
  from tail_mem[OF this assms(2)] have "DeleteMachine x \<in> set cs" by (auto simp: machineListing_def)
  with cs(2) Inr show ?thesis by (auto simp: deletable_def)
qed

definition owned1 :: Machine where
  "owned1 = setMachineMeta (machine0 ''m1'' None []) ((meta0 ''m1'' ''m1'')\<lparr>om_OwnerReferences := [AsOwnerReference kcp0]\<rparr>)"

definition E_owned :: env where
  "E_owned = E0\<lparr>e_machines := (\<lambda>_ _. Inr [owned1])\<rparr>"

lemma owned1_run:
  "\<exists>a b out. reconcileDelete E_owned C0 cluster0 kcp0 [] = (out, [machineListing cluster0, a, b] @ DeleteMachine owned1 # [])"
  by (simp add: reconcileDelete_run deleteListed_def E_owned_def C0_def E0_def L0_def owned1_def machine0_def meta0_def emptyMeta_def
      AsOwnerReference_def kcp0_def MFilter_def NewControlPlane_def reconcileControlPlaneConditions_def
      deleteMachines_def ma_deleting_def deleting_def setMachineMeta_def go_runs Let_def)

theorem deletion_waits_for_workers_witness:
  "e_machines E_owned [] (machineListing cluster0) = Inr [owned1] \<and> OwnedMachines L0 kcp0 owned1 \<and> \<not> HasDeletionTimestamp L0 owned1"
proof -
  from owned1_run obtain a b out where
    run: "reconcileDelete E_owned C0 cluster0 kcp0 [] = (out, [machineListing cluster0, a, b] @ DeleteMachine owned1 # [])" by blast
  have L: "k_lib C0 = L0" by (simp add: C0_def)
  from deletion_waits_for_workers[OF run] show ?thesis unfolding L by (auto simp: E_owned_def)
qed

text \<open>C9 The finalizer of a control plane is removed only when the listing with which the pass
  starts has no machine of the control plane left; nothing else is sent, and no other pass of
  \<open>reconcileDelete\<close> touches the metadata of the control plane.\<close>

theorem finalizer_removed_last:
  assumes "reconcileDelete E C cluster kcp h = (Some (kcp', res, e), h')" "kp_Meta kcp' \<noteq> kp_Meta kcp"
  shows "\<exists>ms. e_machines E h (machineListing cluster) = Inr ms \<and> (\<forall>m\<in>set ms. \<not> OwnedMachines (k_lib C) kcp m) \<and>
    h' = h @ [machineListing cluster] \<and> res = NoResult \<and> e = None \<and>
    kcp' = kp_setFinalizers kcp (RemoveFinalizer (k_kcp C) (om_Finalizers (kp_Meta kcp)) KThreesControlPlaneFinalizer)"
proof (cases "e_machines E h (machineListing cluster)")
  case (Inl err)
  with assms show ?thesis by (simp add: reconcileDelete_run)
next
  case (Inr ms)
  with assms(1) have run: "deleteListed E C cluster kcp ms (h @ [machineListing cluster]) = (Some (kcp', res, e), h')"
    by (simp add: reconcileDelete_run)
  show ?thesis
  proof (cases "MFilter [OwnedMachines (k_lib C) kcp] ms = []")
    case True
    then have "\<forall>m\<in>set ms. \<not> OwnedMachines (k_lib C) kcp m" by (auto simp: MFilter_def filter_empty_conv)
    with run True Inr show ?thesis by (simp add: deleteListed_def ret_def)
  next
    case False
    have "returns (deleteListed E C cluster kcp ms) (\<lambda>(kcp', res, e). kp_Meta kcp' = kp_Meta kcp)"
      unfolding deleteListed_def Let_def using False
      by (intro returns_cases returns_bnd[OF NewControlPlane_returns])
        (auto simp: kp_SetAggregate_def intro!: returns_intros returns_cases returns_bnd_any[where m = "deleteMachines E ds" for ds]
          returns_bnd_any[where m = "do_write E ev" for ev] returns_bnd[OF reconcileControlPlaneConditions_bare]
          dest: bare_meta split: sum.splits)
    from returnsD[OF this run] assms(2) show ?thesis by simp
  qed
qed

definition kcp_finalized :: KThreesControlPlane where
  "kcp_finalized = kp_setFinalizers kcp0 [KThreesControlPlaneFinalizer]"

theorem finalizer_removed_last_witness:
  "\<exists>e. reconcileDelete E0 C0 cluster0 kcp_finalized [] = (Some (kp_setFinalizers kcp0 [], NoResult, e), [machineListing cluster0]) \<and> e = None"
proof -
  have run: "reconcileDelete E0 C0 cluster0 kcp_finalized [] =
      (Some (kp_setFinalizers kcp0 [], NoResult, None), [machineListing cluster0])"
    by (simp add: reconcileDelete_run deleteListed_def E0_def C0_def kcp_finalized_def kp_setFinalizers_def MFilter_def ret_def)
  have "kp_Meta (kp_setFinalizers kcp0 []) \<noteq> kp_Meta kcp_finalized"
    by (simp add: kcp_finalized_def kp_setFinalizers_def kcp0_def meta0_def emptyMeta_def)
  from finalizer_removed_last[OF run this] run show ?thesis by blast
qed

section \<open>The whole reconciliation\<close>

lemma updateStatus_reads: "emits reads (updateStatus E L kcp cluster)"
  unfolding updateStatus_def reportStatus_def Let_def by (intro go_intros) auto

lemma finishReconcile_emits:
  "emits (reads \<union> range PatchKCP) (finishReconcile E L cluster kcp res err)"
  unfolding finishReconcile_def patchKThreesControlPlane_def Let_def
  by (intro emits_bnd emits_prod emits_ret client_emits emits_mono[OF updateStatus_reads]) auto

text \<open>C3 One reconciliation of a control plane that is not being deleted changes the number of
  machines by at most one: at most one machine is deleted, or the creation of at most one is
  begun, and never both, whatever the API servers and etcd answer. (A remediation that deleted
  a machine ends the pass, so no rollout or scaling follows it.)\<close>

theorem one_change_per_pass:
  assumes "e_kcp E h (GetKCP key) = Inr kcp" "\<not> kp_deleting kcp"
  shows "\<exists>cs. snd (kcp_Reconcile E C cache key h) = h @ cs \<and> length (filter is_resize cs) \<le> 1"
proof -
  have fin: "bounded is_resize 0 (finishReconcile E L cluster kcp res err)" for L cluster kcp res err
    by (simp only: bounded_0, rule emits_mono[OF finishReconcile_emits]) auto
  have add: "bounded is_resize 0 (addFinalizerAndPatch E K kcp)" for K
    unfolding addFinalizerAndPatch_def by (simp only: bounded_0) (intro go_intros, simp)
  have "bounded is_resize (Suc 0) (reconcileFetched E C cache kcp)"
    using assms(2) unfolding reconcileFetched_def reconcileBody_def if_not_P[OF assms(2)]
    by (intro bounded_bnd0 bounded_sum bounded_option bounded_if bounded_prod bounded_ret client_bounded
        bounded_bnd0[OF add] bounded_bnd_last[OF reconcile_one] bounded_bnd0[OF fin]) (auto intro: go_intros)
  moreover have "kcp_Reconcile E C cache key h = reconcileFetched E C cache kcp (h @ [GetKCP key])"
    by (simp add: kcp_Reconcile_def assms(1) bnd_run client_run)
  ultimately obtain cs where "snd (kcp_Reconcile E C cache key h) = (h @ [GetKCP key]) @ cs" "length (filter is_resize cs) \<le> 1"
    unfolding bounded_def by (metis One_nat_def)
  then show ?thesis by (intro exI[of _ "GetKCP key # cs"]) simp
qed

theorem one_change_per_pass_witness:
  "\<exists>cs. snd (kcp_Reconcile E0 C0 Map.empty (''ns'', ''kcp'') []) = cs \<and> length (filter is_resize cs) \<le> 1"
  using one_change_per_pass[of E0 "[]" "(''ns'', ''kcp'')" kcp0 C0 Map.empty]
  by (simp add: E0_def kp_deleting_def deleting_def kcp0_def meta0_def emptyMeta_def)

text \<open>C10 Nothing is written before it is due. Every write of a reconciliation comes after the
  control plane and its cluster were read, with the cluster not paused and its infrastructure
  provisioned; and as long as the control plane has no finalizer, the only write is the patch
  that adds it, and the pass ends with it.\<close>

theorem writes_gated:
  assumes "kcp_Reconcile E C cache key h = (r, h1 @ c # h2)" "length h \<le> length h1" "\<not> is_read c"
  shows "\<exists>kcp cluster. e_kcp E h (GetKCP key) = Inr kcp \<and>
    e_cluster E (h @ [GetKCP key]) (GetOwnerCluster (kp_Meta kcp)) = Inr (Some cluster) \<and>
    \<not> IsPaused (k_lib C) cluster (kp_Meta kcp) \<and> cl_InfrastructureProvisioned cluster = Some True \<and>
    (ContainsFinalizer (k_kcp C) (om_Finalizers (kp_Meta kcp)) KThreesControlPlaneFinalizer \<or>
     h1 = h @ [GetKCP key, GetOwnerCluster (kp_Meta kcp)] \<and> h2 = [] \<and>
     c = PatchKCP (kp_setFinalizers kcp (AddFinalizer (k_kcp C) (om_Finalizers (kp_Meta kcp)) KThreesControlPlaneFinalizer)))"
proof -
  have no: False if "h @ xs = h1 @ c # h2" "set xs \<subseteq> reads" for xs
    using tail_mem[OF that(1) assms(2)] that(2) assms(3) by auto
  obtain kcp where kcp: "e_kcp E h (GetKCP key) = Inr kcp"
    using assms(1) no[of "[GetKCP key]"]
    by (cases "e_kcp E h (GetKCP key)") (auto simp: kcp_Reconcile_def go_runs split: if_splits)
  let ?o = "GetOwnerCluster (kp_Meta kcp)" and ?fs = "om_Finalizers (kp_Meta kcp)"
  have no2: False if "h @ [GetKCP key, ?o] = h1 @ c # h2" using no[OF that] by simp
  from assms(1) kcp have run: "reconcileFetched E C cache kcp (h @ [GetKCP key]) = (r, h1 @ c # h2)"
    by (simp add: kcp_Reconcile_def bnd_run client_run)
  obtain cluster where cluster: "e_cluster E (h @ [GetKCP key]) ?o = Inr (Some cluster)"
    using run no2 by (cases "e_cluster E (h @ [GetKCP key]) ?o") (auto simp: reconcileFetched_def go_runs split: option.splits)
  with run no2 have gates: "\<not> IsPaused (k_lib C) cluster (kp_Meta kcp)" "cl_InfrastructureProvisioned cluster = Some True"
    "e_helper E (h @ [GetKCP key, ?o]) (om_Name (kp_Meta kcp)) = None"
    by (auto simp: reconcileFetched_def go_runs split: option.splits if_splits)
  show ?thesis
  proof (cases "ContainsFinalizer (k_kcp C) ?fs KThreesControlPlaneFinalizer")
    case True
    with kcp cluster gates show ?thesis by blast
  next
    case False
    let ?p = "PatchKCP (kp_setFinalizers kcp (AddFinalizer (k_kcp C) ?fs KThreesControlPlaneFinalizer))"
    from False run cluster gates have eq: "(h @ [GetKCP key, ?o]) @ [?p] = h1 @ c # h2"
      by (simp add: reconcileFetched_def addFinalizerAndPatch_def go_runs)
    then have "h1 = h @ [GetKCP key, ?o] \<and> c = ?p \<and> h2 = []"
    proof (cases h2 rule: rev_cases)
      case Nil
      with eq show ?thesis by simp
    next
      case (snoc h2' d)
      with eq have "h @ [GetKCP key, ?o] = h1 @ c # h2'" by simp
      from tail_mem[OF this assms(2)] assms(3) show ?thesis by auto
    qed
    with kcp cluster gates show ?thesis by blast
  qed
qed

theorem writes_gated_witness:
  "cl_InfrastructureProvisioned cluster0 = Some True \<and> \<not> IsPaused L0 cluster0 (kp_Meta kcp0)"
proof -
  have "\<exists>r. kcp_Reconcile E0 C0 Map.empty (''ns'', ''kcp'') [] =
      (r, [GetKCP (''ns'', ''kcp''), GetOwnerCluster (kp_Meta kcp0)] @ PatchKCP kcp_finalized # [])"
    by (simp add: kcp_Reconcile_def reconcileFetched_def addFinalizerAndPatch_def go_runs E0_def C0_def L0_def cluster0_def
        kcp_finalized_def kcp0_def meta0_def emptyMeta_def kp_setFinalizers_def)
  then obtain r where run: "kcp_Reconcile E0 C0 Map.empty (''ns'', ''kcp'') [] =
      (r, [GetKCP (''ns'', ''kcp''), GetOwnerCluster (kp_Meta kcp0)] @ PatchKCP kcp_finalized # [])" by blast
  have "\<not> is_read (PatchKCP kcp_finalized)" by (simp add: is_read_def)
  from writes_gated[OF run _ this] show ?thesis by (auto simp: E0_def C0_def)
qed

section \<open>Status\<close>

definition statusCounts :: "KThreesControlPlane \<Rightarrow> bool" where
  "statusCounts p \<longleftrightarrow>
     st_Replicas (kp_Status p) = st_ReadyReplicas (kp_Status p) + st_UnavailableReplicas (kp_Status p)"

text \<open>Later status knows at least what the earlier one knew, for the same specification.\<close>

definition statusAdvanced :: "KThreesControlPlane \<Rightarrow> KThreesControlPlane \<Rightarrow> bool" where
  "statusAdvanced p q \<longleftrightarrow>
     kp_Meta q = kp_Meta p \<and> kp_Spec q = kp_Spec p \<and> (statusCounts p \<longrightarrow> statusCounts q) \<and>
     (st_Initialized (kp_Status p) \<longrightarrow> st_Initialized (kp_Status q)) \<and> (st_Ready (kp_Status p) \<longrightarrow> st_Ready (kp_Status q))"

text \<open>A control plane whose number of machines is not the desired one is not resized.\<close>

definition notResized :: "lib \<Rightarrow> int32 \<Rightarrow> KThreesControlPlane \<Rightarrow> bool" where
  "notResized L desiredReplicas p \<longleftrightarrow>
     (sint (st_Replicas (kp_Status p)) \<noteq> sint desiredReplicas \<longrightarrow> \<not> v1IsTrue L ResizedCondition (kp_GetConditions p))"

lemma kp_updStatus_simps [simp]:
  "kp_Meta (kp_updStatus f p) = kp_Meta p" "kp_Spec (kp_updStatus f p) = kp_Spec p"
  "kp_Status (kp_updStatus f p) = f (kp_Status p)" "kp_deleting (kp_updStatus f p) = kp_deleting p"
  "kp_Annotations (kp_updStatus f p) = kp_Annotations p"
  by (simp_all add: kp_updStatus_def kp_deleting_def kp_Annotations_def)

lemma kp_mark_counts [simp]:
  "st_Replicas (kp_Status (kp_MarkTrue L p t)) = st_Replicas (kp_Status p)"
  "st_Replicas (kp_Status (kp_MarkFalse L p t r sv ms)) = st_Replicas (kp_Status p)"
  "st_ReadyReplicas (kp_Status (kp_MarkTrue L p t)) = st_ReadyReplicas (kp_Status p)"
  "st_ReadyReplicas (kp_Status (kp_MarkFalse L p t r sv ms)) = st_ReadyReplicas (kp_Status p)"
  "st_UnavailableReplicas (kp_Status (kp_MarkTrue L p t)) = st_UnavailableReplicas (kp_Status p)"
  "st_UnavailableReplicas (kp_Status (kp_MarkFalse L p t r sv ms)) = st_UnavailableReplicas (kp_Status p)"
  by (simp_all add: kp_MarkTrue_def kp_MarkFalse_def kp_SetConditions_def)

lemma resizedStatus_simps [simp]:
  "kp_Meta (resizedStatus L ms n d p) = kp_Meta p" "kp_Spec (resizedStatus L ms n d p) = kp_Spec p"
  "st_Replicas (kp_Status (resizedStatus L ms n d p)) = st_Replicas (kp_Status p)"
  "st_ReadyReplicas (kp_Status (resizedStatus L ms n d p)) = st_ReadyReplicas (kp_Status p)"
  "st_UnavailableReplicas (kp_Status (resizedStatus L ms n d p)) = st_UnavailableReplicas (kp_Status p)"
  "st_Initialized (kp_Status (resizedStatus L ms n d p)) = st_Initialized (kp_Status p)"
  "st_Ready (kp_Status (resizedStatus L ms n d p)) = st_Ready (kp_Status p)"
  by (simp_all add: resizedStatus_def)

lemma kp_GetConditions_updStatus:
  "(\<And>st. st_Conditions (f st) = st_Conditions st) \<Longrightarrow> kp_GetConditions (kp_updStatus f p) = kp_GetConditions p"
  by (simp add: kp_GetConditions_def)

lemma surfaceRemediation_status:
  assumes "surfaceRemediation L ms p = (q, e)"
  shows "statusAdvanced p q" "notResized L d q = notResized L d p"
  using assms
  by (auto simp: surfaceRemediation_def statusAdvanced_def statusCounts_def notResized_def kp_GetConditions_updStatus
      split: sum.splits option.splits)

lemma statusAdvanced_trans: "statusAdvanced p q \<Longrightarrow> statusAdvanced q r \<Longrightarrow> statusAdvanced p r"
  by (auto simp: statusAdvanced_def)

lemma workloadStatus_advanced:
  "n = st_Replicas (kp_Status p) \<Longrightarrow> statusAdvanced p (workloadStatus L s n p)"
  by (auto simp: workloadStatus_def Let_def statusAdvanced_def statusCounts_def)

lemma workloadStatus_notResized:
  assumes "v1condition_laws L" "notResized L d p"
  shows "notResized L d (workloadStatus L s n p)"
proof -
  have "v1IsTrue L ResizedCondition (v1MarkTrue L AvailableCondition cs) = v1IsTrue L ResizedCondition cs" for cs
    using assms(1) by (simp add: v1condition_laws_def ResizedCondition_def AvailableCondition_def)
  then have m: "v1IsTrue L ResizedCondition (kp_GetConditions (kp_MarkTrue L q AvailableCondition)) =
      v1IsTrue L ResizedCondition (kp_GetConditions q)" for q
    by (simp add: kp_MarkTrue_def)
  show ?thesis
    using assms(2) by (auto simp: workloadStatus_def Let_def notResized_def m kp_GetConditions_updStatus)
qed

lemma resizedStatus_notResized:
  assumes "v1condition_laws L" "n = st_Replicas (kp_Status p)"
  shows "notResized L d (resizedStatus L ms n d p)"
proof -
  have "\<not> v1IsTrue L t (kp_GetConditions (kp_MarkFalse L p t r sv ms))" for t r sv ms
    using assms(1) by (simp add: kp_MarkFalse_def v1condition_laws_def)
  with assms(2) show ?thesis by (auto simp: resizedStatus_def notResized_def)
qed

lemma replicaStatus_advanced:
  "cp_KCP cp = p \<Longrightarrow> statusAdvanced p (replicaStatus L cp n) \<and> st_Replicas (kp_Status (replicaStatus L cp n)) = n"
  by (simp add: replicaStatus_def statusAdvanced_def statusCounts_def)

lemma statusAdvanced_refl [simp]: "statusAdvanced p p"
  by (simp add: statusAdvanced_def)

lemma statusAdvanced_steps:
  "statusAdvanced p (resizedStatus L ms n d p)" "statusAdvanced p (versionStatus L ms p)" "statusAdvanced p (selectorStatus L cluster p)"
  by (simp_all add: statusAdvanced_def statusCounts_def versionStatus_def selectorStatus_def Let_def)

lemma selectorStatus_simps [simp]:
  "kp_Meta (selectorStatus L cluster p) = kp_Meta p" "kp_Spec (selectorStatus L cluster p) = kp_Spec p"
  "kp_deleting (selectorStatus L cluster p) = kp_deleting p"
  "st_Initialized (kp_Status (selectorStatus L cluster p)) = st_Initialized (kp_Status p)"
  "st_Ready (kp_Status (selectorStatus L cluster p)) = st_Ready (kp_Status p)"
  "st_Version (kp_Status (selectorStatus L cluster p)) = st_Version (kp_Status p)"
  "kp_Annotations (selectorStatus L cluster p) = kp_Annotations p"
  by (simp_all add: selectorStatus_def)

text \<open>What the workload cluster said: the ready control plane nodes of a listing and whether the
  serving secret was there, the last two answers of the run.\<close>

definition workloadSeen :: "env \<Rightarrow> lib \<Rightarrow> KThreesControlPlane \<Rightarrow> KThreesControlPlane \<Rightarrow> call list \<Rightarrow> bool" where
  "workloadSeen E L p q h' \<longleftrightarrow>
     (\<exists>g nodes. let secret = WGetSecret (''kube-system'', k3sServingSecretKey) in
        h' = g @ [WListNodes, secret] \<and> e_nodes E g WListNodes = Inr nodes \<and>
        st_ReadyReplicas (kp_Status q) =
          word_of_nat (length (filter (\<lambda>n. hasControlPlaneRoleLabel (om_Labels (n_Meta n)) \<and> IsNodeReady L n) nodes)) \<and>
        (st_Initialized (kp_Status q) \<longleftrightarrow>
           st_Initialized (kp_Status p) \<or> (\<exists>s. e_secret E (g @ [WListNodes]) secret = Inr s)) \<and>
        (st_Ready (kp_Status q) \<longleftrightarrow> st_Ready (kp_Status p) \<or> 0 < sint (st_ReadyReplicas (kp_Status q))))"

text \<open>Nothing was learnt of the workload cluster.\<close>

definition workloadUnseen :: "KThreesControlPlane \<Rightarrow> KThreesControlPlane \<Rightarrow> bool" where
  "workloadUnseen p q \<longleftrightarrow> st_ReadyReplicas (kp_Status q) = 0 \<and>
     st_Initialized (kp_Status q) = st_Initialized (kp_Status p) \<and> st_Ready (kp_Status q) = st_Ready (kp_Status p)"

text \<open>The status \<open>q\<close> tells the truth about the machines the control plane owns.\<close>

definition tellsTruth ::
  "env \<Rightarrow> lib \<Rightarrow> Machine list \<Rightarrow> ControlPlane \<Rightarrow> KThreesControlPlane \<Rightarrow> KThreesControlPlane \<Rightarrow> goerr option \<Rightarrow> call list \<Rightarrow> bool" where
  "tellsTruth E L owned cp p q e h' \<longleftrightarrow>
     st_Replicas (kp_Status q) = word_of_nat (length owned) \<and>
     st_UpdatedReplicas (kp_Status q) = word_of_nat (length (UpToDateMachines L cp)) \<and> statusCounts q \<and>
     (if kp_deleting p then e = None \<and> workloadUnseen p q
      else (\<exists>d. ps_Replicas (kp_Spec p) = Some d \<and> notResized L d q) \<and>
           st_Version (kp_Status q) = (if LowestVersion L owned = [] then st_Version (kp_Status p) else Some (LowestVersion L owned)) \<and>
           (workloadSeen E L p q h' \<or> e \<noteq> None \<and> workloadUnseen p q))"

lemma tellsTruth_selector: "tellsTruth E L owned cp (selectorStatus L cluster p) q e h' = tellsTruth E L owned cp p q e h'"
  by (simp add: tellsTruth_def workloadSeen_def workloadUnseen_def)

lemma kp_mark_others [simp]:
  "st_UpdatedReplicas (kp_Status (kp_MarkTrue L p t)) = st_UpdatedReplicas (kp_Status p)"
  "st_UpdatedReplicas (kp_Status (kp_MarkFalse L p t r sv ms)) = st_UpdatedReplicas (kp_Status p)"
  "st_Version (kp_Status (kp_MarkTrue L p t)) = st_Version (kp_Status p)"
  "st_Version (kp_Status (kp_MarkFalse L p t r sv ms)) = st_Version (kp_Status p)"
  by (simp_all add: kp_MarkTrue_def kp_MarkFalse_def kp_SetConditions_def)

text \<open>The status before the workload cluster is asked.\<close>

lemma resized_truth:
  assumes "v1condition_laws L" "cp_Machines cp = owned" "\<not> kp_deleting (cp_KCP cp)" "ps_Replicas (kp_Spec (cp_KCP cp)) = Some d"
  defines "n \<equiv> word_of_nat (length owned) :: int32"
  defines "z \<equiv> resizedStatus L owned n d (versionStatus L (cp_Machines cp) (replicaStatus L cp n))"
  shows "tellsTruth E L owned cp (cp_KCP cp) z (Some err) h'"
    "st_Initialized (kp_Status z) = st_Initialized (kp_Status (cp_KCP cp))" "st_Ready (kp_Status z) = st_Ready (kp_Status (cp_KCP cp))"
proof -
  have "n = st_Replicas (kp_Status (versionStatus L owned (replicaStatus L cp n)))"
    by (simp add: versionStatus_def replicaStatus_def Let_def)
  from resizedStatus_notResized[OF assms(1) this] have "notResized L d z" by (simp add: z_def assms(2))
  moreover have "st_UpdatedReplicas (kp_Status z) = word_of_nat (length (UpToDateMachines L cp))"
    "st_Version (kp_Status z) = (if LowestVersion L owned = [] then st_Version (kp_Status (cp_KCP cp)) else Some (LowestVersion L owned))"
    "st_Replicas (kp_Status z) = n" "statusCounts z"
    by (simp_all add: z_def versionStatus_def replicaStatus_def Let_def assms(2) resizedStatus_def statusCounts_def)
  moreover have "workloadUnseen (cp_KCP cp) z"
    by (simp add: workloadUnseen_def z_def versionStatus_def replicaStatus_def Let_def)
  ultimately show "tellsTruth E L owned cp (cp_KCP cp) z (Some err) h'"
    using assms(3,4) by (simp add: tellsTruth_def n_def)
  show "st_Initialized (kp_Status z) = st_Initialized (kp_Status (cp_KCP cp))" "st_Ready (kp_Status z) = st_Ready (kp_Status (cp_KCP cp))"
    by (simp_all add: z_def versionStatus_def replicaStatus_def Let_def)
qed

text \<open>What the workload cluster and the remediation add.\<close>

lemma surfaced_truth:
  assumes laws: "v1condition_laws L" and z: "tellsTruth E L owned cp p z (Some err) h'" "\<not> kp_deleting p"
      "st_Initialized (kp_Status z) = st_Initialized (kp_Status p)" "st_Ready (kp_Status z) = st_Ready (kp_Status p)"
    and st: "ClusterStatus_of E L g = (Some (Inr s), h')"
    and q: "surfaceRemediation L ms (workloadStatus L s (word_of_nat (length owned)) z) = (q, e)"
  shows "tellsTruth E L owned cp p q e h'"
proof -
  let ?w = "workloadStatus L s (word_of_nat (length owned)) z"
  have same: "st_Replicas (kp_Status q) = st_Replicas (kp_Status ?w)" "st_UpdatedReplicas (kp_Status q) = st_UpdatedReplicas (kp_Status ?w)"
    "st_ReadyReplicas (kp_Status q) = st_ReadyReplicas (kp_Status ?w)" "st_UnavailableReplicas (kp_Status q) = st_UnavailableReplicas (kp_Status ?w)"
    "st_Version (kp_Status q) = st_Version (kp_Status ?w)" "st_Initialized (kp_Status q) = st_Initialized (kp_Status ?w)"
    "st_Ready (kp_Status q) = st_Ready (kp_Status ?w)"
    using q by (auto simp: surfaceRemediation_def split: sum.splits option.splits)
  have w: "st_ReadyReplicas (kp_Status ?w) = cs_ReadyNodes s" "st_UnavailableReplicas (kp_Status ?w) = word_of_nat (length owned) - cs_ReadyNodes s"
    "st_Replicas (kp_Status ?w) = st_Replicas (kp_Status z)" "st_UpdatedReplicas (kp_Status ?w) = st_UpdatedReplicas (kp_Status z)"
    "st_Version (kp_Status ?w) = st_Version (kp_Status z)"
    "st_Initialized (kp_Status ?w) \<longleftrightarrow> st_Initialized (kp_Status z) \<or> cs_HasK3sServingSecret s"
    "st_Ready (kp_Status ?w) \<longleftrightarrow> st_Ready (kp_Status z) \<or> 0 < sint (cs_ReadyNodes s)"
    by (simp_all add: workloadStatus_def Let_def)
  have "workloadSeen E L p q h'"
    using st z(3,4) unfolding workloadSeen_def Let_def same w
    by (auto simp: ClusterStatus_of_def getControlPlaneNodes_def go_runs conj_commute split: sum.splits)
  moreover have "\<exists>d. ps_Replicas (kp_Spec p) = Some d \<and> notResized L d q"
    using z(1,2) surfaceRemediation_status(2)[OF q] workloadStatus_notResized[OF laws] by (auto simp: tellsTruth_def)
  ultimately show ?thesis
    using z(1,2) by (simp add: tellsTruth_def same w statusCounts_def)
qed

lemma reportStatus_truth:
  assumes run: "reportStatus E L cluster owned cp h = (Some (q, e), h')" and laws: "v1condition_laws L" and cp: "cp_Machines cp = owned"
  shows "statusAdvanced (cp_KCP cp) q \<and> tellsTruth E L owned cp (cp_KCP cp) q e h'"
proof -
  let ?n = "word_of_nat (length owned) :: int32" and ?p = "cp_KCP cp"
  note adv = replicaStatus_advanced[OF refl, of cp L ?n, THEN conjunct1]
  obtain d where d: "ps_Replicas (kp_Spec ?p) = Some d"
    using run by (cases "ps_Replicas (kp_Spec ?p)") (auto simp: reportStatus_def bnd_def deref_def panic_def)
  let ?z = "resizedStatus L owned ?n d (versionStatus L (cp_Machines cp) (replicaStatus L cp ?n))"
  have zadv: "statusAdvanced ?p ?z"
    by (rule statusAdvanced_trans[OF statusAdvanced_trans[OF adv statusAdvanced_steps(2)] statusAdvanced_steps(1)])
  have del: "kp_deleting (replicaStatus L cp ?n) = kp_deleting ?p" by (simp add: replicaStatus_def)
  show ?thesis
  proof (cases "kp_deleting ?p")
    case True
    with run d del have "q = replicaStatus L cp ?n" "e = None" by (simp_all add: reportStatus_def bnd_run deref_def ret_def Let_def)
    with adv True show ?thesis by (simp add: tellsTruth_def workloadUnseen_def replicaStatus_def statusCounts_def)
  next
    case False
    note z = resized_truth[OF laws cp False d]
    from run d del False obtain r h1 where g: "GetWorkloadCluster E (cl_Key cluster) h = (Some r, h1)"
      by (auto simp: reportStatus_def bnd_run deref_def ret_def Let_def split: prod.splits option.splits)
    show ?thesis
    proof (cases r)
      case (Inl err)
      with run d del False g have "q = ?z" "e = Some (Wrap ''failed to create remote cluster client'' err)"
        by (simp_all add: reportStatus_def bnd_run deref_def ret_def Let_def)
      with zadv z(1) show ?thesis by simp
    next
      case (Inr w)
      with run d del False g obtain s h2 where s: "ClusterStatus_of E L h1 = (Some s, h2)"
        by (auto simp: reportStatus_def bnd_run deref_def ret_def Let_def split: prod.splits option.splits)
      show ?thesis
      proof (cases s)
        case (Inl err)
        with run d del False g Inr s have "q = ?z" "\<exists>err. e = Some err"
          by (auto simp: reportStatus_def bnd_run deref_def ret_def Let_def)
        with zadv z(1) show ?thesis by auto
      next
        case st: (Inr st)
        with run d del False g Inr s have q: "surfaceRemediation L (cp_Machines cp) (workloadStatus L st ?n ?z) = (q, e)" "h2 = h'"
          by (simp_all add: reportStatus_def bnd_run deref_def ret_def Let_def)
        have "statusAdvanced ?z q"
          using surfaceRemediation_status(1)[OF q(1)] workloadStatus_advanced[of ?n ?z L st] z(1)
          by (auto simp: tellsTruth_def intro: statusAdvanced_trans)
        moreover have "ClusterStatus_of E L h1 = (Some (Inr st), h')" using s st q(2) by simp
        ultimately show ?thesis
          using statusAdvanced_trans[OF zadv] surfaced_truth[OF laws z(1) False z(2,3) _ q(1)] by blast
      qed
    qed
  qed
qed

text \<open>C11 The status is truthful. An update of the status never takes \<open>Initialized\<close> or
  \<open>Ready\<close> back and leaves the specification and the metadata alone. When the machines cannot
  be listed or the control plane cannot be read, only the selector is set and the error returned.
  Otherwise \<open>Replicas\<close> is the number of machines of that very listing that the control plane
  owns, \<open>UpdatedReplicas\<close> the number of those that are up to date, and replicas = ready +
  unavailable (in 32-bit arithmetic), on every path. If the control plane
  is not being deleted, \<open>Version\<close> is the lowest version of these machines, and \<open>Resized\<close> is not
  reported when their number is not the desired one. What is said of the workload cluster is
  what it answered: \<open>ReadyReplicas\<close> is the number of ready control plane nodes it listed,
  \<open>Initialized\<close> becomes true exactly when the serving secret was found and \<open>Ready\<close> exactly when a
  node is ready. When it could not be asked (then the update returns an error), or the control
  plane is being deleted, no node counts as ready and both stay as they were.\<close>

theorem status_truthful:
  assumes "updateStatus E L kcp cluster h = (Some (kcp', e), h')" "v1condition_laws L"
  shows "statusAdvanced kcp kcp' \<and>
    (let p = selectorStatus L cluster kcp; listing = machineListing cluster in
     case e_machines E h listing of
       Inl err \<Rightarrow> kcp' = p \<and> e \<noteq> None
     | Inr ms \<Rightarrow>
         let owned = filter (OwnedMachines L p) ms in
         case fst (NewControlPlane E cluster p owned (h @ [listing])) of
           None \<Rightarrow> False
         | Some (Inl err) \<Rightarrow> kcp' = p \<and> e = Some err
         | Some (Inr cp) \<Rightarrow> tellsTruth E L owned cp kcp kcp' e h')"
proof (cases "e_machines E h (machineListing cluster)")
  case (Inl err)
  with assms(1) show ?thesis
    by (auto simp: updateStatus_def Let_def bnd_run GetMachinesForCluster_run ret_def statusAdvanced_steps)
next
  case (Inr ms)
  let ?p = "selectorStatus L cluster kcp"
  let ?owned = "filter (OwnedMachines L ?p) ms"
  have own: "MFilter [OwnedMachines L ?p] ms = ?owned" by (simp add: MFilter_def)
  obtain r h1 where n: "NewControlPlane E cluster ?p ?owned (h @ [machineListing cluster]) = (r, h1)" by fastforce
  from assms(1) Inr n obtain c where r: "r = Some c"
    by (cases r) (auto simp: updateStatus_def Let_def bnd_run GetMachinesForCluster_run own)
  show ?thesis
  proof (cases c)
    case c: (Inl err)
    with assms(1) Inr n r show ?thesis
      by (auto simp: updateStatus_def Let_def bnd_run GetMachinesForCluster_run own ret_def statusAdvanced_steps)
  next
    case c: (Inr cp)
    with n r have cp: "cp_KCP cp = ?p" "cp_Machines cp = ?owned" by (simp_all add: NewControlPlane_fields)
    from assms(1) Inr n r c have "reportStatus E L cluster ?owned cp h1 = (Some (kcp', e), h')"
      by (simp add: updateStatus_def Let_def bnd_run GetMachinesForCluster_run own)
    from reportStatus_truth[OF this assms(2) cp(2)] statusAdvanced_steps(3)[of kcp L cluster] Inr n r c cp(1) show ?thesis
      by (auto simp: Let_def tellsTruth_selector intro: statusAdvanced_trans)
  qed
qed

lemma GetWorkloadCluster_E0: "\<exists>w h'. GetWorkloadCluster E0 k h = (Some (Inr w), h')"
  by (simp add: GetWorkloadCluster_def getEtcdCAKeyPair_def generateClientCert_def newClientCert_def go_runs E0_answers meta0_def emptyMeta_def Let_def)

lemma ClusterStatus_E0: "\<exists>st h'. ClusterStatus_of E0 L h = (Some (Inr st), h')"
  by (simp add: ClusterStatus_of_def getControlPlaneNodes_def go_runs E0_answers)

lemma NewControlPlane_E0: "\<exists>cp h'. NewControlPlane E0 cluster kcp [] h = (Some (Inr cp), h')"
  by (simp add: NewControlPlane_def go_runs E0_answers)

lemma workloadStatus_fields [simp]:
  "st_Replicas (kp_Status (workloadStatus L s n p)) = st_Replicas (kp_Status p)"
  "kp_Annotations (workloadStatus L s n p) = kp_Annotations p"
  by (simp_all add: workloadStatus_def Let_def)

lemma resizedStatus_annotations [simp]: "kp_Annotations (resizedStatus L ms n d p) = kp_Annotations p"
  by (simp add: resizedStatus_def)

lemma updateStatus_E0:
  "\<exists>kcp' h'. updateStatus E0 L0 kcp0 cluster0 [] = (Some (kcp', None), h') \<and> st_Replicas (kp_Status kcp') = 0"
proof -
  let ?k = "selectorStatus L0 cluster0 kcp0"
  obtain cp h1 where cp: "NewControlPlane E0 cluster0 ?k [] [machineListing cluster0] = (Some (Inr cp), h1)"
    using NewControlPlane_E0 by blast
  obtain w h2 where w: "GetWorkloadCluster E0 (cl_Key cluster0) h1 = (Some (Inr w), h2)"
    using GetWorkloadCluster_E0 by blast
  obtain st h3 where st: "ClusterStatus_of E0 L0 h2 = (Some (Inr st), h3)" using ClusterStatus_E0 by blast
  have d: "ps_Replicas (kp_Spec kcp0) = Some 3" "\<not> kp_deleting kcp0" "mget (kp_Annotations kcp0) a = None" for a
    by (simp_all add: kcp0_def kp_deleting_def deleting_def meta0_def emptyMeta_def kp_Annotations_def)
  have m: "MFilter fs [] = []" for fs by (simp add: MFilter_def)
  show ?thesis
    using NewControlPlane_fields[OF cp]
    by (simp add: updateStatus_def reportStatus_def versionStatus_def GetMachinesForCluster_run E0_answers m bnd_run cp w st d
        Let_def ret_def replicaStatus_def surfaceRemediation_def)
qed

lemma updateStatus_owned:
  "\<exists>kcp' h'. updateStatus E_owned L0 kcp0 cluster0 [] = (Some (kcp', None), h')"
proof -
  let ?k = "selectorStatus L0 cluster0 kcp0"
  have cp: "\<exists>cp h1. NewControlPlane E_owned cluster0 ?k [owned1] h = (Some (Inr cp), h1)" for h
    by (simp add: NewControlPlane_def E_owned_def E0_answers owned1_def machine0_def setMachineMeta_def go_runs)
  have w: "\<exists>w h1. GetWorkloadCluster E_owned k h = (Some (Inr w), h1)" for k h
    by (simp add: GetWorkloadCluster_def getEtcdCAKeyPair_def generateClientCert_def newClientCert_def E_owned_def go_runs E0_answers
        meta0_def emptyMeta_def Let_def)
  have st: "\<exists>st h1. ClusterStatus_of E_owned L0 h = (Some (Inr st), h1)" for h
    by (simp add: ClusterStatus_of_def getControlPlaneNodes_def E_owned_def go_runs E0_answers)
  obtain cp h1 where cp1: "NewControlPlane E_owned cluster0 ?k [owned1] [machineListing cluster0] = (Some (Inr cp), h1)" using cp by blast
  obtain w1 h2 where w1: "GetWorkloadCluster E_owned (cl_Key cluster0) h1 = (Some (Inr w1), h2)" using w by blast
  obtain s1 h3 where s1: "ClusterStatus_of E_owned L0 h2 = (Some (Inr s1), h3)" using st by blast
  have d: "ps_Replicas (kp_Spec kcp0) = Some 3" "\<not> kp_deleting kcp0" "mget (kp_Annotations kcp0) a = None" for a
    by (simp_all add: kcp0_def kp_deleting_def deleting_def meta0_def emptyMeta_def kp_Annotations_def)
  have m: "MFilter [OwnedMachines L0 ?k] [owned1] = [owned1]" "e_machines E_owned h c = Inr [owned1]" for h c
    by (simp_all add: MFilter_def L0_def owned1_def setMachineMeta_def AsOwnerReference_def kcp0_def selectorStatus_def E_owned_def)
  have a: "mget (ma_Annotations owned1) a = None" for a
    by (simp add: owned1_def setMachineMeta_def ma_Annotations_def meta0_def emptyMeta_def)
  show ?thesis
    using NewControlPlane_fields[OF cp1]
    by (simp add: updateStatus_def reportStatus_def versionStatus_def GetMachinesForCluster_run m bnd_run cp1 w1 s1 d a
        Let_def ret_def replicaStatus_def surfaceRemediation_def)
qed

theorem status_truthful_witness:
  "\<exists>kcp' h'. updateStatus E_owned L0 kcp0 cluster0 [] = (Some (kcp', None), h') \<and> st_Replicas (kp_Status kcp') = 1 \<and>
     statusCounts kcp' \<and> \<not> v1IsTrue L0 ResizedCondition (kp_GetConditions kcp')"
proof -
  obtain kcp' h' where run: "updateStatus E_owned L0 kcp0 cluster0 [] = (Some (kcp', None), h')"
    using updateStatus_owned by blast
  have k: "\<not> kp_deleting kcp0" "ps_Replicas (kp_Spec kcp0) = Some 3" "e_machines E_owned h c = Inr [owned1]"
    "filter (OwnedMachines L0 (selectorStatus L0 cluster0 kcp0)) [owned1] = [owned1]" for h c
    by (simp_all add: kcp0_def kp_deleting_def deleting_def meta0_def emptyMeta_def E_owned_def L0_def owned1_def
        setMachineMeta_def AsOwnerReference_def)
  from status_truthful[OF run L0_v1conditions] k obtain cp where "tellsTruth E_owned L0 [owned1] cp kcp0 kcp' None h'"
    by (auto simp: Let_def split: option.splits sum.splits)
  with k run show ?thesis by (auto simp: tellsTruth_def notResized_def)
qed

section \<open>Errors and requeuing\<close>

text \<open>The errors an error is made of, in order.\<close>

fun constituents :: "goerr \<Rightarrow> goerr list" where
  "constituents (Aggregate es) = concat (map constituents es)"
| "constituents e = [e]"

definition errorsOf :: "goerr option \<Rightarrow> goerr list" where
  "errorsOf e = (case e of None \<Rightarrow> [] | Some x \<Rightarrow> constituents x)"

definition unless :: "(goerr \<Rightarrow> bool) \<Rightarrow> goerr option \<Rightarrow> goerr option" where
  "unless ignored e = (case e of None \<Rightarrow> None | Some x \<Rightarrow> if ignored x then None else Some x)"

lemma errorsOf_NewAggregate: "errorsOf (NewAggregate es) = concat (map errorsOf es)"
proof -
  have "concat (map constituents (List.map_filter id es)) = concat (map errorsOf es)"
    by (induction es) (auto simp: List.map_filter_simps errorsOf_def split: option.split)
  moreover have "errorsOf (NewAggregate es) = concat (map constituents (List.map_filter id es))"
    by (auto simp: NewAggregate_def Let_def errorsOf_def)
  ultimately show ?thesis by simp
qed

lemma added_error:
  "(case u of None \<Rightarrow> e | Some x \<Rightarrow> if ignored x then e else NewAggregate [e, Some x]) =
     (if unless ignored u = None then e else NewAggregate [e, unless ignored u])"
  "(case u of None \<Rightarrow> e | Some x \<Rightarrow> if \<not> ignored x then NewAggregate [e, Some x] else e) =
     (if unless ignored u = None then e else NewAggregate [e, unless ignored u])"
  by (auto simp: unless_def split: option.split)

text \<open>C12 What a pass reports, and when it runs again. After its body, a pass updates the
  status, patches the control plane and returns. The error it returns is made of exactly the
  error of the body, the error of the status update unless it says that the workload cluster
  could not be reached, and the error of the patch unless the control plane no longer exists, in
  this order, each of them whole and nothing added; there is none exactly when these three are
  none. The request to be called again is the one of the body, except that a control plane
  without error or request that is not being deleted and is not ready, or reports unhealthy
  components, is queued again after 20 seconds. So a pass that returns neither an error nor a
  request leaves a control plane that is being deleted, or one that is ready and does not report
  unhealthy components.\<close>

theorem not_ready_requeued:
  assumes "finishReconcile E L cluster kcp res err h = (Some (kcp', res', e'), h')"
  shows "(\<exists>k u h1. updateStatus E L kcp cluster h = (Some (k, u), h1) \<and> kcp' = kp_SetSummary L k summaryConditions \<and>
      h' = h1 @ [PatchKCP kcp'] \<and>
      (let reported = [err, unless is_connerr u, unless IsNotFound (e_err E h1 (PatchKCP kcp'))] in
        errorsOf e' = concat (map errorsOf reported) \<and> (e' = None \<longleftrightarrow> (\<forall>x\<in>set reported. x = None)))) \<and>
    (let unfinished = \<not> st_Ready (kp_Status kcp') \<or> v1IsFalse L ControlPlaneComponentsHealthyCondition (kp_GetConditions kcp') in
      (res' = (if e' = None \<and> r_IsZero res \<and> \<not> kp_deleting kcp' \<and> unfinished then RequeueAfter (20 * Second) else res)) \<and>
      (e' = None \<and> r_IsZero res' \<longrightarrow> kp_deleting kcp' \<or> \<not> unfinished))"
proof -
  obtain k u h1 where u: "updateStatus E L kcp cluster h = (Some (k, u), h1)"
    using assms unfolding finishReconcile_def by (auto elim!: bnd_SomeE)
  define p where "p = e_err E h1 (PatchKCP (kp_SetSummary L k summaryConditions))"
  define e1 where "e1 = (if unless is_connerr u = None then err else NewAggregate [err, unless is_connerr u])"
  have "kp_SetSummary L k summaryConditions = kcp' \<and>
      finalRequeue L (kp_SetSummary L k summaryConditions) res (if unless IsNotFound p = None then e1 else NewAggregate [e1, unless IsNotFound p]) = res' \<and>
      (if unless IsNotFound p = None then e1 else NewAggregate [e1, unless IsNotFound p]) = e' \<and>
      h1 @ [PatchKCP (kp_SetSummary L k summaryConditions)] = h'"
    using assms u
    by (auto simp: finishReconcile_def patchKThreesControlPlane_def Let_def bnd_run client_run ret_def added_error p_def e1_def
        split del: if_split cong: if_cong)
  note run = this
  have k: "kp_SetSummary L k summaryConditions = kcp'" by (rule conjunct1[OF run])
  note run = conjunct2[OF run, unfolded k]
  have e': "e' = (if unless IsNotFound p = None then e1 else NewAggregate [e1, unless IsNotFound p])"
    by (rule sym[OF conjunct1[OF conjunct2[OF run]]])
  note run = run[folded e']
  have out: "kcp' = kp_SetSummary L k summaryConditions" "h' = h1 @ [PatchKCP kcp']" "res' = finalRequeue L kcp' res e'"
    using run k by auto
  have e1: "errorsOf e1 = errorsOf err @ errorsOf (unless is_connerr u)" "e1 = None \<longleftrightarrow> err = None \<and> unless is_connerr u = None"
    by (auto simp: e1_def errorsOf_NewAggregate) (simp_all add: errorsOf_def)
  have e: "errorsOf e' = errorsOf err @ errorsOf (unless is_connerr u) @ errorsOf (unless IsNotFound p)"
    "e' = None \<longleftrightarrow> err = None \<and> unless is_connerr u = None \<and> unless IsNotFound p = None"
    unfolding e' using e1 by (auto simp: errorsOf_NewAggregate) (simp_all add: errorsOf_def)
  have "\<not> r_IsZero (RequeueAfter (20 * Second))" by (simp add: Second_def)
  then show ?thesis
    using u out(1,2) e p_def unfolding out(3) finalRequeue_def by (auto simp: Let_def)
qed

theorem not_ready_requeued_witness:
  "\<exists>kcp' res h'. finishReconcile E0 L0 cluster0 kcp0 NoResult (Some (Msg ''e'')) [] = (Some (kcp', res, Some (Msg ''e'')), h') \<and>
     errorsOf (Some (Msg ''e'')) = [Msg ''e''] \<and> res = NoResult"
proof -
  have w: "e_err E0 h c = None" for h c by (simp add: E0_def)
  obtain k h1 where u: "updateStatus E0 L0 kcp0 cluster0 [] = (Some (k, None), h1)"
    using updateStatus_E0 by blast
  obtain k2 r2 e2 h2 where run: "finishReconcile E0 L0 cluster0 kcp0 NoResult (Some (Msg ''e'')) [] = (Some (k2, r2, e2), h2)"
    and e2: "e2 = Some (Msg ''e'')"
    by (simp add: finishReconcile_def patchKThreesControlPlane_def go_runs u w Let_def)
  from not_ready_requeued[OF run] run e2 show ?thesis by (auto simp: Let_def errorsOf_def)
qed

section \<open>The machine controller\<close>

text \<open>C7 The pre-terminate hook of a machine is released only when its etcd member is
  settled, by a pass that looked. When a pass of the machine controller patches a machine, the
  patch is its last request and takes the hook off the machine the pass read in its first
  request, which is deleted, carries the k3s hook and has its turn; and in the cluster the pass
  read in its second request (not in just any cluster) the member of this machine is settled: the
  cluster is being deleted, the machine has no node, or an answer the pass got to a later request
  of its own says that the control plane is being deleted, that no control plane machine is
  active, or, with at least two control plane nodes left, that the node is gone or marked as
  removed from etcd.\<close>

theorem hook_released_after_member:
  assumes "machine_Reconcile E L M key h = (r, h1 @ PatchMachine x # h2)" "length h \<le> length h1"
  shows "h2 = [] \<and> (\<exists>m cluster t. e_machine E h (GetMachine key) = Inr m \<and>
    e_cluster E (h @ [GetMachine key]) (GetCluster (om_Namespace (ma_Meta m)) (clusterLabel m)) = Inr (Some cluster) \<and>
    h1 = h @ GetMachine key # GetCluster (om_Namespace (ma_Meta m)) (clusterLabel m) # t \<and> x = withoutHook m \<and>
    ma_deleting m \<and> hasK3sHook M m \<and> machineIsFalse M m PreTerminateDeleteHookSucceededV1Beta1Condition \<and>
    memberSettled E L cluster m (length h + 2) h1)"
  using machine_Reconcile_released[OF assms] by (auto simp: releaseJustified_def Let_def)

definition hooked :: Machine where
  "hooked = setMachineMeta (machine0 ''m1'' (Some ''n9'') [])
     ((meta0 ''m1'' ''m1'')\<lparr>om_Annotations := Some [PreTerminateDeleteHookAnnotationPrefix \<mapsto> k3sHookName],
        om_DeletionTimestamp := Some 1\<rparr>)"

definition M0 :: machineLib where
  "M0 = \<lparr>HasWithPrefix = (\<lambda>p a. mget a p \<noteq> None), machineIsFalse = (\<lambda>_ _. True)\<rparr>"

definition E_hooked :: env where
  "E_hooked = E0\<lparr>e_machine := (\<lambda>_ _. Inr hooked), e_machines := (\<lambda>_ _. Inr [machine0 ''m2'' None []])\<rparr>"

lemma release_run:
  "\<exists>r h1. machine_Reconcile E_hooked L0 M0 (''ns'', ''m1'') [] = (r, h1 @ [PatchMachine (withoutHook hooked)]) \<and>
     (\<forall>c\<in>set h1. \<not> is_patch_machine c \<and> \<not> is_delete_machine c)"
  by (simp add: machine_Reconcile_def settleEtcdMember_def isRemoveEtcdMemberNeeded_def removeHook_def E_hooked_def E0_answers
      M0_def hasK3sHook_def hooked_def machine0_def meta0_def emptyMeta_def ma_deleting_def deleting_def ma_Annotations_def
      setMachineMeta_def cluster0_def L0_def MFilter_def GetWorkloadCluster_def getEtcdCAKeyPair_def generateClientCert_def newClientCert_def
      RemoveEtcdMemberForMachine_def removeMemberForNode_def getControlPlaneNodes_def node0_def emptyNode_def
      hasControlPlaneRoleLabel_def clusterLabel_def n_Name_def go_runs Let_def)

lemma hooked_answers [simp]:
  "e_machine E_hooked h c = Inr hooked" "e_cluster E_hooked h c = Inr (Some cluster0)"
  by (simp_all add: E_hooked_def E0_answers)

theorem hook_released_after_member_witness:
  "\<exists>r h1. machine_Reconcile E_hooked L0 M0 (''ns'', ''m1'') [] = (r, h1 @ [PatchMachine (withoutHook hooked)]) \<and>
     memberSettled E_hooked L0 cluster0 hooked 2 h1 \<and> \<not> deleting (cl_Meta cluster0) \<and> ma_NodeRef hooked = Some ''n9''"
proof -
  obtain r h1 where run: "machine_Reconcile E_hooked L0 M0 (''ns'', ''m1'') [] = (r, h1 @ [PatchMachine (withoutHook hooked)])"
    using release_run by blast
  have "memberSettled E_hooked L0 cluster0 hooked 2 h1"
    using hook_released_after_member[OF run] by (auto simp: numeral_2_eq_2)
  with run show ?thesis
    by (auto simp: cluster0_def meta0_def emptyMeta_def deleting_def hooked_def setMachineMeta_def machine0_def)
qed

end
