(* ===== verification/HookedDeletion.thy ===== *)
theory HookedDeletion
  imports KcpResults
begin

text \<open>
  How a machine of a running control plane is deleted: by scaling down, by a rollout or by
  remediation, and with managed etcd always right after its pre-terminate hook was patched onto
  it without an error. The lemmas follow the hook from the two places that delete
  (\<^verbatim>\<open>scale.go\<close>, \<^verbatim>\<open>remediation.go\<close>) up to the whole reconciliation.
\<close>

definition hasHook :: "Machine \<Rightarrow> bool" where
  "hasHook m \<longleftrightarrow> mget (ma_Annotations m) PreTerminateDeleteHookAnnotationPrefix = Some k3sHookName"

definition hookPatched :: "env \<Rightarrow> Machine \<Rightarrow> call list \<Rightarrow> bool" where
  "hookPatched E x h \<longleftrightarrow>
     (\<exists>g. h = g @ [PatchMachine x] \<and> e_err E g (PatchMachine x) = None \<and> hasHook x)"

text \<open>The pass was told that the cluster has no etcd CA, hence no managed etcd.\<close>

definition toldNoEtcdCA :: "env \<Rightarrow> call list \<Rightarrow> bool" where
  "toldNoEtcdCA E h \<longleftrightarrow>
     (\<exists>g t ns n err. h = g @ GetSecret (ns, n @ ''-etcd'') # t \<and>
        e_secret E g (GetSecret (ns, n @ ''-etcd'')) = Inl err \<and> IsNotFound err)"

lemma toldNoEtcdCA_append: "toldNoEtcdCA E h \<Longrightarrow> toldNoEtcdCA E (h @ t)"
  unfolding toldNoEtcdCA_def by (elim exE conjE) (force intro: exI)

abbreviation hookedDeletions :: "nat \<Rightarrow> env \<Rightarrow> call list \<Rightarrow> bool" where
  "hookedDeletions n E \<equiv> justified n is_delete_machine (\<lambda>h c. \<forall>x. c = DeleteMachine x \<longrightarrow> hookPatched E x h)"

abbreviation protectedDeletions :: "nat \<Rightarrow> env \<Rightarrow> call list \<Rightarrow> bool" where
  "protectedDeletions n E \<equiv>
     justified n is_delete_machine (\<lambda>h c. \<forall>x. c = DeleteMachine x \<longrightarrow> hookPatched E x h \<or> toldNoEtcdCA E h)"

lemma hookedDeletions_nonmachine: "emits nonmachine m \<Longrightarrow> keeps (hookedDeletions n E) m"
  by (rule justified_emits[of nonmachine]) simp_all

lemma protectedDeletions_nodelete: "emits {c. \<not> is_delete_machine c} m \<Longrightarrow> keeps (protectedDeletions n E) m"
  by (rule justified_emits[of "{c. \<not> is_delete_machine c}"]) simp_all

lemma bounded_ext: "bounded p n m \<Longrightarrow> emits UNIV m"
  unfolding bounded_def emits_def by blast

lemma hooked_protected:
  assumes "emits UNIV m" "\<And>k. keeps (hookedDeletions k E) m"
  shows "keeps (protectedDeletions n E) m"
  by (rule justified_weaken[OF assms]) blast

lemma told_protected:
  assumes "emits UNIV m" "protectedDeletions n E h" "toldNoEtcdCA E h" "m h = (r, h')"
  shows "protectedDeletions n E h'"
proof -
  have "keeps (\<lambda>h. protectedDeletions n E h \<and> toldNoEtcdCA E h) m"
    using assms(1) by (rule keeps_emits) (auto simp: justified_snoc toldNoEtcdCA_append)
  from keepsD[OF this _ assms(4)] assms(2,3) show ?thesis by blast
qed

section \<open>The hook\<close>

lemma addPreTerminateHook_patched:
  assumes "addPreTerminateHook E s h = (Some (s', None), h')"
  shows "hookPatched E (snd s') h'"
  using assms
  by (auto simp: hookPatched_def hasHook_def addPreTerminateHook_def Let_def go_runs deref_def ma_setAnnotations_def
      ma_Annotations_def mget_mput split: option.splits)

lemma hooked_delete:
  assumes "hookedDeletions n E h" "hookPatched E x h"
  shows "hookedDeletions n E (h @ [DeleteMachine x])"
  using assms by (simp add: justified_snoc)

section \<open>Scaling down\<close>

lemma deleteForScaleDown_hooked:
  assumes "hookedDeletions n E h" "hookPatched E (snd s) h" "deleteForScaleDown E s h = (r, h')"
  shows "hookedDeletions n E h'"
proof -
  have "h' = h @ [DeleteMachine (snd s)] \<or> h' = (h @ [DeleteMachine (snd s)]) @ [Event ''FailedScaleDown'']"
    using assms(3) by (auto simp: deleteForScaleDown_def go_runs split: option.splits if_splits)
  then show ?thesis
    using hooked_delete[OF assms(1,2)] by (auto simp only: justified_snoc)
qed

lemma prepareAndDelete_hooked:
  assumes "IsEtcdManaged (fst s)"
  shows "keeps (hookedDeletions n E) (prepareAndDelete E L s)"
  unfolding prepareAndDelete_def
proof (rule keeps_bnd_run[OF hookedDeletions_nonmachine[OF prepareDeletion_nonmachine]])
  fix x g g1 r g2
  assume J: "hookedDeletions n E g" and p: "prepareDeletion E L s g = (Some x, g1)"
    and d: "(case x of (s, e) \<Rightarrow> case e of Some err \<Rightarrow> ret (fst s, NoResult, Some err) | None \<Rightarrow> deleteForScaleDown E s) g1 = (r, g2)"
  have J1: "hookedDeletions n E g1" using keepsD[OF hookedDeletions_nonmachine[OF prepareDeletion_nonmachine] J p] .
  obtain s' e where x: "x = (s', e)" by fastforce
  show "hookedDeletions n E g2"
  proof (cases e)
    case (Some err)
    with d x J1 show ?thesis by (simp add: ret_def)
  next
    case None
    with prepareDeletion_hook[of E L s g s' g1] p x assms have "hookPatched E (snd s') g1"
      by (auto dest: addPreTerminateHook_patched)
    from deleteForScaleDown_hooked[OF J1 this] d x None show ?thesis by simp
  qed
qed

lemma scaleDownControlPlane_hooked:
  assumes "IsEtcdManaged cp"
  shows "keeps (hookedDeletions n E) (scaleDownControlPlane E L cp outdated)"
  unfolding scaleDownControlPlane_def
  using assms
  by (intro keeps_bnd keeps_deref keeps_cases keeps_intros prepareAndDelete_hooked hookedDeletions_nonmachine[OF preflightChecks_emits])
    simp_all

section \<open>Remediation\<close>

lemma deleteUnhealthyMachine_hooked:
  assumes "hookedDeletions n E h" "hookPatched E (snd s) h" "deleteUnhealthyMachine E L d s h = (r, h')"
  shows "hookedDeletions n E h'"
proof -
  have "h' = h @ [DeleteMachine (snd s)]"
    using assms(3) by (auto simp: deleteUnhealthyMachine_def fail_def Let_def go_runs split: option.splits sum.splits)
  with hooked_delete[OF assms(1,2)] show ?thesis by simp
qed

lemma forwardLeadership_hooked:
  assumes w: "good_gen w" and etcd: "IsEtcdManaged (fst s)"
  shows "keeps (hookedDeletions n E) (forwardLeadership E L w s (deleteUnhealthyMachine E L d))"
proof -
  let ?J = "hookedDeletions n E"
  have hook: "keeps ?J (addPreTerminateHook E s)"
    using addPreTerminateHook_nonmachine by (rule hookedDeletions_nonmachine)
  have last: "keeps ?J (bnd (addPreTerminateHook E s) (\<lambda>(s, e). case e of
                Some err \<Rightarrow> fail s err | None \<Rightarrow> deleteUnhealthyMachine E L d s))"
  proof (rule keeps_bnd_run[OF hook])
    fix x h h1 r h2
    assume J: "?J h" and a: "addPreTerminateHook E s h = (Some x, h1)"
      and run: "(case x of (s, e) \<Rightarrow> case e of Some err \<Rightarrow> fail s err | None \<Rightarrow> deleteUnhealthyMachine E L d s) h1 = (r, h2)"
    have J1: "?J h1" using keepsD[OF hook J a] .
    obtain s' e where x: "x = (s', e)" by fastforce
    show "?J h2"
    proof (cases e)
      case None
      with a x have "hookPatched E (snd s') h1" by (simp add: addPreTerminateHook_patched)
      from deleteUnhealthyMachine_hooked[OF J1 this] run x None show ?thesis by simp
    next
      case (Some err)
      with run x J1 show ?thesis by (simp add: fail_def ret_def)
    qed
  qed
  have fwd: "keeps ?J (ForwardEtcdLeadership E w a b)" for a b
    by (rule hookedDeletions_nonmachine) (auto intro!: go_intros w)
  show ?thesis
    unfolding forwardLeadership_def using etcd
    by (auto simp: stop_def fail_def[of "setBoth _ _ _"] intro!: keeps_cases keeps_intros keeps_bnd[OF fwd] last)
qed

lemma remediateInitialized_hooked:
  assumes etcd: "IsEtcdManaged (fst s)"
  shows "keeps (hookedDeletions n E) (remediateInitialized E L s (deleteUnhealthyMachine E L d))"
proof -
  let ?J = "hookedDeletions n E"
  have get: "keeps ?J (GetWorkloadCluster E k)" for k
    by (rule hookedDeletions_nonmachine) (auto intro!: go_intros)
  have safe: "keeps ?J (canSafelyRemoveEtcdMember E L a b)" for a b
    by (rule hookedDeletions_nonmachine) (auto intro!: go_intros)
  have conn: "keeps ?J (connectAndForward E L s (deleteUnhealthyMachine E L d))"
    unfolding connectAndForward_def fail_def
    by (rule keeps_bnd_ret[OF get GetWorkloadCluster_good])
      (auto intro!: keeps_cases keeps_intros forwardLeadership_hooked etcd)
  show ?thesis
    unfolding remediateInitialized_def quorumCheck_def Let_def
    by (auto simp: stop_def fail_def intro!: keeps_cases keeps_intros keeps_bnd[OF safe] conn)
qed

lemma remediateMachine_hooked:
  assumes "IsEtcdManaged cp" "st_Initialized (kp_Status (cp_KCP cp))"
  shows "keeps (hookedDeletions n E) (remediateMachine E L t (cp, m))"
proof (cases "checkRetryLimits L (cp, m) t")
  case (Pair s r)
  have same: "s = (cp, m)" if "r = Inr (d, True)" for d
    using Pair that by (auto simp: checkRetryLimits_def Let_def split: option.splits sum.splits if_splits)
  then show ?thesis
    unfolding remediateMachine_def Pair using assms
    by (auto simp: fail_def stop_def intro!: remediateInitialized_hooked keeps_cases keeps_intros split: sum.split)
qed

lemma same_but_conditions_managed:
  "same_but_conditions cp cp1 \<Longrightarrow> IsEtcdManaged cp1 = IsEtcdManaged cp \<and> cp_KCP cp1 = cp_KCP cp"
  by (auto simp: same_but_conditions_def IsEtcdManaged_def)

lemma reconcileUnhealthyMachines_hooked:
  assumes "IsEtcdManaged cp" "st_Initialized (kp_Status (cp_KCP cp))"
  shows "keeps (hookedDeletions n E) (reconcileUnhealthyMachines E L cp)"
proof -
  let ?J = "hookedDeletions n E"
  have nm: "keeps ?J m" if "emits nonmachine m" for m :: "(call, 'z) go"
    using that by (rule hookedDeletions_nonmachine)
  have loop: "keeps ?J (foldG (cleanupRemediated E L) ms s)" for ms s
    by (rule nm) (auto intro!: emits_foldG cleanup_nonmachine)
  have h: "keeps ?J (new_helper E k)" "keeps ?J (now E)" "keeps ?J (do_write E (PatchMachine x))" for k x
    by (rule nm, auto intro!: go_intros)+
  have rem: "keeps ?J (outcome (remediateMachine E L t (cp1, m)))" if "same_but_conditions cp cp1" for t cp1 m
    using same_but_conditions_managed[OF that] assms by (intro keeps_outcome remediateMachine_hooked) auto
  show ?thesis
    unfolding reconcileUnhealthyMachines_def remediateSelected_def Let_def
    by (intro keeps_bnd[OF h(2)] keeps_bnd_ret[OF loop cleanup_loop_same])
      (auto intro!: keeps_cases keeps_intros keeps_deref keeps_bnd[OF keeps_deref] keeps_bnd[OF h(1)] keeps_bnd[OF h(3)] keeps_bnd[OF rem])
qed

section \<open>The whole pass\<close>

text \<open>What the protection rests on does not change during a pass.\<close>

abbreviation etcdProtected :: "ControlPlane \<Rightarrow> bool" where
  "etcdProtected cp \<equiv> IsEtcdManaged cp \<and> st_Initialized (kp_Status (cp_KCP cp))"

lemma bare_protected:
  assumes "bare cp1 = bare cp"
  shows "etcdProtected cp1 = etcdProtected cp"
proof -
  have "cp_hasEtcdCA (bare cp1) = cp_hasEtcdCA (bare cp)" "st_Initialized (kp_Status (cp_KCP (bare cp1))) = st_Initialized (kp_Status (cp_KCP (bare cp)))"
    using assms by simp_all
  then show ?thesis by (simp add: bare_def IsEtcdManaged_def IsEtcdEmbedded_def)
qed

lemma updKCP_managed [simp]: "IsEtcdManaged (updKCP f cp) = IsEtcdManaged cp"
  by (simp add: updKCP_def IsEtcdManaged_def IsEtcdEmbedded_def)

lemma syncMachine_managed:
  "returns (syncMachine E C m cp cache) (\<lambda>(cp1, r). IsEtcdManaged cp1 = IsEtcdManaged cp \<and> cp_KCP cp1 = cp_KCP cp)"
  unfolding syncMachine_def Let_def by (auto intro!: go_intros)

lemma syncLoop_managed:
  "returns (syncLoop E C ms hs cp cache) (\<lambda>(cp1, r). IsEtcdManaged cp1 = IsEtcdManaged cp \<and> cp_KCP cp1 = cp_KCP cp)"
proof (induction ms arbitrary: hs cp cache)
  case (Cons m ms)
  then show ?case
    by (auto intro!: returns_bnd[OF syncMachine_managed] returns_cases returns_intros intro: returns_mono[OF Cons])
qed (auto intro!: go_intros)

lemma syncMachines_managed:
  "returns (syncMachines E C cp cache) (\<lambda>(cp1, r). etcdProtected cp1 = etcdProtected cp)"
  unfolding syncMachines_def
  by (intro returns_bnd[OF syncLoop_managed])
    (auto simp: SetPatchHelpers_def IsEtcdManaged_def intro!: returns_cases returns_intros)

lemma rolloutOrScale_hooked:
  assumes "IsEtcdManaged cp"
  shows "keeps (hookedDeletions n E) (rolloutOrScale E C cp)"
proof -
  have up: "keeps (hookedDeletions n E) (scaleUpControlPlane E L X cp1)"
    "keeps (hookedDeletions n E) (initializeControlPlane E L X cp1)" for L X cp1
    by (rule justified_emits[OF scaleUp_no_delete], simp, rule justified_emits[OF initialize_no_delete], simp)
  have m: "IsEtcdManaged (markRollout L cp ms)" "IsEtcdManaged (markUpToDate L cp)" "IsEtcdManaged (markWaitingForServer L cp)" for L ms
    using assms by (simp_all add: markRollout_def markUpToDate_def markWaitingForServer_def)
  show ?thesis
    unfolding rolloutOrScale_def upgradeControlPlane_def scaleControlPlane_def Let_def
    by (intro keeps_cases keeps_bnd keeps_deref keeps_intros scaleDownControlPlane_hooked up m)
qed

lemma setBoth_managed [simp]: "IsEtcdManaged (fst (setBoth L s c)) = IsEtcdManaged (fst s)"
  by (simp add: setBoth_def setCond_def)

text \<open>Every way out of a remediation keeps the etcd CA of the control plane.\<close>

abbreviation managedAs :: "ControlPlane \<Rightarrow> (call, remOut) go \<Rightarrow> bool" where
  "managedAs cp m \<equiv> returns m (\<lambda>r. IsEtcdManaged (fst (fst r)) = IsEtcdManaged cp)"

lemma exits_managed:
  "IsEtcdManaged (fst s) = IsEtcdManaged cp \<Longrightarrow> managedAs cp (stop s)"
  "IsEtcdManaged (fst s) = IsEtcdManaged cp \<Longrightarrow> managedAs cp (fail s err)"
  "IsEtcdManaged (fst s) = IsEtcdManaged cp \<Longrightarrow> managedAs cp (deleteUnhealthyMachine E L d s)"
  unfolding stop_def fail_def deleteUnhealthyMachine_def Let_def
  by (intro returns_intros returns_bnd_any returns_cases; simp)+

lemma addPreTerminateHook_managed:
  "returns (addPreTerminateHook E s) (\<lambda>r. IsEtcdManaged (fst (fst r)) = IsEtcdManaged (fst s))"
  unfolding addPreTerminateHook_def Let_def by (intro go_intros) simp_all

lemma remediateMachine_managed: "managedAs (fst s) (remediateMachine E L rt s)"
proof -
  have fwd: "managedAs cp (forwardLeadership E L w s (deleteUnhealthyMachine E L d))"
    if "IsEtcdManaged (fst s) = IsEtcdManaged cp" for cp w d s
    unfolding forwardLeadership_def
    by (intro returns_cases exits_managed returns_bnd_any[where m = "ForwardEtcdLeadership E a b c" for a b c]
        returns_bnd[OF addPreTerminateHook_managed]) (simp_all add: that)
  have init: "managedAs cp (remediateInitialized E L s (deleteUnhealthyMachine E L d))"
    if "IsEtcdManaged (fst s) = IsEtcdManaged cp" for cp d s
    unfolding remediateInitialized_def quorumCheck_def connectAndForward_def Let_def
    by (intro returns_cases exits_managed fwd returns_bnd_any[where m = "GetWorkloadCluster E k" for k]
        returns_bnd_any[where m = "canSafelyRemoveEtcdMember E L a b" for a b]) (simp_all add: that)
  have "IsEtcdManaged (fst (fst (checkRetryLimits L s rt))) = IsEtcdManaged (fst s)"
    by (auto simp: checkRetryLimits_def Let_def split: option.splits sum.splits)
  then show ?thesis
    unfolding remediateMachine_def
    by (cases "checkRetryLimits L s rt") (auto simp del: iff_conv_conj_imp intro!: returns_cases exits_managed init split: sum.split)
qed

lemma reconcileUnhealthyMachines_managed:
  "returns (reconcileUnhealthyMachines E L cp) (\<lambda>(cp1, r). IsEtcdManaged cp1 = IsEtcdManaged cp)"
proof -
  have out: "returns (outcome (remediateMachine E L t (cp1, m)))
      (\<lambda>out. \<forall>r. out = Some r \<longrightarrow> IsEtcdManaged (fst (fst r)) = IsEtcdManaged cp1)" for t cp1 m
    by (intro returnsI allI impI returnsD[OF remediateMachine_managed[where s = "(cp1, m)", unfolded fst_conv]])
      (simp add: outcome_def split: prod.splits)
  show ?thesis
    unfolding reconcileUnhealthyMachines_def remediateSelected_def Let_def
    by (intro returns_bnd_any[where m = "now E"] returns_bnd[OF cleanup_loop_same])
      (intro returns_cases returns_intros returns_bnd_any[where m = "deref x" for x]
        returns_bnd_any[where m = "new_helper E k" for k] returns_bnd[OF out] returns_bnd_any[where m = "do_write E c" for c];
       simp add: same_but_conditions_managed)
qed

lemma operate_hooked:
  assumes "etcdProtected cp"
  shows "keeps (hookedDeletions n E) (operate E C cp)"
proof -
  let ?J = "hookedDeletions n E" and ?S = "{c. \<not> is_delete_machine c}"
  have conds: "keeps ?J (reconcileControlPlaneConditions E L cp1)" for L cp1
    by (rule justified_emits[OF reconcileControlPlaneConditions_emits[of ?S]]) auto
  have etcd: "keeps ?J (kcp_reconcileEtcdMembers E L cp1)" for L cp1
    by (rule justified_emits[OF kcp_reconcileEtcdMembers_emits[of ?S]]) auto
  have agg: "etcdProtected (updKCP (\<lambda>p. kp_SetAggregate L p t gs) cp)" for L t gs
    using assms by (simp add: updKCP_def kp_SetAggregate_def IsEtcdManaged_def IsEtcdEmbedded_def kp_SetConditions_def)
  have tail: "keeps ?J (bnd (reconcileUnhealthyMachines E L cp1) (\<lambda>(cp, result, e).
      if e \<noteq> None \<or> \<not> r_IsZero result then ret (cp, result, e) else rolloutOrScale E C cp))"
    if "etcdProtected cp1" for L cp1
    using that by (intro keeps_bnd_ret[OF reconcileUnhealthyMachines_hooked reconcileUnhealthyMachines_managed])
      (auto intro!: keeps_cases keeps_intros rolloutOrScale_hooked)
  have body: "keeps ?J (bnd (reconcileControlPlaneConditions E (k_lib C) cp1) (\<lambda>(cp, e). case e of
           Some err \<Rightarrow> ret (cp, NoResult, Some err)
         | None \<Rightarrow>
             bnd (kcp_reconcileEtcdMembers E (k_lib C) cp) (\<lambda>e. case e of
               Some err \<Rightarrow> ret (cp, NoResult, Some err)
             | None \<Rightarrow>
                 bnd (reconcileUnhealthyMachines E (k_lib C) cp) (\<lambda>(cp, result, e).
                   if e \<noteq> None \<or> \<not> r_IsZero result then ret (cp, result, e)
                   else rolloutOrScale E C cp))))" if p: "etcdProtected cp1" for cp1
  proof (rule keeps_bnd_ret[OF conds reconcileControlPlaneConditions_bare], goal_cases)
    case (1 x)
    then show ?case
      using bare_protected[of "fst x" cp1] p
      by (cases x) (simp only: prod.case, intro keeps_cases keeps_intros keeps_bnd[OF etcd] tail, simp)
  qed
  show ?thesis
    unfolding operate_def Let_def by (rule body) (use assms agg in \<open>simp split: if_split\<close>)
qed

text \<open>From the list of machines on: without managed etcd the pass was told so.\<close>

lemma NewControlPlane_told:
  assumes "NewControlPlane E cluster kcp ms h = (Some (Inr cp), h')"
  shows "cp_hasEtcdCA cp \<or> toldNoEtcdCA E h'"
proof -
  let ?c = "GetSecret (om_Namespace (cl_Meta cluster), cl_Name cluster @ ''-etcd'')"
  have "cp_hasEtcdCA cp \<or> (\<exists>g err. h' = g @ [?c] \<and> e_secret E g ?c = Inl err \<and> IsNotFound err)"
    using assms by (auto simp: NewControlPlane_def go_runs split: prod.splits option.splits sum.splits if_splits)
  then show ?thesis unfolding toldNoEtcdCA_def by blast
qed

lemma withEtcdCA_hooked:
  assumes "cp_hasEtcdCA cp" "st_Initialized (kp_Status (cp_KCP cp))"
  shows "keeps (hookedDeletions n E) (bnd (syncMachines E C cp cache) (\<lambda>(cp, cache, e). case e of
       Some err \<Rightarrow> ret (cache, cp_KCP cp, NoResult, Some (Wrap ''failed to sync Machines'' err))
     | None \<Rightarrow> bnd (operate E C cp) (\<lambda>(cp, result, e). ret (cache, cp_KCP cp, result, e))))"
proof (rule keeps_bnd_ret[OF justified_emits[OF sync_emits[of "{c. \<not> is_delete_machine c}"]] syncMachines_managed], goal_cases)
  case (6 x)
  then have "etcdProtected (fst x)" using assms by (cases x) (simp add: IsEtcdManaged_def IsEtcdEmbedded_def)
  then show ?case by (cases x) (simp only: prod.case, intro keeps_cases keeps_intros keeps_bnd[OF operate_hooked], simp)
qed auto

lemma reconcileMachines_protected:
  assumes "st_Initialized (kp_Status kcp)"
  shows "keeps (protectedDeletions n E) (reconcileMachines E C cache cluster kcp)"
proof -
  let ?J = "protectedDeletions n E"
  have rd: "keeps ?J m" if "emits reads m" for m :: "(call, 'z) go"
    by (rule protectedDeletions_nodelete, rule emits_mono[OF that]) auto
  let ?rest = "\<lambda>cp. bnd (syncMachines E C cp cache) (\<lambda>(cp, cache, e). case e of
       Some err \<Rightarrow> ret (cache, cp_KCP cp, NoResult, Some (Wrap ''failed to sync Machines'' err))
     | None \<Rightarrow> bnd (operate E C cp) (\<lambda>(cp, result, e). ret (cache, cp_KCP cp, result, e)))"
  have ext: "emits UNIV (?rest cp)" for cp
    by (intro emits_bnd emits_prod emits_option emits_ret sync_emits bounded_ext[OF operate_one]) auto
  have built: "keeps ?J (bnd (NewControlPlane E cluster kcp ms) (\<lambda>r. case r of
       Inl err \<Rightarrow> ret (cache, kcp, NoResult, Some err) | Inr cp \<Rightarrow> ?rest cp))" for ms
  proof (rule keeps_bnd_run[OF rd[OF NewControlPlane_emits[OF subset_refl]]], goal_cases)
    case (1 x h h1 r h2)
    have J1: "?J h1" using keepsD[OF rd[OF NewControlPlane_emits[OF subset_refl]] 1(1,2)] .
    show ?case
    proof (cases x)
      case (Inl err)
      with 1(3) J1 show ?thesis by (simp add: ret_def)
    next
      case (Inr cp)
      with 1 have new: "NewControlPlane E cluster kcp ms h = (Some (Inr cp), h1)" and run: "?rest cp h1 = (r, h2)" by simp_all
      show ?thesis
      proof (cases "cp_hasEtcdCA cp")
        case True
        have "keeps ?J (?rest cp)"
          using ext by (rule hooked_protected) (use True assms NewControlPlane_fields(1)[OF new] in \<open>auto intro: withEtcdCA_hooked\<close>)
        from keepsD[OF this J1 run] show ?thesis .
      next
        case False
        with NewControlPlane_told[OF new] told_protected[OF ext J1 _ run] show ?thesis by blast
      qed
    qed
  qed
  have get: "keeps ?J (GetMachinesForCluster E k fs)" for k fs
    by (rule rd) (intro go_intros subset_refl)
  show ?thesis
    unfolding reconcileMachines_def Let_def
    by (intro keeps_bnd[OF get] keeps_cases keeps_intros built)
qed

lemma reconcile_protected:
  assumes "st_Initialized (kp_Status kcp)"
  shows "keeps (protectedDeletions n E) (reconcile E C cache cluster kcp)"
proof -
  let ?J = "protectedDeletions n E" and ?S = "{c. \<not> is_delete_machine c}"
  have ext: "keeps ?J (reconcileExternalReference E L cluster ref)" for L ref
    by (rule protectedDeletions_nodelete, rule reconcileExternalReference_emits) auto
  have sec: "keeps ?J (reconcileSecrets E C cluster kcp)"
    by (rule protectedDeletions_nodelete, rule reconcileSecrets_emits) auto
  have init: "returns (reconcileSecrets E C cluster kcp) (\<lambda>(p, e). st_Initialized (kp_Status p))"
    using assms unfolding reconcileSecrets_def Let_def
    by (intro returns_bnd_any returns_cases returns_intros) (auto simp: returns_def go_runs)
  have kube: "keeps ?J (reconcileKubeconfig E C k ep p)" for k ep p
    by (rule protectedDeletions_nodelete, rule reconcileKubeconfig_emits) auto
  show ?thesis
    unfolding reconcile_def
    by (intro keeps_bnd[OF ext] keeps_bnd_ret[OF sec init] keeps_bnd[OF kube] keeps_cases keeps_intros reconcileMachines_protected) auto
qed

text \<open>The whole pass over a control plane that is initialized and not being deleted.\<close>

lemma kcp_Reconcile_protected:
  assumes "e_kcp E h (GetKCP key) = Inr kcp" "\<not> kp_deleting kcp" "st_Initialized (kp_Status kcp)"
    and run: "kcp_Reconcile E C cache key h = (r, h')"
  shows "protectedDeletions (length h) E h'"
proof -
  let ?J = "protectedDeletions (length h) E"
  have nd: "keeps ?J m" if "emits (reads \<union> range PatchKCP) m" for m :: "(call, 'z) go"
    by (rule protectedDeletions_nodelete, rule emits_mono[OF that]) (use read_not_machine in auto)
  have fin: "keeps ?J (finishReconcile E L cluster p res err)" for L cluster p res err
    by (rule nd[OF finishReconcile_emits])
  have add: "keeps ?J (addFinalizerAndPatch E K p)" for K p
    unfolding addFinalizerAndPatch_def by (rule nd) (intro go_intros, auto)
  have own: "keeps ?J (api E e_cluster (GetOwnerCluster om))" "keeps ?J (new_helper E k)" for om k
    by (rule nd, (intro go_intros)?, simp?)+
  have "keeps ?J (reconcileFetched E C cache kcp)"
    using assms(2) unfolding reconcileFetched_def reconcileBody_def if_not_P[OF assms(2)]
    by (intro keeps_bnd[OF own(1)] keeps_bnd[OF own(2)] keeps_bnd[OF add] keeps_bnd[OF reconcile_protected[OF assms(3)]]
        keeps_bnd[OF fin] keeps_cases keeps_intros)
  moreover have "?J (h @ [GetKCP key])"
    by (simp add: justified_snoc justified_start)
  moreover have "reconcileFetched E C cache kcp (h @ [GetKCP key]) = (r, h')"
    using run by (simp add: kcp_Reconcile_def assms(1) bnd_run client_run)
  ultimately show ?thesis by (rule keepsD)
qed

end
