(* ===== verification/Lifecycle.thy ===== *)
theory Lifecycle
  imports HookedDeletion
begin

text \<open>
  The life of a control plane machine from its deletion to its end, across the processes that
  take part in it: the control plane controller deletes the machine, the machine controller
  settles its etcd member and takes the pre-terminate hook off, and Cluster API removes a deleted
  machine (and its node) only when no hook is left. The passes of both controllers run
  interleaved, call by call, over one store; each has its own history and its own answers, so
  caches may be stale and calls may fail or take effect although an error was returned.

  The contracts of the two controllers are locales over arbitrary passes; the passes of the
  model are an interpretation of both.
\<close>

section \<open>The store and its writers\<close>

text \<open>What the store says of a machine (being deleted, carrying the hook), and two ghosts: it
  ever carried the hook, and it was deleted by somebody who promises no protection. A key stands
  for one machine for all time, since names are generated and not used twice.\<close>

record cell =
  ce_deleting :: bool
  ce_hooked :: bool
  ce_everHooked :: bool
  ce_unprotected :: bool

definition ma_Key :: "Machine \<Rightarrow> ObjectKey" where
  "ma_Key m = (om_Namespace (ma_Meta m), ma_Name m)"

definition deleteCell :: "bool \<Rightarrow> cell \<Rightarrow> cell" where
  "deleteCell protected c =
     c\<lparr>ce_deleting := True, ce_unprotected := ce_unprotected c \<or> \<not> ce_deleting c \<and> \<not> protected\<rparr>"

text \<open>The effect of a call that reached the store. A patch is a difference to the machine that was
  read: the control plane controller never takes the hook off, and its patch of a machine that
  was read with the hook leaves the annotation alone; the machine controller takes it off.
  Server-side apply does not own the annotation.\<close>

inductive effect :: "bool \<Rightarrow> bool \<Rightarrow> call \<Rightarrow> (ObjectKey \<Rightarrow> cell) \<Rightarrow> (ObjectKey \<Rightarrow> cell) \<Rightarrow> bool" for releaser protected where
  hook: "\<not> releaser \<Longrightarrow> hasHook x \<Longrightarrow>
    effect releaser protected (PatchMachine x) f (f(ma_Key x := (f (ma_Key x))\<lparr>ce_hooked := True, ce_everHooked := True\<rparr>))"
| unchanged: "\<not> releaser \<Longrightarrow> hasHook x \<longrightarrow> ce_everHooked (f (ma_Key x)) \<Longrightarrow> effect releaser protected (PatchMachine x) f f"
| release: "releaser \<Longrightarrow> effect releaser protected (PatchMachine x) f (f(ma_Key x := (f (ma_Key x))\<lparr>ce_hooked := hasHook x\<rparr>))"
| delete: "effect releaser protected (DeleteMachine x) f (f(ma_Key x := deleteCell protected (f (ma_Key x))))"
| other: "\<not> is_patch_machine c \<Longrightarrow> \<not> is_delete_machine c \<Longrightarrow> effect releaser protected c f f"

inductive_cases effectE: "effect releaser protected c f g"
inductive_simps effect_delete: "effect releaser protected (DeleteMachine x) f g"

section \<open>Passes over the store\<close>

text \<open>The cells, the calls each pass has issued so far, and the machines that are gone.\<close>

record 'p world =
  w_cell :: "ObjectKey \<Rightarrow> cell"
  w_issued :: "'p \<Rightarrow> call list"
  w_gone :: "ObjectKey set"

definition advance :: "'p \<Rightarrow> call \<Rightarrow> 'p world \<Rightarrow> 'p world" where
  "advance p c w = w\<lparr>w_issued := (w_issued w)(p := w_issued w p @ [c])\<rparr>"

text \<open>The passes: all calls each of them will issue, which calls are answered without error,
  which passes take hooks off, and which promise protection.\<close>

record 'p passes =
  pa_issued :: "'p \<Rightarrow> call list"
  pa_succeeded :: "'p \<Rightarrow> call list \<Rightarrow> call \<Rightarrow> bool"
  pa_releases :: "'p \<Rightarrow> bool"
  pa_protects :: "'p \<Rightarrow> bool"

text \<open>A call reaches the store, or it fails and does not; Cluster API removes a machine; somebody
  else deletes one.\<close>

inductive happens :: "('p, 'x) passes_scheme \<Rightarrow> 'p world \<Rightarrow> 'p world \<Rightarrow> bool" for S where
  reaches: "pa_issued S p = w_issued w p @ c # t \<Longrightarrow> effect (pa_releases S p) (pa_protects S p) c (w_cell w) f \<Longrightarrow>
    happens S w (advance p c (w\<lparr>w_cell := f\<rparr>))"
| fails: "pa_issued S p = w_issued w p @ c # t \<Longrightarrow> \<not> pa_succeeded S p (w_issued w p) c \<Longrightarrow> happens S w (advance p c w)"
| removed: "ce_deleting (w_cell w k) \<Longrightarrow> \<not> ce_hooked (w_cell w k) \<Longrightarrow> happens S w (w\<lparr>w_gone := insert k (w_gone w)\<rparr>)"
| foreign: "happens S w (w\<lparr>w_cell := (w_cell w)(k := deleteCell False (w_cell w k))\<rparr>)"

text \<open>At the start every machine that is being deleted carries the hook, or was deleted without
  protection.\<close>

definition startWorld :: "'p world \<Rightarrow> bool" where
  "startWorld w \<longleftrightarrow> w_issued w = (\<lambda>_. []) \<and> w_gone w = {} \<and>
     (\<forall>k. (ce_deleting (w_cell w k) \<longrightarrow> ce_everHooked (w_cell w k) \<or> ce_unprotected (w_cell w k)) \<and>
          (ce_everHooked (w_cell w k) \<longrightarrow> ce_hooked (w_cell w k)))"

inductive reached :: "('p, 'x) passes_scheme \<Rightarrow> 'p world \<Rightarrow> bool" for S where
  start: "startWorld w \<Longrightarrow> reached S w"
| step: "reached S w \<Longrightarrow> happens S w w' \<Longrightarrow> reached S w'"

lemma advance_simps [simp]:
  "w_cell (advance p c w) = w_cell w" "w_gone (advance p c w) = w_gone w"
  "w_issued (advance p c w) q = (if q = p then w_issued w p @ [c] else w_issued w q)"
  by (simp_all add: advance_def)

lemma deleteCell_simps [simp]:
  "ce_deleting (deleteCell b c)" "ce_hooked (deleteCell b c) = ce_hooked c" "ce_everHooked (deleteCell b c) = ce_everHooked c"
  "ce_unprotected (deleteCell b c) \<longleftrightarrow> ce_unprotected c \<or> \<not> ce_deleting c \<and> \<not> b"
  by (simp_all add: deleteCell_def)

text \<open>The ghosts never go back.\<close>

lemma effect_mono:
  assumes "effect r b c f g"
  shows "ce_everHooked (f k) \<Longrightarrow> ce_everHooked (g k)" "ce_unprotected (f k) \<Longrightarrow> ce_unprotected (g k)"
    "ce_deleting (f k) \<Longrightarrow> ce_deleting (g k)"
  using assms by (auto elim!: effectE split: if_splits)

lemma reached_prefix:
  assumes "reached S w"
  shows "\<exists>t. pa_issued S p = w_issued w p @ t"
  using assms
proof (induction arbitrary: p)
  case (start w)
  then show ?case by (simp add: startWorld_def)
next
  case (step w w')
  from step(2) show ?case by cases (use step.IH in auto)
qed

section \<open>The contracts\<close>

text \<open>A pass that promises protection deletes a machine only right after it patched the hook onto
  it without an error.\<close>

locale hooking_passes =
  fixes S :: "'p passes"
  assumes hook_first: "pa_issued S p = h @ DeleteMachine x # t \<Longrightarrow> pa_protects S p \<Longrightarrow>
      \<exists>g. h = g @ [PatchMachine x] \<and> pa_succeeded S p g (PatchMachine x) \<and> hasHook x"
    and protects_keeps: "pa_protects S p \<Longrightarrow> \<not> pa_releases S p"
begin

text \<open>What a protecting pass patched successfully has carried the hook since.\<close>

lemma patched_everHooked:
  assumes "reached S w" "pa_protects S p" "w_issued w p = g @ PatchMachine x # t" "pa_succeeded S p g (PatchMachine x)" "hasHook x"
  shows "ce_everHooked (w_cell w (ma_Key x))"
  using assms(1,3)
proof (induction arbitrary: t)
  case (start w)
  then show ?case by (simp add: startWorld_def)
next
  case (step w w')
  have old: "ce_everHooked (w_cell w (ma_Key x))" if "w_issued w p = g @ PatchMachine x # t'" for t'
    using step.IH that .
  have keep: "g @ PatchMachine x # t = w_issued w p @ [c] \<Longrightarrow>
      (w_issued w p = g \<and> c = PatchMachine x) \<or> (\<exists>t'. w_issued w p = g @ PatchMachine x # t')" for c
    by (cases t rule: rev_cases) (simp_all, metis)
  from step(2) show ?case
  proof cases
    case (reaches q c rest f)
    have mono: "ce_everHooked (w_cell w (ma_Key x)) \<Longrightarrow> ce_everHooked (f (ma_Key x))"
      using effect_mono(1)[OF reaches(3)] .
    show ?thesis
    proof (cases "q = p")
      case True
      with step.prems reaches(1) keep[of c] consider "c = PatchMachine x" | t' where "w_issued w p = g @ PatchMachine x # t'"
        by auto
      then show ?thesis
      proof cases
        case 1
        with reaches(3) assms(5) protects_keeps[OF assms(2)] True have "ce_everHooked (f (ma_Key x))"
          by (auto elim!: effectE)
        with reaches(1) show ?thesis by simp
      next
        case 2
        with old mono reaches(1) show ?thesis by simp
      qed
    next
      case False
      with step.prems reaches(1) old mono show ?thesis by auto
    qed
  next
    case (fails q c rest)
    then show ?thesis using step.prems old keep[of c] assms(4) by (auto split: if_splits)
  next
    case (removed k)
    with step.prems old show ?thesis by simp
  next
    case (foreign k)
    with step.prems old show ?thesis by auto
  qed
qed

text \<open>So whoever is being deleted with protection has carried the hook.\<close>

lemma deleting_everHooked:
  assumes "reached S w" "ce_deleting (w_cell w k)" "\<not> ce_unprotected (w_cell w k)"
  shows "ce_everHooked (w_cell w k)"
  using assms
proof (induction)
  case (start w)
  then show ?case by (auto simp: startWorld_def simp del: split_paired_All)
next
  case (step w w')
  from step(2) show ?case
  proof cases
    case (reaches p c rest f)
    have IH: "ce_everHooked (f k)" if "ce_deleting (w_cell w k)" "\<not> ce_unprotected (w_cell w k)"
      using effect_mono(1)[OF reaches(3)] step.IH that .
    have "ce_everHooked (f k)"
    proof (cases "ce_deleting (w_cell w k)")
      case True
      with step.prems(2) effect_mono(2)[OF reaches(3), of k] IH reaches(1) show ?thesis by auto
    next
      case False
      with reaches(1,3) step.prems obtain x where x: "c = DeleteMachine x" "k = ma_Key x" "pa_protects S p"
        by (auto elim!: effectE split: if_splits)
      from reached_prefix[OF step(1)] reaches(2) x(1) have "pa_issued S p = w_issued w p @ DeleteMachine x # rest" by simp
      from hook_first[OF this x(3)] obtain g where
        g: "w_issued w p = g @ [PatchMachine x]" "pa_succeeded S p g (PatchMachine x)" "hasHook x" by blast
      from patched_everHooked[OF step(1) x(3) g] x(2) effect_mono(1)[OF reaches(3)] show ?thesis by blast
    qed
    with reaches(1) show ?thesis by simp
  next
    case (foreign k')
    with step show ?thesis by (auto split: if_splits)
  qed (use step in auto)
qed

end

text \<open>A pass that takes hooks off has evidence, in the answers it received before, that the member
  of the machine is settled.\<close>

locale releasing_passes =
  fixes S :: "'p passes" and evidence :: "'p \<Rightarrow> call list \<Rightarrow> Machine \<Rightarrow> bool"
  assumes release_settled: "pa_issued S p = h @ PatchMachine x # t \<Longrightarrow> pa_releases S p \<Longrightarrow> evidence p h x"
begin

text \<open>The machine was patched by such a pass, with evidence for the machine it patched.\<close>

definition settled :: "'p world \<Rightarrow> ObjectKey \<Rightarrow> bool" where
  "settled w k \<longleftrightarrow> (\<exists>p h x t. w_issued w p = h @ PatchMachine x # t \<and> pa_releases S p \<and> ma_Key x = k \<and> evidence p h x)"

lemma settled_mono:
  assumes "settled w k" "happens S w w'"
  shows "settled w' k"
proof -
  from assms(1) obtain p h x t where "w_issued w p = h @ PatchMachine x # t" "pa_releases S p" "ma_Key x = k" "evidence p h x"
    unfolding settled_def by blast
  moreover have "\<exists>t'. w_issued w' p = w_issued w p @ t'" using assms(2) by cases auto
  ultimately show ?thesis unfolding settled_def by (metis append_Cons append_assoc)
qed

lemma released_settled:
  assumes "reached S w" "ce_everHooked (w_cell w k)"
  shows "ce_hooked (w_cell w k) \<or> settled w k"
  using assms
proof (induction)
  case (start w)
  then show ?case by (auto simp: startWorld_def simp del: split_paired_All)
next
  case (step w w')
  note mono = settled_mono[OF _ step(2), of k]
  from step(2) show ?case
  proof cases
    case (reaches p c rest f)
    from reaches(3) show ?thesis
    proof cases
      case (release x)
      show ?thesis
      proof (cases "k = ma_Key x")
        case True
        from reaches(2) release(1) have "pa_issued S p = w_issued w p @ PatchMachine x # rest" by simp
        from release_settled[OF this release(3)] True release reaches(1) have "settled w' k"
          unfolding settled_def by (intro exI[of _ p] exI[of _ "w_issued w p"] exI[of _ x] exI[of _ "[]"]) simp
        then show ?thesis ..
      next
        case False
        with step reaches(1) release mono show ?thesis by auto
      qed
    qed (use step.IH step.prems mono reaches(1) in \<open>auto split: if_splits\<close>)
  next
    case (foreign k')
    then show ?thesis using step.IH step.prems mono by (auto split: if_splits)
  qed (use step.IH step.prems mono in auto)
qed

end

text \<open>Together: a machine that is gone was deleted without protection, or its member was settled
  before.\<close>

locale hook_protocol = hooking_passes S + releasing_passes S evidence
  for S :: "'p passes" and evidence :: "'p \<Rightarrow> call list \<Rightarrow> Machine \<Rightarrow> bool"
begin

lemma gone_settled:
  assumes "reached S w" "k \<in> w_gone w"
  shows "ce_deleting (w_cell w k) \<and> (ce_unprotected (w_cell w k) \<or> settled w k)"
  using assms
proof (induction)
  case (start w)
  then show ?case by (simp add: startWorld_def)
next
  case (step w w')
  note mono = settled_mono[OF _ step(2), of k]
  from step(2) show ?case
  proof cases
    case (reaches p c rest f)
    with step.IH step.prems mono effect_mono(2,3)[OF reaches(3), of k] show ?thesis by auto
  next
    case (removed k')
    show ?thesis
    proof (cases "k = k'")
      case True
      with removed deleting_everHooked[OF step(1), of k] released_settled[OF step(1), of k] mono show ?thesis by auto
    next
      case False
      with removed step.IH step.prems mono show ?thesis by auto
    qed
  next
    case (foreign k')
    with step.IH step.prems mono show ?thesis by auto
  qed (use step.IH step.prems mono in auto)
qed

end

section \<open>The passes of the two controllers\<close>

text \<open>A pass of the control plane controller and one of the machine controller; the number tells
  passes with the same answers apart.\<close>

datatype pass =
    KcpPass nat env kcpEnv ssaCache ObjectKey
  | MachinePass nat env lib machineLib ObjectKey

fun callsOf :: "pass \<Rightarrow> call list" where
  "callsOf (KcpPass n E C cache key) = snd (kcp_Reconcile E C cache key [])"
| "callsOf (MachinePass n E L M key) = snd (machine_Reconcile E L M key [])"

fun succeededIn :: "pass \<Rightarrow> call list \<Rightarrow> call \<Rightarrow> bool" where
  "succeededIn (KcpPass n E C cache key) h c \<longleftrightarrow> e_err E h c = None"
| "succeededIn (MachinePass n E L M key) h c \<longleftrightarrow> e_err E h c = None"

fun releasesIn :: "pass \<Rightarrow> bool" where
  "releasesIn (KcpPass n E C cache key) \<longleftrightarrow> False"
| "releasesIn (MachinePass n E L M key) \<longleftrightarrow> True"

text \<open>A pass over a control plane that is initialized, not being deleted, and was not said to have
  no etcd CA, promises protection.\<close>

fun protectsIn :: "pass \<Rightarrow> bool" where
  "protectsIn (KcpPass n E C cache key) \<longleftrightarrow>
     (\<exists>kcp. e_kcp E [] (GetKCP key) = Inr kcp \<and> \<not> kp_deleting kcp \<and> st_Initialized (kp_Status kcp)) \<and>
     \<not> toldNoEtcdCA E (callsOf (KcpPass n E C cache key))"
| "protectsIn (MachinePass n E L M key) \<longleftrightarrow> False"

fun evidenceIn :: "pass \<Rightarrow> call list \<Rightarrow> Machine \<Rightarrow> bool" where
  "evidenceIn (KcpPass n E C cache key) h x \<longleftrightarrow> False"
| "evidenceIn (MachinePass n E L M key) h x \<longleftrightarrow> releaseJustified E L M key [] h x"

definition controllers :: "pass passes" where
  "controllers = \<lparr>pa_issued = callsOf, pa_succeeded = succeededIn, pa_releases = releasesIn, pa_protects = protectsIn\<rparr>"

lemma controllers_simps [simp]:
  "pa_issued controllers = callsOf" "pa_succeeded controllers = succeededIn"
  "pa_releases controllers = releasesIn" "pa_protects controllers = protectsIn"
  by (simp_all add: controllers_def)

fun_cases protectsInE: "protectsIn p"
fun_cases releasesInE: "releasesIn p"
fun_cases evidenceInE: "evidenceIn p h x"

lemma ma_Key_withoutHook [simp]: "ma_Key (withoutHook m) = ma_Key m"
  by (simp add: ma_Key_def withoutHook_def ma_setAnnotations_def ma_Name_def)

interpretation deleter: hooking_passes controllers
proof
  show "\<not> pa_releases controllers p" if "pa_protects controllers p" for p
    using that by (auto elim: protectsInE)
  fix p h x t
  assume issued: "pa_issued controllers p = h @ DeleteMachine x # t" and "pa_protects controllers p"
  then obtain n E C cache key kcp where p: "p = KcpPass n E C cache key"
    and kcp: "e_kcp E [] (GetKCP key) = Inr kcp" "\<not> kp_deleting kcp" "st_Initialized (kp_Status kcp)"
    and ca: "\<not> toldNoEtcdCA E (callsOf p)"
    by (auto elim: protectsInE)
  obtain r where "kcp_Reconcile E C cache key [] = (r, h @ DeleteMachine x # t)"
    using issued p by (cases "kcp_Reconcile E C cache key []") auto
  from kcp_Reconcile_protected[OF kcp this] have "hookPatched E x h \<or> toldNoEtcdCA E h"
    by (auto dest: justifiedD)
  moreover have "\<not> toldNoEtcdCA E h" using ca issued toldNoEtcdCA_append[of E h] by auto
  ultimately show "\<exists>g. h = g @ [PatchMachine x] \<and> pa_succeeded controllers p g (PatchMachine x) \<and> hasHook x"
    by (simp add: p hookPatched_def)
qed

interpretation releaser: releasing_passes controllers evidenceIn
proof
  fix p h x t
  assume issued: "pa_issued controllers p = h @ PatchMachine x # t" and "pa_releases controllers p"
  then obtain n E L M key where p: "p = MachinePass n E L M key" by (auto elim: releasesInE)
  obtain r where run: "machine_Reconcile E L M key [] = (r, h @ PatchMachine x # t)"
    using issued p by (cases "machine_Reconcile E L M key []") auto
  from machine_Reconcile_released[OF run] show "evidenceIn p h x" by (simp add: p)
qed

interpretation controllers: hook_protocol controllers evidenceIn ..

text \<open>C6 A machine outlives its etcd member. Whatever the interleaving of the passes of both
  controllers, and whatever requests fail or get lost in between: a machine that Cluster API has
  removed, and that was not deleted without protection (by somebody else, or by a pass over a
  control plane that is being deleted, not initialized or without an etcd CA), was released by a
  pass of the machine controller. That pass has issued the patch that takes the hook off this
  machine; its first two requests were answered with this machine, deleted and hooked, and with
  the cluster of the machine; and by the answers to the requests the pass issued between these
  and the patch, the member of this machine was settled in this cluster.\<close>

theorem gone_after_member:
  assumes "reached controllers w" "k \<in> w_gone w" "\<not> ce_unprotected (w_cell w k)"
  shows "\<exists>n E L M key m cluster h t s.
    w_issued w (MachinePass n E L M key) = h @ PatchMachine (withoutHook m) # s \<and> ma_Key m = k \<and>
    h = GetMachine key # GetCluster (om_Namespace (ma_Meta m)) (clusterLabel m) # t \<and>
    e_machine E [] (GetMachine key) = Inr m \<and>
    e_cluster E [GetMachine key] (GetCluster (om_Namespace (ma_Meta m)) (clusterLabel m)) = Inr (Some cluster) \<and>
    ma_deleting m \<and> hasK3sHook M m \<and> memberSettled E L cluster m 2 h"
proof -
  from controllers.gone_settled[OF assms(1,2)] assms(3) obtain p h x s where
    p: "w_issued w p = h @ PatchMachine x # s" "ma_Key x = k" "evidenceIn p h x"
    unfolding releaser.settled_def by blast
  from p(3) obtain n E L M key where pass: "p = MachinePass n E L M key" and "releaseJustified E L M key [] h x"
    by (rule evidenceInE)
  from this(2) obtain m cluster t where "x = withoutHook m" "ma_deleting m" "hasK3sHook M m"
    "h = GetMachine key # GetCluster (om_Namespace (ma_Meta m)) (clusterLabel m) # t" "e_machine E [] (GetMachine key) = Inr m"
    "e_cluster E [GetMachine key] (GetCluster (om_Namespace (ma_Meta m)) (clusterLabel m)) = Inr (Some cluster)"
    "memberSettled E L cluster m 2 h"
    by (auto simp: releaseJustified_def Let_def numeral_2_eq_2)
  with p(1,2) pass show ?thesis by (simp only: ma_Key_withoutHook) blast
qed

text \<open>A run: a machine that is being deleted with the hook on it is released by the machine
  controller, since the cluster has no other active control plane machine, and removed.\<close>

lemma reached_others:
  assumes "reached S w" "pa_issued S p = w_issued w p @ cs @ t" "\<forall>c\<in>set cs. \<not> is_patch_machine c \<and> \<not> is_delete_machine c"
  shows "reached S (w\<lparr>w_issued := (w_issued w)(p := w_issued w p @ cs)\<rparr>)"
  using assms
proof (induction cs arbitrary: w)
  case (Cons c cs)
  have "happens S w (advance p c (w\<lparr>w_cell := w_cell w\<rparr>))"
    by (rule happens.reaches[where t = "cs @ t"]) (use Cons.prems in \<open>auto intro: effect.other\<close>)
  with Cons.prems(1) have "reached S (advance p c w)" by (auto intro: reached.step)
  have "reached S ((advance p c w)\<lparr>w_issued := (w_issued (advance p c w))(p := w_issued (advance p c w) p @ cs)\<rparr>)"
    by (rule Cons.IH[OF \<open>reached S (advance p c w)\<close>]) (use Cons.prems(2,3) in simp_all)
  moreover have "(advance p c w)\<lparr>w_issued := (w_issued (advance p c w))(p := w_issued (advance p c w) p @ cs)\<rparr> =
      w\<lparr>w_issued := (w_issued w)(p := w_issued w p @ c # cs)\<rparr>"
    by (rule world.equality) (auto simp: advance_def)
  ultimately show ?case by (simp only:)
qed simp

definition hookedWorld :: "pass world" where
  "hookedWorld = \<lparr>w_cell = (\<lambda>_. \<lparr>ce_deleting = True, ce_hooked = True, ce_everHooked = True, ce_unprotected = False\<rparr>),
     w_issued = (\<lambda>_. []), w_gone = {}\<rparr>"

abbreviation releasing :: pass where
  "releasing \<equiv> MachinePass 0 E_hooked L0 M0 (''ns'', ''m1'')"

theorem gone_after_member_witness:
  "\<exists>w n E L M key m cluster h t s. reached controllers w \<and> ma_Key hooked \<in> w_gone w \<and> \<not> ce_unprotected (w_cell w (ma_Key hooked)) \<and>
     w_issued w (MachinePass n E L M key) = h @ PatchMachine (withoutHook m) # s \<and> ma_Key m = ma_Key hooked \<and>
     h = GetMachine key # GetCluster (om_Namespace (ma_Meta m)) (clusterLabel m) # t \<and> memberSettled E L cluster m 2 h"
proof -
  from release_run obtain r h1 where run: "machine_Reconcile E_hooked L0 M0 (''ns'', ''m1'') [] = (r, h1 @ [PatchMachine (withoutHook hooked)])"
    and others: "\<forall>c\<in>set h1. \<not> is_patch_machine c \<and> \<not> is_delete_machine c" by blast
  define w1 where "w1 = hookedWorld\<lparr>w_issued := (w_issued hookedWorld)(releasing := w_issued hookedWorld releasing @ h1)\<rparr>"
  have "reached controllers hookedWorld" by (rule reached.start) (simp add: startWorld_def hookedWorld_def)
  then have w1: "reached controllers w1"
    unfolding w1_def by (rule reached_others) (use run others in \<open>auto simp: hookedWorld_def\<close>)
  define f where "f = (w_cell w1)(ma_Key (withoutHook hooked) :=
      (w_cell w1 (ma_Key (withoutHook hooked)))\<lparr>ce_hooked := hasHook (withoutHook hooked)\<rparr>)"
  define w2 where "w2 = advance releasing (PatchMachine (withoutHook hooked)) (w1\<lparr>w_cell := f\<rparr>)"
  have "happens controllers w1 w2"
    unfolding w2_def
  proof (rule happens.reaches[where t = "[]"])
    show "effect (pa_releases controllers releasing) (pa_protects controllers releasing) (PatchMachine (withoutHook hooked)) (w_cell w1) f"
      unfolding f_def by (rule effect.release) simp
  qed (simp add: run w1_def hookedWorld_def)
  with w1 have w2: "reached controllers w2" by (rule reached.step)
  have "\<not> hasHook (withoutHook hooked)"
    by (simp add: hasHook_def withoutHook_def ma_setAnnotations_def ma_Annotations_def mget_def mdelete_def split: option.split)
  then have cell: "ce_deleting (w_cell w2 (ma_Key hooked))" "\<not> ce_hooked (w_cell w2 (ma_Key hooked))"
    "\<not> ce_unprotected (w_cell w2 (ma_Key hooked))"
    by (simp_all add: w2_def f_def w1_def hookedWorld_def)
  define w3 where "w3 = w2\<lparr>w_gone := insert (ma_Key hooked) (w_gone w2)\<rparr>"
  have "happens controllers w2 w3" unfolding w3_def using cell by (intro happens.removed)
  with w2 have w3: "reached controllers w3" by (rule reached.step)
  have g: "ma_Key hooked \<in> w_gone w3" "\<not> ce_unprotected (w_cell w3 (ma_Key hooked))" using cell by (simp_all add: w3_def)
  from gone_after_member[OF w3 g] w3 g show ?thesis by blast
qed

end
