(* ===== verification/Conversion.thy ===== *)
theory Conversion
  imports K3sConfig
begin

text \<open>
  The v1beta1 types of both API groups and their conversion to and from v1beta2
  (\<^verbatim>\<open>bootstrap/api/v1beta1\<close>, \<^verbatim>\<open>controlplane/api/v1beta1\<close>). A conversion
  function gets the object to fill (\<^verbatim>\<open>out\<close>) and returns it with the fields assigned that
  the code assigns; the others keep their value. What v1beta1 cannot express is stored in an
  annotation by \<^verbatim>\<open>ConvertFrom\<close> and restored from it by \<^verbatim>\<open>ConvertTo\<close>; the
  functions that write and read the annotation are Cluster API's, and parameters here.

  A pointer conversion through \<^verbatim>\<open>unsafe.Pointer\<close> reads the memory of one type as the
  other. The types have the same fields in the same order, and the cast is written out as the
  reinterpretation of the fields in that order.
\<close>

named_theorems conv "the definitions of the conversion functions"

definition andThen :: "goerr + 'a \<Rightarrow> ('a \<Rightarrow> goerr + 'b) \<Rightarrow> goerr + 'b" where
  "andThen r f = (case r of Inl err \<Rightarrow> Inl err | Inr x \<Rightarrow> f x)"

definition orWrap :: "string \<Rightarrow> goerr + 'a \<Rightarrow> goerr + 'a" where
  "orWrap s r = (case r of Inl err \<Rightarrow> Inl (Wrap s err) | Inr x \<Rightarrow> Inr x)"

lemma andThen_simps [simp]: "andThen (Inr x) f = f x" "andThen (Inl e) f = Inl e"
  by (simp_all add: andThen_def)

lemma orWrap_simps [simp]: "orWrap s (Inr x) = Inr x" "orWrap s (Inl e) = Inl (Wrap s e)"
  by (simp_all add: orWrap_def)

section \<open>bootstrap/api/v1beta1\<close>

record SecretFileSource_v1 =
  sf1_Name :: string
  sf1_Key :: string

record FileSource_v1 =
  fs1_Secret :: SecretFileSource_v1

record File_v1 =
  f1_Path :: string
  f1_Owner :: string
  f1_Permissions :: string
  f1_Encoding :: string
  f1_Content :: string
  f1_ContentFrom :: "FileSource_v1 option"

record KThreesServerConfig_v1 =
  sc1_KubeAPIServerArgs :: "string slice"
  sc1_KubeControllerManagerArgs :: "string slice"
  sc1_KubeSchedulerArgs :: "string slice"
  sc1_TLSSan :: "string slice"
  sc1_BindAddress :: string
  sc1_HTTPSListenPort :: string
  sc1_AdvertiseAddress :: string
  sc1_AdvertisePort :: string
  sc1_ClusterCidr :: string
  sc1_ServiceCidr :: string
  sc1_ClusterDNS :: string
  sc1_ClusterDomain :: string
  sc1_DisableComponents :: "string slice"
  sc1_DisableExternalCloudProvider :: bool

record KThreesAgentConfig_v1 =
  ac1_NodeLabels :: "string slice"
  ac1_NodeTaints :: "string slice"
  ac1_PrivateRegistry :: string
  ac1_KubeletArgs :: "string slice"
  ac1_KubeProxyArgs :: "string slice"
  ac1_NodeName :: string
  ac1_AirGapped :: bool

record KThreesConfigSpec_v1 =
  kc1_Files :: "File_v1 slice"
  kc1_PreK3sCommands :: "string slice"
  kc1_PostK3sCommands :: "string slice"
  kc1_AgentConfig :: KThreesAgentConfig_v1
  kc1_ServerConfig :: KThreesServerConfig_v1
  kc1_Version :: string

record KThreesConfigStatus_v1 =
  ks1_Ready :: bool
  ks1_BootstrapData :: "string slice"
  ks1_DataSecretName :: "string option"
  ks1_FailureReason :: string
  ks1_FailureMessage :: string
  ks1_ObservedGeneration :: int64
  ks1_Conditions :: "V1Condition slice"

record KThreesConfig_v1 =
  kt1_Meta :: ObjectMeta
  kt1_Spec :: KThreesConfigSpec_v1
  kt1_Status :: KThreesConfigStatus_v1

record KThreesConfigTemplate_v1 =
  ktt1_Meta :: ObjectMeta
  ktt1_Spec :: KThreesConfigSpec_v1

definition IsEtcdEmbedded_v1 :: "KThreesConfigSpec_v1 \<Rightarrow> bool" where
  "IsEtcdEmbedded_v1 c = True"

definition kt1_GetConditions :: "KThreesConfig_v1 \<Rightarrow> V1Condition slice" where
  "kt1_GetConditions c = ks1_Conditions (kt1_Status c)"

definition kt1_SetConditions :: "KThreesConfig_v1 \<Rightarrow> V1Condition slice \<Rightarrow> KThreesConfig_v1" where
  "kt1_SetConditions c cs = c\<lparr>kt1_Status := (kt1_Status c)\<lparr>ks1_Conditions := cs\<rparr>\<rparr>"

text \<open>Lists of objects: the metadata and the items.\<close>

record ListMeta =
  lm_ResourceVersion :: string
  lm_Continue :: string
  lm_RemainingItemCount :: "int64 option"

record 'a ObjectList =
  ol_Meta :: ListMeta
  ol_Items :: "'a slice"

section \<open>controlplane/api/v1beta1\<close>

record MachineTemplate_v1 =
  mt1_Labels :: gomap
  mt1_Annotations :: gomap

record RemediationStrategy_v1 =
  rs1_MaxRetry :: "int32 option"
  rs1_RetryPeriod :: duration
  rs1_MinHealthyPeriod :: "duration option"

record KThreesControlPlaneSpec_v1 =
  ps1_Replicas :: "int32 option"
  ps1_Version :: string
  ps1_InfrastructureTemplate :: ObjectReference
  ps1_KThreesConfigSpec :: KThreesConfigSpec_v1
  ps1_UpgradeAfter :: "time option"
  ps1_NodeDrainTimeout :: "duration option"
  ps1_MachineTemplate :: MachineTemplate_v1
  ps1_RemediationStrategy :: "RemediationStrategy_v1 option"

record LastRemediationStatus_v1 =
  lr1_Machine :: string
  lr1_Timestamp :: time
  lr1_RetryCount :: int32

record KThreesControlPlaneStatus_v1 =
  st1_Selector :: string
  st1_Replicas :: int32
  st1_UpdatedReplicas :: int32
  st1_ReadyReplicas :: int32
  st1_UnavailableReplicas :: int32
  st1_Initialized :: bool
  st1_Ready :: bool
  st1_FailureReason :: string
  st1_FailureMessage :: "string option"
  st1_ObservedGeneration :: int64
  st1_Conditions :: "V1Condition slice"
  st1_LastRemediation :: "LastRemediationStatus_v1 option"

record KThreesControlPlane_v1 =
  kp1_Meta :: ObjectMeta
  kp1_Spec :: KThreesControlPlaneSpec_v1
  kp1_Status :: KThreesControlPlaneStatus_v1

definition kp1_GetConditions :: "KThreesControlPlane_v1 \<Rightarrow> V1Condition slice" where
  "kp1_GetConditions c = st1_Conditions (kp1_Status c)"

definition kp1_SetConditions :: "KThreesControlPlane_v1 \<Rightarrow> V1Condition slice \<Rightarrow> KThreesControlPlane_v1" where
  "kp1_SetConditions c cs = c\<lparr>kp1_Status := (kp1_Status c)\<lparr>st1_Conditions := cs\<rparr>\<rparr>"

section \<open>Casts\<close>

text \<open>The memory of a value, read as the other version of its type.\<close>

definition castFileSourceToV2 :: "FileSource_v1 \<Rightarrow> FileSource" where
  "castFileSourceToV2 x =
     \<lparr>fs_Secret = \<lparr>sf_Name = sf1_Name (fs1_Secret x), sf_Key = sf1_Key (fs1_Secret x)\<rparr>\<rparr>"

definition castFileToV2 :: "File_v1 \<Rightarrow> File" where
  "castFileToV2 x =
     \<lparr>f_Path = f1_Path x, f_Owner = f1_Owner x, f_Permissions = f1_Permissions x,
      f_Encoding = f1_Encoding x, f_Content = f1_Content x, f_ContentFrom = map_option castFileSourceToV2 (f1_ContentFrom x)\<rparr>"

definition castStrategyToV2 :: "RemediationStrategy_v1 \<Rightarrow> RemediationStrategy" where
  "castStrategyToV2 x =
     \<lparr>rs_MaxRetry = rs1_MaxRetry x, rs_RetryPeriod = rs1_RetryPeriod x,
      rs_MinHealthyPeriod = rs1_MinHealthyPeriod x\<rparr>"

definition castLastRemediationToV2 :: "LastRemediationStatus_v1 \<Rightarrow> LastRemediationStatus" where
  "castLastRemediationToV2 x =
     \<lparr>lr_Machine = lr1_Machine x, lr_Timestamp = lr1_Timestamp x,
      lr_RetryCount = lr1_RetryCount x\<rparr>"

definition castFileSourceToV1 :: "FileSource \<Rightarrow> FileSource_v1" where
  "castFileSourceToV1 x =
     \<lparr>fs1_Secret = \<lparr>sf1_Name = sf_Name (fs_Secret x), sf1_Key = sf_Key (fs_Secret x)\<rparr>\<rparr>"

definition castFileToV1 :: "File \<Rightarrow> File_v1" where
  "castFileToV1 x =
     \<lparr>f1_Path = f_Path x, f1_Owner = f_Owner x, f1_Permissions = f_Permissions x,
      f1_Encoding = f_Encoding x, f1_Content = f_Content x, f1_ContentFrom = map_option castFileSourceToV1 (f_ContentFrom x)\<rparr>"

definition castStrategyToV1 :: "RemediationStrategy \<Rightarrow> RemediationStrategy_v1" where
  "castStrategyToV1 x =
     \<lparr>rs1_MaxRetry = rs_MaxRetry x, rs1_RetryPeriod = rs_RetryPeriod x,
      rs1_MinHealthyPeriod = rs_MinHealthyPeriod x\<rparr>"

definition castLastRemediationToV1 :: "LastRemediationStatus \<Rightarrow> LastRemediationStatus_v1" where
  "castLastRemediationToV1 x =
     \<lparr>lr1_Machine = lr_Machine x, lr1_Timestamp = lr_Timestamp x,
      lr1_RetryCount = lr_RetryCount x\<rparr>"

lemma cast_source [simp]:
  "castFileSourceToV1 (castFileSourceToV2 a) = a" "castFileSourceToV2 (castFileSourceToV1 b) = b"
  by (simp_all add: castFileSourceToV1_def castFileSourceToV2_def)

lemma casts_invert [simp]:
  "castFileToV1 (castFileToV2 c) = c" "castFileToV2 (castFileToV1 d) = d"
  "castStrategyToV1 (castStrategyToV2 e) = e" "castStrategyToV2 (castStrategyToV1 f) = f"
  "castLastRemediationToV1 (castLastRemediationToV2 g) = g" "castLastRemediationToV2 (castLastRemediationToV1 i) = i"
  by (simp_all add: castFileToV1_def castFileToV2_def castStrategyToV1_def castStrategyToV2_def
      castLastRemediationToV1_def castLastRemediationToV2_def option.map_comp comp_def option.map_ident)

lemma casts_comp [simp]:
  "castFileToV1 \<circ> castFileToV2 = id" "castFileToV2 \<circ> castFileToV1 = id"
  "castStrategyToV1 \<circ> castStrategyToV2 = id" "castStrategyToV2 \<circ> castStrategyToV1 = id"
  "castLastRemediationToV1 \<circ> castLastRemediationToV2 = id" "castLastRemediationToV2 \<circ> castLastRemediationToV1 = id"
  by (simp_all add: fun_eq_iff)

section \<open>The parts of the bootstrap types\<close>

subsection \<open>v1beta1 to v1beta2\<close>

definition autoConvert_v1beta1_SecretFileSource_To_v1beta2_SecretFileSource ::
  "SecretFileSource_v1 \<Rightarrow> SecretFileSource \<Rightarrow> goerr + SecretFileSource" where
  [conv]: "autoConvert_v1beta1_SecretFileSource_To_v1beta2_SecretFileSource inp out =
     Inr (out\<lparr>sf_Name := sf1_Name inp, sf_Key := sf1_Key inp\<rparr>)"

definition Convert_v1beta1_SecretFileSource_To_v1beta2_SecretFileSource ::
  "SecretFileSource_v1 \<Rightarrow> SecretFileSource \<Rightarrow> goerr + SecretFileSource" where
  [conv]: "Convert_v1beta1_SecretFileSource_To_v1beta2_SecretFileSource inp out =
     autoConvert_v1beta1_SecretFileSource_To_v1beta2_SecretFileSource inp out"

definition autoConvert_v1beta1_FileSource_To_v1beta2_FileSource ::
  "FileSource_v1 \<Rightarrow> FileSource \<Rightarrow> goerr + FileSource" where
  [conv]: "autoConvert_v1beta1_FileSource_To_v1beta2_FileSource inp out =
     andThen (Convert_v1beta1_SecretFileSource_To_v1beta2_SecretFileSource (fs1_Secret inp) (fs_Secret out)) (\<lambda>x.
     Inr (out\<lparr>fs_Secret := x\<rparr>))"

definition Convert_v1beta1_FileSource_To_v1beta2_FileSource ::
  "FileSource_v1 \<Rightarrow> FileSource \<Rightarrow> goerr + FileSource" where
  [conv]: "Convert_v1beta1_FileSource_To_v1beta2_FileSource inp out =
     autoConvert_v1beta1_FileSource_To_v1beta2_FileSource inp out"

definition autoConvert_v1beta1_File_To_v1beta2_File ::
  "File_v1 \<Rightarrow> File \<Rightarrow> goerr + File" where
  [conv]: "autoConvert_v1beta1_File_To_v1beta2_File inp out =
     Inr (out\<lparr>f_Path := f1_Path inp, f_Owner := f1_Owner inp, f_Permissions := f1_Permissions inp,
        f_Encoding := f1_Encoding inp, f_Content := f1_Content inp,
        f_ContentFrom := map_option castFileSourceToV2 (f1_ContentFrom inp)\<rparr>)"

definition Convert_v1beta1_File_To_v1beta2_File ::
  "File_v1 \<Rightarrow> File \<Rightarrow> goerr + File" where
  [conv]: "Convert_v1beta1_File_To_v1beta2_File inp out =
     autoConvert_v1beta1_File_To_v1beta2_File inp out"

definition autoConvert_v1beta1_KThreesAgentConfig_To_v1beta2_KThreesAgentConfig ::
  "KThreesAgentConfig_v1 \<Rightarrow> KThreesAgentConfig \<Rightarrow> goerr + KThreesAgentConfig" where
  [conv]: "autoConvert_v1beta1_KThreesAgentConfig_To_v1beta2_KThreesAgentConfig inp out =
     Inr (out\<lparr>ac_NodeLabels := ac1_NodeLabels inp, ac_NodeTaints := ac1_NodeTaints inp,
        ac_PrivateRegistry := ac1_PrivateRegistry inp, ac_KubeletArgs := ac1_KubeletArgs inp,
        ac_KubeProxyArgs := ac1_KubeProxyArgs inp, ac_NodeName := ac1_NodeName inp,
        ac_AirGapped := ac1_AirGapped inp\<rparr>)"

definition Convert_v1beta1_KThreesAgentConfig_To_v1beta2_KThreesAgentConfig ::
  "KThreesAgentConfig_v1 \<Rightarrow> KThreesAgentConfig \<Rightarrow> goerr + KThreesAgentConfig" where
  [conv]: "Convert_v1beta1_KThreesAgentConfig_To_v1beta2_KThreesAgentConfig inp out =
     autoConvert_v1beta1_KThreesAgentConfig_To_v1beta2_KThreesAgentConfig inp out"

definition autoConvert_v1beta1_KThreesServerConfig_To_v1beta2_KThreesServerConfig ::
  "KThreesServerConfig_v1 \<Rightarrow> KThreesServerConfig \<Rightarrow> goerr + KThreesServerConfig" where
  [conv]: "autoConvert_v1beta1_KThreesServerConfig_To_v1beta2_KThreesServerConfig inp out =
     Inr (out\<lparr>sc_KubeAPIServerArgs := sc1_KubeAPIServerArgs inp,
        sc_KubeControllerManagerArgs := sc1_KubeControllerManagerArgs inp,
        sc_KubeSchedulerArgs := sc1_KubeSchedulerArgs inp, sc_TLSSan := sc1_TLSSan inp,
        sc_BindAddress := sc1_BindAddress inp, sc_HTTPSListenPort := sc1_HTTPSListenPort inp,
        sc_AdvertiseAddress := sc1_AdvertiseAddress inp, sc_AdvertisePort := sc1_AdvertisePort inp,
        sc_ClusterCidr := sc1_ClusterCidr inp, sc_ServiceCidr := sc1_ServiceCidr inp,
        sc_ClusterDNS := sc1_ClusterDNS inp, sc_ClusterDomain := sc1_ClusterDomain inp,
        sc_DisableComponents := sc1_DisableComponents inp\<rparr>)"

definition Convert_v1beta1_KThreesServerConfig_To_v1beta2_KThreesServerConfig ::
  "KThreesServerConfig_v1 \<Rightarrow> KThreesServerConfig \<Rightarrow> goerr + KThreesServerConfig" where
  [conv]: "Convert_v1beta1_KThreesServerConfig_To_v1beta2_KThreesServerConfig inp out =
     andThen (orWrap ''converting KThreesServerConfig v1beta1 to v1beta2'' (autoConvert_v1beta1_KThreesServerConfig_To_v1beta2_KThreesServerConfig inp out)) (\<lambda>out1.
     let out2 = out1\<lparr>sc_DeprecatedDisableExternalCloudProvider := sc1_DisableExternalCloudProvider inp\<rparr>
     in Inr (if \<not> sc1_DisableExternalCloudProvider inp
             then out2\<lparr>sc_CloudProviderName := Some ''external'', sc_DisableCloudController := Some True\<rparr>
             else out2\<lparr>sc_CloudProviderName := Some [], sc_DisableCloudController := Some False\<rparr>))"

definition autoConvert_v1beta1_KThreesConfigSpec_To_v1beta2_KThreesConfigSpec ::
  "KThreesConfigSpec_v1 \<Rightarrow> KThreesConfigSpec \<Rightarrow> goerr + KThreesConfigSpec" where
  [conv]: "autoConvert_v1beta1_KThreesConfigSpec_To_v1beta2_KThreesConfigSpec inp out =
     andThen (Convert_v1beta1_KThreesAgentConfig_To_v1beta2_KThreesAgentConfig (kc1_AgentConfig inp) (kc_AgentConfig out)) (\<lambda>ac.
     andThen (Convert_v1beta1_KThreesServerConfig_To_v1beta2_KThreesServerConfig (kc1_ServerConfig inp) (kc_ServerConfig out)) (\<lambda>sc.
     Inr (out\<lparr>kc_Files := map_option (map castFileToV2) (kc1_Files inp), kc_PreK3sCommands := kc1_PreK3sCommands inp,
        kc_PostK3sCommands := kc1_PostK3sCommands inp, kc_AgentConfig := ac, kc_ServerConfig := sc,
        kc_Version := kc1_Version inp\<rparr>)))"

definition Convert_v1beta1_KThreesConfigSpec_To_v1beta2_KThreesConfigSpec ::
  "KThreesConfigSpec_v1 \<Rightarrow> KThreesConfigSpec \<Rightarrow> goerr + KThreesConfigSpec" where
  [conv]: "Convert_v1beta1_KThreesConfigSpec_To_v1beta2_KThreesConfigSpec inp out =
     autoConvert_v1beta1_KThreesConfigSpec_To_v1beta2_KThreesConfigSpec inp out"

definition autoConvert_v1beta1_KThreesConfigStatus_To_v1beta2_KThreesConfigStatus ::
  "KThreesConfigStatus_v1 \<Rightarrow> KThreesConfigStatus \<Rightarrow> goerr + KThreesConfigStatus" where
  [conv]: "autoConvert_v1beta1_KThreesConfigStatus_To_v1beta2_KThreesConfigStatus inp out =
     Inr (out\<lparr>ks_Ready := ks1_Ready inp, ks_BootstrapData := ks1_BootstrapData inp,
        ks_DataSecretName := ks1_DataSecretName inp, ks_FailureReason := ks1_FailureReason inp,
        ks_FailureMessage := ks1_FailureMessage inp, ks_ObservedGeneration := ks1_ObservedGeneration inp,
        ks_Conditions := ks1_Conditions inp\<rparr>)"

definition Convert_v1beta1_KThreesConfigStatus_To_v1beta2_KThreesConfigStatus ::
  "KThreesConfigStatus_v1 \<Rightarrow> KThreesConfigStatus \<Rightarrow> goerr + KThreesConfigStatus" where
  [conv]: "Convert_v1beta1_KThreesConfigStatus_To_v1beta2_KThreesConfigStatus inp out =
     autoConvert_v1beta1_KThreesConfigStatus_To_v1beta2_KThreesConfigStatus inp out"

definition autoConvert_v1beta1_KThreesConfig_To_v1beta2_KThreesConfig ::
  "KThreesConfig_v1 \<Rightarrow> KThreesConfig \<Rightarrow> goerr + KThreesConfig" where
  [conv]: "autoConvert_v1beta1_KThreesConfig_To_v1beta2_KThreesConfig inp out =
     andThen (Convert_v1beta1_KThreesConfigSpec_To_v1beta2_KThreesConfigSpec (kt1_Spec inp) (kt_Spec out)) (\<lambda>sp.
     andThen (Convert_v1beta1_KThreesConfigStatus_To_v1beta2_KThreesConfigStatus (kt1_Status inp) (kt_Status out)) (\<lambda>st.
     Inr (out\<lparr>kt_Meta := kt1_Meta inp, kt_Spec := sp, kt_Status := st\<rparr>)))"

definition Convert_v1beta1_KThreesConfig_To_v1beta2_KThreesConfig ::
  "KThreesConfig_v1 \<Rightarrow> KThreesConfig \<Rightarrow> goerr + KThreesConfig" where
  [conv]: "Convert_v1beta1_KThreesConfig_To_v1beta2_KThreesConfig inp out =
     autoConvert_v1beta1_KThreesConfig_To_v1beta2_KThreesConfig inp out"

text \<open>The specification of a template is nested in two more types with one field each
  (\<^verbatim>\<open>Spec.Template.Spec\<close>), which the records leave out; their conversion functions pass
  the work on.\<close>

definition autoConvert_v1beta1_KThreesConfigTemplateResource_To_v1beta2_KThreesConfigTemplateResource ::
  "KThreesConfigSpec_v1 \<Rightarrow> KThreesConfigSpec \<Rightarrow> goerr + KThreesConfigSpec" where
  [conv]: "autoConvert_v1beta1_KThreesConfigTemplateResource_To_v1beta2_KThreesConfigTemplateResource inp out =
     Convert_v1beta1_KThreesConfigSpec_To_v1beta2_KThreesConfigSpec inp out"

definition Convert_v1beta1_KThreesConfigTemplateResource_To_v1beta2_KThreesConfigTemplateResource ::
  "KThreesConfigSpec_v1 \<Rightarrow> KThreesConfigSpec \<Rightarrow> goerr + KThreesConfigSpec" where
  [conv]: "Convert_v1beta1_KThreesConfigTemplateResource_To_v1beta2_KThreesConfigTemplateResource inp out =
     autoConvert_v1beta1_KThreesConfigTemplateResource_To_v1beta2_KThreesConfigTemplateResource inp out"

definition autoConvert_v1beta1_KThreesConfigTemplateSpec_To_v1beta2_KThreesConfigTemplateSpec ::
  "KThreesConfigSpec_v1 \<Rightarrow> KThreesConfigSpec \<Rightarrow> goerr + KThreesConfigSpec" where
  [conv]: "autoConvert_v1beta1_KThreesConfigTemplateSpec_To_v1beta2_KThreesConfigTemplateSpec inp out =
     Convert_v1beta1_KThreesConfigTemplateResource_To_v1beta2_KThreesConfigTemplateResource inp out"

definition Convert_v1beta1_KThreesConfigTemplateSpec_To_v1beta2_KThreesConfigTemplateSpec ::
  "KThreesConfigSpec_v1 \<Rightarrow> KThreesConfigSpec \<Rightarrow> goerr + KThreesConfigSpec" where
  [conv]: "Convert_v1beta1_KThreesConfigTemplateSpec_To_v1beta2_KThreesConfigTemplateSpec inp out =
     autoConvert_v1beta1_KThreesConfigTemplateSpec_To_v1beta2_KThreesConfigTemplateSpec inp out"

definition autoConvert_v1beta1_KThreesConfigTemplate_To_v1beta2_KThreesConfigTemplate ::
  "KThreesConfigTemplate_v1 \<Rightarrow> KThreesConfigTemplate \<Rightarrow> goerr + KThreesConfigTemplate" where
  [conv]: "autoConvert_v1beta1_KThreesConfigTemplate_To_v1beta2_KThreesConfigTemplate inp out =
     andThen (Convert_v1beta1_KThreesConfigTemplateSpec_To_v1beta2_KThreesConfigTemplateSpec (ktt1_Spec inp) (ktt_Spec out)) (\<lambda>sp.
     Inr (out\<lparr>ktt_Meta := ktt1_Meta inp, ktt_Spec := sp\<rparr>))"

definition Convert_v1beta1_KThreesConfigTemplate_To_v1beta2_KThreesConfigTemplate ::
  "KThreesConfigTemplate_v1 \<Rightarrow> KThreesConfigTemplate \<Rightarrow> goerr + KThreesConfigTemplate" where
  [conv]: "Convert_v1beta1_KThreesConfigTemplate_To_v1beta2_KThreesConfigTemplate inp out =
     autoConvert_v1beta1_KThreesConfigTemplate_To_v1beta2_KThreesConfigTemplate inp out"

subsection \<open>v1beta2 to v1beta1\<close>

definition autoConvert_v1beta2_SecretFileSource_To_v1beta1_SecretFileSource ::
  "SecretFileSource \<Rightarrow> SecretFileSource_v1 \<Rightarrow> goerr + SecretFileSource_v1" where
  [conv]: "autoConvert_v1beta2_SecretFileSource_To_v1beta1_SecretFileSource inp out =
     Inr (out\<lparr>sf1_Name := sf_Name inp, sf1_Key := sf_Key inp\<rparr>)"

definition Convert_v1beta2_SecretFileSource_To_v1beta1_SecretFileSource ::
  "SecretFileSource \<Rightarrow> SecretFileSource_v1 \<Rightarrow> goerr + SecretFileSource_v1" where
  [conv]: "Convert_v1beta2_SecretFileSource_To_v1beta1_SecretFileSource inp out =
     autoConvert_v1beta2_SecretFileSource_To_v1beta1_SecretFileSource inp out"

definition autoConvert_v1beta2_FileSource_To_v1beta1_FileSource ::
  "FileSource \<Rightarrow> FileSource_v1 \<Rightarrow> goerr + FileSource_v1" where
  [conv]: "autoConvert_v1beta2_FileSource_To_v1beta1_FileSource inp out =
     andThen (Convert_v1beta2_SecretFileSource_To_v1beta1_SecretFileSource (fs_Secret inp) (fs1_Secret out)) (\<lambda>x.
     Inr (out\<lparr>fs1_Secret := x\<rparr>))"

definition Convert_v1beta2_FileSource_To_v1beta1_FileSource ::
  "FileSource \<Rightarrow> FileSource_v1 \<Rightarrow> goerr + FileSource_v1" where
  [conv]: "Convert_v1beta2_FileSource_To_v1beta1_FileSource inp out =
     autoConvert_v1beta2_FileSource_To_v1beta1_FileSource inp out"

definition autoConvert_v1beta2_File_To_v1beta1_File ::
  "File \<Rightarrow> File_v1 \<Rightarrow> goerr + File_v1" where
  [conv]: "autoConvert_v1beta2_File_To_v1beta1_File inp out =
     Inr (out\<lparr>f1_Path := f_Path inp, f1_Owner := f_Owner inp, f1_Permissions := f_Permissions inp,
        f1_Encoding := f_Encoding inp, f1_Content := f_Content inp,
        f1_ContentFrom := map_option castFileSourceToV1 (f_ContentFrom inp)\<rparr>)"

definition Convert_v1beta2_File_To_v1beta1_File ::
  "File \<Rightarrow> File_v1 \<Rightarrow> goerr + File_v1" where
  [conv]: "Convert_v1beta2_File_To_v1beta1_File inp out =
     autoConvert_v1beta2_File_To_v1beta1_File inp out"

definition autoConvert_v1beta2_KThreesAgentConfig_To_v1beta1_KThreesAgentConfig ::
  "KThreesAgentConfig \<Rightarrow> KThreesAgentConfig_v1 \<Rightarrow> goerr + KThreesAgentConfig_v1" where
  [conv]: "autoConvert_v1beta2_KThreesAgentConfig_To_v1beta1_KThreesAgentConfig inp out =
     Inr (out\<lparr>ac1_NodeLabels := ac_NodeLabels inp, ac1_NodeTaints := ac_NodeTaints inp,
        ac1_PrivateRegistry := ac_PrivateRegistry inp, ac1_KubeletArgs := ac_KubeletArgs inp,
        ac1_KubeProxyArgs := ac_KubeProxyArgs inp, ac1_NodeName := ac_NodeName inp,
        ac1_AirGapped := ac_AirGapped inp\<rparr>)"

definition Convert_v1beta2_KThreesAgentConfig_To_v1beta1_KThreesAgentConfig ::
  "KThreesAgentConfig \<Rightarrow> KThreesAgentConfig_v1 \<Rightarrow> goerr + KThreesAgentConfig_v1" where
  [conv]: "Convert_v1beta2_KThreesAgentConfig_To_v1beta1_KThreesAgentConfig inp out =
     autoConvert_v1beta2_KThreesAgentConfig_To_v1beta1_KThreesAgentConfig inp out"

definition autoConvert_v1beta2_KThreesServerConfig_To_v1beta1_KThreesServerConfig ::
  "KThreesServerConfig \<Rightarrow> KThreesServerConfig_v1 \<Rightarrow> goerr + KThreesServerConfig_v1" where
  [conv]: "autoConvert_v1beta2_KThreesServerConfig_To_v1beta1_KThreesServerConfig inp out =
     Inr (out\<lparr>sc1_KubeAPIServerArgs := sc_KubeAPIServerArgs inp,
        sc1_KubeControllerManagerArgs := sc_KubeControllerManagerArgs inp,
        sc1_KubeSchedulerArgs := sc_KubeSchedulerArgs inp, sc1_TLSSan := sc_TLSSan inp,
        sc1_BindAddress := sc_BindAddress inp, sc1_HTTPSListenPort := sc_HTTPSListenPort inp,
        sc1_AdvertiseAddress := sc_AdvertiseAddress inp, sc1_AdvertisePort := sc_AdvertisePort inp,
        sc1_ClusterCidr := sc_ClusterCidr inp, sc1_ServiceCidr := sc_ServiceCidr inp,
        sc1_ClusterDNS := sc_ClusterDNS inp, sc1_ClusterDomain := sc_ClusterDomain inp,
        sc1_DisableComponents := sc_DisableComponents inp\<rparr>)"

definition Convert_v1beta2_KThreesServerConfig_To_v1beta1_KThreesServerConfig ::
  "KThreesServerConfig \<Rightarrow> KThreesServerConfig_v1 \<Rightarrow> goerr + KThreesServerConfig_v1" where
  [conv]: "Convert_v1beta2_KThreesServerConfig_To_v1beta1_KThreesServerConfig inp out =
     andThen (orWrap ''converting KThreesServerConfig v1beta2 to v1beta1'' (autoConvert_v1beta2_KThreesServerConfig_To_v1beta1_KThreesServerConfig inp out)) (\<lambda>out1.
     Inr (out1\<lparr>sc1_DisableExternalCloudProvider := sc_DeprecatedDisableExternalCloudProvider inp\<rparr>))"

definition autoConvert_v1beta2_KThreesConfigSpec_To_v1beta1_KThreesConfigSpec ::
  "KThreesConfigSpec \<Rightarrow> KThreesConfigSpec_v1 \<Rightarrow> goerr + KThreesConfigSpec_v1" where
  [conv]: "autoConvert_v1beta2_KThreesConfigSpec_To_v1beta1_KThreesConfigSpec inp out =
     andThen (Convert_v1beta2_KThreesAgentConfig_To_v1beta1_KThreesAgentConfig (kc_AgentConfig inp) (kc1_AgentConfig out)) (\<lambda>ac.
     andThen (Convert_v1beta2_KThreesServerConfig_To_v1beta1_KThreesServerConfig (kc_ServerConfig inp) (kc1_ServerConfig out)) (\<lambda>sc.
     Inr (out\<lparr>kc1_Files := map_option (map castFileToV1) (kc_Files inp), kc1_PreK3sCommands := kc_PreK3sCommands inp,
        kc1_PostK3sCommands := kc_PostK3sCommands inp, kc1_AgentConfig := ac, kc1_ServerConfig := sc,
        kc1_Version := kc_Version inp\<rparr>)))"

definition Convert_v1beta2_KThreesConfigSpec_To_v1beta1_KThreesConfigSpec ::
  "KThreesConfigSpec \<Rightarrow> KThreesConfigSpec_v1 \<Rightarrow> goerr + KThreesConfigSpec_v1" where
  [conv]: "Convert_v1beta2_KThreesConfigSpec_To_v1beta1_KThreesConfigSpec inp out =
     autoConvert_v1beta2_KThreesConfigSpec_To_v1beta1_KThreesConfigSpec inp out"

definition autoConvert_v1beta2_KThreesConfigStatus_To_v1beta1_KThreesConfigStatus ::
  "KThreesConfigStatus \<Rightarrow> KThreesConfigStatus_v1 \<Rightarrow> goerr + KThreesConfigStatus_v1" where
  [conv]: "autoConvert_v1beta2_KThreesConfigStatus_To_v1beta1_KThreesConfigStatus inp out =
     Inr (out\<lparr>ks1_Ready := ks_Ready inp, ks1_BootstrapData := ks_BootstrapData inp,
        ks1_DataSecretName := ks_DataSecretName inp, ks1_FailureReason := ks_FailureReason inp,
        ks1_FailureMessage := ks_FailureMessage inp, ks1_ObservedGeneration := ks_ObservedGeneration inp,
        ks1_Conditions := ks_Conditions inp\<rparr>)"

definition Convert_v1beta2_KThreesConfigStatus_To_v1beta1_KThreesConfigStatus ::
  "KThreesConfigStatus \<Rightarrow> KThreesConfigStatus_v1 \<Rightarrow> goerr + KThreesConfigStatus_v1" where
  [conv]: "Convert_v1beta2_KThreesConfigStatus_To_v1beta1_KThreesConfigStatus inp out =
     autoConvert_v1beta2_KThreesConfigStatus_To_v1beta1_KThreesConfigStatus inp out"

definition autoConvert_v1beta2_KThreesConfig_To_v1beta1_KThreesConfig ::
  "KThreesConfig \<Rightarrow> KThreesConfig_v1 \<Rightarrow> goerr + KThreesConfig_v1" where
  [conv]: "autoConvert_v1beta2_KThreesConfig_To_v1beta1_KThreesConfig inp out =
     andThen (Convert_v1beta2_KThreesConfigSpec_To_v1beta1_KThreesConfigSpec (kt_Spec inp) (kt1_Spec out)) (\<lambda>sp.
     andThen (Convert_v1beta2_KThreesConfigStatus_To_v1beta1_KThreesConfigStatus (kt_Status inp) (kt1_Status out)) (\<lambda>st.
     Inr (out\<lparr>kt1_Meta := kt_Meta inp, kt1_Spec := sp, kt1_Status := st\<rparr>)))"

definition Convert_v1beta2_KThreesConfig_To_v1beta1_KThreesConfig ::
  "KThreesConfig \<Rightarrow> KThreesConfig_v1 \<Rightarrow> goerr + KThreesConfig_v1" where
  [conv]: "Convert_v1beta2_KThreesConfig_To_v1beta1_KThreesConfig inp out =
     autoConvert_v1beta2_KThreesConfig_To_v1beta1_KThreesConfig inp out"


definition autoConvert_v1beta2_KThreesConfigTemplateResource_To_v1beta1_KThreesConfigTemplateResource ::
  "KThreesConfigSpec \<Rightarrow> KThreesConfigSpec_v1 \<Rightarrow> goerr + KThreesConfigSpec_v1" where
  [conv]: "autoConvert_v1beta2_KThreesConfigTemplateResource_To_v1beta1_KThreesConfigTemplateResource inp out =
     Convert_v1beta2_KThreesConfigSpec_To_v1beta1_KThreesConfigSpec inp out"

definition Convert_v1beta2_KThreesConfigTemplateResource_To_v1beta1_KThreesConfigTemplateResource ::
  "KThreesConfigSpec \<Rightarrow> KThreesConfigSpec_v1 \<Rightarrow> goerr + KThreesConfigSpec_v1" where
  [conv]: "Convert_v1beta2_KThreesConfigTemplateResource_To_v1beta1_KThreesConfigTemplateResource inp out =
     autoConvert_v1beta2_KThreesConfigTemplateResource_To_v1beta1_KThreesConfigTemplateResource inp out"

definition autoConvert_v1beta2_KThreesConfigTemplateSpec_To_v1beta1_KThreesConfigTemplateSpec ::
  "KThreesConfigSpec \<Rightarrow> KThreesConfigSpec_v1 \<Rightarrow> goerr + KThreesConfigSpec_v1" where
  [conv]: "autoConvert_v1beta2_KThreesConfigTemplateSpec_To_v1beta1_KThreesConfigTemplateSpec inp out =
     Convert_v1beta2_KThreesConfigTemplateResource_To_v1beta1_KThreesConfigTemplateResource inp out"

definition Convert_v1beta2_KThreesConfigTemplateSpec_To_v1beta1_KThreesConfigTemplateSpec ::
  "KThreesConfigSpec \<Rightarrow> KThreesConfigSpec_v1 \<Rightarrow> goerr + KThreesConfigSpec_v1" where
  [conv]: "Convert_v1beta2_KThreesConfigTemplateSpec_To_v1beta1_KThreesConfigTemplateSpec inp out =
     autoConvert_v1beta2_KThreesConfigTemplateSpec_To_v1beta1_KThreesConfigTemplateSpec inp out"

definition autoConvert_v1beta2_KThreesConfigTemplate_To_v1beta1_KThreesConfigTemplate ::
  "KThreesConfigTemplate \<Rightarrow> KThreesConfigTemplate_v1 \<Rightarrow> goerr + KThreesConfigTemplate_v1" where
  [conv]: "autoConvert_v1beta2_KThreesConfigTemplate_To_v1beta1_KThreesConfigTemplate inp out =
     andThen (Convert_v1beta2_KThreesConfigTemplateSpec_To_v1beta1_KThreesConfigTemplateSpec (ktt_Spec inp) (ktt1_Spec out)) (\<lambda>sp.
     Inr (out\<lparr>ktt1_Meta := ktt_Meta inp, ktt1_Spec := sp\<rparr>))"

definition Convert_v1beta2_KThreesConfigTemplate_To_v1beta1_KThreesConfigTemplate ::
  "KThreesConfigTemplate \<Rightarrow> KThreesConfigTemplate_v1 \<Rightarrow> goerr + KThreesConfigTemplate_v1" where
  [conv]: "Convert_v1beta2_KThreesConfigTemplate_To_v1beta1_KThreesConfigTemplate inp out =
     autoConvert_v1beta2_KThreesConfigTemplate_To_v1beta1_KThreesConfigTemplate inp out"

section \<open>The parts of the control plane types\<close>

subsection \<open>v1beta1 to v1beta2\<close>

definition autoConvert_v1beta1_RemediationStrategy_To_v1beta2_RemediationStrategy ::
  "RemediationStrategy_v1 \<Rightarrow> RemediationStrategy \<Rightarrow> goerr + RemediationStrategy" where
  [conv]: "autoConvert_v1beta1_RemediationStrategy_To_v1beta2_RemediationStrategy inp out =
     Inr (out\<lparr>rs_MaxRetry := rs1_MaxRetry inp, rs_RetryPeriod := rs1_RetryPeriod inp,
        rs_MinHealthyPeriod := rs1_MinHealthyPeriod inp\<rparr>)"

definition Convert_v1beta1_RemediationStrategy_To_v1beta2_RemediationStrategy ::
  "RemediationStrategy_v1 \<Rightarrow> RemediationStrategy \<Rightarrow> goerr + RemediationStrategy" where
  [conv]: "Convert_v1beta1_RemediationStrategy_To_v1beta2_RemediationStrategy inp out =
     autoConvert_v1beta1_RemediationStrategy_To_v1beta2_RemediationStrategy inp out"

definition autoConvert_v1beta1_LastRemediationStatus_To_v1beta2_LastRemediationStatus ::
  "LastRemediationStatus_v1 \<Rightarrow> LastRemediationStatus \<Rightarrow> goerr + LastRemediationStatus" where
  [conv]: "autoConvert_v1beta1_LastRemediationStatus_To_v1beta2_LastRemediationStatus inp out =
     Inr (out\<lparr>lr_Machine := lr1_Machine inp, lr_Timestamp := lr1_Timestamp inp, lr_RetryCount := lr1_RetryCount inp\<rparr>)"

definition Convert_v1beta1_LastRemediationStatus_To_v1beta2_LastRemediationStatus ::
  "LastRemediationStatus_v1 \<Rightarrow> LastRemediationStatus \<Rightarrow> goerr + LastRemediationStatus" where
  [conv]: "Convert_v1beta1_LastRemediationStatus_To_v1beta2_LastRemediationStatus inp out =
     autoConvert_v1beta1_LastRemediationStatus_To_v1beta2_LastRemediationStatus inp out"

definition autoConvert_v1beta1_KThreesControlPlaneMachineTemplate_To_v1beta2_KThreesControlPlaneMachineTemplate ::
  "MachineTemplate_v1 \<Rightarrow> MachineTemplate \<Rightarrow> goerr + MachineTemplate" where
  [conv]: "autoConvert_v1beta1_KThreesControlPlaneMachineTemplate_To_v1beta2_KThreesControlPlaneMachineTemplate inp out =
     Inr (out\<lparr>mt_Labels := mt1_Labels inp, mt_Annotations := mt1_Annotations inp\<rparr>)"

definition Convert_v1beta1_KThreesControlPlaneMachineTemplate_To_v1beta2_KThreesControlPlaneMachineTemplate ::
  "MachineTemplate_v1 \<Rightarrow> MachineTemplate \<Rightarrow> goerr + MachineTemplate" where
  [conv]: "Convert_v1beta1_KThreesControlPlaneMachineTemplate_To_v1beta2_KThreesControlPlaneMachineTemplate inp out =
     autoConvert_v1beta1_KThreesControlPlaneMachineTemplate_To_v1beta2_KThreesControlPlaneMachineTemplate inp out"

definition Convert_v1beta1_KThreesControlPlaneSpec_To_v1beta2_KThreesControlPlaneSpec ::
  "KThreesControlPlaneSpec_v1 \<Rightarrow> KThreesControlPlaneSpec \<Rightarrow> goerr + KThreesControlPlaneSpec" where
  [conv]: "Convert_v1beta1_KThreesControlPlaneSpec_To_v1beta2_KThreesControlPlaneSpec inp out =
     andThen (orWrap ''converting KThreesConfigSpec field from v1beta1 to v1beta2''
       (Convert_v1beta1_KThreesConfigSpec_To_v1beta2_KThreesConfigSpec (ps1_KThreesConfigSpec inp) (ps_KThreesConfigSpec out))) (\<lambda>kc.
     andThen (orWrap ''converting KThreesControlPlaneMachineTemplate field from v1beta1 to v1beta2''
       (Convert_v1beta1_KThreesControlPlaneMachineTemplate_To_v1beta2_KThreesControlPlaneMachineTemplate (ps1_MachineTemplate inp) (ps_MachineTemplate out))) (\<lambda>mt.
     Inr (out\<lparr>ps_Replicas := ps1_Replicas inp, ps_Version := ps1_Version inp, ps_KThreesConfigSpec := kc,
        ps_RolloutAfter := ps1_UpgradeAfter inp,
        ps_MachineTemplate := mt\<lparr>mt_NodeDrainTimeout := ps1_NodeDrainTimeout inp, mt_InfrastructureRef := ps1_InfrastructureTemplate inp\<rparr>,
        ps_RemediationStrategy := map_option castStrategyToV2 (ps1_RemediationStrategy inp)\<rparr>)))"

definition autoConvert_v1beta1_KThreesControlPlaneStatus_To_v1beta2_KThreesControlPlaneStatus ::
  "KThreesControlPlaneStatus_v1 \<Rightarrow> KThreesControlPlaneStatus \<Rightarrow> goerr + KThreesControlPlaneStatus" where
  [conv]: "autoConvert_v1beta1_KThreesControlPlaneStatus_To_v1beta2_KThreesControlPlaneStatus inp out =
     Inr (out\<lparr>st_Selector := st1_Selector inp, st_Replicas := st1_Replicas inp,
        st_UpdatedReplicas := st1_UpdatedReplicas inp, st_ReadyReplicas := st1_ReadyReplicas inp,
        st_UnavailableReplicas := st1_UnavailableReplicas inp, st_Initialized := st1_Initialized inp,
        st_Ready := st1_Ready inp, st_FailureReason := st1_FailureReason inp,
        st_FailureMessage := st1_FailureMessage inp, st_ObservedGeneration := st1_ObservedGeneration inp,
        st_Conditions := st1_Conditions inp,
        st_LastRemediation := map_option castLastRemediationToV2 (st1_LastRemediation inp)\<rparr>)"

definition Convert_v1beta1_KThreesControlPlaneStatus_To_v1beta2_KThreesControlPlaneStatus ::
  "KThreesControlPlaneStatus_v1 \<Rightarrow> KThreesControlPlaneStatus \<Rightarrow> goerr + KThreesControlPlaneStatus" where
  [conv]: "Convert_v1beta1_KThreesControlPlaneStatus_To_v1beta2_KThreesControlPlaneStatus inp out =
     autoConvert_v1beta1_KThreesControlPlaneStatus_To_v1beta2_KThreesControlPlaneStatus inp out"

definition autoConvert_v1beta1_KThreesControlPlane_To_v1beta2_KThreesControlPlane ::
  "KThreesControlPlane_v1 \<Rightarrow> KThreesControlPlane \<Rightarrow> goerr + KThreesControlPlane" where
  [conv]: "autoConvert_v1beta1_KThreesControlPlane_To_v1beta2_KThreesControlPlane inp out =
     andThen (Convert_v1beta1_KThreesControlPlaneSpec_To_v1beta2_KThreesControlPlaneSpec (kp1_Spec inp) (kp_Spec out)) (\<lambda>sp.
     andThen (Convert_v1beta1_KThreesControlPlaneStatus_To_v1beta2_KThreesControlPlaneStatus (kp1_Status inp) (kp_Status out)) (\<lambda>st.
     Inr (out\<lparr>kp_Meta := kp1_Meta inp, kp_Spec := sp, kp_Status := st\<rparr>)))"

definition Convert_v1beta1_KThreesControlPlane_To_v1beta2_KThreesControlPlane ::
  "KThreesControlPlane_v1 \<Rightarrow> KThreesControlPlane \<Rightarrow> goerr + KThreesControlPlane" where
  [conv]: "Convert_v1beta1_KThreesControlPlane_To_v1beta2_KThreesControlPlane inp out =
     autoConvert_v1beta1_KThreesControlPlane_To_v1beta2_KThreesControlPlane inp out"

subsection \<open>v1beta2 to v1beta1\<close>

definition autoConvert_v1beta2_RemediationStrategy_To_v1beta1_RemediationStrategy ::
  "RemediationStrategy \<Rightarrow> RemediationStrategy_v1 \<Rightarrow> goerr + RemediationStrategy_v1" where
  [conv]: "autoConvert_v1beta2_RemediationStrategy_To_v1beta1_RemediationStrategy inp out =
     Inr (out\<lparr>rs1_MaxRetry := rs_MaxRetry inp, rs1_RetryPeriod := rs_RetryPeriod inp,
        rs1_MinHealthyPeriod := rs_MinHealthyPeriod inp\<rparr>)"

definition Convert_v1beta2_RemediationStrategy_To_v1beta1_RemediationStrategy ::
  "RemediationStrategy \<Rightarrow> RemediationStrategy_v1 \<Rightarrow> goerr + RemediationStrategy_v1" where
  [conv]: "Convert_v1beta2_RemediationStrategy_To_v1beta1_RemediationStrategy inp out =
     autoConvert_v1beta2_RemediationStrategy_To_v1beta1_RemediationStrategy inp out"

definition autoConvert_v1beta2_LastRemediationStatus_To_v1beta1_LastRemediationStatus ::
  "LastRemediationStatus \<Rightarrow> LastRemediationStatus_v1 \<Rightarrow> goerr + LastRemediationStatus_v1" where
  [conv]: "autoConvert_v1beta2_LastRemediationStatus_To_v1beta1_LastRemediationStatus inp out =
     Inr (out\<lparr>lr1_Machine := lr_Machine inp, lr1_Timestamp := lr_Timestamp inp, lr1_RetryCount := lr_RetryCount inp\<rparr>)"

definition Convert_v1beta2_LastRemediationStatus_To_v1beta1_LastRemediationStatus ::
  "LastRemediationStatus \<Rightarrow> LastRemediationStatus_v1 \<Rightarrow> goerr + LastRemediationStatus_v1" where
  [conv]: "Convert_v1beta2_LastRemediationStatus_To_v1beta1_LastRemediationStatus inp out =
     autoConvert_v1beta2_LastRemediationStatus_To_v1beta1_LastRemediationStatus inp out"

definition autoConvert_v1beta2_KThreesControlPlaneMachineTemplate_To_v1beta1_KThreesControlPlaneMachineTemplate ::
  "MachineTemplate \<Rightarrow> MachineTemplate_v1 \<Rightarrow> goerr + MachineTemplate_v1" where
  [conv]: "autoConvert_v1beta2_KThreesControlPlaneMachineTemplate_To_v1beta1_KThreesControlPlaneMachineTemplate inp out =
     Inr (out\<lparr>mt1_Labels := mt_Labels inp, mt1_Annotations := mt_Annotations inp\<rparr>)"

definition Convert_v1beta2_KThreesControlPlaneMachineTemplate_To_v1beta1_KThreesControlPlaneMachineTemplate ::
  "MachineTemplate \<Rightarrow> MachineTemplate_v1 \<Rightarrow> goerr + MachineTemplate_v1" where
  [conv]: "Convert_v1beta2_KThreesControlPlaneMachineTemplate_To_v1beta1_KThreesControlPlaneMachineTemplate inp out =
     Inr (out\<lparr>mt1_Labels := mt_Labels inp, mt1_Annotations := mt_Annotations inp\<rparr>)"

definition Convert_v1beta2_KThreesControlPlaneSpec_To_v1beta1_KThreesControlPlaneSpec ::
  "KThreesControlPlaneSpec \<Rightarrow> KThreesControlPlaneSpec_v1 \<Rightarrow> goerr + KThreesControlPlaneSpec_v1" where
  [conv]: "Convert_v1beta2_KThreesControlPlaneSpec_To_v1beta1_KThreesControlPlaneSpec inp out =
     andThen (orWrap ''converting KThreesConfigSpec field from v1beta2 to v1beta1''
       (Convert_v1beta2_KThreesConfigSpec_To_v1beta1_KThreesConfigSpec (ps_KThreesConfigSpec inp) (ps1_KThreesConfigSpec out))) (\<lambda>kc.
     andThen (orWrap ''converting KThreesControlPlaneMachineTemplate field from v1beta2 to v1beta1''
       (Convert_v1beta2_KThreesControlPlaneMachineTemplate_To_v1beta1_KThreesControlPlaneMachineTemplate (ps_MachineTemplate inp) (ps1_MachineTemplate out))) (\<lambda>mt.
     Inr (out\<lparr>ps1_Replicas := ps_Replicas inp, ps1_Version := ps_Version inp,
        ps1_InfrastructureTemplate := mt_InfrastructureRef (ps_MachineTemplate inp),
        ps1_KThreesConfigSpec := kc, ps1_UpgradeAfter := ps_RolloutAfter inp,
        ps1_NodeDrainTimeout := mt_NodeDrainTimeout (ps_MachineTemplate inp), ps1_MachineTemplate := mt,
        ps1_RemediationStrategy := map_option castStrategyToV1 (ps_RemediationStrategy inp)\<rparr>)))"

definition autoConvert_v1beta2_KThreesControlPlaneStatus_To_v1beta1_KThreesControlPlaneStatus ::
  "KThreesControlPlaneStatus \<Rightarrow> KThreesControlPlaneStatus_v1 \<Rightarrow> goerr + KThreesControlPlaneStatus_v1" where
  [conv]: "autoConvert_v1beta2_KThreesControlPlaneStatus_To_v1beta1_KThreesControlPlaneStatus inp out =
     Inr (out\<lparr>st1_Selector := st_Selector inp, st1_Replicas := st_Replicas inp,
        st1_UpdatedReplicas := st_UpdatedReplicas inp, st1_ReadyReplicas := st_ReadyReplicas inp,
        st1_UnavailableReplicas := st_UnavailableReplicas inp, st1_Initialized := st_Initialized inp,
        st1_Ready := st_Ready inp, st1_FailureReason := st_FailureReason inp,
        st1_FailureMessage := st_FailureMessage inp, st1_ObservedGeneration := st_ObservedGeneration inp,
        st1_Conditions := st_Conditions inp,
        st1_LastRemediation := map_option castLastRemediationToV1 (st_LastRemediation inp)\<rparr>)"

definition Convert_v1beta2_KThreesControlPlaneStatus_To_v1beta1_KThreesControlPlaneStatus ::
  "KThreesControlPlaneStatus \<Rightarrow> KThreesControlPlaneStatus_v1 \<Rightarrow> goerr + KThreesControlPlaneStatus_v1" where
  [conv]: "Convert_v1beta2_KThreesControlPlaneStatus_To_v1beta1_KThreesControlPlaneStatus inp out =
     autoConvert_v1beta2_KThreesControlPlaneStatus_To_v1beta1_KThreesControlPlaneStatus inp out"

definition autoConvert_v1beta2_KThreesControlPlane_To_v1beta1_KThreesControlPlane ::
  "KThreesControlPlane \<Rightarrow> KThreesControlPlane_v1 \<Rightarrow> goerr + KThreesControlPlane_v1" where
  [conv]: "autoConvert_v1beta2_KThreesControlPlane_To_v1beta1_KThreesControlPlane inp out =
     andThen (Convert_v1beta2_KThreesControlPlaneSpec_To_v1beta1_KThreesControlPlaneSpec (kp_Spec inp) (kp1_Spec out)) (\<lambda>sp.
     andThen (Convert_v1beta2_KThreesControlPlaneStatus_To_v1beta1_KThreesControlPlaneStatus (kp_Status inp) (kp1_Status out)) (\<lambda>st.
     Inr (out\<lparr>kp1_Meta := kp_Meta inp, kp1_Spec := sp, kp1_Status := st\<rparr>)))"

definition Convert_v1beta2_KThreesControlPlane_To_v1beta1_KThreesControlPlane ::
  "KThreesControlPlane \<Rightarrow> KThreesControlPlane_v1 \<Rightarrow> goerr + KThreesControlPlane_v1" where
  [conv]: "Convert_v1beta2_KThreesControlPlane_To_v1beta1_KThreesControlPlane inp out =
     autoConvert_v1beta2_KThreesControlPlane_To_v1beta1_KThreesControlPlane inp out"

section \<open>Lists\<close>

text \<open>The items are converted one by one into fresh objects: \<^verbatim>\<open>make\<close> fills the new
  slice with zero values.\<close>

definition zeroServerConfig :: KThreesServerConfig where
  "zeroServerConfig = \<lparr>sc_KubeAPIServerArgs = None, sc_KubeControllerManagerArgs = None, sc_KubeSchedulerArgs = None,
     sc_TLSSan = None, sc_BindAddress = [], sc_HTTPSListenPort = [], sc_AdvertiseAddress = [], sc_AdvertisePort = [],
     sc_ClusterCidr = [], sc_ServiceCidr = [], sc_ClusterDNS = [], sc_ClusterDomain = [], sc_DisableComponents = None,
     sc_DeprecatedDisableExternalCloudProvider = False, sc_DisableCloudController = None, sc_CloudProviderName = None,
     sc_SystemDefaultRegistry = [], sc_EtcdProxyImage = []\<rparr>"

definition zeroAgentConfig :: KThreesAgentConfig where
  "zeroAgentConfig = \<lparr>ac_NodeLabels = None, ac_NodeTaints = None, ac_PrivateRegistry = [], ac_KubeletArgs = None,
     ac_KubeProxyArgs = None, ac_NodeName = [], ac_AirGapped = False, ac_AirGappedInstallScriptPath = []\<rparr>"

definition zeroConfigSpec :: KThreesConfigSpec where
  "zeroConfigSpec = \<lparr>kc_Files = None, kc_PreK3sCommands = None, kc_PostK3sCommands = None,
     kc_AgentConfig = zeroAgentConfig, kc_ServerConfig = zeroServerConfig, kc_Version = []\<rparr>"

definition zeroConfig :: KThreesConfig where
  "zeroConfig = \<lparr>kt_Meta = emptyMeta, kt_Spec = zeroConfigSpec, kt_Status = \<lparr>ks_Ready = False, ks_BootstrapData = None,
     ks_DataSecretName = None, ks_FailureReason = [], ks_FailureMessage = [], ks_ObservedGeneration = 0,
     ks_Conditions = None\<rparr>\<rparr>"

definition zeroConfigTemplate :: KThreesConfigTemplate where
  "zeroConfigTemplate = \<lparr>ktt_Meta = emptyMeta, ktt_Spec = zeroConfigSpec\<rparr>"

definition zeroControlPlane :: KThreesControlPlane where
  "zeroControlPlane = \<lparr>kp_Meta = emptyMeta, kp_Spec = \<lparr>ps_Replicas = None, ps_Version = [],
     ps_KThreesConfigSpec = zeroConfigSpec, ps_RolloutAfter = None, ps_MachineTemplate = \<lparr>mt_Labels = None,
     mt_Annotations = None, mt_InfrastructureRef = \<lparr>ref_Kind = [], ref_Namespace = [], ref_Name = [], ref_UID = [],
     ref_APIVersion = []\<rparr>, mt_NodeDrainTimeout = None, mt_NodeVolumeDetachTimeout = None,
     mt_NodeDeletionTimeout = None\<rparr>, ps_RemediationStrategy = None\<rparr>, kp_Status = \<lparr>st_Selector = [],
     st_Replicas = 0, st_Version = None, st_UpdatedReplicas = 0, st_ReadyReplicas = 0, st_UnavailableReplicas = 0,
     st_Initialized = False, st_Ready = False, st_FailureReason = [], st_FailureMessage = None,
     st_ObservedGeneration = 0, st_Conditions = None, st_LastRemediation = None\<rparr>\<rparr>"

definition zeroConfigSpec_v1 :: KThreesConfigSpec_v1 where
  "zeroConfigSpec_v1 = \<lparr>kc1_Files = None, kc1_PreK3sCommands = None, kc1_PostK3sCommands = None,
     kc1_AgentConfig = \<lparr>ac1_NodeLabels = None, ac1_NodeTaints = None, ac1_PrivateRegistry = [],
       ac1_KubeletArgs = None, ac1_KubeProxyArgs = None, ac1_NodeName = [], ac1_AirGapped = False\<rparr>,
     kc1_ServerConfig = \<lparr>sc1_KubeAPIServerArgs = None, sc1_KubeControllerManagerArgs = None,
       sc1_KubeSchedulerArgs = None, sc1_TLSSan = None, sc1_BindAddress = [], sc1_HTTPSListenPort = [],
       sc1_AdvertiseAddress = [], sc1_AdvertisePort = [], sc1_ClusterCidr = [], sc1_ServiceCidr = [],
       sc1_ClusterDNS = [], sc1_ClusterDomain = [], sc1_DisableComponents = None,
       sc1_DisableExternalCloudProvider = False\<rparr>, kc1_Version = []\<rparr>"

definition zeroConfig_v1 :: KThreesConfig_v1 where
  "zeroConfig_v1 = \<lparr>kt1_Meta = emptyMeta, kt1_Spec = zeroConfigSpec_v1, kt1_Status = \<lparr>ks1_Ready = False,
     ks1_BootstrapData = None, ks1_DataSecretName = None, ks1_FailureReason = [], ks1_FailureMessage = [],
     ks1_ObservedGeneration = 0, ks1_Conditions = None\<rparr>\<rparr>"

definition zeroConfigTemplate_v1 :: KThreesConfigTemplate_v1 where
  "zeroConfigTemplate_v1 = \<lparr>ktt1_Meta = emptyMeta, ktt1_Spec = zeroConfigSpec_v1\<rparr>"

definition zeroControlPlane_v1 :: KThreesControlPlane_v1 where
  "zeroControlPlane_v1 = \<lparr>kp1_Meta = emptyMeta, kp1_Spec = \<lparr>ps1_Replicas = None, ps1_Version = [],
     ps1_InfrastructureTemplate = \<lparr>ref_Kind = [], ref_Namespace = [], ref_Name = [], ref_UID = [],
     ref_APIVersion = []\<rparr>, ps1_KThreesConfigSpec = zeroConfigSpec_v1, ps1_UpgradeAfter = None,
     ps1_NodeDrainTimeout = None, ps1_MachineTemplate = \<lparr>mt1_Labels = None, mt1_Annotations = None\<rparr>,
     ps1_RemediationStrategy = None\<rparr>, kp1_Status = \<lparr>st1_Selector = [], st1_Replicas = 0,
     st1_UpdatedReplicas = 0, st1_ReadyReplicas = 0, st1_UnavailableReplicas = 0, st1_Initialized = False,
     st1_Ready = False, st1_FailureReason = [], st1_FailureMessage = None, st1_ObservedGeneration = 0,
     st1_Conditions = None, st1_LastRemediation = None\<rparr>\<rparr>"

fun convertItems :: "('a \<Rightarrow> 'b \<Rightarrow> goerr + 'b) \<Rightarrow> 'b \<Rightarrow> 'a list \<Rightarrow> goerr + 'b list" where
  "convertItems f zero [] = Inr []"
| "convertItems f zero (x # xs) = andThen (f x zero) (\<lambda>y. andThen (convertItems f zero xs) (\<lambda>ys. Inr (y # ys)))"

definition convertList ::
  "('a \<Rightarrow> 'b \<Rightarrow> goerr + 'b) \<Rightarrow> 'b \<Rightarrow> 'a ObjectList \<Rightarrow> 'b ObjectList \<Rightarrow> goerr + 'b ObjectList" where
  "convertList f zero inp out =
     (let out1 = out\<lparr>ol_Meta := ol_Meta inp\<rparr>
      in case ol_Items inp of
           Some items \<Rightarrow> andThen (convertItems f zero items) (\<lambda>ys. Inr (out1\<lparr>ol_Items := Some ys\<rparr>))
         | None \<Rightarrow> Inr (out1\<lparr>ol_Items := None\<rparr>))"

definition autoConvert_v1beta1_KThreesConfigList_To_v1beta2_KThreesConfigList ::
  "KThreesConfig_v1 ObjectList \<Rightarrow> KThreesConfig ObjectList \<Rightarrow> goerr + KThreesConfig ObjectList" where
  "autoConvert_v1beta1_KThreesConfigList_To_v1beta2_KThreesConfigList =
     convertList Convert_v1beta1_KThreesConfig_To_v1beta2_KThreesConfig zeroConfig"

definition autoConvert_v1beta2_KThreesConfigList_To_v1beta1_KThreesConfigList ::
  "KThreesConfig ObjectList \<Rightarrow> KThreesConfig_v1 ObjectList \<Rightarrow> goerr + KThreesConfig_v1 ObjectList" where
  "autoConvert_v1beta2_KThreesConfigList_To_v1beta1_KThreesConfigList =
     convertList Convert_v1beta2_KThreesConfig_To_v1beta1_KThreesConfig zeroConfig_v1"

definition autoConvert_v1beta1_KThreesConfigTemplateList_To_v1beta2_KThreesConfigTemplateList ::
  "KThreesConfigTemplate_v1 ObjectList \<Rightarrow> KThreesConfigTemplate ObjectList \<Rightarrow> goerr + KThreesConfigTemplate ObjectList" where
  "autoConvert_v1beta1_KThreesConfigTemplateList_To_v1beta2_KThreesConfigTemplateList =
     convertList Convert_v1beta1_KThreesConfigTemplate_To_v1beta2_KThreesConfigTemplate zeroConfigTemplate"

definition autoConvert_v1beta2_KThreesConfigTemplateList_To_v1beta1_KThreesConfigTemplateList ::
  "KThreesConfigTemplate ObjectList \<Rightarrow> KThreesConfigTemplate_v1 ObjectList \<Rightarrow> goerr + KThreesConfigTemplate_v1 ObjectList" where
  "autoConvert_v1beta2_KThreesConfigTemplateList_To_v1beta1_KThreesConfigTemplateList =
     convertList Convert_v1beta2_KThreesConfigTemplate_To_v1beta1_KThreesConfigTemplate zeroConfigTemplate_v1"

definition autoConvert_v1beta1_KThreesControlPlaneList_To_v1beta2_KThreesControlPlaneList ::
  "KThreesControlPlane_v1 ObjectList \<Rightarrow> KThreesControlPlane ObjectList \<Rightarrow> goerr + KThreesControlPlane ObjectList" where
  "autoConvert_v1beta1_KThreesControlPlaneList_To_v1beta2_KThreesControlPlaneList =
     convertList Convert_v1beta1_KThreesControlPlane_To_v1beta2_KThreesControlPlane zeroControlPlane"

definition autoConvert_v1beta2_KThreesControlPlaneList_To_v1beta1_KThreesControlPlaneList ::
  "KThreesControlPlane ObjectList \<Rightarrow> KThreesControlPlane_v1 ObjectList \<Rightarrow> goerr + KThreesControlPlane_v1 ObjectList" where
  "autoConvert_v1beta2_KThreesControlPlaneList_To_v1beta1_KThreesControlPlaneList =
     convertList Convert_v1beta2_KThreesControlPlane_To_v1beta1_KThreesControlPlane zeroControlPlane_v1"

section \<open>The conversion webhooks\<close>

text \<open>\<^verbatim>\<open>utilconversion.MarshalData\<close> puts the source object, as JSON, into an annotation of
  the destination; \<^verbatim>\<open>UnmarshalData\<close> reads it back, tells whether there was one, and
  removes the annotation. The annotations are a map shared by source and destination of the
  field-wise conversion, so the destination loses the annotation, too. They are a parameter
  for each kind of object.\<close>

definition DataAnnotation :: string where "DataAnnotation = ''cluster.x-k8s.io/conversion-data''"

record 'o convLib =
  MarshalData :: "'o \<Rightarrow> gomap \<Rightarrow> goerr + gomap"
  UnmarshalData :: "gomap \<Rightarrow> goerr + ('o \<times> gomap) option"

definition withAnnotations :: "gomap \<Rightarrow> ObjectMeta \<Rightarrow> ObjectMeta" where
  "withAnnotations as m = m\<lparr>om_Annotations := as\<rparr>"

definition restoreServer :: "KThreesServerConfig \<Rightarrow> KThreesServerConfig \<Rightarrow> KThreesServerConfig" where
  "restoreServer restored s = s\<lparr>sc_CloudProviderName := sc_CloudProviderName restored,
     sc_DeprecatedDisableExternalCloudProvider := sc_DeprecatedDisableExternalCloudProvider restored,
     sc_DisableCloudController := sc_DisableCloudController restored,
     sc_SystemDefaultRegistry := sc_SystemDefaultRegistry restored, sc_EtcdProxyImage := sc_EtcdProxyImage restored\<rparr>"

definition restoreSpec :: "KThreesConfigSpec \<Rightarrow> KThreesConfigSpec \<Rightarrow> KThreesConfigSpec" where
  "restoreSpec restored s =
     s\<lparr>kc_ServerConfig := restoreServer (kc_ServerConfig restored) (kc_ServerConfig s),
       kc_AgentConfig := (kc_AgentConfig s)\<lparr>ac_AirGappedInstallScriptPath :=
         ac_AirGappedInstallScriptPath (kc_AgentConfig restored)\<rparr>\<rparr>"

definition KThreesConfig_ConvertTo ::
  "KThreesConfig convLib \<Rightarrow> KThreesConfig_v1 \<Rightarrow> KThreesConfig \<Rightarrow> goerr + KThreesConfig" where
  "KThreesConfig_ConvertTo C c dst =
     andThen (orWrap ''converting KThreesConfig v1beta1 to v1beta2''
       (Convert_v1beta1_KThreesConfig_To_v1beta2_KThreesConfig c dst)) (\<lambda>dst.
     andThen (orWrap ''unmarshalling stored conversion data'' (UnmarshalData C (om_Annotations (kt1_Meta c)))) (\<lambda>r. case r of
       None \<Rightarrow> Inr dst
     | Some (restored, as) \<Rightarrow>
         Inr (dst\<lparr>kt_Meta := withAnnotations as (kt_Meta dst), kt_Spec := restoreSpec (kt_Spec restored) (kt_Spec dst)\<rparr>)))"

definition KThreesConfig_ConvertFrom ::
  "KThreesConfig convLib \<Rightarrow> KThreesConfig \<Rightarrow> KThreesConfig_v1 \<Rightarrow> goerr + KThreesConfig_v1" where
  "KThreesConfig_ConvertFrom C src c =
     andThen (orWrap ''converting KThreesConfig v1beta1 from v1beta2''
       (Convert_v1beta2_KThreesConfig_To_v1beta1_KThreesConfig src c)) (\<lambda>c.
     andThen (orWrap ''storing conversion data'' (MarshalData C src (om_Annotations (kt1_Meta c)))) (\<lambda>as.
     Inr (c\<lparr>kt1_Meta := withAnnotations as (kt1_Meta c)\<rparr>)))"

definition KThreesConfigTemplate_ConvertTo ::
  "KThreesConfigTemplate convLib \<Rightarrow> KThreesConfigTemplate_v1 \<Rightarrow> KThreesConfigTemplate \<Rightarrow> goerr + KThreesConfigTemplate" where
  "KThreesConfigTemplate_ConvertTo C r dst =
     andThen (orWrap ''converting KThreesConfigTemplate v1beta1 to v1beta2''
       (autoConvert_v1beta1_KThreesConfigTemplate_To_v1beta2_KThreesConfigTemplate r dst)) (\<lambda>dst.
     andThen (orWrap ''unmarshalling stored conversion data'' (UnmarshalData C (om_Annotations (ktt1_Meta r)))) (\<lambda>d. case d of
       None \<Rightarrow> Inr dst
     | Some (restored, as) \<Rightarrow>
         Inr (dst\<lparr>ktt_Meta := withAnnotations as (ktt_Meta dst), ktt_Spec := restoreSpec (ktt_Spec restored) (ktt_Spec dst)\<rparr>)))"

definition KThreesConfigTemplate_ConvertFrom ::
  "KThreesConfigTemplate convLib \<Rightarrow> KThreesConfigTemplate \<Rightarrow> KThreesConfigTemplate_v1 \<Rightarrow> goerr + KThreesConfigTemplate_v1" where
  "KThreesConfigTemplate_ConvertFrom C src r =
     andThen (orWrap ''converting KThreesConfigTemplate v1beta1 from v1beta2''
       (autoConvert_v1beta2_KThreesConfigTemplate_To_v1beta1_KThreesConfigTemplate src r)) (\<lambda>r.
     andThen (orWrap ''storing conversion data'' (MarshalData C src (om_Annotations (ktt1_Meta r)))) (\<lambda>as.
     Inr (r\<lparr>ktt1_Meta := withAnnotations as (ktt1_Meta r)\<rparr>)))"

definition KThreesControlPlane_ConvertTo ::
  "KThreesControlPlane convLib \<Rightarrow> KThreesControlPlane_v1 \<Rightarrow> KThreesControlPlane \<Rightarrow> goerr + KThreesControlPlane" where
  "KThreesControlPlane_ConvertTo C inp dst =
     andThen (orWrap ''converting KThreesControlPlane v1beta1 to v1beta2''
       (Convert_v1beta1_KThreesControlPlane_To_v1beta2_KThreesControlPlane inp dst)) (\<lambda>dst.
     andThen (orWrap ''unmarshalling stored conversion data'' (UnmarshalData C (om_Annotations (kp1_Meta inp)))) (\<lambda>r. case r of
       None \<Rightarrow> Inr dst
     | Some (restored, as) \<Rightarrow>
         (let sp = kp_Spec dst; rs = kp_Spec restored
          in Inr (dst\<lparr>kp_Meta := withAnnotations as (kp_Meta dst),
               kp_Spec := sp\<lparr>ps_KThreesConfigSpec := restoreSpec (ps_KThreesConfigSpec rs) (ps_KThreesConfigSpec sp),
                 ps_MachineTemplate := (ps_MachineTemplate sp)
                   \<lparr>mt_NodeVolumeDetachTimeout := mt_NodeVolumeDetachTimeout (ps_MachineTemplate rs),
                    mt_NodeDeletionTimeout := mt_NodeDeletionTimeout (ps_MachineTemplate rs)\<rparr>\<rparr>,
               kp_Status := (kp_Status dst)\<lparr>st_Version := st_Version (kp_Status restored)\<rparr>\<rparr>))))"

definition KThreesControlPlane_ConvertFrom ::
  "KThreesControlPlane convLib \<Rightarrow> KThreesControlPlane \<Rightarrow> KThreesControlPlane_v1 \<Rightarrow> goerr + KThreesControlPlane_v1" where
  "KThreesControlPlane_ConvertFrom C src inp =
     andThen (orWrap ''converting KThreesControlPlane v1beta1 from v1beta2''
       (Convert_v1beta2_KThreesControlPlane_To_v1beta1_KThreesControlPlane src inp)) (\<lambda>c.
     andThen (orWrap ''storing conversion data'' (MarshalData C src (om_Annotations (kp1_Meta c)))) (\<lambda>as.
     Inr (c\<lparr>kp1_Meta := withAnnotations as (kp1_Meta c)\<rparr>)))"

definition KThreesConfigList_ConvertTo ::
  "KThreesConfig_v1 ObjectList \<Rightarrow> KThreesConfig ObjectList \<Rightarrow> goerr + KThreesConfig ObjectList" where
  "KThreesConfigList_ConvertTo c dst =
     orWrap ''converting KThreesConfigList v1beta1 to v1beta2''
       (autoConvert_v1beta1_KThreesConfigList_To_v1beta2_KThreesConfigList c dst)"

definition KThreesConfigList_ConvertFrom ::
  "KThreesConfig ObjectList \<Rightarrow> KThreesConfig_v1 ObjectList \<Rightarrow> goerr + KThreesConfig_v1 ObjectList" where
  "KThreesConfigList_ConvertFrom src c =
     orWrap ''converting KThreesConfigList v1beta1 from v1beta2''
       (autoConvert_v1beta2_KThreesConfigList_To_v1beta1_KThreesConfigList src c)"

definition KThreesConfigTemplateList_ConvertTo ::
  "KThreesConfigTemplate_v1 ObjectList \<Rightarrow> KThreesConfigTemplate ObjectList \<Rightarrow> goerr + KThreesConfigTemplate ObjectList" where
  "KThreesConfigTemplateList_ConvertTo r dst =
     orWrap ''converting KThreesConfigTemplateList v1beta1 to v1beta2''
       (autoConvert_v1beta1_KThreesConfigTemplateList_To_v1beta2_KThreesConfigTemplateList r dst)"

definition KThreesConfigTemplateList_ConvertFrom ::
  "KThreesConfigTemplate ObjectList \<Rightarrow> KThreesConfigTemplate_v1 ObjectList \<Rightarrow> goerr + KThreesConfigTemplate_v1 ObjectList" where
  "KThreesConfigTemplateList_ConvertFrom src r =
     orWrap ''converting KThreesConfigTemplateList v1beta1 from v1beta2''
       (autoConvert_v1beta2_KThreesConfigTemplateList_To_v1beta1_KThreesConfigTemplateList src r)"

definition KThreesControlPlaneList_ConvertTo ::
  "KThreesControlPlane_v1 ObjectList \<Rightarrow> KThreesControlPlane ObjectList \<Rightarrow> goerr + KThreesControlPlane ObjectList" where
  "KThreesControlPlaneList_ConvertTo inp dst =
     orWrap ''converting KThreesControlPlaneList v1beta1 to v1beta2''
       (autoConvert_v1beta1_KThreesControlPlaneList_To_v1beta2_KThreesControlPlaneList inp dst)"

definition KThreesControlPlaneList_ConvertFrom ::
  "KThreesControlPlane ObjectList \<Rightarrow> KThreesControlPlane_v1 ObjectList \<Rightarrow> goerr + KThreesControlPlane_v1 ObjectList" where
  "KThreesControlPlaneList_ConvertFrom src inp =
     orWrap ''converting KThreesControlPlaneList v1beta1 from v1beta2''
       (autoConvert_v1beta2_KThreesControlPlaneList_To_v1beta1_KThreesControlPlaneList src inp)"

section \<open>The conversions as functions\<close>

lemmas conv_parts = andThen_simps orWrap_simps Let_def restoreServer_def restoreSpec_def withAnnotations_def

text \<open>The field-wise conversion of a \<^verbatim>\<open>File\<close> and the cast of its memory agree, in both
  directions, whatever the destination held.\<close>

lemma File_conversion_is_cast:
  "Convert_v1beta1_File_To_v1beta2_File f out = Inr (castFileToV2 f)"
  "Convert_v1beta2_File_To_v1beta1_File g out1 = Inr (castFileToV1 g)"
  by (simp_all add: conv castFileToV2_def castFileToV1_def)

lemma FileSource_conversion_is_cast:
  "Convert_v1beta1_FileSource_To_v1beta2_FileSource f out = Inr (castFileSourceToV2 f)"
  "Convert_v1beta2_FileSource_To_v1beta1_FileSource g out1 = Inr (castFileSourceToV1 g)"
  by (simp_all add: conv castFileSourceToV2_def castFileSourceToV1_def)

lemma RemediationStrategy_conversion_is_cast:
  "Convert_v1beta1_RemediationStrategy_To_v1beta2_RemediationStrategy f out = Inr (castStrategyToV2 f)"
  "Convert_v1beta2_RemediationStrategy_To_v1beta1_RemediationStrategy g out1 = Inr (castStrategyToV1 g)"
  by (simp_all add: conv castStrategyToV2_def castStrategyToV1_def)

lemma LastRemediationStatus_conversion_is_cast:
  "Convert_v1beta1_LastRemediationStatus_To_v1beta2_LastRemediationStatus f out = Inr (castLastRemediationToV2 f)"
  "Convert_v1beta2_LastRemediationStatus_To_v1beta1_LastRemediationStatus g out1 = Inr (castLastRemediationToV1 g)"
  by (simp_all add: conv castLastRemediationToV2_def castLastRemediationToV1_def)

text \<open>What v1beta1 cannot express.\<close>

definition serverExtras :: "KThreesServerConfig \<Rightarrow> string option \<times> bool \<times> bool option \<times> string \<times> string" where
  "serverExtras s = (sc_CloudProviderName s, sc_DeprecatedDisableExternalCloudProvider s, sc_DisableCloudController s,
     sc_SystemDefaultRegistry s, sc_EtcdProxyImage s)"

definition specExtras ::
  "KThreesConfigSpec \<Rightarrow> (string option \<times> bool \<times> bool option \<times> string \<times> string) \<times> string" where
  "specExtras c = (serverExtras (kc_ServerConfig c), ac_AirGappedInstallScriptPath (kc_AgentConfig c))"

definition controlPlaneExtras ::
  "KThreesControlPlane \<Rightarrow> ((string option \<times> bool \<times> bool option \<times> string \<times> string) \<times> string) \<times>
     duration option \<times> duration option \<times> string option" where
  "controlPlaneExtras p = (specExtras (ps_KThreesConfigSpec (kp_Spec p)),
     mt_NodeVolumeDetachTimeout (ps_MachineTemplate (kp_Spec p)), mt_NodeDeletionTimeout (ps_MachineTemplate (kp_Spec p)),
     st_Version (kp_Status p))"

subsection \<open>v1beta2 to v1beta1 and back\<close>

lemma server_round_trip:
  "\<exists>v. Convert_v1beta2_KThreesServerConfig_To_v1beta1_KThreesServerConfig s o1 = Inr v \<and>
     (\<forall>o2. \<exists>s'. Convert_v1beta1_KThreesServerConfig_To_v1beta2_KThreesServerConfig v o2 = Inr s' \<and>
       (\<forall>r. serverExtras r = serverExtras s \<longrightarrow> restoreServer r s' = s))"
  by (simp add: conv conv_parts serverExtras_def)

lemma agent_round_trip:
  "\<exists>v. Convert_v1beta2_KThreesAgentConfig_To_v1beta1_KThreesAgentConfig a o1 = Inr v \<and>
     (\<forall>o2. \<exists>a'. Convert_v1beta1_KThreesAgentConfig_To_v1beta2_KThreesAgentConfig v o2 = Inr a' \<and>
       a'\<lparr>ac_AirGappedInstallScriptPath := ac_AirGappedInstallScriptPath a\<rparr> = a)"
  by (simp add: conv)

lemma spec_round_trip:
  "\<exists>v. Convert_v1beta2_KThreesConfigSpec_To_v1beta1_KThreesConfigSpec c o1 = Inr v \<and>
     (\<forall>o2. \<exists>c'. Convert_v1beta1_KThreesConfigSpec_To_v1beta2_KThreesConfigSpec v o2 = Inr c' \<and>
       (\<forall>r. specExtras r = specExtras c \<longrightarrow> restoreSpec r c' = c))"
proof -
  let ?s = "kc_ServerConfig c" and ?a = "kc_AgentConfig c"
  obtain vs where s1: "Convert_v1beta2_KThreesServerConfig_To_v1beta1_KThreesServerConfig ?s (kc1_ServerConfig o1) = Inr vs"
    and s2: "\<And>o2. \<exists>s'. Convert_v1beta1_KThreesServerConfig_To_v1beta2_KThreesServerConfig vs o2 = Inr s' \<and>
       (\<forall>r. serverExtras r = serverExtras ?s \<longrightarrow> restoreServer r s' = ?s)"
    using server_round_trip by blast
  obtain va where a1: "Convert_v1beta2_KThreesAgentConfig_To_v1beta1_KThreesAgentConfig ?a (kc1_AgentConfig o1) = Inr va"
    and a2: "\<And>o2. \<exists>a'. Convert_v1beta1_KThreesAgentConfig_To_v1beta2_KThreesAgentConfig va o2 = Inr a' \<and>
       a'\<lparr>ac_AirGappedInstallScriptPath := ac_AirGappedInstallScriptPath ?a\<rparr> = ?a"
    using agent_round_trip by blast
  let ?v = "o1\<lparr>kc1_Files := map_option (map castFileToV1) (kc_Files c), kc1_PreK3sCommands := kc_PreK3sCommands c,
     kc1_PostK3sCommands := kc_PostK3sCommands c, kc1_AgentConfig := va, kc1_ServerConfig := vs, kc1_Version := kc_Version c\<rparr>"
  have "Convert_v1beta2_KThreesConfigSpec_To_v1beta1_KThreesConfigSpec c o1 = Inr ?v"
    by (simp add: Convert_v1beta2_KThreesConfigSpec_To_v1beta1_KThreesConfigSpec_def
        autoConvert_v1beta2_KThreesConfigSpec_To_v1beta1_KThreesConfigSpec_def s1 a1)
  moreover have "\<exists>c'. Convert_v1beta1_KThreesConfigSpec_To_v1beta2_KThreesConfigSpec ?v o2 = Inr c' \<and>
       (\<forall>r. specExtras r = specExtras c \<longrightarrow> restoreSpec r c' = c)" for o2
  proof -
    obtain s' where s': "Convert_v1beta1_KThreesServerConfig_To_v1beta2_KThreesServerConfig vs (kc_ServerConfig o2) = Inr s'"
      "\<And>r. serverExtras r = serverExtras ?s \<Longrightarrow> restoreServer r s' = ?s" using s2 by blast
    obtain a' where a': "Convert_v1beta1_KThreesAgentConfig_To_v1beta2_KThreesAgentConfig va (kc_AgentConfig o2) = Inr a'"
      "a'\<lparr>ac_AirGappedInstallScriptPath := ac_AirGappedInstallScriptPath ?a\<rparr> = ?a" using a2 by blast
    show ?thesis
      by (simp add: Convert_v1beta1_KThreesConfigSpec_To_v1beta2_KThreesConfigSpec_def
          autoConvert_v1beta1_KThreesConfigSpec_To_v1beta2_KThreesConfigSpec_def s' a' restoreSpec_def specExtras_def
          option.map_comp option.map_id0 list.map_comp comp_def option.map_ident)
  qed
  ultimately show ?thesis by blast
qed

lemma config_status_round_trip:
  "\<exists>v. Convert_v1beta2_KThreesConfigStatus_To_v1beta1_KThreesConfigStatus s o1 = Inr v \<and>
     (\<forall>o2. Convert_v1beta1_KThreesConfigStatus_To_v1beta2_KThreesConfigStatus v o2 = Inr s)"
  by (simp add: conv)

lemma status_round_trip:
  "\<exists>v. Convert_v1beta2_KThreesControlPlaneStatus_To_v1beta1_KThreesControlPlaneStatus s o1 = Inr v \<and>
     (\<forall>o2. \<exists>s'. Convert_v1beta1_KThreesControlPlaneStatus_To_v1beta2_KThreesControlPlaneStatus v o2 = Inr s' \<and>
        s'\<lparr>st_Version := st_Version s\<rparr> = s)"
  by (simp add: conv option.map_comp option.map_id0)

text \<open>The data that \<^verbatim>\<open>MarshalData\<close> stores for one object are read back by
  \<^verbatim>\<open>UnmarshalData\<close>: the object found has the same fields \<open>ex\<close>, and the other annotations
  are those of before. It need not be the same object, since JSON does not keep the
  difference between nil and empty.\<close>

definition data_kept :: "('o \<Rightarrow> 'x) \<Rightarrow> 'o convLib \<Rightarrow> 'o \<Rightarrow> gomap \<Rightarrow> bool" where
  "data_kept ex C src as \<longleftrightarrow> (\<exists>as' r bs. MarshalData C src as = Inr as' \<and> UnmarshalData C as' = Inr (Some (r, bs)) \<and>
     ex r = ex src \<and> (\<forall>k. k \<noteq> DataAnnotation \<longrightarrow> mget bs k = mget as k))"

text \<open>The same metadata up to the annotation with the data.\<close>

definition same_meta :: "ObjectMeta \<Rightarrow> ObjectMeta \<Rightarrow> bool" where
  "same_meta m m' \<longleftrightarrow> withAnnotations (om_Annotations m) m' = m \<and>
     (\<forall>k. k \<noteq> DataAnnotation \<longrightarrow> mget (om_Annotations m') k = mget (om_Annotations m) k)"

end

