(* ===== verification/ConversionResults.thy ===== *)
theory ConversionResults
  imports Conversion
begin

text \<open>
  The properties of the conversion between the API versions. \<open>convFor\<close> is an instance of the
  functions for the annotation, for the witnesses.
\<close>

lemma config_round_trip:
  assumes "data_kept (\<lambda>c. specExtras (kt_Spec c)) C c (om_Annotations (kt_Meta c))"
  shows "\<exists>v c'. KThreesConfig_ConvertFrom C c o1 = Inr v \<and> KThreesConfig_ConvertTo C v o2 = Inr c' \<and>
     kt_Spec c' = kt_Spec c \<and> kt_Status c' = kt_Status c \<and> same_meta (kt_Meta c) (kt_Meta c')"
proof -
  obtain as' r bs where d: "MarshalData C c (om_Annotations (kt_Meta c)) = Inr as'" "UnmarshalData C as' = Inr (Some (r, bs))"
    "specExtras (kt_Spec r) = specExtras (kt_Spec c)"
    "\<forall>k. k \<noteq> DataAnnotation \<longrightarrow> mget bs k = mget (om_Annotations (kt_Meta c)) k"
    using assms unfolding data_kept_def by blast
  obtain vs where s: "Convert_v1beta2_KThreesConfigSpec_To_v1beta1_KThreesConfigSpec (kt_Spec c) (kt1_Spec o1) = Inr vs"
    "\<And>o2. \<exists>c'. Convert_v1beta1_KThreesConfigSpec_To_v1beta2_KThreesConfigSpec vs o2 = Inr c' \<and>
       (\<forall>r. specExtras r = specExtras (kt_Spec c) \<longrightarrow> restoreSpec r c' = kt_Spec c)"
    using spec_round_trip by blast
  obtain vt where t: "Convert_v1beta2_KThreesConfigStatus_To_v1beta1_KThreesConfigStatus (kt_Status c) (kt1_Status o1) = Inr vt"
    "\<And>o2. Convert_v1beta1_KThreesConfigStatus_To_v1beta2_KThreesConfigStatus vt o2 = Inr (kt_Status c)"
    using config_status_round_trip by blast
  obtain sp where sp: "Convert_v1beta1_KThreesConfigSpec_To_v1beta2_KThreesConfigSpec vs (kt_Spec o2) = Inr sp"
    "restoreSpec (kt_Spec r) sp = kt_Spec c"
    using s(2) d(3) by blast
  show ?thesis
    using d(4) by (simp add: KThreesConfig_ConvertFrom_def KThreesConfig_ConvertTo_def d s(1) t sp same_meta_def withAnnotations_def
        Convert_v1beta2_KThreesConfig_To_v1beta1_KThreesConfig_def autoConvert_v1beta2_KThreesConfig_To_v1beta1_KThreesConfig_def
        Convert_v1beta1_KThreesConfig_To_v1beta2_KThreesConfig_def autoConvert_v1beta1_KThreesConfig_To_v1beta2_KThreesConfig_def)
qed

lemma template_round_trip:
  assumes "data_kept (\<lambda>c. specExtras (ktt_Spec c)) C c (om_Annotations (ktt_Meta c))"
  shows "\<exists>v c'. KThreesConfigTemplate_ConvertFrom C c o1 = Inr v \<and> KThreesConfigTemplate_ConvertTo C v o2 = Inr c' \<and>
     ktt_Spec c' = ktt_Spec c \<and> same_meta (ktt_Meta c) (ktt_Meta c')"
proof -
  obtain as' r bs where d: "MarshalData C c (om_Annotations (ktt_Meta c)) = Inr as'" "UnmarshalData C as' = Inr (Some (r, bs))"
    "specExtras (ktt_Spec r) = specExtras (ktt_Spec c)"
    "\<forall>k. k \<noteq> DataAnnotation \<longrightarrow> mget bs k = mget (om_Annotations (ktt_Meta c)) k"
    using assms unfolding data_kept_def by blast
  obtain vs where s: "Convert_v1beta2_KThreesConfigSpec_To_v1beta1_KThreesConfigSpec (ktt_Spec c) (ktt1_Spec o1) = Inr vs"
    "\<And>o2. \<exists>c'. Convert_v1beta1_KThreesConfigSpec_To_v1beta2_KThreesConfigSpec vs o2 = Inr c' \<and>
       (\<forall>r. specExtras r = specExtras (ktt_Spec c) \<longrightarrow> restoreSpec r c' = ktt_Spec c)"
    using spec_round_trip by blast
  obtain sp where sp: "Convert_v1beta1_KThreesConfigSpec_To_v1beta2_KThreesConfigSpec vs (ktt_Spec o2) = Inr sp"
    "restoreSpec (ktt_Spec r) sp = ktt_Spec c"
    using s(2) d(3) by blast
  note defs = KThreesConfigTemplate_ConvertFrom_def KThreesConfigTemplate_ConvertTo_def same_meta_def withAnnotations_def
    autoConvert_v1beta2_KThreesConfigTemplate_To_v1beta1_KThreesConfigTemplate_def
    autoConvert_v1beta1_KThreesConfigTemplate_To_v1beta2_KThreesConfigTemplate_def
    Convert_v1beta2_KThreesConfigTemplateSpec_To_v1beta1_KThreesConfigTemplateSpec_def
    Convert_v1beta1_KThreesConfigTemplateSpec_To_v1beta2_KThreesConfigTemplateSpec_def
    autoConvert_v1beta2_KThreesConfigTemplateSpec_To_v1beta1_KThreesConfigTemplateSpec_def
    autoConvert_v1beta1_KThreesConfigTemplateSpec_To_v1beta2_KThreesConfigTemplateSpec_def
    Convert_v1beta2_KThreesConfigTemplateResource_To_v1beta1_KThreesConfigTemplateResource_def
    Convert_v1beta1_KThreesConfigTemplateResource_To_v1beta2_KThreesConfigTemplateResource_def
    autoConvert_v1beta2_KThreesConfigTemplateResource_To_v1beta1_KThreesConfigTemplateResource_def
    autoConvert_v1beta1_KThreesConfigTemplateResource_To_v1beta2_KThreesConfigTemplateResource_def
  show ?thesis using d(4) by (simp add: defs d s(1) sp)
qed

lemma machine_template_round_trip:
  "\<exists>v. Convert_v1beta2_KThreesControlPlaneMachineTemplate_To_v1beta1_KThreesControlPlaneMachineTemplate m o1 = Inr v \<and>
     (\<forall>o2. \<exists>m'. Convert_v1beta1_KThreesControlPlaneMachineTemplate_To_v1beta2_KThreesControlPlaneMachineTemplate v o2 = Inr m' \<and>
       m'\<lparr>mt_NodeDrainTimeout := mt_NodeDrainTimeout m, mt_InfrastructureRef := mt_InfrastructureRef m,
         mt_NodeVolumeDetachTimeout := mt_NodeVolumeDetachTimeout m, mt_NodeDeletionTimeout := mt_NodeDeletionTimeout m\<rparr> = m)"
  by (simp add: conv)

lemma control_plane_spec_round_trip:
  "\<exists>v. Convert_v1beta2_KThreesControlPlaneSpec_To_v1beta1_KThreesControlPlaneSpec s o1 = Inr v \<and>
     (\<forall>o2. \<exists>s'. Convert_v1beta1_KThreesControlPlaneSpec_To_v1beta2_KThreesControlPlaneSpec v o2 = Inr s' \<and>
       (\<forall>r. specExtras r = specExtras (ps_KThreesConfigSpec s) \<longrightarrow>
         s'\<lparr>ps_KThreesConfigSpec := restoreSpec r (ps_KThreesConfigSpec s'),
            ps_MachineTemplate := (ps_MachineTemplate s')
              \<lparr>mt_NodeVolumeDetachTimeout := mt_NodeVolumeDetachTimeout (ps_MachineTemplate s),
               mt_NodeDeletionTimeout := mt_NodeDeletionTimeout (ps_MachineTemplate s)\<rparr>\<rparr> = s))"
proof -
  let ?kc = "ps_KThreesConfigSpec s" and ?mt = "ps_MachineTemplate s"
  obtain vk where k: "Convert_v1beta2_KThreesConfigSpec_To_v1beta1_KThreesConfigSpec ?kc (ps1_KThreesConfigSpec o1) = Inr vk"
    "\<And>o2. \<exists>c'. Convert_v1beta1_KThreesConfigSpec_To_v1beta2_KThreesConfigSpec vk o2 = Inr c' \<and>
       (\<forall>r. specExtras r = specExtras ?kc \<longrightarrow> restoreSpec r c' = ?kc)"
    using spec_round_trip by blast
  obtain vm where m: "Convert_v1beta2_KThreesControlPlaneMachineTemplate_To_v1beta1_KThreesControlPlaneMachineTemplate
       ?mt (ps1_MachineTemplate o1) = Inr vm"
    "\<And>o2. \<exists>m'. Convert_v1beta1_KThreesControlPlaneMachineTemplate_To_v1beta2_KThreesControlPlaneMachineTemplate vm o2 = Inr m' \<and>
       m'\<lparr>mt_NodeDrainTimeout := mt_NodeDrainTimeout ?mt, mt_InfrastructureRef := mt_InfrastructureRef ?mt,
         mt_NodeVolumeDetachTimeout := mt_NodeVolumeDetachTimeout ?mt, mt_NodeDeletionTimeout := mt_NodeDeletionTimeout ?mt\<rparr> = ?mt"
    using machine_template_round_trip by blast
  let ?v = "o1\<lparr>ps1_Replicas := ps_Replicas s, ps1_Version := ps_Version s,
     ps1_InfrastructureTemplate := mt_InfrastructureRef ?mt, ps1_KThreesConfigSpec := vk, ps1_UpgradeAfter := ps_RolloutAfter s,
     ps1_NodeDrainTimeout := mt_NodeDrainTimeout ?mt, ps1_MachineTemplate := vm,
     ps1_RemediationStrategy := map_option castStrategyToV1 (ps_RemediationStrategy s)\<rparr>"
  have "Convert_v1beta2_KThreesControlPlaneSpec_To_v1beta1_KThreesControlPlaneSpec s o1 = Inr ?v"
    by (simp add: Convert_v1beta2_KThreesControlPlaneSpec_To_v1beta1_KThreesControlPlaneSpec_def k(1) m(1))
  moreover have "\<exists>s'. Convert_v1beta1_KThreesControlPlaneSpec_To_v1beta2_KThreesControlPlaneSpec ?v o2 = Inr s' \<and>
       (\<forall>r. specExtras r = specExtras ?kc \<longrightarrow>
         s'\<lparr>ps_KThreesConfigSpec := restoreSpec r (ps_KThreesConfigSpec s'),
            ps_MachineTemplate := (ps_MachineTemplate s')
              \<lparr>mt_NodeVolumeDetachTimeout := mt_NodeVolumeDetachTimeout ?mt,
               mt_NodeDeletionTimeout := mt_NodeDeletionTimeout ?mt\<rparr>\<rparr> = s)" for o2
    using k(2)[of "ps_KThreesConfigSpec o2"] m(2)[of "ps_MachineTemplate o2"]
    by (auto simp: Convert_v1beta1_KThreesControlPlaneSpec_To_v1beta2_KThreesControlPlaneSpec_def option.map_comp option.map_id0)
  ultimately show ?thesis by blast
qed

lemma control_plane_round_trip:
  assumes "data_kept controlPlaneExtras C p (om_Annotations (kp_Meta p))"
  shows "\<exists>v p'. KThreesControlPlane_ConvertFrom C p o1 = Inr v \<and> KThreesControlPlane_ConvertTo C v o2 = Inr p' \<and>
     kp_Spec p' = kp_Spec p \<and> kp_Status p' = kp_Status p \<and> same_meta (kp_Meta p) (kp_Meta p')"
proof -
  obtain as' r bs where d: "MarshalData C p (om_Annotations (kp_Meta p)) = Inr as'" "UnmarshalData C as' = Inr (Some (r, bs))"
    "controlPlaneExtras r = controlPlaneExtras p"
    "\<forall>k. k \<noteq> DataAnnotation \<longrightarrow> mget bs k = mget (om_Annotations (kp_Meta p)) k"
    using assms unfolding data_kept_def by blast
  have ex: "specExtras (ps_KThreesConfigSpec (kp_Spec r)) = specExtras (ps_KThreesConfigSpec (kp_Spec p))"
    "mt_NodeVolumeDetachTimeout (ps_MachineTemplate (kp_Spec r)) = mt_NodeVolumeDetachTimeout (ps_MachineTemplate (kp_Spec p))"
    "mt_NodeDeletionTimeout (ps_MachineTemplate (kp_Spec r)) = mt_NodeDeletionTimeout (ps_MachineTemplate (kp_Spec p))"
    "st_Version (kp_Status r) = st_Version (kp_Status p)"
    using d(3) by (simp_all add: controlPlaneExtras_def)
  obtain vs where s: "Convert_v1beta2_KThreesControlPlaneSpec_To_v1beta1_KThreesControlPlaneSpec (kp_Spec p) (kp1_Spec o1) = Inr vs"
    "\<And>o2. \<exists>s'. Convert_v1beta1_KThreesControlPlaneSpec_To_v1beta2_KThreesControlPlaneSpec vs o2 = Inr s' \<and>
       (\<forall>r. specExtras r = specExtras (ps_KThreesConfigSpec (kp_Spec p)) \<longrightarrow>
         s'\<lparr>ps_KThreesConfigSpec := restoreSpec r (ps_KThreesConfigSpec s'),
            ps_MachineTemplate := (ps_MachineTemplate s')
              \<lparr>mt_NodeVolumeDetachTimeout := mt_NodeVolumeDetachTimeout (ps_MachineTemplate (kp_Spec p)),
               mt_NodeDeletionTimeout := mt_NodeDeletionTimeout (ps_MachineTemplate (kp_Spec p))\<rparr>\<rparr> = kp_Spec p)"
    using control_plane_spec_round_trip by blast
  obtain vt where t: "Convert_v1beta2_KThreesControlPlaneStatus_To_v1beta1_KThreesControlPlaneStatus (kp_Status p) (kp1_Status o1) = Inr vt"
    "\<And>o2. \<exists>s'. Convert_v1beta1_KThreesControlPlaneStatus_To_v1beta2_KThreesControlPlaneStatus vt o2 = Inr s' \<and>
        s'\<lparr>st_Version := st_Version (kp_Status p)\<rparr> = kp_Status p"
    using status_round_trip by blast
  note defs = KThreesControlPlane_ConvertFrom_def KThreesControlPlane_ConvertTo_def same_meta_def withAnnotations_def Let_def
    Convert_v1beta2_KThreesControlPlane_To_v1beta1_KThreesControlPlane_def
    autoConvert_v1beta2_KThreesControlPlane_To_v1beta1_KThreesControlPlane_def
    Convert_v1beta1_KThreesControlPlane_To_v1beta2_KThreesControlPlane_def
    autoConvert_v1beta1_KThreesControlPlane_To_v1beta2_KThreesControlPlane_def
  show ?thesis
    using d(4) s(2)[of "kp_Spec o2"] t(2)[of "kp_Status o2"] ex(1) by (auto simp: defs d(1,2) ex s(1) t(1))
qed

text \<open>C13 An object of the storage version survives the conversion to v1beta1 and back: for a
  KThreesConfig, its template and a KThreesControlPlane all of specification and status is
  restored, and the metadata up to the annotation with the data, whatever objects the
  conversions write into.\<close>

theorem conversion_round_trip:
  assumes "data_kept (\<lambda>c. specExtras (kt_Spec c)) CK c (om_Annotations (kt_Meta c))"
    and "data_kept (\<lambda>t. specExtras (ktt_Spec t)) CT t (om_Annotations (ktt_Meta t))"
    and "data_kept controlPlaneExtras CP p (om_Annotations (kp_Meta p))"
  shows "(\<exists>v c'. KThreesConfig_ConvertFrom CK c c1 = Inr v \<and> KThreesConfig_ConvertTo CK v c2 = Inr c' \<and>
       kt_Spec c' = kt_Spec c \<and> kt_Status c' = kt_Status c \<and> same_meta (kt_Meta c) (kt_Meta c')) \<and>
     (\<exists>v t'. KThreesConfigTemplate_ConvertFrom CT t t1 = Inr v \<and> KThreesConfigTemplate_ConvertTo CT v t2 = Inr t' \<and>
       ktt_Spec t' = ktt_Spec t \<and> same_meta (ktt_Meta t) (ktt_Meta t')) \<and>
     (\<exists>v p'. KThreesControlPlane_ConvertFrom CP p p1 = Inr v \<and> KThreesControlPlane_ConvertTo CP v p2 = Inr p' \<and>
       kp_Spec p' = kp_Spec p \<and> kp_Status p' = kp_Status p \<and> same_meta (kp_Meta p) (kp_Meta p'))"
  by (intro conjI config_round_trip template_round_trip control_plane_round_trip assms)

text \<open>An instance: the annotation holds a constant that stands for one object.\<close>

definition convFor :: "'o \<Rightarrow> 'o convLib" where
  "convFor x = \<lparr>MarshalData = (\<lambda>_ as. Inr (Some ((case as of None \<Rightarrow> Map.empty | Some m \<Rightarrow> m)(DataAnnotation \<mapsto> ''data'')))),
     UnmarshalData = (\<lambda>as. case as of None \<Rightarrow> Inr None | Some m \<Rightarrow>
        (case m DataAnnotation of None \<Rightarrow> Inr None | Some _ \<Rightarrow> Inr (Some (x, Some (m(DataAnnotation := None))))))\<rparr>"

lemma convFor_keeps: "data_kept ex (convFor x) x as"
  by (cases as) (auto simp: data_kept_def convFor_def mget_def)

definition confAws :: KThreesConfigSpec where
  "confAws = zeroConfigSpec\<lparr>kc_ServerConfig := zeroServerConfig
     \<lparr>sc_CloudProviderName := Some ''aws'', sc_EtcdProxyImage := ''proxy''\<rparr>\<rparr>"

definition configAws :: KThreesConfig where "configAws = zeroConfig\<lparr>kt_Spec := confAws\<rparr>"
definition templateAws :: KThreesConfigTemplate where "templateAws = zeroConfigTemplate\<lparr>ktt_Spec := confAws\<rparr>"
definition planeAws :: KThreesControlPlane where
  "planeAws = zeroControlPlane\<lparr>kp_Status := (kp_Status zeroControlPlane)\<lparr>st_Version := Some ''v1.30.0''\<rparr>\<rparr>"

theorem conversion_round_trip_witness:
  "\<exists>v c'. KThreesControlPlane_ConvertFrom (convFor planeAws) planeAws zeroControlPlane_v1 = Inr v \<and>
     KThreesControlPlane_ConvertTo (convFor planeAws) v zeroControlPlane = Inr c' \<and>
     st_Version (kp_Status c') = Some ''v1.30.0''"
  using conversion_round_trip[OF convFor_keeps convFor_keeps convFor_keeps,
      of configAws zeroConfig_v1 zeroConfig templateAws zeroConfigTemplate_v1 zeroConfigTemplate planeAws zeroControlPlane_v1 zeroControlPlane]
  by (auto simp: planeAws_def)

text \<open>C25 The meaning of a v1beta1 KThreesConfig that was never stored in the new version:
  external cloud provider support is on unless disabled, in the arguments generated for k3s,
  the defaulting webhook has nothing left to do, and converting back gives the same object.\<close>

theorem v1beta1_meaning:
  assumes "KThreesConfig_ConvertTo C v out = Inr c" "UnmarshalData C (om_Annotations (kt1_Meta v)) = Inr None"
  shows "getDisableCloudController (kc_ServerConfig (kt_Spec c)) =
       (\<not> sc1_DisableExternalCloudProvider (kc1_ServerConfig (kt1_Spec v))) \<and>
     getKubeletExtraArgs (kc_ServerConfig (kt_Spec c)) =
       (if sc1_DisableExternalCloudProvider (kc1_ServerConfig (kt1_Spec v)) then [] else [''cloud-provider=external'']) \<and>
     KThreesConfig_Default c = c \<and>
     Convert_v1beta2_KThreesConfig_To_v1beta1_KThreesConfig c out1 = Inr v"
proof -
  have c: "Convert_v1beta1_KThreesConfig_To_v1beta2_KThreesConfig v out = Inr c"
    using assms by (cases "Convert_v1beta1_KThreesConfig_To_v1beta2_KThreesConfig v out") (auto simp: KThreesConfig_ConvertTo_def)
  have "sc_DisableCloudController (kc_ServerConfig (kt_Spec c)) = Some (\<not> sc1_DisableExternalCloudProvider (kc1_ServerConfig (kt1_Spec v)))"
    "sc_CloudProviderName (kc_ServerConfig (kt_Spec c)) =
       Some (if sc1_DisableExternalCloudProvider (kc1_ServerConfig (kt1_Spec v)) then [] else ''external'')"
    using c by (auto simp: conv Let_def)
  moreover have "Convert_v1beta2_KThreesConfig_To_v1beta1_KThreesConfig c out1 = Inr v"
    using c by (auto simp: conv Let_def option.map_comp option.map_id0 list.map_comp comp_def option.map_ident)
  ultimately show ?thesis
    by (simp add: getDisableCloudController_def getKubeletExtraArgs_def KThreesConfig_Default_def defaultServerConfig_fixed)
qed

definition v1Off :: KThreesConfig_v1 where
  "v1Off = zeroConfig_v1\<lparr>kt1_Spec := zeroConfigSpec_v1
     \<lparr>kc1_ServerConfig := (kc1_ServerConfig zeroConfigSpec_v1)\<lparr>sc1_DisableExternalCloudProvider := True\<rparr>\<rparr>\<rparr>"

theorem v1beta1_meaning_witness:
  "\<exists>c. KThreesConfig_ConvertTo (convFor configAws) v1Off zeroConfig = Inr c \<and>
     getKubeletExtraArgs (kc_ServerConfig (kt_Spec c)) = []"
proof -
  have n: "UnmarshalData (convFor configAws) (om_Annotations (kt1_Meta v1Off)) = Inr None"
    by (simp add: convFor_def v1Off_def zeroConfig_v1_def emptyMeta_def)
  then obtain c where c: "KThreesConfig_ConvertTo (convFor configAws) v1Off zeroConfig = Inr c"
    by (simp add: KThreesConfig_ConvertTo_def conv Let_def)
  show ?thesis using v1beta1_meaning[OF c n] c by (simp add: v1Off_def)
qed

abbreviation edited :: "bool \<Rightarrow> KThreesConfig_v1 \<Rightarrow> KThreesConfig_v1" where
  "edited b v \<equiv> v\<lparr>kt1_Spec := (kt1_Spec v)\<lparr>kc1_ServerConfig :=
     (kc1_ServerConfig (kt1_Spec v))\<lparr>sc1_DisableExternalCloudProvider := b\<rparr>\<rparr>\<rparr>"

lemma edited_same:
  assumes "UnmarshalData C (om_Annotations (kt1_Meta v)) = Inr (Some (r, as))"
  shows "KThreesConfig_ConvertTo C (edited b v) o2 = KThreesConfig_ConvertTo C v o2"
  using assms by (simp add: KThreesConfig_ConvertTo_def conv conv_parts)

text \<open>C24 An edit of \<^verbatim>\<open>disableExternalCloudProvider\<close> made through v1beta1 on an object
  that is stored in the new version has no effect: \<^verbatim>\<open>ConvertTo\<close> takes all the fields the
  flag stands for from the annotation, and gives back the specification from before the
  edit.\<close>

theorem v1beta1_edit_lost:
  assumes "data_kept (\<lambda>c. specExtras (kt_Spec c)) C c (om_Annotations (kt_Meta c))"
  shows "\<exists>v c'. KThreesConfig_ConvertFrom C c o1 = Inr v \<and>
     KThreesConfig_ConvertTo C (edited b v) o2 = Inr c' \<and>
     kt_Spec c' = kt_Spec c"
proof -
  obtain v c' where v: "KThreesConfig_ConvertFrom C c o1 = Inr v" "KThreesConfig_ConvertTo C v o2 = Inr c'" "kt_Spec c' = kt_Spec c"
    using config_round_trip[OF assms] by blast
  have "\<exists>r as. UnmarshalData C (om_Annotations (kt1_Meta v)) = Inr (Some (r, as))"
    using assms v(1) by (auto simp: data_kept_def KThreesConfig_ConvertFrom_def conv conv_parts)
  then show ?thesis using v edited_same[of C v _ _ b o2] by metis
qed

theorem v1beta1_edit_lost_witness:
  "\<exists>v c'. KThreesConfig_ConvertFrom (convFor configAws) configAws zeroConfig_v1 = Inr v \<and>
     KThreesConfig_ConvertTo (convFor configAws) (edited True v) zeroConfig = Inr c' \<and>
     sc_CloudProviderName (kc_ServerConfig (kt_Spec c')) = Some ''aws''"
  using v1beta1_edit_lost[OF convFor_keeps, of configAws zeroConfig_v1 True zeroConfig]
  by (auto simp: configAws_def confAws_def)

end
