(* ===== verification/ReplicaResults.thy ===== *)
theory ReplicaResults
  imports KcpResults
begin

text \<open>
  The number of machines: what a pass of the controller may do to it, and what follows for a
  sequence of passes.
\<close>

section \<open>The corridor\<close>

lemma emits_tail:
  assumes "emits S m" "m h = (r, h1 @ c # h2)" "length h \<le> length h1"
  shows "c \<in> S"
proof -
  from assms(1,2) obtain cs where "h1 @ c # h2 = h @ cs" "set cs \<subseteq> S" by (rule emitsE)
  with assms(3) show ?thesis by (auto simp: append_eq_append_conv2 Cons_eq_append_conv)
qed

lemma marks [simp]:
  "cp_Machines (markRollout L cp ms) = cp_Machines cp" "kp_Spec (cp_KCP (markRollout L cp ms)) = kp_Spec (cp_KCP cp)"
  "cp_Machines (markUpToDate L cp) = cp_Machines cp" "kp_Spec (cp_KCP (markUpToDate L cp)) = kp_Spec (cp_KCP cp)"
  by (simp_all add: markRollout_def markUpToDate_def updKCP_def kp_MarkFalse_def kp_MarkTrue_def)

text \<open>The corridor of the replicas: rollout and scaling begin to create a machine only when
  there are no more machines than desired, and fewer when no machine is outdated; they delete a
  machine only when there are more than desired. So they never bring the number of machines
  below the desired one nor above it by more than one.\<close>

lemma rolloutOrScale_corridor:
  assumes "rolloutOrScale E C cp h = (r, h1 @ c # h2)" "length h \<le> length h1" "is_resize c"
  shows "\<exists>n. ps_Replicas (kp_Spec (cp_KCP cp)) = Some n \<and>
     (is_clone c \<longrightarrow> int (length (cp_Machines cp)) \<le> sint n \<and>
        (MachinesNeedingRollout (k_lib C) cp = [] \<longrightarrow> int (length (cp_Machines cp)) < sint n)) \<and>
     (is_delete_machine c \<longrightarrow> sint n < int (length (cp_Machines cp)))"
proof (cases "ps_Replicas (kp_Spec (cp_KCP cp))")
  case None
  then have "rolloutOrScale E C cp h = (None, h)"
    by (simp add: rolloutOrScale_def upgradeControlPlane_def scaleControlPlane_def deref_def go_runs Let_def)
  with assms(1,2) show ?thesis by auto
next
  case (Some n)
  have up: "\<not> is_delete_machine c" if "scaleUpControlPlane E L X cp' h = (r, h1 @ c # h2)" for L X cp'
    using emits_tail[OF scaleUp_no_delete that assms(2)] by simp
  have init: "\<not> is_delete_machine c" if "initializeControlPlane E L X cp' h = (r, h1 @ c # h2)" for L X cp'
    using emits_tail[OF initialize_no_delete that assms(2)] by simp
  have down: "\<not> is_clone c" if "scaleDownControlPlane E L cp' ms h = (r, h1 @ c # h2)" for L cp' ms
    using emits_tail[OF scaleDown_no_clone that assms(2)] by simp
  show ?thesis
    using assms(1,2) up init down Some
    by (auto simp: rolloutOrScale_def upgradeControlPlane_def scaleControlPlane_def deref_def go_runs Let_def split: if_splits)
qed

text \<open>An environment in which the infrastructure template cannot be cloned.\<close>

definition E_noclone :: env where
  "E_noclone = E0\<lparr>e_ref := (\<lambda>_ _. Inl (ApiErr NotFound []))\<rparr>"

lemma no_machine_outdated: "cp_Machines cp = [] \<Longrightarrow> MachinesNeedingRollout L cp = []"
  using MachinesNeedingRollout_set[of _ L cp] by (cases "MachinesNeedingRollout L cp") auto

lemma first_machine_run:
  "\<exists>r l tpl ns own cn ls. is_read l \<and> rolloutOrScale E_noclone C0 (cp0 []) [] =
     (r, [l] @ CloneTemplate tpl ns own cn ls # [Event ''FailedInitialization''])"
  by (simp add: rolloutOrScale_def scaleControlPlane_def initializeControlPlane_def no_machine_outdated MFilter_def
      GetMachinesForCluster_def cloneConfigsAndGenerateMachine_def computeDesiredMachine_def machineIdentity_def
      markUpToDate_def markWaitingForServer_def updKCP_def kp_MarkFalse_def kp_MarkTrue_def
      go_runs deref_def E_noclone_def E0_answers C0_def L0_def cp0_def kcp0_def Let_def)

section \<open>Sequences of passes\<close>

text \<open>The specification: with \<open>d\<close> machines desired, the number of machines grows by one while
  it does not exceed \<open>d\<close>, and shrinks by one while it does.\<close>

inductive passes :: "int \<Rightarrow> nat \<Rightarrow> nat \<Rightarrow> bool" for d where
  start: "passes d k k"
| create: "passes d k n \<Longrightarrow> int n \<le> d \<Longrightarrow> passes d k (Suc n)"
| delete: "passes d k (Suc n) \<Longrightarrow> d < int (Suc n) \<Longrightarrow> passes d k n"

lemma passes_corridor:
  assumes "passes d k n"
  shows "min (int k) d \<le> int n \<and> int n \<le> max (int k) (d + 1)"
  using assms by induction auto

lemma resize_count:
  "length (filter is_resize cs) = length (filter is_clone cs) + length (filter is_delete_machine cs)"
proof -
  have "\<not> (is_clone c \<and> is_delete_machine c)" for c
    by (auto simp: is_clone_def is_delete_machine_def split: call.splits)
  then show ?thesis by (induction cs) (auto simp: is_resize_def)
qed

lemma filter_witness: "length (filter p cs) > 0 \<Longrightarrow> \<exists>c\<in>set cs. p c"
  by (auto simp: filter_empty_conv)

text \<open>C4 A pass of rollout or scaling is a step of this specification: it begins at most one
  creation or issues at most one deletion, and only where the specification allows it. By rule
  induction no sequence of such passes leaves the corridor between the desired number (or the
  initial one, if smaller) and one more (or the initial one, if larger).\<close>

theorem replicas_refine:
  assumes "ps_Replicas (kp_Spec (cp_KCP cp)) = Some n" "passes (sint n) k (length (cp_Machines cp))"
  shows "\<exists>cs. snd (rolloutOrScale E C cp h) = h @ cs \<and>
     (let m = length (cp_Machines cp) + length (filter is_clone cs) - length (filter is_delete_machine cs)
      in passes (sint n) k m \<and> min (int k) (sint n) \<le> int m \<and> int m \<le> max (int k) (sint n + 1))"
proof -
  obtain r h' where run: "rolloutOrScale E C cp h = (r, h')" by fastforce
  obtain cs where cs: "h' = h @ cs" "length (filter is_resize cs) \<le> Suc 0"
    using rolloutOrScale_one run by (rule boundedE)
  have at: "\<exists>xs ys. rolloutOrScale E C cp h = (r, (h @ xs) @ c # ys)" if "c \<in> set cs" for c
    using split_list[OF that] run cs(1) by auto
  have allowed: "(is_clone c \<longrightarrow> int (length (cp_Machines cp)) \<le> sint n) \<and>
      (is_delete_machine c \<longrightarrow> sint n < int (length (cp_Machines cp)))" if "c \<in> set cs" for c
  proof (cases "is_resize c")
    case True
    from at[OF \<open>c \<in> set cs\<close>] obtain xs ys where "rolloutOrScale E C cp h = (r, (h @ xs) @ c # ys)" by blast
    from rolloutOrScale_corridor[OF this _ True] assms(1) show ?thesis by auto
  qed (simp add: is_resize_def)
  have "passes (sint n) k (length (cp_Machines cp) + length (filter is_clone cs) - length (filter is_delete_machine cs))"
  proof -
    consider (none) "length (filter is_clone cs) = 0" "length (filter is_delete_machine cs) = 0"
      | (one) "length (filter is_clone cs) = 1" "length (filter is_delete_machine cs) = 0"
      | (less) "length (filter is_clone cs) = 0" "length (filter is_delete_machine cs) = 1"
      using cs(2) unfolding resize_count by linarith
    then show ?thesis
    proof cases
      case one
      then have "int (length (cp_Machines cp)) \<le> sint n" using filter_witness[of is_clone cs] allowed by auto
      with one show ?thesis using passes.create[OF assms(2)] by simp
    next
      case less
      then have d: "sint n < int (length (cp_Machines cp))" using filter_witness[of is_delete_machine cs] allowed by auto
      show ?thesis
      proof (cases "length (cp_Machines cp)")
        case (Suc m)
        with less d assms(2) show ?thesis using passes.delete[of "sint n" k m] by simp
      qed (use less assms(2) in simp)
    qed (use assms(2) in simp)
  qed
  with run cs(1) passes_corridor[OF this] show ?thesis by (auto simp: Let_def)
qed

theorem replicas_refine_witness:
  "\<exists>cs. snd (rolloutOrScale E_noclone C0 (cp0 []) []) = cs \<and> length (filter is_clone cs) = 1 \<and> passes 3 0 1"
proof -
  have r: "ps_Replicas (kp_Spec (cp_KCP (cp0 []))) = Some 3" and m: "cp_Machines (cp0 []) = []"
    by (simp_all add: cp0_def kcp0_def)
  have "passes (sint (3 :: int32)) 0 (length (cp_Machines (cp0 [])))" unfolding m by (simp add: passes.start)
  from replicas_refine[OF r this, of E_noclone C0 "[]"] obtain cs where
    cs: "snd (rolloutOrScale E_noclone C0 (cp0 []) []) = cs"
      "passes 3 0 (length (filter is_clone cs) - length (filter is_delete_machine cs))"
    using m by (auto simp: Let_def)
  obtain r l tpl ns own cn ls where run: "is_read l" "rolloutOrScale E_noclone C0 (cp0 []) [] =
      (r, [l] @ CloneTemplate tpl ns own cn ls # [Event ''FailedInitialization''])"
    using first_machine_run by blast
  have "length (filter is_clone cs) = 1" "length (filter is_delete_machine cs) = 0"
    using run cs(1) is_resize_simps(3)[OF run(1)] by (auto simp: is_resize_def is_delete_machine_def)
  with cs show ?thesis by auto
qed

end
