(* ===== verification/LockRefinement.thy ===== *)
theory LockRefinement
  imports SecretResults
begin

text \<open>
  The mutex of theory \<open>InitLock\<close> implements a lock. The specification is a function on the
  name of the holder; the implementation runs \<open>Lock\<close> and \<open>Unlock\<close>, one after the other,
  against an API server that keeps the ConfigMap, and the simulation relation reads the holder
  out of the ConfigMap. Operations that overlap are the subject of theory \<open>SecretResults\<close>.
\<close>

section \<open>Specification\<close>

datatype lockOp = OpLock string | OpUnlock

text \<open>A machine gets a free lock and keeps its own. Of a lock that another machine holds it
  gets nothing; but when that machine no longer exists the lock becomes free for the next attempt.
  Unlocking always succeeds.\<close>

fun lockSpec :: "(string \<Rightarrow> bool) \<Rightarrow> lockOp \<Rightarrow> string option \<Rightarrow> bool \<times> string option" where
  "lockSpec alive (OpLock m) None = (True, Some m)"
| "lockSpec alive (OpLock m) (Some k) =
     (if k = m then (True, Some k) else if alive k then (False, Some k) else (False, None))"
| "lockSpec alive OpUnlock a = (True, None)"

fun specOps :: "(string \<Rightarrow> bool) \<Rightarrow> lockOp list \<Rightarrow> string option \<Rightarrow> bool list \<times> string option" where
  "specOps alive [] a = ([], a)"
| "specOps alive (op # ops) a =
     (let (b, a1) = lockSpec alive op a; (bs, a2) = specOps alive ops a1 in (b # bs, a2))"

section \<open>Implementation\<close>

text \<open>The server: a creation succeeds when there is no ConfigMap, a deletion when there is one.\<close>

definition serverStep :: "ConfigMap option \<Rightarrow> call \<Rightarrow> ConfigMap option" where
  "serverStep st c = (case c of
     CreateConfigMap cm \<Rightarrow> (case st of None \<Rightarrow> Some cm | Some old \<Rightarrow> Some old)
   | DeleteConfigMap _ \<Rightarrow> None
   | _ \<Rightarrow> st)"

definition replay :: "ConfigMap option \<Rightarrow> call list \<Rightarrow> ConfigMap option" where
  "replay st h = foldl serverStep st h"

definition server :: "env \<Rightarrow> (string \<Rightarrow> bool) \<Rightarrow> ConfigMap option \<Rightarrow> env" where
  "server E alive st = E\<lparr>
     e_configmap := (\<lambda>h _. case replay st h of None \<Rightarrow> Inl (ApiErr NotFound []) | Some cm \<Rightarrow> Inr cm),
     e_err := (\<lambda>h c. case c of
         CreateConfigMap _ \<Rightarrow> if replay st h = None then None else Some (ApiErr AlreadyExists [])
       | DeleteConfigMap _ \<Rightarrow> if replay st h = None then Some (ApiErr NotFound []) else None
       | _ \<Rightarrow> e_err E h c),
     e_machine := (\<lambda>h c. case c of
         GetMachine (ns, m) \<Rightarrow> if alive m then Inr (machine0 m None []) else Inl (ApiErr NotFound [])
       | _ \<Rightarrow> e_machine E h c)\<rparr>"

fun runOp :: "env \<Rightarrow> lockLib \<Rightarrow> Cluster \<Rightarrow> lockOp \<Rightarrow> (call, bool) go" where
  "runOp E K cluster (OpLock m) = Lock E K cluster m"
| "runOp E K cluster OpUnlock = Unlock E cluster"

fun runOps :: "env \<Rightarrow> lockLib \<Rightarrow> Cluster \<Rightarrow> lockOp list \<Rightarrow> (call, bool list) go" where
  "runOps E K cluster [] = ret []"
| "runOps E K cluster (op # ops) =
     bnd (runOp E K cluster op) (\<lambda>b. bnd (runOps E K cluster ops) (\<lambda>bs. ret (b # bs)))"

lemma replay_simps [simp]:
  "replay st [] = st" "replay st (c # h) = replay (serverStep st c) h" "replay st (h @ g) = replay (replay st h) g"
  by (simp_all add: replay_def)

section \<open>Refinement\<close>

definition holds :: "lockLib \<Rightarrow> ConfigMap option \<Rightarrow> string option \<Rightarrow> bool" where
  "holds K st a \<longleftrightarrow> (case st of None \<Rightarrow> a = None | Some cm \<Rightarrow> \<exists>m. information K cm = Inr m \<and> a = Some m)"

text \<open>Marshalling a struct with one string never fails.\<close>

definition marshals :: "lockLib \<Rightarrow> bool" where
  "marshals K \<longleftrightarrow> (\<forall>n. \<exists>s. marshalInformation K n = Inr s)"

lemma server_answers:
  "e_configmap (server E alive st) h c = (case replay st h of None \<Rightarrow> Inl (ApiErr NotFound []) | Some cm \<Rightarrow> Inr cm)"
  "e_err (server E alive st) h (CreateConfigMap cm) = (if replay st h = None then None else Some (ApiErr AlreadyExists []))"
  "e_err (server E alive st) h (DeleteConfigMap cm) = (if replay st h = None then Some (ApiErr NotFound []) else None)"
  "e_machine (server E alive st) h (GetMachine (ns, m)) =
     (if alive m then Inr (machine0 m None []) else Inl (ApiErr NotFound []))"
  by (simp_all add: server_def)

lemma serverStep_simps [simp]:
  "serverStep st (GetConfigMap k) = st" "serverStep st (GetMachine p) = st" "serverStep st (DeleteConfigMap cm) = None"
  "serverStep None (CreateConfigMap cm) = Some cm" "serverStep (Some old) (CreateConfigMap cm) = Some old"
  by (simp_all add: serverStep_def)

lemma op_refines:
  assumes "information_law K" "marshals K" "holds K (replay st h) a"
  shows "\<exists>h'. runOp (server E alive st) K cluster op h = (Some (fst (lockSpec alive op a)), h') \<and>
     holds K (replay st h') (snd (lockSpec alive op a))"
proof (cases op)
  case op: (OpLock m)
  show ?thesis
  proof (cases "replay st h")
    case None
    obtain b where "marshalInformation K m = Inr b" using assms(2) unfolding marshals_def by blast
    then obtain s where s: "setInformation K m (setMetadata cluster newSemaphore) = Inr s"
      by (simp add: setInformation_def)
    have a: "a = None" using assms(3) None by (simp add: holds_def)
    show ?thesis unfolding op a
      using None s information_set[OF assms(1) s]
      by (simp add: Lock_def acquire_def go_runs server_answers holds_def)
  next
    case (Some cm)
    with assms(3) obtain k where "information K cm = Inr k" "a = Some k" by (auto simp: holds_def)
    with op Some show ?thesis
      by (simp add: Lock_def checkHolder_def Unlock_def go_runs server_answers holds_def)
  qed
next
  case OpUnlock
  then show ?thesis
    by (cases "replay st h") (simp_all add: Unlock_def go_runs server_answers holds_def)
qed

lemma ops_refine:
  assumes "information_law K" "marshals K" "holds K (replay st h) a"
  shows "\<exists>h'. runOps (server E alive st) K cluster ops h = (Some (fst (specOps alive ops a)), h') \<and>
     holds K (replay st h') (snd (specOps alive ops a))"
  using assms(3)
proof (induction ops arbitrary: h a)
  case Nil
  then show ?case by (simp add: go_runs)
next
  case (Cons op ops)
  from op_refines[OF assms(1,2) Cons.prems, of E alive cluster op] obtain h1 where
    h1: "runOp (server E alive st) K cluster op h = (Some (fst (lockSpec alive op a)), h1)"
      "holds K (replay st h1) (snd (lockSpec alive op a))" by blast
  from Cons.IH[OF h1(2)] obtain h2 where
    "runOps (server E alive st) K cluster ops h1 = (Some (fst (specOps alive ops (snd (lockSpec alive op a)))), h2)"
      "holds K (replay st h2) (snd (specOps alive ops (snd (lockSpec alive op a))))" by blast
  with h1 show ?case by (simp add: go_runs Let_def split_beta)
qed

text \<open>C16 The mutex refines the abstract lock: any sequence of \<open>Lock\<close> and \<open>Unlock\<close>, run one
  after the other against an API server, returns what the specification returns, and leaves the
  ConfigMap of the holder the specification ends with.\<close>

theorem init_lock_refines:
  assumes "information_law K" "marshals K" "holds K st a"
  shows "\<exists>h. runOps (server E alive st) K cluster ops [] = (Some (fst (specOps alive ops a)), h) \<and>
     holds K (replay st h) (snd (specOps alive ops a))"
  using ops_refine[OF assms(1,2), of st "[]" a] assms(3) by (simp add: replay_def)

theorem init_lock_refines_witness:
  "\<exists>h. runOps (server E0 (\<lambda>m. m \<noteq> ''B'') None) K0 cluster0
       [OpLock ''A'', OpLock ''B'', OpUnlock, OpLock ''B'', OpLock ''C'', OpLock ''C''] [] =
     (Some [True, False, True, True, False, True], h) \<and> holds K0 (replay None h) (Some ''C'')"
  using init_lock_refines[OF K0_law, of None None E0 "\<lambda>m. m \<noteq> ''B''" cluster0
      "[OpLock ''A'', OpLock ''B'', OpUnlock, OpLock ''B'', OpLock ''C'', OpLock ''C'']"]
  by (simp add: marshals_def K0_def holds_def)

end
