(* ===== verification/EtcdProxy.thy ===== *)
theory EtcdProxy
  imports ApiTypes
begin

text \<open>
  \<^verbatim>\<open>pkg/proxy\<close>: connections to a pod through the port forwarding of the API server, over
  which the etcd client talks. The SPDY library is the environment: it answers the requests to
  open a connection, to create a stream and to close them. The essential property is that a
  dial that fails leaves no connection open.
\<close>

section \<open>State\<close>

text \<open>The REST configuration is shared by pointer, nil as \<open>None\<close>; only its time-out is looked
  at.\<close>

record RestConfig =
  rc_Host :: string
  rc_Timeout :: duration

record Proxy =
  px_Kind :: string
  px_Namespace :: string
  px_ResourceName :: string
  px_KubeConfig :: "RestConfig option"
  px_KeepAlive :: "duration option"
  px_Port :: int64

text \<open>The clientset, the round tripper and the upgrader are handles.\<close>

record Dialer =
  dl_proxy :: Proxy
  dl_clientset :: string
  dl_proxyTransport :: string
  dl_upgrader :: string
  dl_timeout :: duration

record dialLib =
  NewForConfig :: "RestConfig \<Rightarrow> goerr + string"
  RoundTripperFor :: "RestConfig \<Rightarrow> goerr + string \<times> string"

text \<open>Streams carry an identifier and the headers they were created with.\<close>

type_synonym Header = "string \<rightharpoonup> string"

record Stream =
  sm_Identifier :: "32 word"
  sm_Headers :: Header

record Conn =
  cn_connection :: nat
  cn_stream :: Stream
  cn_readDeadline :: time
  cn_writeDeadline :: time

datatype netCall =
    Dial string string string string   \<comment> \<open>resource kind, namespace, name, protocol\<close>
  | CreateStream nat Header
  | CloseStream Stream
  | CloseConn nat
  | ReadStream Stream
  | WriteStream Stream string

record netEnv =
  ne_dial :: "netCall list \<Rightarrow> netCall \<Rightarrow> goerr + nat"
  ne_stream :: "netCall list \<Rightarrow> netCall \<Rightarrow> goerr + Stream"
  ne_close :: "netCall list \<Rightarrow> netCall \<Rightarrow> goerr option"
  ne_read :: "netCall list \<Rightarrow> netCall \<Rightarrow> string \<times> goerr option"   \<comment> \<open>data and an error, such as the end\<close>
  ne_write :: "netCall list \<Rightarrow> netCall \<Rightarrow> nat \<times> goerr option"

definition net :: "netEnv \<Rightarrow> (netEnv \<Rightarrow> netCall list \<Rightarrow> netCall \<Rightarrow> 'a) \<Rightarrow> netCall \<Rightarrow> (netCall, 'a) go" where
  "net N sel c = issue c (\<lambda>h. sel N h c)"

definition proxyScheme :: string where "proxyScheme = ''proxy''"
definition PortForwardProtocolV1Name :: string where "PortForwardProtocolV1Name = ''portforward.k8s.io''"
definition PortHeader :: string where "PortHeader = ''port''"
definition PortForwardRequestIDHeader :: string where "PortForwardRequestIDHeader = ''requestID''"
definition StreamType :: string where "StreamType = ''streamType''"
definition StreamTypeError :: string where "StreamTypeError = ''error''"
definition StreamTypeData :: string where "StreamTypeData = ''data''"
definition dialDefaultTimeout :: duration where "dialDefaultTimeout = 10 * Second"

section \<open>Connections\<close>

definition NewConn :: "nat \<Rightarrow> Stream \<Rightarrow> Conn" where
  "NewConn connection stream =
     \<lparr>cn_connection = connection, cn_stream = stream, cn_readDeadline = 0, cn_writeDeadline = 0\<rparr>"

definition conn_Read :: "netEnv \<Rightarrow> Conn \<Rightarrow> (netCall, string \<times> goerr option) go" where
  "conn_Read N c = net N ne_read (ReadStream (cn_stream c))"

definition conn_Write :: "netEnv \<Rightarrow> Conn \<Rightarrow> string \<Rightarrow> (netCall, nat \<times> goerr option) go" where
  "conn_Write N c b = net N ne_write (WriteStream (cn_stream c) b)"

definition conn_Close :: "netEnv \<Rightarrow> Conn \<Rightarrow> (netCall, goerr option) go" where
  "conn_Close N c =
     bnd (net N ne_close (CloseStream (cn_stream c))) (\<lambda>e1.
     bnd (net N ne_close (CloseConn (cn_connection c))) (\<lambda>e2.
     ret (NewAggregate [e1, e2])))"

definition SetDeadline :: "Conn \<Rightarrow> time \<Rightarrow> Conn" where
  "SetDeadline c t = c\<lparr>cn_readDeadline := t, cn_writeDeadline := t\<rparr>"

definition SetWriteDeadline :: "Conn \<Rightarrow> time \<Rightarrow> Conn" where
  "SetWriteDeadline c t = c\<lparr>cn_writeDeadline := t\<rparr>"

definition SetReadDeadline :: "Conn \<Rightarrow> time \<Rightarrow> Conn" where
  "SetReadDeadline c t = c\<lparr>cn_readDeadline := t\<rparr>"

record Addr =
  ad_port :: string
  ad_identifier :: "32 word"

text \<open>\<^verbatim>\<open>Header.Get\<close> gives the empty string for a missing key.\<close>

definition NewAddrFromConn :: "Conn \<Rightarrow> Addr" where
  "NewAddrFromConn c =
     \<lparr>ad_port = (case sm_Headers (cn_stream c) PortHeader of None \<Rightarrow> [] | Some p \<Rightarrow> p),
      ad_identifier = sm_Identifier (cn_stream c)\<rparr>"

definition addr_Network :: "Addr \<Rightarrow> string" where
  "addr_Network a = PortForwardProtocolV1Name"

definition addr_String :: "Addr \<Rightarrow> string" where
  "addr_String a = proxyScheme @ ''://'' @ show_nat (unat (ad_identifier a)) @ ''.'' @ PortForwardProtocolV1Name @
     ''.local:'' @ ad_port a"

definition LocalAddr :: "Conn \<Rightarrow> Addr" where "LocalAddr c = NewAddrFromConn c"
definition RemoteAddr :: "Conn \<Rightarrow> Addr" where "RemoteAddr c = NewAddrFromConn c"

section \<open>Dialing\<close>

definition setTimeout :: "Dialer \<Rightarrow> duration \<Rightarrow> goerr + Dialer" where
  "setTimeout d t = Inr (d\<lparr>dl_timeout := t\<rparr>)"

definition DialTimeout :: "duration \<Rightarrow> Dialer \<Rightarrow> goerr + Dialer" where
  "DialTimeout t = (\<lambda>d. setTimeout d t)"

fun applyOptions :: "(Dialer \<Rightarrow> goerr + Dialer) list \<Rightarrow> Dialer \<Rightarrow> goerr + Dialer" where
  "applyOptions [] d = Inr d"
| "applyOptions (f # fs) d = (case f d of Inl err \<Rightarrow> Inl err | Inr d1 \<Rightarrow> applyOptions fs d1)"

text \<open>The outer \<open>None\<close> is the nil dereference of a missing configuration. The configuration
  is changed through the pointer and returned with the dialer, in the dialer's proxy.\<close>

definition NewDialer :: "dialLib \<Rightarrow> Proxy \<Rightarrow> (Dialer \<Rightarrow> goerr + Dialer) list \<Rightarrow> (goerr + Dialer) option" where
  "NewDialer D p options =
     (if px_Port p = 0 then Some (Inl (Msg ''port required''))
      else case applyOptions options \<lparr>dl_proxy = p, dl_clientset = [], dl_proxyTransport = [], dl_upgrader = [], dl_timeout = 0\<rparr> of
        Inl err \<Rightarrow> Some (Inl err)
      | Inr d \<Rightarrow>
          (let d1 = (if dl_timeout d = 0 then d\<lparr>dl_timeout := dialDefaultTimeout\<rparr> else d)
           in case px_KubeConfig p of
                None \<Rightarrow> None
              | Some kc \<Rightarrow>
                  (let kc1 = kc\<lparr>rc_Timeout := dl_timeout d1\<rparr>
                   in case NewForConfig D kc1 of
                        Inl err \<Rightarrow> Some (Inl err)
                      | Inr clientset \<Rightarrow>
                          (case RoundTripperFor D kc1 of
                             Inl err \<Rightarrow> Some (Inl err)
                           | Inr (transport, upgrader) \<Rightarrow>
                               Some (Inr (d1\<lparr>dl_proxy := (dl_proxy d1)\<lparr>px_KubeConfig := Some kc1\<rparr>,
                                 dl_proxyTransport := transport, dl_upgrader := upgrader, dl_clientset := clientset\<rparr>))))))"

definition closeAfter :: "netEnv \<Rightarrow> nat \<Rightarrow> goerr \<Rightarrow> (netCall, goerr + Conn) go" where
  "closeAfter N connection err =
     bnd (net N ne_close (CloseConn connection)) (\<lambda>closeErr.
     ret (Inl (case NewAggregate [Some err, closeErr] of Some agg \<Rightarrow> agg | None \<Rightarrow> err)))"

definition DialContext :: "netEnv \<Rightarrow> Dialer \<Rightarrow> string \<Rightarrow> (netCall, goerr + Conn) go" where
  "DialContext N d addr =
     bnd (net N ne_dial (Dial (px_Kind (dl_proxy d)) (px_Namespace (dl_proxy d)) addr PortForwardProtocolV1Name)) (\<lambda>r. case r of
       Inl err \<Rightarrow> ret (Inl (Wrap ''error upgrading connection'' err))
     | Inr connection \<Rightarrow>
         (let headers = Map.empty(PortHeader \<mapsto> show_int (sint (px_Port (dl_proxy d))), PortForwardRequestIDHeader \<mapsto> ''0'');
              headers1 = headers(StreamType \<mapsto> StreamTypeError);
              headers2 = headers1(StreamType \<mapsto> StreamTypeData)
          in bnd (net N ne_stream (CreateStream connection headers1)) (\<lambda>r. case r of
               Inl err \<Rightarrow> closeAfter N connection err
             | Inr errorStream \<Rightarrow>
             bnd (net N ne_close (CloseStream errorStream)) (\<lambda>e. case e of
               Some err \<Rightarrow> closeAfter N connection err
             | None \<Rightarrow>
             bnd (net N ne_stream (CreateStream connection headers2)) (\<lambda>r. case r of
               Inl err \<Rightarrow> closeAfter N connection (Wrap ''error creating forwarding stream'' err)
             | Inr dataStream \<Rightarrow> ret (Inr (NewConn connection dataStream)))))))"

definition DialContextWithAddr :: "netEnv \<Rightarrow> Dialer \<Rightarrow> string \<Rightarrow> (netCall, goerr + Conn) go" where
  "DialContextWithAddr N d addr = DialContext N d addr"

section \<open>No connection is leaked\<close>

text \<open>The connections a list of calls closes.\<close>

definition closes :: "nat \<Rightarrow> netCall list \<Rightarrow> nat" where
  "closes k cs = length (filter (\<lambda>c. c = CloseConn k) cs)"

lemma closes_simps [simp]:
  "closes k [] = 0" "closes k (c # cs) = (if c = CloseConn k then Suc (closes k cs) else closes k cs)"
  "closes k (xs @ ys) = closes k xs + closes k ys"
  by (simp_all add: closes_def)

lemma net_run [go_runs]: "net N sel c h = (Some (sel N h c), h @ [c])"
  by (simp add: net_def go_runs)

lemma closeAfter_run [go_runs]:
  "closeAfter N k err h = (Some (Inl (the (NewAggregate [Some err, ne_close N h (CloseConn k)]))), h @ [CloseConn k])"
  by (simp add: closeAfter_def go_runs NewAggregate_def Let_def List.map_filter_simps)

lemma conn_Close_run:
  "\<exists>e. conn_Close N c h = (Some e, h @ [CloseStream (cn_stream c), CloseConn (cn_connection c)])"
  by (simp add: conn_Close_def go_runs)

abbreviation dialCall :: "Dialer \<Rightarrow> string \<Rightarrow> netCall" where
  "dialCall d addr \<equiv> Dial (px_Kind (dl_proxy d)) (px_Namespace (dl_proxy d)) addr PortForwardProtocolV1Name"

lemma DialContext_nopanic: "nopanic (DialContext N d addr)"
  by (auto simp: nopanic_def DialContext_def go_runs Let_def split: sum.split option.split)

lemma DialContext_refused:
  "ne_dial N h (dialCall d addr) = Inl err \<Longrightarrow>
     DialContext N d addr h = (Some (Inl (Wrap ''error upgrading connection'' err)), h @ [dialCall d addr])"
  by (simp add: DialContext_def go_runs)

lemma DialContext_failed:
  assumes "ne_dial N h (dialCall d addr) = Inr k" "DialContext N d addr h = (Some (Inl e), h')"
  shows "\<exists>cs. h' = h @ dialCall d addr # cs @ [CloseConn k] \<and> closes k cs = 0"
  using assms by (auto simp: DialContext_def go_runs Let_def NewConn_def split: sum.splits option.splits)

lemma DialContext_connected:
  assumes "DialContext N d addr h = (Some (Inr c), h')"
  shows "\<exists>e h1 h2. ne_dial N h (dialCall d addr) = Inr (cn_connection c) \<and>
     h' = h @ [dialCall d addr, CreateStream (cn_connection c) h1, CloseStream e, CreateStream (cn_connection c) h2] \<and>
     h1 StreamType = Some StreamTypeError \<and> h2 = h1(StreamType \<mapsto> StreamTypeData) \<and>
     ne_stream N (h @ [dialCall d addr, CreateStream (cn_connection c) h1, CloseStream e])
       (CreateStream (cn_connection c) h2) = Inr (cn_stream c)"
  using assms by (auto simp: DialContext_def go_runs Let_def NewConn_def split: sum.splits option.splits)

text \<open>C14 A dial never leaks: it returns for all answers; when the connection was opened and the
  dial fails, the last thing it does is to close that connection, once; when it succeeds, the
  connection handed out is the one opened, not closed, with the data stream, and closing it closes
  stream and connection even if closing the stream fails.\<close>

theorem dial_no_leak:
  "\<exists>r h'. DialContext N d addr h = (Some r, h') \<and>
     (case ne_dial N h (dialCall d addr) of
        Inl _ \<Rightarrow> h' = h @ [dialCall d addr] \<and> (\<exists>e. r = Inl e)
      | Inr k \<Rightarrow>
          (case r of
             Inl _ \<Rightarrow> \<exists>cs. h' = h @ dialCall d addr # cs @ [CloseConn k] \<and> closes k cs = 0
           | Inr c \<Rightarrow> cn_connection c = k \<and> closes k (drop (length h) h') = 0 \<and>
               snd (conn_Close N c h') = h' @ [CloseStream (cn_stream c), CloseConn k]))"
proof -
  obtain r h' where run: "DialContext N d addr h = (Some r, h')"
    using DialContext_nopanic[of N d addr] unfolding nopanic_def by (metis not_None_eq prod.collapse)
  have close: "snd (conn_Close N c h') = h' @ [CloseStream (cn_stream c), CloseConn (cn_connection c)]" for c
    using conn_Close_run[of N c h'] by auto
  show ?thesis
  proof (cases "ne_dial N h (dialCall d addr)")
    case (Inl err)
    then show ?thesis using DialContext_refused by simp
  next
    case (Inr k)
    show ?thesis
    proof (cases r)
      case (Inl e)
      with Inr run DialContext_failed[OF Inr, of e h'] show ?thesis by simp
    next
      case r: (Inr c)
      with Inr run close[of c] DialContext_connected[of N d addr h c h'] show ?thesis by auto
    qed
  qed
qed

text \<open>The time-out of a dialer is never zero: an option sets it, or the default is taken; the
  shared configuration gets the same. A missing port is refused before anything else.\<close>

lemma NewDialer_timeout:
  assumes "NewDialer D p os = Some (Inr d)"
  shows "dl_timeout d \<noteq> 0 \<and> px_Port p \<noteq> 0 \<and> (\<exists>kc. px_KubeConfig (dl_proxy d) = Some kc \<and> rc_Timeout kc = dl_timeout d)"
  using assms by (auto simp: NewDialer_def dialDefaultTimeout_def Second_def Let_def
      split: if_splits sum.splits option.splits prod.splits)

end
