(* ===== verification/CoreDNS.thy ===== *)
theory CoreDNS
  imports ControlPlane "HOL-Library.Sublist"
begin

text \<open>
  \<^verbatim>\<open>pkg/k3s/workload_cluster_coredns.go\<close>. The upgrade of CoreDNS is disabled:
  \<^verbatim>\<open>UpdateCoreDNS\<close> does nothing. What is left of it, the migration of the configuration,
  has no caller but is kept in the sources. It works on the workload cluster through
  three requests, in an order that keeps CoreDNS running: back up, point the deployment to
  the backup, migrate.
\<close>

definition corefileKey :: string where "corefileKey = ''Corefile''"
definition corefileBackupKey :: string where "corefileBackupKey = ''Corefile-backup''"
definition coreDNSKey :: string where "coreDNSKey = ''coredns''"
definition coreDNSVolumeKey :: string where "coreDNSVolumeKey = ''config-volume''"

record KeyToPath =
  kp2_Key :: string
  kp2_Path :: string

record ConfigMapVolume =
  cv_Name :: string
  cv_Items :: "KeyToPath list"

record Volume =
  vo_Name :: string
  vo_ConfigMap :: "ConfigMapVolume option"

record Container =
  ct_Name :: string
  ct_Image :: string

record Deployment =
  de_Meta :: ObjectMeta
  de_Volumes :: "Volume list"
  de_Containers :: "Container list"

record coreDNSInfo =
  ci_Corefile :: string
  ci_Deployment :: Deployment
  ci_FromImageTag :: string
  ci_ToImageTag :: string
  ci_CurrentMajorMinorPatch :: string
  ci_TargetMajorMinorPatch :: string
  ci_FromImage :: string
  ci_ToImage :: string

definition ErrInvalidCoreDNSVersion :: goerr where
  "ErrInvalidCoreDNSVersion = Sentinel ''invalid CoreDNS version given''"

text \<open>Updates of the config map named \<^verbatim>\<open>coredns\<close> in \<^verbatim>\<open>kube-system\<close> (Corefile and
  backup), and patches of the deployment. The migration tool and the parser of versions are
  libraries; creating the patch helper may fail.\<close>

datatype dnsCall = UpdateCorefile string string | PatchDeployment Deployment

record dnsEnv =
  dn_err :: "dnsCall list \<Rightarrow> dnsCall \<Rightarrow> goerr option"
  dn_helper :: "dnsCall list \<Rightarrow> goerr option"

record dnsLib =
  Migrate :: "string \<Rightarrow> string \<Rightarrow> string \<Rightarrow> bool \<Rightarrow> goerr + string"
  ParseMajorMinorPatch :: "string \<Rightarrow> goerr + nat \<times> nat \<times> nat"

definition UpdateCoreDNS :: "KThreesControlPlane \<Rightarrow> goerr option" where
  "UpdateCoreDNS kcp = (if mget (kp_Annotations kcp) SkipCoreDNSAnnotation \<noteq> None then None else None)"

definition patchCoreDNSDeploymentVolume :: "Deployment \<Rightarrow> string \<Rightarrow> string \<Rightarrow> Deployment" where
  "patchCoreDNSDeploymentVolume deployment fromKey toKey =
     deployment\<lparr>de_Volumes := map (\<lambda>volume.
       if vo_Name volume = coreDNSVolumeKey
       then (case vo_ConfigMap volume of
               None \<Rightarrow> volume
             | Some cm \<Rightarrow> if cv_Name cm = coreDNSKey
                 then volume\<lparr>vo_ConfigMap := Some (cm\<lparr>cv_Items := map (\<lambda>item.
                   if kp2_Key item = fromKey \<or> kp2_Key item = toKey then item\<lparr>kp2_Key := toKey\<rparr> else item) (cv_Items cm)\<rparr>)\<rparr>
                 else volume)
       else volume) (de_Volumes deployment)\<rparr>"

definition patchCoreDNSDeploymentImage :: "Deployment \<Rightarrow> string \<Rightarrow> Deployment" where
  "patchCoreDNSDeploymentImage deployment img =
     deployment\<lparr>de_Containers := map (\<lambda>c. if ct_Name c = coreDNSKey then c\<lparr>ct_Image := img\<rparr> else c)
       (de_Containers deployment)\<rparr>"

definition extractImageVersion :: "dnsLib \<Rightarrow> string \<Rightarrow> goerr + string" where
  "extractImageVersion D tag =
     (case ParseMajorMinorPatch D tag of
        Inl err \<Rightarrow> Inl err
      | Inr (major, minor, patch) \<Rightarrow> Inr (show_nat major @ ''.'' @ show_nat minor @ ''.'' @ show_nat patch))"

text \<open>The deployment is changed in place, before the patch; it is returned.\<close>

definition updateCoreDNSCorefile :: "dnsEnv \<Rightarrow> dnsLib \<Rightarrow> coreDNSInfo \<Rightarrow> (dnsCall, coreDNSInfo \<times> goerr option) go" where
  "updateCoreDNSCorefile E D info =
     (case Migrate D (ci_CurrentMajorMinorPatch info) (ci_TargetMajorMinorPatch info) (ci_Corefile info) False of
        Inl err \<Rightarrow> ret (info, Some (Wrap ''unable to migrate CoreDNS corefile'' err))
      | Inr updatedCorefile \<Rightarrow>
        bnd (issue (UpdateCorefile (ci_Corefile info) (ci_Corefile info))
              (\<lambda>h. dn_err E h (UpdateCorefile (ci_Corefile info) (ci_Corefile info)))) (\<lambda>e. case e of
          Some err \<Rightarrow> ret (info, Some (Wrap ''unable to update CoreDNS config map with backup Corefile'' err))
        | None \<Rightarrow>
        bnd (ask (dn_helper E)) (\<lambda>e. case e of
          Some err \<Rightarrow> ret (info, Some err)
        | None \<Rightarrow>
        (let info1 = info\<lparr>ci_Deployment := patchCoreDNSDeploymentVolume (ci_Deployment info) corefileKey corefileBackupKey\<rparr>
         in bnd (issue (PatchDeployment (ci_Deployment info1)) (\<lambda>h. dn_err E h (PatchDeployment (ci_Deployment info1)))) (\<lambda>e. case e of
              Some err \<Rightarrow> ret (info1, Some err)
            | None \<Rightarrow>
            bnd (issue (UpdateCorefile updatedCorefile (ci_Corefile info))
                  (\<lambda>h. dn_err E h (UpdateCorefile updatedCorefile (ci_Corefile info)))) (\<lambda>e. case e of
              Some err \<Rightarrow> ret (info1, Some (Wrap ''unable to update CoreDNS config map'' ErrInvalidCoreDNSVersion))
            | None \<Rightarrow> ret (info1, None)))))))"

section \<open>The order of the migration\<close>

text \<open>A deployment uses a key of the config map.\<close>

definition usesKey :: "Deployment \<Rightarrow> string \<Rightarrow> bool" where
  "usesKey d k \<longleftrightarrow> (\<exists>v\<in>set (de_Volumes d). vo_Name v = coreDNSVolumeKey \<and>
     (\<exists>cm. vo_ConfigMap v = Some cm \<and> cv_Name cm = coreDNSKey \<and> (\<exists>i\<in>set (cv_Items cm). kp2_Key i = k)))"

lemma patched_uses:
  "k \<noteq> l \<Longrightarrow> \<not> usesKey (patchCoreDNSDeploymentVolume d k l) k"
  by (auto simp: usesKey_def patchCoreDNSDeploymentVolume_def split: option.splits if_splits)

text \<open>The Corefile is replaced only after its backup was stored and the deployment reads the
  backup; no request is sent when the migration tool refuses; and only a complete run returns no
  error.\<close>

lemma corefile_backed_up:
  assumes "updateCoreDNSCorefile E D info h = (Some (info', e), h')"
  shows "\<exists>cs u d. h' = h @ cs \<and>
      prefix cs [UpdateCorefile (ci_Corefile info) (ci_Corefile info), PatchDeployment d, UpdateCorefile u (ci_Corefile info)] \<and>
      \<not> usesKey d corefileKey \<and>
      (e = None \<longrightarrow> length cs = 3 \<and>
         Migrate D (ci_CurrentMajorMinorPatch info) (ci_TargetMajorMinorPatch info) (ci_Corefile info) False = Inr u)"
proof (cases "Migrate D (ci_CurrentMajorMinorPatch info) (ci_TargetMajorMinorPatch info) (ci_Corefile info) False")
  case (Inl err)
  let ?d = "(ci_Deployment info)\<lparr>de_Volumes := []\<rparr>"
  have "\<not> usesKey ?d corefileKey" by (simp add: usesKey_def)
  then show ?thesis using assms Inl
    by (intro exI[of _ "[]"] exI[of _ ?d]) (auto simp: updateCoreDNSCorefile_def go_runs)
next
  case (Inr u)
  let ?d = "patchCoreDNSDeploymentVolume (ci_Deployment info) corefileKey corefileBackupKey"
  have "\<not> usesKey ?d corefileKey" by (rule patched_uses) (simp add: corefileKey_def corefileBackupKey_def)
  moreover have "\<exists>cs. h' = h @ cs \<and>
      prefix cs [UpdateCorefile (ci_Corefile info) (ci_Corefile info), PatchDeployment ?d, UpdateCorefile u (ci_Corefile info)] \<and>
      (e = None \<longrightarrow> length cs = 3)"
    using assms Inr
    by (auto simp: updateCoreDNSCorefile_def go_runs Let_def split: option.splits)
  ultimately show ?thesis using Inr by blast
qed

end
