(* ===== verification/Accessors.thy ===== *)
theory Accessors
  imports Ssa
begin

text \<open>
  The typed accessors of \<^verbatim>\<open>pkg/util/contract/types.go\<close>, which read and write one field of
  an unstructured object, and the matchers of \<^verbatim>\<open>pkg/util/ssa/matchers.go\<close>, which test the
  managed fields of an object.

  The walk along a path is done by \<^verbatim>\<open>unstructured.NestedInt64\<close>, \<^verbatim>\<open>NestedBool\<close>,
  \<^verbatim>\<open>NestedString\<close> and \<^verbatim>\<open>SetNestedField\<close> of apimachinery: parameters, whose
  documented behaviour is \<open>nested_laws\<close>.
\<close>

section \<open>Fields of unstructured objects\<close>

datatype fieldValue = FInt int64 | FBool bool | FString string

record 'o nested =
  NestedInt64 :: "'o \<Rightarrow> Path \<Rightarrow> goerr + int64 option"
  NestedBool :: "'o \<Rightarrow> Path \<Rightarrow> goerr + bool option"
  NestedString :: "'o \<Rightarrow> Path \<Rightarrow> goerr + string option"
  SetNestedField :: "'o \<Rightarrow> fieldValue \<Rightarrow> Path \<Rightarrow> 'o \<times> goerr option"
  DurationString :: "duration \<Rightarrow> string"
  UnmarshalQuoted :: "string \<Rightarrow> goerr + duration"   \<comment> \<open>\<^verbatim>\<open>UnmarshalJSON\<close> of the quoted string\<close>

definition ErrFieldNotFound :: string where "ErrFieldNotFound = ''field not found''"

record Int64Accessor = i64_path :: Path
record BoolAccessor = bool_path :: Path
record StringAccessor = str_path :: Path
record DurationAccessor = dur_path :: Path

definition Int64_Path :: "Int64Accessor \<Rightarrow> Path" where "Int64_Path i = i64_path i"
definition Bool_Path :: "BoolAccessor \<Rightarrow> Path" where "Bool_Path b = bool_path b"
definition String_Path :: "StringAccessor \<Rightarrow> Path" where "String_Path s = str_path s"
definition Duration_Path :: "DurationAccessor \<Rightarrow> Path" where "Duration_Path i = dur_path i"

definition Int64_Get :: "'o nested \<Rightarrow> Int64Accessor \<Rightarrow> 'o \<Rightarrow> goerr + int64" where
  "Int64_Get N i obj =
     (case NestedInt64 N obj (i64_path i) of
        Inl err \<Rightarrow> Inl (Wrap (''failed to get .'' @ Join (i64_path i) ''.'' @ '' from object'') err)
      | Inr None \<Rightarrow> Inl (Wrap (''path .'' @ Join (i64_path i) ''.'') (Sentinel ErrFieldNotFound))
      | Inr (Some v) \<Rightarrow> Inr v)"

definition Bool_Get :: "'o nested \<Rightarrow> BoolAccessor \<Rightarrow> 'o \<Rightarrow> goerr + bool" where
  "Bool_Get N b obj =
     (case NestedBool N obj (bool_path b) of
        Inl err \<Rightarrow> Inl (Wrap (''failed to get .'' @ Join (bool_path b) ''.'' @ '' from object'') err)
      | Inr None \<Rightarrow> Inl (Wrap (''path .'' @ Join (bool_path b) ''.'') (Sentinel ErrFieldNotFound))
      | Inr (Some v) \<Rightarrow> Inr v)"

definition String_Get :: "'o nested \<Rightarrow> StringAccessor \<Rightarrow> 'o \<Rightarrow> goerr + string" where
  "String_Get N s obj =
     (case NestedString N obj (str_path s) of
        Inl err \<Rightarrow> Inl (Wrap (''failed to get .'' @ Join (str_path s) ''.'' @ '' from object'') err)
      | Inr None \<Rightarrow> Inl (Wrap (''path .'' @ Join (str_path s) ''.'') (Sentinel ErrFieldNotFound))
      | Inr (Some v) \<Rightarrow> Inr v)"

text \<open>A duration is stored as a string; a string that is not a duration is an error of its own.\<close>

definition Duration_Get :: "'o nested \<Rightarrow> DurationAccessor \<Rightarrow> 'o \<Rightarrow> goerr + duration" where
  "Duration_Get N i obj =
     (case NestedString N obj (dur_path i) of
        Inl err \<Rightarrow> Inl (Wrap (''failed to get .'' @ Join (dur_path i) ''.'' @ '' from object'') err)
      | Inr None \<Rightarrow> Inl (Wrap (''path .'' @ Join (dur_path i) ''.'') (Sentinel ErrFieldNotFound))
      | Inr (Some durationString) \<Rightarrow>
          (case UnmarshalQuoted N durationString of
             Inl err \<Rightarrow> Inl (Wrap (''failed to unmarshal duration .'' @ Join (dur_path i) ''.'' @ '' from object'') err)
           | Inr d \<Rightarrow> Inr d))"

text \<open>The object after the write, and the error.\<close>

definition setField :: "'o nested \<Rightarrow> Path \<Rightarrow> 'o \<Rightarrow> fieldValue \<Rightarrow> 'o \<times> goerr option" where
  "setField N path obj v =
     (case SetNestedField N obj v path of
        (obj', Some err) \<Rightarrow> (obj', Some (Wrap (''failed to set path .'' @ Join path ''.'') err))
      | (obj', None) \<Rightarrow> (obj', None))"

definition Int64_Set :: "'o nested \<Rightarrow> Int64Accessor \<Rightarrow> 'o \<Rightarrow> int64 \<Rightarrow> 'o \<times> goerr option" where
  "Int64_Set N i obj v = setField N (i64_path i) obj (FInt v)"
definition Bool_Set :: "'o nested \<Rightarrow> BoolAccessor \<Rightarrow> 'o \<Rightarrow> bool \<Rightarrow> 'o \<times> goerr option" where
  "Bool_Set N b obj v = setField N (bool_path b) obj (FBool v)"
definition String_Set :: "'o nested \<Rightarrow> StringAccessor \<Rightarrow> 'o \<Rightarrow> string \<Rightarrow> 'o \<times> goerr option" where
  "String_Set N s obj v = setField N (str_path s) obj (FString v)"
definition Duration_Set :: "'o nested \<Rightarrow> DurationAccessor \<Rightarrow> 'o \<Rightarrow> duration \<Rightarrow> 'o \<times> goerr option" where
  "Duration_Set N i obj v = setField N (dur_path i) obj (FString (DurationString N v))"

subsection \<open>What the nested functions promise\<close>

text \<open>A value that was set is found at its path with its type; the values at paths that do not
  overlap it stay; a printed duration is read back.\<close>

definition nested_laws :: "'o nested \<Rightarrow> bool" where
  "nested_laws N \<longleftrightarrow>
     (\<forall>obj obj' p v. SetNestedField N obj v p = (obj', None) \<longrightarrow>
        (case v of FInt i \<Rightarrow> NestedInt64 N obj' p = Inr (Some i)
         | FBool b \<Rightarrow> NestedBool N obj' p = Inr (Some b)
         | FString s \<Rightarrow> NestedString N obj' p = Inr (Some s)) \<and>
        (\<forall>q. \<not> Overlaps p q \<longrightarrow>
           NestedInt64 N obj' q = NestedInt64 N obj q \<and> NestedBool N obj' q = NestedBool N obj q \<and>
           NestedString N obj' q = NestedString N obj q)) \<and>
     (\<forall>d. UnmarshalQuoted N (DurationString N d) = Inr d)"

lemma setField_Some:
  assumes "nested_laws N" "setField N p obj v = (obj', None)"
  shows "(case v of FInt i \<Rightarrow> NestedInt64 N obj' p = Inr (Some i)
         | FBool b \<Rightarrow> NestedBool N obj' p = Inr (Some b)
         | FString s \<Rightarrow> NestedString N obj' p = Inr (Some s))"
    and "\<not> Overlaps p q \<Longrightarrow> NestedInt64 N obj' q = NestedInt64 N obj q"
    and "\<not> Overlaps p q \<Longrightarrow> NestedBool N obj' q = NestedBool N obj q"
    and "\<not> Overlaps p q \<Longrightarrow> NestedString N obj' q = NestedString N obj q"
  using assms unfolding nested_laws_def setField_def by (auto split: prod.splits option.splits)

text \<open>What was written is read back, through every accessor.\<close>

lemma get_after_set:
  assumes "nested_laws N"
  shows "Int64_Set N i obj x = (obj', None) \<Longrightarrow> Int64_Get N i obj' = Inr x"
    and "Bool_Set N b obj y = (obj', None) \<Longrightarrow> Bool_Get N b obj' = Inr y"
    and "String_Set N s obj z = (obj', None) \<Longrightarrow> String_Get N s obj' = Inr z"
    and "Duration_Set N d obj t = (obj', None) \<Longrightarrow> Duration_Get N d obj' = Inr t"
  using setField_Some(1)[OF assms, of "i64_path i" obj "FInt x" obj']
    setField_Some(1)[OF assms, of "bool_path b" obj "FBool y" obj']
    setField_Some(1)[OF assms, of "str_path s" obj "FString z" obj']
    setField_Some(1)[OF assms, of "dur_path d" obj "FString (DurationString N t)" obj'] assms
  by (simp_all add: Int64_Set_def Int64_Get_def Bool_Set_def Bool_Get_def String_Set_def String_Get_def
      Duration_Set_def Duration_Get_def nested_laws_def)

text \<open>Writing one field leaves the accessors of other fields alone.\<close>

lemma get_other_field:
  assumes "nested_laws N" "setField N p obj v = (obj', None)"
  shows "\<not> Overlaps p (i64_path i) \<Longrightarrow> Int64_Get N i obj' = Int64_Get N i obj"
    and "\<not> Overlaps p (bool_path b) \<Longrightarrow> Bool_Get N b obj' = Bool_Get N b obj"
    and "\<not> Overlaps p (str_path s) \<Longrightarrow> String_Get N s obj' = String_Get N s obj"
    and "\<not> Overlaps p (dur_path d) \<Longrightarrow> Duration_Get N d obj' = Duration_Get N d obj"
  using setField_Some(2-)[OF assms]
  by (simp_all add: Int64_Get_def Bool_Get_def String_Get_def Duration_Get_def)

text \<open>A missing field is told from every other failure by the sentinel.\<close>

lemma Int64_missing:
  assumes "\<And>err. NestedInt64 N obj (i64_path i) = Inl err \<Longrightarrow> \<not> is_sentinel err ErrFieldNotFound"
  shows "NestedInt64 N obj (i64_path i) = Inr None \<longleftrightarrow>
    (\<exists>err. Int64_Get N i obj = Inl err \<and> is_sentinel err ErrFieldNotFound)"
  using assms by (auto simp: Int64_Get_def split: sum.splits option.splits)

section \<open>Matchers\<close>

text \<open>The argument of a matcher is an interface value: an entry, a list of entries, or
  something else of which only the type name is printed.\<close>

datatype actual = AEntry ManagedFieldsEntry | AEntries "ManagedFieldsEntry list" | AOther string

record managedFieldMatcher =
  mfm_manager :: string
  mfm_operation :: string

record fieldOwnershipMatcher =
  fom_path :: Path
  fom_manager :: string
  fom_operation :: string

definition MatchManagedFieldsEntry :: "string \<Rightarrow> string \<Rightarrow> managedFieldMatcher" where
  "MatchManagedFieldsEntry manager operation = \<lparr>mfm_manager = manager, mfm_operation = operation\<rparr>"

definition managedFieldMatcher_Match :: "managedFieldMatcher \<Rightarrow> actual \<Rightarrow> goerr + bool" where
  "managedFieldMatcher_Match mf a =
     (case a of
        AEntry e \<Rightarrow> Inr (mf_Manager e = mfm_manager mf \<and> mf_Operation e = mfm_operation mf)
      | _ \<Rightarrow> Inl (Msg ''expecting metav1.ManagedFieldsEntry''))"

text \<open>The failure messages assert the type again: \<open>None\<close> is a panic.\<close>

definition managedFieldMessage :: "string \<Rightarrow> managedFieldMatcher \<Rightarrow> actual \<Rightarrow> string option" where
  "managedFieldMessage verb mf a =
     (case a of
        AEntry e \<Rightarrow> Some (''Expected ManagedFieldsEntry to '' @ verb @ '' Manager:'' @ mfm_manager mf @
           '' and Operation:'' @ mfm_operation mf @ '', got Manager:'' @ mf_Manager e @ '', Operation:'' @ mf_Operation e)
      | _ \<Rightarrow> None)"

definition managedFieldMatcher_FailureMessage :: "managedFieldMatcher \<Rightarrow> actual \<Rightarrow> string option" where
  "managedFieldMatcher_FailureMessage mf a = managedFieldMessage ''match'' mf a"
definition managedFieldMatcher_NegatedFailureMessage :: "managedFieldMatcher \<Rightarrow> actual \<Rightarrow> string option" where
  "managedFieldMatcher_NegatedFailureMessage mf a = managedFieldMessage ''not match'' mf a"

definition MatchFieldOwnership :: "string \<Rightarrow> string \<Rightarrow> Path \<Rightarrow> fieldOwnershipMatcher" where
  "MatchFieldOwnership manager operation path =
     \<lparr>fom_path = path, fom_manager = manager, fom_operation = operation\<rparr>"

text \<open>The first entry of the manager and operation decides. \<^verbatim>\<open>json.Unmarshal\<close> into a map
  fails on anything but a map; fields that are missing are dereferenced all the same.\<close>

definition fieldOwnershipMatcher_Match ::
  "(string \<Rightarrow> goerr + (string \<times> jval) list) \<Rightarrow> fieldOwnershipMatcher \<Rightarrow> actual \<Rightarrow> (goerr + bool) option" where
  "fieldOwnershipMatcher_Match unmarshal fom a =
     (case a of
        AEntries managedFields \<Rightarrow>
          (case List.find (\<lambda>e. mf_Manager e = fom_manager fom \<and> mf_Operation e = fom_operation fom) managedFields of
             None \<Rightarrow> Some (Inr False)
           | Some e \<Rightarrow>
               map_option (\<lambda>raw. case unmarshal raw of
                 Inl err \<Rightarrow> Inl (Wrap ''failed to parse managedFieldsEntry.FieldsV1'' err)
               | Inr fieldsV1 \<Rightarrow>
                   Inr (length (fst (filterFields (IsPathNotAllowed [fom_path fom]) [] fieldsV1)) > 0)) (mf_FieldsV1 e))
      | _ \<Rightarrow> Some (Inl (Msg ''expecting []metav1.ManagedFieldsEntry'')))"

definition fieldOwnershipMessage :: "(ManagedFieldsEntry list \<Rightarrow> string) \<Rightarrow> string \<Rightarrow> fieldOwnershipMatcher \<Rightarrow> actual \<Rightarrow> string option" where
  "fieldOwnershipMessage fmt verb fom a =
     (case a of
        AEntries managedFields \<Rightarrow> Some (''Expected Path '' @ PathString (fom_path fom) @ '' to '' @ verb @
           '' by Manager:'' @ fom_manager fom @ '' and Operation:'' @ fom_operation fom @
           '', did not find correct ownership: '' @ fmt managedFields)
      | _ \<Rightarrow> None)"

definition fieldOwnershipMatcher_FailureMessage ::
  "(ManagedFieldsEntry list \<Rightarrow> string) \<Rightarrow> fieldOwnershipMatcher \<Rightarrow> actual \<Rightarrow> string option" where
  "fieldOwnershipMatcher_FailureMessage fmt fom a = fieldOwnershipMessage fmt ''be owned'' fom a"
definition fieldOwnershipMatcher_NegatedFailureMessage ::
  "(ManagedFieldsEntry list \<Rightarrow> string) \<Rightarrow> fieldOwnershipMatcher \<Rightarrow> actual \<Rightarrow> string option" where
  "fieldOwnershipMatcher_NegatedFailureMessage fmt fom a = fieldOwnershipMessage fmt ''not be owned'' fom a"

text \<open>A message exists exactly when the match did not fail on the type.\<close>

lemma managedField_message:
  "managedFieldMatcher_FailureMessage mf a \<noteq> None \<longleftrightarrow> (\<exists>b. managedFieldMatcher_Match mf a = Inr b)"
  by (cases a) (auto simp: managedFieldMatcher_FailureMessage_def managedFieldMessage_def managedFieldMatcher_Match_def)

text \<open>The matcher answers yes exactly when a field overlapping the path is owned.\<close>

lemma filterFields_allowed_nonempty:
  "fst (filterFields (IsPathNotAllowed [p]) [] fs) \<noteq> [] \<longleftrightarrow> (\<exists>l\<in>set (fieldLeaves fs). Overlaps (fst l) p)"
proof -
  have ls: "fieldLeaves (fst (filterFields (IsPathNotAllowed [p]) [] fs)) = surviving (IsPathNotAllowed [p]) [] (fieldLeaves fs)"
    using FilterIntent_leaves(2)[of "IsPathNotAllowed [p]" "[]" fs] by blast
  have ne: "q \<noteq> []" if "(q, x) \<in> set (fieldLeaves gs)" for q x gs
    using that
  proof (induction gs)
    case (Cons g gs)
    then show ?case by (cases g) auto
  qed simp
  have "fst (filterFields (IsPathNotAllowed [p]) [] fs) \<noteq> [] \<longleftrightarrow> surviving (IsPathNotAllowed [p]) [] (fieldLeaves fs) \<noteq> []"
    using leaves_nonempty(2)[of "fst (filterFields (IsPathNotAllowed [p]) [] fs)"] ls by fastforce
  also have "\<dots> \<longleftrightarrow> (\<exists>l\<in>set (fieldLeaves fs). survives (IsPathNotAllowed [p]) [] (fst l))"
    by (auto simp: filter_empty_conv)
  also have "\<dots> \<longleftrightarrow> (\<exists>l\<in>set (fieldLeaves fs). Overlaps (fst l) p)"
  proof -
    have "survives (IsPathNotAllowed [p]) [] (fst l) \<longleftrightarrow> Overlaps (fst l) p" if "l \<in> set (fieldLeaves fs)" for l
      using that ne[of "fst l" "snd l" fs] survives_allowed[of "fst l" "[p]"] allowed_survives[of p "[p]" "fst l"] by auto
    then show ?thesis by blast
  qed
  finally show ?thesis .
qed

lemma fieldOwnership_iff:
  assumes "List.find (\<lambda>e. mf_Manager e = m \<and> mf_Operation e = opn) es = Some e" "mf_FieldsV1 e = Some raw" "unmarshal raw = Inr fs"
  shows "fieldOwnershipMatcher_Match unmarshal (MatchFieldOwnership m opn p) (AEntries es) =
    Some (Inr (\<exists>l\<in>set (fieldLeaves fs). Overlaps (fst l) p))"
  using assms filterFields_allowed_nonempty[of p fs]
  by (simp add: fieldOwnershipMatcher_Match_def MatchFieldOwnership_def)

end
