(* ===== verification/DeepCopy.thy ===== *)
theory DeepCopy
  imports Prelude
begin

text \<open>
  The memory behind the generated \<^verbatim>\<open>DeepCopy\<close> functions. The other theories treat
  objects as values, which is right only where no two objects share memory; the generated
  functions are what separates them. Here a Go value is the tree of the memory it reaches: a
  pointer and a slice carry the address of their target or backing array. \<open>addrs\<close> are the
  addresses a value reaches, \<open>erase\<close> forgets them, \<open>poke\<close> is an assignment through an
  address. A copy function takes the value and the next free address and returns the copy and
  the next free address. Types of other modules are opaque (\<open>TExt\<close>) or free of references
  (\<open>TFlat\<close>); their copy functions are a parameter.
\<close>

section \<open>Values in memory\<close>

datatype gval =
    Flat string
  | Struct "(string \<times> gval) list"
  | Ptr "(nat \<times> gval) option"
  | Slice "(nat \<times> gval list) option"

fun addrs :: "gval \<Rightarrow> nat set" and fieldAddrs :: "(string \<times> gval) list \<Rightarrow> nat set"
  and itemAddrs :: "gval list \<Rightarrow> nat set" where
  "addrs (Flat s) = {}"
| "addrs (Struct fs) = fieldAddrs fs"
| "addrs (Ptr None) = {}"
| "addrs (Ptr (Some (l, v))) = insert l (addrs v)"
| "addrs (Slice None) = {}"
| "addrs (Slice (Some (l, vs))) = insert l (itemAddrs vs)"
| "fieldAddrs [] = {}"
| "fieldAddrs ((n, v) # fs) = addrs v \<union> fieldAddrs fs"
| "itemAddrs [] = {}"
| "itemAddrs (v # vs) = addrs v \<union> itemAddrs vs"

fun erase :: "gval \<Rightarrow> gval" and eraseFields :: "(string \<times> gval) list \<Rightarrow> (string \<times> gval) list"
  and eraseItems :: "gval list \<Rightarrow> gval list" where
  "erase (Flat s) = Flat s"
| "erase (Struct fs) = Struct (eraseFields fs)"
| "erase (Ptr None) = Ptr None"
| "erase (Ptr (Some (l, v))) = Ptr (Some (0, erase v))"
| "erase (Slice None) = Slice None"
| "erase (Slice (Some (l, vs))) = Slice (Some (0, eraseItems vs))"
| "eraseFields [] = []"
| "eraseFields ((n, v) # fs) = (n, erase v) # eraseFields fs"
| "eraseItems [] = []"
| "eraseItems (v # vs) = erase v # eraseItems vs"

text \<open>An assignment to what is stored at an address, seen from a value.\<close>

fun poke :: "nat \<Rightarrow> (gval \<Rightarrow> gval) \<Rightarrow> gval \<Rightarrow> gval"
  and pokeFields :: "nat \<Rightarrow> (gval \<Rightarrow> gval) \<Rightarrow> (string \<times> gval) list \<Rightarrow> (string \<times> gval) list"
  and pokeItems :: "nat \<Rightarrow> (gval \<Rightarrow> gval) \<Rightarrow> gval list \<Rightarrow> gval list" where
  "poke k g (Flat s) = Flat s"
| "poke k g (Struct fs) = Struct (pokeFields k g fs)"
| "poke k g (Ptr None) = Ptr None"
| "poke k g (Ptr (Some (l, v))) = Ptr (Some (l, if k = l then g v else poke k g v))"
| "poke k g (Slice None) = Slice None"
| "poke k g (Slice (Some (l, vs))) = Slice (Some (l, if k = l then map g vs else pokeItems k g vs))"
| "pokeFields k g [] = []"
| "pokeFields k g ((n, v) # fs) = (n, poke k g v) # pokeFields k g fs"
| "pokeItems k g [] = []"
| "pokeItems k g (v # vs) = poke k g v # pokeItems k g vs"

lemma poke_unreached:
  "k \<notin> addrs v \<Longrightarrow> poke k g v = v" "k \<notin> fieldAddrs fs \<Longrightarrow> pokeFields k g fs = fs"
  "k \<notin> itemAddrs vs \<Longrightarrow> pokeItems k g vs = vs"
  by (induction k g v and k g fs and k g vs rule: poke_pokeFields_pokeItems.induct) auto

lemma fieldAddrs_set: "fieldAddrs fs = (\<Union>(n, v)\<in>set fs. addrs v)"
  by (induction fs) auto

lemma eraseFields_map: "eraseFields fs = map (\<lambda>(n, v). (n, erase v)) fs"
  by (induction fs) auto

named_theorems flat_types "types without references"

section \<open>Types\<close>

datatype gtype =
    TFlat
  | TExt string
  | TPtr gtype
  | TSlice gtype
  | TStruct "(string \<times> gtype) list"

fun conforms :: "gtype \<Rightarrow> gval \<Rightarrow> bool" and conformsFields :: "(string \<times> gtype) list \<Rightarrow> (string \<times> gval) list \<Rightarrow> bool" where
  "conforms TFlat v = (addrs v = {})"
| "conforms (TExt n) v = True"
| "conforms (TPtr t) v = (case v of Ptr None \<Rightarrow> True | Ptr (Some (l, w)) \<Rightarrow> conforms t w | _ \<Rightarrow> False)"
| "conforms (TSlice t) v = (case v of Slice None \<Rightarrow> True | Slice (Some (l, ws)) \<Rightarrow> (\<forall>w\<in>set ws. conforms t w) | _ \<Rightarrow> False)"
| "conforms (TStruct ts) v = (case v of Struct fs \<Rightarrow> conformsFields ts fs | _ \<Rightarrow> False)"
| "conformsFields [] fs = (fs = [])"
| "conformsFields ((n, t) # ts) fs = (case fs of [] \<Rightarrow> False | (m, v) # rest \<Rightarrow> m = n \<and> conforms t v \<and> conformsFields ts rest)"

text \<open>A type without references: assigning a value of it copies it.\<close>

fun flat_type :: "gtype \<Rightarrow> bool" and flat_fields :: "(string \<times> gtype) list \<Rightarrow> bool" where
  "flat_type TFlat = True"
| "flat_type (TStruct ts) = flat_fields ts"
| "flat_type _ = False"
| "flat_fields [] = True"
| "flat_fields ((n, t) # ts) = (flat_type t \<and> flat_fields ts)"

lemma flat_type_addrs:
  "flat_type t \<Longrightarrow> conforms t v \<Longrightarrow> addrs v = {}"
  "flat_fields ts \<Longrightarrow> conformsFields ts fs \<Longrightarrow> fieldAddrs fs = {}"
  by (induction t and ts arbitrary: v and fs rule: flat_type_flat_fields.induct)
    (auto split: gval.splits list.splits)

section \<open>The statements of the generated functions\<close>

type_synonym copier = "gval \<Rightarrow> nat \<Rightarrow> gval \<times> nat"

text \<open>\<^verbatim>\<open>out.F = in.F\<close>, \<^verbatim>\<open>**out = **in\<close>, and \<^verbatim>\<open>copy(*out, *in)\<close> for each item.\<close>

definition plain :: copier where
  "plain v a = (v, a)"

text \<open>\<^verbatim>\<open>*out = new(T)\<close>, then the target is copied.\<close>

fun newPtr :: "copier \<Rightarrow> copier" where
  "newPtr h (Ptr (Some (l, v))) a = (case h v (Suc a) of (v', a') \<Rightarrow> (Ptr (Some (a, v')), a'))"
| "newPtr h v a = (v, a)"

fun copyItems :: "copier \<Rightarrow> gval list \<Rightarrow> nat \<Rightarrow> gval list \<times> nat" where
  "copyItems h [] a = ([], a)"
| "copyItems h (v # vs) a = (case h v a of (v', a1) \<Rightarrow> case copyItems h vs a1 of (vs', a') \<Rightarrow> (v' # vs', a'))"

text \<open>\<^verbatim>\<open>*out = make([]T, len(*in))\<close>, then the items are copied.\<close>

fun makeSlice :: "copier \<Rightarrow> copier" where
  "makeSlice h (Slice (Some (l, vs))) a = (case copyItems h vs (Suc a) of (vs', a') \<Rightarrow> (Slice (Some (a, vs')), a'))"
| "makeSlice h v a = (v, a)"

text \<open>A statement for one field of the struct that was copied by \<^verbatim>\<open>*out = *in\<close>.\<close>

fun onField :: "string \<Rightarrow> copier \<Rightarrow> (string \<times> gval) list \<Rightarrow> nat \<Rightarrow> (string \<times> gval) list \<times> nat" where
  "onField n h [] a = ([], a)"
| "onField n h ((m, v) # fs) a =
     (if m = n then (case h v a of (v', a') \<Rightarrow> ((m, v') # fs, a'))
      else case onField n h fs a of (fs', a') \<Rightarrow> ((m, v) # fs', a'))"

fun onFields :: "(string \<times> copier) list \<Rightarrow> (string \<times> gval) list \<Rightarrow> nat \<Rightarrow> (string \<times> gval) list \<times> nat" where
  "onFields [] fs a = (fs, a)"
| "onFields ((n, h) # ops) fs a = (case onField n h fs a of (fs', a') \<Rightarrow> onFields ops fs' a')"

fun structCopy :: "(string \<times> copier) list \<Rightarrow> copier" where
  "structCopy ops (Struct fs) a = (case onFields ops fs a of (fs', a') \<Rightarrow> (Struct fs', a'))"
| "structCopy ops v a = (v, a)"

text \<open>\<^verbatim>\<open>DeepCopyObject\<close>: a nil pointer becomes the nil interface.\<close>

definition asObject :: "gval \<times> nat \<Rightarrow> gval option \<times> nat" where
  "asObject r = (case r of (Ptr None, a) \<Rightarrow> (None, a) | (c, a) \<Rightarrow> (Some c, a))"

section \<open>Deep copies\<close>

text \<open>A copier of a type returns the same value, conforming to the type, at fresh addresses only.\<close>

definition fresh_copy :: "gtype \<Rightarrow> gval \<Rightarrow> nat \<Rightarrow> gval \<times> nat \<Rightarrow> bool" where
  "fresh_copy t v a r \<longleftrightarrow> conforms t (fst r) \<and> erase (fst r) = erase v \<and> a \<le> snd r \<and> addrs (fst r) \<subseteq> {a..<snd r}"

definition deep :: "gtype \<Rightarrow> copier \<Rightarrow> bool" where
  "deep t h \<longleftrightarrow> (\<forall>v a. conforms t v \<longrightarrow> fresh_copy t v a (h v a))"

named_theorems deep_intros "deep copies of the types"

lemma deepD: "deep t h \<Longrightarrow> conforms t v \<Longrightarrow> h v a = (v', a') \<Longrightarrow>
    conforms t v' \<and> erase v' = erase v \<and> a \<le> a' \<and> addrs v' \<subseteq> {a..<a'}"
  unfolding deep_def fresh_copy_def by (metis fst_conv snd_conv)

lemma deep_plain [deep_intros]: "flat_type t \<Longrightarrow> deep t plain"
  by (auto simp: deep_def fresh_copy_def plain_def dest: flat_type_addrs)

lemma deep_newPtr [deep_intros]: "deep t h \<Longrightarrow> deep (TPtr t) (newPtr h)"
  unfolding deep_def
proof (intro allI impI)
  fix v a assume h: "\<forall>v a. conforms t v \<longrightarrow> fresh_copy t v a (h v a)" and c: "conforms (TPtr t) v"
  then consider "v = Ptr None" | l w where "v = Ptr (Some (l, w))" "conforms t w"
    by (auto split: gval.splits option.splits)
  then show "fresh_copy (TPtr t) v a (newPtr h v a)"
  proof cases
    case 2
    with h have "fresh_copy t w (Suc a) (h w (Suc a))" by blast
    with 2 show ?thesis by (auto simp: fresh_copy_def split: prod.splits)
  qed (simp add: fresh_copy_def)
qed

lemma deep_copyItems:
  assumes "deep t h" "\<forall>v\<in>set vs. conforms t v" "copyItems h vs a = (vs', a')"
  shows "(\<forall>v\<in>set vs'. conforms t v) \<and> eraseItems vs' = eraseItems vs \<and> a \<le> a' \<and> itemAddrs vs' \<subseteq> {a..<a'}"
  using assms(2,3)
proof (induction vs arbitrary: a vs')
  case (Cons v vs)
  obtain v1 a1 where h: "h v a = (v1, a1)" by fastforce
  obtain vs1 where r: "copyItems h vs a1 = (vs1, a')" "vs' = v1 # vs1" using Cons.prems(2) h by (auto split: prod.splits)
  with Cons.IH[OF _ r(1)] deepD[OF assms(1) _ h] Cons.prems(1) show ?case by force
qed simp

lemma deep_makeSlice [deep_intros]: "deep t h \<Longrightarrow> deep (TSlice t) (makeSlice h)"
  unfolding deep_def[of "TSlice t"]
proof (intro allI impI)
  fix v a assume h: "deep t h" and c: "conforms (TSlice t) v"
  then consider "v = Slice None" | l ws where "v = Slice (Some (l, ws))" "\<forall>w\<in>set ws. conforms t w"
    by (auto split: gval.splits option.splits)
  then show "fresh_copy (TSlice t) v a (makeSlice h v a)"
  proof cases
    case (2 l ws)
    obtain ws' a' where r: "copyItems h ws (Suc a) = (ws', a')" by fastforce
    from deep_copyItems[OF h 2(2) r] 2(1) r show ?thesis by (auto simp: fresh_copy_def)
  qed (simp add: fresh_copy_def)
qed

subsection \<open>Structs\<close>

text \<open>A field that has no statement is copied with the struct: it must be free of references.\<close>

definition covered :: "(string \<times> gtype) list \<Rightarrow> (string \<times> copier) list \<Rightarrow> bool" where
  "covered ts ops \<longleftrightarrow> distinct (map fst ts) \<and> distinct (map fst ops) \<and>
     (\<forall>(n, t)\<in>set ts. case map_of ops n of None \<Rightarrow> flat_type t | Some h \<Rightarrow> deep t h)"

text \<open>The fields after the statements so far.\<close>

definition copiedFields :: "(string \<times> gtype) list \<Rightarrow> string set \<Rightarrow> (string \<times> gval) list \<Rightarrow> nat \<Rightarrow> (string \<times> gval) list \<Rightarrow> nat \<Rightarrow> bool" where
  "copiedFields ts done0 fs a fs' a' \<longleftrightarrow> a \<le> a' \<and> conformsFields ts fs' \<and> eraseFields fs' = eraseFields fs \<and>
     (\<forall>(n, v)\<in>set fs'. n \<in> done0 \<longrightarrow> addrs v \<subseteq> {a..<a'})"

lemma conformsFields_names: "conformsFields ts fs \<Longrightarrow> map fst fs = map fst ts"
  by (induction ts arbitrary: fs) (auto split: list.splits)

lemma conformsFields_nth:
  "conformsFields ts fs \<Longrightarrow> distinct (map fst ts) \<Longrightarrow> (n, v) \<in> set fs \<Longrightarrow> (n, t) \<in> set ts \<Longrightarrow> conforms t v"
proof (induction ts arbitrary: fs)
  case (Cons x ts)
  obtain m u where x: "x = (m, u)" by fastforce
  with Cons.prems obtain w rest where fs: "fs = (m, w) # rest" "conforms u w" "conformsFields ts rest"
    by (auto split: list.splits)
  have "fst ` set rest = fst ` set ts" using conformsFields_names[OF fs(3)] by (metis list.set_map)
  then have "m \<notin> fst ` set rest" "m \<notin> fst ` set ts" using Cons.prems(2) x by auto
  then have "n = m \<Longrightarrow> (n, v) \<notin> set rest" "n = m \<Longrightarrow> (n, t) \<notin> set ts" by (auto simp: image_iff)
  then show ?case using Cons.IH[OF fs(3)] Cons.prems x fs by auto
qed simp

lemma onField_copied:
  assumes "conformsFields ts fs" "distinct (map fst ts)" "(n, t) \<in> set ts" "deep t h" "onField n h fs a = (fs', a')"
  shows "a \<le> a' \<and> conformsFields ts fs' \<and> eraseFields fs' = eraseFields fs \<and>
     (\<forall>(m, v)\<in>set fs'. if m = n then addrs v \<subseteq> {a..<a'} else (m, v) \<in> set fs)"
  using assms(1,2,3,5)
proof (induction ts arbitrary: fs fs')
  case (Cons x ts)
  obtain m u where x: "x = (m, u)" by fastforce
  with Cons.prems obtain w rest where fs: "fs = (m, w) # rest" "conforms u w" "conformsFields ts rest"
    by (auto split: list.splits)
  have names: "map fst rest = map fst ts" using conformsFields_names[OF fs(3)] .
  show ?case
  proof (cases "m = n")
    case True
    then have "n \<notin> fst ` set ts" using Cons.prems(2) x by auto
    with Cons.prems(3) x True have t: "u = t" by (force simp: image_iff)
    have nr: "n \<notin> fst ` set rest" using \<open>n \<notin> fst ` set ts\<close> names by (metis list.set_map)
    obtain w' where w: "h w a = (w', a')" "fs' = (m, w') # rest" using Cons.prems(4) fs True by (auto split: prod.splits)
    from deepD[OF assms(4) _ w(1)] fs t have "conforms t w' \<and> erase w' = erase w \<and> a \<le> a' \<and> addrs w' \<subseteq> {a..<a'}" by simp
    with fs w t x True nr show ?thesis by (auto simp: image_iff)
  next
    case False
    then obtain rest' where r: "onField n h rest a = (rest', a')" "fs' = (m, w) # rest'"
      using Cons.prems(4) fs by (auto split: prod.splits)
    have "(n, t) \<in> set ts" using Cons.prems(3) x False by simp
    from Cons.IH[OF fs(3) _ this r(1)] Cons.prems(2) fs r x False show ?thesis by (auto split: if_splits)
  qed
qed simp

lemma onFields_copied:
  assumes "conformsFields ts fs" "distinct (map fst ts)" "distinct (map fst ops)"
    and "\<forall>(n, h)\<in>set ops. \<exists>t. (n, t) \<in> set ts \<and> deep t h" "onFields ops fs a = (fs', a')"
  shows "a \<le> a' \<and> conformsFields ts fs' \<and> eraseFields fs' = eraseFields fs \<and>
     (\<forall>(m, v)\<in>set fs'. if m \<in> fst ` set ops then addrs v \<subseteq> {a..<a'} else (m, v) \<in> set fs)"
  using assms(1,3,4,5)
proof (induction ops arbitrary: fs a)
  case (Cons x ops)
  obtain n h where x: "x = (n, h)" by fastforce
  with Cons.prems obtain t where t: "(n, t) \<in> set ts" "deep t h" by auto
  obtain fs1 a1 where one: "onField n h fs a = (fs1, a1)" by fastforce
  with Cons.prems(4) x have rest: "onFields ops fs1 a1 = (fs', a')" by simp
  note s = onField_copied[OF Cons.prems(1) assms(2) t one]
  have "a1 \<le> a' \<and> conformsFields ts fs' \<and> eraseFields fs' = eraseFields fs1 \<and>
     (\<forall>(m, v)\<in>set fs'. if m \<in> fst ` set ops then addrs v \<subseteq> {a1..<a'} else (m, v) \<in> set fs1)"
    using Cons.IH[OF _ _ _ rest] s Cons.prems by auto
  with s x show ?case by (fastforce split: if_splits)
qed auto

lemma deep_struct:
  assumes "covered ts ops" "fst ` set ops \<subseteq> fst ` set ts"
  shows "deep (TStruct ts) (structCopy ops)"
  unfolding deep_def
proof (intro allI impI)
  fix v a assume "conforms (TStruct ts) v"
  then obtain fs where v: "v = Struct fs" and fs: "conformsFields ts fs" by (auto split: gval.splits)
  obtain fs' a' where r: "onFields ops fs a = (fs', a')" by fastforce
  have d: "distinct (map fst ts)" "distinct (map fst ops)" using assms(1) by (auto simp: covered_def)
  have ops: "\<forall>(n, h)\<in>set ops. \<exists>t. (n, t) \<in> set ts \<and> deep t h"
  proof clarify
    fix n h assume nh: "(n, h) \<in> set ops"
    with assms(2) obtain t where t: "(n, t) \<in> set ts" by force
    have "map_of ops n = Some h" using nh d(2) by simp
    with t assms(1) have "deep t h" by (fastforce simp: covered_def)
    with t show "\<exists>t. (n, t) \<in> set ts \<and> deep t h" by blast
  qed
  note s = onFields_copied[OF fs d ops r]
  have "addrs w \<subseteq> {a..<a'}" if w: "(n, w) \<in> set fs'" for n w
  proof (cases "n \<in> fst ` set ops")
    case True
    have "if n \<in> fst ` set ops then addrs w \<subseteq> {a..<a'} else (n, w) \<in> set fs" using s w by fast
    with True show ?thesis by simp
  next
    case False
    have "if n \<in> fst ` set ops then addrs w \<subseteq> {a..<a'} else (n, w) \<in> set fs" using s w by fast
    with False have inf: "(n, w) \<in> set fs" by simp
    then obtain t where t: "(n, t) \<in> set ts" using conformsFields_names[OF fs] by (metis (no_types, lifting) fst_conv image_iff list.set_map prod.exhaust_sel)
    from False have "map_of ops n = None" by (simp add: map_of_eq_None_iff)
    with t assms(1) have "flat_type t" by (fastforce simp: covered_def)
    with conformsFields_nth[OF fs d(1) inf t] show ?thesis by (simp add: flat_type_addrs)
  qed
  with s v r show "fresh_copy (TStruct ts) v a (structCopy ops v a)"
    by (auto simp: fresh_copy_def fieldAddrs_set)
qed

section \<open>Copy functions of other modules\<close>

text \<open>The parameter: \<^verbatim>\<open>DeepCopyInto\<close> of the named types. Its law is what those functions
  document.\<close>

type_synonym extCopy = "string \<Rightarrow> copier"

definition ext_laws :: "extCopy \<Rightarrow> bool" where
  "ext_laws ext \<longleftrightarrow> (\<forall>n v a. fresh_copy (TExt n) v a (ext n v a))"

lemma deep_ext [deep_intros]: "ext_laws ext \<Longrightarrow> deep (TExt n) (ext n)"
  by (auto simp: ext_laws_def deep_def)

text \<open>What a deep copy is good for: no assignment through the copy is seen by the original.\<close>

lemma deep_separate:
  assumes "deep t h" "conforms t v" "addrs v \<subseteq> {..<a}" "h v a = (v', a')"
  shows "erase v' = erase v" "addrs v' \<inter> addrs v = {}" "k \<in> addrs v' \<Longrightarrow> poke k g v = v"
proof -
  note d = deepD[OF assms(1,2,4)]
  then show "erase v' = erase v" by blast
  show disj: "addrs v' \<inter> addrs v = {}" using d assms(3) by force
  show "poke k g v = v" if "k \<in> addrs v'" using disj that by (intro poke_unreached) auto
qed

end
