(* ===== verification/DeepCopyBootstrap.thy ===== *)
theory DeepCopyBootstrap
  imports DeepCopy
begin

text \<open>
  The types of \<^verbatim>\<open>bootstrap/api\<close> and their functions in
  \<^verbatim>\<open>zz_generated.deepcopy.go\<close>, one statement for one statement. The prefix is the
  package: \<open>b1\<close> for v1beta1, \<open>b2\<close> for v1beta2.
\<close>

section \<open>\<^verbatim>\<open>bootstrap/api/v1beta1\<close>\<close>

definition b1_SecretFileSource :: gtype where
  "b1_SecretFileSource = TStruct
     [(''Name'', TFlat), (''Key'', TFlat)]"

definition b1_SecretFileSource_DeepCopyInto :: "copier" where
  "b1_SecretFileSource_DeepCopyInto = structCopy
     []"

definition b1_SecretFileSource_DeepCopy :: "copier" where
  "b1_SecretFileSource_DeepCopy = newPtr b1_SecretFileSource_DeepCopyInto"

lemma deep_b1_SecretFileSource [deep_intros]:
  "deep b1_SecretFileSource b1_SecretFileSource_DeepCopyInto"
  unfolding b1_SecretFileSource_def b1_SecretFileSource_DeepCopyInto_def
  by (rule deep_struct) (auto simp: covered_def flat_types intro!: deep_intros)

lemma flat_b1_SecretFileSource [flat_types]: "flat_type b1_SecretFileSource"
  by (simp add: b1_SecretFileSource_def flat_types)

definition b1_FileSource :: gtype where
  "b1_FileSource = TStruct
     [(''Secret'', b1_SecretFileSource)]"

definition b1_FileSource_DeepCopyInto :: "copier" where
  "b1_FileSource_DeepCopyInto = structCopy
     [(''Secret'', plain)]"

definition b1_FileSource_DeepCopy :: "copier" where
  "b1_FileSource_DeepCopy = newPtr b1_FileSource_DeepCopyInto"

lemma deep_b1_FileSource [deep_intros]:
  "deep b1_FileSource b1_FileSource_DeepCopyInto"
  unfolding b1_FileSource_def b1_FileSource_DeepCopyInto_def
  by (rule deep_struct) (auto simp: covered_def flat_types intro!: deep_intros)

lemma flat_b1_FileSource [flat_types]: "flat_type b1_FileSource"
  by (simp add: b1_FileSource_def flat_types)

definition b1_File :: gtype where
  "b1_File = TStruct
     [(''Path'', TFlat), (''Owner'', TFlat), (''Permissions'', TFlat), (''Encoding'', TFlat),
      (''Content'', TFlat), (''ContentFrom'', TPtr b1_FileSource)]"

definition b1_File_DeepCopyInto :: "copier" where
  "b1_File_DeepCopyInto = structCopy
     [(''ContentFrom'', newPtr plain)]"

definition b1_File_DeepCopy :: "copier" where
  "b1_File_DeepCopy = newPtr b1_File_DeepCopyInto"

lemma deep_b1_File [deep_intros]:
  "deep b1_File b1_File_DeepCopyInto"
  unfolding b1_File_def b1_File_DeepCopyInto_def
  by (rule deep_struct) (auto simp: covered_def flat_types intro!: deep_intros)

definition b1_KThreesAgentConfig :: gtype where
  "b1_KThreesAgentConfig = TStruct
     [(''NodeLabels'', TSlice TFlat), (''NodeTaints'', TSlice TFlat), (''PrivateRegistry'', TFlat),
      (''KubeletArgs'', TSlice TFlat), (''KubeProxyArgs'', TSlice TFlat), (''NodeName'', TFlat),
      (''AirGapped'', TFlat)]"

definition b1_KThreesAgentConfig_DeepCopyInto :: "copier" where
  "b1_KThreesAgentConfig_DeepCopyInto = structCopy
     [(''NodeLabels'', makeSlice plain), (''NodeTaints'', makeSlice plain),
      (''KubeletArgs'', makeSlice plain), (''KubeProxyArgs'', makeSlice plain)]"

definition b1_KThreesAgentConfig_DeepCopy :: "copier" where
  "b1_KThreesAgentConfig_DeepCopy = newPtr b1_KThreesAgentConfig_DeepCopyInto"

lemma deep_b1_KThreesAgentConfig [deep_intros]:
  "deep b1_KThreesAgentConfig b1_KThreesAgentConfig_DeepCopyInto"
  unfolding b1_KThreesAgentConfig_def b1_KThreesAgentConfig_DeepCopyInto_def
  by (rule deep_struct) (auto simp: covered_def flat_types intro!: deep_intros)

definition b1_KThreesServerConfig :: gtype where
  "b1_KThreesServerConfig = TStruct
     [(''KubeAPIServerArgs'', TSlice TFlat), (''KubeControllerManagerArgs'', TSlice TFlat),
      (''KubeSchedulerArgs'', TSlice TFlat), (''TLSSan'', TSlice TFlat), (''BindAddress'', TFlat),
      (''HTTPSListenPort'', TFlat), (''AdvertiseAddress'', TFlat), (''AdvertisePort'', TFlat),
      (''ClusterCidr'', TFlat), (''ServiceCidr'', TFlat), (''ClusterDNS'', TFlat),
      (''ClusterDomain'', TFlat), (''DisableComponents'', TSlice TFlat),
      (''DisableExternalCloudProvider'', TFlat)]"

definition b1_KThreesServerConfig_DeepCopyInto :: "copier" where
  "b1_KThreesServerConfig_DeepCopyInto = structCopy
     [(''KubeAPIServerArgs'', makeSlice plain), (''KubeControllerManagerArgs'', makeSlice plain),
      (''KubeSchedulerArgs'', makeSlice plain), (''TLSSan'', makeSlice plain),
      (''DisableComponents'', makeSlice plain)]"

definition b1_KThreesServerConfig_DeepCopy :: "copier" where
  "b1_KThreesServerConfig_DeepCopy = newPtr b1_KThreesServerConfig_DeepCopyInto"

lemma deep_b1_KThreesServerConfig [deep_intros]:
  "deep b1_KThreesServerConfig b1_KThreesServerConfig_DeepCopyInto"
  unfolding b1_KThreesServerConfig_def b1_KThreesServerConfig_DeepCopyInto_def
  by (rule deep_struct) (auto simp: covered_def flat_types intro!: deep_intros)

definition b1_KThreesConfigSpec :: gtype where
  "b1_KThreesConfigSpec = TStruct
     [(''Files'', TSlice b1_File), (''PreK3sCommands'', TSlice TFlat),
      (''PostK3sCommands'', TSlice TFlat), (''AgentConfig'', b1_KThreesAgentConfig),
      (''ServerConfig'', b1_KThreesServerConfig), (''Version'', TFlat)]"

definition b1_KThreesConfigSpec_DeepCopyInto :: "copier" where
  "b1_KThreesConfigSpec_DeepCopyInto = structCopy
     [(''Files'', makeSlice b1_File_DeepCopyInto), (''PreK3sCommands'', makeSlice plain),
      (''PostK3sCommands'', makeSlice plain), (''AgentConfig'', b1_KThreesAgentConfig_DeepCopyInto),
      (''ServerConfig'', b1_KThreesServerConfig_DeepCopyInto)]"

definition b1_KThreesConfigSpec_DeepCopy :: "copier" where
  "b1_KThreesConfigSpec_DeepCopy = newPtr b1_KThreesConfigSpec_DeepCopyInto"

lemma deep_b1_KThreesConfigSpec [deep_intros]:
  "deep b1_KThreesConfigSpec b1_KThreesConfigSpec_DeepCopyInto"
  unfolding b1_KThreesConfigSpec_def b1_KThreesConfigSpec_DeepCopyInto_def
  by (rule deep_struct) (auto simp: covered_def flat_types intro!: deep_intros)

definition b1_KThreesConfigStatus :: gtype where
  "b1_KThreesConfigStatus = TStruct
     [(''Ready'', TFlat), (''BootstrapData'', TSlice TFlat), (''DataSecretName'', TPtr TFlat),
      (''FailureReason'', TFlat), (''FailureMessage'', TFlat), (''ObservedGeneration'', TFlat),
      (''Conditions'', TSlice (TExt ''clusterv1.Condition''))]"

definition b1_KThreesConfigStatus_DeepCopyInto :: "extCopy \<Rightarrow> copier" where
  "b1_KThreesConfigStatus_DeepCopyInto ext = structCopy
     [(''BootstrapData'', makeSlice plain), (''DataSecretName'', newPtr plain),
      (''Conditions'', makeSlice (ext ''clusterv1.Condition''))]"

definition b1_KThreesConfigStatus_DeepCopy :: "extCopy \<Rightarrow> copier" where
  "b1_KThreesConfigStatus_DeepCopy ext = newPtr (b1_KThreesConfigStatus_DeepCopyInto ext)"

lemma deep_b1_KThreesConfigStatus [deep_intros]:
  "ext_laws ext \<Longrightarrow> deep b1_KThreesConfigStatus (b1_KThreesConfigStatus_DeepCopyInto ext)"
  unfolding b1_KThreesConfigStatus_def b1_KThreesConfigStatus_DeepCopyInto_def
  by (rule deep_struct) (auto simp: covered_def flat_types intro!: deep_intros)

definition b1_KThreesConfig :: gtype where
  "b1_KThreesConfig = TStruct
     [(''TypeMeta'', TFlat), (''ObjectMeta'', TExt ''metav1.ObjectMeta''),
      (''Spec'', b1_KThreesConfigSpec), (''Status'', b1_KThreesConfigStatus)]"

definition b1_KThreesConfig_DeepCopyInto :: "extCopy \<Rightarrow> copier" where
  "b1_KThreesConfig_DeepCopyInto ext = structCopy
     [(''TypeMeta'', plain), (''ObjectMeta'', ext ''metav1.ObjectMeta''),
      (''Spec'', b1_KThreesConfigSpec_DeepCopyInto),
      (''Status'', b1_KThreesConfigStatus_DeepCopyInto ext)]"

definition b1_KThreesConfig_DeepCopy :: "extCopy \<Rightarrow> copier" where
  "b1_KThreesConfig_DeepCopy ext = newPtr (b1_KThreesConfig_DeepCopyInto ext)"

definition b1_KThreesConfig_DeepCopyObject :: "extCopy \<Rightarrow> gval \<Rightarrow> nat \<Rightarrow> gval option \<times> nat" where
  "b1_KThreesConfig_DeepCopyObject ext v a = asObject (b1_KThreesConfig_DeepCopy ext v a)"

lemma deep_b1_KThreesConfig [deep_intros]:
  "ext_laws ext \<Longrightarrow> deep b1_KThreesConfig (b1_KThreesConfig_DeepCopyInto ext)"
  unfolding b1_KThreesConfig_def b1_KThreesConfig_DeepCopyInto_def
  by (rule deep_struct) (auto simp: covered_def flat_types intro!: deep_intros)

definition b1_KThreesConfigList :: gtype where
  "b1_KThreesConfigList = TStruct
     [(''TypeMeta'', TFlat), (''ListMeta'', TExt ''metav1.ListMeta''),
      (''Items'', TSlice b1_KThreesConfig)]"

definition b1_KThreesConfigList_DeepCopyInto :: "extCopy \<Rightarrow> copier" where
  "b1_KThreesConfigList_DeepCopyInto ext = structCopy
     [(''TypeMeta'', plain), (''ListMeta'', ext ''metav1.ListMeta''),
      (''Items'', makeSlice (b1_KThreesConfig_DeepCopyInto ext))]"

definition b1_KThreesConfigList_DeepCopy :: "extCopy \<Rightarrow> copier" where
  "b1_KThreesConfigList_DeepCopy ext = newPtr (b1_KThreesConfigList_DeepCopyInto ext)"

definition b1_KThreesConfigList_DeepCopyObject :: "extCopy \<Rightarrow> gval \<Rightarrow> nat \<Rightarrow> gval option \<times> nat" where
  "b1_KThreesConfigList_DeepCopyObject ext v a = asObject (b1_KThreesConfigList_DeepCopy ext v a)"

lemma deep_b1_KThreesConfigList [deep_intros]:
  "ext_laws ext \<Longrightarrow> deep b1_KThreesConfigList (b1_KThreesConfigList_DeepCopyInto ext)"
  unfolding b1_KThreesConfigList_def b1_KThreesConfigList_DeepCopyInto_def
  by (rule deep_struct) (auto simp: covered_def flat_types intro!: deep_intros)

definition b1_KThreesConfigTemplateResource :: gtype where
  "b1_KThreesConfigTemplateResource = TStruct
     [(''Spec'', b1_KThreesConfigSpec)]"

definition b1_KThreesConfigTemplateResource_DeepCopyInto :: "copier" where
  "b1_KThreesConfigTemplateResource_DeepCopyInto = structCopy
     [(''Spec'', b1_KThreesConfigSpec_DeepCopyInto)]"

definition b1_KThreesConfigTemplateResource_DeepCopy :: "copier" where
  "b1_KThreesConfigTemplateResource_DeepCopy = newPtr b1_KThreesConfigTemplateResource_DeepCopyInto"

lemma deep_b1_KThreesConfigTemplateResource [deep_intros]:
  "deep b1_KThreesConfigTemplateResource b1_KThreesConfigTemplateResource_DeepCopyInto"
  unfolding b1_KThreesConfigTemplateResource_def b1_KThreesConfigTemplateResource_DeepCopyInto_def
  by (rule deep_struct) (auto simp: covered_def flat_types intro!: deep_intros)

definition b1_KThreesConfigTemplateSpec :: gtype where
  "b1_KThreesConfigTemplateSpec = TStruct
     [(''Template'', b1_KThreesConfigTemplateResource)]"

definition b1_KThreesConfigTemplateSpec_DeepCopyInto :: "copier" where
  "b1_KThreesConfigTemplateSpec_DeepCopyInto = structCopy
     [(''Template'', b1_KThreesConfigTemplateResource_DeepCopyInto)]"

definition b1_KThreesConfigTemplateSpec_DeepCopy :: "copier" where
  "b1_KThreesConfigTemplateSpec_DeepCopy = newPtr b1_KThreesConfigTemplateSpec_DeepCopyInto"

lemma deep_b1_KThreesConfigTemplateSpec [deep_intros]:
  "deep b1_KThreesConfigTemplateSpec b1_KThreesConfigTemplateSpec_DeepCopyInto"
  unfolding b1_KThreesConfigTemplateSpec_def b1_KThreesConfigTemplateSpec_DeepCopyInto_def
  by (rule deep_struct) (auto simp: covered_def flat_types intro!: deep_intros)

definition b1_KThreesConfigTemplate :: gtype where
  "b1_KThreesConfigTemplate = TStruct
     [(''TypeMeta'', TFlat), (''ObjectMeta'', TExt ''metav1.ObjectMeta''),
      (''Spec'', b1_KThreesConfigTemplateSpec)]"

definition b1_KThreesConfigTemplate_DeepCopyInto :: "extCopy \<Rightarrow> copier" where
  "b1_KThreesConfigTemplate_DeepCopyInto ext = structCopy
     [(''TypeMeta'', plain), (''ObjectMeta'', ext ''metav1.ObjectMeta''),
      (''Spec'', b1_KThreesConfigTemplateSpec_DeepCopyInto)]"

definition b1_KThreesConfigTemplate_DeepCopy :: "extCopy \<Rightarrow> copier" where
  "b1_KThreesConfigTemplate_DeepCopy ext = newPtr (b1_KThreesConfigTemplate_DeepCopyInto ext)"

definition b1_KThreesConfigTemplate_DeepCopyObject :: "extCopy \<Rightarrow> gval \<Rightarrow> nat \<Rightarrow> gval option \<times> nat" where
  "b1_KThreesConfigTemplate_DeepCopyObject ext v a = asObject (b1_KThreesConfigTemplate_DeepCopy ext v a)"

lemma deep_b1_KThreesConfigTemplate [deep_intros]:
  "ext_laws ext \<Longrightarrow> deep b1_KThreesConfigTemplate (b1_KThreesConfigTemplate_DeepCopyInto ext)"
  unfolding b1_KThreesConfigTemplate_def b1_KThreesConfigTemplate_DeepCopyInto_def
  by (rule deep_struct) (auto simp: covered_def flat_types intro!: deep_intros)

definition b1_KThreesConfigTemplateList :: gtype where
  "b1_KThreesConfigTemplateList = TStruct
     [(''TypeMeta'', TFlat), (''ListMeta'', TExt ''metav1.ListMeta''),
      (''Items'', TSlice b1_KThreesConfigTemplate)]"

definition b1_KThreesConfigTemplateList_DeepCopyInto :: "extCopy \<Rightarrow> copier" where
  "b1_KThreesConfigTemplateList_DeepCopyInto ext = structCopy
     [(''TypeMeta'', plain), (''ListMeta'', ext ''metav1.ListMeta''),
      (''Items'', makeSlice (b1_KThreesConfigTemplate_DeepCopyInto ext))]"

definition b1_KThreesConfigTemplateList_DeepCopy :: "extCopy \<Rightarrow> copier" where
  "b1_KThreesConfigTemplateList_DeepCopy ext = newPtr (b1_KThreesConfigTemplateList_DeepCopyInto ext)"

definition b1_KThreesConfigTemplateList_DeepCopyObject :: "extCopy \<Rightarrow> gval \<Rightarrow> nat \<Rightarrow> gval option \<times> nat" where
  "b1_KThreesConfigTemplateList_DeepCopyObject ext v a = asObject (b1_KThreesConfigTemplateList_DeepCopy ext v a)"

lemma deep_b1_KThreesConfigTemplateList [deep_intros]:
  "ext_laws ext \<Longrightarrow> deep b1_KThreesConfigTemplateList (b1_KThreesConfigTemplateList_DeepCopyInto ext)"
  unfolding b1_KThreesConfigTemplateList_def b1_KThreesConfigTemplateList_DeepCopyInto_def
  by (rule deep_struct) (auto simp: covered_def flat_types intro!: deep_intros)

section \<open>\<^verbatim>\<open>bootstrap/api/v1beta2\<close>\<close>

definition b2_SecretFileSource :: gtype where
  "b2_SecretFileSource = TStruct
     [(''Name'', TFlat), (''Key'', TFlat)]"

definition b2_SecretFileSource_DeepCopyInto :: "copier" where
  "b2_SecretFileSource_DeepCopyInto = structCopy
     []"

definition b2_SecretFileSource_DeepCopy :: "copier" where
  "b2_SecretFileSource_DeepCopy = newPtr b2_SecretFileSource_DeepCopyInto"

lemma deep_b2_SecretFileSource [deep_intros]:
  "deep b2_SecretFileSource b2_SecretFileSource_DeepCopyInto"
  unfolding b2_SecretFileSource_def b2_SecretFileSource_DeepCopyInto_def
  by (rule deep_struct) (auto simp: covered_def flat_types intro!: deep_intros)

lemma flat_b2_SecretFileSource [flat_types]: "flat_type b2_SecretFileSource"
  by (simp add: b2_SecretFileSource_def flat_types)

definition b2_FileSource :: gtype where
  "b2_FileSource = TStruct
     [(''Secret'', b2_SecretFileSource)]"

definition b2_FileSource_DeepCopyInto :: "copier" where
  "b2_FileSource_DeepCopyInto = structCopy
     [(''Secret'', plain)]"

definition b2_FileSource_DeepCopy :: "copier" where
  "b2_FileSource_DeepCopy = newPtr b2_FileSource_DeepCopyInto"

lemma deep_b2_FileSource [deep_intros]:
  "deep b2_FileSource b2_FileSource_DeepCopyInto"
  unfolding b2_FileSource_def b2_FileSource_DeepCopyInto_def
  by (rule deep_struct) (auto simp: covered_def flat_types intro!: deep_intros)

lemma flat_b2_FileSource [flat_types]: "flat_type b2_FileSource"
  by (simp add: b2_FileSource_def flat_types)

definition b2_File :: gtype where
  "b2_File = TStruct
     [(''Path'', TFlat), (''Owner'', TFlat), (''Permissions'', TFlat), (''Encoding'', TFlat),
      (''Content'', TFlat), (''ContentFrom'', TPtr b2_FileSource)]"

definition b2_File_DeepCopyInto :: "copier" where
  "b2_File_DeepCopyInto = structCopy
     [(''ContentFrom'', newPtr plain)]"

definition b2_File_DeepCopy :: "copier" where
  "b2_File_DeepCopy = newPtr b2_File_DeepCopyInto"

lemma deep_b2_File [deep_intros]:
  "deep b2_File b2_File_DeepCopyInto"
  unfolding b2_File_def b2_File_DeepCopyInto_def
  by (rule deep_struct) (auto simp: covered_def flat_types intro!: deep_intros)

definition b2_KThreesAgentConfig :: gtype where
  "b2_KThreesAgentConfig = TStruct
     [(''NodeLabels'', TSlice TFlat), (''NodeTaints'', TSlice TFlat), (''PrivateRegistry'', TFlat),
      (''KubeletArgs'', TSlice TFlat), (''KubeProxyArgs'', TSlice TFlat), (''NodeName'', TFlat),
      (''AirGapped'', TFlat), (''AirGappedInstallScriptPath'', TFlat)]"

definition b2_KThreesAgentConfig_DeepCopyInto :: "copier" where
  "b2_KThreesAgentConfig_DeepCopyInto = structCopy
     [(''NodeLabels'', makeSlice plain), (''NodeTaints'', makeSlice plain),
      (''KubeletArgs'', makeSlice plain), (''KubeProxyArgs'', makeSlice plain)]"

definition b2_KThreesAgentConfig_DeepCopy :: "copier" where
  "b2_KThreesAgentConfig_DeepCopy = newPtr b2_KThreesAgentConfig_DeepCopyInto"

lemma deep_b2_KThreesAgentConfig [deep_intros]:
  "deep b2_KThreesAgentConfig b2_KThreesAgentConfig_DeepCopyInto"
  unfolding b2_KThreesAgentConfig_def b2_KThreesAgentConfig_DeepCopyInto_def
  by (rule deep_struct) (auto simp: covered_def flat_types intro!: deep_intros)

definition b2_KThreesServerConfig :: gtype where
  "b2_KThreesServerConfig = TStruct
     [(''KubeAPIServerArgs'', TSlice TFlat), (''KubeControllerManagerArgs'', TSlice TFlat),
      (''KubeSchedulerArgs'', TSlice TFlat), (''TLSSan'', TSlice TFlat), (''BindAddress'', TFlat),
      (''HTTPSListenPort'', TFlat), (''AdvertiseAddress'', TFlat), (''AdvertisePort'', TFlat),
      (''ClusterCidr'', TFlat), (''ServiceCidr'', TFlat), (''ClusterDNS'', TFlat),
      (''ClusterDomain'', TFlat), (''DisableComponents'', TSlice TFlat),
      (''DeprecatedDisableExternalCloudProvider'', TFlat), (''DisableCloudController'', TPtr TFlat),
      (''CloudProviderName'', TPtr TFlat), (''SystemDefaultRegistry'', TFlat),
      (''EtcdProxyImage'', TFlat)]"

definition b2_KThreesServerConfig_DeepCopyInto :: "copier" where
  "b2_KThreesServerConfig_DeepCopyInto = structCopy
     [(''KubeAPIServerArgs'', makeSlice plain), (''KubeControllerManagerArgs'', makeSlice plain),
      (''KubeSchedulerArgs'', makeSlice plain), (''TLSSan'', makeSlice plain),
      (''DisableComponents'', makeSlice plain), (''DisableCloudController'', newPtr plain),
      (''CloudProviderName'', newPtr plain)]"

definition b2_KThreesServerConfig_DeepCopy :: "copier" where
  "b2_KThreesServerConfig_DeepCopy = newPtr b2_KThreesServerConfig_DeepCopyInto"

lemma deep_b2_KThreesServerConfig [deep_intros]:
  "deep b2_KThreesServerConfig b2_KThreesServerConfig_DeepCopyInto"
  unfolding b2_KThreesServerConfig_def b2_KThreesServerConfig_DeepCopyInto_def
  by (rule deep_struct) (auto simp: covered_def flat_types intro!: deep_intros)

definition b2_KThreesConfigSpec :: gtype where
  "b2_KThreesConfigSpec = TStruct
     [(''Files'', TSlice b2_File), (''PreK3sCommands'', TSlice TFlat),
      (''PostK3sCommands'', TSlice TFlat), (''AgentConfig'', b2_KThreesAgentConfig),
      (''ServerConfig'', b2_KThreesServerConfig), (''Version'', TFlat)]"

definition b2_KThreesConfigSpec_DeepCopyInto :: "copier" where
  "b2_KThreesConfigSpec_DeepCopyInto = structCopy
     [(''Files'', makeSlice b2_File_DeepCopyInto), (''PreK3sCommands'', makeSlice plain),
      (''PostK3sCommands'', makeSlice plain), (''AgentConfig'', b2_KThreesAgentConfig_DeepCopyInto),
      (''ServerConfig'', b2_KThreesServerConfig_DeepCopyInto)]"

definition b2_KThreesConfigSpec_DeepCopy :: "copier" where
  "b2_KThreesConfigSpec_DeepCopy = newPtr b2_KThreesConfigSpec_DeepCopyInto"

lemma deep_b2_KThreesConfigSpec [deep_intros]:
  "deep b2_KThreesConfigSpec b2_KThreesConfigSpec_DeepCopyInto"
  unfolding b2_KThreesConfigSpec_def b2_KThreesConfigSpec_DeepCopyInto_def
  by (rule deep_struct) (auto simp: covered_def flat_types intro!: deep_intros)

definition b2_KThreesConfigStatus :: gtype where
  "b2_KThreesConfigStatus = TStruct
     [(''Ready'', TFlat), (''BootstrapData'', TSlice TFlat), (''DataSecretName'', TPtr TFlat),
      (''FailureReason'', TFlat), (''FailureMessage'', TFlat), (''ObservedGeneration'', TFlat),
      (''Conditions'', TSlice (TExt ''clusterv1.Condition''))]"

definition b2_KThreesConfigStatus_DeepCopyInto :: "extCopy \<Rightarrow> copier" where
  "b2_KThreesConfigStatus_DeepCopyInto ext = structCopy
     [(''BootstrapData'', makeSlice plain), (''DataSecretName'', newPtr plain),
      (''Conditions'', makeSlice (ext ''clusterv1.Condition''))]"

definition b2_KThreesConfigStatus_DeepCopy :: "extCopy \<Rightarrow> copier" where
  "b2_KThreesConfigStatus_DeepCopy ext = newPtr (b2_KThreesConfigStatus_DeepCopyInto ext)"

lemma deep_b2_KThreesConfigStatus [deep_intros]:
  "ext_laws ext \<Longrightarrow> deep b2_KThreesConfigStatus (b2_KThreesConfigStatus_DeepCopyInto ext)"
  unfolding b2_KThreesConfigStatus_def b2_KThreesConfigStatus_DeepCopyInto_def
  by (rule deep_struct) (auto simp: covered_def flat_types intro!: deep_intros)

definition b2_KThreesConfig :: gtype where
  "b2_KThreesConfig = TStruct
     [(''TypeMeta'', TFlat), (''ObjectMeta'', TExt ''metav1.ObjectMeta''),
      (''Spec'', b2_KThreesConfigSpec), (''Status'', b2_KThreesConfigStatus)]"

definition b2_KThreesConfig_DeepCopyInto :: "extCopy \<Rightarrow> copier" where
  "b2_KThreesConfig_DeepCopyInto ext = structCopy
     [(''TypeMeta'', plain), (''ObjectMeta'', ext ''metav1.ObjectMeta''),
      (''Spec'', b2_KThreesConfigSpec_DeepCopyInto),
      (''Status'', b2_KThreesConfigStatus_DeepCopyInto ext)]"

definition b2_KThreesConfig_DeepCopy :: "extCopy \<Rightarrow> copier" where
  "b2_KThreesConfig_DeepCopy ext = newPtr (b2_KThreesConfig_DeepCopyInto ext)"

definition b2_KThreesConfig_DeepCopyObject :: "extCopy \<Rightarrow> gval \<Rightarrow> nat \<Rightarrow> gval option \<times> nat" where
  "b2_KThreesConfig_DeepCopyObject ext v a = asObject (b2_KThreesConfig_DeepCopy ext v a)"

lemma deep_b2_KThreesConfig [deep_intros]:
  "ext_laws ext \<Longrightarrow> deep b2_KThreesConfig (b2_KThreesConfig_DeepCopyInto ext)"
  unfolding b2_KThreesConfig_def b2_KThreesConfig_DeepCopyInto_def
  by (rule deep_struct) (auto simp: covered_def flat_types intro!: deep_intros)

definition b2_KThreesConfigList :: gtype where
  "b2_KThreesConfigList = TStruct
     [(''TypeMeta'', TFlat), (''ListMeta'', TExt ''metav1.ListMeta''),
      (''Items'', TSlice b2_KThreesConfig)]"

definition b2_KThreesConfigList_DeepCopyInto :: "extCopy \<Rightarrow> copier" where
  "b2_KThreesConfigList_DeepCopyInto ext = structCopy
     [(''TypeMeta'', plain), (''ListMeta'', ext ''metav1.ListMeta''),
      (''Items'', makeSlice (b2_KThreesConfig_DeepCopyInto ext))]"

definition b2_KThreesConfigList_DeepCopy :: "extCopy \<Rightarrow> copier" where
  "b2_KThreesConfigList_DeepCopy ext = newPtr (b2_KThreesConfigList_DeepCopyInto ext)"

definition b2_KThreesConfigList_DeepCopyObject :: "extCopy \<Rightarrow> gval \<Rightarrow> nat \<Rightarrow> gval option \<times> nat" where
  "b2_KThreesConfigList_DeepCopyObject ext v a = asObject (b2_KThreesConfigList_DeepCopy ext v a)"

lemma deep_b2_KThreesConfigList [deep_intros]:
  "ext_laws ext \<Longrightarrow> deep b2_KThreesConfigList (b2_KThreesConfigList_DeepCopyInto ext)"
  unfolding b2_KThreesConfigList_def b2_KThreesConfigList_DeepCopyInto_def
  by (rule deep_struct) (auto simp: covered_def flat_types intro!: deep_intros)

definition b2_KThreesConfigTemplateResource :: gtype where
  "b2_KThreesConfigTemplateResource = TStruct
     [(''Spec'', b2_KThreesConfigSpec)]"

definition b2_KThreesConfigTemplateResource_DeepCopyInto :: "copier" where
  "b2_KThreesConfigTemplateResource_DeepCopyInto = structCopy
     [(''Spec'', b2_KThreesConfigSpec_DeepCopyInto)]"

definition b2_KThreesConfigTemplateResource_DeepCopy :: "copier" where
  "b2_KThreesConfigTemplateResource_DeepCopy = newPtr b2_KThreesConfigTemplateResource_DeepCopyInto"

lemma deep_b2_KThreesConfigTemplateResource [deep_intros]:
  "deep b2_KThreesConfigTemplateResource b2_KThreesConfigTemplateResource_DeepCopyInto"
  unfolding b2_KThreesConfigTemplateResource_def b2_KThreesConfigTemplateResource_DeepCopyInto_def
  by (rule deep_struct) (auto simp: covered_def flat_types intro!: deep_intros)

definition b2_KThreesConfigTemplateSpec :: gtype where
  "b2_KThreesConfigTemplateSpec = TStruct
     [(''Template'', b2_KThreesConfigTemplateResource)]"

definition b2_KThreesConfigTemplateSpec_DeepCopyInto :: "copier" where
  "b2_KThreesConfigTemplateSpec_DeepCopyInto = structCopy
     [(''Template'', b2_KThreesConfigTemplateResource_DeepCopyInto)]"

definition b2_KThreesConfigTemplateSpec_DeepCopy :: "copier" where
  "b2_KThreesConfigTemplateSpec_DeepCopy = newPtr b2_KThreesConfigTemplateSpec_DeepCopyInto"

lemma deep_b2_KThreesConfigTemplateSpec [deep_intros]:
  "deep b2_KThreesConfigTemplateSpec b2_KThreesConfigTemplateSpec_DeepCopyInto"
  unfolding b2_KThreesConfigTemplateSpec_def b2_KThreesConfigTemplateSpec_DeepCopyInto_def
  by (rule deep_struct) (auto simp: covered_def flat_types intro!: deep_intros)

definition b2_KThreesConfigTemplate :: gtype where
  "b2_KThreesConfigTemplate = TStruct
     [(''TypeMeta'', TFlat), (''ObjectMeta'', TExt ''metav1.ObjectMeta''),
      (''Spec'', b2_KThreesConfigTemplateSpec)]"

definition b2_KThreesConfigTemplate_DeepCopyInto :: "extCopy \<Rightarrow> copier" where
  "b2_KThreesConfigTemplate_DeepCopyInto ext = structCopy
     [(''TypeMeta'', plain), (''ObjectMeta'', ext ''metav1.ObjectMeta''),
      (''Spec'', b2_KThreesConfigTemplateSpec_DeepCopyInto)]"

definition b2_KThreesConfigTemplate_DeepCopy :: "extCopy \<Rightarrow> copier" where
  "b2_KThreesConfigTemplate_DeepCopy ext = newPtr (b2_KThreesConfigTemplate_DeepCopyInto ext)"

definition b2_KThreesConfigTemplate_DeepCopyObject :: "extCopy \<Rightarrow> gval \<Rightarrow> nat \<Rightarrow> gval option \<times> nat" where
  "b2_KThreesConfigTemplate_DeepCopyObject ext v a = asObject (b2_KThreesConfigTemplate_DeepCopy ext v a)"

lemma deep_b2_KThreesConfigTemplate [deep_intros]:
  "ext_laws ext \<Longrightarrow> deep b2_KThreesConfigTemplate (b2_KThreesConfigTemplate_DeepCopyInto ext)"
  unfolding b2_KThreesConfigTemplate_def b2_KThreesConfigTemplate_DeepCopyInto_def
  by (rule deep_struct) (auto simp: covered_def flat_types intro!: deep_intros)

definition b2_KThreesConfigTemplateList :: gtype where
  "b2_KThreesConfigTemplateList = TStruct
     [(''TypeMeta'', TFlat), (''ListMeta'', TExt ''metav1.ListMeta''),
      (''Items'', TSlice b2_KThreesConfigTemplate)]"

definition b2_KThreesConfigTemplateList_DeepCopyInto :: "extCopy \<Rightarrow> copier" where
  "b2_KThreesConfigTemplateList_DeepCopyInto ext = structCopy
     [(''TypeMeta'', plain), (''ListMeta'', ext ''metav1.ListMeta''),
      (''Items'', makeSlice (b2_KThreesConfigTemplate_DeepCopyInto ext))]"

definition b2_KThreesConfigTemplateList_DeepCopy :: "extCopy \<Rightarrow> copier" where
  "b2_KThreesConfigTemplateList_DeepCopy ext = newPtr (b2_KThreesConfigTemplateList_DeepCopyInto ext)"

definition b2_KThreesConfigTemplateList_DeepCopyObject :: "extCopy \<Rightarrow> gval \<Rightarrow> nat \<Rightarrow> gval option \<times> nat" where
  "b2_KThreesConfigTemplateList_DeepCopyObject ext v a = asObject (b2_KThreesConfigTemplateList_DeepCopy ext v a)"

lemma deep_b2_KThreesConfigTemplateList [deep_intros]:
  "ext_laws ext \<Longrightarrow> deep b2_KThreesConfigTemplateList (b2_KThreesConfigTemplateList_DeepCopyInto ext)"
  unfolding b2_KThreesConfigTemplateList_def b2_KThreesConfigTemplateList_DeepCopyInto_def
  by (rule deep_struct) (auto simp: covered_def flat_types intro!: deep_intros)

section \<open>All copy functions\<close>

definition bootstrapCopies :: "extCopy \<Rightarrow> (gtype \<times> copier) list" where
  "bootstrapCopies ext =
     [(b1_SecretFileSource, b1_SecretFileSource_DeepCopyInto),
      (b1_FileSource, b1_FileSource_DeepCopyInto),
      (b1_File, b1_File_DeepCopyInto),
      (b1_KThreesAgentConfig, b1_KThreesAgentConfig_DeepCopyInto),
      (b1_KThreesServerConfig, b1_KThreesServerConfig_DeepCopyInto),
      (b1_KThreesConfigSpec, b1_KThreesConfigSpec_DeepCopyInto),
      (b1_KThreesConfigStatus, b1_KThreesConfigStatus_DeepCopyInto ext),
      (b1_KThreesConfig, b1_KThreesConfig_DeepCopyInto ext),
      (b1_KThreesConfigList, b1_KThreesConfigList_DeepCopyInto ext),
      (b1_KThreesConfigTemplateResource, b1_KThreesConfigTemplateResource_DeepCopyInto),
      (b1_KThreesConfigTemplateSpec, b1_KThreesConfigTemplateSpec_DeepCopyInto),
      (b1_KThreesConfigTemplate, b1_KThreesConfigTemplate_DeepCopyInto ext),
      (b1_KThreesConfigTemplateList, b1_KThreesConfigTemplateList_DeepCopyInto ext),
      (b2_SecretFileSource, b2_SecretFileSource_DeepCopyInto),
      (b2_FileSource, b2_FileSource_DeepCopyInto),
      (b2_File, b2_File_DeepCopyInto),
      (b2_KThreesAgentConfig, b2_KThreesAgentConfig_DeepCopyInto),
      (b2_KThreesServerConfig, b2_KThreesServerConfig_DeepCopyInto),
      (b2_KThreesConfigSpec, b2_KThreesConfigSpec_DeepCopyInto),
      (b2_KThreesConfigStatus, b2_KThreesConfigStatus_DeepCopyInto ext),
      (b2_KThreesConfig, b2_KThreesConfig_DeepCopyInto ext),
      (b2_KThreesConfigList, b2_KThreesConfigList_DeepCopyInto ext),
      (b2_KThreesConfigTemplateResource, b2_KThreesConfigTemplateResource_DeepCopyInto),
      (b2_KThreesConfigTemplateSpec, b2_KThreesConfigTemplateSpec_DeepCopyInto),
      (b2_KThreesConfigTemplate, b2_KThreesConfigTemplate_DeepCopyInto ext),
      (b2_KThreesConfigTemplateList, b2_KThreesConfigTemplateList_DeepCopyInto ext)]"

lemma bootstrapCopies_deep:
  "ext_laws ext \<Longrightarrow> (t, h) \<in> set (bootstrapCopies ext) \<Longrightarrow> deep t h"
  unfolding bootstrapCopies_def by (auto intro: deep_intros)

end
