(* ===== verification/DeepCopyControlPlane.thy ===== *)
theory DeepCopyControlPlane
  imports DeepCopyBootstrap
begin

text \<open>
  The types of \<^verbatim>\<open>controlplane/api\<close> and their functions in
  \<^verbatim>\<open>zz_generated.deepcopy.go\<close>; the prefixes are \<open>c1\<close> for v1beta1 and \<open>c2\<close> for v1beta2.
\<close>

section \<open>\<^verbatim>\<open>controlplane/api/v1beta1\<close>\<close>

definition c1_KThreesControlPlaneMachineTemplate :: gtype where
  "c1_KThreesControlPlaneMachineTemplate = TStruct
     [(''ObjectMeta'', TExt ''clusterv1.ObjectMeta'')]"

definition c1_KThreesControlPlaneMachineTemplate_DeepCopyInto :: "extCopy \<Rightarrow> copier" where
  "c1_KThreesControlPlaneMachineTemplate_DeepCopyInto ext = structCopy
     [(''ObjectMeta'', ext ''clusterv1.ObjectMeta'')]"

definition c1_KThreesControlPlaneMachineTemplate_DeepCopy :: "extCopy \<Rightarrow> copier" where
  "c1_KThreesControlPlaneMachineTemplate_DeepCopy ext = newPtr (c1_KThreesControlPlaneMachineTemplate_DeepCopyInto ext)"

lemma deep_c1_KThreesControlPlaneMachineTemplate [deep_intros]:
  "ext_laws ext \<Longrightarrow> deep c1_KThreesControlPlaneMachineTemplate (c1_KThreesControlPlaneMachineTemplate_DeepCopyInto ext)"
  unfolding c1_KThreesControlPlaneMachineTemplate_def c1_KThreesControlPlaneMachineTemplate_DeepCopyInto_def
  by (rule deep_struct) (auto simp: covered_def flat_types intro!: deep_intros)

definition c1_RemediationStrategy :: gtype where
  "c1_RemediationStrategy = TStruct
     [(''MaxRetry'', TPtr TFlat), (''RetryPeriod'', TFlat), (''MinHealthyPeriod'', TPtr TFlat)]"

definition c1_RemediationStrategy_DeepCopyInto :: "copier" where
  "c1_RemediationStrategy_DeepCopyInto = structCopy
     [(''MaxRetry'', newPtr plain), (''RetryPeriod'', plain), (''MinHealthyPeriod'', newPtr plain)]"

definition c1_RemediationStrategy_DeepCopy :: "copier" where
  "c1_RemediationStrategy_DeepCopy = newPtr c1_RemediationStrategy_DeepCopyInto"

lemma deep_c1_RemediationStrategy [deep_intros]:
  "deep c1_RemediationStrategy c1_RemediationStrategy_DeepCopyInto"
  unfolding c1_RemediationStrategy_def c1_RemediationStrategy_DeepCopyInto_def
  by (rule deep_struct) (auto simp: covered_def flat_types intro!: deep_intros)

definition c1_KThreesControlPlaneSpec :: gtype where
  "c1_KThreesControlPlaneSpec = TStruct
     [(''Replicas'', TPtr TFlat), (''Version'', TFlat), (''InfrastructureTemplate'', TFlat),
      (''KThreesConfigSpec'', b1_KThreesConfigSpec), (''UpgradeAfter'', TPtr (TExt ''metav1.Time'')),
      (''NodeDrainTimeout'', TPtr TFlat), (''MachineTemplate'', c1_KThreesControlPlaneMachineTemplate),
      (''RemediationStrategy'', TPtr c1_RemediationStrategy)]"

definition c1_KThreesControlPlaneSpec_DeepCopyInto :: "extCopy \<Rightarrow> copier" where
  "c1_KThreesControlPlaneSpec_DeepCopyInto ext = structCopy
     [(''Replicas'', newPtr plain), (''InfrastructureTemplate'', plain),
      (''KThreesConfigSpec'', b1_KThreesConfigSpec_DeepCopyInto),
      (''UpgradeAfter'', newPtr (ext ''metav1.Time'')), (''NodeDrainTimeout'', newPtr plain),
      (''MachineTemplate'', c1_KThreesControlPlaneMachineTemplate_DeepCopyInto ext),
      (''RemediationStrategy'', newPtr c1_RemediationStrategy_DeepCopyInto)]"

definition c1_KThreesControlPlaneSpec_DeepCopy :: "extCopy \<Rightarrow> copier" where
  "c1_KThreesControlPlaneSpec_DeepCopy ext = newPtr (c1_KThreesControlPlaneSpec_DeepCopyInto ext)"

lemma deep_c1_KThreesControlPlaneSpec [deep_intros]:
  "ext_laws ext \<Longrightarrow> deep c1_KThreesControlPlaneSpec (c1_KThreesControlPlaneSpec_DeepCopyInto ext)"
  unfolding c1_KThreesControlPlaneSpec_def c1_KThreesControlPlaneSpec_DeepCopyInto_def
  by (rule deep_struct) (auto simp: covered_def flat_types intro!: deep_intros)

definition c1_LastRemediationStatus :: gtype where
  "c1_LastRemediationStatus = TStruct
     [(''Machine'', TFlat), (''Timestamp'', TExt ''metav1.Time''), (''RetryCount'', TFlat)]"

definition c1_LastRemediationStatus_DeepCopyInto :: "extCopy \<Rightarrow> copier" where
  "c1_LastRemediationStatus_DeepCopyInto ext = structCopy
     [(''Timestamp'', ext ''metav1.Time'')]"

definition c1_LastRemediationStatus_DeepCopy :: "extCopy \<Rightarrow> copier" where
  "c1_LastRemediationStatus_DeepCopy ext = newPtr (c1_LastRemediationStatus_DeepCopyInto ext)"

lemma deep_c1_LastRemediationStatus [deep_intros]:
  "ext_laws ext \<Longrightarrow> deep c1_LastRemediationStatus (c1_LastRemediationStatus_DeepCopyInto ext)"
  unfolding c1_LastRemediationStatus_def c1_LastRemediationStatus_DeepCopyInto_def
  by (rule deep_struct) (auto simp: covered_def flat_types intro!: deep_intros)

definition c1_KThreesControlPlaneStatus :: gtype where
  "c1_KThreesControlPlaneStatus = TStruct
     [(''Selector'', TFlat), (''Replicas'', TFlat), (''UpdatedReplicas'', TFlat),
      (''ReadyReplicas'', TFlat), (''UnavailableReplicas'', TFlat), (''Initialized'', TFlat),
      (''Ready'', TFlat), (''FailureReason'', TFlat), (''FailureMessage'', TPtr TFlat),
      (''ObservedGeneration'', TFlat), (''Conditions'', TSlice (TExt ''clusterv1.Condition'')),
      (''LastRemediation'', TPtr c1_LastRemediationStatus)]"

definition c1_KThreesControlPlaneStatus_DeepCopyInto :: "extCopy \<Rightarrow> copier" where
  "c1_KThreesControlPlaneStatus_DeepCopyInto ext = structCopy
     [(''FailureMessage'', newPtr plain), (''Conditions'', makeSlice (ext ''clusterv1.Condition'')),
      (''LastRemediation'', newPtr (c1_LastRemediationStatus_DeepCopyInto ext))]"

definition c1_KThreesControlPlaneStatus_DeepCopy :: "extCopy \<Rightarrow> copier" where
  "c1_KThreesControlPlaneStatus_DeepCopy ext = newPtr (c1_KThreesControlPlaneStatus_DeepCopyInto ext)"

lemma deep_c1_KThreesControlPlaneStatus [deep_intros]:
  "ext_laws ext \<Longrightarrow> deep c1_KThreesControlPlaneStatus (c1_KThreesControlPlaneStatus_DeepCopyInto ext)"
  unfolding c1_KThreesControlPlaneStatus_def c1_KThreesControlPlaneStatus_DeepCopyInto_def
  by (rule deep_struct) (auto simp: covered_def flat_types intro!: deep_intros)

definition c1_KThreesControlPlane :: gtype where
  "c1_KThreesControlPlane = TStruct
     [(''TypeMeta'', TFlat), (''ObjectMeta'', TExt ''metav1.ObjectMeta''),
      (''Spec'', c1_KThreesControlPlaneSpec), (''Status'', c1_KThreesControlPlaneStatus)]"

definition c1_KThreesControlPlane_DeepCopyInto :: "extCopy \<Rightarrow> copier" where
  "c1_KThreesControlPlane_DeepCopyInto ext = structCopy
     [(''TypeMeta'', plain), (''ObjectMeta'', ext ''metav1.ObjectMeta''),
      (''Spec'', c1_KThreesControlPlaneSpec_DeepCopyInto ext),
      (''Status'', c1_KThreesControlPlaneStatus_DeepCopyInto ext)]"

definition c1_KThreesControlPlane_DeepCopy :: "extCopy \<Rightarrow> copier" where
  "c1_KThreesControlPlane_DeepCopy ext = newPtr (c1_KThreesControlPlane_DeepCopyInto ext)"

definition c1_KThreesControlPlane_DeepCopyObject :: "extCopy \<Rightarrow> gval \<Rightarrow> nat \<Rightarrow> gval option \<times> nat" where
  "c1_KThreesControlPlane_DeepCopyObject ext v a = asObject (c1_KThreesControlPlane_DeepCopy ext v a)"

lemma deep_c1_KThreesControlPlane [deep_intros]:
  "ext_laws ext \<Longrightarrow> deep c1_KThreesControlPlane (c1_KThreesControlPlane_DeepCopyInto ext)"
  unfolding c1_KThreesControlPlane_def c1_KThreesControlPlane_DeepCopyInto_def
  by (rule deep_struct) (auto simp: covered_def flat_types intro!: deep_intros)

definition c1_KThreesControlPlaneList :: gtype where
  "c1_KThreesControlPlaneList = TStruct
     [(''TypeMeta'', TFlat), (''ListMeta'', TExt ''metav1.ListMeta''),
      (''Items'', TSlice c1_KThreesControlPlane)]"

definition c1_KThreesControlPlaneList_DeepCopyInto :: "extCopy \<Rightarrow> copier" where
  "c1_KThreesControlPlaneList_DeepCopyInto ext = structCopy
     [(''TypeMeta'', plain), (''ListMeta'', ext ''metav1.ListMeta''),
      (''Items'', makeSlice (c1_KThreesControlPlane_DeepCopyInto ext))]"

definition c1_KThreesControlPlaneList_DeepCopy :: "extCopy \<Rightarrow> copier" where
  "c1_KThreesControlPlaneList_DeepCopy ext = newPtr (c1_KThreesControlPlaneList_DeepCopyInto ext)"

definition c1_KThreesControlPlaneList_DeepCopyObject :: "extCopy \<Rightarrow> gval \<Rightarrow> nat \<Rightarrow> gval option \<times> nat" where
  "c1_KThreesControlPlaneList_DeepCopyObject ext v a = asObject (c1_KThreesControlPlaneList_DeepCopy ext v a)"

lemma deep_c1_KThreesControlPlaneList [deep_intros]:
  "ext_laws ext \<Longrightarrow> deep c1_KThreesControlPlaneList (c1_KThreesControlPlaneList_DeepCopyInto ext)"
  unfolding c1_KThreesControlPlaneList_def c1_KThreesControlPlaneList_DeepCopyInto_def
  by (rule deep_struct) (auto simp: covered_def flat_types intro!: deep_intros)

section \<open>\<^verbatim>\<open>controlplane/api/v1beta2\<close>\<close>

definition c2_KThreesControlPlaneMachineTemplate :: gtype where
  "c2_KThreesControlPlaneMachineTemplate = TStruct
     [(''ObjectMeta'', TExt ''clusterv1.ObjectMeta''), (''InfrastructureRef'', TFlat),
      (''NodeDrainTimeout'', TPtr TFlat), (''NodeVolumeDetachTimeout'', TPtr TFlat),
      (''NodeDeletionTimeout'', TPtr TFlat)]"

definition c2_KThreesControlPlaneMachineTemplate_DeepCopyInto :: "extCopy \<Rightarrow> copier" where
  "c2_KThreesControlPlaneMachineTemplate_DeepCopyInto ext = structCopy
     [(''ObjectMeta'', ext ''clusterv1.ObjectMeta''), (''InfrastructureRef'', plain),
      (''NodeDrainTimeout'', newPtr plain), (''NodeVolumeDetachTimeout'', newPtr plain),
      (''NodeDeletionTimeout'', newPtr plain)]"

definition c2_KThreesControlPlaneMachineTemplate_DeepCopy :: "extCopy \<Rightarrow> copier" where
  "c2_KThreesControlPlaneMachineTemplate_DeepCopy ext = newPtr (c2_KThreesControlPlaneMachineTemplate_DeepCopyInto ext)"

lemma deep_c2_KThreesControlPlaneMachineTemplate [deep_intros]:
  "ext_laws ext \<Longrightarrow> deep c2_KThreesControlPlaneMachineTemplate (c2_KThreesControlPlaneMachineTemplate_DeepCopyInto ext)"
  unfolding c2_KThreesControlPlaneMachineTemplate_def c2_KThreesControlPlaneMachineTemplate_DeepCopyInto_def
  by (rule deep_struct) (auto simp: covered_def flat_types intro!: deep_intros)

definition c2_RemediationStrategy :: gtype where
  "c2_RemediationStrategy = TStruct
     [(''MaxRetry'', TPtr TFlat), (''RetryPeriod'', TFlat), (''MinHealthyPeriod'', TPtr TFlat)]"

definition c2_RemediationStrategy_DeepCopyInto :: "copier" where
  "c2_RemediationStrategy_DeepCopyInto = structCopy
     [(''MaxRetry'', newPtr plain), (''RetryPeriod'', plain), (''MinHealthyPeriod'', newPtr plain)]"

definition c2_RemediationStrategy_DeepCopy :: "copier" where
  "c2_RemediationStrategy_DeepCopy = newPtr c2_RemediationStrategy_DeepCopyInto"

lemma deep_c2_RemediationStrategy [deep_intros]:
  "deep c2_RemediationStrategy c2_RemediationStrategy_DeepCopyInto"
  unfolding c2_RemediationStrategy_def c2_RemediationStrategy_DeepCopyInto_def
  by (rule deep_struct) (auto simp: covered_def flat_types intro!: deep_intros)

definition c2_KThreesControlPlaneSpec :: gtype where
  "c2_KThreesControlPlaneSpec = TStruct
     [(''Replicas'', TPtr TFlat), (''Version'', TFlat), (''KThreesConfigSpec'', b2_KThreesConfigSpec),
      (''RolloutAfter'', TPtr (TExt ''metav1.Time'')),
      (''MachineTemplate'', c2_KThreesControlPlaneMachineTemplate),
      (''RemediationStrategy'', TPtr c2_RemediationStrategy)]"

definition c2_KThreesControlPlaneSpec_DeepCopyInto :: "extCopy \<Rightarrow> copier" where
  "c2_KThreesControlPlaneSpec_DeepCopyInto ext = structCopy
     [(''Replicas'', newPtr plain), (''KThreesConfigSpec'', b2_KThreesConfigSpec_DeepCopyInto),
      (''RolloutAfter'', newPtr (ext ''metav1.Time'')),
      (''MachineTemplate'', c2_KThreesControlPlaneMachineTemplate_DeepCopyInto ext),
      (''RemediationStrategy'', newPtr c2_RemediationStrategy_DeepCopyInto)]"

definition c2_KThreesControlPlaneSpec_DeepCopy :: "extCopy \<Rightarrow> copier" where
  "c2_KThreesControlPlaneSpec_DeepCopy ext = newPtr (c2_KThreesControlPlaneSpec_DeepCopyInto ext)"

lemma deep_c2_KThreesControlPlaneSpec [deep_intros]:
  "ext_laws ext \<Longrightarrow> deep c2_KThreesControlPlaneSpec (c2_KThreesControlPlaneSpec_DeepCopyInto ext)"
  unfolding c2_KThreesControlPlaneSpec_def c2_KThreesControlPlaneSpec_DeepCopyInto_def
  by (rule deep_struct) (auto simp: covered_def flat_types intro!: deep_intros)

definition c2_LastRemediationStatus :: gtype where
  "c2_LastRemediationStatus = TStruct
     [(''Machine'', TFlat), (''Timestamp'', TExt ''metav1.Time''), (''RetryCount'', TFlat)]"

definition c2_LastRemediationStatus_DeepCopyInto :: "extCopy \<Rightarrow> copier" where
  "c2_LastRemediationStatus_DeepCopyInto ext = structCopy
     [(''Timestamp'', ext ''metav1.Time'')]"

definition c2_LastRemediationStatus_DeepCopy :: "extCopy \<Rightarrow> copier" where
  "c2_LastRemediationStatus_DeepCopy ext = newPtr (c2_LastRemediationStatus_DeepCopyInto ext)"

lemma deep_c2_LastRemediationStatus [deep_intros]:
  "ext_laws ext \<Longrightarrow> deep c2_LastRemediationStatus (c2_LastRemediationStatus_DeepCopyInto ext)"
  unfolding c2_LastRemediationStatus_def c2_LastRemediationStatus_DeepCopyInto_def
  by (rule deep_struct) (auto simp: covered_def flat_types intro!: deep_intros)

definition c2_KThreesControlPlaneStatus :: gtype where
  "c2_KThreesControlPlaneStatus = TStruct
     [(''Selector'', TFlat), (''Replicas'', TFlat), (''Version'', TPtr TFlat),
      (''UpdatedReplicas'', TFlat), (''ReadyReplicas'', TFlat), (''UnavailableReplicas'', TFlat),
      (''Initialized'', TFlat), (''Ready'', TFlat), (''FailureReason'', TFlat),
      (''FailureMessage'', TPtr TFlat), (''ObservedGeneration'', TFlat),
      (''Conditions'', TSlice (TExt ''clusterv1.Condition'')),
      (''LastRemediation'', TPtr c2_LastRemediationStatus)]"

definition c2_KThreesControlPlaneStatus_DeepCopyInto :: "extCopy \<Rightarrow> copier" where
  "c2_KThreesControlPlaneStatus_DeepCopyInto ext = structCopy
     [(''Version'', newPtr plain), (''FailureMessage'', newPtr plain),
      (''Conditions'', makeSlice (ext ''clusterv1.Condition'')),
      (''LastRemediation'', newPtr (c2_LastRemediationStatus_DeepCopyInto ext))]"

definition c2_KThreesControlPlaneStatus_DeepCopy :: "extCopy \<Rightarrow> copier" where
  "c2_KThreesControlPlaneStatus_DeepCopy ext = newPtr (c2_KThreesControlPlaneStatus_DeepCopyInto ext)"

lemma deep_c2_KThreesControlPlaneStatus [deep_intros]:
  "ext_laws ext \<Longrightarrow> deep c2_KThreesControlPlaneStatus (c2_KThreesControlPlaneStatus_DeepCopyInto ext)"
  unfolding c2_KThreesControlPlaneStatus_def c2_KThreesControlPlaneStatus_DeepCopyInto_def
  by (rule deep_struct) (auto simp: covered_def flat_types intro!: deep_intros)

definition c2_KThreesControlPlane :: gtype where
  "c2_KThreesControlPlane = TStruct
     [(''TypeMeta'', TFlat), (''ObjectMeta'', TExt ''metav1.ObjectMeta''),
      (''Spec'', c2_KThreesControlPlaneSpec), (''Status'', c2_KThreesControlPlaneStatus)]"

definition c2_KThreesControlPlane_DeepCopyInto :: "extCopy \<Rightarrow> copier" where
  "c2_KThreesControlPlane_DeepCopyInto ext = structCopy
     [(''TypeMeta'', plain), (''ObjectMeta'', ext ''metav1.ObjectMeta''),
      (''Spec'', c2_KThreesControlPlaneSpec_DeepCopyInto ext),
      (''Status'', c2_KThreesControlPlaneStatus_DeepCopyInto ext)]"

definition c2_KThreesControlPlane_DeepCopy :: "extCopy \<Rightarrow> copier" where
  "c2_KThreesControlPlane_DeepCopy ext = newPtr (c2_KThreesControlPlane_DeepCopyInto ext)"

definition c2_KThreesControlPlane_DeepCopyObject :: "extCopy \<Rightarrow> gval \<Rightarrow> nat \<Rightarrow> gval option \<times> nat" where
  "c2_KThreesControlPlane_DeepCopyObject ext v a = asObject (c2_KThreesControlPlane_DeepCopy ext v a)"

lemma deep_c2_KThreesControlPlane [deep_intros]:
  "ext_laws ext \<Longrightarrow> deep c2_KThreesControlPlane (c2_KThreesControlPlane_DeepCopyInto ext)"
  unfolding c2_KThreesControlPlane_def c2_KThreesControlPlane_DeepCopyInto_def
  by (rule deep_struct) (auto simp: covered_def flat_types intro!: deep_intros)

definition c2_KThreesControlPlaneList :: gtype where
  "c2_KThreesControlPlaneList = TStruct
     [(''TypeMeta'', TFlat), (''ListMeta'', TExt ''metav1.ListMeta''),
      (''Items'', TSlice c2_KThreesControlPlane)]"

definition c2_KThreesControlPlaneList_DeepCopyInto :: "extCopy \<Rightarrow> copier" where
  "c2_KThreesControlPlaneList_DeepCopyInto ext = structCopy
     [(''TypeMeta'', plain), (''ListMeta'', ext ''metav1.ListMeta''),
      (''Items'', makeSlice (c2_KThreesControlPlane_DeepCopyInto ext))]"

definition c2_KThreesControlPlaneList_DeepCopy :: "extCopy \<Rightarrow> copier" where
  "c2_KThreesControlPlaneList_DeepCopy ext = newPtr (c2_KThreesControlPlaneList_DeepCopyInto ext)"

definition c2_KThreesControlPlaneList_DeepCopyObject :: "extCopy \<Rightarrow> gval \<Rightarrow> nat \<Rightarrow> gval option \<times> nat" where
  "c2_KThreesControlPlaneList_DeepCopyObject ext v a = asObject (c2_KThreesControlPlaneList_DeepCopy ext v a)"

lemma deep_c2_KThreesControlPlaneList [deep_intros]:
  "ext_laws ext \<Longrightarrow> deep c2_KThreesControlPlaneList (c2_KThreesControlPlaneList_DeepCopyInto ext)"
  unfolding c2_KThreesControlPlaneList_def c2_KThreesControlPlaneList_DeepCopyInto_def
  by (rule deep_struct) (auto simp: covered_def flat_types intro!: deep_intros)

definition c2_KThreesControlPlaneTemplateResourceSpec :: gtype where
  "c2_KThreesControlPlaneTemplateResourceSpec = TStruct
     [(''KThreesConfigSpec'', b2_KThreesConfigSpec), (''RolloutAfter'', TPtr (TExt ''metav1.Time'')),
      (''MachineTemplate'', c2_KThreesControlPlaneMachineTemplate),
      (''RemediationStrategy'', TPtr c2_RemediationStrategy)]"

definition c2_KThreesControlPlaneTemplateResourceSpec_DeepCopyInto :: "extCopy \<Rightarrow> copier" where
  "c2_KThreesControlPlaneTemplateResourceSpec_DeepCopyInto ext = structCopy
     [(''KThreesConfigSpec'', b2_KThreesConfigSpec_DeepCopyInto),
      (''RolloutAfter'', newPtr (ext ''metav1.Time'')),
      (''MachineTemplate'', c2_KThreesControlPlaneMachineTemplate_DeepCopyInto ext),
      (''RemediationStrategy'', newPtr c2_RemediationStrategy_DeepCopyInto)]"

definition c2_KThreesControlPlaneTemplateResourceSpec_DeepCopy :: "extCopy \<Rightarrow> copier" where
  "c2_KThreesControlPlaneTemplateResourceSpec_DeepCopy ext = newPtr (c2_KThreesControlPlaneTemplateResourceSpec_DeepCopyInto ext)"

lemma deep_c2_KThreesControlPlaneTemplateResourceSpec [deep_intros]:
  "ext_laws ext \<Longrightarrow> deep c2_KThreesControlPlaneTemplateResourceSpec (c2_KThreesControlPlaneTemplateResourceSpec_DeepCopyInto ext)"
  unfolding c2_KThreesControlPlaneTemplateResourceSpec_def c2_KThreesControlPlaneTemplateResourceSpec_DeepCopyInto_def
  by (rule deep_struct) (auto simp: covered_def flat_types intro!: deep_intros)

definition c2_KThreesControlPlaneTemplateResource :: gtype where
  "c2_KThreesControlPlaneTemplateResource = TStruct
     [(''ObjectMeta'', TExt ''metav1.ObjectMeta''),
      (''Spec'', c2_KThreesControlPlaneTemplateResourceSpec)]"

definition c2_KThreesControlPlaneTemplateResource_DeepCopyInto :: "extCopy \<Rightarrow> copier" where
  "c2_KThreesControlPlaneTemplateResource_DeepCopyInto ext = structCopy
     [(''ObjectMeta'', ext ''metav1.ObjectMeta''),
      (''Spec'', c2_KThreesControlPlaneTemplateResourceSpec_DeepCopyInto ext)]"

definition c2_KThreesControlPlaneTemplateResource_DeepCopy :: "extCopy \<Rightarrow> copier" where
  "c2_KThreesControlPlaneTemplateResource_DeepCopy ext = newPtr (c2_KThreesControlPlaneTemplateResource_DeepCopyInto ext)"

lemma deep_c2_KThreesControlPlaneTemplateResource [deep_intros]:
  "ext_laws ext \<Longrightarrow> deep c2_KThreesControlPlaneTemplateResource (c2_KThreesControlPlaneTemplateResource_DeepCopyInto ext)"
  unfolding c2_KThreesControlPlaneTemplateResource_def c2_KThreesControlPlaneTemplateResource_DeepCopyInto_def
  by (rule deep_struct) (auto simp: covered_def flat_types intro!: deep_intros)

definition c2_KThreesControlPlaneTemplateSpec :: gtype where
  "c2_KThreesControlPlaneTemplateSpec = TStruct
     [(''Template'', c2_KThreesControlPlaneTemplateResource)]"

definition c2_KThreesControlPlaneTemplateSpec_DeepCopyInto :: "extCopy \<Rightarrow> copier" where
  "c2_KThreesControlPlaneTemplateSpec_DeepCopyInto ext = structCopy
     [(''Template'', c2_KThreesControlPlaneTemplateResource_DeepCopyInto ext)]"

definition c2_KThreesControlPlaneTemplateSpec_DeepCopy :: "extCopy \<Rightarrow> copier" where
  "c2_KThreesControlPlaneTemplateSpec_DeepCopy ext = newPtr (c2_KThreesControlPlaneTemplateSpec_DeepCopyInto ext)"

lemma deep_c2_KThreesControlPlaneTemplateSpec [deep_intros]:
  "ext_laws ext \<Longrightarrow> deep c2_KThreesControlPlaneTemplateSpec (c2_KThreesControlPlaneTemplateSpec_DeepCopyInto ext)"
  unfolding c2_KThreesControlPlaneTemplateSpec_def c2_KThreesControlPlaneTemplateSpec_DeepCopyInto_def
  by (rule deep_struct) (auto simp: covered_def flat_types intro!: deep_intros)

definition c2_KThreesControlPlaneTemplate :: gtype where
  "c2_KThreesControlPlaneTemplate = TStruct
     [(''TypeMeta'', TFlat), (''ObjectMeta'', TExt ''metav1.ObjectMeta''),
      (''Spec'', c2_KThreesControlPlaneTemplateSpec)]"

definition c2_KThreesControlPlaneTemplate_DeepCopyInto :: "extCopy \<Rightarrow> copier" where
  "c2_KThreesControlPlaneTemplate_DeepCopyInto ext = structCopy
     [(''TypeMeta'', plain), (''ObjectMeta'', ext ''metav1.ObjectMeta''),
      (''Spec'', c2_KThreesControlPlaneTemplateSpec_DeepCopyInto ext)]"

definition c2_KThreesControlPlaneTemplate_DeepCopy :: "extCopy \<Rightarrow> copier" where
  "c2_KThreesControlPlaneTemplate_DeepCopy ext = newPtr (c2_KThreesControlPlaneTemplate_DeepCopyInto ext)"

definition c2_KThreesControlPlaneTemplate_DeepCopyObject :: "extCopy \<Rightarrow> gval \<Rightarrow> nat \<Rightarrow> gval option \<times> nat" where
  "c2_KThreesControlPlaneTemplate_DeepCopyObject ext v a = asObject (c2_KThreesControlPlaneTemplate_DeepCopy ext v a)"

lemma deep_c2_KThreesControlPlaneTemplate [deep_intros]:
  "ext_laws ext \<Longrightarrow> deep c2_KThreesControlPlaneTemplate (c2_KThreesControlPlaneTemplate_DeepCopyInto ext)"
  unfolding c2_KThreesControlPlaneTemplate_def c2_KThreesControlPlaneTemplate_DeepCopyInto_def
  by (rule deep_struct) (auto simp: covered_def flat_types intro!: deep_intros)

definition c2_KThreesControlPlaneTemplateList :: gtype where
  "c2_KThreesControlPlaneTemplateList = TStruct
     [(''TypeMeta'', TFlat), (''ListMeta'', TExt ''metav1.ListMeta''),
      (''Items'', TSlice c2_KThreesControlPlaneTemplate)]"

definition c2_KThreesControlPlaneTemplateList_DeepCopyInto :: "extCopy \<Rightarrow> copier" where
  "c2_KThreesControlPlaneTemplateList_DeepCopyInto ext = structCopy
     [(''TypeMeta'', plain), (''ListMeta'', ext ''metav1.ListMeta''),
      (''Items'', makeSlice (c2_KThreesControlPlaneTemplate_DeepCopyInto ext))]"

definition c2_KThreesControlPlaneTemplateList_DeepCopy :: "extCopy \<Rightarrow> copier" where
  "c2_KThreesControlPlaneTemplateList_DeepCopy ext = newPtr (c2_KThreesControlPlaneTemplateList_DeepCopyInto ext)"

definition c2_KThreesControlPlaneTemplateList_DeepCopyObject :: "extCopy \<Rightarrow> gval \<Rightarrow> nat \<Rightarrow> gval option \<times> nat" where
  "c2_KThreesControlPlaneTemplateList_DeepCopyObject ext v a = asObject (c2_KThreesControlPlaneTemplateList_DeepCopy ext v a)"

lemma deep_c2_KThreesControlPlaneTemplateList [deep_intros]:
  "ext_laws ext \<Longrightarrow> deep c2_KThreesControlPlaneTemplateList (c2_KThreesControlPlaneTemplateList_DeepCopyInto ext)"
  unfolding c2_KThreesControlPlaneTemplateList_def c2_KThreesControlPlaneTemplateList_DeepCopyInto_def
  by (rule deep_struct) (auto simp: covered_def flat_types intro!: deep_intros)

section \<open>All copy functions\<close>

definition controlPlaneCopies :: "extCopy \<Rightarrow> (gtype \<times> copier) list" where
  "controlPlaneCopies ext =
     [(c1_KThreesControlPlaneMachineTemplate, c1_KThreesControlPlaneMachineTemplate_DeepCopyInto ext),
      (c1_RemediationStrategy, c1_RemediationStrategy_DeepCopyInto),
      (c1_KThreesControlPlaneSpec, c1_KThreesControlPlaneSpec_DeepCopyInto ext),
      (c1_LastRemediationStatus, c1_LastRemediationStatus_DeepCopyInto ext),
      (c1_KThreesControlPlaneStatus, c1_KThreesControlPlaneStatus_DeepCopyInto ext),
      (c1_KThreesControlPlane, c1_KThreesControlPlane_DeepCopyInto ext),
      (c1_KThreesControlPlaneList, c1_KThreesControlPlaneList_DeepCopyInto ext),
      (c2_KThreesControlPlaneMachineTemplate, c2_KThreesControlPlaneMachineTemplate_DeepCopyInto ext),
      (c2_RemediationStrategy, c2_RemediationStrategy_DeepCopyInto),
      (c2_KThreesControlPlaneSpec, c2_KThreesControlPlaneSpec_DeepCopyInto ext),
      (c2_LastRemediationStatus, c2_LastRemediationStatus_DeepCopyInto ext),
      (c2_KThreesControlPlaneStatus, c2_KThreesControlPlaneStatus_DeepCopyInto ext),
      (c2_KThreesControlPlane, c2_KThreesControlPlane_DeepCopyInto ext),
      (c2_KThreesControlPlaneList, c2_KThreesControlPlaneList_DeepCopyInto ext),
      (c2_KThreesControlPlaneTemplateResourceSpec, c2_KThreesControlPlaneTemplateResourceSpec_DeepCopyInto ext),
      (c2_KThreesControlPlaneTemplateResource, c2_KThreesControlPlaneTemplateResource_DeepCopyInto ext),
      (c2_KThreesControlPlaneTemplateSpec, c2_KThreesControlPlaneTemplateSpec_DeepCopyInto ext),
      (c2_KThreesControlPlaneTemplate, c2_KThreesControlPlaneTemplate_DeepCopyInto ext),
      (c2_KThreesControlPlaneTemplateList, c2_KThreesControlPlaneTemplateList_DeepCopyInto ext)]"

lemma controlPlaneCopies_deep:
  "ext_laws ext \<Longrightarrow> (t, h) \<in> set (controlPlaneCopies ext) \<Longrightarrow> deep t h"
  unfolding controlPlaneCopies_def by (auto intro: deep_intros)

end
