(* ===== verification/CopyResults.thy ===== *)
theory CopyResults
  imports DeepCopyControlPlane
begin

text \<open>
  What the generated copies promise: every copy is the same value and shares no memory with
  the original. For the witness, a copier of arbitrary values stands for the functions of
  other modules.
\<close>

section \<open>A copier of arbitrary values\<close>

fun copyAny :: copier and copyAnyFields :: "(string \<times> gval) list \<Rightarrow> nat \<Rightarrow> (string \<times> gval) list \<times> nat"
  and copyAnyItems :: "gval list \<Rightarrow> nat \<Rightarrow> gval list \<times> nat" where
  "copyAny (Flat s) a = (Flat s, a)"
| "copyAny (Struct fs) a = (case copyAnyFields fs a of (fs', a') \<Rightarrow> (Struct fs', a'))"
| "copyAny (Ptr None) a = (Ptr None, a)"
| "copyAny (Ptr (Some (l, v))) a = (case copyAny v (Suc a) of (v', a') \<Rightarrow> (Ptr (Some (a, v')), a'))"
| "copyAny (Slice None) a = (Slice None, a)"
| "copyAny (Slice (Some (l, vs))) a = (case copyAnyItems vs (Suc a) of (vs', a') \<Rightarrow> (Slice (Some (a, vs')), a'))"
| "copyAnyFields [] a = ([], a)"
| "copyAnyFields ((n, v) # fs) a = (case copyAny v a of (v', a1) \<Rightarrow> case copyAnyFields fs a1 of (fs', a') \<Rightarrow> ((n, v') # fs', a'))"
| "copyAnyItems [] a = ([], a)"
| "copyAnyItems (v # vs) a = (case copyAny v a of (v', a1) \<Rightarrow> case copyAnyItems vs a1 of (vs', a') \<Rightarrow> (v' # vs', a'))"

lemma copyAny_fresh:
  "a \<le> snd (copyAny v a) \<and> erase (fst (copyAny v a)) = erase v \<and> addrs (fst (copyAny v a)) \<subseteq> {a..<snd (copyAny v a)}"
  "a \<le> snd (copyAnyFields fs a) \<and> eraseFields (fst (copyAnyFields fs a)) = eraseFields fs \<and>
     fieldAddrs (fst (copyAnyFields fs a)) \<subseteq> {a..<snd (copyAnyFields fs a)}"
  "a \<le> snd (copyAnyItems vs a) \<and> eraseItems (fst (copyAnyItems vs a)) = eraseItems vs \<and>
     itemAddrs (fst (copyAnyItems vs a)) \<subseteq> {a..<snd (copyAnyItems vs a)}"
proof (induction v a and fs a and vs a rule: copyAny_copyAnyFields_copyAnyItems.induct)
  case (8 n v fs a)
  then show ?case by (cases "copyAny v a"; cases "copyAnyFields fs (snd (copyAny v a))") force
next
  case (10 v vs a)
  then show ?case by (cases "copyAny v a"; cases "copyAnyItems vs (snd (copyAny v a))") force
qed (force split: prod.splits)+

lemma copyAny_laws: "ext_laws (\<lambda>_. copyAny)"
  using copyAny_fresh(1) by (simp add: ext_laws_def fresh_copy_def)

section \<open>Every generated copy\<close>

definition allCopies :: "extCopy \<Rightarrow> (gtype \<times> copier) list" where
  "allCopies ext = bootstrapCopies ext @ controlPlaneCopies ext"

lemma allCopies_deep: "ext_laws ext \<Longrightarrow> (t, h) \<in> set (allCopies ext) \<Longrightarrow> deep t h"
  unfolding allCopies_def using bootstrapCopies_deep controlPlaneCopies_deep by auto

text \<open>A nil pointer is copied to the nil interface, and to nothing else.\<close>

lemma asObject_nil: "fst (asObject (newPtr h p a)) = None \<longleftrightarrow> p = Ptr None"
  by (cases "(h, p, a)" rule: newPtr.cases) (auto simp: asObject_def split: prod.splits gval.splits option.splits)

text \<open>C39 For every type of the two API groups, in both versions: the copy made by its generated
  \<^verbatim>\<open>DeepCopyInto\<close> is the same value, reaches no address the original reaches, and no
  assignment through the copy is seen by the original.\<close>

theorem deepcopy_detached:
  assumes "ext_laws ext" "(t, h) \<in> set (allCopies ext)"
    and "conforms t v" "addrs v \<subseteq> {..<a}" "h v a = (v', a')"
  shows "erase v' = erase v \<and> conforms t v' \<and> addrs v' \<inter> addrs v = {} \<and> (\<forall>k\<in>addrs v'. \<forall>g. poke k g v = v)"
  using deep_separate[OF allCopies_deep[OF assms(1,2)] assms(3-5)] deepD[OF allCopies_deep[OF assms(1,2)] assms(3,5)]
  by blast

definition file0 :: gval where
  "file0 = Struct [(''Path'', Flat ''/etc/x''), (''Owner'', Flat ''root''), (''Permissions'', Flat []), (''Encoding'', Flat []),
     (''Content'', Flat []),
     (''ContentFrom'', Ptr (Some (3, Struct [(''Secret'', Struct [(''Name'', Flat ''s''), (''Key'', Flat ''k'')])])))]"

theorem deepcopy_detached_witness:
  "conforms b2_File file0 \<and> addrs (fst (b2_File_DeepCopyInto file0 4)) = {4} \<and> addrs file0 = {3} \<and>
   erase (fst (b2_File_DeepCopyInto file0 4)) = erase file0 \<and> poke 4 (\<lambda>_. Flat []) file0 = file0"
proof -
  have c: "conforms b2_File file0"
    by (simp add: file0_def b2_File_def b2_FileSource_def b2_SecretFileSource_def)
  have a: "addrs file0 = {3}" "addrs (fst (b2_File_DeepCopyInto file0 4)) = {4}"
    by (simp_all add: file0_def b2_File_DeepCopyInto_def plain_def)
  have m: "(b2_File, b2_File_DeepCopyInto) \<in> set (allCopies (\<lambda>_. copyAny))"
    by (simp add: allCopies_def bootstrapCopies_def)
  have l: "addrs file0 \<subseteq> {..<4}" using a by simp
  obtain v' a' where r: "b2_File_DeepCopyInto file0 4 = (v', a')" by fastforce
  from deepcopy_detached[OF copyAny_laws m c l r] c a r show ?thesis by simp
qed

end
