(* ===== verification/ReleaseNotes.thy ===== *)
theory ReleaseNotes
  imports Prelude "HOL-Library.Multiset"
begin

text \<open>
  \<^verbatim>\<open>hack/tools/release/notes.go\<close>: the release notes of a range of commits. The merge
  commits are read from git, every pull request becomes a line of a section, the lines are
  collected in the order in which concurrent workers deliver them, and printed.

  Strings are UTF-8 bytes. The commands \<^verbatim>\<open>git\<close> and \<^verbatim>\<open>gh\<close>, JSON, the lower
  case of Unicode and the order \<^verbatim>\<open>sort.Slice\<close> leaves between equal keys are
  parameters; the answers of \<^verbatim>\<open>gh\<close> do not change during a run. \<open>None\<close> is a panic.
\<close>

section \<open>Strings\<close>

definition bytes :: "nat list \<Rightarrow> string" where
  "bytes ns = map char_of ns"

definition newline :: char where "newline = char_of (10 :: nat)"

definition HasPrefix :: "string \<Rightarrow> string \<Rightarrow> bool" where
  "HasPrefix s p = (take (length p) s = p)"

definition TrimPrefix :: "string \<Rightarrow> string \<Rightarrow> string" where
  "TrimPrefix s p = (if HasPrefix s p then drop (length p) s else s)"

fun Contains :: "string \<Rightarrow> string \<Rightarrow> bool" where
  "Contains [] p = (p = [])"
| "Contains (c # cs) p = (HasPrefix (c # cs) p \<or> Contains cs p)"

text \<open>\<^verbatim>\<open>TrimSpace\<close>: the white space of Unicode, as byte sequences.\<close>

definition spaces :: "string list" where
  "spaces = map bytes
     ([[9], [10], [11], [12], [13], [32], [194, 133], [194, 160], [225, 154, 128], [226, 128, 168], [226, 128, 169],
       [226, 128, 175], [226, 129, 159], [227, 128, 128]] @ map (\<lambda>n. [226, 128, n]) [128..<139])"

function trimLeft :: "string list \<Rightarrow> string \<Rightarrow> string" where
  "trimLeft ws s =
     (case List.find (\<lambda>w. w \<noteq> [] \<and> HasPrefix s w) ws of None \<Rightarrow> s | Some w \<Rightarrow> trimLeft ws (drop (length w) s))"
  by pat_completeness auto
termination
proof (relation "measure (\<lambda>(ws, s). length s)")
  fix ws s w assume "List.find (\<lambda>w. w \<noteq> [] \<and> HasPrefix s w) ws = Some w"
  then have "w \<noteq> []" "take (length w) s = w" by (auto simp: find_Some_iff HasPrefix_def)
  then show "((ws, drop (length w) s), ws, s) \<in> measure (\<lambda>(ws, s). length s)" by (cases s; cases w) auto
qed simp

declare trimLeft.simps [simp del]

definition TrimSpace :: "string \<Rightarrow> string" where
  "TrimSpace s = rev (trimLeft (map rev spaces) (rev (trimLeft spaces s)))"

definition TrimLeftSpace :: "string \<Rightarrow> string" where
  "TrimLeftSpace s = dropWhile (\<lambda>c. c = CHR '' '') s"

definition is_digit :: "char \<Rightarrow> bool" where
  "is_digit c = (48 \<le> (of_char c :: nat) \<and> (of_char c :: nat) \<le> 57)"

definition is_letter :: "char \<Rightarrow> bool" where
  "is_letter c = ((65 \<le> (of_char c :: nat) \<and> (of_char c :: nat) \<le> 90) \<or> (97 \<le> (of_char c :: nat) \<and> (of_char c :: nat) \<le> 122))"

text \<open>\<^verbatim>\<open>strings.ToUpper(string(b))\<close> for a byte \<open>b\<close>: the byte is taken for a code point
  and encoded in UTF-8.\<close>

definition upperByte :: "char \<Rightarrow> string" where
  "upperByte c =
     (let n = (of_char c :: nat);
          u = (if 97 \<le> n \<and> n \<le> 122 \<or> 224 \<le> n \<and> n \<le> 254 \<and> n \<noteq> 247 then n - 32
               else if n = 255 then 376 else if n = 181 then 924 else n)
      in if u < 128 then bytes [u] else bytes [192 + u div 64, 128 + u mod 64])"

section \<open>Sections\<close>

definition sec_features :: string where "sec_features = '':sparkles: New Features''"
definition sec_bugs :: string where "sec_bugs = '':bug: Bug Fixes''"
definition sec_documentation :: string where "sec_documentation = '':book: Documentation''"
definition sec_proposals :: string where "sec_proposals = '':memo: Proposals''"
definition sec_warning :: string where "sec_warning = '':warning: Breaking Changes''"
definition sec_other :: string where "sec_other = '':seedling: Others''"
definition sec_unknown :: string where "sec_unknown = '':question: Sort these by hand''"

lemmas sec_defs = sec_features_def sec_bugs_def sec_documentation_def sec_proposals_def sec_warning_def
  sec_other_def sec_unknown_def

definition outputOrder :: "string list" where
  "outputOrder = [sec_proposals, sec_warning, sec_features, sec_bugs, sec_other, sec_documentation, sec_unknown]"

definition e_sparkles :: string where "e_sparkles = bytes [226, 156, 168]"
definition e_bug :: string where "e_bug = bytes [240, 159, 144, 155]"
definition e_book :: string where "e_book = bytes [240, 159, 147, 150]"
definition e_seedling :: string where "e_seedling = bytes [240, 159, 140, 177]"
definition e_warning :: string where "e_warning = bytes [226, 154, 160, 239, 184, 143]"

section \<open>Parameters\<close>

record notesFlags =
  fl_repo :: string
  fl_fromTag :: string
  fl_since :: string
  fl_until :: string
  fl_numWorkers :: int
  fl_prefixAreaLabel :: bool
  fl_addKubernetesVersionSupport :: bool

text \<open>A command answers with its standard output, its standard output and error, and an error.\<close>

record cmdResult =
  cr_out :: string
  cr_combined :: string
  cr_err :: "string option"

record notesEnv =
  LookPath :: "string \<Rightarrow> bool"
  Exec :: "string list \<Rightarrow> cmdResult"
  UnmarshalLabels :: "string \<Rightarrow> string + string list"   \<comment> \<open>the label names of a pull request\<close>
  ToLower :: "string \<Rightarrow> string"
  SortSlice :: "(string \<Rightarrow> string) \<Rightarrow> string list \<Rightarrow> string list"

text \<open>\<^verbatim>\<open>sort.Slice\<close> orders by the keys and leaves the order of equal keys open.\<close>

definition sort_law :: "notesEnv \<Rightarrow> bool" where
  "sort_law N \<longleftrightarrow> (\<forall>f xs. mset (SortSlice N f xs) = mset xs \<and>
     sorted (map f (SortSlice N f xs)))"

section \<open>Which commits\<close>

definition firstCommit :: "notesEnv \<Rightarrow> string" where
  "firstCommit N =
     (let r = Exec N [''git'', ''rev-list'', ''--max-parents=0'', ''HEAD'']
      in if cr_err r \<noteq> None then ''UNKNOWN'' else TrimSpace (cr_out r))"

definition lastTag :: "notesEnv \<Rightarrow> notesFlags \<Rightarrow> string" where
  "lastTag N F =
     (if fl_fromTag F \<noteq> [] then fl_fromTag F
      else let r = Exec N [''git'', ''describe'', ''--tags'', ''--abbrev=0'']
           in if cr_err r \<noteq> None then firstCommit N else TrimSpace (cr_out r))"

subsection \<open>The day after\<close>

text \<open>\<^verbatim>\<open>time.Parse\<close> and \<^verbatim>\<open>Format\<close> with the layout 2006-01-02, and the addition of 24
  hours to a date.\<close>

definition leap :: "nat \<Rightarrow> bool" where
  "leap y = (y mod 4 = 0 \<and> (y mod 100 \<noteq> 0 \<or> y mod 400 = 0))"

definition daysIn :: "nat \<Rightarrow> nat \<Rightarrow> nat" where
  "daysIn y m = (if m = 2 then (if leap y then 29 else 28) else if m \<in> {4, 6, 9, 11} then 30 else 31)"

definition validDate :: "nat \<times> nat \<times> nat \<Rightarrow> bool" where
  "validDate d = (case d of (y, m, k) \<Rightarrow> 1 \<le> m \<and> m \<le> 12 \<and> 1 \<le> k \<and> k \<le> daysIn y m)"

fun readNat :: "nat \<Rightarrow> string \<Rightarrow> nat" where
  "readNat n [] = n"
| "readNat n (c # cs) = readNat (10 * n + (of_char c - 48)) cs"

definition parseDate :: "string \<Rightarrow> (nat \<times> nat \<times> nat) option" where
  "parseDate s =
     (if length s = 10 \<and> s ! 4 = CHR ''-'' \<and> s ! 7 = CHR ''-'' \<and> list_all is_digit (take 4 s) \<and>
         list_all is_digit (take 2 (drop 5 s)) \<and> list_all is_digit (drop 8 s)
      then let d = (readNat 0 (take 4 s), readNat 0 (take 2 (drop 5 s)), readNat 0 (drop 8 s))
           in if validDate d then Some d else None
      else None)"

definition padded :: "nat \<Rightarrow> nat \<Rightarrow> string" where
  "padded w n = (let s = show_nat n in replicate (w - length s) CHR ''0'' @ s)"

definition formatDate :: "nat \<times> nat \<times> nat \<Rightarrow> string" where
  "formatDate d = (case d of (y, m, k) \<Rightarrow> padded 4 y @ ''-'' @ padded 2 m @ ''-'' @ padded 2 k)"

definition nextDay :: "nat \<times> nat \<times> nat \<Rightarrow> nat \<times> nat \<times> nat" where
  "nextDay d = (case d of (y, m, k) \<Rightarrow>
     if k < daysIn y m then (y, m, k + 1) else if m < 12 then (y, m + 1, 1) else (y + 1, 1, 1))"

definition increaseDateByOneDay :: "string \<Rightarrow> string + string" where
  "increaseDateByOneDay date =
     (case parseDate date of
        None \<Rightarrow> Inl (''parsing time '' @ date)
      | Some d \<Rightarrow> Inr (formatDate (nextDay d)))"

section \<open>Entries\<close>

definition missingAreaLabelPrefix :: string where "missingAreaLabelPrefix = ''MISSING_AREA''"
definition areaLabelPrefix :: string where "areaLabelPrefix = ''area/''"
definition multipleAreaLabelsPrefix :: string where "multipleAreaLabelsPrefix = ''MULTIPLE_AREAS[''"
definition documentationAreaLabel :: string where "documentationAreaLabel = ''documentation''"

definition userFriendlyAreas :: "string \<rightharpoonup> string" where
  "userFriendlyAreas = map_of
     [(''e2e-testing'', ''e2e''), (''provider/control-plane-kubeadm'', ''KCP''), (''provider/infrastructure-docker'', ''CAPD''),
      (''dependency'', ''Dependency''), (''devtools'', ''Devtools''), (''machine'', ''Machine''), (''api'', ''API''),
      (''machinepool'', ''MachinePool''), (''clustercachetracker'', ''ClusterCacheTracker''), (''clusterclass'', ''ClusterClass''),
      (''testing'', ''Testing''), (''release'', ''Release''), (''machineset'', ''MachineSet''),
      (''clusterresourceset'', ''ClusterResourceSet''), (''machinedeployment'', ''MachineDeployment''), (''ipam'', ''IPAM''),
      (''provider/bootstrap-kubeadm'', ''CAPBK''), (''provider/infrastructure-in-memory'', ''CAPIM''),
      (''provider/core'', ''Core''), (''runtime-sdk'', ''Runtime SDK''), (''ci'', ''CI'')]"

text \<open>\<^verbatim>\<open>trimmed, true\<close> is \<open>Some\<close>; the other result is not used by the caller.\<close>

definition trimAreaLabel :: "string \<Rightarrow> string option" where
  "trimAreaLabel label =
     (let trimmed = TrimPrefix label areaLabelPrefix in if length trimmed < length label then Some trimmed else None)"

definition areaLabels :: "string list \<Rightarrow> string list" where
  "areaLabels labels =
     concat (map (\<lambda>label. case trimAreaLabel label of None \<Rightarrow> []
       | Some area \<Rightarrow> [case userFriendlyAreas area of None \<Rightarrow> area | Some friendly \<Rightarrow> friendly]) labels)"

text \<open>The fourth word of the merge line is indexed without a check.\<close>

definition getAreaLabel :: "notesEnv \<Rightarrow> notesFlags \<Rightarrow> string \<Rightarrow> (string + string) option" where
  "getAreaLabel N F merge =
     (case drop 3 (Split merge CHR '' '') of
        [] \<Rightarrow> None
      | w # _ \<Rightarrow>
         (let prID = filter (\<lambda>c. c \<noteq> CHR ''#'') (TrimSpace w);
              r = Exec N [''gh'', ''api'', ''repos/'' @ fl_repo F @ ''/pulls/'' @ prID]
          in Some (case cr_err r of
               Some err \<Rightarrow> Inl (cr_combined r @ '': '' @ err)
             | None \<Rightarrow>
                (case UnmarshalLabels N (cr_combined r) of
                   Inl err \<Rightarrow> Inl err
                 | Inr labels \<Rightarrow> Inr (case areaLabels labels of
                       [] \<Rightarrow> missingAreaLabelPrefix
                     | [area] \<Rightarrow> area
                     | areas \<Rightarrow> multipleAreaLabelsPrefix @ Join areas ''/'' @ '']'')))))"

text \<open>The regular expression \<^verbatim>\<open>^\[release-[\w-\.]*\]\<close>, replaced by the empty string.\<close>

definition tag_char :: "char \<Rightarrow> bool" where
  "tag_char c = (is_letter c \<or> is_digit c \<or> c \<in> {CHR ''_'', CHR ''-'', CHR ''.''})"

definition trimTag :: "string \<Rightarrow> string" where
  "trimTag s =
     (if HasPrefix s ''[release-''
      then (case dropWhile tag_char (drop 9 s) of c # rest \<Rightarrow> if c = CHR '']'' then rest else s | [] \<Rightarrow> s)
      else s)"

definition trimTitle :: "string \<Rightarrow> string" where
  "trimTitle title = TrimSpace (trimTag title)"

text \<open>The regular expression \<^verbatim>\<open>(?m)^\[release-\d\.\d\]\s*\<close>: the rest after a match, and
  whether it begins a line. The replacement refers to a group that does not exist, which is
  the empty string.\<close>

definition re_space :: "char \<Rightarrow> bool" where
  "re_space c = (of_char c \<in> {9, 10, 12, 13, 32 :: nat})"

definition matchMarker :: "string \<Rightarrow> (string \<times> bool) option" where
  "matchMarker s =
     (if HasPrefix s ''[release-'' \<and> length s \<ge> 13 \<and> is_digit (s ! 9) \<and> s ! 10 = CHR ''.'' \<and> is_digit (s ! 11) \<and> s ! 12 = CHR '']''
      then let sp = takeWhile re_space (drop 13 s)
           in Some (dropWhile re_space (drop 13 s), sp \<noteq> [] \<and> last sp = newline)
      else None)"

function trimMarkers :: "bool \<Rightarrow> string \<Rightarrow> string" where
  "trimMarkers lineStart s =
     (case (if lineStart then matchMarker s else None) of
        Some (rest, l) \<Rightarrow> trimMarkers l rest
      | None \<Rightarrow> (case s of [] \<Rightarrow> [] | c # cs \<Rightarrow> c # trimMarkers (c = newline) cs))"
  by pat_completeness auto
termination
proof (relation "measure (\<lambda>(l, s). length s)")
  fix lineStart s p rest l
  assume "(if lineStart then matchMarker s else None) = Some p" "(rest, l) = p"
  then have "rest = dropWhile re_space (drop 13 s)" "length s \<ge> 13"
    by (auto simp: matchMarker_def Let_def split: if_splits)
  then show "((l, rest), lineStart, s) \<in> measure (\<lambda>(l, s). length s)"
    using length_dropWhile_le[of re_space "drop 13 s"] by auto
qed auto

declare trimMarkers.simps [simp del]

definition trimReleaseBackportMarker :: "string \<Rightarrow> string" where
  "trimReleaseBackportMarker title = trimMarkers True title"

text \<open>The first byte of the title is indexed without a check.\<close>

definition modifyEntryTitle :: "string \<Rightarrow> string list \<Rightarrow> string option" where
  "modifyEntryTitle title prefixes =
     (case foldl (\<lambda>entryWithoutTag prefix. TrimLeftSpace (TrimPrefix entryWithoutTag prefix)) title prefixes of
        [] \<Rightarrow> None
      | c # cs \<Rightarrow> Some (upperByte c @ cs))"

record gitCommit =
  gc_merge :: string
  gc_body :: string

record noteEntry =
  ne_title :: string
  ne_section :: string
  ne_prNumber :: string

definition formatMerge :: "string \<Rightarrow> string \<Rightarrow> string" where
  "formatMerge line prNumber = (if prNumber = [] then line else line @ '' ('' @ prNumber @ '')'')"

text \<open>Every white space becomes a blank: what separates the words \<^verbatim>\<open>fmt.Sscanf\<close> reads.\<close>

function blanks :: "string \<Rightarrow> string" where
  "blanks s =
     (case s of [] \<Rightarrow> []
      | c # cs \<Rightarrow>
         (case List.find (\<lambda>w. w \<noteq> [] \<and> HasPrefix s w) spaces of
            None \<Rightarrow> c # blanks cs
          | Some w \<Rightarrow> CHR '' '' # blanks (drop (length w) s)))"
  by pat_completeness auto
termination
proof (relation "measure length")
  fix s c cs w assume "s = c # cs" "List.find (\<lambda>w. w \<noteq> [] \<and> HasPrefix s w) spaces = Some w"
  then show "(drop (length w) s, s) \<in> measure length" by (cases w) (auto simp: find_Some_iff)
qed auto

declare blanks.simps [simp del]

text \<open>\<^verbatim>\<open>fmt.Sscanf\<close> with the format of a merge commit: the number is stored once its
  place is reached, whatever follows.\<close>

definition scanMerge :: "string \<Rightarrow> string" where
  "scanMerge line =
     (case filter (\<lambda>w. w \<noteq> []) (Split (blanks line) CHR '' '') of
        a # b # c # n # _ \<Rightarrow> if (a, b, c) = (''Merge'', ''pull'', ''request'') then n else []
      | _ \<Rightarrow> [])"

text \<open>The section and the title without its emoji.\<close>

definition classify :: "string \<Rightarrow> (string \<times> string) option" where
  "classify title =
     (let as = (\<lambda>section prefixes. map_option (\<lambda>t. (section, t)) (modifyEntryTitle title prefixes)) in
      if HasPrefix title '':sparkles:'' \<or> HasPrefix title e_sparkles then as sec_features ['':sparkles:'', e_sparkles]
      else if HasPrefix title '':bug:'' \<or> HasPrefix title e_bug then as sec_bugs ['':bug:'', e_bug]
      else if HasPrefix title '':book:'' \<or> HasPrefix title e_book
      then map_option (\<lambda>(sec, t). (if Contains t ''CAEP'' \<or> Contains t ''proposal'' then sec_proposals else sec, t))
             (as sec_documentation ['':book:'', e_book])
      else if HasPrefix title '':seedling:'' \<or> HasPrefix title e_seedling then as sec_other ['':seedling:'', e_seedling]
      else if HasPrefix title '':warning:'' \<or> HasPrefix title e_warning then as sec_warning ['':warning:'', e_warning]
      else Some (sec_unknown, title))"

definition generateReleaseNoteEntry :: "notesEnv \<Rightarrow> notesFlags \<Rightarrow> gitCommit \<Rightarrow> (string + noteEntry) option" where
  "generateReleaseNoteEntry N F c =
     (let body = (if gc_body c = [] then ''ERROR: BODY MISSING. FIX MANUALLY'' else gc_body c);
          title = trimTitle body
      in case (if fl_prefixAreaLabel F then getAreaLabel N F (gc_merge c) else Some (Inr [])) of
           None \<Rightarrow> None
         | Some (Inl err) \<Rightarrow> Some (Inl err)
         | Some (Inr area) \<Rightarrow>
             map_option (\<lambda>(sec, title).
               let sec = (if area = documentationAreaLabel then sec_documentation else sec);
                   title = trimReleaseBackportMarker (TrimSpace title)
               in Inr (if title = [] then \<lparr>ne_title = [], ne_section = sec, ne_prNumber = []\<rparr>
                    else let title = (if fl_prefixAreaLabel F then ''- '' @ area @ '': '' @ title else ''- '' @ title);
                             prNumber = scanMerge (gc_merge c)
                         in \<lparr>ne_title = formatMerge title prNumber, ne_section = sec, ne_prNumber = prNumber\<rparr>))
               (classify title))"

section \<open>The run\<close>

definition commandExists :: "notesEnv \<Rightarrow> string \<Rightarrow> bool" where
  "commandExists N cmd = LookPath N cmd"

definition ensureInstalledDependencies :: "notesEnv \<Rightarrow> string option" where
  "ensureInstalledDependencies N =
     (if \<not> commandExists N ''git'' then Some ''git not available. Git is required to be present in the PATH''
      else if \<not> commandExists N ''gh''
      then Some ''gh GitHub CLI not available. GitHub CLI is required to be present in the PATH. Refer to https://cli.github.com/ for installation''
      else None)"

text \<open>The range, as it is printed, and the command that lists it.\<close>

definition selectCommits :: "notesEnv \<Rightarrow> notesFlags \<Rightarrow> string + string \<times> string list" where
  "selectCommits N F =
     (if fl_since F \<noteq> [] \<and> fl_until F \<noteq> []
      then (case increaseDateByOneDay (fl_until F) of
              Inl err \<Rightarrow> Inl err
            | Inr lastDay \<Rightarrow>
                Inr (fl_since F @ '' - '' @ fl_until F,
                     [''git'', ''rev-list'', ''HEAD'', ''--since=\"'' @ fl_since F @ ''\"'', ''--until=\"'' @ lastDay @ ''\"'',
                      ''--merges'', ''--pretty=format:%B'']))
      else if fl_since F \<noteq> [] \<or> fl_until F \<noteq> []
      then Inl ''--since and --until are required together or both unset''
      else Inr (lastTag N F, [''git'', ''rev-list'', lastTag N F @ ''..HEAD'', ''--merges'', ''--pretty=format:%B'']))"

text \<open>The lines of the log; a line before the first commit indexes the empty slice.\<close>

fun parseLines :: "string list \<Rightarrow> gitCommit list \<Rightarrow> gitCommit list option" where
  "parseLines [] commits = Some commits"
| "parseLines (l # ls) commits =
     (let line = TrimSpace l in
      if HasPrefix line ''commit'' then parseLines ls (commits @ [\<lparr>gc_merge = [], gc_body = []\<rparr>])
      else if HasPrefix line ''Merge''
      then (if commits = [] then None
            else parseLines ls (butlast commits @ [(last commits)\<lparr>gc_merge := line\<rparr>]))
      else if line = [] then parseLines ls commits
      else if commits = [] then None
      else parseLines ls (butlast commits @ [(last commits)\<lparr>gc_body := line\<rparr>]))"

definition parseCommits :: "string \<Rightarrow> gitCommit list option" where
  "parseCommits out = parseLines (Split out newline) []"

subsection \<open>The workers\<close>

text \<open>The commits still queued, those being processed by the workers, and those whose results
  have arrived. The results are complete when every worker has ended, which it does when the
  queue is closed; without workers they are complete at once.\<close>

type_synonym pool = "gitCommit list \<times> gitCommit list \<times> gitCommit list"

inductive pool_step :: "int \<Rightarrow> pool \<Rightarrow> pool \<Rightarrow> bool" for w where
  take_commit: "int (length busy) < w \<Longrightarrow> pool_step w (c # queue, busy, arrived) (queue, busy @ [c], arrived)"
| deliver: "pool_step w (queue, xs @ c # ys, arrived) (queue, xs @ ys, arrived @ [c])"

definition pool_done :: "int \<Rightarrow> pool \<Rightarrow> bool" where
  "pool_done w s = (case s of (queue, busy, arrived) \<Rightarrow> busy = [] \<and> (w = 0 \<or> queue = []))"

definition arrivals :: "int \<Rightarrow> gitCommit list \<Rightarrow> gitCommit list \<Rightarrow> bool" where
  "arrivals w commits order \<longleftrightarrow>
     (\<exists>queue. (pool_step w)\<^sup>*\<^sup>* (commits, [], []) (queue, [], order) \<and> pool_done w (queue, [], order))"

subsection \<open>Collecting and printing\<close>

datatype collected = Crash | Stop string | Merges "string \<Rightarrow> string list"

definition addEntry :: "noteEntry \<Rightarrow> (string \<Rightarrow> string list) \<Rightarrow> (string \<Rightarrow> string list)" where
  "addEntry e merges =
     (if ne_title e = [] then merges
      else if ne_section e = sec_documentation
      then merges(ne_section e := merges (ne_section e) @ [ne_prNumber e])
      else merges(ne_section e := merges (ne_section e) @ [ne_title e]))"

fun collect :: "(string + noteEntry) option list \<Rightarrow> (string \<Rightarrow> string list) \<Rightarrow> collected" where
  "collect [] merges = Merges merges"
| "collect (r # rs) merges =
     (case r of None \<Rightarrow> Crash | Some (Inl err) \<Rightarrow> Stop err | Some (Inr e) \<Rightarrow> collect rs (addEntry e merges))"

definition line :: "string \<Rightarrow> string" where
  "line s = s @ [newline]"

definition counted :: "nat \<Rightarrow> string \<Rightarrow> string \<Rightarrow> string" where
  "counted n one many = (if n = 1 then line one else if n > 1 then line (''- '' @ show_nat n @ many) else [])"

definition kubernetesHeader :: string where
  "kubernetesHeader =
     line (''## '' @ bytes [240, 159, 145, 140] @ '' Kubernetes version support'') @ line [] @
     line ''- Management Cluster: v1.**X**.x -> v1.**X**.x'' @ line ''- Workload Cluster: v1.**X**.x -> v1.**X**.x'' @ line [] @
     line ''[More information about version support can be found here](https://cluster-api.sigs.k8s.io/reference/versions.html)'' @
     line []"

definition printSection :: "notesEnv \<Rightarrow> string \<Rightarrow> string list \<Rightarrow> string" where
  "printSection N key mergeslice =
     (if length mergeslice = 0 then []
      else if key = sec_documentation
      then (if length mergeslice = 1
            then '':book: Additionally, there has been 1 contribution to our documentation and book. ('' @ hd mergeslice @ '') '' @
                 [newline, newline]
            else '':book: Additionally, there have been '' @ show_nat (length mergeslice) @
                 '' contributions to our documentation and book. ('' @ Join mergeslice '', '' @ '') '' @ [newline, newline])
      else line (''## '' @ key) @ concat (map line (SortSlice N (ToLower N) mergeslice)) @ line [])"

definition overview :: "nat \<Rightarrow> (string \<Rightarrow> string list) \<Rightarrow> string" where
  "overview n merges =
     line ''## :chart_with_upwards_trend: Overview'' @
     counted n ''- 1 new commit merged'' '' new commits merged'' @
     counted (length (merges sec_warning)) ''- 1 breaking change :warning:'' '' breaking changes :warning:'' @
     counted (length (merges sec_features)) (''- 1 feature addition '' @ e_sparkles) ('' feature additions '' @ e_sparkles) @
     counted (length (merges sec_bugs)) (''- 1 bug fixed '' @ e_bug) ('' bugs fixed '' @ e_bug) @
     line []"

definition report :: "notesEnv \<Rightarrow> notesFlags \<Rightarrow> string \<Rightarrow> nat \<Rightarrow> (string \<Rightarrow> string list) \<Rightarrow> string" where
  "report N F commitRange n merges =
     (if fl_addKubernetesVersionSupport F then kubernetesHeader else []) @
     line (''## Changes since '' @ commitRange) @ line ''---'' @
     overview n merges @
     concat (map (\<lambda>key. printSection N key (merges key)) outputOrder) @
     line [] @ line (''_Thanks to all our contributors!_ '' @ bytes [240, 159, 152, 138])"

text \<open>The exit code with what is printed. \<open>order\<close> is the order in which the results of the
  commits arrive.\<close>

datatype outcome = Exit nat string | Crashed

definition finish :: "notesEnv \<Rightarrow> notesFlags \<Rightarrow> string \<Rightarrow> gitCommit list \<Rightarrow> gitCommit list \<Rightarrow> outcome" where
  "finish N F commitRange commits order =
     (case collect (map (generateReleaseNoteEntry N F) order) (\<lambda>_. []) of
        Crash \<Rightarrow> Crashed
      | Stop err \<Rightarrow> Exit 0 (line err)
      | Merges merges \<Rightarrow> Exit 0 (report N F commitRange (length commits) merges))"

definition notes_run :: "notesEnv \<Rightarrow> notesFlags \<Rightarrow> (gitCommit list \<Rightarrow> gitCommit list) \<Rightarrow> outcome" where
  "notes_run N F order =
     (case ensureInstalledDependencies N of
        Some err \<Rightarrow> Exit 1 (line err)
      | None \<Rightarrow>
     (case selectCommits N F of
        Inl err \<Rightarrow> Exit 1 (line err)
      | Inr (commitRange, cmd) \<Rightarrow>
          (let r = Exec N cmd in
           if cr_err r \<noteq> None then Exit 1 (line ''Error'' @ line (cr_combined r))
           else case parseCommits (cr_combined r) of
             None \<Rightarrow> Crashed
           | Some commits \<Rightarrow>
               if fl_numWorkers F < 0 then Crashed
               else finish N F commitRange commits (order commits))))"

section \<open>Lemmas\<close>

subsection \<open>Every run of the workers delivers every commit once\<close>

inductive_cases pool_stepE: "pool_step w (q, b, a) s"

lemma pool_step_mset:
  "pool_step w s s' \<Longrightarrow> (case s' of (q, b, a) \<Rightarrow> mset (q @ b @ a)) = (case s of (q, b, a) \<Rightarrow> mset (q @ b @ a))"
  by (induction rule: pool_step.induct) auto

lemma pool_steps_mset:
  "(pool_step w)\<^sup>*\<^sup>* s s' \<Longrightarrow> (case s' of (q, b, a) \<Rightarrow> mset (q @ b @ a)) = (case s of (q, b, a) \<Rightarrow> mset (q @ b @ a))"
  by (induction rule: rtranclp_induct) (auto dest: pool_step_mset)

lemma arrivals_mset: "arrivals w commits order \<Longrightarrow> w \<noteq> 0 \<Longrightarrow> mset order = mset commits"
  by (auto simp: arrivals_def pool_done_def dest: pool_steps_mset)

text \<open>At most \<open>w\<close> commits are being processed; with one worker the order is kept.\<close>

lemma pool_busy: "(pool_step w)\<^sup>*\<^sup>* (cs, [], []) s \<Longrightarrow> 0 \<le> w \<Longrightarrow> int (length (fst (snd s))) \<le> w"
proof (induction rule: rtranclp_induct)
  case (step s s')
  from step.hyps(2) step.IH[OF step.prems] show ?case by (induction rule: pool_step.induct) auto
qed simp

lemma no_workers: "arrivals 0 commits order \<Longrightarrow> order = []"
proof -
  have "fst (snd s) = [] \<and> snd (snd s) = []" if "(pool_step 0)\<^sup>*\<^sup>* (cs, [], []) s" for cs s
    using that by (induction rule: rtranclp_induct) (auto elim: pool_step.cases)
  then show "arrivals 0 commits order \<Longrightarrow> order = []" by (fastforce simp: arrivals_def)
qed

lemma one_worker: "arrivals 1 commits order \<Longrightarrow> order = commits"
proof -
  have "snd (snd s) @ fst (snd s) @ fst s = cs" if "(pool_step 1)\<^sup>*\<^sup>* (cs, [], []) s" for cs s
    using that
  proof (induction rule: rtranclp_induct)
    case (step s s')
    have "int (length (fst (snd s))) \<le> 1" using pool_busy[OF step.hyps(1)] by simp
    with step.hyps(2) step.IH show ?case
    proof (induction rule: pool_step.induct)
      case (deliver queue xs c ys arrived)
      then have "int (length xs) + int (length ys) \<le> 0" by simp
      then have "length xs = 0" "length ys = 0" by linarith+
      then have "xs = []" "ys = []" by simp_all
      with deliver show ?case by simp
    qed simp
  qed simp
  then show "arrivals 1 commits order \<Longrightarrow> order = commits" by (fastforce simp: arrivals_def pool_done_def)
qed

text \<open>The workers never get stuck, and a measure falls with every step: every run ends.\<close>

lemma pool_progress: "0 \<le> w \<Longrightarrow> \<not> pool_done w s \<Longrightarrow> int (length (fst (snd s))) \<le> w \<Longrightarrow> \<exists>s'. pool_step w s s'"
proof -
  assume w: "0 \<le> w" and d: "\<not> pool_done w s" and b: "int (length (fst (snd s))) \<le> w"
  obtain q busy a where s: "s = (q, busy, a)" by (cases s)
  show ?thesis
  proof (cases busy)
    case Nil
    with d s obtain c q' where "q = c # q'" "w \<noteq> 0" by (cases q) (auto simp: pool_done_def)
    with w s Nil show ?thesis using take_commit[of "[]" w c q' a] by auto
  next
    case (Cons c ys)
    with s show ?thesis using deliver[of w q "[]" c ys a] by auto
  qed
qed

lemma pool_measure: "pool_step w s s' \<Longrightarrow> 2 * length (fst s') + length (fst (snd s')) < 2 * length (fst s) + length (fst (snd s))"
  by (induction rule: pool_step.induct) auto

end
