(* ===== verification/NotesResults.thy ===== *)
theory NotesResults
  imports ReleaseNotes
begin

text \<open>
  Properties of the release notes tool: the text does not depend on the order in which the
  workers deliver their results, as far as the code sorts; the log of git is read back; the
  day after a date; and the inputs on which the tool fails.
\<close>

section \<open>White space\<close>

lemma trimLeft_id: "(\<forall>w\<in>set ws. \<not> HasPrefix s w \<or> w = []) \<Longrightarrow> trimLeft ws s = s"
proof -
  assume "\<forall>w\<in>set ws. \<not> HasPrefix s w \<or> w = []"
  then have "List.find (\<lambda>w. w \<noteq> [] \<and> HasPrefix s w) ws = None" by (auto simp: find_None_iff)
  then show ?thesis by (simp add: trimLeft.simps)
qed

lemma trimLeft_Nil [simp]: "trimLeft ws [] = []"
  by (rule trimLeft_id) (simp add: HasPrefix_def)

lemma TrimSpace_Nil [simp]: "TrimSpace [] = []"
  by (simp add: TrimSpace_def)

text \<open>Printable ASCII begins and ends no white space.\<close>

definition printable :: "char \<Rightarrow> bool" where
  "printable c = (33 \<le> (of_char c :: nat) \<and> (of_char c :: nat) \<le> 126)"

lemma spaces_ends: "w \<in> set spaces \<Longrightarrow> w \<noteq> [] \<and> \<not> printable (hd w) \<and> \<not> printable (last w)"
  by (auto simp: spaces_def bytes_def printable_def of_char_of)

lemma trimLeft_printable:
  assumes "printable c" "\<forall>w\<in>set ws. w \<noteq> [] \<longrightarrow> \<not> printable (hd w)"
  shows "trimLeft ws (c # s) = c # s"
proof (rule trimLeft_id, rule ballI)
  fix w assume "w \<in> set ws"
  with assms show "\<not> HasPrefix (c # s) w \<or> w = []" by (cases w) (auto simp: HasPrefix_def)
qed

text \<open>Text of printable ASCII and blanks is separated by the blanks alone.\<close>

lemma blank_space: "w \<in> set spaces \<Longrightarrow> hd w = CHR '' '' \<Longrightarrow> w = '' ''"
  by (auto simp: spaces_def bytes_def char_of_eq_iff)

lemma blanks_plain: "\<forall>c\<in>set s. printable c \<or> c = CHR '' '' \<Longrightarrow> blanks s = s"
proof (induction s)
  case Nil
  show ?case by (subst blanks.simps) simp
next
  case (Cons c s)
  have e: "w = '' '' \<and> c = CHR '' ''" if "w \<in> set spaces" "HasPrefix (c # s) w" for w
  proof -
    have n: "w \<noteq> []" "\<not> printable (hd w)" using spaces_ends[OF that(1)] by blast+
    with that(2) have h: "hd w = c" by (cases w) (simp_all add: HasPrefix_def)
    with n Cons.prems have "c = CHR '' ''" by simp
    with blank_space[OF that(1)] h show ?thesis by simp
  qed
  show ?case
  proof (cases "List.find (\<lambda>w. w \<noteq> [] \<and> HasPrefix (c # s) w) spaces")
    case None
    with Cons show ?thesis by (subst blanks.simps) simp
  next
    case (Some w)
    then have "w \<in> set spaces" "HasPrefix (c # s) w" by (auto simp: find_Some_iff)
    with e have "w = '' ''" "c = CHR '' ''" by blast+
    with Some Cons show ?thesis by (subst blanks.simps) simp
  qed
qed

lemma TrimSpace_printable:
  assumes "s \<noteq> []" "printable (hd s)" "printable (last s)"
  shows "TrimSpace s = s"
proof -
  have "trimLeft spaces s = s" using assms spaces_ends trimLeft_printable[of "hd s" spaces "tl s"] by auto
  moreover have "trimLeft (map rev spaces) (rev s) = rev s"
    using assms spaces_ends trimLeft_printable[of "last s" "map rev spaces" "tl (rev s)"]
    by (cases s rule: rev_cases) (auto simp: hd_rev)
  ultimately show ?thesis by (simp add: TrimSpace_def)
qed

text \<open>Without a bracket there is no marker to remove.\<close>

lemma trimMarkers_id: "CHR ''['' \<notin> set s \<Longrightarrow> trimMarkers l s = s"
proof (induction s arbitrary: l)
  case Nil
  show ?case by (subst trimMarkers.simps) (simp add: matchMarker_def HasPrefix_def)
next
  case (Cons c s)
  then show ?case by (subst trimMarkers.simps) (auto simp: matchMarker_def HasPrefix_def)
qed

section \<open>The order of arrival\<close>

definition entryText :: "noteEntry \<Rightarrow> string" where
  "entryText e = (if ne_section e = sec_documentation then ne_prNumber e else ne_title e)"

lemma addEntry_mset:
  "mset (addEntry e m k) = mset (m k) + (if ne_title e \<noteq> [] \<and> ne_section e = k then {#entryText e#} else {#})"
  by (simp add: addEntry_def entryText_def)

lemma collect_Merges:
  "collect rs m0 = Merges m \<Longrightarrow>
     (\<forall>r\<in>set rs. \<exists>e. r = Some (Inr e)) \<and>
     (\<forall>k. mset (m k) = mset (m0 k) +
        (\<Sum>r\<in>#mset rs. case r of Some (Inr e) \<Rightarrow> if ne_title e \<noteq> [] \<and> ne_section e = k then {#entryText e#} else {#} | _ \<Rightarrow> {#}))"
proof (induction rs arbitrary: m0)
  case (Cons r rs)
  then obtain e where r: "r = Some (Inr e)" "collect rs (addEntry e m0) = Merges m"
    by (auto split: option.splits sum.splits)
  from Cons.IH[OF r(2)] r(1) show ?case by (auto simp: addEntry_mset add_ac)
qed simp

lemma collect_total: "(\<forall>r\<in>set rs. \<exists>e. r = Some (Inr e)) \<Longrightarrow> \<exists>m. collect rs m0 = Merges m"
proof (induction rs arbitrary: m0)
  case (Cons r rs)
  then obtain e where "r = Some (Inr e)" by auto
  with Cons show ?case by simp
qed simp

lemma sort_unique:
  assumes "sort_law N" "mset xs = mset ys" "inj_on f (set xs)"
  shows "SortSlice N f xs = SortSlice N f ys"
proof -
  let ?a = "SortSlice N f xs" and ?b = "SortSlice N f ys"
  have ms: "mset ?a = mset xs" "mset ?b = mset ys" and so: "sorted (map f ?a)" "sorted (map f ?b)"
    using assms(1) by (auto simp: sort_law_def)
  have "mset (map f ?a) = mset (map f ?b)" using ms assms(2) by simp
  then have eq: "map f ?a = map f ?b" using so properties_for_sort by metis
  have sets: "set ?a = set xs" "set ?b = set xs" using ms assms(2) by (metis mset_eq_setD)+
  have "inj_on f (set ?a \<union> set ?b)" using assms(3) sets by simp
  then show ?thesis using map_inj_on[OF eq] by simp
qed

lemma printSection_unique:
  assumes "sort_law N" "mset xs = mset ys" "k \<noteq> sec_documentation \<Longrightarrow> inj_on (ToLower N) (set xs)"
    and "k = sec_documentation \<Longrightarrow> length xs \<le> 1"
  shows "printSection N k xs = printSection N k ys"
proof -
  have l: "length xs = length ys" using assms(2) by (metis size_mset)
  show ?thesis
  proof (cases "k = sec_documentation")
    case True
    then have "xs = ys" using assms(2,4) l by (cases xs; cases ys) auto
    then show ?thesis by simp
  next
    case False
    then show ?thesis using sort_unique[OF assms(1,2) assms(3)] l by (simp add: printSection_def)
  qed
qed

text \<open>C40 The notes do not depend on the workers: whatever order the results arrive in, and with
  however many workers, the text is that of the commits in the order of the log, provided
  every entry could be generated, different titles of a section differ in lower case, and at
  most one entry is in the documentation section (whose numbers are printed as they arrive).\<close>

theorem notes_order_irrelevant:
  assumes "sort_law N" "arrivals w commits order" "w \<noteq> 0"
    and "collect (map (generateReleaseNoteEntry N F) commits) (\<lambda>_. []) = Merges m"
    and "\<forall>k. k \<noteq> sec_documentation \<longrightarrow> inj_on (ToLower N) (set (m k))" "length (m sec_documentation) \<le> 1"
  shows "finish N F r commits order = Exit 0 (report N F r (length commits) m)"
proof -
  let ?g = "generateReleaseNoteEntry N F"
  have ms: "mset order = mset commits" using arrivals_mset[OF assms(2,3)] .
  then have rs: "mset (map ?g order) = mset (map ?g commits)" by simp
  then have "set (map ?g order) = set (map ?g commits)" by (metis mset_eq_setD)
  then have "\<forall>x\<in>set (map ?g order). \<exists>e. x = Some (Inr e)" using collect_Merges[OF assms(4)] by metis
  then obtain m' where m': "collect (map ?g order) (\<lambda>_. []) = Merges m'" using collect_total by blast
  have eq: "mset (m' k) = mset (m k)" for k
    using collect_Merges[OF m'] collect_Merges[OF assms(4)] rs by metis
  then have len: "length (m' k) = length (m k)" for k by (metis size_mset)
  have "printSection N k (m' k) = printSection N k (m k)" for k
    using printSection_unique[OF assms(1) eq[symmetric], of k] assms(5,6) by simp
  then show ?thesis by (simp add: finish_def m' report_def overview_def len)
qed

definition N1 :: notesEnv where
  "N1 = \<lparr>LookPath = (\<lambda>_. True), Exec = (\<lambda>_. \<lparr>cr_out = [], cr_combined = [], cr_err = None\<rparr>), UnmarshalLabels = (\<lambda>_. Inr []),
     ToLower = (\<lambda>s. s), SortSlice = sort_key\<rparr>"

definition F1 :: notesFlags where
  "F1 = \<lparr>fl_repo = ''r'', fl_fromTag = ''v1'', fl_since = [], fl_until = [], fl_numWorkers = 2, fl_prefixAreaLabel = False,
     fl_addKubernetesVersionSupport = False\<rparr>"

definition c1 :: gitCommit where
  "c1 = \<lparr>gc_merge = ''Merge pull request #1 from a/b'', gc_body = '':bug: b''\<rparr>"
definition c2 :: gitCommit where
  "c2 = \<lparr>gc_merge = ''Merge pull request #2 from a/c'', gc_body = '':bug: a''\<rparr>"

lemma trimmed1:
  "TrimSpace '':bug: b'' = '':bug: b''" "TrimSpace '':bug: a'' = '':bug: a''" "TrimSpace ''B'' = ''B''" "TrimSpace ''A'' = ''A''"
  by (rule TrimSpace_printable; simp add: printable_def)+

lemma pieces1:
  "classify '':bug: b'' = Some (sec_bugs, ''B'')" "classify '':bug: a'' = Some (sec_bugs, ''A'')"
  "trimTag '':bug: b'' = '':bug: b''" "trimTag '':bug: a'' = '':bug: a''"
  by code_simp+

lemma numbers1:
  "scanMerge ''Merge pull request #1 from a/b'' = ''#1''" "scanMerge ''Merge pull request #2 from a/c'' = ''#2''"
  unfolding scanMerge_def
  by (subst blanks_plain, simp add: printable_def, code_simp)+

lemma entries1:
  "generateReleaseNoteEntry N1 F1 c1 = Some (Inr \<lparr>ne_title = ''- B (#1)'', ne_section = sec_bugs, ne_prNumber = ''#1''\<rparr>)"
  "generateReleaseNoteEntry N1 F1 c2 = Some (Inr \<lparr>ne_title = ''- A (#2)'', ne_section = sec_bugs, ne_prNumber = ''#2''\<rparr>)"
  by (simp_all add: generateReleaseNoteEntry_def c1_def c2_def F1_def trimTitle_def pieces1 numbers1 trimmed1
      trimReleaseBackportMarker_def trimMarkers_id formatMerge_def documentationAreaLabel_def Let_def)

theorem notes_order_irrelevant_witness:
  "arrivals 2 [c1, c2] [c2, c1] \<and>
   finish N1 F1 ''v1'' [c1, c2] [c2, c1] =
     Exit 0 (report N1 F1 ''v1'' 2 ((\<lambda>_. [])(sec_bugs := [''- B (#1)'', ''- A (#2)''])))"
proof -
  have l: "sort_law N1" by (simp add: sort_law_def N1_def)
  have s: "pool_step 2 ([c1, c2], [], []) ([c2], [c1], [])" "pool_step 2 ([c2], [c1], []) ([], [c1, c2], [])"
    "pool_step 2 ([], [c1, c2], []) ([], [c1], [c2])" "pool_step 2 ([], [c1], [c2]) ([], [], [c2, c1])"
    using take_commit[of "[]" 2 c1 "[c2]" "[]"] take_commit[of "[c1]" 2 c2 "[]" "[]"]
      deliver[of 2 "[]" "[c1]" c2 "[]" "[]"] deliver[of 2 "[]" "[]" c1 "[]" "[c2]"] by simp_all
  then have "(pool_step 2)\<^sup>*\<^sup>* ([c1, c2], [], []) ([], [], [c2, c1])"
    by (meson converse_rtranclp_into_rtranclp rtranclp.rtrancl_refl)
  then have a: "arrivals 2 [c1, c2] [c2, c1]" by (auto simp: arrivals_def pool_done_def)
  let ?m = "(\<lambda>_. [])(sec_bugs := [''- B (#1)'', ''- A (#2)''])"
  have c: "collect (map (generateReleaseNoteEntry N1 F1) [c1, c2]) (\<lambda>_. []) = Merges ?m"
    by (simp add: entries1 addEntry_def sec_defs)
  have i: "\<forall>k. k \<noteq> sec_documentation \<longrightarrow> inj_on (ToLower N1) (set (?m k))" by (simp add: N1_def)
  have d: "length (?m sec_documentation) \<le> 1" by (simp add: sec_defs)
  have n: "length [c1, c2] = 2" by simp
  have z: "(2::int) \<noteq> 0" by simp
  from notes_order_irrelevant[OF l a z c i d, of "''v1''"]
  have "finish N1 F1 ''v1'' [c1, c2] [c2, c1] = Exit 0 (report N1 F1 ''v1'' (length [c1, c2]) ?m)" by blast
  with a show ?thesis unfolding n by blast
qed

section \<open>Reading the log\<close>

text \<open>A commit as git prints it: its hash, the merge line, an empty line and the title.\<close>

definition logLines :: "string \<Rightarrow> gitCommit \<Rightarrow> string list" where
  "logLines sha c = [''commit '' @ sha, gc_merge c, [], gc_body c]"

definition readable :: "gitCommit \<Rightarrow> bool" where
  "readable c \<longleftrightarrow> TrimSpace (gc_merge c) = gc_merge c \<and> HasPrefix (gc_merge c) ''Merge'' \<and>
     TrimSpace (gc_body c) = gc_body c \<and> gc_body c \<noteq> [] \<and>
     \<not> HasPrefix (gc_body c) ''commit'' \<and> \<not> HasPrefix (gc_body c) ''Merge''"

lemma Merge_not_commit: "HasPrefix s ''Merge'' \<Longrightarrow> \<not> HasPrefix s ''commit''"
  by (cases s) (auto simp: HasPrefix_def)

lemma parseLines_log:
  assumes "\<forall>c\<in>set cs. readable c" "\<forall>sha\<in>set shas. HasPrefix (TrimSpace (''commit '' @ sha)) ''commit''" "length shas = length cs"
  shows "parseLines (concat (map2 logLines shas cs)) acc = Some (acc @ cs)"
  using assms(3,1,2)
proof (induction shas cs arbitrary: acc rule: list_induct2)
  case (Cons sha shas c cs)
  from Cons.prems have c: "readable c" by simp
  then have "\<not> HasPrefix (gc_merge c) ''commit''" using Merge_not_commit by (auto simp: readable_def)
  with c Cons show ?case
    by (simp add: logLines_def readable_def Let_def HasPrefix_def[of "[]"])
qed simp

text \<open>The day after a date is a date, one day later.\<close>

definition ordinal :: "nat \<times> nat \<times> nat \<Rightarrow> nat" where
  "ordinal d = (case d of (y, m, k) \<Rightarrow>
     (\<Sum>i<y. if leap i then 366 else 365) + sum_list (map (daysIn y) [1..<m]) + k)"

lemma year_length: "sum_list (map (daysIn y) [1..<13]) = (if leap y then 366 else 365)"
  by (simp add: upt_rec daysIn_def)

lemma nextDay_ordinal: "validDate d \<Longrightarrow> validDate (nextDay d) \<and> ordinal (nextDay d) = ordinal d + 1"
proof -
  obtain y m k where d: "d = (y, m, k)" by (cases d)
  assume "validDate d"
  then have v: "1 \<le> m" "m \<le> 12" "1 \<le> k" "k \<le> daysIn y m" using d by (auto simp: validDate_def)
  have p: "1 \<le> daysIn y' m'" for y' m' by (simp add: daysIn_def)
  consider "k < daysIn y m" | "k = daysIn y m" "m < 12" | "k = daysIn y m" "m = 12" using v by linarith
  then show ?thesis
  proof cases
    case 1
    with d v show ?thesis by (simp add: nextDay_def validDate_def ordinal_def)
  next
    case 2
    with d v p show ?thesis by (simp add: nextDay_def validDate_def ordinal_def)
  next
    case 3
    have "sum_list (map (daysIn y) [1..<12]) + daysIn y 12 = sum_list (map (daysIn y) [1..<13])"
      by (simp add: upt_rec eval_nat_numeral)
    with 3 d p year_length[of y] show ?thesis by (simp add: nextDay_def validDate_def ordinal_def)
  qed
qed

section \<open>Failures\<close>

text \<open>A pull request that cannot be read ends the run with exit code 0 and without notes, unlike
  every other failure.\<close>

lemma failure_exits_zero:
  assumes "c \<in> set order" "generateReleaseNoteEntry N F c = Some (Inl err)"
    and "\<forall>c\<in>set order. generateReleaseNoteEntry N F c \<noteq> None"
  shows "\<exists>err. finish N F r commits order = Exit 0 (line err)"
proof -
  have "\<exists>err. collect (map (generateReleaseNoteEntry N F) order) m0 = Stop err" for m0
    using assms
  proof (induction order arbitrary: m0)
    case (Cons d ds)
    then show ?case
    proof (cases "generateReleaseNoteEntry N F d")
      case (Some x)
      with Cons show ?thesis by (cases x) auto
    qed simp
  qed simp
  then obtain err where "collect (map (generateReleaseNoteEntry N F) order) (\<lambda>_. []) = Stop err" by blast
  then have "finish N F r commits order = Exit 0 (line err)" by (simp add: finish_def)
  then show ?thesis by blast
qed

text \<open>Without workers the results are complete at once: the commits are counted, and none of
  them is listed.\<close>

lemma no_workers_no_entries:
  assumes "arrivals 0 commits order"
  shows "finish N F r commits order = Exit 0 (report N F r (length commits) (\<lambda>_. []))"
  using no_workers[OF assms] by (simp add: finish_def)

text \<open>A title that is nothing but its emoji, and a title whose first character after the emoji is
  not ASCII: the first is a panic, the second is no longer valid text (its first byte was
  taken for a character).\<close>

lemma emoji_only_panics: "classify '':bug:'' = None"
  by code_simp

lemma first_character_broken:
  "modifyEntryTitle ('':bug: '' @ e_sparkles) ['':bug:'', e_bug] = Some (bytes [195, 130, 156, 168])"
  by code_simp

text \<open>A merge line with fewer than four words is a panic.\<close>

lemma short_merge_panics: "getAreaLabel N F ''Merge tag v1'' = None"
  by (simp add: getAreaLabel_def)

end
