(* ===== verification/Convergence.thy ===== *)
theory Convergence
  imports ReplicaResults
begin

text \<open>
  Liveness of rollout and scaling: when the answers are friendly often enough, the control
  plane ends up with the desired number of machines, none of them outdated. \<open>succeeds\<close> is
  total correctness for computations; a \<open>rank\<close> falls with every machine created or deleted.
\<close>

section \<open>Computations that succeed\<close>

definition succeeds :: "('c, 'a) go \<Rightarrow> ('a \<Rightarrow> bool) \<Rightarrow> bool" where
  "succeeds m Q \<longleftrightarrow> (\<forall>h. \<exists>x h'. m h = (Some x, h') \<and> Q x)"

lemma succeedsE:
  assumes "succeeds m Q"
  obtains x h' where "m h = (Some x, h')" "Q x"
  using assms unfolding succeeds_def by blast

lemma succeeds_bnd: "succeeds m R \<Longrightarrow> (\<And>x. R x \<Longrightarrow> succeeds (f x) Q) \<Longrightarrow> succeeds (bnd m f) Q"
  unfolding succeeds_def by (metis (no_types, lifting) bnd_run option.simps(5) prod.simps(2))

lemma succeeds_ret: "Q x \<Longrightarrow> succeeds (ret x) Q"
  by (simp add: succeeds_def go_runs)

lemma succeeds_api: "(\<And>h. Q (sel E h c)) \<Longrightarrow> succeeds (api E sel c) Q"
  and succeeds_helper: "(\<And>h. R (e_helper E h n)) \<Longrightarrow> succeeds (new_helper E n) R"
  and succeeds_now: "(\<And>t. T t) \<Longrightarrow> succeeds (now E) T"
  by (simp_all add: succeeds_def go_runs)

lemma succeeds_mono: "succeeds m R \<Longrightarrow> (\<And>x. R x \<Longrightarrow> Q x) \<Longrightarrow> succeeds m Q"
  unfolding succeeds_def by blast

section \<open>A reachable etcd cluster\<close>

text \<open>Calls are answered without errors, the credentials of etcd can be read, the control plane
  nodes \<open>N\<close> run proxy pods and members, and one of their members is the leader.\<close>

definition no_errors :: "env \<Rightarrow> bool" where
  "no_errors E \<longleftrightarrow> (\<forall>h c. e_err E h c = None) \<and> (\<forall>h n. e_helper E h n = None)"

definition credentials :: "env \<Rightarrow> bool" where
  "credentials E \<longleftrightarrow>
     (\<forall>h c. \<exists>s crt. e_secret E h c = Inr s \<and> mget (s_Data s) ''tls.crt'' = Some crt \<and> (\<exists>x. e_DecodeCertPEM E crt = Inr (Some x))) \<and>
     (\<forall>h c. \<exists>x. e_random E h c = Inr x) \<and> (\<forall>k. \<exists>x. e_DecodePrivateKeyPEM E k = Inr x) \<and>
     (\<forall>b. \<exists>x. e_ParseCertificate E b = Inr x) \<and> (\<forall>a b. e_X509KeyPair E a b = None)"

definition nodeOf :: "PbMember \<Rightarrow> string" where
  "nodeOf m = NodeNameFromMember (pbMemberToMember m)"

definition etcd_serves :: "env \<Rightarrow> string set \<Rightarrow> bool" where
  "etcd_serves E N \<longleftrightarrow> (\<exists>leader.
     (\<forall>h c. \<exists>ns. e_nodes E h c = Inr ns \<and> n_Name ` {n \<in> set ns. hasControlPlaneRoleLabel (om_Labels (n_Meta n))} = N) \<and>
     (\<forall>h c. \<exists>ps. e_pods E h c = Inr ps \<and> ps \<noteq> [] \<and> N \<subseteq> fst ` set ps) \<and>
     (\<forall>h c. \<exists>errs. e_status E h c = Inr (leader, errs)) \<and>
     (\<forall>h c. \<exists>cid ms. e_members E h c = Inr (cid, ms) \<and> leader \<in> pm_ID ` set ms \<and>
        (\<forall>m\<in>set ms. pm_ID m = leader \<longrightarrow> nodeOf m \<in> N) \<and> N \<subseteq> nodeOf ` set ms) \<and>
     (\<forall>h c. \<exists>as. e_alarms E h c = Inr as))"

lemma getControlPlaneNodes_succeeds:
  assumes "etcd_serves E N"
  shows "succeeds (getControlPlaneNodes E) (\<lambda>r. \<exists>ns. r = Inr ns \<and> set (namesOfNodes ns) = N)"
  unfolding getControlPlaneNodes_def
proof (rule succeeds_bnd[where R = "\<lambda>r. \<exists>ns. r = Inr ns \<and> n_Name ` {n \<in> set ns. hasControlPlaneRoleLabel (om_Labels (n_Meta n))} = N"])
  show "succeeds (api E e_nodes WListNodes)
     (\<lambda>r. \<exists>ns. r = Inr ns \<and> n_Name ` {n \<in> set ns. hasControlPlaneRoleLabel (om_Labels (n_Meta n))} = N)"
    using assms by (intro succeeds_api) (auto simp: etcd_serves_def)
qed (auto simp: namesOfNodes_def intro!: succeeds_ret)

text \<open>The cache of proxy pods, once it is filled, knows all nodes.\<close>

definition knows :: "string set \<Rightarrow> podmap \<Rightarrow> bool" where
  "knows N pm \<longleftrightarrow> (\<forall>f. pm = Some f \<longrightarrow> N \<subseteq> dom f)"

lemma findEtcdProxyPod_succeeds:
  assumes "etcd_serves E N" "no_errors E" "knows N pm" "n \<in> N"
  shows "succeeds (findEtcdProxyPod E pm n) (\<lambda>(pm', r). knows N pm' \<and> (\<exists>p. r = Inr p))"
  unfolding findEtcdProxyPod_def
proof (rule succeeds_bnd[where R = "\<lambda>r. \<exists>f. r = Inr (Some f) \<and> N \<subseteq> dom f"])
  have list: "succeeds (api E e_pods WListEtcdProxyPods) (\<lambda>r. \<exists>ps. r = Inr ps \<and> ps \<noteq> [] \<and> N \<subseteq> fst ` set ps)"
    using assms(1) by (intro succeeds_api) (auto simp: etcd_serves_def)
  show "succeeds (case pm of Some _ \<Rightarrow> ret (Inr pm)
          | None \<Rightarrow> bnd (new_helper E ''kubernetes client'') (\<lambda>e. case e of
                Some err \<Rightarrow> ret (Inl (Wrap ''unable to create client to target cluster'' err))
              | None \<Rightarrow> bnd (api E e_pods WListEtcdProxyPods) (\<lambda>r. case r of
                Inl err \<Rightarrow> ret (Inl (Wrap ''unable to list etcd-proxy pods in target cluster'' err))
              | Inr pods \<Rightarrow>
                  if length pods = 0 then ret (Inl (Msg ''there isn't any etcd-proxy pods in target cluster''))
                  else ret (Inr (Some (map_of (rev pods)))))))
     (\<lambda>r. \<exists>f. r = Inr (Some f) \<and> N \<subseteq> dom f)"
  proof (cases pm)
    case None
    show ?thesis
      unfolding None option.case
      by (rule succeeds_bnd[where R = "\<lambda>e. e = None"])
        (use assms(2) in \<open>auto simp: no_errors_def dom_map_of_conv_image_fst intro!: succeeds_helper succeeds_bnd[OF list] succeeds_ret\<close>)
  qed (use assms(3) in \<open>auto simp: knows_def intro!: succeeds_ret\<close>)
qed (use assms(4) in \<open>auto simp: knows_def intro!: succeeds_ret split: option.split\<close>)

lemma NewClient_succeeds:
  assumes "etcd_serves E N" "no_errors E"
  shows "\<exists>leader. (\<forall>h c. \<exists>cid ms. e_members E h c = Inr (cid, ms) \<and> leader \<in> pm_ID ` set ms \<and>
        (\<forall>m\<in>set ms. pm_ID m = leader \<longrightarrow> nodeOf m \<in> N) \<and> N \<subseteq> nodeOf ` set ms) \<and>
     (\<forall>p. succeeds (NewClient E p) (\<lambda>r. \<exists>c. r = Inr c \<and> ec_LeaderID c = leader))"
proof -
  from assms(1) obtain leader where
    st: "\<forall>h c. \<exists>errs. e_status E h c = Inr (leader, errs)" and
    ms: "\<forall>h c. \<exists>cid ms. e_members E h c = Inr (cid, ms) \<and> leader \<in> pm_ID ` set ms \<and>
        (\<forall>m\<in>set ms. pm_ID m = leader \<longrightarrow> nodeOf m \<in> N) \<and> N \<subseteq> nodeOf ` set ms"
    unfolding etcd_serves_def by blast
  have new: "succeeds (newEtcdClient E [p]) (\<lambda>r. \<exists>c. r = Inr c \<and> ec_LeaderID c = leader)" for p
    unfolding newEtcdClient_def list.case
    by (rule succeeds_bnd[where R = "\<lambda>r. \<exists>errs. r = Inr (leader, errs)"])
      (use st in \<open>auto intro!: succeeds_api succeeds_ret\<close>)
  have "succeeds (NewClient E p) (\<lambda>r. \<exists>c. r = Inr c \<and> ec_LeaderID c = leader)" for p
    unfolding NewClient_def using assms(2)
    by (auto simp: no_errors_def intro!: succeeds_helper succeeds_ret
        succeeds_bnd[where m = "new_helper E n" and R = "\<lambda>e. e = None" for n] succeeds_bnd[OF new])
  with ms show ?thesis by blast
qed

text \<open>The members as a client of a node lists them: the leader is one of them, on a node of \<open>N\<close>,
  and every node of \<open>N\<close> has a member.\<close>

definition listsMembers :: "string set \<Rightarrow> uint64 \<Rightarrow> Member list \<Rightarrow> bool" where
  "listsMembers N leader members \<longleftrightarrow> (\<exists>m\<in>set members. em_ID m = leader) \<and>
     (\<forall>m\<in>set members. em_ID m = leader \<longrightarrow> NodeNameFromMember m \<in> N) \<and> N \<subseteq> NodeNameFromMember ` set members"

lemma listsMembers_map:
  assumes "leader \<in> pm_ID ` set ms" "\<forall>m\<in>set ms. pm_ID m = leader \<longrightarrow> nodeOf m \<in> N" "N \<subseteq> nodeOf ` set ms"
  shows "listsMembers N leader (map (memberWithAlarms cid as) ms)"
proof -
  from assms(1) obtain m where "m \<in> set ms" "pm_ID m = leader" by blast
  then have "\<exists>m\<in>set (map (memberWithAlarms cid as) ms). em_ID m = leader" by (auto intro!: bexI[of _ m])
  with assms(2,3) show ?thesis by (auto simp: listsMembers_def nodeOf_def image_image)
qed

definition serves :: "env \<Rightarrow> string set \<Rightarrow> uint64 \<Rightarrow> bool" where
  "serves E N leader \<longleftrightarrow> (\<forall>c. succeeds (Members E c) (\<lambda>r. \<exists>ms. r = Inr ms \<and> listsMembers N leader ms)) \<and>
     (\<forall>p. succeeds (NewClient E p) (\<lambda>r. \<exists>c. r = Inr c \<and> ec_LeaderID c = leader))"

lemma etcd_serves_client:
  assumes "etcd_serves E N" "no_errors E"
  obtains leader where "serves E N leader"
proof -
  obtain leader where
    ms: "\<And>h c. \<exists>cid ms. e_members E h c = Inr (cid, ms) \<and> leader \<in> pm_ID ` set ms \<and>
        (\<forall>m\<in>set ms. pm_ID m = leader \<longrightarrow> nodeOf m \<in> N) \<and> N \<subseteq> nodeOf ` set ms" and
    new: "\<And>p. succeeds (NewClient E p) (\<lambda>r. \<exists>c. r = Inr c \<and> ec_LeaderID c = leader)"
    using NewClient_succeeds[OF assms] by blast
  have alarms: "succeeds (Alarms E c) (\<lambda>r. \<exists>as. r = Inr as)" for c
    unfolding Alarms_def
    by (rule succeeds_bnd[where R = "\<lambda>r. \<exists>as. r = Inr as"])
      (use assms(1) in \<open>auto simp: etcd_serves_def intro!: succeeds_api succeeds_ret\<close>)
  have "succeeds (Members E c) (\<lambda>r. \<exists>ms. r = Inr ms \<and> listsMembers N leader ms)" for c
    unfolding Members_def
  proof (rule succeeds_bnd[where R = "\<lambda>r. \<exists>cid ms. r = Inr (cid, ms) \<and> leader \<in> pm_ID ` set ms \<and>
        (\<forall>m\<in>set ms. pm_ID m = leader \<longrightarrow> nodeOf m \<in> N) \<and> N \<subseteq> nodeOf ` set ms"])
    show "succeeds (api E e_members (EtcdMemberList (ec_Endpoint c))) (\<lambda>r. \<exists>cid ms. r = Inr (cid, ms) \<and> leader \<in> pm_ID ` set ms \<and>
        (\<forall>m\<in>set ms. pm_ID m = leader \<longrightarrow> nodeOf m \<in> N) \<and> N \<subseteq> nodeOf ` set ms)"
      using ms by (intro succeeds_api) blast
  qed (auto intro!: succeeds_bnd[OF alarms] succeeds_ret listsMembers_map)
  with new that show ?thesis by (auto simp: serves_def)
qed

lemma firstAvailable_succeeds:
  assumes up: "etcd_serves E N" "no_errors E" "serves E N leader" and p: "knows N pm" "n \<in> N"
  shows "succeeds (forFirstAvailableNode E pm [n])
    (\<lambda>(pm', c, err). knows N pm' \<and> err = None \<and> (\<exists>cl. c = Some cl \<and> ec_LeaderID cl = leader))"
proof -
  have new: "succeeds (NewClient E p) (\<lambda>r. \<exists>c. r = Inr c \<and> ec_LeaderID c = leader)" for p
    using up(3) by (simp add: serves_def)
  show ?thesis
    unfolding forFirstAvailableNode_def
    by (auto intro!: succeeds_bnd[OF findEtcdProxyPod_succeeds[OF up(1,2) p]] succeeds_bnd[OF new] succeeds_ret)
qed

lemma Members_succeeds: "serves E N leader \<Longrightarrow> succeeds (Members E c) (\<lambda>r. \<exists>ms. r = Inr ms \<and> listsMembers N leader ms)"
  by (simp add: serves_def)

lemma Close_succeeds: "succeeds (Close E c) (\<lambda>_. True)"
  unfolding Close_def by (rule succeeds_api) simp

lemma clientOfLeader_succeeds:
  assumes up: "etcd_serves E N" "no_errors E" "serves E N leader" and p: "knows N pm" "ec_LeaderID cl = leader"
  shows "succeeds (clientOfLeader E pm cl N)
    (\<lambda>(pm', c, err). knows N pm' \<and> err = None \<and> (\<exists>cl. c = Some cl \<and> ec_LeaderID cl = leader))"
  unfolding clientOfLeader_def
proof (rule succeeds_bnd[OF Members_succeeds[OF up(3)]], elim exE conjE, goal_cases)
  case (1 r ms)
  then have "List.find (\<lambda>m. em_ID m = ec_LeaderID cl) ms \<noteq> None"
    using p(2) by (auto simp: listsMembers_def find_None_iff)
  then obtain m where m: "List.find (\<lambda>m. em_ID m = ec_LeaderID cl) ms = Some m" by blast
  then have "m \<in> set ms" "em_ID m = leader" using p(2) by (auto simp: find_Some_iff)
  with 1 have "NodeNameFromMember m \<in> N" by (auto simp: listsMembers_def)
  with 1 m show ?case using firstAvailable_succeeds[OF up p(1), of "NodeNameFromMember m"] by (simp add: Let_def)
qed

lemma forLeader_succeeds:
  assumes up: "etcd_serves E N" "no_errors E" "serves E N leader" and p: "knows N pm" "names \<noteq> []" "set names = N"
  shows "succeeds (forLeader E pm names) (\<lambda>(pm', c, err). err = None \<and> (\<exists>cl. c = Some cl))"
proof -
  from p(2,3) obtain n ns where n: "names = n # ns" "n \<in> N" by (cases names) auto
  have "succeeds (getLeaderClient E pm n N) (\<lambda>(pm', c, err). err = None \<and> (\<exists>cl. c = Some cl))"
    unfolding getLeaderClient_def
    by (rule succeeds_bnd[OF firstAvailable_succeeds[OF up p(1) n(2)]])
      (auto intro!: succeeds_bnd[OF clientOfLeader_succeeds[OF up]] succeeds_bnd[OF Close_succeeds] succeeds_ret)
  then have "succeeds (leaderLoop E N pm [] (n # ns)) (\<lambda>(pm', c, err). err = None \<and> (\<exists>cl. c = Some cl))"
    unfolding leaderLoop.simps by (rule succeeds_bnd) (auto intro!: succeeds_ret)
  with n(1) p(3) show ?thesis by (simp add: forLeader_def)
qed

section \<open>The passes of a friendly environment\<close>

lemma generateClientCert_succeeds:
  assumes "credentials E" "\<exists>x. e_DecodeCertPEM E crt = Inr (Some x)"
  shows "succeeds (generateClientCert E crt k) (\<lambda>r. \<exists>c. r = Inr c)"
proof -
  obtain x where x: "e_DecodeCertPEM E crt = Inr (Some x)" using assms(2) by blast
  have new: "succeeds (newClientCert E (Some x) k caKey) (\<lambda>r. \<exists>c. r = Inr c)" for k caKey
    unfolding newClientCert_def
    by (rule succeeds_bnd[OF succeeds_now[of "\<lambda>_. True"]], simp, rule succeeds_bnd[where R = "\<lambda>r. \<exists>b. r = Inr b"])
      (use assms(1) in \<open>auto simp: credentials_def intro!: succeeds_api succeeds_ret\<close>)
  from assms(1) obtain caKey where "e_DecodePrivateKeyPEM E k = Inr caKey" unfolding credentials_def by blast
  then show ?thesis
    unfolding generateClientCert_def
    by (intro succeeds_bnd[where R = "\<lambda>r. \<exists>b. r = Inr b"])
      (use assms(1) x in \<open>auto simp: credentials_def intro!: succeeds_api succeeds_bnd[OF new] succeeds_ret\<close>)
qed

lemma GetWorkloadCluster_succeeds:
  assumes "no_errors E" "credentials E"
  shows "succeeds (GetWorkloadCluster E k) (\<lambda>r. r = Inr \<lparr>wl_gen = Some (NewEtcdClientGenerator E), wl_pods = None\<rparr>)"
proof -
  have ca: "succeeds (getEtcdCAKeyPair E k) (\<lambda>r. \<exists>crt key x. r = Inr (Some crt, key) \<and> e_DecodeCertPEM E crt = Inr (Some x))"
    unfolding getEtcdCAKeyPair_def
  proof (rule succeeds_bnd[where R = "\<lambda>r. \<exists>s crt x. r = Inr s \<and> mget (s_Data s) ''tls.crt'' = Some crt \<and> e_DecodeCertPEM E crt = Inr (Some x)"])
    show "succeeds (api E e_secret (GetSecret (fst k, snd k @ ''-etcd'')))
       (\<lambda>r. \<exists>s crt x. r = Inr s \<and> mget (s_Data s) ''tls.crt'' = Some crt \<and> e_DecodeCertPEM E crt = Inr (Some x))"
      using assms(2) by (intro succeeds_api) (auto simp: credentials_def)
  qed (auto intro!: succeeds_ret)
  show ?thesis
    unfolding GetWorkloadCluster_def Let_def using assms(1)
    by (auto simp: no_errors_def intro!: succeeds_helper succeeds_ret succeeds_api
        succeeds_bnd[where m = "new_helper E n" and R = "\<lambda>e. e = None" for n]
        succeeds_bnd[where m = "do_write E c" and R = "\<lambda>e. e = None" for c]
        succeeds_bnd[OF ca] succeeds_bnd[OF generateClientCert_succeeds[OF assms(2)]])
qed

lemma ForwardEtcdLeadership_succeeds:
  assumes "no_errors E" "etcd_serves E N" "ma_NodeRef candidate = Some n" "n \<in> N"
    and "wl_gen w = Some (NewEtcdClientGenerator E)" "wl_pods w = None"
  shows "succeeds (ForwardEtcdLeadership E w (Some m) (Some candidate)) (\<lambda>(w, e). e = None)"
proof (cases "ma_NodeRef m")
  case None
  then show ?thesis by (simp add: ForwardEtcdLeadership_def succeeds_ret)
next
  case (Some node)
  obtain leader where up: "serves E N leader" using etcd_serves_client[OF assms(2,1)] .
  have conn: "succeeds (wlLeader w (namesOfNodes ns)) (\<lambda>(w, c, err). err = None \<and> (\<exists>cl. c = Some cl))"
    if "set (namesOfNodes ns) = N" for ns
  proof -
    have "namesOfNodes ns \<noteq> []" using that assms(4) by auto
    then have "succeeds (forLeader E None (namesOfNodes ns)) (\<lambda>(pm', c, err). err = None \<and> (\<exists>cl. c = Some cl))"
      using that by (intro forLeader_succeeds[OF assms(2,1) up]) (simp_all add: knows_def)
    then show ?thesis
      using assms(5,6) unfolding wlLeader_def
      by (auto simp: NewEtcdClientGenerator_def elim!: succeeds_bnd intro!: succeeds_ret)
  qed
  have move: "succeeds (MoveLeader E c i) (\<lambda>e. e = None)" for c i
    unfolding MoveLeader_def
    by (rule succeeds_bnd[where R = "\<lambda>e. e = None"]) (use assms(1) in \<open>auto simp: no_errors_def intro!: succeeds_api succeeds_ret\<close>)
  have body: "succeeds (case MemberForName members n of
       None \<Rightarrow> ret (w, Some (Msg ''failed to get etcd member from node''))
     | Some nextLeader \<Rightarrow> bnd (MoveLeader E c (em_ID nextLeader)) (\<lambda>e. ret (w, map_option (Wrap ''failed to move leader'') e)))
     (\<lambda>(w, e). e = None)" if "listsMembers N leader members" for members c and w :: Workload
  proof -
    have "MemberForName members n \<noteq> None"
      using that assms(4) unfolding MemberForName_def find_None_iff listsMembers_def by blast
    then show ?thesis by (auto intro!: succeeds_bnd[OF move] succeeds_ret)
  qed
  have mem: "succeeds (bnd (Members E c) (\<lambda>r. case r of
        Inl err \<Rightarrow> ret (w, Some (Wrap ''failed to list etcd members using etcd client'' err))
      | Inr members \<Rightarrow>
         (if (case MemberForName members node of None \<Rightarrow> True | Some currentMember \<Rightarrow> em_ID currentMember \<noteq> ec_LeaderID c)
          then ret (w, None)
          else case MemberForName members n of
             None \<Rightarrow> ret (w, Some (Msg ''failed to get etcd member from node''))
           | Some nextLeader \<Rightarrow>
               bnd (MoveLeader E c (em_ID nextLeader)) (\<lambda>e. ret (w, map_option (Wrap ''failed to move leader'') e)))))
      (\<lambda>(w, e). e = None)" for c and w :: Workload
    by (rule succeeds_bnd[OF Members_succeeds[OF up]]) (auto intro!: succeeds_ret body)
  show ?thesis
    unfolding ForwardEtcdLeadership_def with_client_def option.case Some assms(3)
    by (rule succeeds_bnd[OF getControlPlaneNodes_succeeds[OF assms(2)]])
      (auto intro!: succeeds_bnd[OF conn] succeeds_bnd[OF mem] succeeds_bnd[OF Close_succeeds] succeeds_ret)
qed

subsection \<open>Creating a machine\<close>

text \<open>The names of the machines a pass asks to create and to delete.\<close>

definition createdNames :: "call list \<Rightarrow> string set" where
  "createdNames cs = {ma_Name m | m. ApplyMachine m \<in> set cs}"
definition deletedNames :: "call list \<Rightarrow> string set" where
  "deletedNames cs = {ma_Name m | m. DeleteMachine m \<in> set cs}"

text \<open>What creating a machine needs.\<close>

definition can_create :: "env \<Rightarrow> lib \<Rightarrow> ssaLib \<Rightarrow> ControlPlane \<Rightarrow> bool" where
  "can_create E L X cp \<longleftrightarrow>
     (\<forall>h c. \<exists>r. e_ref E h c = Inr r) \<and> (\<forall>h c. \<exists>v. e_applied E h c = Inr v) \<and>
     (\<exists>s. marshalServerConfig L (kc_ServerConfig (ps_KThreesConfigSpec (kp_Spec (cp_KCP cp)))) = Inr s) \<and>
     (\<forall>m. \<exists>v. convMachine X m = Inr v) \<and> (\<exists>g. gvkMachine X = Inr g)"

lemma clone_run:
  assumes "no_errors E" "can_create E L X cp"
  shows "\<exists>cp' a b m. cloneConfigsAndGenerateMachine E L X cp spec fd h = (Some (cp', None), h @ [a, b, ApplyMachine m]) \<and>
     a \<in> nonmachine \<and> b \<in> nonmachine \<and> ma_Name m = e_name E h (om_Name (kp_Meta (cp_KCP cp)) @ ''-'')"
proof -
  obtain s g where sg: "marshalServerConfig L (kc_ServerConfig (ps_KThreesConfigSpec (kp_Spec (cp_KCP cp)))) = Inr s"
    "gvkMachine X = Inr g" using assms(2) by (auto simp: can_create_def)
  have conv: "\<exists>v. prepareModified (convMachine X) m = Inr v" for m
  proof -
    obtain v where "convMachine X m = Inr v" using assms(2) unfolding can_create_def by blast
    then show ?thesis by (simp add: prepareModified_def)
  qed
  have create: "\<exists>kcp'. createMachine E X kcp m h = (Some (kcp', None), h @ [ApplyMachine m])" for kcp m h
  proof -
    obtain v where v: "prepareModified (convMachine X) m = Inr v" using conv by blast
    obtain rv where rv: "e_applied E h (ApplyMachine m) = Inr rv" using assms(2) unfolding can_create_def by blast
    show ?thesis
      using assms(1) by (simp add: createMachine_def PatchMachineObject_def Patch_def sendApply_def go_runs v rv sg no_errors_def)
  qed
  have finish: "\<exists>cp' b m'. finishMachine E X cp spec m ref h = (Some (cp', None), h @ [b, ApplyMachine m']) \<and> b \<in> nonmachine \<and>
      ma_Name m' = ma_Name m" for m ref h
  proof -
    have gen: "\<exists>b r. generateKThreesConfig E (cp_KCP cp) (cp_Cluster cp) spec h = (Some (Inr r), h @ [b]) \<and> b \<in> nonmachine"
      using assms(1) by (simp add: generateKThreesConfig_def go_runs no_errors_def Let_def)
    then obtain b r where b: "generateKThreesConfig E (cp_KCP cp) (cp_Cluster cp) spec h = (Some (Inr r), h @ [b])" "b \<in> nonmachine"
      by blast
    obtain kcp' where "createMachine E X (cp_KCP cp) (m\<lparr>ma_ConfigRef := Some r\<rparr>) (h @ [b]) =
        (Some (kcp', None), (h @ [b]) @ [ApplyMachine (m\<lparr>ma_ConfigRef := Some r\<rparr>)])" using create by blast
    with b show ?thesis by (simp add: finishMachine_def go_runs ma_Name_def)
  qed
  obtain d where d: "computeDesiredMachine E L (cp_KCP cp) (cp_Cluster cp) fd None h = (Some (Inr d), h)"
    "ma_Name d = e_name E h (om_Name (kp_Meta (cp_KCP cp)) @ ''-'')"
    by (simp add: computeDesiredMachine_def machineIdentity_def go_runs sg Let_def ma_Name_def)
  let ?c = "CloneTemplate (mt_InfrastructureRef (ps_MachineTemplate (kp_Spec (cp_KCP cp)))) (om_Namespace (kp_Meta (cp_KCP cp)))
      (AsOwnerReference (cp_KCP cp)) (cl_Name (cp_Cluster cp))
      (ControlPlaneLabelsForCluster (cl_Name (cp_Cluster cp)) (ps_MachineTemplate (kp_Spec (cp_KCP cp))))"
  obtain ref where ref: "e_ref E h ?c = Inr ref" using assms(2) unfolding can_create_def by blast
  obtain cp' b m where "finishMachine E X cp spec (d\<lparr>ma_InfrastructureRef := Some ref\<rparr>) ref (h @ [?c]) =
      (Some (cp', None), (h @ [?c]) @ [b, ApplyMachine m])" "b \<in> nonmachine" "ma_Name m = ma_Name (d\<lparr>ma_InfrastructureRef := Some ref\<rparr>)"
    using finish by blast
  with d ref show ?thesis
    by (intro exI[of _ cp'] exI[of _ ?c] exI[of _ b] exI[of _ m])
      (simp add: cloneConfigsAndGenerateMachine_def Let_def go_runs ma_Name_def)
qed

subsection \<open>Choosing and deleting a machine\<close>

text \<open>Membership in failure domains is by name, and \<^verbatim>\<open>PickMost\<close> picks a domain of an
  eligible machine when all of them are in the given domains.\<close>

definition domain_laws :: "lib \<Rightarrow> bool" where
  "domain_laws L \<longleftrightarrow>
     (\<forall>fds m. InFailureDomains L fds m \<longleftrightarrow> ma_FailureDomain m \<in> set fds) \<and>
     (\<forall>fds ms0 ms. ms \<noteq> [] \<and> (\<forall>m\<in>set ms. ma_FailureDomain m \<in> fd_Name ` set fds) \<longrightarrow>
        PickMost L fds ms0 ms \<in> ma_FailureDomain ` set ms)"

text \<open>Control plane machines, in failure domains for control planes or in none that is known.\<close>

definition well_placed :: "lib \<Rightarrow> ControlPlane \<Rightarrow> bool" where
  "well_placed L cp \<longleftrightarrow> (\<forall>m\<in>set (cp_Machines cp). IsControlPlaneMachine L m \<and>
     (ma_FailureDomain m \<in> set (FailureDomainNames cp) \<longrightarrow> ma_FailureDomain m \<in> fd_Name ` set (ControlPlaneFailureDomains cp)))"

lemma pick_succeeds:
  assumes "oldest_laws L" "domain_laws L" "well_placed L cp" "set ms \<subseteq> set (cp_Machines cp)" "ms \<noteq> []"
  shows "\<exists>m. MachineInFailureDomainWithMostMachines L cp ms = Some (Inr m)"
proof -
  have ex: "\<exists>fd\<in>ma_FailureDomain ` set ms. FailureDomainWithMostMachines L cp ms = Some fd"
  proof (cases "MFilter [\<lambda>m. \<not> InFailureDomains L (FailureDomainNames cp) m, IsControlPlaneMachine L] ms = []")
    case True
    then have "set (MFilter [\<lambda>m. \<not> InFailureDomains L (FailureDomainNames cp) m, IsControlPlaneMachine L] ms) = {}" by simp
    then have "\<forall>m\<in>set ms. ma_FailureDomain m \<in> fd_Name ` set (ControlPlaneFailureDomains cp)"
      using assms(2,3,4) by (auto simp: well_placed_def domain_laws_def)
    with True assms(2,5) show ?thesis by (auto simp: FailureDomainWithMostMachines_def domain_laws_def)
  next
    case False
    then obtain m where m: "Oldest L (MFilter [\<lambda>m. \<not> InFailureDomains L (FailureDomainNames cp) m, IsControlPlaneMachine L] ms) = Some m"
      using oldest_None[OF assms(1)] by fastforce
    with oldest_in[OF assms(1) m] False show ?thesis by (auto simp: FailureDomainWithMostMachines_def Let_def)
  qed
  then obtain x where x: "x \<in> set ms" "FailureDomainWithMostMachines L cp ms = Some (ma_FailureDomain x)" by blast
  then have "x \<in> set (MFilter [InFailureDomains L [ma_FailureDomain x]] ms)" using assms(2) by (simp add: domain_laws_def)
  then have "MFilter [InFailureDomains L [ma_FailureDomain x]] ms \<noteq> []" by fastforce
  then obtain m where "Oldest L (MFilter [InFailureDomains L [ma_FailureDomain x]] ms) = Some m"
    using oldest_None[OF assms(1)] by fastforce
  with x(2) show ?thesis by (simp add: MachineInFailureDomainWithMostMachines_def)
qed

lemma select_succeeds:
  assumes "oldest_laws L" "domain_laws L" "well_placed L cp" "set outdated \<subseteq> set (cp_Machines cp)" "cp_Machines cp \<noteq> []"
  shows "\<exists>m. selectMachineForScaleDown L cp outdated = Some (Inr m)"
proof -
  have "set (MachineWithDeleteAnnotation L ms) \<subseteq> set ms" for ms by (auto simp: MachineWithDeleteAnnotation_def)
  with assms(4,5) show ?thesis
    unfolding selectMachineForScaleDown_def Let_def
    by (intro pick_succeeds[OF assms(1-3)]) (auto split: if_splits)
qed

text \<open>\<open>well_placed\<close> is needed: the code asks whether a machine is in any domain of the cluster,
  but picks from the domains for control planes. If all candidates are in a domain that is not
  one for control planes (any more), the choice fails, in every pass.\<close>

lemma other_domains_stuck:
  assumes "oldest_laws L" "domain_laws L"
    and "PickMost L (ControlPlaneFailureDomains cp) (cp_Machines cp) ms \<in> insert [] (fd_Name ` set (ControlPlaneFailureDomains cp))"
    and "\<forall>m\<in>set ms. ma_FailureDomain m \<in> set (FailureDomainNames cp) - insert [] (fd_Name ` set (ControlPlaneFailureDomains cp))"
  shows "MachineInFailureDomainWithMostMachines L cp ms = Some (Inl ErrFailedToPickForDeletion)"
proof -
  have "set (MFilter [\<lambda>m. \<not> InFailureDomains L (FailureDomainNames cp) m, IsControlPlaneMachine L] ms) = {}"
    using assms(2,4) by (auto simp: domain_laws_def)
  then have fd: "FailureDomainWithMostMachines L cp ms = Some (PickMost L (ControlPlaneFailureDomains cp) (cp_Machines cp) ms)"
    by (simp add: FailureDomainWithMostMachines_def del: set_MFilter)
  have "set (MFilter [InFailureDomains L [PickMost L (ControlPlaneFailureDomains cp) (cp_Machines cp) ms]] ms) = {}"
    using assms(2-4) by (auto simp: domain_laws_def)
  then have "Oldest L (MFilter [InFailureDomains L [PickMost L (ControlPlaneFailureDomains cp) (cp_Machines cp) ms]] ms) = None"
    using oldest_None[OF assms(1)] by (simp del: set_MFilter)
  with fd show ?thesis by (simp add: MachineInFailureDomainWithMostMachines_def)
qed

text \<open>What deleting a machine needs: its annotations exist, and with managed etcd, the cluster is
  reachable and every machine has its node in it.\<close>

definition can_delete :: "env \<Rightarrow> ControlPlane \<Rightarrow> bool" where
  "can_delete E cp \<longleftrightarrow>
     (\<forall>m\<in>set (cp_Machines cp). ma_Annotations m \<noteq> None) \<and>
     (IsEtcdManaged cp \<longrightarrow> credentials E \<and>
        (\<exists>N. etcd_serves E N \<and> (\<forall>m\<in>set (cp_Machines cp). \<exists>n\<in>N. ma_NodeRef m = Some n)))"

lemma prepareDeletion_succeeds:
  assumes "no_errors E" "can_delete E cp" "newest_laws L" "m \<in> set (cp_Machines cp)"
  shows "succeeds (prepareDeletion E L (cp, m)) (\<lambda>(s, e). e = None)"
proof (cases "IsEtcdManaged cp")
  case False
  then show ?thesis by (simp add: prepareDeletion_def succeeds_ret)
next
  case True
  obtain candidate where c: "Newest L (cp_Machines cp) = Some candidate"
    using assms(4) newest_None[OF assms(3)] by fastforce
  from True assms(2) obtain N where N: "credentials E" "etcd_serves E N" "\<forall>m\<in>set (cp_Machines cp). \<exists>n\<in>N. ma_NodeRef m = Some n"
    unfolding can_delete_def by blast
  then obtain n where n: "n \<in> N" "ma_NodeRef candidate = Some n" using newest_in[OF assms(3) c] by blast
  have "ma_Annotations m \<noteq> None" using assms(2,4) by (simp add: can_delete_def)
  then obtain f where f: "mput (ma_Annotations m) PreTerminateDeleteHookAnnotationPrefix k3sHookName = Some (Some f)"
    by (auto simp: mput_def)
  have hook: "succeeds (addPreTerminateHook E (cp, m)) (\<lambda>(s, e). e = None)"
    unfolding addPreTerminateHook_def Let_def snd_conv fst_conv f deref_simps bnd_ret
    by (rule succeeds_bnd[where R = "\<lambda>e. e = None"])
      (use assms(1) in \<open>auto simp: no_errors_def intro!: succeeds_helper succeeds_api succeeds_ret
         succeeds_bnd[where m = "do_write E c" and R = "\<lambda>e. e = None" for c]\<close>)
  show ?thesis
    unfolding prepareDeletion_def fst_conv snd_conv c using True
    by (auto intro!: succeeds_bnd[OF GetWorkloadCluster_succeeds[OF assms(1) N(1)]]
        succeeds_bnd[OF ForwardEtcdLeadership_succeeds[OF assms(1) N(2) n(2,1)]] hook)
qed

section \<open>What a pass asks for\<close>

text \<open>The active machines, those of them that are outdated, and those that rollout and scaling
  down prefer: outdated or marked for deletion.\<close>

definition active :: "lib \<Rightarrow> ControlPlane \<Rightarrow> Machine list" where
  "active L cp = filter (\<lambda>m. \<not> HasDeletionTimestamp L m) (cp_Machines cp)"

definition activeNames :: "lib \<Rightarrow> ControlPlane \<Rightarrow> string set" where
  "activeNames L cp = ma_Name ` set (active L cp)"

definition outdatedNames :: "lib \<Rightarrow> ControlPlane \<Rightarrow> string set" where
  "outdatedNames L cp = ma_Name ` set (MachinesNeedingRollout L cp)"

definition leavingNames :: "lib \<Rightarrow> ControlPlane \<Rightarrow> string set" where
  "leavingNames L cp = outdatedNames L cp \<union> ma_Name ` {m \<in> set (active L cp). HasAnnotationKey L DeleteMachineAnnotation m}"

lemma outdated_active: "set (MachinesNeedingRollout L cp) \<subseteq> set (active L cp)"
  by (auto simp: active_def MachinesNeedingRollout_set)

lemma names_finite: "finite (activeNames L cp)" "leavingNames L cp \<subseteq> activeNames L cp" "outdatedNames L cp \<subseteq> leavingNames L cp"
  using outdated_active[of L cp] by (auto simp: activeNames_def leavingNames_def outdatedNames_def)

lemma none_outdated: "outdatedNames L cp = {} \<longleftrightarrow> MachinesNeedingRollout L cp = []"
  by (simp add: outdatedNames_def)

text \<open>A pass asks for nothing, for one machine more or for one machine less.\<close>

definition asks_nothing :: "call list \<Rightarrow> bool" where
  "asks_nothing cs \<longleftrightarrow> createdNames cs = {} \<and> deletedNames cs = {}"

definition asks_creation :: "call list \<Rightarrow> bool" where
  "asks_creation cs \<longleftrightarrow> (\<exists>a. createdNames cs = {a}) \<and> deletedNames cs = {}"

definition asks_deletion :: "string set \<Rightarrow> call list \<Rightarrow> bool" where
  "asks_deletion X cs \<longleftrightarrow> createdNames cs = {} \<and> (\<exists>x\<in>X. deletedNames cs = {x})"

lemma no_creations: "(\<forall>c\<in>set cs. \<not> is_apply_machine c) \<Longrightarrow> createdNames cs = {}"
  and no_deletions: "(\<forall>c\<in>set cs. \<not> is_delete_machine c) \<Longrightarrow> deletedNames cs = {}"
  by (fastforce simp: createdNames_def deletedNames_def)+

lemma at_most_one:
  assumes "length (filter p cs) \<le> 1" "\<And>x. p (K x)" "inj K"
  shows "{f x | x. K x \<in> set cs} = {} \<or> (\<exists>y. {f x | x. K x \<in> set cs} = {f y} \<and> K y \<in> set cs)"
proof (cases "\<exists>y. K y \<in> set cs")
  case True
  then obtain y where y: "K y \<in> set cs" by blast
  have "f x = f y" if "K x \<in> set cs" for x
  proof (cases "K x = K y")
    case False
    then have "card {K x, K y} = 2" by simp
    moreover have "{K x, K y} \<subseteq> set (filter p cs)" using that y assms(2) by simp
    ultimately have "2 \<le> card (set (filter p cs))" by (metis List.finite_set card_mono)
    also have "\<dots> \<le> 1" using card_length[of "filter p cs"] assms(1) by linarith
    finally show ?thesis by simp
  qed (use injD[OF assms(3)] in auto)
  with y show ?thesis by blast
qed auto

lemma apply_delete_inj: "inj ApplyMachine" "inj DeleteMachine"
  by (auto intro: injI)

text \<open>Scaling up and initializing ask for nothing or for a creation, whatever is answered.\<close>

lemma creating_asks:
  assumes "emits {c. \<not> is_delete_machine c} m" "bounded is_apply_machine (Suc 0) m" "m h = (r, h @ cs)"
  shows "asks_nothing cs \<or> asks_creation cs"
proof -
  have "deletedNames cs = {}"
    using emitsE[OF assms(1,3)] by (intro no_deletions) auto
  moreover have "length (filter is_apply_machine cs) \<le> 1" using boundedE[OF assms(2,3)] by auto
  then have "createdNames cs = {} \<or> (\<exists>a. createdNames cs = {a})"
    unfolding createdNames_def using at_most_one[of is_apply_machine cs ApplyMachine ma_Name] apply_delete_inj by auto
  ultimately show ?thesis by (auto simp: asks_nothing_def asks_creation_def)
qed

text \<open>Scaling down asks for nothing or for the deletion of an active machine: of one of those
  preferred, when there are any. This needs the guards of theory \<open>Scale\<close>.\<close>

lemma preflight_active: "preflightPassed L cp ex \<Longrightarrow> active L cp = cp_Machines cp"
  by (auto simp: preflightPassed_def active_def)

definition preferredNames :: "lib \<Rightarrow> ControlPlane \<Rightarrow> string set" where
  "preferredNames L cp = (if leavingNames L cp = {} then activeNames L cp else leavingNames L cp)"

lemma candidate_preferred:
  assumes "scaleDownCandidates L cp outdated m" "preflightPassed L cp [m]"
    and "outdated = MachinesNeedingRollout L cp'" "cp_Machines cp' = cp_Machines cp"
  shows "ma_Name m \<in> preferredNames L cp'"
proof -
  have act: "active L cp' = cp_Machines cp"
    using preflight_active[OF assms(2)] assms(4) by (simp add: active_def)
  have sub: "set outdated \<subseteq> set (cp_Machines cp)" using outdated_active[of L cp'] act assms(3) by simp
  show ?thesis
    using assms(1,3) sub act
    by (auto simp: scaleDownCandidates_def preferredNames_def leavingNames_def activeNames_def outdatedNames_def Let_def
        split: if_splits)
qed

lemma scaleDown_no_apply: "emits {c. \<not> is_apply_machine c} (scaleDownControlPlane E L cp outdated)"
proof -
  have del: "emits {c. \<not> is_apply_machine c} (deleteForScaleDown E s)" for s
    by (rule emits_mono[OF deleteForScaleDown_emits]) auto
  have prep: "emits {c. \<not> is_apply_machine c} (prepareDeletion E L s)" for s
    by (rule emits_mono[OF prepareDeletion_nonmachine]) auto
  show ?thesis
    unfolding scaleDownControlPlane_def prepareAndDelete_def
    by (intro go_intros prep del) simp_all
qed

lemma deleting_asks:
  assumes "oldest_laws L" "scaleDownControlPlane E L cp outdated h = (r, h @ cs)"
    and "outdated = MachinesNeedingRollout L cp'" "cp_Machines cp' = cp_Machines cp"
  shows "asks_nothing cs \<or> asks_deletion (preferredNames L cp') cs"
proof -
  have none: "createdNames cs = {}"
    using emitsE[OF scaleDown_no_apply assms(2)] by (intro no_creations) auto
  have "length (filter is_delete_machine cs) \<le> 1" using boundedE[OF scaleDownControlPlane_bounded assms(2)] by auto
  then consider "deletedNames cs = {}" | x where "deletedNames cs = {ma_Name x}" "DeleteMachine x \<in> set cs"
    unfolding deletedNames_def using at_most_one[of is_delete_machine cs DeleteMachine ma_Name] apply_delete_inj by auto
  then show ?thesis
  proof cases
    case 1
    with none show ?thesis by (simp add: asks_nothing_def)
  next
    case 2
    then obtain xs ys where "cs = xs @ DeleteMachine x # ys" by (auto dest: split_list)
    with assms(2) have run: "scaleDownControlPlane E L cp outdated h = (r, (h @ xs) @ DeleteMachine x # ys)" by simp
    have "guardedDeletions (length h) L cp outdated ((h @ xs) @ DeleteMachine x # ys)"
      using keepsD[OF scaleDownControlPlane_guarded justified_start run] .
    from justifiedD[OF this] have "scaleDownGuards L cp outdated x (h @ xs)" by simp
    then obtain m where m: "selectMachineForScaleDown L cp outdated = Some (Inr m)" "ma_Name x = ma_Name m" "preflightPassed L cp [m]"
      unfolding scaleDownGuards_def by blast
    from candidate_preferred[OF selectMachineForScaleDown_candidate[OF assms(1) m(1)] m(3) assms(3,4)] m(2) 2(1) none
    show ?thesis by (auto simp: asks_deletion_def)
  qed
qed

text \<open>Marking conditions of the control plane changes nothing the pass looks at.\<close>

definition same_view :: "ControlPlane \<Rightarrow> ControlPlane \<Rightarrow> bool" where
  "same_view cp cp' \<longleftrightarrow> cp_Machines cp' = cp_Machines cp \<and> cp_Cluster cp' = cp_Cluster cp \<and>
     cp_hasEtcdCA cp' = cp_hasEtcdCA cp \<and> kp_Spec (cp_KCP cp') = kp_Spec (cp_KCP cp) \<and>
     kp_Meta (cp_KCP cp') = kp_Meta (cp_KCP cp)"

lemma marks_view: "same_view cp (markRollout L cp ms)" "same_view cp (markUpToDate L cp)"
    "same_view cp (markWaitingForServer L (markUpToDate L cp))"
  by (auto simp: same_view_def markRollout_def markUpToDate_def markWaitingForServer_def updKCP_def kp_MarkFalse_def kp_MarkTrue_def)

lemma view_cong:
  assumes "same_view cp cp'"
  shows "IsEtcdManaged cp' = IsEtcdManaged cp" "preflightPassed L cp' ex = preflightPassed L cp ex"
    "can_create E L X cp' = can_create E L X cp" "can_delete E cp' = can_delete E cp" "well_placed L cp' = well_placed L cp"
proof -
  show e: "IsEtcdManaged cp' = IsEtcdManaged cp" using assms by (simp add: IsEtcdManaged_def same_view_def)
  then show "preflightPassed L cp' ex = preflightPassed L cp ex" "can_delete E cp' = can_delete E cp"
    using assms by (simp_all add: preflightPassed_def allMachineHealthConditions_def can_delete_def same_view_def)
  show "can_create E L X cp' = can_create E L X cp" "well_placed L cp' = well_placed L cp"
    using assms by (simp_all add: can_create_def well_placed_def FailureDomainNames_def ControlPlaneFailureDomains_def same_view_def)
qed

lemma waiting_asks:
  assumes "\<not> preflightPassed L cp []" "scaleUpControlPlane E L X cp h = (r, h @ cs)"
  shows "asks_nothing cs"
proof -
  have "scaleUpControlPlane E L X cp h =
      (Some (cp, if HasDeletingMachine L cp then RequeueAfter deleteRequeueAfter else RequeueAfter preflightFailedRequeueAfter, None),
       h @ (if HasDeletingMachine L cp then [] else [Event ''ControlPlaneUnhealthy'']))"
    using assms(1) by (simp add: scaleUpControlPlane_def bnd_run preflightChecks_run ret_def)
  with assms(2) have "cs = [] \<or> cs = [Event ''ControlPlaneUnhealthy'']" by (auto split: if_splits)
  then show ?thesis by (auto simp: asks_nothing_def createdNames_def deletedNames_def)
qed

text \<open>The parts of a pass.\<close>

lemma pass_cases:
  assumes "rolloutOrScale E C cp h = (r, h')" "ps_Replicas (kp_Spec (cp_KCP cp)) = Some n"
  obtains (up) cp' where "same_view cp cp'" "scaleUpControlPlane E (k_lib C) (k_ssa C) cp' h = (r, h')"
      "int (length (cp_Machines cp)) \<le> sint n" "MachinesNeedingRollout (k_lib C) cp = [] \<Longrightarrow> int (length (cp_Machines cp)) < sint n"
      "cp_Machines cp \<noteq> []"
  | (init) cp' where "same_view cp cp'" "initializeControlPlane E (k_lib C) (k_ssa C) cp' h = (r, h')" "cp_Machines cp = []" "0 < sint n"
  | (down) cp' where "same_view cp cp'" "scaleDownControlPlane E (k_lib C) cp' (MachinesNeedingRollout (k_lib C) cp) h = (r, h')"
      "sint n < int (length (cp_Machines cp))"
  | (still) "h' = h" "MachinesNeedingRollout (k_lib C) cp = []" "int (length (cp_Machines cp)) = sint n"
proof (cases "MachinesNeedingRollout (k_lib C) cp = []")
  case True
  from assms True show thesis
    using marks_view(2,3)[of cp "k_lib C"] up init down still
    by (auto simp: rolloutOrScale_def scaleControlPlane_def go_runs Let_def split: if_splits)
next
  case False
  then have "cp_Machines cp \<noteq> []" using no_machine_outdated by blast
  with assms False show thesis
    using marks_view(1)[of cp "k_lib C"] up down
    by (auto simp: rolloutOrScale_def upgradeControlPlane_def go_runs Let_def split: if_splits)
qed

text \<open>Every pass, in every environment.\<close>

lemma pass_asks:
  assumes "oldest_laws (k_lib C)" "ps_Replicas (kp_Spec (cp_KCP cp)) = Some n" "rolloutOrScale E C cp h = (r, h @ cs)"
  shows "asks_nothing cs \<or> active (k_lib C) cp = cp_Machines cp \<and>
    (asks_creation cs \<and> int (length (cp_Machines cp)) \<le> sint n \<and>
       (MachinesNeedingRollout (k_lib C) cp = [] \<longrightarrow> int (length (cp_Machines cp)) < sint n) \<or>
     asks_deletion (preferredNames (k_lib C) cp) cs \<and> sint n < int (length (cp_Machines cp)))"
  using assms(3,2)
proof (cases rule: pass_cases)
  case (up cp')
  have "asks_nothing cs \<or> asks_creation cs" using scaleUp_no_delete scaleUpControlPlane_bounded up(2) by (rule creating_asks)
  moreover have "active (k_lib C) cp = cp_Machines cp" if "\<not> asks_nothing cs"
    using that waiting_asks[OF _ up(2)] preflight_active[of "k_lib C" cp' "[]"] up(1) by (auto simp: same_view_def active_def)
  ultimately show ?thesis using up(3,4) by blast
next
  case (init cp')
  have "asks_nothing cs \<or> asks_creation cs" using initialize_no_delete initializeControlPlane_bounded init(2) by (rule creating_asks)
  with init(3,4) show ?thesis by (simp add: active_def)
next
  case (down cp')
  have m: "cp_Machines cp = cp_Machines cp'" using down(1) by (simp add: same_view_def)
  have "asks_nothing cs \<or> asks_deletion (preferredNames (k_lib C) cp) cs"
    using deleting_asks[OF assms(1) down(2) refl m] .
  moreover have "active (k_lib C) cp = cp_Machines cp" if "asks_deletion (preferredNames (k_lib C) cp) cs"
  proof -
    from that have "deletedNames cs \<noteq> {}" by (auto simp: asks_deletion_def)
    then obtain x where "DeleteMachine x \<in> set cs" by (auto simp: deletedNames_def)
    then obtain xs ys where "cs = xs @ DeleteMachine x # ys" by (auto dest: split_list)
    with down(2) have run: "scaleDownControlPlane E (k_lib C) cp' (MachinesNeedingRollout (k_lib C) cp) h =
        (r, (h @ xs) @ DeleteMachine x # ys)" by simp
    have "guardedDeletions (length h) (k_lib C) cp' (MachinesNeedingRollout (k_lib C) cp) ((h @ xs) @ DeleteMachine x # ys)"
      using keepsD[OF scaleDownControlPlane_guarded justified_start run] .
    from justifiedD[OF this] obtain y where "preflightPassed (k_lib C) cp' [y]"
      by (auto simp: scaleDownGuards_def is_delete_machine_def)
    then show ?thesis using preflight_active m by (simp add: active_def)
  qed
  ultimately show ?thesis using down(3) by blast
next
  case still
  then show ?thesis by (simp add: asks_nothing_def createdNames_def deletedNames_def)
qed

subsection \<open>Friendly passes\<close>

text \<open>A friendly environment of a control plane: all machines are active, healthy and well
  placed, no call fails, generated names are new, and without machines the API server lists none.\<close>

definition friendly :: "env \<Rightarrow> kcpEnv \<Rightarrow> ControlPlane \<Rightarrow> bool" where
  "friendly E C cp \<longleftrightarrow>
     preflightPassed (k_lib C) cp [] \<and> well_placed (k_lib C) cp \<and>
     no_errors E \<and> can_create E (k_lib C) (k_ssa C) cp \<and> can_delete E cp \<and>
     (\<forall>h b. e_name E h b \<notin> ma_Name ` set (cp_Machines cp)) \<and>
     (cp_Machines cp = [] \<longrightarrow> (\<forall>h c. e_machines E h c = Inr []))"

lemma creation_asks:
  assumes "createdNames cs = {}" "deletedNames cs = {}" "a \<in> nonmachine" "b \<in> nonmachine"
  shows "createdNames (cs @ [a, b, ApplyMachine m]) = {ma_Name m} \<and> deletedNames (cs @ [a, b, ApplyMachine m]) = {}"
  using assms by (auto simp: createdNames_def deletedNames_def)

lemma scaleUp_friendly:
  assumes "preflightPassed L cp []" "no_errors E" "can_create E L X cp"
    and "scaleUpControlPlane E L X cp h = (r, h @ cs)"
  shows "\<exists>g. createdNames cs = {e_name E g (om_Name (kp_Meta (cp_KCP cp)) @ ''-'')} \<and> deletedNames cs = {}"
proof -
  obtain cp' a b m where run: "cloneConfigsAndGenerateMachine E L X cp (JoinControlPlaneConfig cp) (NextFailureDomainForScaleUp L cp) h =
      (Some (cp', None), h @ [a, b, ApplyMachine m])" "a \<in> nonmachine" "b \<in> nonmachine"
      "ma_Name m = e_name E h (om_Name (kp_Meta (cp_KCP cp)) @ ''-'')"
    using clone_run[OF assms(2,3)] by blast
  with assms(1,4) have "cs = [] @ [a, b, ApplyMachine m]"
    by (simp add: scaleUpControlPlane_def bnd_run preflightChecks_run go_runs)
  with creation_asks[of "[]" a b m] run(2-4) show ?thesis by (auto simp: createdNames_def deletedNames_def)
qed

lemma initialize_friendly:
  assumes "no_errors E" "can_create E L X cp" "\<forall>h c. e_machines E h c = Inr []"
    and "initializeControlPlane E L X cp h = (r, h @ cs)"
  shows "\<exists>g. createdNames cs = {e_name E g (om_Name (kp_Meta (cp_KCP cp)) @ ''-'')} \<and> deletedNames cs = {}"
proof -
  let ?c = "ListMachines (fst (cl_Key (cp_Cluster cp))) (snd (cl_Key (cp_Cluster cp)))"
  obtain cp' a b m where run: "cloneConfigsAndGenerateMachine E L X cp (InitialControlPlaneConfig cp) (NextFailureDomainForScaleUp L cp) (h @ [?c]) =
      (Some (cp', None), (h @ [?c]) @ [a, b, ApplyMachine m])" "a \<in> nonmachine" "b \<in> nonmachine"
      "ma_Name m = e_name E (h @ [?c]) (om_Name (kp_Meta (cp_KCP cp)) @ ''-'')"
    using clone_run[OF assms(1,2)] by blast
  with assms(3,4) have cs: "cs = [?c] @ [a, b, ApplyMachine m]"
    by (simp add: initializeControlPlane_def GetMachinesForCluster_def MFilter_def go_runs)
  have "createdNames [?c] = {}" "deletedNames [?c] = {}" by (simp_all add: createdNames_def deletedNames_def)
  from creation_asks[OF this run(2,3), of m] cs run(4) show ?thesis by auto
qed

lemma scaleDown_friendly:
  assumes "oldest_laws L" "newest_laws L" "domain_laws L" "well_placed L cp" "no_errors E" "can_delete E cp"
    and "preflightPassed L cp []" "set outdated \<subseteq> set (cp_Machines cp)" "cp_Machines cp \<noteq> []"
    and "scaleDownControlPlane E L cp outdated h = (r, h @ cs)"
  shows "deletedNames cs \<noteq> {}"
proof -
  obtain m where sel: "selectMachineForScaleDown L cp outdated = Some (Inr m)"
    using select_succeeds[OF assms(1,3,4,8,9)] by blast
  have mem: "m \<in> set (cp_Machines cp)"
    using selectMachineForScaleDown_candidate[OF assms(1) sel] assms(8) by (auto simp: scaleDownCandidates_def Let_def split: if_splits)
  obtain x h1 where x: "prepareDeletion E L (cp, m) h = (Some x, h1)" "case x of (s, e) \<Rightarrow> e = None"
    using prepareDeletion_succeeds[OF assms(5,6,2) mem] by (rule succeedsE)
  then obtain s where prep: "prepareDeletion E L (cp, m) h = (Some (s, None), h1)" by (cases x) auto
  have pre: "preflightPassed L cp [m]" using assms(7) by (auto simp: preflightPassed_def)
  have del: "snd (scaleDownControlPlane E L cp outdated h) = h1 @ [DeleteMachine (snd s)]"
    using assms(5) by (simp add: scaleDownControlPlane_def sel preflightChecks_run pre prepareAndDelete_def bnd_run prep
        deleteForScaleDown_def no_errors_def go_runs)
  obtain ds where "h1 = h @ ds" using emitsE[OF prepareDeletion_nonmachine prep] .
  with del assms(10) have "cs = ds @ [DeleteMachine (snd s)]" by simp
  then show ?thesis by (auto simp: deletedNames_def)
qed

text \<open>A friendly pass asks for a change until the goal is reached, under a new name.\<close>

lemma pass_friendly:
  assumes laws: "oldest_laws (k_lib C)" "newest_laws (k_lib C)" "domain_laws (k_lib C)"
    and n: "ps_Replicas (kp_Spec (cp_KCP cp)) = Some n" "0 \<le> sint n"
    and run: "rolloutOrScale E C cp h = (r, h @ cs)" and f: "friendly E C cp"
    and goal: "\<not> (MachinesNeedingRollout (k_lib C) cp = [] \<and> int (length (cp_Machines cp)) = sint n)"
  shows "\<not> asks_nothing cs \<and> createdNames cs \<inter> ma_Name ` set (cp_Machines cp) = {}"
  using run n(1)
proof (cases rule: pass_cases)
  case (up cp')
  obtain g where g: "createdNames cs = {e_name E g (om_Name (kp_Meta (cp_KCP cp')) @ ''-'')}"
    using scaleUp_friendly[of "k_lib C" cp' E "k_ssa C" h r cs] view_cong[OF up(1)] up(2) f unfolding friendly_def by blast
  have "e_name E g (om_Name (kp_Meta (cp_KCP cp')) @ ''-'') \<notin> ma_Name ` set (cp_Machines cp)" using f unfolding friendly_def by blast
  with g show ?thesis by (simp add: asks_nothing_def)
next
  case (init cp')
  with f show ?thesis
    using initialize_friendly[of E "k_lib C" "k_ssa C" cp' h r cs] view_cong[OF init(1)]
    by (auto simp: friendly_def asks_nothing_def)
next
  case (down cp')
  have m: "cp_Machines cp' = cp_Machines cp" using down(1) by (simp add: same_view_def)
  have "set (MachinesNeedingRollout (k_lib C) cp) \<subseteq> set (cp_Machines cp')" using MachinesNeedingRollout_set m by auto
  moreover have "cp_Machines cp' \<noteq> []" using down(3) n(2) m by auto
  ultimately have "deletedNames cs \<noteq> {}"
    using scaleDown_friendly[OF laws, of cp' E "MachinesNeedingRollout (k_lib C) cp" h r cs] f down(2) view_cong[OF down(1)]
    by (simp add: friendly_def)
  moreover have "createdNames cs = {}"
    using emitsE[OF scaleDown_no_apply down(2)] by (intro no_creations) auto
  ultimately show ?thesis by (simp add: asks_nothing_def)
next
  case still
  with goal show ?thesis by simp
qed

section \<open>Convergence\<close>

text \<open>The distance to the goal, \<open>d\<close> machines of which none is outdated: what is still to be
  replaced counts three times, and a rollout goes through one machine more than desired.\<close>

definition rankOf :: "int \<Rightarrow> 'a set \<Rightarrow> 'a set \<Rightarrow> 'a set \<Rightarrow> int" where
  "rankOf d S K Q = 3 * int (card K) + \<bar>int (card S) - (if Q = {} then d else d + 1)\<bar>"

lemma rank_create:
  assumes "finite S" "K \<subseteq> S" "Q \<subseteq> K" "int (card S) \<le> d" "Q = {} \<Longrightarrow> int (card S) < d"
  shows "rankOf d (insert a S) (K \<inter> insert a S) (Q \<inter> insert a S) \<le> rankOf d S K Q"
    "a \<notin> S \<Longrightarrow> rankOf d (insert a S) (K \<inter> insert a S) (Q \<inter> insert a S) < rankOf d S K Q"
proof -
  have eq: "K \<inter> insert a S = K" "Q \<inter> insert a S = Q" using assms(2,3) by auto
  show less: "rankOf d (insert a S) (K \<inter> insert a S) (Q \<inter> insert a S) < rankOf d S K Q" if "a \<notin> S"
    using that assms(1,4,5) unfolding eq rankOf_def by (cases "Q = {}") simp_all
  show "rankOf d (insert a S) (K \<inter> insert a S) (Q \<inter> insert a S) \<le> rankOf d S K Q"
  proof (cases "a \<in> S")
    case True
    then have "insert a S = S" by blast
    then show ?thesis unfolding eq by simp
  qed (use less in simp)
qed

lemma rank_delete:
  assumes "finite S" "K \<subseteq> S" "Q \<subseteq> K" "x \<in> (if K = {} then S else K)" "d < int (card S)"
  shows "rankOf d (S - {x}) (K \<inter> (S - {x})) (Q \<inter> (S - {x})) < rankOf d S K Q"
proof -
  have fin: "finite K" using assms(1,2) finite_subset by blast
  have x: "x \<in> S" using assms(2,4) by (auto split: if_splits)
  have eq: "K \<inter> (S - {x}) = K - {x}" using assms(2) by blast
  have S: "int (card (S - {x})) = int (card S) - 1"
  proof -
    have "card S = Suc (card (S - {x}))" using card.remove[OF assms(1) x] .
    then show ?thesis by simp
  qed
  show ?thesis
  proof (cases "K = {}")
    case True
    then have "Q = {}" using assms(3) by blast
    with True S assms(5) show ?thesis by (simp add: rankOf_def)
  next
    case False
    then have "card K = Suc (card (K - {x}))" using card.remove[OF fin] assms(4) by simp
    then have "int (card K) = int (card (K - {x})) + 1" by simp
    with S assms(5) show ?thesis unfolding eq rankOf_def by (auto split: if_splits)
  qed
qed

definition rank :: "lib \<Rightarrow> int \<Rightarrow> ControlPlane \<Rightarrow> int" where
  "rank L d cp = rankOf d (activeNames L cp) (leavingNames L cp) (outdatedNames L cp)"

lemma rank_nonneg: "0 \<le> rank L d cp"
  by (simp add: rank_def rankOf_def)

text \<open>The calls of a pass, and what may happen until the next one: requests may be lost, nothing
  else adds or removes an active machine, and no machine becomes or ceases to be outdated or
  marked. A machine whose deletion was requested is active no more once it has its deletion
  timestamp, however long it takes to vanish.\<close>

definition passCalls :: "env \<Rightarrow> kcpEnv \<Rightarrow> ControlPlane \<Rightarrow> call list \<Rightarrow> call list" where
  "passCalls E C cp h = drop (length h) (snd (rolloutOrScale E C cp h))"

definition evolves :: "lib \<Rightarrow> ControlPlane \<Rightarrow> call list \<Rightarrow> ControlPlane \<Rightarrow> bool" where
  "evolves L cp cs cp' \<longleftrightarrow>
     (\<exists>A D. A \<subseteq> createdNames cs \<and> D \<subseteq> deletedNames cs \<and> activeNames L cp' = (activeNames L cp - D) \<union> A) \<and>
     outdatedNames L cp' = outdatedNames L cp \<inter> activeNames L cp' \<and>
     leavingNames L cp' = leavingNames L cp \<inter> activeNames L cp'"

text \<open>Nothing the pass asked for was lost.\<close>

definition granted :: "lib \<Rightarrow> ControlPlane \<Rightarrow> call list \<Rightarrow> ControlPlane \<Rightarrow> bool" where
  "granted L cp cs cp' \<longleftrightarrow> activeNames L cp' = (activeNames L cp - deletedNames cs) \<union> createdNames cs"

definition reached :: "lib \<Rightarrow> int \<Rightarrow> ControlPlane \<Rightarrow> bool" where
  "reached L d cp \<longleftrightarrow> MachinesNeedingRollout L cp = [] \<and> int (length (active L cp)) = d"

lemma passCalls_run: obtains r where "rolloutOrScale E C cp h = (r, h @ passCalls E C cp h)"
proof -
  obtain r h' where run: "rolloutOrScale E C cp h = (r, h')" by fastforce
  obtain cs where "h' = h @ cs" using boundedE[OF rolloutOrScale_one run] .
  with run that show ?thesis by (simp add: passCalls_def)
qed

lemma card_active: "distinct (map ma_Name (cp_Machines cp)) \<Longrightarrow> card (activeNames L cp) = length (active L cp)"
proof -
  assume "distinct (map ma_Name (cp_Machines cp))"
  then have "distinct (map ma_Name (active L cp))" by (simp add: active_def distinct_map_filter)
  then show ?thesis unfolding activeNames_def by (metis distinct_card length_map set_map)
qed

lemma asks_nothing_evolves:
  assumes "asks_nothing cs" "evolves L cp cs cp'"
  shows "activeNames L cp' = activeNames L cp" "outdatedNames L cp' = outdatedNames L cp" "leavingNames L cp' = leavingNames L cp"
proof -
  show a: "activeNames L cp' = activeNames L cp" using assms by (auto simp: asks_nothing_def evolves_def)
  show "outdatedNames L cp' = outdatedNames L cp" "leavingNames L cp' = leavingNames L cp"
    using assms(2) a names_finite(2,3)[of L cp] by (auto simp: evolves_def)
qed

text \<open>No pass moves away from the goal, whatever the environment answers.\<close>

lemma pass_rank:
  assumes "oldest_laws (k_lib C)" "ps_Replicas (kp_Spec (cp_KCP cp)) = Some n" "distinct (map ma_Name (cp_Machines cp))"
    and ev: "evolves (k_lib C) cp (passCalls E C cp h) cp'"
  shows "rank (k_lib C) (sint n) cp' \<le> rank (k_lib C) (sint n) cp"
    "granted (k_lib C) cp (passCalls E C cp h) cp' \<Longrightarrow> \<not> asks_nothing (passCalls E C cp h) \<Longrightarrow>
     createdNames (passCalls E C cp h) \<inter> activeNames (k_lib C) cp = {} \<Longrightarrow> rank (k_lib C) (sint n) cp' < rank (k_lib C) (sint n) cp"
proof -
  let ?L = "k_lib C" and ?cs = "passCalls E C cp h"
  let ?S = "activeNames ?L cp" and ?K = "leavingNames ?L cp" and ?Q = "outdatedNames ?L cp"
  note sub = names_finite[of ?L cp]
  obtain r where run: "rolloutOrScale E C cp h = (r, h @ ?cs)" by (rule passCalls_run)
  from ev obtain A D where AD: "A \<subseteq> createdNames ?cs" "D \<subseteq> deletedNames ?cs" "activeNames ?L cp' = (?S - D) \<union> A"
    and rest: "outdatedNames ?L cp' = ?Q \<inter> activeNames ?L cp'" "leavingNames ?L cp' = ?K \<inter> activeNames ?L cp'"
    unfolding evolves_def by blast
  have same: "rank ?L (sint n) cp' = rank ?L (sint n) cp" if "activeNames ?L cp' = ?S"
  proof -
    have "outdatedNames ?L cp' = ?Q" "leavingNames ?L cp' = ?K" using that rest sub(2,3) by auto
    with that show ?thesis by (simp add: rank_def)
  qed
  have card: "card ?S = length (active ?L cp)" using card_active[OF assms(3)] .
  consider (idle) "asks_nothing ?cs"
    | (create) a where "createdNames ?cs = {a}" "deletedNames ?cs = {}" "int (card ?S) \<le> sint n" "?Q = {} \<Longrightarrow> int (card ?S) < sint n"
    | (delete) x where "createdNames ?cs = {}" "deletedNames ?cs = {x}" "x \<in> preferredNames ?L cp" "sint n < int (card ?S)"
    using pass_asks[OF assms(1,2) run] card none_outdated[of ?L cp]
    by (auto simp: asks_creation_def asks_deletion_def)
  then have "rank ?L (sint n) cp' \<le> rank ?L (sint n) cp \<and>
      (granted ?L cp ?cs cp' \<longrightarrow> \<not> asks_nothing ?cs \<longrightarrow> createdNames ?cs \<inter> ?S = {} \<longrightarrow> rank ?L (sint n) cp' < rank ?L (sint n) cp)"
  proof cases
    case idle
    with asks_nothing_evolves[OF idle ev] show ?thesis by (simp add: rank_def)
  next
    case (create a)
    then have "activeNames ?L cp' = ?S \<or> activeNames ?L cp' = insert a ?S" "granted ?L cp ?cs cp' \<Longrightarrow> activeNames ?L cp' = insert a ?S"
      using AD by (auto simp: granted_def)
    then show ?thesis
      using same rank_create[OF sub(1,2,3) create(3,4), of a] rest create(1) by (auto simp: rank_def)
  next
    case (delete x)
    then have "activeNames ?L cp' = ?S \<or> activeNames ?L cp' = ?S - {x}" "granted ?L cp ?cs cp' \<Longrightarrow> activeNames ?L cp' = ?S - {x}"
      using AD by (auto simp: granted_def)
    moreover have "rankOf (sint n) (?S - {x}) (?K \<inter> (?S - {x})) (?Q \<inter> (?S - {x})) < rankOf (sint n) ?S ?K ?Q"
      using rank_delete[OF sub(1,2,3) _ delete(4), of x] delete(3) by (simp add: preferredNames_def)
    ultimately show ?thesis using same rest by (auto simp: rank_def)
  qed
  then show "rank ?L (sint n) cp' \<le> rank ?L (sint n) cp"
    "granted ?L cp ?cs cp' \<Longrightarrow> \<not> asks_nothing ?cs \<Longrightarrow> createdNames ?cs \<inter> ?S = {} \<Longrightarrow> rank ?L (sint n) cp' < rank ?L (sint n) cp"
    by blast+
qed

text \<open>The goal is kept.\<close>

lemma pass_keeps_goal:
  assumes "oldest_laws (k_lib C)" "ps_Replicas (kp_Spec (cp_KCP cp)) = Some n"
    and "distinct (map ma_Name (cp_Machines cp))" "distinct (map ma_Name (cp_Machines cp'))"
    and ev: "evolves (k_lib C) cp (passCalls E C cp h) cp'" and goal: "reached (k_lib C) (sint n) cp"
  shows "reached (k_lib C) (sint n) cp'"
proof -
  obtain r where run: "rolloutOrScale E C cp h = (r, h @ passCalls E C cp h)" by (rule passCalls_run)
  have "asks_nothing (passCalls E C cp h)"
    using pass_asks[OF assms(1,2) run] goal by (auto simp: reached_def)
  note same = asks_nothing_evolves[OF this ev]
  have "MachinesNeedingRollout (k_lib C) cp' = []"
    using same(2) goal none_outdated[of "k_lib C" cp] none_outdated[of "k_lib C" cp'] by (simp add: reached_def)
  moreover have "length (active (k_lib C) cp') = length (active (k_lib C) cp)"
    using same(1) card_active[OF assms(3)] card_active[OF assms(4)] by metis
  ultimately show ?thesis using goal by (simp add: reached_def)
qed

text \<open>A rank that never rises and falls again and again until a goal is reached, reaches it.\<close>

lemma rank_reaches:
  fixes f :: "nat \<Rightarrow> int"
  assumes "\<And>i. 0 \<le> f i" "\<And>i. f (Suc i) \<le> f i" "\<And>i. \<exists>j\<ge>i. G j \<or> f (Suc j) < f j"
  shows "\<exists>j\<ge>i. G j"
proof (induction "nat (f i)" arbitrary: i rule: less_induct)
  case less
  obtain j where j: "i \<le> j" "G j \<or> f (Suc j) < f j" using assms(3) by blast
  show ?case
  proof (cases "G j")
    case False
    have "f j \<le> f i" using j(1) assms(2) by (induction rule: dec_induct) (auto intro: order_trans)
    with False j(2) assms(1)[of "Suc j"] have "nat (f (Suc j)) < nat (f i)" by simp
    from less[OF this] j(1) show ?thesis by (meson Suc_leD order_trans)
  qed (use j in blast)
qed

text \<open>C5 Rollout and scaling converge. Take any sequence of passes, each on the control plane the
  previous one left behind, in which requests may fail and get lost but nobody else changes the
  set of active machines. If again and again a pass finds a healthy control plane and a friendly
  environment that grants its request, then from some pass on the control plane has exactly
  the desired number of active machines, and none of them is outdated.\<close>

theorem scaling_converges:
  assumes laws: "oldest_laws (k_lib C)" "newest_laws (k_lib C)" "domain_laws (k_lib C)"
    and desired: "\<forall>i. ps_Replicas (kp_Spec (cp_KCP (cp i))) = Some n" "0 \<le> sint n"
    and names: "\<forall>i. distinct (map ma_Name (cp_Machines (cp i)))"
    and evolution: "\<forall>i. evolves (k_lib C) (cp i) (passCalls (E i) C (cp i) (h i)) (cp (Suc i))"
    and fairness: "\<forall>i. \<exists>j\<ge>i. friendly (E j) C (cp j) \<and>
      granted (k_lib C) (cp j) (passCalls (E j) C (cp j) (h j)) (cp (Suc j))"
  shows "\<exists>i. \<forall>j\<ge>i. MachinesNeedingRollout (k_lib C) (cp j) = [] \<and> int (length (active (k_lib C) (cp j))) = sint n"
proof -
  let ?f = "\<lambda>i. rank (k_lib C) (sint n) (cp i)" and ?G = "\<lambda>i. reached (k_lib C) (sint n) (cp i)"
  have falls: "?G j \<or> ?f (Suc j) < ?f j" if f: "friendly (E j) C (cp j)"
    and g: "granted (k_lib C) (cp j) (passCalls (E j) C (cp j) (h j)) (cp (Suc j))" for j
  proof (cases "?G j")
    case False
    obtain r where run: "rolloutOrScale (E j) C (cp j) (h j) = (r, h j @ passCalls (E j) C (cp j) (h j))" by (rule passCalls_run)
    have act: "active (k_lib C) (cp j) = cp_Machines (cp j)" using f preflight_active unfolding friendly_def by blast
    have "\<not> asks_nothing (passCalls (E j) C (cp j) (h j)) \<and>
        createdNames (passCalls (E j) C (cp j) (h j)) \<inter> ma_Name ` set (cp_Machines (cp j)) = {}"
      using pass_friendly[OF laws _ desired(2) run f] desired(1) False act by (simp add: reached_def)
    then show ?thesis
      using pass_rank(2)[OF laws(1) _ _ _ g] desired(1) names evolution act by (simp add: activeNames_def)
  qed simp
  have "\<exists>j\<ge>0. ?G j"
  proof (rule rank_reaches[where f = ?f])
    show "?f (Suc i) \<le> ?f i" for i using pass_rank(1)[OF laws(1)] desired(1) names evolution by blast
    show "\<exists>j\<ge>i. ?G j \<or> ?f (Suc j) < ?f j" for i using fairness falls by blast
  qed (rule rank_nonneg)
  then obtain i where i: "?G i" by blast
  have "?G j" if "i \<le> j" for j
    using that i
  proof (induction rule: dec_induct)
    case (step j)
    then show ?case using pass_keeps_goal[OF laws(1)] desired(1) names evolution by blast
  qed simp
  then show ?thesis unfolding reached_def by blast
qed

text \<open>An instance: two healthy machines of three desired; a third one is created and joins.\<close>

definition healthy0 :: "string \<Rightarrow> string \<Rightarrow> Machine" where
  "healthy0 n node = machine0 n (Some node)
     [mkCond MachineAgentHealthyCondition CTrue [] [], mkCond MachineEtcdMemberHealthyCondition CTrue [] []]"

definition seq0 :: "nat \<Rightarrow> ControlPlane" where
  "seq0 i = cp0 ([healthy0 ''m1'' ''n1'', healthy0 ''m2'' ''n2''] @ (if i = 0 then [] else [healthy0 ''kcp-x7k2p'' ''n3'']))"

definition env0 :: "nat \<Rightarrow> env" where
  "env0 i = (if i = 0 then E0 else E0\<lparr>e_name := (\<lambda>_ base. base @ ''zzzzz''),
     e_nodes := (\<lambda>_ _. Inr [node0 ''n1'', node0 ''n2'', node0 ''n3'']),
     e_pods := (\<lambda>_ _. Inr [(''n1'', ''p1''), (''n2'', ''p2''), (''n3'', ''p3'')])\<rparr>)"

lemma L0_domain: "domain_laws L0"
  unfolding domain_laws_def by (auto simp: L0_def split: list.split)

lemma healthy0_simps [simp]:
  "ma_Name (healthy0 n x) = n" "HasDeletionTimestamp L0 (healthy0 n x) = False"
  "ma_NodeRef (healthy0 n x) = Some x" "ma_Annotations (healthy0 n x) = Some Map.empty" "ma_FailureDomain (healthy0 n x) = []"
  "ma_Version (healthy0 n x) = ''v1.30.0''" "HasAnnotationKey L0 k (healthy0 n x) = False"
  by (simp_all add: healthy0_def machine0_def ma_Name_def meta0_def emptyMeta_def L0_def ma_deleting_def deleting_def ma_Annotations_def)

lemma seq0_fields [simp]:
  "cp_KCP (seq0 i) = kcp0" "cp_Cluster (seq0 i) = cluster0" "cp_KthreesConfigs (seq0 i) = Map.empty" "cp_InfraResources (seq0 i) = Map.empty"
  by (simp_all add: seq0_def cp0_def)

lemma seq0_machines: "cp_Machines (seq0 0) = [healthy0 ''m1'' ''n1'', healthy0 ''m2'' ''n2'']"
  "cp_Machines (seq0 (Suc i)) = [healthy0 ''m1'' ''n1'', healthy0 ''m2'' ''n2'', healthy0 ''kcp-x7k2p'' ''n3'']"
  by (simp_all add: seq0_def cp0_def)

lemma seq0_member: "m \<in> set (cp_Machines (seq0 i)) \<Longrightarrow> \<exists>n x. m = healthy0 n x"
  by (auto simp: seq0_def cp0_def split: if_splits)

lemma seq0_uptodate: "MachinesNeedingRollout L0 (seq0 i) = []"
proof -
  have "m \<notin> set (MachinesNeedingRollout L0 (seq0 i))" for m
    using seq0_member[of m i]
    by (auto simp: MachinesNeedingRollout_set MatchesKCPConfiguration_def MatchesKubernetesVersion_def
        MatchesKThreesBootstrapConfig_def MatchesTemplateClonedFrom_def kcp0_def L0_def healthy0_def machine0_def)
  then show ?thesis by (cases "MachinesNeedingRollout L0 (seq0 i)") auto
qed

lemma seq0_active: "active L0 (seq0 i) = cp_Machines (seq0 i)"
  using seq0_member[of _ i] by (fastforce simp: active_def intro!: filter_True)

lemma seq0_leaving: "leavingNames L0 (seq0 i) = {}" "outdatedNames L0 (seq0 i) = {}"
  using seq0_member[of _ i] by (fastforce simp: leavingNames_def outdatedNames_def seq0_uptodate seq0_active)+

lemma seq0_preflight: "preflightPassed L0 (seq0 i) []"
proof -
  have "\<exists>x. ma_GetCond L0 (healthy0 n y) c = Some x \<and> c_Status x = CTrue" if "c \<in> set (allMachineHealthConditions cp)" for n y c cp
    using that by (auto simp: allMachineHealthConditions_def healthy0_def machine0_def ma_GetCond_def L0_def find0_def mkCond_def split: if_splits)
  then show ?thesis unfolding preflightPassed_def using seq0_member[of _ i] by (metis healthy0_simps(2))
qed

lemma env0_up: "no_errors (env0 i)" "can_create (env0 i) L0 X0 (seq0 i)" "credentials (env0 i)"
  by (auto simp: no_errors_def can_create_def credentials_def env0_def E0_def X0_def L0_def)

lemma nodes0: "nodeOf (member0 1 ''n1-a'') = ''n1''" "nodeOf (member0 2 ''n2-b'') = ''n2''" "nodeOf (member0 3 ''n3-c'') = ''n3''"
  by (simp_all add: nodeOf_def NodeNameFromMember_def pbMemberToMember_def member0_def)

lemma name0: "n_Name (node0 n) = n"
  by (simp add: n_Name_def node0_def meta0_def emptyMeta_def)

lemma id0: "pm_ID (member0 k n) = k"
  by (simp add: member0_def)

lemma labelled0: "{n. (n = node0 ''n1'' \<or> n = node0 ''n2'' \<or> n = node0 ''n3'') \<and> hasControlPlaneRoleLabel (om_Labels (n_Meta n))} =
    {node0 ''n1'', node0 ''n2'', node0 ''n3''}"
  by (auto simp: node0_def hasControlPlaneRoleLabel_def)

lemma env0_serves: "0 < i \<Longrightarrow> etcd_serves (env0 i) {''n1'', ''n2'', ''n3''}"
  unfolding etcd_serves_def
  by (intro exI[of _ 1])
    (simp add: env0_def E0_def labelled0 name0 nodes0 id0)

lemma C0_libs: "k_lib C0 = L0" "k_ssa C0 = X0"
  by (simp_all add: C0_def)

lemma seq0_replicas: "ps_Replicas (kp_Spec (cp_KCP (seq0 i))) = Some 3"
  by (simp add: kcp0_def)

lemma seq0_friendly: "friendly (env0 (Suc i)) C0 (seq0 (Suc i))"
proof -
  have "can_delete (env0 (Suc i)) (seq0 (Suc i))"
    unfolding can_delete_def using env0_serves[of "Suc i"] env0_up(3) seq0_machines(2) by fastforce
  moreover have "well_placed L0 (seq0 (Suc i))"
    by (simp add: well_placed_def FailureDomainNames_def cluster0_def L0_def)
  moreover have "e_name (env0 (Suc i)) h b \<notin> ma_Name ` set (cp_Machines (seq0 (Suc i)))" for h b
  proof -
    have "last (e_name (env0 (Suc i)) h b) = CHR ''z''" by (simp add: env0_def)
    then show ?thesis by (auto simp: seq0_machines)
  qed
  ultimately show ?thesis
    using seq0_preflight env0_up by (simp add: friendly_def C0_libs seq0_machines)
qed

lemma seq0_created: "createdNames (passCalls (env0 0) C0 (seq0 0) []) = {''kcp-x7k2p''}" "deletedNames (passCalls (env0 0) C0 (seq0 0) []) = {}"
proof -
  let ?cs = "passCalls (env0 0) C0 (seq0 0) []"
  obtain r where run: "rolloutOrScale (env0 0) C0 (seq0 0) [] = (r, [] @ ?cs)" by (rule passCalls_run)
  from run seq0_replicas have "createdNames ?cs = {''kcp-x7k2p''} \<and> deletedNames ?cs = {}"
  proof (cases rule: pass_cases)
    case (up cp')
    from up(2) have up2: "scaleUpControlPlane (env0 0) L0 X0 cp' [] = (r, [] @ ?cs)" by (simp add: C0_libs)
    have "preflightPassed L0 cp' []" "can_create (env0 0) L0 X0 cp'"
      using view_cong[OF up(1)] seq0_preflight env0_up(2) by simp_all
    from scaleUp_friendly[OF this(1) env0_up(1) this(2) up2] up(1) show ?thesis
      by (simp add: same_view_def env0_def E0_def kcp0_def meta0_def)
  qed (simp_all add: seq0_machines seq0_uptodate C0_libs)
  then show "createdNames ?cs = {''kcp-x7k2p''}" "deletedNames ?cs = {}" by simp_all
qed

lemma seq0_still: "passCalls (env0 (Suc i)) C0 (seq0 (Suc i)) [] = []"
proof -
  let ?cs = "passCalls (env0 (Suc i)) C0 (seq0 (Suc i)) []"
  obtain r where run: "rolloutOrScale (env0 (Suc i)) C0 (seq0 (Suc i)) [] = (r, [] @ ?cs)" by (rule passCalls_run)
  from run seq0_replicas show ?thesis
    by (cases rule: pass_cases) (simp_all add: seq0_machines seq0_uptodate C0_libs)
qed

lemma seq0_evolves: "evolves L0 (seq0 i) (passCalls (env0 i) C0 (seq0 i) []) (seq0 (Suc i))"
proof (cases i)
  case 0
  have "activeNames L0 (seq0 (Suc 0)) = activeNames L0 (seq0 0) - {} \<union> {''kcp-x7k2p''}"
    by (auto simp: activeNames_def seq0_active seq0_machines)
  then show ?thesis unfolding 0 evolves_def seq0_leaving seq0_created by blast
next
  case (Suc k)
  have "activeNames L0 (seq0 (Suc (Suc k))) = activeNames L0 (seq0 (Suc k)) - {} \<union> {}"
    by (simp add: activeNames_def seq0_active seq0_machines)
  then show ?thesis unfolding Suc evolves_def seq0_leaving seq0_still by blast
qed

theorem scaling_converges_witness:
  "length (active L0 (seq0 0)) = 2 \<and> (\<exists>i. \<forall>j\<ge>i. int (length (active L0 (seq0 j))) = sint (3 :: int32))"
proof -
  have "distinct (map ma_Name (cp_Machines (seq0 i)))" for i by (cases i) (simp_all add: seq0_machines)
  moreover have "friendly (env0 (Suc i)) C0 (seq0 (Suc i)) \<and>
      granted (k_lib C0) (seq0 (Suc i)) (passCalls (env0 (Suc i)) C0 (seq0 (Suc i)) []) (seq0 (Suc (Suc i)))" for i
    using seq0_friendly[of i]
    by (simp add: granted_def seq0_still C0_libs activeNames_def seq0_active seq0_machines createdNames_def deletedNames_def)
  then have "\<forall>i. \<exists>j\<ge>i. friendly (env0 j) C0 (seq0 j) \<and> granted (k_lib C0) (seq0 j) (passCalls (env0 j) C0 (seq0 j) []) (seq0 (Suc j))"
    by (meson le_SucI order_refl)
  ultimately have "\<exists>i. \<forall>j\<ge>i. MachinesNeedingRollout (k_lib C0) (seq0 j) = [] \<and> int (length (active (k_lib C0) (seq0 j))) = sint (3 :: int32)"
    using scaling_converges[of C0 seq0 3 env0 "\<lambda>_. []"] L0_oldest L0_newest L0_domain seq0_replicas seq0_evolves
    by (simp add: C0_libs)
  moreover have "length (active L0 (seq0 0)) = 2" by (simp add: seq0_active seq0_machines)
  ultimately show ?thesis by (auto simp: C0_libs)
qed

end
