(* ===== verification/ConversionRegistry.thy ===== *)
theory ConversionRegistry
  imports Conversion
begin

text \<open>
  \<^verbatim>\<open>RegisterConversions\<close> of both v1beta1 packages: the functions the API machinery
  finds a conversion by, and the conversion functions that only they use. A registration
  names two types and gives a function of two values of type \<^verbatim>\<open>interface{}\<close> that asserts
  their dynamic types, and panics (\<open>None\<close>) when an assertion fails. The scheme is a
  parameter: what registering does to it, and whether it fails.
\<close>

section \<open>Registrations\<close>

text \<open>A dynamic type: its package and its name.\<close>

type_synonym gotype = "string \<times> string"

record 'v convReg =
  cr_generated :: bool
  cr_in :: gotype
  cr_out :: gotype
  cr_fn :: "'v \<Rightarrow> 'v \<Rightarrow> (goerr + 'v) option"

text \<open>The function literal of a registration: \<^verbatim>\<open>Convert(a.(*S), b.(*T), scope)\<close>.\<close>

definition asserting ::
  "('v \<Rightarrow> 'a option) \<Rightarrow> ('v \<Rightarrow> 'b option) \<Rightarrow> ('b \<Rightarrow> 'v) \<Rightarrow> ('a \<Rightarrow> 'b \<Rightarrow> goerr + 'b) \<Rightarrow> 'v \<Rightarrow> 'v \<Rightarrow> (goerr + 'v) option" where
  "asserting asIn asOut mk convert a b =
     (case asIn a of
        None \<Rightarrow> None
      | Some inp \<Rightarrow>
         (case asOut b of
            None \<Rightarrow> None
          | Some out \<Rightarrow> Some (case convert inp out of Inl err \<Rightarrow> Inl err | Inr res \<Rightarrow> Inr (mk res))))"

text \<open>One registration after the other, until one fails.\<close>

fun registerAll :: "('s \<Rightarrow> 'v convReg \<Rightarrow> 's \<times> goerr option) \<Rightarrow> 's \<Rightarrow> 'v convReg list \<Rightarrow> 's \<times> goerr option" where
  "registerAll add s [] = (s, None)"
| "registerAll add s (r # rs) =
     (case add s r of
        (s, Some err) \<Rightarrow> (s, Some err)
      | (s, None) \<Rightarrow> registerAll add s rs)"

text \<open>A registration is sound when its function accepts exactly the values of the types it is
  registered for, never fails on them, and fills in a value of the second type.\<close>

definition sound_reg :: "('v \<Rightarrow> gotype) \<Rightarrow> 'v convReg \<Rightarrow> bool" where
  "sound_reg dyn r \<longleftrightarrow>
     (\<forall>a b. (dyn a = cr_in r \<and> dyn b = cr_out r \<longrightarrow> (\<exists>v. cr_fn r a b = Some (Inr v) \<and> dyn v = cr_out r)) \<and>
            (\<not> (dyn a = cr_in r \<and> dyn b = cr_out r) \<longrightarrow> cr_fn r a b = None))"

definition never_fails :: "('a \<Rightarrow> 'b \<Rightarrow> goerr + 'b) \<Rightarrow> bool" where
  "never_fails f \<longleftrightarrow> (\<forall>x y. \<exists>z. f x y = Inr z)"

definition assertable :: "('v \<Rightarrow> gotype) \<Rightarrow> ('v \<Rightarrow> 'a option) \<Rightarrow> gotype \<Rightarrow> bool" where
  "assertable dyn asT t \<longleftrightarrow> (\<forall>v. (asT v \<noteq> None) = (dyn v = t))"

lemma asserting_sound:
  assumes "assertable dyn asIn t" "assertable dyn asOut u" "\<And>y. dyn (mk y) = u" "never_fails convert"
  shows "sound_reg dyn \<lparr>cr_generated = g, cr_in = t, cr_out = u, cr_fn = asserting asIn asOut mk convert\<rparr>"
proof -
  have dyn: "dyn a = t \<longleftrightarrow> (\<exists>x. asIn a = Some x)" "dyn b = u \<longleftrightarrow> (\<exists>y. asOut b = Some y)" "dyn (mk y) = u" for a b y
    using assms(1-3) unfolding assertable_def by (metis not_None_eq)+
  have run: "\<exists>z. asserting asIn asOut mk convert a b = Some (Inr (mk z))" if "asIn a = Some x" "asOut b = Some y" for a b x y
  proof -
    from assms(4) obtain z where "convert x y = Inr z" unfolding never_fails_def by blast
    with that show ?thesis by (auto simp: asserting_def)
  qed
  have stuck: "asserting asIn asOut mk convert a b = None" if "asIn a = None \<or> asOut b = None" for a b
    using that by (auto simp: asserting_def split: option.split)
  have "\<exists>v. asserting asIn asOut mk convert a b = Some (Inr v) \<and> dyn v = u" if "dyn a = t" "dyn b = u" for a b
    using run[of a _ b] dyn(3) that unfolding dyn(1,2) by blast
  moreover have "asserting asIn asOut mk convert a b = None" if "\<not> (dyn a = t \<and> dyn b = u)" for a b
    using that stuck[of a b] unfolding dyn(1,2) by auto
  ultimately show ?thesis unfolding sound_reg_def by simp
qed

section \<open>Conversion functions of the registry\<close>

subsection \<open>Lists\<close>

definition Convert_v1beta1_KThreesConfigList_To_v1beta2_KThreesConfigList ::
  "KThreesConfig_v1 ObjectList \<Rightarrow> KThreesConfig ObjectList \<Rightarrow> goerr + KThreesConfig ObjectList" where
  "Convert_v1beta1_KThreesConfigList_To_v1beta2_KThreesConfigList inp out =
     autoConvert_v1beta1_KThreesConfigList_To_v1beta2_KThreesConfigList inp out"

definition Convert_v1beta2_KThreesConfigList_To_v1beta1_KThreesConfigList ::
  "KThreesConfig ObjectList \<Rightarrow> KThreesConfig_v1 ObjectList \<Rightarrow> goerr + KThreesConfig_v1 ObjectList" where
  "Convert_v1beta2_KThreesConfigList_To_v1beta1_KThreesConfigList inp out =
     autoConvert_v1beta2_KThreesConfigList_To_v1beta1_KThreesConfigList inp out"

definition Convert_v1beta1_KThreesConfigTemplateList_To_v1beta2_KThreesConfigTemplateList ::
  "KThreesConfigTemplate_v1 ObjectList \<Rightarrow> KThreesConfigTemplate ObjectList \<Rightarrow> goerr + KThreesConfigTemplate ObjectList" where
  "Convert_v1beta1_KThreesConfigTemplateList_To_v1beta2_KThreesConfigTemplateList inp out =
     autoConvert_v1beta1_KThreesConfigTemplateList_To_v1beta2_KThreesConfigTemplateList inp out"

definition Convert_v1beta2_KThreesConfigTemplateList_To_v1beta1_KThreesConfigTemplateList ::
  "KThreesConfigTemplate ObjectList \<Rightarrow> KThreesConfigTemplate_v1 ObjectList \<Rightarrow> goerr + KThreesConfigTemplate_v1 ObjectList" where
  "Convert_v1beta2_KThreesConfigTemplateList_To_v1beta1_KThreesConfigTemplateList inp out =
     autoConvert_v1beta2_KThreesConfigTemplateList_To_v1beta1_KThreesConfigTemplateList inp out"

definition Convert_v1beta1_KThreesControlPlaneList_To_v1beta2_KThreesControlPlaneList ::
  "KThreesControlPlane_v1 ObjectList \<Rightarrow> KThreesControlPlane ObjectList \<Rightarrow> goerr + KThreesControlPlane ObjectList" where
  "Convert_v1beta1_KThreesControlPlaneList_To_v1beta2_KThreesControlPlaneList inp out =
     autoConvert_v1beta1_KThreesControlPlaneList_To_v1beta2_KThreesControlPlaneList inp out"

definition Convert_v1beta2_KThreesControlPlaneList_To_v1beta1_KThreesControlPlaneList ::
  "KThreesControlPlane ObjectList \<Rightarrow> KThreesControlPlane_v1 ObjectList \<Rightarrow> goerr + KThreesControlPlane_v1 ObjectList" where
  "Convert_v1beta2_KThreesControlPlaneList_To_v1beta1_KThreesControlPlaneList inp out =
     autoConvert_v1beta2_KThreesControlPlaneList_To_v1beta1_KThreesControlPlaneList inp out"

subsection \<open>The specification of a control plane, as generated\<close>

text \<open>\<^verbatim>\<open>conversion.go\<close> replaces these functions by its own, so nothing calls them.\<close>

definition autoConvert_v1beta1_KThreesControlPlaneSpec_To_v1beta2_KThreesControlPlaneSpec ::
  "KThreesControlPlaneSpec_v1 \<Rightarrow> KThreesControlPlaneSpec \<Rightarrow> goerr + KThreesControlPlaneSpec" where
  "autoConvert_v1beta1_KThreesControlPlaneSpec_To_v1beta2_KThreesControlPlaneSpec inp out =
     andThen (Convert_v1beta1_KThreesConfigSpec_To_v1beta2_KThreesConfigSpec (ps1_KThreesConfigSpec inp) (ps_KThreesConfigSpec out)) (\<lambda>kc.
     andThen (Convert_v1beta1_KThreesControlPlaneMachineTemplate_To_v1beta2_KThreesControlPlaneMachineTemplate
       (ps1_MachineTemplate inp) (ps_MachineTemplate out)) (\<lambda>mt.
     Inr (out\<lparr>ps_Replicas := ps1_Replicas inp, ps_Version := ps1_Version inp, ps_KThreesConfigSpec := kc,
        ps_MachineTemplate := mt, ps_RemediationStrategy := map_option castStrategyToV2 (ps1_RemediationStrategy inp)\<rparr>)))"

definition autoConvert_v1beta2_KThreesControlPlaneSpec_To_v1beta1_KThreesControlPlaneSpec ::
  "KThreesControlPlaneSpec \<Rightarrow> KThreesControlPlaneSpec_v1 \<Rightarrow> goerr + KThreesControlPlaneSpec_v1" where
  "autoConvert_v1beta2_KThreesControlPlaneSpec_To_v1beta1_KThreesControlPlaneSpec inp out =
     andThen (Convert_v1beta2_KThreesConfigSpec_To_v1beta1_KThreesConfigSpec (ps_KThreesConfigSpec inp) (ps1_KThreesConfigSpec out)) (\<lambda>kc.
     andThen (Convert_v1beta2_KThreesControlPlaneMachineTemplate_To_v1beta1_KThreesControlPlaneMachineTemplate
       (ps_MachineTemplate inp) (ps1_MachineTemplate out)) (\<lambda>mt.
     Inr (out\<lparr>ps1_Replicas := ps_Replicas inp, ps1_Version := ps_Version inp, ps1_KThreesConfigSpec := kc,
        ps1_MachineTemplate := mt, ps1_RemediationStrategy := map_option castStrategyToV1 (ps_RemediationStrategy inp)\<rparr>)))"

text \<open>The control plane package's names for the conversion of the configuration.\<close>

definition cp_Convert_v1beta1_KThreesConfigSpec_To_v1beta2_KThreesConfigSpec ::
  "KThreesConfigSpec_v1 \<Rightarrow> KThreesConfigSpec \<Rightarrow> goerr + KThreesConfigSpec" where
  "cp_Convert_v1beta1_KThreesConfigSpec_To_v1beta2_KThreesConfigSpec inp out =
     Convert_v1beta1_KThreesConfigSpec_To_v1beta2_KThreesConfigSpec inp out"

definition cp_Convert_v1beta2_KThreesConfigSpec_To_v1beta1_KThreesConfigSpec ::
  "KThreesConfigSpec \<Rightarrow> KThreesConfigSpec_v1 \<Rightarrow> goerr + KThreesConfigSpec_v1" where
  "cp_Convert_v1beta2_KThreesConfigSpec_To_v1beta1_KThreesConfigSpec inp out =
     Convert_v1beta2_KThreesConfigSpec_To_v1beta1_KThreesConfigSpec inp out"

section \<open>The bootstrap group\<close>

text \<open>The values of type \<^verbatim>\<open>interface{}\<close> the functions get, with their dynamic types and
  the type assertions.\<close>

datatype bootValue =
    BFile1 "File_v1"
  | BFile2 "File"
  | BFileSource1 "FileSource_v1"
  | BFileSource2 "FileSource"
  | BKThreesAgentConfig1 "KThreesAgentConfig_v1"
  | BKThreesAgentConfig2 "KThreesAgentConfig"
  | BKThreesConfig1 "KThreesConfig_v1"
  | BKThreesConfig2 "KThreesConfig"
  | BKThreesConfigList1 "KThreesConfig_v1 ObjectList"
  | BKThreesConfigList2 "KThreesConfig ObjectList"
  | BKThreesConfigSpec1 "KThreesConfigSpec_v1"
  | BKThreesConfigSpec2 "KThreesConfigSpec"
  | BKThreesConfigStatus1 "KThreesConfigStatus_v1"
  | BKThreesConfigStatus2 "KThreesConfigStatus"
  | BKThreesConfigTemplate1 "KThreesConfigTemplate_v1"
  | BKThreesConfigTemplate2 "KThreesConfigTemplate"
  | BKThreesConfigTemplateList1 "KThreesConfigTemplate_v1 ObjectList"
  | BKThreesConfigTemplateList2 "KThreesConfigTemplate ObjectList"
  | BKThreesConfigTemplateResource1 "KThreesConfigSpec_v1"
  | BKThreesConfigTemplateResource2 "KThreesConfigSpec"
  | BKThreesConfigTemplateSpec1 "KThreesConfigSpec_v1"
  | BKThreesConfigTemplateSpec2 "KThreesConfigSpec"
  | BSecretFileSource1 "SecretFileSource_v1"
  | BSecretFileSource2 "SecretFileSource"
  | BKThreesServerConfig1 "KThreesServerConfig_v1"
  | BKThreesServerConfig2 "KThreesServerConfig"

primrec bootType :: "bootValue \<Rightarrow> gotype" where
  "bootType (BFile1 x) = (''bootstrap/v1beta1'', ''File'')"
| "bootType (BFile2 x) = (''bootstrap/v1beta2'', ''File'')"
| "bootType (BFileSource1 x) = (''bootstrap/v1beta1'', ''FileSource'')"
| "bootType (BFileSource2 x) = (''bootstrap/v1beta2'', ''FileSource'')"
| "bootType (BKThreesAgentConfig1 x) = (''bootstrap/v1beta1'', ''KThreesAgentConfig'')"
| "bootType (BKThreesAgentConfig2 x) = (''bootstrap/v1beta2'', ''KThreesAgentConfig'')"
| "bootType (BKThreesConfig1 x) = (''bootstrap/v1beta1'', ''KThreesConfig'')"
| "bootType (BKThreesConfig2 x) = (''bootstrap/v1beta2'', ''KThreesConfig'')"
| "bootType (BKThreesConfigList1 x) = (''bootstrap/v1beta1'', ''KThreesConfigList'')"
| "bootType (BKThreesConfigList2 x) = (''bootstrap/v1beta2'', ''KThreesConfigList'')"
| "bootType (BKThreesConfigSpec1 x) = (''bootstrap/v1beta1'', ''KThreesConfigSpec'')"
| "bootType (BKThreesConfigSpec2 x) = (''bootstrap/v1beta2'', ''KThreesConfigSpec'')"
| "bootType (BKThreesConfigStatus1 x) = (''bootstrap/v1beta1'', ''KThreesConfigStatus'')"
| "bootType (BKThreesConfigStatus2 x) = (''bootstrap/v1beta2'', ''KThreesConfigStatus'')"
| "bootType (BKThreesConfigTemplate1 x) = (''bootstrap/v1beta1'', ''KThreesConfigTemplate'')"
| "bootType (BKThreesConfigTemplate2 x) = (''bootstrap/v1beta2'', ''KThreesConfigTemplate'')"
| "bootType (BKThreesConfigTemplateList1 x) = (''bootstrap/v1beta1'', ''KThreesConfigTemplateList'')"
| "bootType (BKThreesConfigTemplateList2 x) = (''bootstrap/v1beta2'', ''KThreesConfigTemplateList'')"
| "bootType (BKThreesConfigTemplateResource1 x) = (''bootstrap/v1beta1'', ''KThreesConfigTemplateResource'')"
| "bootType (BKThreesConfigTemplateResource2 x) = (''bootstrap/v1beta2'', ''KThreesConfigTemplateResource'')"
| "bootType (BKThreesConfigTemplateSpec1 x) = (''bootstrap/v1beta1'', ''KThreesConfigTemplateSpec'')"
| "bootType (BKThreesConfigTemplateSpec2 x) = (''bootstrap/v1beta2'', ''KThreesConfigTemplateSpec'')"
| "bootType (BSecretFileSource1 x) = (''bootstrap/v1beta1'', ''SecretFileSource'')"
| "bootType (BSecretFileSource2 x) = (''bootstrap/v1beta2'', ''SecretFileSource'')"
| "bootType (BKThreesServerConfig1 x) = (''bootstrap/v1beta1'', ''KThreesServerConfig'')"
| "bootType (BKThreesServerConfig2 x) = (''bootstrap/v1beta2'', ''KThreesServerConfig'')"

definition as_BFile1 :: "bootValue \<Rightarrow> (File_v1) option" where
  "as_BFile1 v = (case v of BFile1 x \<Rightarrow> Some x | _ \<Rightarrow> None)"
definition as_BFile2 :: "bootValue \<Rightarrow> (File) option" where
  "as_BFile2 v = (case v of BFile2 x \<Rightarrow> Some x | _ \<Rightarrow> None)"
definition as_BFileSource1 :: "bootValue \<Rightarrow> (FileSource_v1) option" where
  "as_BFileSource1 v = (case v of BFileSource1 x \<Rightarrow> Some x | _ \<Rightarrow> None)"
definition as_BFileSource2 :: "bootValue \<Rightarrow> (FileSource) option" where
  "as_BFileSource2 v = (case v of BFileSource2 x \<Rightarrow> Some x | _ \<Rightarrow> None)"
definition as_BKThreesAgentConfig1 :: "bootValue \<Rightarrow> (KThreesAgentConfig_v1) option" where
  "as_BKThreesAgentConfig1 v = (case v of BKThreesAgentConfig1 x \<Rightarrow> Some x | _ \<Rightarrow> None)"
definition as_BKThreesAgentConfig2 :: "bootValue \<Rightarrow> (KThreesAgentConfig) option" where
  "as_BKThreesAgentConfig2 v = (case v of BKThreesAgentConfig2 x \<Rightarrow> Some x | _ \<Rightarrow> None)"
definition as_BKThreesConfig1 :: "bootValue \<Rightarrow> (KThreesConfig_v1) option" where
  "as_BKThreesConfig1 v = (case v of BKThreesConfig1 x \<Rightarrow> Some x | _ \<Rightarrow> None)"
definition as_BKThreesConfig2 :: "bootValue \<Rightarrow> (KThreesConfig) option" where
  "as_BKThreesConfig2 v = (case v of BKThreesConfig2 x \<Rightarrow> Some x | _ \<Rightarrow> None)"
definition as_BKThreesConfigList1 :: "bootValue \<Rightarrow> (KThreesConfig_v1 ObjectList) option" where
  "as_BKThreesConfigList1 v = (case v of BKThreesConfigList1 x \<Rightarrow> Some x | _ \<Rightarrow> None)"
definition as_BKThreesConfigList2 :: "bootValue \<Rightarrow> (KThreesConfig ObjectList) option" where
  "as_BKThreesConfigList2 v = (case v of BKThreesConfigList2 x \<Rightarrow> Some x | _ \<Rightarrow> None)"
definition as_BKThreesConfigSpec1 :: "bootValue \<Rightarrow> (KThreesConfigSpec_v1) option" where
  "as_BKThreesConfigSpec1 v = (case v of BKThreesConfigSpec1 x \<Rightarrow> Some x | _ \<Rightarrow> None)"
definition as_BKThreesConfigSpec2 :: "bootValue \<Rightarrow> (KThreesConfigSpec) option" where
  "as_BKThreesConfigSpec2 v = (case v of BKThreesConfigSpec2 x \<Rightarrow> Some x | _ \<Rightarrow> None)"
definition as_BKThreesConfigStatus1 :: "bootValue \<Rightarrow> (KThreesConfigStatus_v1) option" where
  "as_BKThreesConfigStatus1 v = (case v of BKThreesConfigStatus1 x \<Rightarrow> Some x | _ \<Rightarrow> None)"
definition as_BKThreesConfigStatus2 :: "bootValue \<Rightarrow> (KThreesConfigStatus) option" where
  "as_BKThreesConfigStatus2 v = (case v of BKThreesConfigStatus2 x \<Rightarrow> Some x | _ \<Rightarrow> None)"
definition as_BKThreesConfigTemplate1 :: "bootValue \<Rightarrow> (KThreesConfigTemplate_v1) option" where
  "as_BKThreesConfigTemplate1 v = (case v of BKThreesConfigTemplate1 x \<Rightarrow> Some x | _ \<Rightarrow> None)"
definition as_BKThreesConfigTemplate2 :: "bootValue \<Rightarrow> (KThreesConfigTemplate) option" where
  "as_BKThreesConfigTemplate2 v = (case v of BKThreesConfigTemplate2 x \<Rightarrow> Some x | _ \<Rightarrow> None)"
definition as_BKThreesConfigTemplateList1 :: "bootValue \<Rightarrow> (KThreesConfigTemplate_v1 ObjectList) option" where
  "as_BKThreesConfigTemplateList1 v = (case v of BKThreesConfigTemplateList1 x \<Rightarrow> Some x | _ \<Rightarrow> None)"
definition as_BKThreesConfigTemplateList2 :: "bootValue \<Rightarrow> (KThreesConfigTemplate ObjectList) option" where
  "as_BKThreesConfigTemplateList2 v = (case v of BKThreesConfigTemplateList2 x \<Rightarrow> Some x | _ \<Rightarrow> None)"
definition as_BKThreesConfigTemplateResource1 :: "bootValue \<Rightarrow> (KThreesConfigSpec_v1) option" where
  "as_BKThreesConfigTemplateResource1 v = (case v of BKThreesConfigTemplateResource1 x \<Rightarrow> Some x | _ \<Rightarrow> None)"
definition as_BKThreesConfigTemplateResource2 :: "bootValue \<Rightarrow> (KThreesConfigSpec) option" where
  "as_BKThreesConfigTemplateResource2 v = (case v of BKThreesConfigTemplateResource2 x \<Rightarrow> Some x | _ \<Rightarrow> None)"
definition as_BKThreesConfigTemplateSpec1 :: "bootValue \<Rightarrow> (KThreesConfigSpec_v1) option" where
  "as_BKThreesConfigTemplateSpec1 v = (case v of BKThreesConfigTemplateSpec1 x \<Rightarrow> Some x | _ \<Rightarrow> None)"
definition as_BKThreesConfigTemplateSpec2 :: "bootValue \<Rightarrow> (KThreesConfigSpec) option" where
  "as_BKThreesConfigTemplateSpec2 v = (case v of BKThreesConfigTemplateSpec2 x \<Rightarrow> Some x | _ \<Rightarrow> None)"
definition as_BSecretFileSource1 :: "bootValue \<Rightarrow> (SecretFileSource_v1) option" where
  "as_BSecretFileSource1 v = (case v of BSecretFileSource1 x \<Rightarrow> Some x | _ \<Rightarrow> None)"
definition as_BSecretFileSource2 :: "bootValue \<Rightarrow> (SecretFileSource) option" where
  "as_BSecretFileSource2 v = (case v of BSecretFileSource2 x \<Rightarrow> Some x | _ \<Rightarrow> None)"
definition as_BKThreesServerConfig1 :: "bootValue \<Rightarrow> (KThreesServerConfig_v1) option" where
  "as_BKThreesServerConfig1 v = (case v of BKThreesServerConfig1 x \<Rightarrow> Some x | _ \<Rightarrow> None)"
definition as_BKThreesServerConfig2 :: "bootValue \<Rightarrow> (KThreesServerConfig) option" where
  "as_BKThreesServerConfig2 v = (case v of BKThreesServerConfig2 x \<Rightarrow> Some x | _ \<Rightarrow> None)"

lemma as_bootValue:
  "assertable bootType as_BFile1 (''bootstrap/v1beta1'', ''File'')"
  "assertable bootType as_BFile2 (''bootstrap/v1beta2'', ''File'')"
  "assertable bootType as_BFileSource1 (''bootstrap/v1beta1'', ''FileSource'')"
  "assertable bootType as_BFileSource2 (''bootstrap/v1beta2'', ''FileSource'')"
  "assertable bootType as_BKThreesAgentConfig1 (''bootstrap/v1beta1'', ''KThreesAgentConfig'')"
  "assertable bootType as_BKThreesAgentConfig2 (''bootstrap/v1beta2'', ''KThreesAgentConfig'')"
  "assertable bootType as_BKThreesConfig1 (''bootstrap/v1beta1'', ''KThreesConfig'')"
  "assertable bootType as_BKThreesConfig2 (''bootstrap/v1beta2'', ''KThreesConfig'')"
  "assertable bootType as_BKThreesConfigList1 (''bootstrap/v1beta1'', ''KThreesConfigList'')"
  "assertable bootType as_BKThreesConfigList2 (''bootstrap/v1beta2'', ''KThreesConfigList'')"
  "assertable bootType as_BKThreesConfigSpec1 (''bootstrap/v1beta1'', ''KThreesConfigSpec'')"
  "assertable bootType as_BKThreesConfigSpec2 (''bootstrap/v1beta2'', ''KThreesConfigSpec'')"
  "assertable bootType as_BKThreesConfigStatus1 (''bootstrap/v1beta1'', ''KThreesConfigStatus'')"
  "assertable bootType as_BKThreesConfigStatus2 (''bootstrap/v1beta2'', ''KThreesConfigStatus'')"
  "assertable bootType as_BKThreesConfigTemplate1 (''bootstrap/v1beta1'', ''KThreesConfigTemplate'')"
  "assertable bootType as_BKThreesConfigTemplate2 (''bootstrap/v1beta2'', ''KThreesConfigTemplate'')"
  "assertable bootType as_BKThreesConfigTemplateList1 (''bootstrap/v1beta1'', ''KThreesConfigTemplateList'')"
  "assertable bootType as_BKThreesConfigTemplateList2 (''bootstrap/v1beta2'', ''KThreesConfigTemplateList'')"
  "assertable bootType as_BKThreesConfigTemplateResource1 (''bootstrap/v1beta1'', ''KThreesConfigTemplateResource'')"
  "assertable bootType as_BKThreesConfigTemplateResource2 (''bootstrap/v1beta2'', ''KThreesConfigTemplateResource'')"
  "assertable bootType as_BKThreesConfigTemplateSpec1 (''bootstrap/v1beta1'', ''KThreesConfigTemplateSpec'')"
  "assertable bootType as_BKThreesConfigTemplateSpec2 (''bootstrap/v1beta2'', ''KThreesConfigTemplateSpec'')"
  "assertable bootType as_BSecretFileSource1 (''bootstrap/v1beta1'', ''SecretFileSource'')"
  "assertable bootType as_BSecretFileSource2 (''bootstrap/v1beta2'', ''SecretFileSource'')"
  "assertable bootType as_BKThreesServerConfig1 (''bootstrap/v1beta1'', ''KThreesServerConfig'')"
  "assertable bootType as_BKThreesServerConfig2 (''bootstrap/v1beta2'', ''KThreesServerConfig'')"
  by (simp_all add: assertable_def as_BFile1_def as_BFile2_def as_BFileSource1_def as_BFileSource2_def as_BKThreesAgentConfig1_def as_BKThreesAgentConfig2_def as_BKThreesConfig1_def as_BKThreesConfig2_def as_BKThreesConfigList1_def as_BKThreesConfigList2_def as_BKThreesConfigSpec1_def as_BKThreesConfigSpec2_def as_BKThreesConfigStatus1_def as_BKThreesConfigStatus2_def as_BKThreesConfigTemplate1_def as_BKThreesConfigTemplate2_def as_BKThreesConfigTemplateList1_def as_BKThreesConfigTemplateList2_def as_BKThreesConfigTemplateResource1_def as_BKThreesConfigTemplateResource2_def as_BKThreesConfigTemplateSpec1_def as_BKThreesConfigTemplateSpec2_def as_BSecretFileSource1_def as_BSecretFileSource2_def as_BKThreesServerConfig1_def as_BKThreesServerConfig2_def split: bootValue.split)

definition bootstrap_conversions :: "bootValue convReg list" where
  "bootstrap_conversions = [
     \<lparr>cr_generated = True, cr_in = (''bootstrap/v1beta1'', ''File''), cr_out = (''bootstrap/v1beta2'', ''File''),
      cr_fn = asserting as_BFile1 as_BFile2 BFile2
        Convert_v1beta1_File_To_v1beta2_File\<rparr>,
     \<lparr>cr_generated = True, cr_in = (''bootstrap/v1beta2'', ''File''), cr_out = (''bootstrap/v1beta1'', ''File''),
      cr_fn = asserting as_BFile2 as_BFile1 BFile1
        Convert_v1beta2_File_To_v1beta1_File\<rparr>,
     \<lparr>cr_generated = True, cr_in = (''bootstrap/v1beta1'', ''FileSource''), cr_out = (''bootstrap/v1beta2'', ''FileSource''),
      cr_fn = asserting as_BFileSource1 as_BFileSource2 BFileSource2
        Convert_v1beta1_FileSource_To_v1beta2_FileSource\<rparr>,
     \<lparr>cr_generated = True, cr_in = (''bootstrap/v1beta2'', ''FileSource''), cr_out = (''bootstrap/v1beta1'', ''FileSource''),
      cr_fn = asserting as_BFileSource2 as_BFileSource1 BFileSource1
        Convert_v1beta2_FileSource_To_v1beta1_FileSource\<rparr>,
     \<lparr>cr_generated = True, cr_in = (''bootstrap/v1beta1'', ''KThreesAgentConfig''), cr_out = (''bootstrap/v1beta2'', ''KThreesAgentConfig''),
      cr_fn = asserting as_BKThreesAgentConfig1 as_BKThreesAgentConfig2 BKThreesAgentConfig2
        Convert_v1beta1_KThreesAgentConfig_To_v1beta2_KThreesAgentConfig\<rparr>,
     \<lparr>cr_generated = True, cr_in = (''bootstrap/v1beta1'', ''KThreesConfig''), cr_out = (''bootstrap/v1beta2'', ''KThreesConfig''),
      cr_fn = asserting as_BKThreesConfig1 as_BKThreesConfig2 BKThreesConfig2
        Convert_v1beta1_KThreesConfig_To_v1beta2_KThreesConfig\<rparr>,
     \<lparr>cr_generated = True, cr_in = (''bootstrap/v1beta2'', ''KThreesConfig''), cr_out = (''bootstrap/v1beta1'', ''KThreesConfig''),
      cr_fn = asserting as_BKThreesConfig2 as_BKThreesConfig1 BKThreesConfig1
        Convert_v1beta2_KThreesConfig_To_v1beta1_KThreesConfig\<rparr>,
     \<lparr>cr_generated = True, cr_in = (''bootstrap/v1beta1'', ''KThreesConfigList''), cr_out = (''bootstrap/v1beta2'', ''KThreesConfigList''),
      cr_fn = asserting as_BKThreesConfigList1 as_BKThreesConfigList2 BKThreesConfigList2
        Convert_v1beta1_KThreesConfigList_To_v1beta2_KThreesConfigList\<rparr>,
     \<lparr>cr_generated = True, cr_in = (''bootstrap/v1beta2'', ''KThreesConfigList''), cr_out = (''bootstrap/v1beta1'', ''KThreesConfigList''),
      cr_fn = asserting as_BKThreesConfigList2 as_BKThreesConfigList1 BKThreesConfigList1
        Convert_v1beta2_KThreesConfigList_To_v1beta1_KThreesConfigList\<rparr>,
     \<lparr>cr_generated = True, cr_in = (''bootstrap/v1beta1'', ''KThreesConfigSpec''), cr_out = (''bootstrap/v1beta2'', ''KThreesConfigSpec''),
      cr_fn = asserting as_BKThreesConfigSpec1 as_BKThreesConfigSpec2 BKThreesConfigSpec2
        Convert_v1beta1_KThreesConfigSpec_To_v1beta2_KThreesConfigSpec\<rparr>,
     \<lparr>cr_generated = True, cr_in = (''bootstrap/v1beta2'', ''KThreesConfigSpec''), cr_out = (''bootstrap/v1beta1'', ''KThreesConfigSpec''),
      cr_fn = asserting as_BKThreesConfigSpec2 as_BKThreesConfigSpec1 BKThreesConfigSpec1
        Convert_v1beta2_KThreesConfigSpec_To_v1beta1_KThreesConfigSpec\<rparr>,
     \<lparr>cr_generated = True, cr_in = (''bootstrap/v1beta1'', ''KThreesConfigStatus''), cr_out = (''bootstrap/v1beta2'', ''KThreesConfigStatus''),
      cr_fn = asserting as_BKThreesConfigStatus1 as_BKThreesConfigStatus2 BKThreesConfigStatus2
        Convert_v1beta1_KThreesConfigStatus_To_v1beta2_KThreesConfigStatus\<rparr>,
     \<lparr>cr_generated = True, cr_in = (''bootstrap/v1beta2'', ''KThreesConfigStatus''), cr_out = (''bootstrap/v1beta1'', ''KThreesConfigStatus''),
      cr_fn = asserting as_BKThreesConfigStatus2 as_BKThreesConfigStatus1 BKThreesConfigStatus1
        Convert_v1beta2_KThreesConfigStatus_To_v1beta1_KThreesConfigStatus\<rparr>,
     \<lparr>cr_generated = True, cr_in = (''bootstrap/v1beta1'', ''KThreesConfigTemplate''), cr_out = (''bootstrap/v1beta2'', ''KThreesConfigTemplate''),
      cr_fn = asserting as_BKThreesConfigTemplate1 as_BKThreesConfigTemplate2 BKThreesConfigTemplate2
        Convert_v1beta1_KThreesConfigTemplate_To_v1beta2_KThreesConfigTemplate\<rparr>,
     \<lparr>cr_generated = True, cr_in = (''bootstrap/v1beta2'', ''KThreesConfigTemplate''), cr_out = (''bootstrap/v1beta1'', ''KThreesConfigTemplate''),
      cr_fn = asserting as_BKThreesConfigTemplate2 as_BKThreesConfigTemplate1 BKThreesConfigTemplate1
        Convert_v1beta2_KThreesConfigTemplate_To_v1beta1_KThreesConfigTemplate\<rparr>,
     \<lparr>cr_generated = True, cr_in = (''bootstrap/v1beta1'', ''KThreesConfigTemplateList''), cr_out = (''bootstrap/v1beta2'', ''KThreesConfigTemplateList''),
      cr_fn = asserting as_BKThreesConfigTemplateList1 as_BKThreesConfigTemplateList2 BKThreesConfigTemplateList2
        Convert_v1beta1_KThreesConfigTemplateList_To_v1beta2_KThreesConfigTemplateList\<rparr>,
     \<lparr>cr_generated = True, cr_in = (''bootstrap/v1beta2'', ''KThreesConfigTemplateList''), cr_out = (''bootstrap/v1beta1'', ''KThreesConfigTemplateList''),
      cr_fn = asserting as_BKThreesConfigTemplateList2 as_BKThreesConfigTemplateList1 BKThreesConfigTemplateList1
        Convert_v1beta2_KThreesConfigTemplateList_To_v1beta1_KThreesConfigTemplateList\<rparr>,
     \<lparr>cr_generated = True, cr_in = (''bootstrap/v1beta1'', ''KThreesConfigTemplateResource''), cr_out = (''bootstrap/v1beta2'', ''KThreesConfigTemplateResource''),
      cr_fn = asserting as_BKThreesConfigTemplateResource1 as_BKThreesConfigTemplateResource2 BKThreesConfigTemplateResource2
        Convert_v1beta1_KThreesConfigTemplateResource_To_v1beta2_KThreesConfigTemplateResource\<rparr>,
     \<lparr>cr_generated = True, cr_in = (''bootstrap/v1beta2'', ''KThreesConfigTemplateResource''), cr_out = (''bootstrap/v1beta1'', ''KThreesConfigTemplateResource''),
      cr_fn = asserting as_BKThreesConfigTemplateResource2 as_BKThreesConfigTemplateResource1 BKThreesConfigTemplateResource1
        Convert_v1beta2_KThreesConfigTemplateResource_To_v1beta1_KThreesConfigTemplateResource\<rparr>,
     \<lparr>cr_generated = True, cr_in = (''bootstrap/v1beta1'', ''KThreesConfigTemplateSpec''), cr_out = (''bootstrap/v1beta2'', ''KThreesConfigTemplateSpec''),
      cr_fn = asserting as_BKThreesConfigTemplateSpec1 as_BKThreesConfigTemplateSpec2 BKThreesConfigTemplateSpec2
        Convert_v1beta1_KThreesConfigTemplateSpec_To_v1beta2_KThreesConfigTemplateSpec\<rparr>,
     \<lparr>cr_generated = True, cr_in = (''bootstrap/v1beta2'', ''KThreesConfigTemplateSpec''), cr_out = (''bootstrap/v1beta1'', ''KThreesConfigTemplateSpec''),
      cr_fn = asserting as_BKThreesConfigTemplateSpec2 as_BKThreesConfigTemplateSpec1 BKThreesConfigTemplateSpec1
        Convert_v1beta2_KThreesConfigTemplateSpec_To_v1beta1_KThreesConfigTemplateSpec\<rparr>,
     \<lparr>cr_generated = True, cr_in = (''bootstrap/v1beta1'', ''SecretFileSource''), cr_out = (''bootstrap/v1beta2'', ''SecretFileSource''),
      cr_fn = asserting as_BSecretFileSource1 as_BSecretFileSource2 BSecretFileSource2
        Convert_v1beta1_SecretFileSource_To_v1beta2_SecretFileSource\<rparr>,
     \<lparr>cr_generated = True, cr_in = (''bootstrap/v1beta2'', ''SecretFileSource''), cr_out = (''bootstrap/v1beta1'', ''SecretFileSource''),
      cr_fn = asserting as_BSecretFileSource2 as_BSecretFileSource1 BSecretFileSource1
        Convert_v1beta2_SecretFileSource_To_v1beta1_SecretFileSource\<rparr>,
     \<lparr>cr_generated = False, cr_in = (''bootstrap/v1beta1'', ''KThreesServerConfig''), cr_out = (''bootstrap/v1beta2'', ''KThreesServerConfig''),
      cr_fn = asserting as_BKThreesServerConfig1 as_BKThreesServerConfig2 BKThreesServerConfig2
        Convert_v1beta1_KThreesServerConfig_To_v1beta2_KThreesServerConfig\<rparr>,
     \<lparr>cr_generated = False, cr_in = (''bootstrap/v1beta2'', ''KThreesAgentConfig''), cr_out = (''bootstrap/v1beta1'', ''KThreesAgentConfig''),
      cr_fn = asserting as_BKThreesAgentConfig2 as_BKThreesAgentConfig1 BKThreesAgentConfig1
        Convert_v1beta2_KThreesAgentConfig_To_v1beta1_KThreesAgentConfig\<rparr>,
     \<lparr>cr_generated = False, cr_in = (''bootstrap/v1beta2'', ''KThreesServerConfig''), cr_out = (''bootstrap/v1beta1'', ''KThreesServerConfig''),
      cr_fn = asserting as_BKThreesServerConfig2 as_BKThreesServerConfig1 BKThreesServerConfig1
        Convert_v1beta2_KThreesServerConfig_To_v1beta1_KThreesServerConfig\<rparr>]"

section \<open>The control plane group\<close>

datatype planeValue =
    PKThreesControlPlane1 "KThreesControlPlane_v1"
  | PKThreesControlPlane2 "KThreesControlPlane"
  | PKThreesControlPlaneList1 "KThreesControlPlane_v1 ObjectList"
  | PKThreesControlPlaneList2 "KThreesControlPlane ObjectList"
  | PKThreesControlPlaneMachineTemplate1 "MachineTemplate_v1"
  | PKThreesControlPlaneMachineTemplate2 "MachineTemplate"
  | PKThreesControlPlaneStatus1 "KThreesControlPlaneStatus_v1"
  | PKThreesControlPlaneStatus2 "KThreesControlPlaneStatus"
  | PLastRemediationStatus1 "LastRemediationStatus_v1"
  | PLastRemediationStatus2 "LastRemediationStatus"
  | PRemediationStrategy1 "RemediationStrategy_v1"
  | PRemediationStrategy2 "RemediationStrategy"
  | PKThreesConfigSpec1 "KThreesConfigSpec_v1"
  | PKThreesConfigSpec2 "KThreesConfigSpec"
  | PKThreesControlPlaneSpec1 "KThreesControlPlaneSpec_v1"
  | PKThreesControlPlaneSpec2 "KThreesControlPlaneSpec"

primrec planeType :: "planeValue \<Rightarrow> gotype" where
  "planeType (PKThreesControlPlane1 x) = (''controlplane/v1beta1'', ''KThreesControlPlane'')"
| "planeType (PKThreesControlPlane2 x) = (''controlplane/v1beta2'', ''KThreesControlPlane'')"
| "planeType (PKThreesControlPlaneList1 x) = (''controlplane/v1beta1'', ''KThreesControlPlaneList'')"
| "planeType (PKThreesControlPlaneList2 x) = (''controlplane/v1beta2'', ''KThreesControlPlaneList'')"
| "planeType (PKThreesControlPlaneMachineTemplate1 x) = (''controlplane/v1beta1'', ''KThreesControlPlaneMachineTemplate'')"
| "planeType (PKThreesControlPlaneMachineTemplate2 x) = (''controlplane/v1beta2'', ''KThreesControlPlaneMachineTemplate'')"
| "planeType (PKThreesControlPlaneStatus1 x) = (''controlplane/v1beta1'', ''KThreesControlPlaneStatus'')"
| "planeType (PKThreesControlPlaneStatus2 x) = (''controlplane/v1beta2'', ''KThreesControlPlaneStatus'')"
| "planeType (PLastRemediationStatus1 x) = (''controlplane/v1beta1'', ''LastRemediationStatus'')"
| "planeType (PLastRemediationStatus2 x) = (''controlplane/v1beta2'', ''LastRemediationStatus'')"
| "planeType (PRemediationStrategy1 x) = (''controlplane/v1beta1'', ''RemediationStrategy'')"
| "planeType (PRemediationStrategy2 x) = (''controlplane/v1beta2'', ''RemediationStrategy'')"
| "planeType (PKThreesConfigSpec1 x) = (''bootstrap/v1beta1'', ''KThreesConfigSpec'')"
| "planeType (PKThreesConfigSpec2 x) = (''bootstrap/v1beta2'', ''KThreesConfigSpec'')"
| "planeType (PKThreesControlPlaneSpec1 x) = (''controlplane/v1beta1'', ''KThreesControlPlaneSpec'')"
| "planeType (PKThreesControlPlaneSpec2 x) = (''controlplane/v1beta2'', ''KThreesControlPlaneSpec'')"

definition as_PKThreesControlPlane1 :: "planeValue \<Rightarrow> (KThreesControlPlane_v1) option" where
  "as_PKThreesControlPlane1 v = (case v of PKThreesControlPlane1 x \<Rightarrow> Some x | _ \<Rightarrow> None)"
definition as_PKThreesControlPlane2 :: "planeValue \<Rightarrow> (KThreesControlPlane) option" where
  "as_PKThreesControlPlane2 v = (case v of PKThreesControlPlane2 x \<Rightarrow> Some x | _ \<Rightarrow> None)"
definition as_PKThreesControlPlaneList1 :: "planeValue \<Rightarrow> (KThreesControlPlane_v1 ObjectList) option" where
  "as_PKThreesControlPlaneList1 v = (case v of PKThreesControlPlaneList1 x \<Rightarrow> Some x | _ \<Rightarrow> None)"
definition as_PKThreesControlPlaneList2 :: "planeValue \<Rightarrow> (KThreesControlPlane ObjectList) option" where
  "as_PKThreesControlPlaneList2 v = (case v of PKThreesControlPlaneList2 x \<Rightarrow> Some x | _ \<Rightarrow> None)"
definition as_PKThreesControlPlaneMachineTemplate1 :: "planeValue \<Rightarrow> (MachineTemplate_v1) option" where
  "as_PKThreesControlPlaneMachineTemplate1 v = (case v of PKThreesControlPlaneMachineTemplate1 x \<Rightarrow> Some x | _ \<Rightarrow> None)"
definition as_PKThreesControlPlaneMachineTemplate2 :: "planeValue \<Rightarrow> (MachineTemplate) option" where
  "as_PKThreesControlPlaneMachineTemplate2 v = (case v of PKThreesControlPlaneMachineTemplate2 x \<Rightarrow> Some x | _ \<Rightarrow> None)"
definition as_PKThreesControlPlaneStatus1 :: "planeValue \<Rightarrow> (KThreesControlPlaneStatus_v1) option" where
  "as_PKThreesControlPlaneStatus1 v = (case v of PKThreesControlPlaneStatus1 x \<Rightarrow> Some x | _ \<Rightarrow> None)"
definition as_PKThreesControlPlaneStatus2 :: "planeValue \<Rightarrow> (KThreesControlPlaneStatus) option" where
  "as_PKThreesControlPlaneStatus2 v = (case v of PKThreesControlPlaneStatus2 x \<Rightarrow> Some x | _ \<Rightarrow> None)"
definition as_PLastRemediationStatus1 :: "planeValue \<Rightarrow> (LastRemediationStatus_v1) option" where
  "as_PLastRemediationStatus1 v = (case v of PLastRemediationStatus1 x \<Rightarrow> Some x | _ \<Rightarrow> None)"
definition as_PLastRemediationStatus2 :: "planeValue \<Rightarrow> (LastRemediationStatus) option" where
  "as_PLastRemediationStatus2 v = (case v of PLastRemediationStatus2 x \<Rightarrow> Some x | _ \<Rightarrow> None)"
definition as_PRemediationStrategy1 :: "planeValue \<Rightarrow> (RemediationStrategy_v1) option" where
  "as_PRemediationStrategy1 v = (case v of PRemediationStrategy1 x \<Rightarrow> Some x | _ \<Rightarrow> None)"
definition as_PRemediationStrategy2 :: "planeValue \<Rightarrow> (RemediationStrategy) option" where
  "as_PRemediationStrategy2 v = (case v of PRemediationStrategy2 x \<Rightarrow> Some x | _ \<Rightarrow> None)"
definition as_PKThreesConfigSpec1 :: "planeValue \<Rightarrow> (KThreesConfigSpec_v1) option" where
  "as_PKThreesConfigSpec1 v = (case v of PKThreesConfigSpec1 x \<Rightarrow> Some x | _ \<Rightarrow> None)"
definition as_PKThreesConfigSpec2 :: "planeValue \<Rightarrow> (KThreesConfigSpec) option" where
  "as_PKThreesConfigSpec2 v = (case v of PKThreesConfigSpec2 x \<Rightarrow> Some x | _ \<Rightarrow> None)"
definition as_PKThreesControlPlaneSpec1 :: "planeValue \<Rightarrow> (KThreesControlPlaneSpec_v1) option" where
  "as_PKThreesControlPlaneSpec1 v = (case v of PKThreesControlPlaneSpec1 x \<Rightarrow> Some x | _ \<Rightarrow> None)"
definition as_PKThreesControlPlaneSpec2 :: "planeValue \<Rightarrow> (KThreesControlPlaneSpec) option" where
  "as_PKThreesControlPlaneSpec2 v = (case v of PKThreesControlPlaneSpec2 x \<Rightarrow> Some x | _ \<Rightarrow> None)"

lemma as_planeValue:
  "assertable planeType as_PKThreesControlPlane1 (''controlplane/v1beta1'', ''KThreesControlPlane'')"
  "assertable planeType as_PKThreesControlPlane2 (''controlplane/v1beta2'', ''KThreesControlPlane'')"
  "assertable planeType as_PKThreesControlPlaneList1 (''controlplane/v1beta1'', ''KThreesControlPlaneList'')"
  "assertable planeType as_PKThreesControlPlaneList2 (''controlplane/v1beta2'', ''KThreesControlPlaneList'')"
  "assertable planeType as_PKThreesControlPlaneMachineTemplate1 (''controlplane/v1beta1'', ''KThreesControlPlaneMachineTemplate'')"
  "assertable planeType as_PKThreesControlPlaneMachineTemplate2 (''controlplane/v1beta2'', ''KThreesControlPlaneMachineTemplate'')"
  "assertable planeType as_PKThreesControlPlaneStatus1 (''controlplane/v1beta1'', ''KThreesControlPlaneStatus'')"
  "assertable planeType as_PKThreesControlPlaneStatus2 (''controlplane/v1beta2'', ''KThreesControlPlaneStatus'')"
  "assertable planeType as_PLastRemediationStatus1 (''controlplane/v1beta1'', ''LastRemediationStatus'')"
  "assertable planeType as_PLastRemediationStatus2 (''controlplane/v1beta2'', ''LastRemediationStatus'')"
  "assertable planeType as_PRemediationStrategy1 (''controlplane/v1beta1'', ''RemediationStrategy'')"
  "assertable planeType as_PRemediationStrategy2 (''controlplane/v1beta2'', ''RemediationStrategy'')"
  "assertable planeType as_PKThreesConfigSpec1 (''bootstrap/v1beta1'', ''KThreesConfigSpec'')"
  "assertable planeType as_PKThreesConfigSpec2 (''bootstrap/v1beta2'', ''KThreesConfigSpec'')"
  "assertable planeType as_PKThreesControlPlaneSpec1 (''controlplane/v1beta1'', ''KThreesControlPlaneSpec'')"
  "assertable planeType as_PKThreesControlPlaneSpec2 (''controlplane/v1beta2'', ''KThreesControlPlaneSpec'')"
  by (simp_all add: assertable_def as_PKThreesControlPlane1_def as_PKThreesControlPlane2_def as_PKThreesControlPlaneList1_def as_PKThreesControlPlaneList2_def as_PKThreesControlPlaneMachineTemplate1_def as_PKThreesControlPlaneMachineTemplate2_def as_PKThreesControlPlaneStatus1_def as_PKThreesControlPlaneStatus2_def as_PLastRemediationStatus1_def as_PLastRemediationStatus2_def as_PRemediationStrategy1_def as_PRemediationStrategy2_def as_PKThreesConfigSpec1_def as_PKThreesConfigSpec2_def as_PKThreesControlPlaneSpec1_def as_PKThreesControlPlaneSpec2_def split: planeValue.split)

definition controlplane_conversions :: "planeValue convReg list" where
  "controlplane_conversions = [
     \<lparr>cr_generated = True, cr_in = (''controlplane/v1beta1'', ''KThreesControlPlane''), cr_out = (''controlplane/v1beta2'', ''KThreesControlPlane''),
      cr_fn = asserting as_PKThreesControlPlane1 as_PKThreesControlPlane2 PKThreesControlPlane2
        Convert_v1beta1_KThreesControlPlane_To_v1beta2_KThreesControlPlane\<rparr>,
     \<lparr>cr_generated = True, cr_in = (''controlplane/v1beta2'', ''KThreesControlPlane''), cr_out = (''controlplane/v1beta1'', ''KThreesControlPlane''),
      cr_fn = asserting as_PKThreesControlPlane2 as_PKThreesControlPlane1 PKThreesControlPlane1
        Convert_v1beta2_KThreesControlPlane_To_v1beta1_KThreesControlPlane\<rparr>,
     \<lparr>cr_generated = True, cr_in = (''controlplane/v1beta1'', ''KThreesControlPlaneList''), cr_out = (''controlplane/v1beta2'', ''KThreesControlPlaneList''),
      cr_fn = asserting as_PKThreesControlPlaneList1 as_PKThreesControlPlaneList2 PKThreesControlPlaneList2
        Convert_v1beta1_KThreesControlPlaneList_To_v1beta2_KThreesControlPlaneList\<rparr>,
     \<lparr>cr_generated = True, cr_in = (''controlplane/v1beta2'', ''KThreesControlPlaneList''), cr_out = (''controlplane/v1beta1'', ''KThreesControlPlaneList''),
      cr_fn = asserting as_PKThreesControlPlaneList2 as_PKThreesControlPlaneList1 PKThreesControlPlaneList1
        Convert_v1beta2_KThreesControlPlaneList_To_v1beta1_KThreesControlPlaneList\<rparr>,
     \<lparr>cr_generated = True, cr_in = (''controlplane/v1beta1'', ''KThreesControlPlaneMachineTemplate''), cr_out = (''controlplane/v1beta2'', ''KThreesControlPlaneMachineTemplate''),
      cr_fn = asserting as_PKThreesControlPlaneMachineTemplate1 as_PKThreesControlPlaneMachineTemplate2 PKThreesControlPlaneMachineTemplate2
        Convert_v1beta1_KThreesControlPlaneMachineTemplate_To_v1beta2_KThreesControlPlaneMachineTemplate\<rparr>,
     \<lparr>cr_generated = True, cr_in = (''controlplane/v1beta1'', ''KThreesControlPlaneStatus''), cr_out = (''controlplane/v1beta2'', ''KThreesControlPlaneStatus''),
      cr_fn = asserting as_PKThreesControlPlaneStatus1 as_PKThreesControlPlaneStatus2 PKThreesControlPlaneStatus2
        Convert_v1beta1_KThreesControlPlaneStatus_To_v1beta2_KThreesControlPlaneStatus\<rparr>,
     \<lparr>cr_generated = True, cr_in = (''controlplane/v1beta1'', ''LastRemediationStatus''), cr_out = (''controlplane/v1beta2'', ''LastRemediationStatus''),
      cr_fn = asserting as_PLastRemediationStatus1 as_PLastRemediationStatus2 PLastRemediationStatus2
        Convert_v1beta1_LastRemediationStatus_To_v1beta2_LastRemediationStatus\<rparr>,
     \<lparr>cr_generated = True, cr_in = (''controlplane/v1beta2'', ''LastRemediationStatus''), cr_out = (''controlplane/v1beta1'', ''LastRemediationStatus''),
      cr_fn = asserting as_PLastRemediationStatus2 as_PLastRemediationStatus1 PLastRemediationStatus1
        Convert_v1beta2_LastRemediationStatus_To_v1beta1_LastRemediationStatus\<rparr>,
     \<lparr>cr_generated = True, cr_in = (''controlplane/v1beta1'', ''RemediationStrategy''), cr_out = (''controlplane/v1beta2'', ''RemediationStrategy''),
      cr_fn = asserting as_PRemediationStrategy1 as_PRemediationStrategy2 PRemediationStrategy2
        Convert_v1beta1_RemediationStrategy_To_v1beta2_RemediationStrategy\<rparr>,
     \<lparr>cr_generated = True, cr_in = (''controlplane/v1beta2'', ''RemediationStrategy''), cr_out = (''controlplane/v1beta1'', ''RemediationStrategy''),
      cr_fn = asserting as_PRemediationStrategy2 as_PRemediationStrategy1 PRemediationStrategy1
        Convert_v1beta2_RemediationStrategy_To_v1beta1_RemediationStrategy\<rparr>,
     \<lparr>cr_generated = False, cr_in = (''bootstrap/v1beta1'', ''KThreesConfigSpec''), cr_out = (''bootstrap/v1beta2'', ''KThreesConfigSpec''),
      cr_fn = asserting as_PKThreesConfigSpec1 as_PKThreesConfigSpec2 PKThreesConfigSpec2
        cp_Convert_v1beta1_KThreesConfigSpec_To_v1beta2_KThreesConfigSpec\<rparr>,
     \<lparr>cr_generated = False, cr_in = (''controlplane/v1beta1'', ''KThreesControlPlaneSpec''), cr_out = (''controlplane/v1beta2'', ''KThreesControlPlaneSpec''),
      cr_fn = asserting as_PKThreesControlPlaneSpec1 as_PKThreesControlPlaneSpec2 PKThreesControlPlaneSpec2
        Convert_v1beta1_KThreesControlPlaneSpec_To_v1beta2_KThreesControlPlaneSpec\<rparr>,
     \<lparr>cr_generated = False, cr_in = (''bootstrap/v1beta2'', ''KThreesConfigSpec''), cr_out = (''bootstrap/v1beta1'', ''KThreesConfigSpec''),
      cr_fn = asserting as_PKThreesConfigSpec2 as_PKThreesConfigSpec1 PKThreesConfigSpec1
        cp_Convert_v1beta2_KThreesConfigSpec_To_v1beta1_KThreesConfigSpec\<rparr>,
     \<lparr>cr_generated = False, cr_in = (''controlplane/v1beta2'', ''KThreesControlPlaneMachineTemplate''), cr_out = (''controlplane/v1beta1'', ''KThreesControlPlaneMachineTemplate''),
      cr_fn = asserting as_PKThreesControlPlaneMachineTemplate2 as_PKThreesControlPlaneMachineTemplate1 PKThreesControlPlaneMachineTemplate1
        Convert_v1beta2_KThreesControlPlaneMachineTemplate_To_v1beta1_KThreesControlPlaneMachineTemplate\<rparr>,
     \<lparr>cr_generated = False, cr_in = (''controlplane/v1beta2'', ''KThreesControlPlaneSpec''), cr_out = (''controlplane/v1beta1'', ''KThreesControlPlaneSpec''),
      cr_fn = asserting as_PKThreesControlPlaneSpec2 as_PKThreesControlPlaneSpec1 PKThreesControlPlaneSpec1
        Convert_v1beta2_KThreesControlPlaneSpec_To_v1beta1_KThreesControlPlaneSpec\<rparr>,
     \<lparr>cr_generated = False, cr_in = (''controlplane/v1beta2'', ''KThreesControlPlaneStatus''), cr_out = (''controlplane/v1beta1'', ''KThreesControlPlaneStatus''),
      cr_fn = asserting as_PKThreesControlPlaneStatus2 as_PKThreesControlPlaneStatus1 PKThreesControlPlaneStatus1
        Convert_v1beta2_KThreesControlPlaneStatus_To_v1beta1_KThreesControlPlaneStatus\<rparr>]"

section \<open>RegisterConversions\<close>

definition RegisterConversions_bootstrap ::
  "('s \<Rightarrow> bootValue convReg \<Rightarrow> 's \<times> goerr option) \<Rightarrow> 's \<Rightarrow> 's \<times> goerr option" where
  "RegisterConversions_bootstrap add s = registerAll add s bootstrap_conversions"

definition RegisterConversions_controlplane ::
  "('s \<Rightarrow> planeValue convReg \<Rightarrow> 's \<times> goerr option) \<Rightarrow> 's \<Rightarrow> 's \<times> goerr option" where
  "RegisterConversions_controlplane add s = registerAll add s controlplane_conversions"

section \<open>Properties\<close>

subsection \<open>No conversion fails\<close>

lemma never_fails_conversions [simp]:
  "never_fails Convert_v1beta1_File_To_v1beta2_File"
  "never_fails Convert_v1beta2_File_To_v1beta1_File"
  "never_fails Convert_v1beta1_FileSource_To_v1beta2_FileSource"
  "never_fails Convert_v1beta2_FileSource_To_v1beta1_FileSource"
  "never_fails Convert_v1beta1_KThreesAgentConfig_To_v1beta2_KThreesAgentConfig"
  "never_fails Convert_v1beta1_KThreesConfig_To_v1beta2_KThreesConfig"
  "never_fails Convert_v1beta2_KThreesConfig_To_v1beta1_KThreesConfig"
  "never_fails Convert_v1beta1_KThreesConfigSpec_To_v1beta2_KThreesConfigSpec"
  "never_fails Convert_v1beta2_KThreesConfigSpec_To_v1beta1_KThreesConfigSpec"
  "never_fails Convert_v1beta1_KThreesConfigStatus_To_v1beta2_KThreesConfigStatus"
  "never_fails Convert_v1beta2_KThreesConfigStatus_To_v1beta1_KThreesConfigStatus"
  "never_fails Convert_v1beta1_KThreesConfigTemplate_To_v1beta2_KThreesConfigTemplate"
  "never_fails Convert_v1beta2_KThreesConfigTemplate_To_v1beta1_KThreesConfigTemplate"
  "never_fails Convert_v1beta1_KThreesConfigTemplateResource_To_v1beta2_KThreesConfigTemplateResource"
  "never_fails Convert_v1beta2_KThreesConfigTemplateResource_To_v1beta1_KThreesConfigTemplateResource"
  "never_fails Convert_v1beta1_KThreesConfigTemplateSpec_To_v1beta2_KThreesConfigTemplateSpec"
  "never_fails Convert_v1beta2_KThreesConfigTemplateSpec_To_v1beta1_KThreesConfigTemplateSpec"
  "never_fails Convert_v1beta1_SecretFileSource_To_v1beta2_SecretFileSource"
  "never_fails Convert_v1beta2_SecretFileSource_To_v1beta1_SecretFileSource"
  "never_fails Convert_v1beta1_KThreesServerConfig_To_v1beta2_KThreesServerConfig"
  "never_fails Convert_v1beta2_KThreesAgentConfig_To_v1beta1_KThreesAgentConfig"
  "never_fails Convert_v1beta2_KThreesServerConfig_To_v1beta1_KThreesServerConfig"
  "never_fails Convert_v1beta1_KThreesControlPlane_To_v1beta2_KThreesControlPlane"
  "never_fails Convert_v1beta2_KThreesControlPlane_To_v1beta1_KThreesControlPlane"
  "never_fails Convert_v1beta1_KThreesControlPlaneMachineTemplate_To_v1beta2_KThreesControlPlaneMachineTemplate"
  "never_fails Convert_v1beta1_KThreesControlPlaneStatus_To_v1beta2_KThreesControlPlaneStatus"
  "never_fails Convert_v1beta1_LastRemediationStatus_To_v1beta2_LastRemediationStatus"
  "never_fails Convert_v1beta2_LastRemediationStatus_To_v1beta1_LastRemediationStatus"
  "never_fails Convert_v1beta1_RemediationStrategy_To_v1beta2_RemediationStrategy"
  "never_fails Convert_v1beta2_RemediationStrategy_To_v1beta1_RemediationStrategy"
  "never_fails cp_Convert_v1beta1_KThreesConfigSpec_To_v1beta2_KThreesConfigSpec"
  "never_fails Convert_v1beta1_KThreesControlPlaneSpec_To_v1beta2_KThreesControlPlaneSpec"
  "never_fails cp_Convert_v1beta2_KThreesConfigSpec_To_v1beta1_KThreesConfigSpec"
  "never_fails Convert_v1beta2_KThreesControlPlaneMachineTemplate_To_v1beta1_KThreesControlPlaneMachineTemplate"
  "never_fails Convert_v1beta2_KThreesControlPlaneSpec_To_v1beta1_KThreesControlPlaneSpec"
  "never_fails Convert_v1beta2_KThreesControlPlaneStatus_To_v1beta1_KThreesControlPlaneStatus"
  by (simp_all add: never_fails_def conv Let_def cp_Convert_v1beta1_KThreesConfigSpec_To_v1beta2_KThreesConfigSpec_def
      cp_Convert_v1beta2_KThreesConfigSpec_To_v1beta1_KThreesConfigSpec_def)

lemma never_fails_items: "never_fails f \<Longrightarrow> \<exists>ys. convertItems f zero xs = Inr ys"
proof (induction xs)
  case (Cons x xs)
  moreover from Cons.prems obtain y where "f x zero = Inr y" unfolding never_fails_def by blast
  ultimately show ?case by auto
qed simp

lemma never_fails_convertList [simp]: "never_fails f \<Longrightarrow> never_fails (convertList f zero)"
proof -
  assume f: "never_fails f"
  have "\<exists>z. convertList f zero x y = Inr z" for x y
  proof (cases "ol_Items x")
    case (Some items)
    moreover obtain ys where "convertItems f zero items = Inr ys" using never_fails_items[OF f] by blast
    ultimately show ?thesis by (simp add: convertList_def Let_def)
  qed (simp add: convertList_def Let_def)
  then show ?thesis unfolding never_fails_def by blast
qed

lemma never_fails_lists [simp]:
  "never_fails Convert_v1beta1_KThreesConfigList_To_v1beta2_KThreesConfigList"
  "never_fails Convert_v1beta2_KThreesConfigList_To_v1beta1_KThreesConfigList"
  "never_fails Convert_v1beta1_KThreesConfigTemplateList_To_v1beta2_KThreesConfigTemplateList"
  "never_fails Convert_v1beta2_KThreesConfigTemplateList_To_v1beta1_KThreesConfigTemplateList"
  "never_fails Convert_v1beta1_KThreesControlPlaneList_To_v1beta2_KThreesControlPlaneList"
  "never_fails Convert_v1beta2_KThreesControlPlaneList_To_v1beta1_KThreesControlPlaneList"
proof -
  note defs = Convert_v1beta1_KThreesConfigList_To_v1beta2_KThreesConfigList_def[abs_def] autoConvert_v1beta1_KThreesConfigList_To_v1beta2_KThreesConfigList_def[abs_def]
    Convert_v1beta2_KThreesConfigList_To_v1beta1_KThreesConfigList_def[abs_def] autoConvert_v1beta2_KThreesConfigList_To_v1beta1_KThreesConfigList_def[abs_def]
    Convert_v1beta1_KThreesConfigTemplateList_To_v1beta2_KThreesConfigTemplateList_def[abs_def] autoConvert_v1beta1_KThreesConfigTemplateList_To_v1beta2_KThreesConfigTemplateList_def[abs_def]
    Convert_v1beta2_KThreesConfigTemplateList_To_v1beta1_KThreesConfigTemplateList_def[abs_def] autoConvert_v1beta2_KThreesConfigTemplateList_To_v1beta1_KThreesConfigTemplateList_def[abs_def]
    Convert_v1beta1_KThreesControlPlaneList_To_v1beta2_KThreesControlPlaneList_def[abs_def] autoConvert_v1beta1_KThreesControlPlaneList_To_v1beta2_KThreesControlPlaneList_def[abs_def]
    Convert_v1beta2_KThreesControlPlaneList_To_v1beta1_KThreesControlPlaneList_def[abs_def] autoConvert_v1beta2_KThreesControlPlaneList_To_v1beta1_KThreesControlPlaneList_def[abs_def]
  show "never_fails Convert_v1beta1_KThreesConfigList_To_v1beta2_KThreesConfigList"
    "never_fails Convert_v1beta2_KThreesConfigList_To_v1beta1_KThreesConfigList"
    "never_fails Convert_v1beta1_KThreesConfigTemplateList_To_v1beta2_KThreesConfigTemplateList"
    "never_fails Convert_v1beta2_KThreesConfigTemplateList_To_v1beta1_KThreesConfigTemplateList"
    "never_fails Convert_v1beta1_KThreesControlPlaneList_To_v1beta2_KThreesControlPlaneList"
    "never_fails Convert_v1beta2_KThreesControlPlaneList_To_v1beta1_KThreesControlPlaneList"
    by (simp_all add: defs)
qed

subsection \<open>Soundness\<close>

lemma bootstrap_sound: "list_all (sound_reg bootType) bootstrap_conversions"
  unfolding bootstrap_conversions_def list.pred_inject
  by (intro conjI, (rule asserting_sound; simp add: as_bootValue)+, simp)

lemma controlplane_sound: "list_all (sound_reg planeType) controlplane_conversions"
  unfolding controlplane_conversions_def list.pred_inject
  by (intro conjI, (rule asserting_sound; simp add: as_planeValue)+, simp)

subsection \<open>The registry\<close>

definition pairs :: "'v convReg list \<Rightarrow> (gotype \<times> gotype) list" where
  "pairs rs = map (\<lambda>r. (cr_in r, cr_out r)) rs"

text \<open>One function for every pair of types, and with every pair the reverse one.\<close>

definition both_ways :: "'v convReg list \<Rightarrow> bool" where
  "both_ways rs \<longleftrightarrow> distinct (pairs rs) \<and> list_all (\<lambda>(t, u). List.member (pairs rs) (u, t)) (pairs rs)"

text \<open>A scheme that keeps what is registered, and fails from the given registration on.\<close>

definition recordReg :: "nat \<Rightarrow> goerr \<Rightarrow> 'v convReg list \<Rightarrow> 'v convReg \<Rightarrow> 'v convReg list \<times> goerr option" where
  "recordReg n err s r = (if length s < n then (s @ [r], None) else (s, Some err))"

lemma registerAll_record:
  "length s \<le> n \<Longrightarrow> registerAll (recordReg n err) s rs =
     (s @ take (n - length s) rs, if n - length s < length rs then Some err else None)"
  by (induction rs arbitrary: s) (auto simp: recordReg_def take_Cons')

lemma bootstrap_both_ways: "both_ways bootstrap_conversions \<and> length bootstrap_conversions = 26"
  by (simp add: both_ways_def pairs_def bootstrap_conversions_def)

lemma controlplane_both_ways: "both_ways controlplane_conversions \<and> length controlplane_conversions = 16"
  by (simp add: both_ways_def pairs_def controlplane_conversions_def)

text \<open>C37 Every conversion function is registered for exactly the two types it asserts, and never
  fails on values of these types; on others it would panic. No pair of types is registered
  twice, and every pair both ways. When the scheme rejects a registration, the ones before it
  stay and the error is returned.\<close>

theorem conversions_registered:
  "list_all (sound_reg bootType) (fst (RegisterConversions_bootstrap (recordReg n err) [])) \<and>
   list_all (sound_reg planeType) (fst (RegisterConversions_controlplane (recordReg n err) [])) \<and>
   both_ways (fst (RegisterConversions_bootstrap (recordReg 26 err) [])) \<and>
   both_ways (fst (RegisterConversions_controlplane (recordReg 16 err) [])) \<and>
   snd (RegisterConversions_bootstrap (recordReg n err) []) = (if n < 26 then Some err else None) \<and>
   snd (RegisterConversions_controlplane (recordReg n err) []) = (if n < 16 then Some err else None)"
proof -
  have part: "list_all P (take n xs)" if "list_all P xs" for P :: "'b \<Rightarrow> bool" and xs
    using that by (auto simp: list_all_iff dest: in_set_takeD)
  show ?thesis
    unfolding RegisterConversions_bootstrap_def RegisterConversions_controlplane_def
    using part[OF bootstrap_sound] part[OF controlplane_sound] bootstrap_both_ways controlplane_both_ways
    by (simp add: registerAll_record)
qed

end
