(* ===== verification/Managers.thy ===== *)
theory Managers
  imports ConversionRegistry
begin

text \<open>
  The two processes (\<^verbatim>\<open>bootstrap/main.go\<close>, \<^verbatim>\<open>controlplane/main.go\<close>): which types the
  scheme knows, how the reconcilers and webhooks are attached to the manager
  (\<^verbatim>\<open>SetupWithManager\<close>, \<^verbatim>\<open>SetupWebhookWithManager\<close>), and the order of the
  start-up. The manager belongs to controller-runtime: what it answers to the calls of the
  set-up is the environment.
\<close>

section \<open>Package initialization\<close>

text \<open>The functions a scheme builder collects. \<^verbatim>\<open>SchemeBuilder\<close> is a pointer to a structure
  with a slice of functions in it, and \<^verbatim>\<open>localSchemeBuilder\<close> a variable of that slice type,
  initialized with a copy of the still empty slice; the \<^verbatim>\<open>init\<close> functions of a package
  run after the variables of the package are initialized.\<close>

datatype schemeFn =
    AddKnownTypes "string list"
  | AddConversions

record schemeVars =
  sv_SchemeBuilder :: "schemeFn list"
  sv_localSchemeBuilder :: "schemeFn list"

definition initVars :: schemeVars where
  "initVars = (let builder = [] in \<lparr>sv_SchemeBuilder = builder, sv_localSchemeBuilder = builder\<rparr>)"

definition SchemeBuilder_Register :: "string list \<Rightarrow> schemeVars \<Rightarrow> schemeVars" where
  "SchemeBuilder_Register kinds v = v\<lparr>sv_SchemeBuilder := sv_SchemeBuilder v @ [AddKnownTypes kinds]\<rparr>"

definition init_conversions :: "schemeVars \<Rightarrow> schemeVars" where
  "init_conversions v = v\<lparr>sv_localSchemeBuilder := sv_localSchemeBuilder v @ [AddConversions]\<rparr>"

definition init_KThreesConfig :: "schemeVars \<Rightarrow> schemeVars" where
  "init_KThreesConfig = SchemeBuilder_Register [''KThreesConfig'', ''KThreesConfigList'']"

definition init_KThreesConfigTemplate :: "schemeVars \<Rightarrow> schemeVars" where
  "init_KThreesConfigTemplate = SchemeBuilder_Register [''KThreesConfigTemplate'', ''KThreesConfigTemplateList'']"

definition init_KThreesControlPlane :: "schemeVars \<Rightarrow> schemeVars" where
  "init_KThreesControlPlane = SchemeBuilder_Register [''KThreesControlPlane'', ''KThreesControlPlaneList'']"

definition init_KThreesControlPlaneTemplate :: "schemeVars \<Rightarrow> schemeVars" where
  "init_KThreesControlPlaneTemplate =
     SchemeBuilder_Register [''KThreesControlPlaneTemplate'', ''KThreesControlPlaneTemplateList'']"

text \<open>The packages, their \<^verbatim>\<open>init\<close> functions in the order of the file names.\<close>

definition bootstrap_v1beta1 :: schemeVars where
  "bootstrap_v1beta1 = init_conversions (init_KThreesConfigTemplate (init_KThreesConfig initVars))"
definition bootstrap_v1beta2 :: schemeVars where
  "bootstrap_v1beta2 = init_KThreesConfigTemplate (init_KThreesConfig initVars)"
definition controlplane_v1beta1 :: schemeVars where
  "controlplane_v1beta1 = init_conversions (init_KThreesControlPlane initVars)"
definition controlplane_v1beta2 :: schemeVars where
  "controlplane_v1beta2 = init_KThreesControlPlaneTemplate (init_KThreesControlPlane initVars)"

text \<open>\<^verbatim>\<open>AddToScheme\<close> runs the functions of \<^verbatim>\<open>SchemeBuilder\<close>. A scheme, as far as it
  is known here: the kinds of each package and the packages with conversions. The packages
  of other repositories are named only.\<close>

record knownScheme =
  kn_kinds :: "gotype list"
  kn_conversions :: "string list"
  kn_foreign :: "string list"

definition runSchemeFn :: "string \<Rightarrow> schemeFn \<Rightarrow> knownScheme \<Rightarrow> knownScheme" where
  "runSchemeFn pkg f s =
     (case f of
        AddKnownTypes kinds \<Rightarrow> s\<lparr>kn_kinds := kn_kinds s @ map (Pair pkg) kinds\<rparr>
      | AddConversions \<Rightarrow> s\<lparr>kn_conversions := kn_conversions s @ [pkg]\<rparr>)"

definition AddToScheme :: "string \<Rightarrow> schemeVars \<Rightarrow> knownScheme \<Rightarrow> knownScheme" where
  "AddToScheme pkg v s = fold (runSchemeFn pkg) (sv_SchemeBuilder v) s"

definition addForeign :: "string \<Rightarrow> knownScheme \<Rightarrow> knownScheme" where
  "addForeign pkg s = s\<lparr>kn_foreign := kn_foreign s @ [pkg]\<rparr>"

definition bootstrap_scheme :: knownScheme where
  "bootstrap_scheme =
     AddToScheme ''bootstrap/v1beta2'' bootstrap_v1beta2 (AddToScheme ''bootstrap/v1beta1'' bootstrap_v1beta1
      (addForeign ''cluster-api/v1beta2'' (addForeign ''cluster-api/v1beta1'' (addForeign ''client-go''
      \<lparr>kn_kinds = [], kn_conversions = [], kn_foreign = []\<rparr>))))"

definition controlplane_scheme :: knownScheme where
  "controlplane_scheme =
     AddToScheme ''controlplane/v1beta2'' controlplane_v1beta2 (AddToScheme ''controlplane/v1beta1'' controlplane_v1beta1
      (AddToScheme ''bootstrap/v1beta2'' bootstrap_v1beta2 (AddToScheme ''bootstrap/v1beta1'' bootstrap_v1beta1
      (addForeign ''cluster-api/v1beta2'' (addForeign ''cluster-api/v1beta1'' (addForeign ''client-go''
      \<lparr>kn_kinds = [], kn_conversions = [], kn_foreign = []\<rparr>))))))"

section \<open>Admission webhooks\<close>

text \<open>The handlers get a \<^verbatim>\<open>runtime.Object\<close>. The validators accept everything; the
  defaulters reject another type than their own.\<close>

datatype admissionOp = OnCreate | OnUpdate | OnDelete

definition KThreesConfig_Validate :: "admissionOp \<Rightarrow> bootValue \<Rightarrow> string list \<times> goerr option" where
  "KThreesConfig_Validate op obj = ([], None)"
definition KThreesConfigTemplate_Validate :: "admissionOp \<Rightarrow> bootValue \<Rightarrow> string list \<times> goerr option" where
  "KThreesConfigTemplate_Validate op obj = ([], None)"
definition KThreesControlPlane_Validate :: "admissionOp \<Rightarrow> planeValue \<Rightarrow> string list \<times> goerr option" where
  "KThreesControlPlane_Validate op obj = ([], None)"

definition KThreesConfig_DefaultObj :: "bootValue \<Rightarrow> goerr + bootValue" where
  "KThreesConfig_DefaultObj obj =
     (case as_BKThreesConfig2 obj of
        None \<Rightarrow> Inl (ApiErr OtherApi ''expected a KThreesConfig'')
      | Some c \<Rightarrow> Inr (BKThreesConfig2 (KThreesConfig_Default c)))"

definition KThreesConfigTemplate_DefaultObj :: "bootValue \<Rightarrow> goerr + bootValue" where
  "KThreesConfigTemplate_DefaultObj obj = Inr obj"

definition KThreesControlPlane_DefaultObj :: "planeValue \<Rightarrow> goerr + planeValue" where
  "KThreesControlPlane_DefaultObj obj =
     (case as_PKThreesControlPlane2 obj of
        None \<Rightarrow> Inl (ApiErr OtherApi ''expected a KThreesControlPlane'')
      | Some c \<Rightarrow> Inr (PKThreesControlPlane2 (KThreesControlPlane_Default c)))"

section \<open>The manager\<close>

record managerOptions =
  mo_Scheme :: knownScheme
  mo_MetricsBindAddress :: string
  mo_WebhookPort :: int
  mo_LeaderElection :: bool
  mo_LeaderElectionID :: string
  mo_SyncPeriod :: duration

text \<open>What the builder of a controller is told: the type it reconciles, the types whose owner
  it reconciles, the types it maps to requests, and the number of workers. All of them have
  the filter that drops paused objects.\<close>

record controllerSpec =
  cs_For :: gotype
  cs_Owns :: "gotype list"
  cs_Watches :: "gotype list"
  cs_MaxConcurrentReconciles :: int

record webhookSpec =
  ws_For :: gotype
  ws_Defaulter :: gotype
  ws_Validator :: gotype

datatype setupCall =
    GetConfigOrDie
  | NewManager managerOptions
  | BuildController controllerSpec
  | CompleteWebhook webhookSpec
  | StartManager

record setupEnv =
  se_answer :: "setupCall list \<Rightarrow> setupCall \<Rightarrow> goerr option"
  se_getenv :: "string \<Rightarrow> string"

definition request :: "setupEnv \<Rightarrow> setupCall \<Rightarrow> (setupCall, goerr option) go" where
  "request S c = issue c (\<lambda>h. se_answer S h c)"

section \<open>Reconcilers\<close>

text \<open>A client reads through the cache of the manager or from the API server.\<close>

datatype reader = CachedClient | APIReader

record Management =
  mg_Client :: reader
  mg_EtcdDialTimeout :: duration
  mg_EtcdCallTimeout :: duration

text \<open>Fields that are nil before the set-up are options; the cache of applied requests and the
  recorder are only there or not.\<close>

record KThreesControlPlaneReconciler =
  kr_Client :: reader
  kr_hasScheme :: bool
  kr_hasController :: bool
  kr_hasRecorder :: bool
  kr_EtcdDialTimeout :: duration
  kr_EtcdCallTimeout :: duration
  kr_managementCluster :: "Management option"
  kr_managementClusterUncached :: "Management option"
  kr_hasSsaCache :: bool

record MachineReconciler =
  mr_Client :: reader
  mr_EtcdDialTimeout :: duration
  mr_EtcdCallTimeout :: duration
  mr_managementCluster :: "Management option"
  mr_managementClusterUncached :: "Management option"

record KThreesConfigReconciler =
  br_Client :: reader
  br_KThreesInitLock :: "reader option"

definition orElse :: "'a option \<Rightarrow> 'a \<Rightarrow> 'a option" where
  "orElse x d = (case x of None \<Rightarrow> Some d | Some y \<Rightarrow> Some y)"

definition kcp_SetupWithManager ::
  "setupEnv \<Rightarrow> int \<Rightarrow> KThreesControlPlaneReconciler \<Rightarrow> (setupCall, KThreesControlPlaneReconciler \<times> goerr option) go" where
  "kcp_SetupWithManager S concurrency r =
     bnd (request S (BuildController \<lparr>cs_For = (''controlplane/v1beta2'', ''KThreesControlPlane''),
            cs_Owns = [(''cluster-api/v1beta2'', ''Machine'')], cs_Watches = [(''cluster-api/v1beta2'', ''Cluster'')],
            cs_MaxConcurrentReconciles = concurrency\<rparr>)) (\<lambda>e. case e of
       Some err \<Rightarrow> ret (r, Some (Wrap ''failed setting up with a controller manager'' err))
     | None \<Rightarrow>
         ret (r\<lparr>kr_hasScheme := True, kr_hasController := True, kr_hasRecorder := True, kr_hasSsaCache := True,
                kr_managementCluster := orElse (kr_managementCluster r)
                  \<lparr>mg_Client = kr_Client r, mg_EtcdDialTimeout = kr_EtcdDialTimeout r, mg_EtcdCallTimeout = kr_EtcdCallTimeout r\<rparr>,
                kr_managementClusterUncached := orElse (kr_managementClusterUncached r)
                  \<lparr>mg_Client = APIReader, mg_EtcdDialTimeout = kr_EtcdDialTimeout r, mg_EtcdCallTimeout = kr_EtcdCallTimeout r\<rparr>\<rparr>,
              None))"

text \<open>Here the error is returned after the fields are set.\<close>

definition machine_SetupWithManager ::
  "setupEnv \<Rightarrow> int \<Rightarrow> MachineReconciler \<Rightarrow> (setupCall, MachineReconciler \<times> goerr option) go" where
  "machine_SetupWithManager S concurrency r =
     bnd (request S (BuildController \<lparr>cs_For = (''cluster-api/v1beta2'', ''Machine''), cs_Owns = [], cs_Watches = [],
            cs_MaxConcurrentReconciles = concurrency\<rparr>)) (\<lambda>err.
     ret (r\<lparr>mr_managementCluster := orElse (mr_managementCluster r)
              \<lparr>mg_Client = mr_Client r, mg_EtcdDialTimeout = mr_EtcdDialTimeout r, mg_EtcdCallTimeout = mr_EtcdCallTimeout r\<rparr>,
            mr_managementClusterUncached := orElse (mr_managementClusterUncached r)
              \<lparr>mg_Client = APIReader, mg_EtcdDialTimeout = mr_EtcdDialTimeout r, mg_EtcdCallTimeout = mr_EtcdCallTimeout r\<rparr>\<rparr>,
          err))"

text \<open>The init lock of a reconciler that has none is made from the client of the manager.\<close>

definition config_SetupWithManager ::
  "setupEnv \<Rightarrow> int \<Rightarrow> KThreesConfigReconciler \<Rightarrow> (setupCall, KThreesConfigReconciler \<times> goerr option) go" where
  "config_SetupWithManager S concurrency r =
     (let r = r\<lparr>br_KThreesInitLock := orElse (br_KThreesInitLock r) CachedClient\<rparr>
      in bnd (request S (BuildController \<lparr>cs_For = (''bootstrap/v1beta2'', ''KThreesConfig''), cs_Owns = [], cs_Watches = [],
            cs_MaxConcurrentReconciles = concurrency\<rparr>)) (\<lambda>err. ret (r, err)))"

definition KThreesConfig_SetupWebhookWithManager :: "setupEnv \<Rightarrow> (setupCall, goerr option) go" where
  "KThreesConfig_SetupWebhookWithManager S =
     (let t = (''bootstrap/v1beta2'', ''KThreesConfig'')
      in request S (CompleteWebhook \<lparr>ws_For = t, ws_Defaulter = t, ws_Validator = t\<rparr>))"

definition KThreesConfigTemplate_SetupWebhookWithManager :: "setupEnv \<Rightarrow> (setupCall, goerr option) go" where
  "KThreesConfigTemplate_SetupWebhookWithManager S =
     (let t = (''bootstrap/v1beta2'', ''KThreesConfigTemplate'')
      in request S (CompleteWebhook \<lparr>ws_For = t, ws_Defaulter = t, ws_Validator = t\<rparr>))"

definition KThreesControlPlane_SetupWebhookWithManager :: "setupEnv \<Rightarrow> (setupCall, goerr option) go" where
  "KThreesControlPlane_SetupWebhookWithManager S =
     (let t = (''controlplane/v1beta2'', ''KThreesControlPlane'')
      in request S (CompleteWebhook \<lparr>ws_For = t, ws_Defaulter = t, ws_Validator = t\<rparr>))"

section \<open>The entry points\<close>

record Flags =
  fl_metricsAddr :: string
  fl_enableLeaderElection :: bool
  fl_syncPeriod :: duration
  fl_etcdDialTimeout :: duration
  fl_etcdCallTimeout :: duration
  fl_concurrencyNumber :: int

definition DefaultCallTimeout :: duration where "DefaultCallTimeout = 15 * Second"

definition defaultFlags :: Flags where
  "defaultFlags = \<lparr>fl_metricsAddr = '':8080'', fl_enableLeaderElection = False, fl_syncPeriod = 10 * Minute,
     fl_etcdDialTimeout = 10 * Second, fl_etcdCallTimeout = DefaultCallTimeout, fl_concurrencyNumber = 1\<rparr>"

text \<open>The result of a process is its exit status; an error of the set-up ends it with status
  one. \<^verbatim>\<open>flag.Parse\<close> is a function of the defaults, \<open>None\<close> when the command line
  is wrong, which ends the process with status two. The bootstrap process has no flags for
  etcd.\<close>

definition orExit :: "(setupCall, goerr option) go \<Rightarrow> (setupCall, int) go \<Rightarrow> (setupCall, int) go" where
  "orExit m continue = bnd m (\<lambda>e. case e of Some err \<Rightarrow> ret 1 | None \<Rightarrow> continue)"

definition start :: "setupEnv \<Rightarrow> (setupCall, int) go" where
  "start S = orExit (request S StartManager) (ret 0)"

definition newKcpReconciler :: "Flags \<Rightarrow> KThreesControlPlaneReconciler" where
  "newKcpReconciler f = \<lparr>kr_Client = CachedClient, kr_hasScheme = True, kr_hasController = False, kr_hasRecorder = False,
     kr_EtcdDialTimeout = fl_etcdDialTimeout f, kr_EtcdCallTimeout = fl_etcdCallTimeout f,
     kr_managementCluster = None, kr_managementClusterUncached = None, kr_hasSsaCache = False\<rparr>"

definition newMachineReconciler :: "Flags \<Rightarrow> MachineReconciler" where
  "newMachineReconciler f = \<lparr>mr_Client = CachedClient, mr_EtcdDialTimeout = fl_etcdDialTimeout f,
     mr_EtcdCallTimeout = fl_etcdCallTimeout f, mr_managementCluster = None, mr_managementClusterUncached = None\<rparr>"

definition newConfigReconciler :: KThreesConfigReconciler where
  "newConfigReconciler = \<lparr>br_Client = CachedClient, br_KThreesInitLock = None\<rparr>"

definition bootstrapOptions :: "Flags \<Rightarrow> managerOptions" where
  "bootstrapOptions f = \<lparr>mo_Scheme = bootstrap_scheme, mo_MetricsBindAddress = fl_metricsAddr f, mo_WebhookPort = 9443,
     mo_LeaderElection = fl_enableLeaderElection f, mo_LeaderElectionID = ''6b2b21b1.k8s.io'', mo_SyncPeriod = fl_syncPeriod f\<rparr>"

definition controlplaneOptions :: "Flags \<Rightarrow> managerOptions" where
  "controlplaneOptions f = \<lparr>mo_Scheme = controlplane_scheme, mo_MetricsBindAddress = fl_metricsAddr f, mo_WebhookPort = 9443,
     mo_LeaderElection = fl_enableLeaderElection f, mo_LeaderElectionID = ''148fa072.controlplane.cluster.x-k8s.io'',
     mo_SyncPeriod = fl_syncPeriod f\<rparr>"

definition webhooksEnabled :: "setupEnv \<Rightarrow> bool" where
  "webhooksEnabled S \<longleftrightarrow> se_getenv S ''ENABLE_WEBHOOKS'' \<noteq> ''false''"

definition bootstrap_main :: "setupEnv \<Rightarrow> (Flags \<Rightarrow> Flags option) \<Rightarrow> (setupCall, int) go" where
  "bootstrap_main S parse =
     (case parse defaultFlags of
        None \<Rightarrow> ret 2
      | Some f \<Rightarrow>
          orExit (request S GetConfigOrDie)
          (orExit (request S (NewManager (bootstrapOptions f)))
          (orExit (bnd (config_SetupWithManager S (fl_concurrencyNumber f) newConfigReconciler) (\<lambda>(_, e). ret e))
          (if webhooksEnabled S
           then orExit (KThreesConfig_SetupWebhookWithManager S)
               (orExit (KThreesConfigTemplate_SetupWebhookWithManager S) (start S))
           else start S))))"

definition controlplane_main :: "setupEnv \<Rightarrow> (Flags \<Rightarrow> Flags option) \<Rightarrow> (setupCall, int) go" where
  "controlplane_main S parse =
     (case parse defaultFlags of
        None \<Rightarrow> ret 2
      | Some f \<Rightarrow>
          orExit (request S GetConfigOrDie)
          (orExit (request S (NewManager (controlplaneOptions f)))
          (orExit (bnd (kcp_SetupWithManager S (fl_concurrencyNumber f) (newKcpReconciler f)) (\<lambda>(_, e). ret e))
          (orExit (bnd (machine_SetupWithManager S (fl_concurrencyNumber f) (newMachineReconciler f)) (\<lambda>(_, e). ret e))
          (if webhooksEnabled S
           then orExit (KThreesControlPlane_SetupWebhookWithManager S) (start S)
           else start S)))))"

section \<open>Properties\<close>

subsection \<open>Schemes\<close>

text \<open>The types the managers handle are known to their schemes, but the generated conversion
  functions are not: they were appended to the copy of the slice.\<close>

lemma conversions_not_in_scheme:
  "kn_conversions bootstrap_scheme = [] \<and> kn_conversions controlplane_scheme = [] \<and>
   sv_localSchemeBuilder bootstrap_v1beta1 = [AddConversions] \<and> sv_localSchemeBuilder controlplane_v1beta1 = [AddConversions]"
  by (simp add: bootstrap_scheme_def controlplane_scheme_def AddToScheme_def addForeign_def runSchemeFn_def
      bootstrap_v1beta1_def bootstrap_v1beta2_def controlplane_v1beta1_def controlplane_v1beta2_def init_conversions_def
      init_KThreesConfig_def init_KThreesConfigTemplate_def init_KThreesControlPlane_def
      init_KThreesControlPlaneTemplate_def SchemeBuilder_Register_def initVars_def)

subsection \<open>Admission\<close>

text \<open>Defaulting accepts its own type only, keeps it, and has nothing left to do the second
  time.\<close>

lemma defaultKThreesControlPlaneSpec_idem:
  "defaultKThreesControlPlaneSpec (defaultKThreesControlPlaneSpec s ns) ns = defaultKThreesControlPlaneSpec s ns"
  by (simp add: defaultKThreesControlPlaneSpec_def Let_def defaultServerConfig_idem)

lemma default_idempotent:
  "KThreesConfig_DefaultObj obj = Inr obj' \<Longrightarrow> KThreesConfig_DefaultObj obj' = Inr obj' \<and> bootType obj' = bootType obj"
  "KThreesControlPlane_DefaultObj p = Inr p' \<Longrightarrow> KThreesControlPlane_DefaultObj p' = Inr p' \<and> planeType p' = planeType p"
proof -
  assume "KThreesConfig_DefaultObj obj = Inr obj'"
  then obtain c where "obj = BKThreesConfig2 c" "obj' = BKThreesConfig2 (KThreesConfig_Default c)"
    by (auto simp: KThreesConfig_DefaultObj_def as_BKThreesConfig2_def split: bootValue.splits)
  then show "KThreesConfig_DefaultObj obj' = Inr obj' \<and> bootType obj' = bootType obj"
    by (simp add: KThreesConfig_DefaultObj_def as_BKThreesConfig2_def KThreesConfig_Default_def defaultServerConfig_idem)
next
  assume "KThreesControlPlane_DefaultObj p = Inr p'"
  then obtain c where "p = PKThreesControlPlane2 c" "p' = PKThreesControlPlane2 (KThreesControlPlane_Default c)"
    by (auto simp: KThreesControlPlane_DefaultObj_def as_PKThreesControlPlane2_def split: planeValue.splits)
  then show "KThreesControlPlane_DefaultObj p' = Inr p' \<and> planeType p' = planeType p"
    by (simp add: KThreesControlPlane_DefaultObj_def as_PKThreesControlPlane2_def KThreesControlPlane_Default_def
        defaultKThreesControlPlaneSpec_idem)
qed

subsection \<open>Reconcilers\<close>

text \<open>After the set-up both views of the management cluster exist, with the time-outs of the
  reconciler; the uncached one reads from the API server.\<close>

lemma machine_wired:
  assumes "machine_SetupWithManager S n (newMachineReconciler f) h = (Some (r, err), h')"
  shows "mr_managementCluster r = Some \<lparr>mg_Client = CachedClient, mg_EtcdDialTimeout = fl_etcdDialTimeout f,
           mg_EtcdCallTimeout = fl_etcdCallTimeout f\<rparr> \<and>
         mr_managementClusterUncached r = Some \<lparr>mg_Client = APIReader, mg_EtcdDialTimeout = fl_etcdDialTimeout f,
           mg_EtcdCallTimeout = fl_etcdCallTimeout f\<rparr>"
  using assms by (auto simp: machine_SetupWithManager_def newMachineReconciler_def request_def orElse_def go_runs)

lemma kcp_wired:
  assumes "kcp_SetupWithManager S n (newKcpReconciler f) h = (Some (r, None), h')"
  shows "kr_managementCluster r = Some \<lparr>mg_Client = CachedClient, mg_EtcdDialTimeout = fl_etcdDialTimeout f,
           mg_EtcdCallTimeout = fl_etcdCallTimeout f\<rparr> \<and>
         kr_managementClusterUncached r = Some \<lparr>mg_Client = APIReader, mg_EtcdDialTimeout = fl_etcdDialTimeout f,
           mg_EtcdCallTimeout = fl_etcdCallTimeout f\<rparr> \<and> kr_hasController r \<and> kr_hasRecorder r \<and> kr_hasSsaCache r"
  using assms by (auto simp: kcp_SetupWithManager_def newKcpReconciler_def request_def orElse_def go_runs split: option.splits)

subsection \<open>Start-up\<close>

text \<open>The specification of a start-up: a sequence of calls, given up with status one at the
  first error.\<close>

fun runPlan :: "setupEnv \<Rightarrow> setupCall list \<Rightarrow> (setupCall, int) go" where
  "runPlan S [] = ret 0"
| "runPlan S (c # cs) = orExit (request S c) (runPlan S cs)"

definition bootstrap_plan :: "setupEnv \<Rightarrow> Flags \<Rightarrow> setupCall list" where
  "bootstrap_plan S f =
     [GetConfigOrDie, NewManager (bootstrapOptions f),
      BuildController \<lparr>cs_For = (''bootstrap/v1beta2'', ''KThreesConfig''), cs_Owns = [], cs_Watches = [],
        cs_MaxConcurrentReconciles = fl_concurrencyNumber f\<rparr>] @
     (if webhooksEnabled S
      then map (\<lambda>k. CompleteWebhook \<lparr>ws_For = (''bootstrap/v1beta2'', k), ws_Defaulter = (''bootstrap/v1beta2'', k),
                     ws_Validator = (''bootstrap/v1beta2'', k)\<rparr>) [''KThreesConfig'', ''KThreesConfigTemplate'']
      else []) @ [StartManager]"

definition controlplane_plan :: "setupEnv \<Rightarrow> Flags \<Rightarrow> setupCall list" where
  "controlplane_plan S f =
     [GetConfigOrDie, NewManager (controlplaneOptions f),
      BuildController \<lparr>cs_For = (''controlplane/v1beta2'', ''KThreesControlPlane''),
        cs_Owns = [(''cluster-api/v1beta2'', ''Machine'')], cs_Watches = [(''cluster-api/v1beta2'', ''Cluster'')],
        cs_MaxConcurrentReconciles = fl_concurrencyNumber f\<rparr>,
      BuildController \<lparr>cs_For = (''cluster-api/v1beta2'', ''Machine''), cs_Owns = [], cs_Watches = [],
        cs_MaxConcurrentReconciles = fl_concurrencyNumber f\<rparr>] @
     (if webhooksEnabled S
      then [CompleteWebhook \<lparr>ws_For = (''controlplane/v1beta2'', ''KThreesControlPlane''),
              ws_Defaulter = (''controlplane/v1beta2'', ''KThreesControlPlane''),
              ws_Validator = (''controlplane/v1beta2'', ''KThreesControlPlane'')\<rparr>]
      else []) @ [StartManager]"

lemma request_ret: "bnd (request S c) ret = request S c"
  by (rule ext) (simp add: request_def go_runs)

lemma config_setup_call:
  "bnd (config_SetupWithManager S n r) (\<lambda>(_, e). ret e) =
     request S (BuildController \<lparr>cs_For = (''bootstrap/v1beta2'', ''KThreesConfig''), cs_Owns = [], cs_Watches = [],
        cs_MaxConcurrentReconciles = n\<rparr>)"
  by (simp add: config_SetupWithManager_def bnd_assoc request_ret Let_def)

lemma machine_setup_call:
  "bnd (machine_SetupWithManager S n r) (\<lambda>(_, e). ret e) =
     request S (BuildController \<lparr>cs_For = (''cluster-api/v1beta2'', ''Machine''), cs_Owns = [], cs_Watches = [],
        cs_MaxConcurrentReconciles = n\<rparr>)"
  by (simp add: machine_SetupWithManager_def bnd_assoc request_ret)

lemma kcp_setup_call:
  "orExit (bnd (kcp_SetupWithManager S n r) (\<lambda>(_, e). ret e)) k =
     orExit (request S (BuildController \<lparr>cs_For = (''controlplane/v1beta2'', ''KThreesControlPlane''),
        cs_Owns = [(''cluster-api/v1beta2'', ''Machine'')], cs_Watches = [(''cluster-api/v1beta2'', ''Cluster'')],
        cs_MaxConcurrentReconciles = n\<rparr>)) k"
  unfolding kcp_SetupWithManager_def orExit_def
  by (rule ext) (simp add: request_def go_runs split: option.split)

lemma bootstrap_main_plan: "parse defaultFlags = Some f \<Longrightarrow> bootstrap_main S parse = runPlan S (bootstrap_plan S f)"
  by (simp add: bootstrap_main_def bootstrap_plan_def config_setup_call start_def
      KThreesConfig_SetupWebhookWithManager_def KThreesConfigTemplate_SetupWebhookWithManager_def Let_def)

lemma controlplane_main_plan: "parse defaultFlags = Some f \<Longrightarrow> controlplane_main S parse = runPlan S (controlplane_plan S f)"
  by (simp add: controlplane_main_def controlplane_plan_def kcp_setup_call machine_setup_call start_def
      KThreesControlPlane_SetupWebhookWithManager_def Let_def)

text \<open>The status and the calls of a run: the calls are the first ones of the plan, all but the
  last succeeded, and the status tells whether the last one did and was the last of the
  plan.\<close>

definition follows :: "setupEnv \<Rightarrow> setupCall list \<Rightarrow> int option \<times> setupCall list \<Rightarrow> bool" where
  "follows S plan out \<longleftrightarrow>
     (\<exists>k \<le> length plan. snd out = take k plan \<and>
        (\<forall>i. i + 1 < k \<longrightarrow> se_answer S (take i plan) (plan ! i) = None) \<and>
        (if fst out = Some 0 then k = length plan \<and> (\<forall>i<k. se_answer S (take i plan) (plan ! i) = None)
         else fst out = Some 1 \<and> 0 < k \<and> se_answer S (take (k - 1) plan) (plan ! (k - 1)) \<noteq> None))"

lemma runPlan_from:
  assumes "pre @ cs = plan" "\<forall>i < length pre. se_answer S (take i plan) (plan ! i) = None"
  shows "follows S plan (runPlan S cs pre)"
  using assms
proof (induction cs arbitrary: pre)
  case Nil
  then show ?case unfolding follows_def by (intro exI[of _ "length plan"]) (auto simp: ret_def)
next
  case (Cons c cs)
  have c: "plan ! length pre = c" "take (length pre) plan = pre" "length pre < length plan"
    using Cons.prems(1) by auto
  show ?case
  proof (cases "se_answer S pre c")
    case None
    have "follows S plan (runPlan S cs (pre @ [c]))"
    proof (rule Cons.IH)
      show "\<forall>i<length (pre @ [c]). se_answer S (take i plan) (plan ! i) = None"
        using Cons.prems(2) c None by (auto simp: less_Suc_eq)
    qed (use Cons.prems(1) in simp)
    with None show ?thesis by (simp add: orExit_def request_def go_runs)
  next
    case (Some err)
    have "take (Suc (length pre)) plan = pre @ [c]" using c by (simp add: take_Suc_conv_app_nth)
    with Some c Cons.prems(2) show ?thesis
      unfolding follows_def by (intro exI[of _ "Suc (length pre)"]) (auto simp: orExit_def request_def go_runs)
  qed
qed

text \<open>No process serves with a part of its set-up missing: the manager is started after the
  configuration was loaded, the manager was made and every controller and webhook was
  attached, in this order; any error ends the process with status one and no further call.\<close>

lemma processes_follow_plan:
  assumes "parse defaultFlags = Some f"
  shows "follows S (bootstrap_plan S f) (bootstrap_main S parse []) \<and>
    follows S (controlplane_plan S f) (controlplane_main S parse [])"
  using assms runPlan_from[of "[]"] by (simp add: bootstrap_main_plan controlplane_main_plan)

end
