(* ===== verification/Spec2Isabelle.thy ===== *)
theory Spec2Isabelle
  imports Sample ScaleResults SecretResults BootstrapResults ClusterResults Lifecycle ConversionResults
    ReplicaResults LockRefinement EtcdProxy CoreDNS Accessors CopyResults NotesResults Convergence Managers
begin

text \<open>
  A model of the Cluster API bootstrap and control plane providers for k3s
  (\<^verbatim>\<open>cluster-api-k3s\<close>, Go) and the theorems about it.

  \<^bold>\<open>The program.\<close> Two managers run side by side in a management cluster. The bootstrap
  provider turns a KThreesConfig into a cloud-init document in a secret
  (\<^verbatim>\<open>bootstrap/\<close>, with \<^verbatim>\<open>pkg/k3s\<close>, \<^verbatim>\<open>pkg/cloudinit\<close>, \<^verbatim>\<open>pkg/locking\<close>). The control plane
  provider keeps the machines of a KThreesControlPlane at the desired number and version,
  replaces unhealthy ones, and keeps etcd and the status up to date
  (\<^verbatim>\<open>controlplane/\<close>, with \<^verbatim>\<open>pkg/k3s\<close>, \<^verbatim>\<open>pkg/etcd\<close>, \<^verbatim>\<open>pkg/machinefilters\<close>,
  \<^verbatim>\<open>pkg/util\<close>). Both share the secrets of a cluster: certificates, token, kubeconfig
  (\<^verbatim>\<open>pkg/secret\<close>, \<^verbatim>\<open>pkg/token\<close>, \<^verbatim>\<open>pkg/kubeconfig\<close>). They keep no state of their own but
  caches: all state is in objects of the API server and in etcd, and others change it too.

  \<^bold>\<open>State and effects.\<close> A computation of type \<open>(call, 'a) go\<close> (theory \<open>Prelude\<close>)
  takes the history of the calls issued so far and returns the longer history with a result,
  or \<open>None\<close> for a run-time panic. The answers are given by an environment, a record
  of functions of the history and the call (\<open>env\<close>, theory \<open>Client\<close>). A theorem that
  holds for every environment therefore holds for every interleaving with other clients of
  the API server and for every pattern of failures. Objects passed by pointer are returned
  updated. Errors are values of \<open>goerr + 'a\<close>; the difference between nil and empty slices
  and maps is kept; integers of the API types are words of their width. Loops of the code
  are over slices and are folds or structural recursion, so no fuel is needed; the one
  unbounded computation, the execution of a Go template, is written out for the fixed
  templates. The libraries the code calls but does not contain (Cluster API's collections,
  conditions, owner utilities and patch helpers, JSON, YAML, x509) are records of
  parameters: \<open>lib\<close>, \<open>hashLib\<close>, \<open>kubeLib\<close>, \<open>tokenLib\<close>, \<open>ssaLib\<close>, \<open>nested\<close>,
  \<open>lockLib\<close>, \<open>bootLib\<close>, \<open>contractLib\<close>, \<open>machineLib\<close>, \<open>kcpLib\<close>, \<open>convLib\<close>, \<open>dialLib\<close>,
  \<open>dnsLib\<close>, \<open>notesEnv\<close>. What is assumed of them is stated as named laws where a theorem needs
  it; theory \<open>Sample\<close> and the \<open>...Results\<close> theories have instances that satisfy the laws, for
  the witnesses.

  \<^bold>\<open>Theories.\<close>
  \<^item> \<open>Prelude\<close>: Go values, strings, the monad, and the calculus of the proofs: \<open>emits\<close>
    (which calls can be issued), \<open>bounded\<close> (how often), \<open>keeps\<close>/\<open>justified\<close> (at which
    histories a kind of call is issued), \<open>returns\<close> and \<open>nopanic\<close>.
  \<^item> \<open>ApiTypes\<close>: \<^verbatim>\<open>bootstrap/api/v1beta2\<close>, \<^verbatim>\<open>controlplane/api/v1beta2\<close>, webhooks.
    \<open>Conversion\<close>: the v1beta1 types of both groups and their conversion;
    \<open>ConversionRegistry\<close>: the generated \<^verbatim>\<open>RegisterConversions\<close>.
  \<^item> \<open>DeepCopy\<close>, \<open>DeepCopyBootstrap\<close>, \<open>DeepCopyControlPlane\<close>: the four generated
    \<^verbatim>\<open>zz_generated.deepcopy.go\<close>, on values with the addresses of their memory.
  \<^item> \<open>Managers\<close>: \<^verbatim>\<open>bootstrap/main.go\<close>, \<^verbatim>\<open>controlplane/main.go\<close>, the schemes, the set-up
    of reconcilers and webhooks.
  \<^item> \<open>Client\<close>: calls, environment, library parameters and their laws.
  \<^item> \<open>ControlPlane\<close>: \<^verbatim>\<open>pkg/k3s/control_plane.go\<close>, \<^verbatim>\<open>pkg/machinefilters\<close>.
  \<^item> \<open>EtcdMembers\<close>: \<^verbatim>\<open>pkg/etcd\<close>, \<^verbatim>\<open>pkg/etcd/util\<close>, \<^verbatim>\<open>pkg/k3s/etcd_client_generator.go\<close>;
    \<open>EtcdProxy\<close>: \<^verbatim>\<open>pkg/proxy\<close>, the dialer below the client, with an environment of its own.
  \<^item> \<open>WorkloadCluster\<close>: \<^verbatim>\<open>pkg/k3s/workload_cluster.go\<close>,
    \<^verbatim>\<open>workload_cluster_etcd.go\<close>, \<^verbatim>\<open>management_cluster.go\<close>.
    \<open>CoreDNS\<close>: \<^verbatim>\<open>workload_cluster_coredns.go\<close>.
  \<^item> \<open>Remediation\<close>, \<open>Scale\<close>, \<open>KcpController\<close>, \<open>MachineController\<close>: the files of
    \<^verbatim>\<open>controlplane/controllers\<close>; \<open>Ssa\<close>: \<^verbatim>\<open>pkg/util/ssa\<close>, \<^verbatim>\<open>pkg/util/hash\<close>, the paths of
    \<^verbatim>\<open>pkg/util/contract\<close>; \<open>Accessors\<close>: its typed accessors, the matchers of \<^verbatim>\<open>pkg/util/ssa\<close>;
    \<open>ContractVersion\<close>: \<^verbatim>\<open>pkg/contract/version.go\<close>.
  \<^item> \<open>Certificates\<close>, \<open>Token\<close>, \<open>Kubeconfig\<close>: \<^verbatim>\<open>pkg/secret\<close>, \<^verbatim>\<open>pkg/token\<close>,
    \<^verbatim>\<open>pkg/kubeconfig\<close>.
  \<^item> \<open>InitLock\<close>, \<open>K3sConfig\<close>, \<open>CloudInit\<close>, \<open>Bootstrap\<close>: the bootstrap provider,
    \<^verbatim>\<open>pkg/locking\<close>, \<^verbatim>\<open>pkg/k3s/config.go\<close>, \<^verbatim>\<open>pkg/cloudinit\<close>,
    \<^verbatim>\<open>bootstrap/controllers\<close>.
  \<^item> \<open>ReleaseNotes\<close>: \<^verbatim>\<open>hack/tools/release/notes.go\<close>.
  \<^item> \<open>HookedDeletion\<close>, \<open>Lifecycle\<close>: the protocol of the pre-terminate hook across both
    controllers, Cluster API and the API server: first what one pass guarantees, then a step
    relation (\<open>effect\<close>, \<open>happens\<close>, \<open>reached\<close>) in which the calls of the passes of one machine
    interleave with the other parties.
  \<^item> \<open>KcpLemmas\<close>, \<open>Convergence\<close> and the theories named \<open>...Results\<close>: lemmas and properties of the
    composed controllers. The numbered properties are spread over this theory and those.

  \<^bold>\<open>Interfaces.\<close> Locales state what one component relies on of another, and are
  interpreted on the definitions of the model: \<open>init_locker\<close> (theory \<open>InitLock\<close>), the lock
  as the bootstrap reconciler uses it, on the config map mutex; \<open>etcd_client_for\<close>
  (\<open>EtcdMembers\<close>), the source of etcd clients of the workload cluster, on the generator;
  \<open>ssa_cache\<close> (\<open>Ssa\<close>), the cache of applied requests, on its implementation;
  \<open>hooking_passes\<close> and \<open>releasing_passes\<close> (\<open>Lifecycle\<close>), what a controller that deletes
  machines and one that releases the hook promise, on the calls of \<open>kcp_Reconcile\<close> and of
  \<open>machine_Reconcile\<close>, and \<open>hook_protocol\<close>, which extends both, on the two together.

  \<^bold>\<open>What the lemmas show.\<close>
  \<^item> Destructive calls are guarded, in every environment: a machine, an etcd member, a hook or
    a finalizer goes only where the code's guards hold (\<open>remediation_deletes_justified\<close>,
    \<open>scale_down_guarded\<close>, \<open>hook_released_after_member\<close>, \<open>deletion_waits_for_workers\<close>,
    \<open>finalizer_removed_last\<close>, \<open>etcd_removals_justified\<close>), and nothing is written before the
    gates of a reconciliation (\<open>writes_gated\<close>).
  \<^item> Across controllers: however the calls of their passes interleave, a machine that was not
    deleted unprotected is gone only after its etcd member was settled (\<open>gone_after_member\<close>), by
    the answers to the requests of the very pass that released it, about the machine and the
    cluster that pass read (\<open>releaseJustified\<close>); every
    deletion of a pass over an initialized control plane with an etcd CA is protected
    (\<open>kcp_Reconcile_protected\<close>).
  \<^item> One change per pass: \<open>one_change_per_pass\<close>, \<open>remediation_at_most_one\<close>; the number of
    machines follows an abstract replica controller (\<open>replicas_refine\<close>); a creation that fails
    is cleaned up (\<open>creation_all_or_nothing\<close>).
  \<^item> Progress: passes that may be lost, fail or wait, but meet a friendly state again and again
    whose requests are granted, bring the control plane to the desired number of up-to-date
    machines, and it stays there (\<open>scaling_converges\<close>; the assumptions are \<open>friendly\<close>,
    \<open>evolves\<close> and \<open>granted\<close>, the measure is \<open>rank\<close>);
    \<open>not_ready_requeued\<close> (with the exact errors of a pass), \<open>scale_up_waits\<close>,
    \<open>bootstrap_ready_or_again\<close>, \<open>bootstrap_nopanic\<close>; the status reports the machines that were
    listed and the nodes the workload cluster answered with (\<open>status_truthful\<close>).
  \<^item> The init lock: exclusive as long as nobody recovers it (\<open>init_lock_exclusive\<close>,
    \<open>init_under_lock\<close>), so that one machine at most initializes a cluster (\<open>single_init\<close>),
    a refinement of an abstract lock (\<open>init_lock_refines\<close>), and a run in
    which recovery breaks it (\<open>init_lock_race\<close>).
  \<^item> Secrets, certificates, token and kubeconfig: theory \<open>SecretResults\<close>; the certificates of a
    control plane are complete, and so are their files (\<open>certificates_complete\<close>).
  \<^item> Conversion: \<open>conversion_round_trip\<close>, \<open>v1beta1_meaning\<close>, an edit that is lost
    (\<open>v1beta1_edit_lost\<close>), and the registry (\<open>conversions_registered\<close>). Deep copies share no
    memory with the original (\<open>deepcopy_detached\<close>). Connections: \<open>dial_no_leak\<close>.
  \<^item> The release notes do not depend on the order in which the workers deliver
    (\<open>notes_order_irrelevant\<close>); a process starts its manager last (\<open>processes_follow_plan\<close>).
  \<^item> Pure functions against a reference: quorum, retry limits, choice of machines, filtered
    intents, secret names, indentation, contract versions.

  \<^bold>\<open>Not modelled.\<close> Logging, events, metrics, contexts and time-outs (a time-out is an error
  answer). Keys, random numbers and signatures are calls the environment answers; parsing and
  encoding of certificates, JSON and YAML are parameters, as is the text the spew library
  prints for a hash. The controllers treat objects as values, so sharing of slices and maps
  between an object and its copies is not seen there, except where a comment at the
  definition says how it is treated. Texts of error messages leave out the values formatted
  into them where nothing depends on them. What a scheme and a manager of controller-runtime
  do beyond their answers to the set-up; constants of v1beta1 that nothing uses; the fake etcd
  client and the end-to-end tests. Workers of one process share only caches and mutexes; their
  interleaving is covered by the arbitrary environment, one reconciliation at a time, and
  call by call in \<open>Lifecycle\<close>, \<open>LockRefinement\<close> and the lemmas about the init lock.
\<close>

section \<open>Remediation\<close>




text \<open>One call of \<open>reconcileUnhealthyMachines\<close> deletes at most one machine, whatever the
  API servers and etcd answer.\<close>

theorem remediation_at_most_one:
  "\<exists>cs. snd (reconcileUnhealthyMachines E L cp h) = h @ cs \<and> length (filter is_delete_machine cs) \<le> 1"
  using reconcileUnhealthyMachines_bounded[of E L cp] unfolding bounded_def by simp


text \<open>C20. Permission to remediate a machine that replaced an unhealthy one: either the minimum
  healthy period since the last remediation has passed and the retry count restarts from 0,
  or the retry period has passed, the count grows by one and stays within \<open>MaxRetry\<close>. The
  data name the machine remediated now.\<close>

theorem retry_limits:
  assumes "checkRetryLimits L s t = (s', Inr (d, True))"
    and "mget (ma_Annotations (snd s)) RemediationForAnnotation = Some v"
    and "RemediationDataFromAnnotation L v = Inr l" "rd_Timestamp l \<noteq> 0"
  shows "s' = s \<and> rd_Machine d = ma_Name (snd s) \<and> rd_Timestamp d = t \<and>
     ((addDuration (rd_Timestamp l) (minHealthyPeriodOf (cp_KCP (fst s))) \<le> t \<and> rd_RetryCount d = 0) \<or>
      (t < addDuration (rd_Timestamp l) (minHealthyPeriodOf (cp_KCP (fst s))) \<and>
       addDuration (rd_Timestamp l) (retryPeriodOf (cp_KCP (fst s))) \<le> t \<and>
       rd_RetryCount d = rd_RetryCount l + 1 \<and>
       (case ps_RemediationStrategy (kp_Spec (cp_KCP (fst s))) of None \<Rightarrow> True
        | Some rs \<Rightarrow> (case rs_MaxRetry rs of None \<Rightarrow> True | Some mr \<Rightarrow> sint (rd_RetryCount d) \<le> sint mr))))"
  using checkRetryLimits_allowed[OF assms] by (auto split: option.split)

definition replacement :: Machine where
  "replacement = ma_setAnnotations (machine0 ''m2'' None [])
     (Some [RemediationForAnnotation \<mapsto> ticks 3600 @ ticks 1 @ ''m1''])"

theorem retry_limits_witness:
  "\<exists>d. checkRetryLimits L0 (cp0 [replacement], replacement) 3601000000000 = ((cp0 [replacement], replacement), Inr (d, True)) \<and>
       rd_RetryCount d = 2"
proof -
  let ?s = "(cp0 [replacement], replacement)"
  have v: "mget (ma_Annotations (snd ?s)) RemediationForAnnotation = Some (ticks 3600 @ ticks 1 @ ''m1'')"
    by (simp add: replacement_def ma_Annotations_def ma_setAnnotations_def)
  have l: "RemediationDataFromAnnotation L0 (ticks 3600 @ ticks 1 @ ''m1'') =
      Inr \<lparr>rd_Machine = ''m1'', rd_Timestamp = 3600000000000, rd_RetryCount = 1\<rparr>"
    by (simp add: RemediationDataFromAnnotation_def L0_def decodeRem_def untick_ticks)
  have p: "minHealthyPeriodOf (cp_KCP (cp0 ms)) = 3600000000000" "retryPeriodOf (cp_KCP (cp0 ms)) = 0" for ms
    by (simp_all add: minHealthyPeriodOf_def retryPeriodOf_def cp0_def kcp0_def DefaultMinHealthyPeriod_def)
  obtain s' d where run: "checkRetryLimits L0 ?s 3601000000000 = (s', Inr (d, True))"
    using v l p by (simp add: checkRetryLimits_def Let_def addDuration_def cp0_def kcp0_def)
  show ?thesis
    using retry_limits[OF run v l] run p by (auto simp: addDuration_def)
qed

end
